(* ===== verification/Prelude.thy ===== *)
theory Prelude
  imports Main "HOL-Library.Char_ord" "HOL-Library.List_Lexorder" "HOL-Library.Product_Lexorder"
begin

text \<open>
  Shared vocabulary of the development.

  \<^item> Python values: truthiness of optional strings, \<open>str\<close>, \<open>startswith\<close>, \<open>replace\<close>.
  \<^item> Errors: every exception the modelled code raises or catches is a value of \<open>error\<close>.
  \<^item> Computations: \<open>('s, 'a) comp\<close> is code that reads and writes a state \<open>'s\<close> and returns a
    value or raises; a raise keeps the effects made so far, as Python does. The same type is
    used for one database transaction (state: the tables) and for a whole worker
    (state: a \<open>run\<close>).
  \<^item> Workers: \<open>call\<close> runs one transaction or external call as an atomic step of a worker.
    Before the step any other actor may change the shared state (\<open>interfere\<close>), and the step
    may fail before or after taking effect (\<open>fault\<close>); the error \<open>Killed\<close> stands for the
    process dying at that point, so that no handler and no \<open>finally\<close> block runs.
  \<^item> Tables: SQL \<open>UPDATE .. WHERE\<close> and \<open>SELECT\<close> on a list of rows.
  \<^item> \<open>keeps R m\<close>: the state after \<open>m\<close> is related by \<open>R\<close> to the state before it. The
    locale \<open>step_relation\<close> proves, for any preorder \<open>R\<close>, that the control structures of the
    code keep \<open>keeps\<close>.
\<close>

named_theorems table_simps \<open>rewrite rules for SQL-style tables\<close>
named_theorems comp_simps \<open>unfolding rules of the computation combinators\<close>

section \<open>Python values\<close>

text \<open>\<open>if x\<close> for a value that is \<open>None\<close> or a string.\<close>

definition truthy :: "string option \<Rightarrow> bool" where
  "truthy x = (case x of None \<Rightarrow> False | Some s \<Rightarrow> s \<noteq> [])"

lemma truthy_simps [simp]:
  "truthy None = False"
  "truthy (Some s) = (s \<noteq> [])"
  by (simp_all add: truthy_def)

lemma truthyE:
  assumes "truthy x"
  obtains s where "x = Some s" and "s \<noteq> []"
  using assms by (auto simp: truthy_def split: option.splits)

text \<open>\<open>str(x)\<close> for an optional string.\<close>

definition py_str :: "string option \<Rightarrow> string" where
  "py_str x = (case x of None \<Rightarrow> ''None'' | Some s \<Rightarrow> s)"

lemma py_str_simps [simp]:
  "py_str None = ''None''"
  "py_str (Some s) = s"
  by (simp_all add: py_str_def)

definition starts_with :: "string \<Rightarrow> string \<Rightarrow> bool" where
  "starts_with p s = (take (length p) s = p)"

lemma starts_with_append [simp]: "starts_with p (p @ s)"
  by (simp add: starts_with_def)

lemma starts_withE:
  assumes "starts_with p s"
  obtains t where "s = p @ t"
  using assms unfolding starts_with_def by (metis append_take_drop_id)

text \<open>\<open>s.replace(p, q)\<close> for a nonempty pattern: left to right, without overlaps.\<close>

fun replace_all :: "string \<Rightarrow> string \<Rightarrow> string \<Rightarrow> string" where
  "replace_all p q [] = []"
| "replace_all p q (c # cs) =
     (if p \<noteq> [] \<and> starts_with p (c # cs)
      then q @ replace_all p q (drop (length p - 1) cs)
      else c # replace_all p q cs)"

text \<open>\<open>str.strip()\<close> for characters below 256, and the test that it leaves nothing.\<close>

definition py_space :: "char \<Rightarrow> bool" where
  "py_space c = (let n = (of_char c :: nat) in (9 \<le> n \<and> n \<le> 13) \<or> (28 \<le> n \<and> n \<le> 32) \<or> n = 133 \<or> n = 160)"

definition blank :: "string \<Rightarrow> bool" where
  "blank s = list_all py_space s"

definition py_strip :: "string \<Rightarrow> string" where
  "py_strip s = rev (dropWhile py_space (rev (dropWhile py_space s)))"

lemma py_strip_empty: "py_strip s = [] \<longleftrightarrow> blank s"
proof
  assume "py_strip s = []"
  then have left: "\<forall>c \<in> set (dropWhile py_space s). py_space c" by (simp add: py_strip_def dropWhile_eq_Nil_conv)
  have "dropWhile py_space s = []"
  proof (rule ccontr)
    assume ne: "dropWhile py_space s \<noteq> []"
    then have "\<not> py_space (hd (dropWhile py_space s))" by (rule hd_dropWhile)
    with left ne show False by simp
  qed
  then show "blank s" by (simp add: blank_def dropWhile_eq_Nil_conv list_all_iff)
qed (auto simp: blank_def py_strip_def list_all_iff dropWhile_eq_Nil_conv dest: set_dropWhileD)

text \<open>\<open>s.rstrip("/")\<close>\<close>

definition rstrip_slash :: "string \<Rightarrow> string" where
  "rstrip_slash s = rev (dropWhile (\<lambda>c. c = CHR ''/'') (rev s))"

lemma rstrip_slash_idem [simp]: "rstrip_slash (rstrip_slash s) = rstrip_slash s"
  by (simp add: rstrip_slash_def dropWhile_idem)

section \<open>Errors\<close>

datatype error =
    LostSchedulerClaim string
  | SchedulerBusy string
  | ValueError string
  | KeyError string
  | RuntimeError string
  | AssertionError
  | UniqueViolation
  | CheckViolation
  | SerializationFailure
  | ControllerIdentityConflict string
  | PushConfigConflict string
  | BindingConflict string
  | DefinitiveProviderError string
  | ProviderError string
  | PolicyError string
  | TimeoutError
  | ObjectNotFound string
  | InvalidParams string
  | TaskNotFound
  | ExternalError string
  | ControllerProfileError string
  | DefinitiveA2ARequestError string
  | AmbiguousA2ATransportError string
  | RetryableControlPlaneError string
  | RetryablePushSetupError string
  | RetryableDeliveryError string
  | TypeError string
  | AttributeError string
  | LockError string
  | SlackUserError string
  | SmokeFailure string string
  | LiveError string
  | KeyboardInterrupt
  | CalledProcessError int
  | TimeoutExpired
  | OSError string
  | PushNotificationNotSupported
  | ExtendedAgentCardNotConfigured
  | Killed

section \<open>Computations with state and exceptions\<close>

type_synonym ('s, 'a) comp = "'s \<Rightarrow> (error + 'a) \<times> 's"

definition ret :: "'a \<Rightarrow> ('s, 'a) comp" where
  "ret x = (\<lambda>s. (Inr x, s))"

definition raise_err :: "error \<Rightarrow> ('s, 'a) comp" where
  "raise_err e = (\<lambda>s. (Inl e, s))"

definition bnd :: "('s, 'a) comp \<Rightarrow> ('a \<Rightarrow> ('s, 'b) comp) \<Rightarrow> ('s, 'b) comp" where
  "bnd m f = (\<lambda>s. case m s of (Inl e, s') \<Rightarrow> (Inl e, s') | (Inr x, s') \<Rightarrow> f x s')"

text \<open>A value that the code computes without touching any state.\<close>

definition lift_sum :: "error + 'a \<Rightarrow> ('s, 'a) comp" where
  "lift_sum x = (case x of Inl e \<Rightarrow> raise_err e | Inr v \<Rightarrow> ret v)"

text \<open>
  \<open>try: m; except ..\<close>: the handler returns \<open>None\<close> for an exception it does not catch.
\<close>

definition try_except :: "('s, 'a) comp \<Rightarrow> (error \<Rightarrow> ('s, 'a) comp option) \<Rightarrow> ('s, 'a) comp" where
  "try_except m h = (\<lambda>s. case m s of
       (Inl e, s') \<Rightarrow> (case h e of None \<Rightarrow> (Inl e, s') | Some k \<Rightarrow> k s')
     | (Inr x, s') \<Rightarrow> (Inr x, s'))"

text \<open>\<open>except Exception as e\<close>: everything but the death of the process.\<close>

definition except_exception :: "(error \<Rightarrow> ('s, 'a) comp) \<Rightarrow> error \<Rightarrow> ('s, 'a) comp option" where
  "except_exception h e = (if e = Killed then None else Some (h e))"

text \<open>\<open>try: m; finally: k\<close>: an exception of the final block replaces the outcome of the body.\<close>

definition try_finally :: "('s, 'a) comp \<Rightarrow> ('s, unit) comp \<Rightarrow> ('s, 'a) comp" where
  "try_finally m k = (\<lambda>s. case m s of
       (r, s') \<Rightarrow> if r = Inl Killed then (Inl Killed, s')
                 else (case k s' of (Inl e, s'') \<Rightarrow> (Inl e, s'') | (Inr _, s'') \<Rightarrow> (r, s'')))"

definition when_m :: "bool \<Rightarrow> ('s, unit) comp \<Rightarrow> ('s, unit) comp" where
  "when_m b m = (if b then m else ret ())"

text \<open>
  \<open>for x in xs: body\<close> where the body may leave the enclosing function: \<open>Some r\<close> is
  \<open>return r\<close>, \<open>None\<close> goes on with the next element (\<open>continue\<close> included).
\<close>

fun for_ret :: "'x list \<Rightarrow> ('x \<Rightarrow> ('s, 'r option) comp) \<Rightarrow> ('s, 'r option) comp" where
  "for_ret [] body = ret None"
| "for_ret (x # xs) body =
     bnd (body x) (\<lambda>r. case r of Some v \<Rightarrow> ret (Some v) | None \<Rightarrow> for_ret xs body)"

fun for_m :: "'x list \<Rightarrow> ('x \<Rightarrow> ('s, unit) comp) \<Rightarrow> ('s, unit) comp" where
  "for_m [] body = ret ()"
| "for_m (x # xs) body = bnd (body x) (\<lambda>_. for_m xs body)"

fun map_m :: "('x \<Rightarrow> ('s, 'y) comp) \<Rightarrow> 'x list \<Rightarrow> ('s, 'y list) comp" where
  "map_m f [] = ret []"
| "map_m f (x # xs) = bnd (f x) (\<lambda>y. bnd (map_m f xs) (\<lambda>ys. ret (y # ys)))"

text \<open>A transaction: \<open>with connect(..)\<close> rolls back when the block raises.\<close>

definition transaction :: "('s, 'a) comp \<Rightarrow> ('s, 'a) comp" where
  "transaction m = (\<lambda>s. case m s of (Inl e, _) \<Rightarrow> (Inl e, s) | (Inr x, s') \<Rightarrow> (Inr x, s'))"

lemmas comp_defs = ret_def raise_err_def bnd_def try_except_def except_exception_def
  try_finally_def when_m_def transaction_def

lemma bnd_ret [simp]: "bnd (ret x) f = f x"
  by (simp add: bnd_def ret_def)

lemma bnd_raise [simp]: "bnd (raise_err e) f = raise_err e"
  by (simp add: bnd_def raise_err_def)

lemma bnd_Inr: "bnd m f s = (Inr y, t) \<longleftrightarrow> (\<exists>x u. m s = (Inr x, u) \<and> f x u = (Inr y, t))"
  by (auto simp: bnd_def split: prod.splits sum.splits)

lemma lift_sum_Inr: "lift_sum x s = (Inr v, t) \<longleftrightarrow> x = Inr v \<and> s = t"
  by (cases x) (auto simp: lift_sum_def raise_err_def ret_def)

lemma bnd_assoc: "bnd (bnd m f) g = bnd m (\<lambda>x. bnd (f x) g)"
  by (rule ext) (simp add: bnd_def split: prod.splits sum.splits)

lemma ret_apply [comp_simps]: "ret x s = (Inr x, s)"
  by (simp add: ret_def)

lemma raise_apply [comp_simps]: "raise_err e s = (Inl e, s)"
  by (simp add: raise_err_def)

lemma transaction_error_keeps_state: "transaction m s = (Inl e, s') \<Longrightarrow> s' = s"
  by (auto simp: transaction_def split: prod.splits sum.splits)

section \<open>Relations that hold across a computation\<close>

definition keeps :: "('s \<Rightarrow> 's \<Rightarrow> bool) \<Rightarrow> ('s, 'a) comp \<Rightarrow> bool" where
  "keeps R m = (\<forall>s. R s (snd (m s)))"

lemma keepsI: "(\<And>s. R s (snd (m s))) \<Longrightarrow> keeps R m"
  by (simp add: keeps_def)

lemma keepsD: "keeps R m \<Longrightarrow> R s (snd (m s))"
  by (simp add: keeps_def)

lemma keeps_run: "keeps R m \<Longrightarrow> m s = (r, s') \<Longrightarrow> R s s'"
  by (metis keepsD snd_conv)

lemma keeps_if: "keeps R m \<Longrightarrow> keeps R k \<Longrightarrow> keeps R (if b then m else k)"
  by simp

locale step_relation =
  fixes R :: "'s \<Rightarrow> 's \<Rightarrow> bool"
  assumes step_refl: "R s s"
    and step_trans: "R s t \<Longrightarrow> R t u \<Longrightarrow> R s u"
begin

lemma keeps_ret: "keeps R (ret x)"
  by (rule keepsI) (simp add: ret_def step_refl)

lemma keeps_raise: "keeps R (raise_err e)"
  by (rule keepsI) (simp add: raise_err_def step_refl)

lemma keeps_lift: "keeps R (lift_sum x)"
  by (cases x) (simp_all add: lift_sum_def keeps_ret keeps_raise)

lemma keeps_bnd:
  assumes m: "keeps R m" and f: "\<And>x. keeps R (f x)"
  shows "keeps R (bnd m f)"
proof (rule keepsI)
  fix s
  obtain r s' where ms: "m s = (r, s')" by fastforce
  have first: "R s s'" using keeps_run [OF m ms] .
  show "R s (snd (bnd m f s))"
  proof (cases r)
    case (Inl e)
    with ms first show ?thesis by (simp add: bnd_def)
  next
    case (Inr x)
    from f have "R s' (snd (f x s'))" by (rule keepsD)
    with first have "R s (snd (f x s'))" by (rule step_trans)
    with ms Inr show ?thesis by (simp add: bnd_def)
  qed
qed

lemma keeps_try_except:
  assumes m: "keeps R m" and h: "\<And>e k. h e = Some k \<Longrightarrow> keeps R k"
  shows "keeps R (try_except m h)"
proof (rule keepsI)
  fix s
  obtain r s' where ms: "m s = (r, s')" by fastforce
  have first: "R s s'" using keeps_run [OF m ms] .
  show "R s (snd (try_except m h s))"
  proof (cases r)
    case (Inl e)
    show ?thesis
    proof (cases "h e")
      case None
      with ms Inl first show ?thesis by (simp add: try_except_def)
    next
      case (Some k)
      from h [OF Some] have "R s' (snd (k s'))" by (rule keepsD)
      with first have "R s (snd (k s'))" by (rule step_trans)
      with ms Inl Some show ?thesis by (simp add: try_except_def)
    qed
  next
    case (Inr x)
    with ms first show ?thesis by (simp add: try_except_def)
  qed
qed

lemma keeps_try_except_exception:
  assumes "keeps R m" and "\<And>e. keeps R (h e)"
  shows "keeps R (try_except m (except_exception h))"
  using assms by (intro keeps_try_except) (auto simp: except_exception_def split: if_splits)

lemma keeps_try_finally:
  assumes m: "keeps R m" and k: "keeps R k"
  shows "keeps R (try_finally m k)"
proof (rule keepsI)
  fix s
  obtain r s' where ms: "m s = (r, s')" by fastforce
  obtain q s'' where ks: "k s' = (q, s'')" by fastforce
  have "R s s'" using keeps_run [OF m ms] .
  moreover have "R s' s''" using keeps_run [OF k ks] .
  ultimately show "R s (snd (try_finally m k s))"
    by (auto simp: try_finally_def ms ks split: sum.splits intro: step_trans)
qed

lemma keeps_when: "keeps R m \<Longrightarrow> keeps R (when_m b m)"
  by (simp add: when_m_def keeps_ret)

lemma keeps_for_ret:
  assumes "\<And>x. x \<in> set xs \<Longrightarrow> keeps R (body x)"
  shows "keeps R (for_ret xs body)"
  using assms
  by (induction xs) (auto intro!: keeps_ret keeps_bnd split: option.splits)

lemma keeps_for_m:
  assumes "\<And>x. x \<in> set xs \<Longrightarrow> keeps R (body x)"
  shows "keeps R (for_m xs body)"
  using assms by (induction xs) (auto intro!: keeps_ret keeps_bnd)

lemma keeps_map_m:
  assumes "\<And>x. x \<in> set xs \<Longrightarrow> keeps R (f x)"
  shows "keeps R (map_m f xs)"
  using assms by (induction xs) (auto intro!: keeps_ret keeps_bnd)

lemma keeps_transaction: "keeps R m \<Longrightarrow> keeps R (transaction m)"
  by (rule keepsI)
     (auto simp: transaction_def step_refl keeps_run split: prod.splits sum.splits)

lemmas keeps_control = keeps_ret keeps_raise keeps_bnd
  keeps_try_except_exception keeps_try_finally keeps_when
  keeps_for_ret keeps_for_m keeps_map_m

end

section \<open>What a computation returns\<close>

text \<open>Every value a computation returns, from any state, satisfies a predicate.\<close>

definition returns :: "('a \<Rightarrow> bool) \<Rightarrow> ('s, 'a) comp \<Rightarrow> bool" where
  "returns P m = (\<forall>s x s'. m s = (Inr x, s') \<longrightarrow> P x)"

lemma returnsD: "returns P m \<Longrightarrow> m s = (Inr x, s') \<Longrightarrow> P x"
  by (auto simp: returns_def)

lemma returns_True [simp]: "returns (\<lambda>_. True) m"
  by (simp add: returns_def)

lemma returns_ret: "P x \<Longrightarrow> returns P (ret x)"
  by (simp add: returns_def ret_def)

lemma returns_raise: "returns P (raise_err e)"
  by (simp add: returns_def raise_err_def)

lemma returns_bnd: "returns Q m \<Longrightarrow> (\<And>x. Q x \<Longrightarrow> returns P (f x)) \<Longrightarrow> returns P (bnd m f)"
  by (fastforce simp: returns_def bnd_def split: prod.splits sum.splits)

lemma returns_bnd_any: "(\<And>x. returns P (f x)) \<Longrightarrow> returns P (bnd m f)"
  by (rule returns_bnd [of "\<lambda>_. True"]) simp_all

lemma returns_try_except:
  "returns P m \<Longrightarrow> (\<And>e k. h e = Some k \<Longrightarrow> returns P k) \<Longrightarrow> returns P (try_except m h)"
  by (fastforce simp: returns_def try_except_def split: prod.splits sum.splits option.splits)

lemma returns_try_finally: "returns P m \<Longrightarrow> returns P (try_finally m k)"
  by (fastforce simp: returns_def try_finally_def split: prod.splits sum.splits if_splits)

section \<open>Workers\<close>

datatype fault = No_fault | Fault_before error | Fault_after error

text \<open>
  What the runtime of a worker may do to it, indexed by the number of steps made so far:
  the changes other actors make to the shared state, injected failures, and the values
  of \<open>uuid.uuid4()\<close>.
\<close>

record 's rt =
  interfere :: "nat \<Rightarrow> 's \<Rightarrow> 's"
  fault :: "nat \<Rightarrow> fault"
  uuid4 :: "nat \<Rightarrow> string"

text \<open>The state of one worker: what it shares, its step count, its local variables and a
  record of the observable calls it has issued.\<close>

record ('s, 'l, 'o) run =
  shared :: 's
  tick :: nat
  locals :: 'l
  obs :: "'o list"

definition call :: "'s rt \<Rightarrow> ('s, 'a) comp \<Rightarrow> (('s, 'l, 'o) run, 'a) comp" where
  "call E f = (\<lambda>w.
     let s = interfere E (tick w) (shared w); w' = w\<lparr>tick := Suc (tick w)\<rparr> in
     case fault E (tick w) of
       No_fault \<Rightarrow> (case f s of (r, s') \<Rightarrow> (r, w'\<lparr>shared := s'\<rparr>))
     | Fault_before e \<Rightarrow> (Inl e, w'\<lparr>shared := s\<rparr>)
     | Fault_after e \<Rightarrow> (case f s of (r, s') \<Rightarrow> (Inl e, w'\<lparr>shared := s'\<rparr>)))"

text \<open>A step that draws a fresh identifier first.\<close>

definition fresh_uuid :: "'s rt \<Rightarrow> (('s, 'l, 'o) run, string) comp" where
  "fresh_uuid E = (\<lambda>w. (Inr (uuid4 E (tick w)), w\<lparr>tick := Suc (tick w)\<rparr>))"

definition observe :: "'o \<Rightarrow> (('s, 'l, 'o) run, unit) comp" where
  "observe x = (\<lambda>w. (Inr (), w\<lparr>obs := obs w @ [x]\<rparr>))"

definition get_locals :: "(('s, 'l, 'o) run, 'l) comp" where
  "get_locals = (\<lambda>w. (Inr (locals w), w))"

definition set_locals :: "'l \<Rightarrow> (('s, 'l, 'o) run, unit) comp" where
  "set_locals l = (\<lambda>w. (Inr (), w\<lparr>locals := l\<rparr>))"

text \<open>The runtime in which a worker runs alone and nothing fails.\<close>

definition quiet :: "(nat \<Rightarrow> string) \<Rightarrow> 's rt" where
  "quiet u = \<lparr>interfere = (\<lambda>_ s. s), fault = (\<lambda>_. No_fault), uuid4 = u\<rparr>"

definition start_run :: "'s \<Rightarrow> 'l \<Rightarrow> ('s, 'l, 'o) run" where
  "start_run s l = \<lparr>shared = s, tick = 0, locals = l, obs = []\<rparr>"

lemmas worker_defs = call_def fresh_uuid_def observe_def get_locals_def set_locals_def

lemma quiet_simps [simp]:
  "interfere (quiet u) n s = s"
  "fault (quiet u) n = No_fault"
  "uuid4 (quiet u) n = u n"
  by (simp_all add: quiet_def)

text \<open>
  A relation on the shared state that other actors keep and that the transaction keeps is
  kept by the worker's step, whatever fails.
\<close>

lemma call_keeps_shared:
  assumes refl: "\<And>s. R s s" and trans: "\<And>s t u. R s t \<Longrightarrow> R t u \<Longrightarrow> R s u"
    and rely: "\<And>n s. R s (interfere E n s)" and f: "keeps R f"
  shows "keeps (\<lambda>w w'. R (shared w) (shared w')) (call E f)"
proof (rule keepsI)
  fix w :: "('a, 'c, 'd) run"
  let ?s = "interfere E (tick w) (shared w)"
  have "R (shared w) (snd (f ?s))"
    using rely f by (blast intro: trans keepsD)
  then show "R (shared w) (shared (snd (call E f w)))"
    using rely [of "shared w" "tick w"]
    by (auto simp: call_def Let_def split: fault.splits prod.splits)
qed

lemma call_keeps_obs:
  assumes "\<And>x. R x x"
  shows "keeps (\<lambda>w w'. R (obs w) (obs w')) (call E f)"
  using assms by (auto intro!: keepsI simp: call_def Let_def split: fault.splits prod.splits)

section \<open>SQL tables\<close>

definition upd_rows :: "('r \<Rightarrow> bool) \<Rightarrow> ('r \<Rightarrow> 'r) \<Rightarrow> 'r list \<Rightarrow> 'r list" where
  "upd_rows p f rows = map (\<lambda>r. if p r then f r else r) rows"

text \<open>\<open>UPDATE .. RETURNING *\<close> followed by \<open>fetchone()\<close>: the first updated row.\<close>

definition returning :: "('r \<Rightarrow> bool) \<Rightarrow> ('r \<Rightarrow> 'r) \<Rightarrow> 'r list \<Rightarrow> 'r option" where
  "returning p f rows = map_option f (find p rows)"

definition coalesce :: "'a option \<Rightarrow> 'a option \<Rightarrow> 'a option" where
  "coalesce x y = (case x of None \<Rightarrow> y | Some v \<Rightarrow> Some v)"

lemma coalesce_simps [simp]:
  "coalesce None y = y"
  "coalesce (Some v) y = Some v"
  by (simp_all add: coalesce_def)

lemma upd_rows_simps [table_simps]:
  "upd_rows p f [] = []"
  "upd_rows p f (r # rows) = (if p r then f r else r) # upd_rows p f rows"
  by (simp_all add: upd_rows_def)

lemma length_upd_rows [simp]: "length (upd_rows p f rows) = length rows"
  by (simp add: upd_rows_def)

lemma nth_upd_rows [table_simps]:
  "i < length rows \<Longrightarrow> upd_rows p f rows ! i = (if p (rows ! i) then f (rows ! i) else rows ! i)"
  by (simp add: upd_rows_def)

lemma set_upd_rows: "set (upd_rows p f rows) = (\<lambda>r. if p r then f r else r) ` set rows"
  by (simp add: upd_rows_def)

lemma upd_rows_none: "(\<And>r. r \<in> set rows \<Longrightarrow> \<not> p r) \<Longrightarrow> upd_rows p f rows = rows"
  by (simp add: upd_rows_def map_idI)

lemma map_upd_rows:
  "(\<And>r. r \<in> set rows \<Longrightarrow> p r \<Longrightarrow> g (f r) = g r) \<Longrightarrow> map g (upd_rows p f rows) = map g rows"
  by (auto simp: upd_rows_def)

lemma find_upd_rows_same:
  assumes "\<And>r. q (f r) = q r"
  shows "find q (upd_rows p f rows) = map_option (\<lambda>r. if p r then f r else r) (find q rows)"
  using assms by (induction rows) (auto simp: upd_rows_simps)

lemma find_SomeD: "find p xs = Some x \<Longrightarrow> p x \<and> x \<in> set xs"
  by (induction xs) (auto split: if_splits)

lemma find_NoneD: "find p xs = None \<Longrightarrow> x \<in> set xs \<Longrightarrow> \<not> p x"
  by (induction xs) (auto split: if_splits)

lemma find_unique:
  assumes "x \<in> set xs" "p x" "\<And>y. y \<in> set xs \<Longrightarrow> p y \<Longrightarrow> y = x"
  shows "find p xs = Some x"
  using assms by (metis find_NoneD find_SomeD option.exhaust)

lemma find_key:
  assumes "distinct (map k xs)" "x \<in> set xs"
  shows "find (\<lambda>y. k y = k x) xs = Some x"
  using assms by (intro find_unique) (auto simp: distinct_map inj_on_def)

lemma distinct_map_inj: "distinct (map k xs) \<Longrightarrow> x \<in> set xs \<Longrightarrow> y \<in> set xs \<Longrightarrow> k x = k y \<Longrightarrow> x = y"
  by (auto simp: distinct_map inj_on_def)

section \<open>Tables whose rows evolve\<close>

text \<open>No row is lost, each row is related to what becomes of it, and new rows come at the end.\<close>

definition rows_evolve :: "('r \<Rightarrow> 'r \<Rightarrow> bool) \<Rightarrow> 'r list \<Rightarrow> 'r list \<Rightarrow> bool" where
  "rows_evolve Q xs ys = (length xs \<le> length ys \<and> (\<forall>i < length xs. Q (xs ! i) (ys ! i)))"

lemma rows_evolve_refl: "(\<And>r. Q r r) \<Longrightarrow> rows_evolve Q xs xs"
  by (simp add: rows_evolve_def)

lemma rows_evolve_trans:
  assumes "\<And>a b c. Q a b \<Longrightarrow> Q b c \<Longrightarrow> Q a c" "rows_evolve Q xs ys" "rows_evolve Q ys zs"
  shows "rows_evolve Q xs zs"
  unfolding rows_evolve_def
proof (intro conjI allI impI)
  show "length xs \<le> length zs" using assms(2,3) by (simp add: rows_evolve_def)
  fix i assume i: "i < length xs"
  with assms(2,3) have "Q (xs ! i) (ys ! i)" "Q (ys ! i) (zs ! i)" by (auto simp: rows_evolve_def)
  then show "Q (xs ! i) (zs ! i)" by (rule assms(1))
qed

lemma rows_evolve_upd:
  "(\<And>r. Q r r) \<Longrightarrow> (\<And>r. p r \<Longrightarrow> Q r (f r)) \<Longrightarrow> rows_evolve Q xs (upd_rows p f xs)"
  by (simp add: rows_evolve_def nth_upd_rows)

lemma rows_evolve_append: "(\<And>r. Q r r) \<Longrightarrow> rows_evolve Q xs (xs @ ys)"
  by (simp add: rows_evolve_def nth_append)

lemma rows_evolve_key:
  assumes ev: "rows_evolve Q xs ys" and x: "x \<in> set xs"
    and key: "\<And>a b. Q a b \<Longrightarrow> k b = k a"
    and y: "y \<in> set ys" "distinct (map k ys)" "k y = k x"
  shows "Q x y"
proof -
  from x obtain i where i: "i < length xs" "xs ! i = x" by (auto simp: in_set_conv_nth)
  with ev have q: "Q x (ys ! i)" and "i < length ys" by (auto simp: rows_evolve_def)
  then have "ys ! i \<in> set ys" by simp
  moreover have "k (ys ! i) = k y" using key [OF q] y(3) by simp
  ultimately have "ys ! i = y" using distinct_map_inj [OF y(2)] y(1) by blast
  with q show ?thesis by simp
qed

end
