(* ===== verification/A2A_Types.thy ===== *)
theory A2A_Types
  imports Prelude
begin

text \<open>
  The A2A protocol as far as the program uses it (messages, tasks and their states, after the
  generated \<^verbatim>\<open>a2a_pb2\<close>), JSON values, and the payloads of the human-input extension:
  \<^verbatim>\<open>protocols/human_input.py\<close> (the pydantic models and their validation) and
  \<^verbatim>\<open>protocols/human_input_wire.py\<close> (\<open>requests_from_task\<close>). A failed validation is \<open>None\<close>.
  Metadata travels as JSON; that protobuf turns every number into a float is not modelled.
\<close>

section \<open>JSON\<close>

datatype json = JNull | JBool bool | JNum int | JStr string | JArr "json list"
  | JObj "(string \<times> json) list"

fun json_falsy :: "json option \<Rightarrow> bool" where
  "json_falsy None = True"
| "json_falsy (Some JNull) = True"
| "json_falsy (Some (JBool b)) = (\<not> b)"
| "json_falsy (Some (JNum n)) = (n = 0)"
| "json_falsy (Some (JStr s)) = (s = [])"
| "json_falsy (Some (JArr xs)) = (xs = [])"
| "json_falsy (Some (JObj kvs)) = (kvs = [])"

text \<open>A list of strings.\<close>

fun json_strings :: "json list \<Rightarrow> string list option" where
  "json_strings [] = Some []"
| "json_strings (JStr s # xs) = map_option (Cons s) (json_strings xs)"
| "json_strings (_ # xs) = None"

lemma json_strings_map [simp]: "json_strings (map JStr xs) = Some xs"
  by (induction xs) simp_all

section \<open>Messages and tasks\<close>

datatype role = ROLE_USER | ROLE_AGENT

datatype task_state = TASK_STATE_UNSPECIFIED | TASK_STATE_SUBMITTED | TASK_STATE_WORKING
  | TASK_STATE_COMPLETED | TASK_STATE_FAILED | TASK_STATE_CANCELED | TASK_STATE_INPUT_REQUIRED
  | TASK_STATE_REJECTED | TASK_STATE_AUTH_REQUIRED

datatype part = Text_part string | Other_part

record a2a_message =
  msg_id :: string
  msg_context_id :: string
  msg_task_id :: string
  msg_role :: role
  msg_parts :: "part list"
  msg_extensions :: "string list"
  msg_metadata :: "(string \<times> json) list"

record a2a_task =
  tk_id :: string
  tk_context_id :: string
  tk_state :: task_state
  tk_status_message :: "a2a_message option"
  tk_history :: "a2a_message list"

definition HUMAN_INPUT_EXTENSION_URI :: string where
  "HUMAN_INPUT_EXTENSION_URI =
     ''https://ryfeus.github.io/claude-managed-agents-ui-eda/a2a/extensions/human-input/v1''"

definition ASYNC_COPILOT_PROFILE_URI :: string where
  "ASYNC_COPILOT_PROFILE_URI =
     ''https://ryfeus.github.io/claude-managed-agents-ui-eda/a2a/extensions/async-copilot-controller/v1''"

section \<open>Human-input payloads\<close>

datatype hi_request =
    Tool_approval_request string string "(string \<times> json) list" "string option"
  | Clarification_request string string "string list option"

datatype hi_response =
    Tool_approval_response string string "string option"
  | Clarification_response string string

fun hi_request_id :: "hi_request \<Rightarrow> string" where
  "hi_request_id (Tool_approval_request i _ _ _) = i"
| "hi_request_id (Clarification_request i _ _) = i"

text \<open>
  A field is looked up by its camel-case alias and by its name (\<open>populate_by_name\<close>); a payload with
  both, or with a key that is neither (\<open>extra="forbid"\<close>), is refused.
\<close>

definition field :: "string \<Rightarrow> string \<Rightarrow> (string \<times> json) list \<Rightarrow> json option" where
  "field alias name kvs = (case map_of kvs alias of Some v \<Rightarrow> Some v | None \<Rightarrow> map_of kvs name)"

definition known_fields :: "(string \<times> string) list \<Rightarrow> (string \<times> json) list \<Rightarrow> bool" where
  "known_fields names kvs = (list_all (\<lambda>(k, v). list_ex (\<lambda>(a, n). k = a \<or> k = n) names) kvs
     \<and> list_all (\<lambda>(a, n). a = n \<or> map_of kvs a = None \<or> map_of kvs n = None) names)"

definition text_field :: "nat \<Rightarrow> nat option \<Rightarrow> json option \<Rightarrow> string option" where
  "text_field lo hi v = (case v of
      Some (JStr s) \<Rightarrow> if lo \<le> length s \<and> (case hi of None \<Rightarrow> True | Some m \<Rightarrow> length s \<le> m) then Some s else None
    | _ \<Rightarrow> None)"

text \<open>An optional text: absent and null are \<open>None\<close>; the outer \<open>None\<close> is a failed validation.\<close>

definition opt_text_field :: "nat option \<Rightarrow> json option \<Rightarrow> string option option" where
  "opt_text_field hi v = (case v of
      None \<Rightarrow> Some None
    | Some JNull \<Rightarrow> Some None
    | Some x \<Rightarrow> map_option Some (text_field 0 hi (Some x)))"

section \<open>Requests\<close>

fun encode_request :: "hi_request \<Rightarrow> json" where
  "encode_request (Tool_approval_request i nm args msg) = JObj (
     [(''kind'', JStr ''tool_approval''), (''requestId'', JStr i),
      (''tool'', JObj [(''name'', JStr nm), (''arguments'', JObj args)]),
      (''allowedResponses'', JArr [JStr ''allow'', JStr ''deny''])]
     @ (case msg of None \<Rightarrow> [] | Some m \<Rightarrow> [(''message'', JStr m)]))"
| "encode_request (Clarification_request i p cs) = JObj (
     [(''kind'', JStr ''clarification''), (''requestId'', JStr i), (''prompt'', JStr p)]
     @ (case cs of None \<Rightarrow> [] | Some xs \<Rightarrow> [(''choices'', JArr (map JStr xs))]))"

definition decode_tool :: "json option \<Rightarrow> (string \<times> (string \<times> json) list) option" where
  "decode_tool v = (case v of
      Some (JObj kvs) \<Rightarrow>
        if \<not> known_fields [(''name'', ''name''), (''arguments'', ''arguments'')] kvs then None
        else (case (text_field 1 None (map_of kvs ''name''), map_of kvs ''arguments'') of
                (Some nm, Some (JObj args)) \<Rightarrow> Some (nm, args)
              | _ \<Rightarrow> None)
    | _ \<Rightarrow> None)"

definition allowed_responses_ok :: "json option \<Rightarrow> bool" where
  "allowed_responses_ok v = (v = None \<or> v = Some (JArr [JStr ''allow'', JStr ''deny'']))"

definition decode_approval :: "(string \<times> json) list \<Rightarrow> hi_request option" where
  "decode_approval kvs =
     (if \<not> known_fields [(''kind'', ''kind''), (''requestId'', ''request_id''), (''tool'', ''tool''),
           (''allowedResponses'', ''allowed_responses''), (''message'', ''message'')] kvs
        \<or> \<not> allowed_responses_ok (field ''allowedResponses'' ''allowed_responses'' kvs) then None
      else (case (text_field 1 None (field ''requestId'' ''request_id'' kvs), decode_tool (map_of kvs ''tool''),
                  opt_text_field None (map_of kvs ''message'')) of
              (Some i, Some (nm, args), Some msg) \<Rightarrow> Some (Tool_approval_request i nm args msg)
            | _ \<Rightarrow> None))"

definition decode_clarification :: "(string \<times> json) list \<Rightarrow> hi_request option" where
  "decode_clarification kvs =
     (if \<not> known_fields [(''kind'', ''kind''), (''requestId'', ''request_id''), (''prompt'', ''prompt''),
           (''choices'', ''choices'')] kvs then None
      else (case (text_field 1 None (field ''requestId'' ''request_id'' kvs), text_field 1 None (map_of kvs ''prompt''),
                  (case map_of kvs ''choices'' of None \<Rightarrow> Some None | Some JNull \<Rightarrow> Some None
                   | Some (JArr xs) \<Rightarrow> map_option Some (json_strings xs) | Some _ \<Rightarrow> None)) of
              (Some i, Some p, Some cs) \<Rightarrow> Some (Clarification_request i p cs)
            | _ \<Rightarrow> None))"

definition decode_request :: "json \<Rightarrow> hi_request option" where
  "decode_request v = (case v of
      JObj kvs \<Rightarrow>
        if map_of kvs ''kind'' = Some (JStr ''tool_approval'') then decode_approval kvs
        else if map_of kvs ''kind'' = Some (JStr ''clarification'') then decode_clarification kvs
        else None
    | _ \<Rightarrow> None)"

definition valid_request :: "hi_request \<Rightarrow> bool" where
  "valid_request r = (case r of
      Tool_approval_request i nm args msg \<Rightarrow> i \<noteq> [] \<and> nm \<noteq> []
    | Clarification_request i p cs \<Rightarrow> i \<noteq> [] \<and> p \<noteq> [])"

lemma decode_encode: "valid_request r \<Longrightarrow> decode_request (encode_request r) = Some r"
  by (cases r)
     (auto simp: decode_request_def decode_approval_def decode_clarification_def decode_tool_def
       known_fields_def field_def text_field_def opt_text_field_def allowed_responses_ok_def valid_request_def
       Suc_le_eq split: option.splits)

section \<open>Responses\<close>

text \<open>\<open>HumanInputResponse\<close>: a reason is allowed only with a denial.\<close>

definition decode_response :: "json \<Rightarrow> hi_response option" where
  "decode_response v = (case v of
      JObj kvs \<Rightarrow>
        if map_of kvs ''kind'' = Some (JStr ''tool_approval'') then
          (if \<not> known_fields [(''kind'', ''kind''), (''requestId'', ''request_id''), (''decision'', ''decision''),
                (''reason'', ''reason'')] kvs then None
           else (case (text_field 1 None (field ''requestId'' ''request_id'' kvs), map_of kvs ''decision'',
                       opt_text_field (Some 1000) (map_of kvs ''reason'')) of
                   (Some i, Some (JStr d), Some reason) \<Rightarrow>
                     if d \<notin> {''allow'', ''deny''} \<or> (reason \<noteq> None \<and> d \<noteq> ''deny'') then None
                     else Some (Tool_approval_response i d reason)
                 | _ \<Rightarrow> None))
        else if map_of kvs ''kind'' = Some (JStr ''clarification'') then
          (if \<not> known_fields [(''kind'', ''kind''), (''requestId'', ''request_id''), (''answer'', ''answer'')] kvs
           then None
           else (case (text_field 1 None (field ''requestId'' ''request_id'' kvs),
                       text_field 1 (Some 20000) (map_of kvs ''answer'')) of
                   (Some i, Some a) \<Rightarrow> Some (Clarification_response i a)
                 | _ \<Rightarrow> None))
        else None
    | _ \<Rightarrow> None)"

section \<open>Reading the requests of a task\<close>

text \<open>A request that fails validation raises; \<open>None\<close> stands for that exception.\<close>

fun decode_all :: "json list \<Rightarrow> hi_request list option" where
  "decode_all [] = Some []"
| "decode_all (x # xs) = (case decode_request x of
     None \<Rightarrow> None | Some r \<Rightarrow> map_option (Cons r) (decode_all xs))"

definition requests_from_task :: "a2a_task \<Rightarrow> hi_request list option" where
  "requests_from_task task =
     (if tk_state task \<noteq> TASK_STATE_INPUT_REQUIRED then Some []
      else case tk_status_message task of
        None \<Rightarrow> Some []
      | Some m \<Rightarrow>
          if HUMAN_INPUT_EXTENSION_URI \<notin> set (msg_extensions m) then Some []
          else (case map_of (msg_metadata m) HUMAN_INPUT_EXTENSION_URI of
                  Some (JObj envelope) \<Rightarrow> (case map_of envelope ''requests'' of
                     None \<Rightarrow> Some []
                   | Some (JArr raw) \<Rightarrow> decode_all raw
                   | Some _ \<Rightarrow> Some [])
                | _ \<Rightarrow> Some []))"

lemma decode_all_encode: "list_all valid_request rs \<Longrightarrow> decode_all (map encode_request rs) = Some rs"
  by (induction rs) (simp_all add: decode_encode)

end
