(* ===== verification/Schema.thy ===== *)
theory Schema
  imports A2A_Types
begin

text \<open>
  The state of the controller: the rows of its PostgreSQL/DSQL tables (as built by the
  migrations under \<^verbatim>\<open>src/backend/migrations\<close>), the pending-input objects, the wakeup queues
  and the outside world (\<open>'p\<close>: the CMA provider, the policy runtime and the preview queue,
  which the code reaches through its ports). Times are integers in microseconds, the
  resolution of \<^verbatim>\<open>TIMESTAMPTZ\<close>; \<^verbatim>\<open>NULL\<close> is \<open>None\<close>.
\<close>

definition seconds :: "int \<Rightarrow> int" where
  "seconds n = n * 1000000"

section \<open>Column types\<close>

datatype lifecycle = Initializing | Ready | Failed

datatype internal_state = Queued | Dispatching | Waiting | Input_required | Interrupting | Terminal

datatype a2a_state =
  SUBMITTED | WORKING | COMPLETED | FAILED | CANCELED | INPUT_REQUIRED | REJECTED

fun a2a_name :: "a2a_state \<Rightarrow> string" where
  "a2a_name SUBMITTED = ''SUBMITTED''"
| "a2a_name WORKING = ''WORKING''"
| "a2a_name COMPLETED = ''COMPLETED''"
| "a2a_name FAILED = ''FAILED''"
| "a2a_name CANCELED = ''CANCELED''"
| "a2a_name INPUT_REQUIRED = ''INPUT_REQUIRED''"
| "a2a_name REJECTED = ''REJECTED''"

datatype request_status = Pending | Resolving | Resolved

datatype ruling = Allow | Deny

fun ruling_str :: "ruling option \<Rightarrow> string" where
  "ruling_str None = ''None''"
| "ruling_str (Some Allow) = ''allow''"
| "ruling_str (Some Deny) = ''deny''"

section \<open>Rows\<close>

record context_row =
  c_context_id :: string
  c_creation_message_id :: string
  c_cma_session_id :: "string option"
  c_lifecycle_state :: lifecycle
  c_next_sequence :: int
  c_active_task_id :: "string option"
  c_scheduler_claim_id :: "string option"
  c_scheduler_lease_expires_at :: "int option"
  c_created_at :: int
  c_updated_at :: int

record task_row =
  t_task_id :: string
  t_context_id :: string
  t_message_id :: string
  t_sequence :: int
  t_a2a_state :: a2a_state
  t_internal_state :: internal_state
  t_cma_input_event_id :: "string option"
  t_input_object_key :: "string option"
  t_cma_predecessor_event_id :: "string option"
  t_cma_terminal_event_id :: "string option"
  t_dispatch_attempts :: "int option"
  t_dispatch_attempted_at :: "int option"
  t_next_dispatch_at :: "int option"
  t_cancel_requested_at :: "int option"
  t_cancel_attempted_at :: "int option"
  t_held_reason :: "string option"
  t_created_at :: int
  t_updated_at :: int

text \<open>\<^verbatim>\<open>cma_input_requests\<close>: the kind of every row is \<^verbatim>\<open>tool_approval\<close> (CHECK constraint).\<close>

record approval_row =
  r_request_id :: string
  r_task_id :: string
  r_cma_event_id :: string
  r_status :: request_status
  r_decision :: "ruling option"
  r_confirmation_attempted_at :: "int option"
  r_decision_reason_object_key :: "string option"
  r_review_digest :: "string option"
  r_review_authority :: "string option"
  r_review_object_key :: "string option"
  r_human_ruling :: "ruling option"
  r_created_at :: int
  r_updated_at :: int
  r_resolved_at :: "int option"

text \<open>\<^verbatim>\<open>cma_clarification_requests\<close>: the kind of every row is \<^verbatim>\<open>clarification\<close>.\<close>

record clarification_row =
  q_request_id :: string
  q_task_id :: string
  q_cma_event_id :: string
  q_status :: request_status
  q_answer_object_key :: "string option"
  q_response_attempted_at :: "int option"
  q_created_at :: int
  q_updated_at :: int
  q_resolved_at :: "int option"

text \<open>A row of the merged list that \<open>list_input_requests\<close> returns.\<close>

datatype request_row = Approval approval_row | Clarification clarification_row

fun req_request_id :: "request_row \<Rightarrow> string" where
  "req_request_id (Approval r) = r_request_id r"
| "req_request_id (Clarification q) = q_request_id q"

fun req_task_id :: "request_row \<Rightarrow> string" where
  "req_task_id (Approval r) = r_task_id r"
| "req_task_id (Clarification q) = q_task_id q"

fun req_cma_event_id :: "request_row \<Rightarrow> string" where
  "req_cma_event_id (Approval r) = r_cma_event_id r"
| "req_cma_event_id (Clarification q) = q_cma_event_id q"

fun req_status :: "request_row \<Rightarrow> request_status" where
  "req_status (Approval r) = r_status r"
| "req_status (Clarification q) = q_status q"

fun req_created_at :: "request_row \<Rightarrow> int" where
  "req_created_at (Approval r) = r_created_at r"
| "req_created_at (Clarification q) = q_created_at q"

fun is_clarification :: "request_row \<Rightarrow> bool" where
  "is_clarification (Approval r) = False"
| "is_clarification (Clarification q) = True"

text \<open>\<open>row.get(..)\<close> of a column the clarification table does not have is \<open>None\<close>.\<close>

fun req_review_digest :: "request_row \<Rightarrow> string option" where
  "req_review_digest (Approval r) = r_review_digest r"
| "req_review_digest (Clarification q) = None"

fun req_review_object_key :: "request_row \<Rightarrow> string option" where
  "req_review_object_key (Approval r) = r_review_object_key r"
| "req_review_object_key (Clarification q) = None"

fun req_human_ruling :: "request_row \<Rightarrow> ruling option" where
  "req_human_ruling (Approval r) = r_human_ruling r"
| "req_human_ruling (Clarification q) = None"

record push_row =
  p_task_id :: string
  p_config_id :: string
  p_url :: string
  p_last_delivered_fingerprint :: "string option"
  p_attempt_count :: int
  p_next_attempt_at :: "int option"
  p_last_attempt_at :: "int option"
  p_last_delivered_at :: "int option"
  p_delivery_claim_id :: "string option"
  p_delivery_lease_expires_at :: "int option"
  p_permanent_failure_at :: "int option"
  p_deleted_at :: "int option"
  p_created_at :: int
  p_updated_at :: int

section \<open>The shared state\<close>

type_synonym wakeup = "string \<times> string \<times> int"

record 'p sys =
  contexts :: "context_row list"
  tasks :: "task_row list"
  approvals :: "approval_row list"
  clarifications :: "clarification_row list"
  push_configs :: "push_row list"
  clock :: int
  objects :: "(string \<times> string \<times> int) list"
  outside :: 'p
  wakeups :: "wakeup list"
  push_wakeups :: "wakeup list"

definition empty_sys :: "'p \<Rightarrow> 'p sys" where
  "empty_sys p = \<lparr>contexts = [], tasks = [], approvals = [], clarifications = [], push_configs = [],
     clock = 0, objects = [], outside = p, wakeups = [], push_wakeups = []\<rparr>"

text \<open>A transaction that only reads.\<close>

definition reads :: "('s \<Rightarrow> 'a) \<Rightarrow> ('s, 'a) comp" where
  "reads f = (\<lambda>s. (Inr (f s), s))"

lemma snd_reads [simp]: "snd (reads f s) = s"
  by (simp add: reads_def)

section \<open>Constraints of the schema\<close>

text \<open>The CHECK of \<^verbatim>\<open>cma_contexts\<close> that ties the lifecycle to the session.\<close>

definition context_check :: "context_row \<Rightarrow> bool" where
  "context_check c = (c_next_sequence c \<ge> 1 \<and>
     (case c_lifecycle_state c of
        Initializing \<Rightarrow> c_cma_session_id c = None
      | Ready \<Rightarrow> c_cma_session_id c \<noteq> None
      | Failed \<Rightarrow> True))"

text \<open>A UNIQUE column that may be NULL.\<close>

definition unique_opt :: "('r \<Rightarrow> 'k option) \<Rightarrow> 'r list \<Rightarrow> bool" where
  "unique_opt k rows = distinct (List.map_filter k rows)"

definition contexts_ok :: "context_row list \<Rightarrow> bool" where
  "contexts_ok cs = (distinct (map c_context_id cs) \<and> distinct (map c_creation_message_id cs)
     \<and> unique_opt c_cma_session_id cs \<and> list_all context_check cs)"

definition tasks_ok :: "context_row list \<Rightarrow> task_row list \<Rightarrow> bool" where
  "tasks_ok cs ts = (distinct (map t_task_id ts)
     \<and> distinct (map (\<lambda>t. (t_context_id t, t_message_id t)) ts)
     \<and> distinct (map (\<lambda>t. (t_context_id t, t_sequence t)) ts)
     \<and> list_all (\<lambda>t. t_sequence t \<ge> 1 \<and> t_context_id t \<in> set (map c_context_id cs)) ts)"

definition approvals_ok :: "task_row list \<Rightarrow> approval_row list \<Rightarrow> bool" where
  "approvals_ok ts rs = (distinct (map r_request_id rs)
     \<and> distinct (map (\<lambda>r. (r_task_id r, r_cma_event_id r)) rs)
     \<and> list_all (\<lambda>r. r_task_id r \<in> set (map t_task_id ts)) rs)"

definition clarifications_ok :: "task_row list \<Rightarrow> clarification_row list \<Rightarrow> bool" where
  "clarifications_ok ts qs = (distinct (map q_request_id qs)
     \<and> distinct (map (\<lambda>q. (q_task_id q, q_cma_event_id q)) qs)
     \<and> list_all (\<lambda>q. q_task_id q \<in> set (map t_task_id ts)) qs)"

definition push_ok :: "task_row list \<Rightarrow> push_row list \<Rightarrow> bool" where
  "push_ok ts ps = (distinct (map (\<lambda>p. (p_task_id p, p_config_id p)) ps)
     \<and> list_all (\<lambda>p. p_task_id p \<in> set (map t_task_id ts)) ps)"

definition schema_ok :: "'p sys \<Rightarrow> bool" where
  "schema_ok s = (contexts_ok (contexts s) \<and> tasks_ok (contexts s) (tasks s)
     \<and> approvals_ok (tasks s) (approvals s) \<and> clarifications_ok (tasks s) (clarifications s)
     \<and> push_ok (tasks s) (push_configs s))"

lemma schema_ok_empty: "schema_ok (empty_sys p)"
  by (simp add: schema_ok_def empty_sys_def contexts_ok_def tasks_ok_def approvals_ok_def
      clarifications_ok_def push_ok_def unique_opt_def List.map_filter_def)

section \<open>Provider events\<close>

text \<open>
  An event of a CMA session, with the fields the controller reads. Fields whose Python type
  the code tests (\<^verbatim>\<open>isinstance\<close>) are kept as JSON values.
\<close>

record stop_reason =
  sr_type :: "string option"
  sr_event_ids :: "string list"

record content_part =
  cp_type :: "string option"
  cp_text :: "string option"

record cma_event =
  e_id :: "string option"
  e_type :: "string option"
  e_stop_reason :: "stop_reason option"
  e_name :: "json option"
  e_input :: "json option"
  e_mcp_server_name :: "json option"
  e_tool_use_id :: "string option"
  e_result :: "string option"
  e_custom_tool_use_id :: "string option"
  e_content :: "content_part list"

definition blank_event :: "string \<Rightarrow> string \<Rightarrow> cma_event" where
  "blank_event i ty = \<lparr>e_id = Some i, e_type = Some ty, e_stop_reason = None, e_name = None,
     e_input = None, e_mcp_server_name = None, e_tool_use_id = None, e_result = None,
     e_custom_tool_use_id = None, e_content = []\<rparr>"

text \<open>\<open>(event.get("stop_reason") or {}).get("type")\<close>\<close>

definition stop_type :: "cma_event \<Rightarrow> string option" where
  "stop_type e = (case e_stop_reason e of None \<Rightarrow> None | Some r \<Rightarrow> sr_type r)"

definition stop_event_ids :: "cma_event \<Rightarrow> string list" where
  "stop_event_ids e = (case e_stop_reason e of None \<Rightarrow> [] | Some r \<Rightarrow> sr_event_ids r)"

section \<open>Policy requests and decisions\<close>

datatype tool_kind = Builtin | Mcp

record tool_policy_request =
  root_id :: string
  invocation_id :: string
  agent_id :: string
  tool_kind_of :: tool_kind
  tool_name :: string
  arguments :: "(string \<times> json) list"

record human_review =
  hr_authority :: string
  hr_fingerprint :: string
  hr_description :: string

record tool_policy_decision =
  d_decision :: string
  d_reason :: "string option"
  d_review :: "human_review option"

record preview_hint =
  h_task_id :: string
  h_context_id :: string
  h_session_id :: string
  h_phase_id :: string

section \<open>Ports\<close>

text \<open>An exception of the provider SDK: its HTTP status code, if it has one, and its type.\<close>

datatype sdk_error = Sdk_error "int option" string

record 'p sdk =
  sdk_create_session :: "string \<Rightarrow> string \<Rightarrow> string \<Rightarrow> 'p \<Rightarrow> (sdk_error + string) \<times> 'p"
  sdk_find_session :: "string \<Rightarrow> string \<Rightarrow> 'p \<Rightarrow> (sdk_error + string option) \<times> 'p"
  sdk_list_events :: "string \<Rightarrow> 'p \<Rightarrow> (sdk_error + cma_event list) \<times> 'p"
  sdk_send_message :: "string \<Rightarrow> string \<Rightarrow> 'p \<Rightarrow> (sdk_error + string option) \<times> 'p"
  sdk_confirm_tool :: "string \<Rightarrow> string \<Rightarrow> bool \<Rightarrow> string option \<Rightarrow> 'p \<Rightarrow> (sdk_error + unit) \<times> 'p"
  sdk_custom_tool_result :: "string \<Rightarrow> string \<Rightarrow> string \<Rightarrow> bool \<Rightarrow> 'p \<Rightarrow> (sdk_error + unit) \<times> 'p"
  sdk_interrupt :: "string \<Rightarrow> 'p \<Rightarrow> (sdk_error + unit) \<times> 'p"

record 'p policy_engine =
  evaluate_tool_call :: "tool_policy_request \<Rightarrow> int \<Rightarrow> 'p \<Rightarrow> (error + tool_policy_decision) \<times> 'p"
  resolve_tool_call :: "tool_policy_request \<Rightarrow> human_review \<Rightarrow> ruling \<Rightarrow> int \<Rightarrow> 'p
    \<Rightarrow> (error + tool_policy_decision) \<times> 'p"

record controller_config =
  app_name :: string
  openappa_timeout :: int

text \<open>The objects the controller is composed of; optional ports are \<open>None\<close> when not configured.\<close>

record 'p env =
  rt_of :: "'p sys rt"
  sdk_of :: "'p sdk"
  policy_of :: "'p policy_engine option"
  preview_of :: "(preview_hint \<Rightarrow> 'p \<Rightarrow> (error + unit) \<times> 'p) option"
  has_push_trigger :: bool
  uuid5_url :: "string \<Rightarrow> string"
  sha256_hex :: "string \<Rightarrow> string"
  config_of :: controller_config

text \<open>A call that reaches only the outside world.\<close>

definition on_outside :: "('p \<Rightarrow> (error + 'a) \<times> 'p) \<Rightarrow> ('p sys, 'a) comp" where
  "on_outside f = (\<lambda>s. case f (outside s) of (r, p) \<Rightarrow> (r, s\<lparr>outside := p\<rparr>))"

lemma on_outside_tables [simp]:
  "contexts (snd (on_outside f s)) = contexts s"
  "tasks (snd (on_outside f s)) = tasks s"
  "approvals (snd (on_outside f s)) = approvals s"
  "clarifications (snd (on_outside f s)) = clarifications s"
  "push_configs (snd (on_outside f s)) = push_configs s"
  "clock (snd (on_outside f s)) = clock s"
  "objects (snd (on_outside f s)) = objects s"
  "wakeups (snd (on_outside f s)) = wakeups s"
  by (simp_all add: on_outside_def split: prod.splits)

end
