(* ===== verification/Controller_Repository.thy ===== *)
theory Controller_Repository
  imports Schema
begin

text \<open>
  \<^verbatim>\<open>cma_controller/repository.py\<close> (class \<open>CmaControllerRepository\<close>): identity of contexts and
  tasks. Each method is one transaction on the tables. A violated UNIQUE or CHECK
  constraint raises and rolls back; the statements that can violate one go through
  \<open>insert_context\<close>, \<open>insert_task\<close> and \<open>write_contexts\<close>, which enforce it.
\<close>

section \<open>Statements\<close>

definition new_context :: "string \<Rightarrow> string \<Rightarrow> int \<Rightarrow> context_row" where
  "new_context cid mid t = \<lparr>c_context_id = cid, c_creation_message_id = mid, c_cma_session_id = None,
     c_lifecycle_state = Initializing, c_next_sequence = 1, c_active_task_id = None,
     c_scheduler_claim_id = None, c_scheduler_lease_expires_at = None, c_created_at = t, c_updated_at = t\<rparr>"

text \<open>\<^verbatim>\<open>INSERT INTO cma_contexts .. ON CONFLICT (creation_message_id) DO UPDATE .. RETURNING *\<close>,
  where the update writes the value the column already has.\<close>

definition insert_context :: "string \<Rightarrow> string \<Rightarrow> ('p sys, context_row) comp" where
  "insert_context cid mid = (\<lambda>s.
     case find (\<lambda>c. c_creation_message_id c = mid) (contexts s) of
       Some c \<Rightarrow> (Inr c, s)
     | None \<Rightarrow>
         if cid \<in> set (map c_context_id (contexts s)) then (Inl UniqueViolation, s)
         else let c = new_context cid mid (clock s) in (Inr c, s\<lparr>contexts := contexts s @ [c]\<rparr>))"

definition new_task :: "string \<Rightarrow> string \<Rightarrow> string \<Rightarrow> int \<Rightarrow> a2a_state \<Rightarrow> internal_state
    \<Rightarrow> string option \<Rightarrow> string option \<Rightarrow> int option \<Rightarrow> int \<Rightarrow> task_row" where
  "new_task tid cid mid seq a st key held n t = \<lparr>t_task_id = tid, t_context_id = cid, t_message_id = mid,
     t_sequence = seq, t_a2a_state = a, t_internal_state = st, t_cma_input_event_id = None,
     t_input_object_key = key, t_cma_predecessor_event_id = None, t_cma_terminal_event_id = None,
     t_dispatch_attempts = n, t_dispatch_attempted_at = None, t_next_dispatch_at = None,
     t_cancel_requested_at = None, t_cancel_attempted_at = None, t_held_reason = held,
     t_created_at = t, t_updated_at = t\<rparr>"

definition insert_task :: "task_row \<Rightarrow> ('p sys, task_row) comp" where
  "insert_task t = (\<lambda>s.
     if t_sequence t < 1 then (Inl CheckViolation, s)
     else if t_task_id t \<in> set (map t_task_id (tasks s))
       \<or> (t_context_id t, t_message_id t) \<in> set (map (\<lambda>u. (t_context_id u, t_message_id u)) (tasks s))
       \<or> (t_context_id t, t_sequence t) \<in> set (map (\<lambda>u. (t_context_id u, t_sequence u)) (tasks s))
     then (Inl UniqueViolation, s)
     else if t_context_id t \<notin> set (map c_context_id (contexts s))
     then (Inl (ExternalError ''ForeignKeyViolation''), s)
     else (Inr t, s\<lparr>tasks := tasks s @ [t]\<rparr>))"

text \<open>An update of constrained columns of \<^verbatim>\<open>cma_contexts\<close>.\<close>

definition write_contexts :: "context_row list \<Rightarrow> ('p sys, unit) comp" where
  "write_contexts cs = (\<lambda>s.
     if \<not> list_all context_check cs then (Inl CheckViolation, s)
     else if \<not> unique_opt c_cma_session_id cs then (Inl UniqueViolation, s)
     else (Inr (), s\<lparr>contexts := cs\<rparr>))"

section \<open>Methods\<close>

definition identity_conflict :: "string \<Rightarrow> error \<Rightarrow> ('s, 'a) comp option" where
  "identity_conflict msg e =
     (if e = UniqueViolation then Some (raise_err (ControllerIdentityConflict msg)) else None)"

definition create_initializing_context :: "string \<Rightarrow> string \<Rightarrow> ('p sys, context_row) comp" where
  "create_initializing_context cid mid =
     (if cid = [] \<or> mid = [] then raise_err (ValueError ''Context and creation message IDs are required'')
      else try_except (insert_context cid mid)
        (identity_conflict ''Context ID belongs to another creation message''))"

definition find_context_by_creation_message_id :: "string \<Rightarrow> 'p sys \<Rightarrow> context_row option" where
  "find_context_by_creation_message_id mid s = find (\<lambda>c. c_creation_message_id c = mid) (contexts s)"

definition get_context :: "string \<Rightarrow> 'p sys \<Rightarrow> context_row option" where
  "get_context cid s = find (\<lambda>c. c_context_id c = cid) (contexts s)"

definition bind_cma_session :: "string \<Rightarrow> string \<Rightarrow> ('p sys, context_row) comp" where
  "bind_cma_session cid sid =
     (if sid = [] then raise_err (ValueError ''CMA session ID is required'')
      else try_except
        (\<lambda>s. let p = (\<lambda>c. c_context_id c = cid \<and> c_cma_session_id c = None);
                 f = (\<lambda>c. c\<lparr>c_cma_session_id := Some sid, c_lifecycle_state := Ready, c_updated_at := clock s\<rparr>) in
          case returning p f (contexts s) of
            Some row \<Rightarrow> bnd (write_contexts (upd_rows p f (contexts s))) (\<lambda>_. ret row) s
          | None \<Rightarrow>
              (case get_context cid s of
                 None \<Rightarrow> (Inl (KeyError ''Unknown CMA context''), s)
               | Some row \<Rightarrow>
                   if c_cma_session_id row = Some sid \<and> c_lifecycle_state row = Ready then (Inr row, s)
                   else (Inl (ControllerIdentityConflict ''Context is bound to another CMA session''), s)))
        (identity_conflict ''CMA session is bound to another context''))"

definition find_task_by_message_id :: "string \<Rightarrow> string \<Rightarrow> 'p sys \<Rightarrow> task_row option" where
  "find_task_by_message_id cid mid s = find (\<lambda>t. t_context_id t = cid \<and> t_message_id t = mid) (tasks s)"

definition get_task :: "string \<Rightarrow> 'p sys \<Rightarrow> task_row option" where
  "get_task tid s = find (\<lambda>t. t_task_id t = tid) (tasks s)"

definition create_task :: "string \<Rightarrow> string \<Rightarrow> string \<Rightarrow> int \<Rightarrow> a2a_state \<Rightarrow> internal_state
    \<Rightarrow> ('p sys, task_row) comp" where
  "create_task tid cid mid seq a st =
     (if tid = [] \<or> cid = [] \<or> mid = [] \<or> seq < 1
      then raise_err (ValueError ''Valid task, context, message IDs, and sequence are required'')
      else try_except
        (\<lambda>s. case find_task_by_message_id cid mid s of
               Some row \<Rightarrow> (Inr row, s)
             | None \<Rightarrow> insert_task (new_task tid cid mid seq a st None None None (clock s)) s)
        (identity_conflict ''Task ID or context sequence is already assigned''))"

section \<open>Facts about the statements\<close>

lemma insert_context_cases:
  obtains (existing) c where "find (\<lambda>c. c_creation_message_id c = mid) (contexts s) = Some c"
      "insert_context cid mid s = (Inr c, s)"
  | (conflict) "find (\<lambda>c. c_creation_message_id c = mid) (contexts s) = None"
      "insert_context cid mid s = (Inl UniqueViolation, s)"
  | (created) "find (\<lambda>c. c_creation_message_id c = mid) (contexts s) = None"
      "cid \<notin> set (map c_context_id (contexts s))"
      "insert_context cid mid s = (Inr (new_context cid mid (clock s)),
         s\<lparr>contexts := contexts s @ [new_context cid mid (clock s)]\<rparr>)"
proof (cases "find (\<lambda>c. c_creation_message_id c = mid) (contexts s)")
  case None
  then show ?thesis
    by (cases "cid \<in> set (map c_context_id (contexts s))")
       (simp_all add: insert_context_def Let_def conflict created)
next
  case (Some c)
  then show ?thesis by (intro existing) (simp_all add: insert_context_def)
qed

lemma insert_task_cases:
  obtains (error) e where "insert_task t s = (Inl e, s)"
  | (created) "insert_task t s = (Inr t, s\<lparr>tasks := tasks s @ [t]\<rparr>)" "t_sequence t \<ge> 1"
      "t_task_id t \<notin> set (map t_task_id (tasks s))"
      "(t_context_id t, t_message_id t) \<notin> set (map (\<lambda>u. (t_context_id u, t_message_id u)) (tasks s))"
      "(t_context_id t, t_sequence t) \<notin> set (map (\<lambda>u. (t_context_id u, t_sequence u)) (tasks s))"
      "t_context_id t \<in> set (map c_context_id (contexts s))"
proof (cases "snd (insert_task t s) = s")
  case True
  show ?thesis
  proof (cases "fst (insert_task t s)")
    case (Inl e)
    with True show ?thesis by (intro error [of e]) (metis prod.collapse)
  next
    case (Inr x)
    with True show ?thesis by (intro created) (auto simp: insert_task_def split: if_splits)
  qed
next
  case False
  then show ?thesis by (intro created) (auto simp: insert_task_def split: if_splits)
qed

lemma write_contexts_cases:
  obtains (error) e where "write_contexts cs s = (Inl e, s)"
  | (written) "write_contexts cs s = (Inr (), s\<lparr>contexts := cs\<rparr>)" "list_all context_check cs"
      "unique_opt c_cma_session_id cs"
  by (cases "list_all context_check cs"; cases "unique_opt c_cma_session_id cs")
     (simp_all add: write_contexts_def)

lemma get_contextD: "get_context cid s = Some c \<Longrightarrow> c \<in> set (contexts s) \<and> c_context_id c = cid"
  by (auto simp: get_context_def dest: find_SomeD)

lemma get_taskD: "get_task tid s = Some t \<Longrightarrow> t \<in> set (tasks s) \<and> t_task_id t = tid"
  by (auto simp: get_task_def dest: find_SomeD)

lemma find_task_by_message_idD:
  "find_task_by_message_id cid mid s = Some t \<Longrightarrow>
     t \<in> set (tasks s) \<and> t_context_id t = cid \<and> t_message_id t = mid"
  by (auto simp: find_task_by_message_id_def dest: find_SomeD)

lemma contexts_ok_append:
  assumes "contexts_ok cs" "find (\<lambda>c. c_creation_message_id c = mid) cs = None"
    "cid \<notin> set (map c_context_id cs)"
  shows "contexts_ok (cs @ [new_context cid mid t])"
  using assms
  by (auto simp: contexts_ok_def unique_opt_def new_context_def context_check_def
      List.map_filter_def dest: find_NoneD)

end
