(* ===== verification/Runtime_Repository.thy ===== *)
theory Runtime_Repository
  imports Controller_Repository
begin

text \<open>
  \<^verbatim>\<open>cma_controller/runtime_repository.py\<close> (class \<open>ControllerRuntimeRepository\<close>): admission of
  turns, the scheduler lease, the writes fenced by it, and the life of human-input requests.
  Every method is one transaction; \<open>admit\<close>, whose recovery path runs further
  transactions, is split into its transaction (\<open>admit_operation\<close>) and the method.
  Row locks (\<^verbatim>\<open>FOR UPDATE\<close>) have no effect on the outcome of an atomic transaction.
\<close>

section \<open>Admission\<close>

text \<open>A new turn of a context: take the next sequence number and insert the task, rejected when the
  context has failed or its active task waits for human input.\<close>

definition admit_turn :: "context_row \<Rightarrow> string \<Rightarrow> string \<Rightarrow> string
    \<Rightarrow> ('p sys, context_row \<times> task_row \<times> bool) comp" where
  "admit_turn ctx message_id proposed_task key = (\<lambda>s.
     let p = (\<lambda>c. c_context_id c = c_context_id ctx);
         f = (\<lambda>c. c\<lparr>c_next_sequence := c_next_sequence c + 1, c_updated_at := clock s\<rparr>) in
     case returning p f (contexts s) of
       None \<Rightarrow> (Inl (KeyError ''Unknown CMA context''), s)
     | Some ctx' \<Rightarrow>
         let s' = s\<lparr>contexts := upd_rows p f (contexts s)\<rparr>;
             failed = (c_lifecycle_state ctx' = Failed);
             blocked = (truthy (c_active_task_id ctx') \<and>
               (case get_task (py_str (c_active_task_id ctx')) s' of
                  None \<Rightarrow> False
                | Some active \<Rightarrow> t_internal_state active = Input_required));
             rejected = (failed \<or> blocked);
             reason = (if blocked then Some ''input-required''
                       else if failed then Some ''context-failed'' else None) in
         bnd (insert_task (new_task proposed_task (c_context_id ctx') message_id
               (c_next_sequence ctx' - 1)
               (if rejected then REJECTED else SUBMITTED)
               (if rejected then Terminal else Queued)
               (Some key) reason (Some 0) (clock s)))
           (\<lambda>task. ret (ctx', task, True)) s')"

definition admit_operation :: "string \<Rightarrow> string option \<Rightarrow> string \<Rightarrow> string \<Rightarrow> string
    \<Rightarrow> ('p sys, context_row \<times> task_row \<times> bool) comp" where
  "admit_operation proposed_context requested message_id proposed_task key = transaction
     (bnd (case requested of
             None \<Rightarrow> bnd (insert_context proposed_context message_id) (\<lambda>c. ret (Some c))
           | Some cid \<Rightarrow> reads (get_context cid))
      (\<lambda>found. case found of
         None \<Rightarrow> raise_err (KeyError ''Unknown CMA context'')
       | Some ctx \<Rightarrow>
      bnd (reads (find_task_by_message_id (c_context_id ctx) message_id)) (\<lambda>existing.
      case existing of
         Some task \<Rightarrow> ret (ctx, task, False)
       | None \<Rightarrow> admit_turn ctx message_id proposed_task key)))"

text \<open>The method: a UNIQUE violation means another request has won; its rows are returned.\<close>

definition admit :: "'p sys rt \<Rightarrow> string \<Rightarrow> string option \<Rightarrow> string \<Rightarrow> string \<Rightarrow> string
    \<Rightarrow> (('p sys, 'l, 'o) run, context_row \<times> task_row \<times> bool) comp" where
  "admit E proposed_context requested message_id proposed_task key =
     (if proposed_context = [] \<or> message_id = [] \<or> proposed_task = [] \<or> key = []
      then raise_err (ValueError ''Context, message, task, and input key are required'')
      else try_except (call E (admit_operation proposed_context requested message_id proposed_task key))
        (\<lambda>e. if e \<noteq> UniqueViolation then None else Some
          (bnd (call E (reads (case requested of
                  None \<Rightarrow> find_context_by_creation_message_id message_id
                | Some cid \<Rightarrow> get_context cid)))
            (\<lambda>found. case found of None \<Rightarrow> raise_err e | Some ctx \<Rightarrow>
           bnd (call E (reads (find_task_by_message_id (c_context_id ctx) message_id)))
            (\<lambda>existing. case existing of None \<Rightarrow> raise_err e | Some task \<Rightarrow>
             ret (ctx, task, False))))))"

definition context_for_session :: "string \<Rightarrow> 'p sys \<Rightarrow> context_row option" where
  "context_for_session sid s = find (\<lambda>c. c_cma_session_id c = Some sid) (contexts s)"

section \<open>Guards\<close>

text \<open>The scheduler lease of a context row is held by a claim and has not expired.\<close>

definition lease_held :: "int \<Rightarrow> string \<Rightarrow> context_row \<Rightarrow> bool" where
  "lease_held now claim c = (c_scheduler_claim_id c = Some claim \<and>
     (case c_scheduler_lease_expires_at c of None \<Rightarrow> False | Some t \<Rightarrow> t > now))"

definition lease_live :: "'p sys \<Rightarrow> string \<Rightarrow> string \<Rightarrow> bool" where
  "lease_live s cid claim = list_ex (\<lambda>c. c_context_id c = cid \<and> lease_held (clock s) claim c) (contexts s)"

text \<open>\<^verbatim>\<open>EXISTS (SELECT 1 FROM cma_tasks t JOIN cma_contexts c ON c.context_id = t.context_id
  WHERE t.task_id = .. AND ..)\<close>\<close>

definition exists_task_context :: "'p sys \<Rightarrow> string \<Rightarrow> (task_row \<Rightarrow> context_row \<Rightarrow> bool) \<Rightarrow> bool" where
  "exists_task_context s tid P = list_ex (\<lambda>t. t_task_id t = tid \<and>
     list_ex (\<lambda>c. c_context_id c = t_context_id t \<and> P t c) (contexts s)) (tasks s)"

definition active_uncancelled :: "int \<Rightarrow> string \<Rightarrow> string \<Rightarrow> task_row \<Rightarrow> context_row \<Rightarrow> bool" where
  "active_uncancelled now cid claim t c = (c_context_id c = cid \<and> c_active_task_id c = Some (t_task_id t)
     \<and> t_internal_state t \<noteq> Terminal \<and> t_cancel_requested_at t = None \<and> lease_held now claim c)"

section \<open>Policy decisions and human reviews\<close>

definition policy_decision_guard :: "'p sys \<Rightarrow> string \<Rightarrow> string \<Rightarrow> string \<Rightarrow> string \<Rightarrow> approval_row \<Rightarrow> bool" where
  "policy_decision_guard s cid tid claim rid r = (r_request_id r = rid \<and> r_task_id r = tid
     \<and> r_status r = Pending \<and> r_decision r = None \<and> r_confirmation_attempted_at r = None
     \<and> exists_task_context s (r_task_id r) (active_uncancelled (clock s) cid claim))"

text \<open>The argument is the decision as the policy engine spelled it.\<close>

definition parse_ruling :: "string \<Rightarrow> ruling option" where
  "parse_ruling d = (if d = ''allow'' then Some Allow else if d = ''deny'' then Some Deny else None)"

definition record_policy_decision :: "string \<Rightarrow> string \<Rightarrow> string \<Rightarrow> string \<Rightarrow> string \<Rightarrow> ('p sys, unit) comp" where
  "record_policy_decision cid tid claim rid decision =
     (case parse_ruling decision of
        None \<Rightarrow> raise_err (ValueError ''Unknown policy decision'')
      | Some d \<Rightarrow> (\<lambda>s.
          let p = policy_decision_guard s cid tid claim rid;
              f = (\<lambda>r. r\<lparr>r_decision := Some d, r_status := Resolving, r_updated_at := clock s\<rparr>) in
          case returning p f (approvals s) of
            None \<Rightarrow> (Inl (LostSchedulerClaim cid), s)
          | Some _ \<Rightarrow> (Inr (), s\<lparr>approvals := upd_rows p f (approvals s)\<rparr>)))"

text \<open>The new request identifier is a fresh UUID; it is the primary key of the table.\<close>

definition record_human_review :: "string \<Rightarrow> string \<Rightarrow> string \<Rightarrow> string \<Rightarrow> string \<Rightarrow> string option
    \<Rightarrow> string option \<Rightarrow> string option \<Rightarrow> ('p sys, unit) comp" where
  "record_human_review new_id cid tid claim rid digest authority object_key = (\<lambda>s.
     let p = policy_decision_guard s cid tid claim rid;
         f = (\<lambda>r. r\<lparr>r_request_id := new_id, r_review_digest := digest, r_review_authority := authority,
               r_review_object_key := object_key, r_human_ruling := None, r_updated_at := clock s\<rparr>) in
     case returning p f (approvals s) of
       None \<Rightarrow> (Inl (LostSchedulerClaim cid), s)
     | Some _ \<Rightarrow>
         if distinct (map r_request_id (upd_rows p f (approvals s)))
         then (Inr (), s\<lparr>approvals := upd_rows p f (approvals s)\<rparr>)
         else (Inl UniqueViolation, s))"

definition ruling_row :: "'p sys \<Rightarrow> string \<Rightarrow> string \<Rightarrow> approval_row \<Rightarrow> bool" where
  "ruling_row s rid tid r = (r_request_id r = rid \<and> r_task_id r = tid \<and> r_review_digest r \<noteq> None
     \<and> exists_task_context s tid (\<lambda>t c. c_active_task_id c = Some (t_task_id t)
         \<and> t_cancel_requested_at t = None \<and> t_internal_state t \<noteq> Terminal))"

definition record_human_ruling :: "string \<Rightarrow> string \<Rightarrow> string \<Rightarrow> ('p sys, bool) comp" where
  "record_human_ruling rid tid ruling =
     (case parse_ruling ruling of
        None \<Rightarrow> raise_err (ValueError ''Unknown human ruling'')
      | Some d \<Rightarrow> (\<lambda>s.
          case find (ruling_row s rid tid) (approvals s) of
            None \<Rightarrow> (Inr False, s)
          | Some row \<Rightarrow>
              if r_human_ruling row \<noteq> None then (Inr (r_human_ruling row = Some d), s)
              else if r_status row \<noteq> Pending \<or> \<not> truthy (r_review_object_key row) then (Inr False, s)
              else (Inr True, s\<lparr>approvals := upd_rows (\<lambda>r. r_request_id r = rid)
                     (\<lambda>r. r\<lparr>r_human_ruling := Some d, r_updated_at := clock s\<rparr>) (approvals s)\<rparr>)))"

section \<open>The scheduler lease\<close>

definition claimable :: "int \<Rightarrow> string \<Rightarrow> context_row \<Rightarrow> bool" where
  "claimable now cid c = (c_context_id c = cid \<and> (c_scheduler_claim_id c = None \<or>
     (case c_scheduler_lease_expires_at c of None \<Rightarrow> False | Some t \<Rightarrow> t \<le> now)))"

text \<open>The claim identifier is a fresh UUID; \<open>lease\<close> is in seconds (60 by default).\<close>

definition claim_scheduler :: "string \<Rightarrow> string \<Rightarrow> int \<Rightarrow> ('p sys, string option) comp" where
  "claim_scheduler claim cid lease = (\<lambda>s.
     let p = claimable (clock s) cid;
         f = (\<lambda>c. c\<lparr>c_scheduler_claim_id := Some claim,
               c_scheduler_lease_expires_at := Some (clock s + seconds lease)\<rparr>) in
     case returning p f (contexts s) of
       None \<Rightarrow> (Inr None, s)
     | Some _ \<Rightarrow> (Inr (Some claim), s\<lparr>contexts := upd_rows p f (contexts s)\<rparr>))"

definition release_scheduler :: "string \<Rightarrow> string \<Rightarrow> ('p sys, bool) comp" where
  "release_scheduler cid claim = (\<lambda>s.
     let p = (\<lambda>c. c_context_id c = cid \<and> c_scheduler_claim_id c = Some claim);
         f = (\<lambda>c. c\<lparr>c_scheduler_claim_id := None, c_scheduler_lease_expires_at := None\<rparr>) in
     (Inr (find p (contexts s) \<noteq> None), s\<lparr>contexts := upd_rows p f (contexts s)\<rparr>))"

section \<open>Writes fenced by the lease\<close>

text \<open>
  \<open>_fenced_update\<close> takes keyword arguments; a keyword is a constructor here, and one outside
  the table's \<open>allowed\<close> set is \<open>Other_ctx\<close> or \<open>Other_task\<close>.
\<close>

datatype ctx_field =
    Set_cma_session_id "string option"
  | Set_lifecycle_state lifecycle
  | Set_active_task_id "string option"
  | Other_ctx string

datatype task_field =
    Set_a2a_state a2a_state
  | Set_internal_state internal_state
  | Set_cma_input_event_id "string option"
  | Set_input_object_key "string option"
  | Set_cma_predecessor_event_id "string option"
  | Set_cma_terminal_event_id "string option"
  | Set_dispatch_attempts "int option"
  | Set_dispatch_attempted_at "int option"
  | Set_next_dispatch_at "int option"
  | Set_cancel_requested_at "int option"
  | Set_cancel_attempted_at "int option"
  | Set_held_reason "string option"
  | Other_task string

fun allowed_ctx :: "ctx_field \<Rightarrow> bool" where
  "allowed_ctx (Other_ctx _) = False"
| "allowed_ctx _ = True"

fun allowed_task :: "task_field \<Rightarrow> bool" where
  "allowed_task (Other_task _) = False"
| "allowed_task _ = True"

fun set_ctx :: "ctx_field \<Rightarrow> context_row \<Rightarrow> context_row" where
  "set_ctx (Set_cma_session_id v) c = c\<lparr>c_cma_session_id := v\<rparr>"
| "set_ctx (Set_lifecycle_state v) c = c\<lparr>c_lifecycle_state := v\<rparr>"
| "set_ctx (Set_active_task_id v) c = c\<lparr>c_active_task_id := v\<rparr>"
| "set_ctx (Other_ctx _) c = c"

fun set_task :: "task_field \<Rightarrow> task_row \<Rightarrow> task_row" where
  "set_task (Set_a2a_state v) t = t\<lparr>t_a2a_state := v\<rparr>"
| "set_task (Set_internal_state v) t = t\<lparr>t_internal_state := v\<rparr>"
| "set_task (Set_cma_input_event_id v) t = t\<lparr>t_cma_input_event_id := v\<rparr>"
| "set_task (Set_input_object_key v) t = t\<lparr>t_input_object_key := v\<rparr>"
| "set_task (Set_cma_predecessor_event_id v) t = t\<lparr>t_cma_predecessor_event_id := v\<rparr>"
| "set_task (Set_cma_terminal_event_id v) t = t\<lparr>t_cma_terminal_event_id := v\<rparr>"
| "set_task (Set_dispatch_attempts v) t = t\<lparr>t_dispatch_attempts := v\<rparr>"
| "set_task (Set_dispatch_attempted_at v) t = t\<lparr>t_dispatch_attempted_at := v\<rparr>"
| "set_task (Set_next_dispatch_at v) t = t\<lparr>t_next_dispatch_at := v\<rparr>"
| "set_task (Set_cancel_requested_at v) t = t\<lparr>t_cancel_requested_at := v\<rparr>"
| "set_task (Set_cancel_attempted_at v) t = t\<lparr>t_cancel_attempted_at := v\<rparr>"
| "set_task (Set_held_reason v) t = t\<lparr>t_held_reason := v\<rparr>"
| "set_task (Other_task _) t = t"

definition update_context :: "string \<Rightarrow> string \<Rightarrow> ctx_field list \<Rightarrow> ('p sys, context_row) comp" where
  "update_context cid claim flds =
     (if flds = [] \<or> \<not> list_all allowed_ctx flds
      then raise_err (ValueError ''Unsupported controller update'')
      else (\<lambda>s.
        let p = (\<lambda>c. c_context_id c = cid \<and> lease_live s cid claim);
            f = (\<lambda>c. (fold set_ctx flds c)\<lparr>c_updated_at := clock s\<rparr>) in
        case returning p f (contexts s) of
          None \<Rightarrow> (Inl (LostSchedulerClaim cid), s)
        | Some row \<Rightarrow> bnd (write_contexts (upd_rows p f (contexts s))) (\<lambda>_. ret row) s))"

definition update_task :: "string \<Rightarrow> string \<Rightarrow> string \<Rightarrow> task_field list \<Rightarrow> ('p sys, task_row) comp" where
  "update_task tid cid claim flds =
     (if flds = [] \<or> \<not> list_all allowed_task flds
      then raise_err (ValueError ''Unsupported controller update'')
      else (\<lambda>s.
        let p = (\<lambda>t. t_task_id t = tid \<and> lease_live s cid claim);
            f = (\<lambda>t. (fold set_task flds t)\<lparr>t_updated_at := clock s\<rparr>) in
        case returning p f (tasks s) of
          None \<Rightarrow> (Inl (LostSchedulerClaim cid), s)
        | Some row \<Rightarrow> (Inr row, s\<lparr>tasks := upd_rows p f (tasks s)\<rparr>)))"

section \<open>Task queries\<close>

definition list_tasks :: "string \<Rightarrow> int \<Rightarrow> int \<Rightarrow> 'p sys \<Rightarrow> task_row list" where
  "list_tasks cid after_sequence limit s =
     take (nat limit) (sort_key t_sequence
       (filter (\<lambda>t. t_context_id t = cid \<and> t_sequence t > after_sequence) (tasks s)))"

definition count_tasks :: "string \<Rightarrow> 'p sys \<Rightarrow> int" where
  "count_tasks cid s = int (length (filter (\<lambda>t. t_context_id t = cid) (tasks s)))"

definition pending_input_keys :: "'p sys \<Rightarrow> string list" where
  "pending_input_keys s =
     List.map_filter t_input_object_key (tasks s)
     @ List.map_filter r_decision_reason_object_key (filter (\<lambda>r. r_status r \<noteq> Resolved) (approvals s))
     @ List.map_filter r_review_object_key (filter (\<lambda>r. r_status r \<noteq> Resolved \<and>
         list_ex (\<lambda>t. t_task_id t = r_task_id r \<and> t_internal_state t \<noteq> Terminal) (tasks s)) (approvals s))
     @ List.map_filter q_answer_object_key (filter (\<lambda>q. q_status q \<noteq> Resolved) (clarifications s))"

definition stale_pending_input_count :: "'p sys \<Rightarrow> int" where
  "stale_pending_input_count s = int (length (filter (\<lambda>t. t_input_object_key t \<noteq> None
     \<and> t_internal_state t \<noteq> Terminal \<and> t_created_at t < clock s - seconds 86400) (tasks s)))"

definition list_held_tasks :: "'p sys \<Rightarrow> task_row list" where
  "list_held_tasks s = sort_key (\<lambda>t. (t_created_at t, t_task_id t))
     (filter (\<lambda>t. t_held_reason t \<noteq> None \<and> t_internal_state t \<noteq> Terminal) (tasks s))"

definition next_queued :: "string \<Rightarrow> 'p sys \<Rightarrow> task_row option" where
  "next_queued cid s = (case sort_key t_sequence
      (filter (\<lambda>t. t_context_id t = cid \<and> t_internal_state t = Queued) (tasks s)) of
      [] \<Rightarrow> None | t # _ \<Rightarrow> Some t)"

section \<open>Held tasks, activation, cancellation\<close>

text \<open>The task joined with its context, under the caller's live claim.\<close>

definition held_join :: "'p sys \<Rightarrow> string \<Rightarrow> string \<Rightarrow> (task_row \<times> context_row) option" where
  "held_join s tid claim = find (\<lambda>(t, c). t_task_id t = tid \<and> c_context_id c = t_context_id t
      \<and> lease_held (clock s) claim c) (List.product (tasks s) (contexts s))"

definition retryable :: "task_row \<Rightarrow> context_row \<Rightarrow> bool" where
  "retryable task ctx = (t_held_reason task \<in> {Some ''ambiguous-send'', Some ''ambiguous-dispatch''}
     \<and> t_cma_input_event_id task = None \<and> c_cma_session_id ctx \<noteq> None
     \<and> t_cancel_requested_at task = None)"

definition resolved_task :: "string \<Rightarrow> int \<Rightarrow> task_row \<Rightarrow> task_row" where
  "resolved_task resolution now t =
     (if resolution = ''retry''
      then t\<lparr>t_internal_state := Queued, t_a2a_state := SUBMITTED, t_held_reason := None,
             t_cma_predecessor_event_id := None, t_dispatch_attempted_at := None,
             t_next_dispatch_at := None, t_updated_at := now\<rparr>
      else t\<lparr>t_internal_state := Terminal, t_a2a_state := FAILED, t_held_reason := None,
             t_updated_at := now\<rparr>)"

definition resolved_context :: "string \<Rightarrow> int \<Rightarrow> context_row \<Rightarrow> context_row" where
  "resolved_context resolution now c = c\<lparr>c_active_task_id := None,
     c_lifecycle_state := (if resolution = ''fail'' \<and> c_cma_session_id c = None then Failed else c_lifecycle_state c),
     c_updated_at := now\<rparr>"

definition resolve_held_task :: "string \<Rightarrow> string \<Rightarrow> string \<Rightarrow> ('p sys, string) comp" where
  "resolve_held_task tid claim resolution =
     (if resolution \<noteq> ''fail'' \<and> resolution \<noteq> ''retry''
      then raise_err (ValueError ''Unsupported held-task resolution'')
      else (\<lambda>s. case held_join s tid claim of
        None \<Rightarrow> (Inl (ValueError ''Task is not an active held task''), s)
      | Some (task, ctx) \<Rightarrow>
         if t_internal_state task = Terminal \<or> \<not> truthy (t_held_reason task)
            \<or> py_str (c_active_task_id ctx) \<noteq> tid
         then (Inl (ValueError ''Task is not an active held task''), s)
         else if resolution = ''retry'' \<and> \<not> retryable task ctx
         then (Inl (ValueError ''This held operation cannot be retried''), s)
         else
           let cid = t_context_id task;
               pc = (\<lambda>c. c_context_id c = cid \<and> lease_held (clock s) claim c) in
           if length (filter pc (contexts s)) \<noteq> 1 then (Inl (LostSchedulerClaim cid), s)
           else (Inr cid, s\<lparr>
                   contexts := upd_rows pc (resolved_context resolution (clock s)) (contexts s),
                   tasks := upd_rows (\<lambda>t. t_task_id t = tid) (resolved_task resolution (clock s)) (tasks s)\<rparr>)))"

lemma resolve_held_task_cases:
  obtains (error) e where "resolve_held_task tid claim res s = (Inl e, s)"
  | (resolved) task ctx pc where "held_join s tid claim = Some (task, ctx)"
      "res \<in> {''fail'', ''retry''}" "t_internal_state task \<noteq> Terminal" "truthy (t_held_reason task)"
      "py_str (c_active_task_id ctx) = tid" "res = ''retry'' \<Longrightarrow> retryable task ctx"
      "pc = (\<lambda>c. c_context_id c = t_context_id task \<and> lease_held (clock s) claim c)"
      "resolve_held_task tid claim res s = (Inr (t_context_id task), s\<lparr>
         contexts := upd_rows pc (resolved_context res (clock s)) (contexts s),
         tasks := upd_rows (\<lambda>t. t_task_id t = tid) (resolved_task res (clock s)) (tasks s)\<rparr>)"
proof (cases "\<exists>e. resolve_held_task tid claim res s = (Inl e, s)")
  case True
  then show ?thesis using error by blast
next
  case False
  then obtain task ctx where j: "held_join s tid claim = Some (task, ctx)"
    by (fastforce simp: resolve_held_task_def raise_err_def split: if_splits option.splits)
  from False j show ?thesis
    by (intro resolved [of task ctx])
       (auto simp: resolve_held_task_def raise_err_def Let_def split: if_splits)
qed

definition activate_task :: "string \<Rightarrow> string \<Rightarrow> string \<Rightarrow> string option \<Rightarrow> ('p sys, task_row) comp" where
  "activate_task cid tid claim predecessor = transaction (\<lambda>s.
     let pc = (\<lambda>c. c_context_id c = cid \<and> lease_held (clock s) claim c \<and> c_active_task_id c = None);
         fc = (\<lambda>c. c\<lparr>c_active_task_id := Some tid, c_updated_at := clock s\<rparr>);
         pt = (\<lambda>t. t_task_id t = tid \<and> t_context_id t = cid \<and> t_internal_state t = Queued);
         ft = (\<lambda>t. t\<lparr>t_internal_state := Dispatching, t_cma_predecessor_event_id := predecessor,
                t_dispatch_attempts := Some (the (coalesce (t_dispatch_attempts t) (Some 0)) + 1),
                t_dispatch_attempted_at := Some (clock s), t_updated_at := clock s\<rparr>) in
     case returning pc fc (contexts s) of
       None \<Rightarrow> (Inl (LostSchedulerClaim cid), s)
     | Some _ \<Rightarrow>
         let s' = s\<lparr>contexts := upd_rows pc fc (contexts s)\<rparr> in
         (case returning pt ft (tasks s') of
            None \<Rightarrow> (Inl (LostSchedulerClaim cid), s')
          | Some row \<Rightarrow> (Inr row, s'\<lparr>tasks := upd_rows pt ft (tasks s')\<rparr>)))"

definition cancel_task :: "string \<Rightarrow> ('p sys, task_row option) comp" where
  "cancel_task tid = (\<lambda>s.
     let pq = (\<lambda>t. t_task_id t = tid \<and> t_internal_state t = Queued);
         fq = (\<lambda>t. t\<lparr>t_a2a_state := CANCELED, t_internal_state := Terminal, t_updated_at := clock s\<rparr>);
         pr = (\<lambda>t. t_task_id t = tid \<and> t_internal_state t \<noteq> Terminal);
         fr = (\<lambda>t. t\<lparr>t_cancel_requested_at := coalesce (t_cancel_requested_at t) (Some (clock s)),
                t_updated_at := clock s\<rparr>) in
     case returning pq fq (tasks s) of
       Some row \<Rightarrow> (Inr (Some row), s\<lparr>tasks := upd_rows pq fq (tasks s)\<rparr>)
     | None \<Rightarrow>
         (case returning pr fr (tasks s) of
            Some row \<Rightarrow> (Inr (Some row), s\<lparr>tasks := upd_rows pr fr (tasks s)\<rparr>)
          | None \<Rightarrow> (Inr (get_task tid s), s)))"

section \<open>Human-input requests\<close>

definition new_approval :: "string \<Rightarrow> string \<Rightarrow> string \<Rightarrow> int \<Rightarrow> approval_row" where
  "new_approval rid tid ev t = \<lparr>r_request_id = rid, r_task_id = tid, r_cma_event_id = ev, r_status = Pending,
     r_decision = None, r_confirmation_attempted_at = None, r_decision_reason_object_key = None,
     r_review_digest = None, r_review_authority = None, r_review_object_key = None, r_human_ruling = None,
     r_created_at = t, r_updated_at = t, r_resolved_at = None\<rparr>"

definition new_clarification :: "string \<Rightarrow> string \<Rightarrow> string \<Rightarrow> int \<Rightarrow> clarification_row" where
  "new_clarification rid tid ev t = \<lparr>q_request_id = rid, q_task_id = tid, q_cma_event_id = ev,
     q_status = Pending, q_answer_object_key = None, q_response_attempted_at = None,
     q_created_at = t, q_updated_at = t, q_resolved_at = None\<rparr>"

text \<open>
  \<^verbatim>\<open>INSERT .. SELECT .. FROM cma_contexts WHERE <live lease> ON CONFLICT (task_id, cma_event_id)
  DO NOTHING\<close>: without the lease nothing is selected.
\<close>

definition add_input_request :: "string \<Rightarrow> string \<Rightarrow> string \<Rightarrow> string \<Rightarrow> string \<Rightarrow> ('p sys, unit) comp" where
  "add_input_request rid tid ev cid claim = (\<lambda>s.
     if \<not> lease_live s cid claim then (Inr (), s)
     else if (tid, ev) \<in> set (map (\<lambda>r. (r_task_id r, r_cma_event_id r)) (approvals s)) then (Inr (), s)
     else if rid \<in> set (map r_request_id (approvals s)) then (Inl UniqueViolation, s)
     else if tid \<notin> set (map t_task_id (tasks s)) then (Inl (ExternalError ''ForeignKeyViolation''), s)
     else (Inr (), s\<lparr>approvals := approvals s @ [new_approval rid tid ev (clock s)]\<rparr>))"

definition add_clarification_request :: "string \<Rightarrow> string \<Rightarrow> string \<Rightarrow> string \<Rightarrow> string \<Rightarrow> ('p sys, unit) comp" where
  "add_clarification_request rid tid ev cid claim = (\<lambda>s.
     if \<not> lease_live s cid claim then (Inr (), s)
     else if (tid, ev) \<in> set (map (\<lambda>q. (q_task_id q, q_cma_event_id q)) (clarifications s)) then (Inr (), s)
     else if rid \<in> set (map q_request_id (clarifications s)) then (Inl UniqueViolation, s)
     else if tid \<notin> set (map t_task_id (tasks s)) then (Inl (ExternalError ''ForeignKeyViolation''), s)
     else (Inr (), s\<lparr>clarifications := clarifications s @ [new_clarification rid tid ev (clock s)]\<rparr>))"

definition request_order :: "request_row \<Rightarrow> int \<times> string" where
  "request_order r = (req_created_at r, req_request_id r)"

definition list_input_requests :: "string \<Rightarrow> 'p sys \<Rightarrow> request_row list" where
  "list_input_requests tid s = sort_key request_order
     (sort_key request_order (map Approval (filter (\<lambda>r. r_task_id r = tid) (approvals s)))
      @ sort_key request_order (map Clarification (filter (\<lambda>q. q_task_id q = tid) (clarifications s))))"

definition get_input_request :: "string \<Rightarrow> string \<Rightarrow> 'p sys \<Rightarrow> request_row option" where
  "get_input_request rid tid s =
     (case find (\<lambda>r. r_request_id r = rid \<and> r_task_id r = tid) (approvals s) of
        Some r \<Rightarrow> Some (Approval r)
      | None \<Rightarrow> map_option Clarification
          (find (\<lambda>q. q_request_id q = rid \<and> q_task_id q = tid) (clarifications s)))"

definition decide_clarification_request :: "string \<Rightarrow> string \<Rightarrow> string
    \<Rightarrow> ('p sys, clarification_row option) comp" where
  "decide_clarification_request rid tid answer_key = (\<lambda>s.
     let p = (\<lambda>q. q_request_id q = rid \<and> q_task_id q = tid \<and> q_status q = Pending \<and>
               list_ex (\<lambda>t. t_task_id t = q_task_id q \<and>
                 (t_internal_state t = Input_required \<or> t_cancel_requested_at t \<noteq> None)) (tasks s));
         f = (\<lambda>q. q\<lparr>q_status := Resolving, q_answer_object_key := Some answer_key, q_updated_at := clock s\<rparr>) in
     case returning p f (clarifications s) of
       Some row \<Rightarrow> (Inr (Some row), s\<lparr>clarifications := upd_rows p f (clarifications s)\<rparr>)
     | None \<Rightarrow> (Inr (find (\<lambda>q. q_request_id q = rid \<and> q_task_id q = tid) (clarifications s)), s))"

definition clarification_guard :: "'p sys \<Rightarrow> string \<Rightarrow> string \<Rightarrow> string \<Rightarrow> clarification_row \<Rightarrow> bool" where
  "clarification_guard s rid cid claim q = (q_request_id q = rid \<and> q_status q = Resolving
     \<and> q_response_attempted_at q = None \<and>
     exists_task_context s (q_task_id q) (\<lambda>t c. c_context_id c = cid \<and> lease_held (clock s) claim c))"

definition mark_clarification_attempted :: "string \<Rightarrow> string \<Rightarrow> string \<Rightarrow> ('p sys, bool) comp" where
  "mark_clarification_attempted rid cid claim = (\<lambda>s.
     let p = clarification_guard s rid cid claim;
         f = (\<lambda>q. q\<lparr>q_response_attempted_at := Some (clock s)\<rparr>) in
     (Inr (find p (clarifications s) \<noteq> None), s\<lparr>clarifications := upd_rows p f (clarifications s)\<rparr>))"

definition deny_cancelled_input_request :: "string \<Rightarrow> string \<Rightarrow> string \<Rightarrow> ('p sys, unit) comp" where
  "deny_cancelled_input_request rid cid claim = (\<lambda>s.
     let p = (\<lambda>r. r_request_id r = rid \<and> r_status r \<in> {Pending, Resolving}
               \<and> r_confirmation_attempted_at r = None \<and>
               exists_task_context s (r_task_id r) (\<lambda>t c. t_cancel_requested_at t \<noteq> None
                 \<and> c_active_task_id c = Some (t_task_id t) \<and> t_internal_state t \<noteq> Terminal
                 \<and> c_context_id c = cid \<and> lease_held (clock s) claim c));
         f = (\<lambda>r. r\<lparr>r_status := Resolving, r_decision := Some Deny, r_updated_at := clock s\<rparr>) in
     (Inr (), s\<lparr>approvals := upd_rows p f (approvals s)\<rparr>))"

definition resolve_input_request :: "string \<Rightarrow> string \<Rightarrow> string \<Rightarrow> ('p sys, unit) comp" where
  "resolve_input_request rid cid claim = (\<lambda>s.
     let guard = (\<lambda>tid. exists_task_context s tid
               (\<lambda>t c. c_context_id c = cid \<and> lease_held (clock s) claim c));
         pr = (\<lambda>r. r_request_id r = rid \<and> r_status r = Resolving \<and> guard (r_task_id r));
         fr = (\<lambda>r. r\<lparr>r_status := Resolved, r_resolved_at := Some (clock s), r_updated_at := clock s\<rparr>);
         pq = (\<lambda>q. q_request_id q = rid \<and> q_status q = Resolving \<and> guard (q_task_id q));
         fq = (\<lambda>q. q\<lparr>q_status := Resolved, q_resolved_at := Some (clock s), q_updated_at := clock s\<rparr>) in
     (Inr (), s\<lparr>approvals := upd_rows pr fr (approvals s),
               clarifications := upd_rows pq fq (clarifications s)\<rparr>))"

definition confirmation_guard :: "'p sys \<Rightarrow> string \<Rightarrow> string \<Rightarrow> string \<Rightarrow> approval_row \<Rightarrow> bool" where
  "confirmation_guard s rid cid claim r = (r_request_id r = rid \<and> r_status r = Resolving
     \<and> r_confirmation_attempted_at r = None \<and>
     exists_task_context s (r_task_id r) (\<lambda>t c. c_context_id c = cid
       \<and> (r_decision r = Some Deny \<or> t_cancel_requested_at t = None) \<and> r_decision r \<noteq> None
       \<and> c_active_task_id c = Some (t_task_id t) \<and> t_internal_state t \<noteq> Terminal
       \<and> lease_held (clock s) claim c))"

definition mark_confirmation_attempted :: "string \<Rightarrow> string \<Rightarrow> string \<Rightarrow> ('p sys, bool) comp" where
  "mark_confirmation_attempted rid cid claim = (\<lambda>s.
     let p = confirmation_guard s rid cid claim;
         f = (\<lambda>r. r\<lparr>r_confirmation_attempted_at := Some (clock s)\<rparr>) in
     (Inr (find p (approvals s) \<noteq> None), s\<lparr>approvals := upd_rows p f (approvals s)\<rparr>))"

end
