(* ===== verification/Ports.thy ===== *)
theory Ports
  imports Schema "HOL-Library.AList"
begin

text \<open>
  The ports of the controller: the pending-input store (\<^verbatim>\<open>pending_input.py\<close>, a directory of
  files; \<^verbatim>\<open>pending_input_s3.py\<close>, an S3 bucket), the wakeup queues (\<^verbatim>\<open>trigger.py\<close>,
  \<^verbatim>\<open>push_trigger.py\<close>) and the provider adapter (\<^verbatim>\<open>provider.py\<close>), which turns an SDK error
  into a definitive or an ambiguous one. The objects of the store are an association list
  from keys to text and modification time. The interface both stores offer is the locale
  \<open>pending_input_store\<close>.
\<close>

section \<open>The file store\<close>

fun contains_sub :: "string \<Rightarrow> string \<Rightarrow> bool" where
  "contains_sub p [] = (p = [])"
| "contains_sub p (c # cs) = (starts_with p (c # cs) \<or> contains_sub p cs)"

definition file_key_ok :: "string \<Rightarrow> bool" where
  "file_key_ok key = (key \<noteq> [] \<and> \<not> contains_sub ''/'' key \<and> \<not> contains_sub ''..'' key)"

definition file_put :: "string \<Rightarrow> string \<Rightarrow> ('p sys, unit) comp" where
  "file_put key text = (\<lambda>s.
     if \<not> file_key_ok key then (Inl (ValueError ''Invalid pending-input key''), s)
     else if map_of (objects s) key \<noteq> None then (Inl (ExternalError ''FileExistsError''), s)
     else (Inr (), s\<lparr>objects := AList.update key (text, clock s) (objects s)\<rparr>))"

definition file_get :: "string \<Rightarrow> ('p sys, string) comp" where
  "file_get key = (\<lambda>s.
     if \<not> file_key_ok key then (Inl (ValueError ''Invalid pending-input key''), s)
     else case map_of (objects s) key of
       None \<Rightarrow> (Inl (ObjectNotFound key), s)
     | Some (text, _) \<Rightarrow> (Inr text, s))"

definition file_delete :: "string \<Rightarrow> ('p sys, unit) comp" where
  "file_delete key = (\<lambda>s.
     if \<not> file_key_ok key then (Inl (ValueError ''Invalid pending-input key''), s)
     else (Inr (), s\<lparr>objects := AList.delete key (objects s)\<rparr>))"

definition file_list_keys :: "'p sys \<Rightarrow> string list" where
  "file_list_keys s = sort (map fst (objects s))"

definition file_list_old_keys :: "int \<Rightarrow> 'p sys \<Rightarrow> string list" where
  "file_list_old_keys age s = sort (map fst (filter (\<lambda>(k, text, t). t < clock s - seconds age) (objects s)))"

section \<open>The S3 store\<close>

definition s3_put :: "string \<Rightarrow> string \<Rightarrow> ('p sys, unit) comp" where
  "s3_put key text = (\<lambda>s. (Inr (), s\<lparr>objects := AList.update key (text, clock s) (objects s)\<rparr>))"

definition s3_get :: "string \<Rightarrow> ('p sys, string) comp" where
  "s3_get key = (\<lambda>s. case map_of (objects s) key of
       None \<Rightarrow> (Inl (ObjectNotFound key), s)
     | Some (text, _) \<Rightarrow> (Inr text, s))"

definition s3_delete :: "string \<Rightarrow> ('p sys, unit) comp" where
  "s3_delete key = (\<lambda>s. (Inr (), s\<lparr>objects := AList.delete key (objects s)\<rparr>))"

text \<open>S3 lists the keys of a bucket in lexicographic order.\<close>

definition s3_list_keys :: "'p sys \<Rightarrow> string list" where
  "s3_list_keys s = sort (map fst (objects s))"

definition s3_list_old_keys :: "int \<Rightarrow> 'p sys \<Rightarrow> string list" where
  "s3_list_old_keys age s = sort (map fst (filter (\<lambda>(k, text, t). t < clock s - seconds age) (objects s)))"

section \<open>The interface of the stores\<close>

locale pending_input_store =
  fixes key_ok :: "string \<Rightarrow> bool"
    and put :: "string \<Rightarrow> string \<Rightarrow> ('p sys, unit) comp"
    and get :: "string \<Rightarrow> ('p sys, string) comp"
    and delete :: "string \<Rightarrow> ('p sys, unit) comp"
  assumes put_fresh: "key_ok k \<Longrightarrow> map_of (objects s) k = None \<Longrightarrow>
      \<exists>s'. put k x s = (Inr (), s') \<and> map_of (objects s') = (map_of (objects s))(k \<mapsto> (x, clock s))"
    and get_present: "key_ok k \<Longrightarrow> map_of (objects s) k = Some (x, t) \<Longrightarrow> get k s = (Inr x, s)"
    and get_absent: "map_of (objects s) k = None \<Longrightarrow> \<exists>e. get k s = (Inl e, s)"
    and delete_removes: "key_ok k \<Longrightarrow>
      \<exists>s'. delete k s = (Inr (), s') \<and> map_of (objects s') = (map_of (objects s))(k := None)"
begin

lemma put_get:
  assumes "key_ok k" "map_of (objects s) k = None"
  shows "fst (bnd (put k x) (\<lambda>_. get k) s) = Inr x"
proof -
  from put_fresh [OF assms] obtain s' where s': "put k x s = (Inr (), s')"
    and m: "map_of (objects s') = (map_of (objects s))(k \<mapsto> (x, clock s))"
    by blast
  from m have "map_of (objects s') k = Some (x, clock s)" by simp
  from get_present [OF assms(1) this] s' show ?thesis by (simp add: bnd_def)
qed

lemma put_delete:
  assumes "key_ok k" "map_of (objects s) k = None"
  shows "map_of (objects (snd (bnd (put k x) (\<lambda>_. delete k) s))) = map_of (objects s)"
proof -
  from put_fresh [OF assms] obtain s' where s': "put k x s = (Inr (), s')"
    and m: "map_of (objects s') = (map_of (objects s))(k \<mapsto> (x, clock s))"
    by blast
  from delete_removes [OF assms(1)] obtain s'' where s'': "delete k s' = (Inr (), s'')"
    and m': "map_of (objects s'') = (map_of (objects s'))(k := None)"
    by blast
  show ?thesis using assms(2) s' s'' m m' by (auto simp: bnd_def)
qed

end

interpretation file_store: pending_input_store file_key_ok file_put file_get file_delete
  by unfold_locales
     (auto simp: file_put_def file_get_def file_delete_def update_conv' delete_conv' split: if_splits)

interpretation s3_store: pending_input_store "\<lambda>_. True" s3_put s3_get s3_delete
  by unfold_locales (auto simp: s3_put_def s3_get_def s3_delete_def update_conv' delete_conv')

section \<open>Wakeups\<close>

definition schedule :: "string \<Rightarrow> string \<Rightarrow> int \<Rightarrow> ('p sys, unit) comp" where
  "schedule cid reason delay = (\<lambda>s.
     if cid = [] \<or> reason = [] \<or> \<not> (0 \<le> delay \<and> delay \<le> 900)
     then (Inl (ValueError ''Invalid scheduler wakeup''), s)
     else (Inr (), s\<lparr>wakeups := wakeups s @ [(cid, reason, delay)]\<rparr>))"

definition schedule_context :: "string \<Rightarrow> string \<Rightarrow> int \<Rightarrow> ('p sys, unit) comp" where
  "schedule_context cid reason delay = (\<lambda>s.
     if cid = [] \<or> reason = [] \<or> \<not> (0 \<le> delay \<and> delay \<le> 900)
     then (Inl (ValueError ''Invalid push wakeup''), s)
     else (Inr (), s\<lparr>push_wakeups := push_wakeups s @ [(cid, reason, delay)]\<rparr>))"

section \<open>The provider adapter\<close>

text \<open>A 4xx answer other than 408, 409 and 429 is a rejection without side effect.\<close>

definition definitive_status :: "int \<Rightarrow> bool" where
  "definitive_status st = (400 \<le> st \<and> st < 500 \<and> st \<notin> {408, 409, 429})"

fun classify :: "sdk_error \<Rightarrow> error" where
  "classify (Sdk_error (Some st) name) =
     (if definitive_status st then DefinitiveProviderError name else ProviderError name)"
| "classify (Sdk_error None name) = ProviderError name"

definition invoke :: "('p \<Rightarrow> (sdk_error + 'a) \<times> 'p) \<Rightarrow> ('p sys, 'a) comp" where
  "invoke f = on_outside (\<lambda>p. case f p of (Inl e, p') \<Rightarrow> (Inl (classify e), p') | (Inr x, p') \<Rightarrow> (Inr x, p'))"

definition create_session :: "'p env \<Rightarrow> string \<Rightarrow> string \<Rightarrow> string \<Rightarrow> ('p sys, string) comp" where
  "create_session E cid mid text = invoke (sdk_create_session (sdk_of E) cid mid text)"

definition find_session :: "'p env \<Rightarrow> string \<Rightarrow> string \<Rightarrow> ('p sys, string option) comp" where
  "find_session E cid mid = invoke (sdk_find_session (sdk_of E) cid mid)"

definition list_events :: "'p env \<Rightarrow> string \<Rightarrow> ('p sys, cma_event list) comp" where
  "list_events E sid = invoke (sdk_list_events (sdk_of E) sid)"

definition send_message :: "'p env \<Rightarrow> string \<Rightarrow> string \<Rightarrow> ('p sys, string option) comp" where
  "send_message E sid text = invoke (sdk_send_message (sdk_of E) sid text)"

definition confirm_tool :: "'p env \<Rightarrow> string \<Rightarrow> string \<Rightarrow> bool \<Rightarrow> string option \<Rightarrow> ('p sys, unit) comp" where
  "confirm_tool E sid tool approved reason = invoke (sdk_confirm_tool (sdk_of E) sid tool approved reason)"

definition send_custom_tool_result :: "'p env \<Rightarrow> string \<Rightarrow> string \<Rightarrow> string \<Rightarrow> bool \<Rightarrow> ('p sys, unit) comp" where
  "send_custom_tool_result E sid tool answer is_error =
     invoke (sdk_custom_tool_result (sdk_of E) sid tool answer is_error)"

definition interrupt :: "'p env \<Rightarrow> string \<Rightarrow> ('p sys, unit) comp" where
  "interrupt E sid = invoke (sdk_interrupt (sdk_of E) sid)"

lemmas provider_defs = create_session_def find_session_def list_events_def send_message_def
  confirm_tool_def send_custom_tool_result_def interrupt_def

text \<open>The ports leave the tables alone and do not turn the clock back.\<close>

definition same_tables :: "'p sys \<Rightarrow> 'p sys \<Rightarrow> bool" where
  "same_tables s s' = (contexts s' = contexts s \<and> tasks s' = tasks s \<and> approvals s' = approvals s
     \<and> clarifications s' = clarifications s \<and> push_configs s' = push_configs s \<and> clock s \<le> clock s')"

lemma port_same_tables:
  "keeps same_tables (s3_put k x)" "keeps same_tables (s3_get k)" "keeps same_tables (s3_delete k)"
  "keeps same_tables (schedule c r d)" "keeps same_tables (schedule_context c r d)"
  "keeps same_tables (invoke g)" "keeps same_tables (on_outside h)" "keeps same_tables (reads q)"
  by (auto intro!: keepsI simp: same_tables_def s3_put_def s3_get_def s3_delete_def schedule_def
      schedule_context_def invoke_def split: option.splits)

lemma provider_same_tables:
  "keeps same_tables (create_session E a b c)" "keeps same_tables (find_session E a b)"
  "keeps same_tables (list_events E a)" "keeps same_tables (send_message E a b)"
  "keeps same_tables (confirm_tool E a b d r)" "keeps same_tables (send_custom_tool_result E a b c e)"
  "keeps same_tables (interrupt E a)"
  by (simp_all add: provider_defs port_same_tables)

end
