(* ===== verification/Scheduler.thy ===== *)
theory Scheduler
  imports Runtime_Repository Ports
begin

text \<open>
  \<^verbatim>\<open>cma_controller/scheduler.py\<close>: one bounded, fenced reconciliation step for a context
  (class \<open>CmaScheduler\<close>). Every repository, store, queue and provider call is one atomic
  \<open>step\<close> of the worker, between which other actors may run. The worker's observation log
  records the calls with an outside effect and the grants that precede them; logging and
  timing events of the source are not modelled. The preview hints of a run, a context
  variable in the source, are the local state of the worker.
\<close>

type_synonym hints = "(string \<times> preview_hint) list option"

datatype sched_obs =
    Create_session string string
  | Send_message string string
  | Confirm_granted string string ruling
  | Confirm_tool string string bool
  | Result_granted string string
  | Tool_result string string
  | Interrupt_session string
  | Preview_start preview_hint

type_synonym 'p worker = "('p sys, hints, sched_obs) run"

abbreviation step :: "'p env \<Rightarrow> ('p sys, 'a) comp \<Rightarrow> ('p worker, 'a) comp" where
  "step E f \<equiv> call (rt_of E) f"

section \<open>Reading provider history\<close>

definition approval_request_id :: "'p env \<Rightarrow> string \<Rightarrow> string \<Rightarrow> string" where
  "approval_request_id E tid ev = uuid5_url E (''human-input:'' @ tid @ '':'' @ ev)"

text \<open>The events after the first one with the given identifier; all of them without one.\<close>

fun after_id :: "string option \<Rightarrow> cma_event list \<Rightarrow> cma_event list" where
  "after_id i [] = []"
| "after_id i (e # es) = (if e_id e = i then es else after_id i es)"

definition after_events :: "cma_event list \<Rightarrow> string option \<Rightarrow> cma_event list" where
  "after_events events i = (if \<not> truthy i then events else after_id i events)"

definition is_status :: "cma_event \<Rightarrow> bool" where
  "is_status e = (let ty = (case e_type e of None \<Rightarrow> [] | Some t \<Rightarrow> t) in
     starts_with ''session.status_'' ty \<or> starts_with ''session.thread_status_'' ty
     \<or> ty = ''session.budget_reached'')"

definition latest_status :: "cma_event list \<Rightarrow> cma_event option" where
  "latest_status events = find is_status (rev events)"

definition status_kind :: "cma_event \<Rightarrow> string" where
  "status_kind e = replace_all ''thread_status'' ''status'' (py_str (e_type e))"

definition events_by_id :: "cma_event list \<Rightarrow> (string \<times> cma_event) list" where
  "events_by_id events = fold (\<lambda>e m. AList.update (py_str (e_id e)) e m) events []"

fun position :: "string \<Rightarrow> string list \<Rightarrow> nat" where
  "position k [] = 0"
| "position k (x # xs) = (if x = k then 0 else Suc (position k xs))"

section \<open>Sweeping orphaned objects\<close>

definition sweep_orphans :: "'p env \<Rightarrow> ('p worker, int \<times> int) comp" where
  "sweep_orphans E =
     bnd (step E (reads pending_input_keys)) (\<lambda>referenced.
     bnd (step E (reads (s3_list_old_keys 86400))) (\<lambda>old.
     let orphans = filter (\<lambda>k. k \<notin> set referenced) old in
     bnd (for_m orphans (\<lambda>k. step E (s3_delete k))) (\<lambda>_.
     bnd (step E (reads stale_pending_input_count)) (\<lambda>stale.
     ret (int (length orphans), stale)))))"

section \<open>Preview hints\<close>

definition preview_allowed :: "string \<Rightarrow> context_row option \<Rightarrow> task_row option \<Rightarrow> bool" where
  "preview_allowed tid ctx task = (case (ctx, task) of
      (Some c, Some t) \<Rightarrow> truthy (c_cma_session_id c) \<and> py_str (c_active_task_id c) = tid
        \<and> t_cancel_requested_at t = None \<and> t_internal_state t \<noteq> Terminal
    | _ \<Rightarrow> False)"

definition preview :: "'p env \<Rightarrow> string \<Rightarrow> string \<Rightarrow> string \<Rightarrow> ('p worker, unit) comp" where
  "preview E tid cid phase = bnd get_locals (\<lambda>hints.
     if preview_of E = None \<or> hints = None then ret ()
     else try_except
       (bnd (step E (reads (get_context cid))) (\<lambda>ctx.
        bnd (step E (reads (get_task tid))) (\<lambda>task.
        if preview_allowed tid ctx task
        then set_locals (Some (AList.update tid
               \<lparr>h_task_id = tid, h_context_id = cid,
                h_session_id = py_str (c_cma_session_id (the ctx)), h_phase_id = phase\<rparr> (the hints)))
        else ret ())))
       (except_exception (\<lambda>_. ret ())))"

definition resolve_input :: "'p env \<Rightarrow> request_row \<Rightarrow> string \<Rightarrow> string \<Rightarrow> ('p worker, unit) comp" where
  "resolve_input E request cid claim = (let rid = req_request_id request; tid = req_task_id request in
     bnd (step E (resolve_input_request rid cid claim)) (\<lambda>_.
     if preview_of E = None then ret ()
     else try_except
       (bnd (step E (reads (get_input_request rid tid))) (\<lambda>current.
        case current of
          Some row \<Rightarrow> if req_status row = Resolved then preview E tid cid rid else ret ()
        | None \<Rightarrow> ret ()))
       (except_exception (\<lambda>_. ret ()))))"

section \<open>Finishing and binding a task\<close>

definition finish :: "'p env \<Rightarrow> string \<Rightarrow> string \<Rightarrow> string \<Rightarrow> a2a_state \<Rightarrow> string \<Rightarrow> ('p worker, unit) comp" where
  "finish E cid tid claim state terminal_event =
     bnd (step E (update_task tid cid claim
       [Set_internal_state Terminal, Set_a2a_state state,
        Set_cma_terminal_event_id (if terminal_event = [] then None else Some terminal_event),
        Set_held_reason None])) (\<lambda>_.
     bnd (step E (update_context cid claim [Set_active_task_id None])) (\<lambda>_. ret ()))"

definition hold :: "'p env \<Rightarrow> string \<Rightarrow> string \<Rightarrow> string \<Rightarrow> string option \<Rightarrow> ('p worker, unit) comp" where
  "hold E tid cid claim reason =
     bnd (step E (update_task tid cid claim [Set_held_reason reason])) (\<lambda>_. ret ())"

text \<open>The provider has rejected an operation for good: the context fails with the task.\<close>

definition fail_context :: "'p env \<Rightarrow> string \<Rightarrow> string \<Rightarrow> string \<Rightarrow> ('p worker, unit) comp" where
  "fail_context E cid tid claim =
     bnd (step E (update_context cid claim [Set_lifecycle_state Failed])) (\<lambda>_.
     finish E cid tid claim FAILED [])"

definition bind_input :: "'p env \<Rightarrow> task_row \<Rightarrow> string \<Rightarrow> string \<Rightarrow> string \<Rightarrow> ('p worker, unit) comp" where
  "bind_input E task cid claim event_id =
     bnd (step E (update_task (t_task_id task) cid claim
       [Set_cma_input_event_id (Some event_id), Set_input_object_key None, Set_internal_state Waiting,
        Set_a2a_state WORKING, Set_held_reason None])) (\<lambda>_.
     bnd (preview E (t_task_id task) cid event_id) (\<lambda>_.
     if truthy (t_input_object_key task)
     then try_except (step E (s3_delete (py_str (t_input_object_key task))))
            (except_exception (\<lambda>_. ret ()))
     else ret ()))"

section \<open>Policy evaluation\<close>

definition is_human_pending :: "request_row \<Rightarrow> bool" where
  "is_human_pending row = ((is_clarification row \<and> req_status row \<noteq> Resolved)
     \<or> (truthy (req_review_digest row) \<and> req_human_ruling row = None \<and> req_status row = Pending))"

definition set_waiting_state :: "'p env \<Rightarrow> string \<Rightarrow> string \<Rightarrow> string \<Rightarrow> ('p worker, unit) comp" where
  "set_waiting_state E cid tid claim =
     bnd (step E (reads (list_input_requests tid))) (\<lambda>rows.
     let human_pending = list_ex is_human_pending rows in
     bnd (step E (update_task tid cid claim
       [Set_internal_state (if human_pending then Input_required else Waiting),
        Set_a2a_state (if human_pending then INPUT_REQUIRED else WORKING)])) (\<lambda>_. ret ()))"

definition policy_rows :: "(string \<times> cma_event) list \<Rightarrow> request_row list \<Rightarrow> request_row list" where
  "policy_rows by_id rows = sort_key (\<lambda>row. position (req_cma_event_id row) (map fst by_id)) rows"

text \<open>The tool request a provider event describes, or the policy error that it does not.\<close>

definition policy_request :: "'p env \<Rightarrow> string \<Rightarrow> approval_row \<Rightarrow> cma_event option \<Rightarrow> error + tool_policy_request" where
  "policy_request E cid row source = (case source of
      None \<Rightarrow> Inl (PolicyError ''policy-invalid-request'')
    | Some e \<Rightarrow> (case e_name e of
        Some (JStr nm) \<Rightarrow>
          (case (case e_input e of None \<Rightarrow> Some [] | Some JNull \<Rightarrow> Some []
                 | Some (JObj kvs) \<Rightarrow> Some kvs | Some _ \<Rightarrow> None) of
             None \<Rightarrow> Inl (PolicyError ''policy-invalid-request'')
           | Some args \<Rightarrow> (case e_type e of
               None \<Rightarrow> Inl (KeyError ''type'')
             | Some ty \<Rightarrow>
                 let kind = (if ty = ''agent.mcp_tool_use'' then Mcp else Builtin);
                     mk = (\<lambda>name. \<lparr>root_id = cid, invocation_id = r_cma_event_id row,
                            agent_id = app_name (config_of E), tool_kind_of = kind, tool_name = name,
                            arguments = args\<rparr>) in
                 if kind = Mcp \<and> \<not> starts_with ''mcp/'' nm
                 then (case e_mcp_server_name e of
                         Some (JStr server) \<Rightarrow>
                           if server = [] then Inl (PolicyError ''policy-invalid-request'')
                           else Inr (mk (''mcp/'' @ server @ ''/'' @ nm))
                       | _ \<Rightarrow> Inl (PolicyError ''policy-invalid-request''))
                 else Inr (mk nm)))
      | _ \<Rightarrow> Inl (PolicyError ''policy-invalid-request'')))"

text \<open>Asking the policy engine: a ruling a human has given is resolved, anything else evaluated.\<close>

definition ask_policy :: "'p env \<Rightarrow> 'p policy_engine \<Rightarrow> approval_row \<Rightarrow> tool_policy_request \<Rightarrow> int
    \<Rightarrow> ('p worker, tool_policy_decision) comp" where
  "ask_policy E pe row request remaining = step E (on_outside
     (case r_human_ruling row of
        Some ruling \<Rightarrow> resolve_tool_call pe request
          \<lparr>hr_authority = py_str (r_review_authority row), hr_fingerprint = py_str (r_review_digest row),
           hr_description = []\<rparr> ruling remaining
      | None \<Rightarrow> evaluate_tool_call pe request remaining))"

definition publish_review :: "'p env \<Rightarrow> string \<Rightarrow> string \<Rightarrow> string \<Rightarrow> approval_row \<Rightarrow> string option
    \<Rightarrow> string option \<Rightarrow> string option \<Rightarrow> ('p worker, unit) comp" where
  "publish_review E cid tid claim row digest authority key =
     bnd (fresh_uuid (rt_of E)) (\<lambda>new_id.
     step E (record_human_review new_id cid tid claim (r_request_id row) digest authority key))"

text \<open>The body of the \<open>try\<close> block for one pending row.\<close>

definition evaluate_row :: "'p env \<Rightarrow> string \<Rightarrow> string \<Rightarrow> string \<Rightarrow> (string \<times> cma_event) list \<Rightarrow> int
    \<Rightarrow> approval_row \<Rightarrow> ('p worker, unit) comp" where
  "evaluate_row E cid tid claim by_id remaining row =
     (case policy_of E of
        None \<Rightarrow> raise_err (PolicyError ''policy-unavailable'')
      | Some pe \<Rightarrow>
     (case policy_request E cid row (map_of by_id (r_cma_event_id row)) of
        Inl e \<Rightarrow> raise_err e
      | Inr request \<Rightarrow>
     bnd (ask_policy E pe row request remaining) (\<lambda>d.
     if d_decision d = ''human_review'' then
       (case d_review d of
          None \<Rightarrow> raise_err (PolicyError ''policy-invalid-response'')
        | Some review \<Rightarrow>
            bnd (if Some (hr_fingerprint review) \<noteq> r_review_digest row
                 then bnd (fresh_uuid (rt_of E)) (\<lambda>key.
                      bnd (step E (s3_put key (hr_description review))) (\<lambda>_.
                      publish_review E cid tid claim row (Some (hr_fingerprint review))
                        (Some (hr_authority review)) (Some key)))
                 else ret ()) (\<lambda>_.
            hold E tid cid claim None))
     else if truthy (r_review_digest row) \<and> r_human_ruling row = None then
       publish_review E cid tid claim row None None None
     else if d_decision d \<noteq> ''allow'' \<and> d_decision d \<noteq> ''deny'' then
       raise_err (PolicyError ''policy-invalid-response'')
     else
       bnd (try_except
              (step E (record_policy_decision cid tid claim (r_request_id row) (d_decision d)))
              (\<lambda>e. case e of LostSchedulerClaim _ \<Rightarrow> None | Killed \<Rightarrow> None
                   | _ \<Rightarrow> Some (raise_err (PolicyError ''policy-publication-failure'')))) (\<lambda>_.
       hold E tid cid claim None))))"

fun policy_reason :: "error \<Rightarrow> string" where
  "policy_reason (PolicyError code) = code"
| "policy_reason TimeoutError = ''policy-runtime-timeout''"
| "policy_reason _ = ''policy-unavailable''"

definition policy_failed :: "'p env \<Rightarrow> string \<Rightarrow> string \<Rightarrow> string \<Rightarrow> approval_row \<Rightarrow> error \<Rightarrow> ('p worker, unit) comp" where
  "policy_failed E cid tid claim row e =
     bnd (if policy_reason e = ''policy-stale-review'' \<or> (truthy (r_review_digest row) \<and> r_human_ruling row = None)
          then publish_review E cid tid claim row None None None else ret ()) (\<lambda>_.
     hold E tid cid claim (Some (policy_reason e)))"

definition evaluate_policy :: "'p env \<Rightarrow> string \<Rightarrow> string \<Rightarrow> string \<Rightarrow> (string \<times> cma_event) list
    \<Rightarrow> ('p worker, bool) comp" where
  "evaluate_policy E cid tid claim by_id =
     bnd (step E (reads (list_input_requests tid))) (\<lambda>rows.
     bnd (for_ret (policy_rows by_id rows) (\<lambda>row.
       case row of
         Clarification _ \<Rightarrow> ret None
       | Approval r \<Rightarrow>
         if r_status r \<noteq> Pending then ret None else
         bnd (step E (reads (get_context cid))) (\<lambda>current.
         case current of
           None \<Rightarrow> ret (Some False)
         | Some ctx \<Rightarrow>
         bnd (step E (reads (get_task tid))) (\<lambda>task.
         if (case task of None \<Rightarrow> True | Some t \<Rightarrow> t_cancel_requested_at t \<noteq> None) then ret (Some False)
         else
         bnd (step E (reads clock)) (\<lambda>now.
         case c_scheduler_lease_expires_at ctx of
           None \<Rightarrow> raise_err (ExternalError ''TypeError'')
         | Some expires \<Rightarrow>
             let remaining = expires - now - seconds 5 in
             if remaining \<le> seconds 1 then ret (Some True)
             else try_except
               (bnd (evaluate_row E cid tid claim by_id remaining r) (\<lambda>_. ret None))
               (\<lambda>e. case e of LostSchedulerClaim _ \<Rightarrow> None | Killed \<Rightarrow> None
                    | _ \<Rightarrow> Some (bnd (policy_failed E cid tid claim r e) (\<lambda>_. ret (Some False)))))))))
     (\<lambda>result. ret (case result of None \<Rightarrow> True | Some b \<Rightarrow> b)))"

section \<open>Confirmations\<close>

datatype flow = Fall_through | Continue | Return_true

definition has_tool_result :: "string \<Rightarrow> cma_event list \<Rightarrow> bool" where
  "has_tool_result ev events = list_ex (\<lambda>e. e_type e = Some ''user.custom_tool_result''
     \<and> e_custom_tool_use_id e = Some ev) events"

definition has_confirmation :: "string \<Rightarrow> string \<Rightarrow> cma_event list \<Rightarrow> bool" where
  "has_confirmation ev result events = list_ex (\<lambda>e. e_type e = Some ''user.tool_confirmation''
     \<and> e_tool_use_id e = Some ev \<and> e_result e = Some result) events"

text \<open>The set of \<open>(str(tool_use_id), str(result))\<close> pairs of the history.\<close>

definition confirmations_of :: "cma_event list \<Rightarrow> (string \<times> string) list" where
  "confirmations_of events = map (\<lambda>e. (py_str (e_tool_use_id e), py_str (e_result e)))
     (filter (\<lambda>e. e_type e = Some ''user.tool_confirmation'') events)"

text \<open>One clarification in state \<open>resolving\<close>: hand the answer to the provider at most once.\<close>

definition answer_clarification :: "'p env \<Rightarrow> string \<Rightarrow> task_row \<Rightarrow> string \<Rightarrow> string \<Rightarrow> cma_event list
    \<Rightarrow> clarification_row \<Rightarrow> ('p worker, bool option) comp" where
  "answer_clarification E cid task claim sid events q =
     (let ev = q_cma_event_id q; tid = t_task_id task; key = py_str (q_answer_object_key q) in
      if has_tool_result ev events then
        bnd (resolve_input E (Clarification q) cid claim) (\<lambda>_.
        bnd (step E (s3_delete key)) (\<lambda>_. ret None))
      else if q_response_attempted_at q \<noteq> None then
        bnd (hold E tid cid claim (Some ''ambiguous-confirmation'')) (\<lambda>_. ret None)
      else
        bnd (step E (mark_clarification_attempted (q_request_id q) cid claim)) (\<lambda>granted.
        if \<not> granted then ret None
        else
        bnd (observe (Result_granted (q_request_id q) ev)) (\<lambda>_.
        bnd (try_except
          (bnd (step E (s3_get key)) (\<lambda>answer.
           bnd (observe (Tool_result sid ev)) (\<lambda>_.
           bnd (step E (send_custom_tool_result E sid ev answer (t_cancel_requested_at task \<noteq> None)))
             (\<lambda>_. ret Fall_through))))
          (\<lambda>e. case e of
             Killed \<Rightarrow> None
           | DefinitiveProviderError _ \<Rightarrow> Some (bnd (fail_context E cid tid claim) (\<lambda>_. ret Return_true))
           | _ \<Rightarrow> Some
               (bnd (hold E tid cid claim (Some ''ambiguous-confirmation'')) (\<lambda>_.
                bnd (step E (list_events E sid)) (\<lambda>refreshed.
                ret (if has_tool_result ev refreshed then Fall_through else Continue))))))
        (\<lambda>outcome. case outcome of
           Return_true \<Rightarrow> ret (Some True)
         | Continue \<Rightarrow> ret None
         | Fall_through \<Rightarrow>
             bnd (resolve_input E (Clarification q) cid claim) (\<lambda>_.
             bnd (step E (s3_delete key)) (\<lambda>_. ret None))))))"

text \<open>The reason sent with a confirmation.\<close>

definition confirmation_reason :: "'p env \<Rightarrow> task_row \<Rightarrow> approval_row \<Rightarrow> ruling \<Rightarrow> ('p worker, string option) comp" where
  "confirmation_reason E task r d =
     (if truthy (r_decision_reason_object_key r)
      then bnd (step E (s3_get (py_str (r_decision_reason_object_key r)))) (\<lambda>x. ret (Some x))
      else ret (if d = Deny \<and> t_cancel_requested_at task = None
                then Some ''Denied by OpenAPPA policy.'' else None))"

text \<open>The one call that lets a tool run: the attempt is recorded before the provider is asked.\<close>

definition attempt_confirmation :: "'p env \<Rightarrow> string \<Rightarrow> task_row \<Rightarrow> string \<Rightarrow> string \<Rightarrow> approval_row \<Rightarrow> ruling
    \<Rightarrow> ('p worker, bool option) comp" where
  "attempt_confirmation E cid task claim sid r d =
     (let ev = r_cma_event_id r; tid = t_task_id task in
      bnd (step E (mark_confirmation_attempted (r_request_id r) cid claim)) (\<lambda>granted.
      if \<not> granted then ret None
      else
      bnd (observe (Confirm_granted (r_request_id r) ev d)) (\<lambda>_.
      bnd (try_except
        (bnd (confirmation_reason E task r d) (\<lambda>reason.
         bnd (observe (Confirm_tool sid ev (d = Allow))) (\<lambda>_.
         bnd (step E (confirm_tool E sid ev (d = Allow) reason)) (\<lambda>_. ret Fall_through))))
        (\<lambda>e. case e of
           Killed \<Rightarrow> None
         | DefinitiveProviderError _ \<Rightarrow> Some (bnd (fail_context E cid tid claim) (\<lambda>_. ret Return_true))
         | _ \<Rightarrow> Some
             (bnd (hold E tid cid claim (Some ''ambiguous-confirmation'')) (\<lambda>_.
              bnd (step E (list_events E sid)) (\<lambda>refreshed.
              ret (if has_confirmation ev (ruling_str (Some d)) refreshed then Fall_through else Continue))))))
      (\<lambda>outcome. case outcome of
         Return_true \<Rightarrow> ret (Some True)
       | Continue \<Rightarrow> ret None
       | Fall_through \<Rightarrow> bnd (resolve_input E (Approval r) cid claim) (\<lambda>_. ret None)))))"

definition confirm_approval :: "'p env \<Rightarrow> string \<Rightarrow> task_row \<Rightarrow> string \<Rightarrow> string \<Rightarrow> cma_event list
    \<Rightarrow> approval_row \<Rightarrow> ('p worker, bool option) comp" where
  "confirm_approval E cid task claim sid events r =
     (let tid = t_task_id task in
      if (r_cma_event_id r, ruling_str (r_decision r)) \<in> set (confirmations_of events) then
        bnd (resolve_input E (Approval r) cid claim) (\<lambda>_. ret None)
      else if r_confirmation_attempted_at r \<noteq> None then
        bnd (when_m (t_held_reason task \<noteq> Some ''ambiguous-confirmation'')
              (hold E tid cid claim (Some ''ambiguous-confirmation''))) (\<lambda>_. ret None)
      else case r_decision r of
        None \<Rightarrow> bnd (hold E tid cid claim (Some ''policy-unpublished-decision'')) (\<lambda>_. ret None)
      | Some d \<Rightarrow> attempt_confirmation E cid task claim sid r d)"

definition clear_hold :: "string \<Rightarrow> request_row list \<Rightarrow> bool" where
  "clear_hold reason rows =
     ((reason = ''ambiguous-confirmation'' \<and> \<not> list_ex (\<lambda>row. req_status row = Resolving) rows)
      \<or> (starts_with ''policy-'' reason
         \<and> \<not> list_ex (\<lambda>row. \<not> is_clarification row \<and> req_status row \<noteq> Resolved) rows))"

definition reconcile_confirmations :: "'p env \<Rightarrow> string \<Rightarrow> task_row \<Rightarrow> string \<Rightarrow> string \<Rightarrow> cma_event list
    \<Rightarrow> ('p worker, bool) comp" where
  "reconcile_confirmations E cid task claim sid events =
     bnd (step E (reads (list_input_requests (t_task_id task)))) (\<lambda>rows.
     bnd (for_ret rows (\<lambda>row.
       if req_status row \<noteq> Resolving then ret None
       else case row of
         Clarification q \<Rightarrow> answer_clarification E cid task claim sid events q
       | Approval r \<Rightarrow> confirm_approval E cid task claim sid events r)) (\<lambda>left.
     case left of
       Some b \<Rightarrow> ret b
     | None \<Rightarrow>
         bnd (step E (reads (get_task (t_task_id task)))) (\<lambda>found.
         let current = (case found of None \<Rightarrow> task | Some t \<Rightarrow> t);
             reason = (case t_held_reason current of None \<Rightarrow> [] | Some x \<Rightarrow> x) in
         bnd (step E (reads (list_input_requests (t_task_id task)))) (\<lambda>requests.
         bnd (when_m (clear_hold reason requests) (hold E (t_task_id task) cid claim None)) (\<lambda>_.
         ret False)))))"

section \<open>Cancellation\<close>

definition after_interrupt :: "cma_event list \<Rightarrow> cma_event list option" where
  "after_interrupt relevant = (case dropWhile (\<lambda>e. e_type e \<noteq> Some ''user.interrupt'') relevant of
     [] \<Rightarrow> None | _ # rest \<Rightarrow> Some rest)"

definition cancel_requests :: "'p env \<Rightarrow> string \<Rightarrow> string \<Rightarrow> string \<Rightarrow> ('p worker, unit) comp" where
  "cancel_requests E cid tid claim =
     bnd (step E (reads (list_input_requests tid))) (\<lambda>rows.
     for_m rows (\<lambda>row.
       case row of
         Clarification q \<Rightarrow>
           if q_status q = Pending then
             bnd (fresh_uuid (rt_of E)) (\<lambda>key.
             bnd (step E (s3_put key ''Task cancelled by user.'')) (\<lambda>_.
             bnd (step E (decide_clarification_request (q_request_id q) tid key)) (\<lambda>decided.
             if (case decided of None \<Rightarrow> True | Some d \<Rightarrow> q_answer_object_key d \<noteq> Some key)
             then step E (s3_delete key) else ret ())))
           else ret ()
       | Approval r \<Rightarrow>
           if r_status r = Pending \<or> (r_status r = Resolving \<and> r_confirmation_attempted_at r = None)
           then step E (deny_cancelled_input_request (r_request_id r) cid claim)
           else ret ()))"

definition interrupt_task :: "'p env \<Rightarrow> string \<Rightarrow> task_row \<Rightarrow> string \<Rightarrow> string \<Rightarrow> ('p worker, unit) comp" where
  "interrupt_task E cid task claim sid = (let tid = t_task_id task in
     if t_cancel_attempted_at task \<noteq> None then
       when_m (t_held_reason task \<noteq> Some ''ambiguous-interrupt'')
         (hold E tid cid claim (Some ''ambiguous-interrupt''))
     else
       bnd (step E (reads clock)) (\<lambda>now.
       bnd (step E (update_task tid cid claim
              [Set_cancel_attempted_at (Some now), Set_internal_state Interrupting])) (\<lambda>_.
       try_except
         (bnd (observe (Interrupt_session sid)) (\<lambda>_. step E (interrupt E sid)))
         (\<lambda>e. case e of
            Killed \<Rightarrow> None
          | DefinitiveProviderError _ \<Rightarrow> Some (fail_context E cid tid claim)
          | _ \<Rightarrow> Some (hold E tid cid claim (Some ''ambiguous-interrupt''))))))"

definition reconcile_cancel :: "'p env \<Rightarrow> string \<Rightarrow> task_row \<Rightarrow> string \<Rightarrow> string \<Rightarrow> cma_event list
    \<Rightarrow> ('p worker, unit) comp" where
  "reconcile_cancel E cid task claim sid events =
     (let tid = t_task_id task;
          relevant = after_events events (Some (py_str (t_cma_input_event_id task)));
          idle = (case after_interrupt relevant of None \<Rightarrow> None | Some rest \<Rightarrow> latest_status rest) in
      case idle of
        Some st \<Rightarrow>
          if status_kind st \<in> {''session.status_idle'', ''session.status_terminated''}
             \<and> stop_type st \<noteq> Some ''requires_action''
          then finish E cid tid claim CANCELED (case e_id st of None \<Rightarrow> [] | Some i \<Rightarrow> i)
          else if stop_type st = Some ''requires_action'' then
            bnd (cancel_requests E cid tid claim) (\<lambda>_.
            bnd (reconcile_confirmations E cid task claim sid events) (\<lambda>_. ret ()))
          else interrupt_task E cid task claim sid
      | None \<Rightarrow> interrupt_task E cid task claim sid)"

section \<open>Reconciling the active task\<close>

definition is_ask_user :: "cma_event \<Rightarrow> bool" where
  "is_ask_user e = (e_type e = Some ''agent.custom_tool_use'' \<and> e_name e = Some (JStr ''ask_user'') \<and>
     (case e_input e of
        Some (JObj kvs) \<Rightarrow> (case map_of kvs ''prompt'' of Some (JStr p) \<Rightarrow> p \<noteq> [] | _ \<Rightarrow> False)
      | _ \<Rightarrow> False))"

text \<open>Record a request for every event the provider waits on.\<close>

definition discover_requests :: "'p env \<Rightarrow> string \<Rightarrow> string \<Rightarrow> string \<Rightarrow> cma_event list \<Rightarrow> string list
    \<Rightarrow> ('p worker, unit) comp" where
  "discover_requests E cid tid claim events ids = for_m events (\<lambda>source.
     let ev = py_str (e_id source) in
     if ev \<notin> set ids then ret ()
     else if e_type source \<in> {Some ''agent.tool_use'', Some ''agent.mcp_tool_use''} then
       step E (add_input_request (approval_request_id E tid ev) tid ev cid claim)
     else if is_ask_user source then
       step E (add_clarification_request (approval_request_id E tid ev) tid ev cid claim)
     else ret ())"

text \<open>Evaluate the pending requests, confirm what is decided, and set the visible state.\<close>

definition settle_requests :: "'p env \<Rightarrow> string \<Rightarrow> task_row \<Rightarrow> string \<Rightarrow> string \<Rightarrow> cma_event list
    \<Rightarrow> ('p worker, unit) comp" where
  "settle_requests E cid task claim sid events = (let tid = t_task_id task in
     bnd (evaluate_policy E cid tid claim (events_by_id events)) (\<lambda>evaluated.
     if \<not> evaluated then set_waiting_state E cid tid claim
     else
       bnd (step E (reads (get_task tid))) (\<lambda>found.
       let refreshed = (case found of None \<Rightarrow> task | Some t \<Rightarrow> t) in
       if t_cancel_requested_at refreshed \<noteq> None then ret ()
       else
         bnd (reconcile_confirmations E cid refreshed claim sid events) (\<lambda>finished.
         if finished then ret () else set_waiting_state E cid tid claim))))"

definition reconcile_status :: "'p env \<Rightarrow> string \<Rightarrow> task_row \<Rightarrow> string \<Rightarrow> string \<Rightarrow> cma_event list
    \<Rightarrow> cma_event \<Rightarrow> ('p worker, unit) comp" where
  "reconcile_status E cid task claim sid events st =
     (let tid = t_task_id task; kind = status_kind st;
          event_id = (case e_id st of None \<Rightarrow> [] | Some i \<Rightarrow> i) in
      bnd (step E (reads (list_input_requests tid))) (\<lambda>rows.
      let unresolved = list_ex (\<lambda>row. req_status row \<noteq> Resolved) rows in
      if unresolved \<and> (kind = ''session.status_running'' \<or>
           (kind = ''session.status_idle'' \<and> stop_type st \<noteq> Some ''requires_action''))
      then settle_requests E cid task claim sid events
      else if kind \<in> {''session.status_terminated'', ''session.budget_reached''} then
        bnd (step E (update_context cid claim [Set_lifecycle_state Failed])) (\<lambda>_.
        finish E cid tid claim FAILED event_id)
      else if kind = ''session.status_idle'' then
        (if stop_type st = Some ''requires_action'' then
           bnd (discover_requests E cid tid claim events (stop_event_ids st)) (\<lambda>_.
           settle_requests E cid task claim sid events)
         else if stop_type st \<in> {Some ''end_turn'', Some ''budget_reached''} then
           let state = (if stop_type st = Some ''budget_reached'' then FAILED else COMPLETED) in
           bnd (if state = FAILED
                then bnd (step E (update_context cid claim [Set_lifecycle_state Failed])) (\<lambda>_. ret ())
                else ret ()) (\<lambda>_.
           finish E cid tid claim state event_id)
         else ret ())
      else if kind = ''session.status_running'' then
        bnd (step E (update_task tid cid claim [Set_internal_state Waiting, Set_a2a_state WORKING])) (\<lambda>_. ret ())
      else ret ()))"

text \<open>From a task whose input event is known: cancellation, confirmations, then the status.\<close>

definition reconcile_bound :: "'p env \<Rightarrow> string \<Rightarrow> task_row \<Rightarrow> string \<Rightarrow> string \<Rightarrow> cma_event list
    \<Rightarrow> ('p worker, unit) comp" where
  "reconcile_bound E cid task claim sid events =
     (if t_cancel_requested_at task \<noteq> None then reconcile_cancel E cid task claim sid events
      else
        bnd (reconcile_confirmations E cid task claim sid events) (\<lambda>finished.
        if finished then ret ()
        else
          bnd (step E (list_events E sid)) (\<lambda>events'.
          case latest_status (after_events events' (Some (py_str (t_cma_input_event_id task)))) of
            None \<Rightarrow> ret ()
          | Some st \<Rightarrow> reconcile_status E cid task claim sid events' st)))"

definition reconcile_active :: "'p env \<Rightarrow> context_row \<Rightarrow> task_row \<Rightarrow> string \<Rightarrow> ('p worker, unit) comp" where
  "reconcile_active E ctx task claim = (let cid = c_context_id ctx; tid = t_task_id task in
     bnd (if truthy (c_cma_session_id ctx) then ret (c_cma_session_id ctx)
          else
            bnd (step E (find_session E cid (c_creation_message_id ctx))) (\<lambda>recovered.
            case recovered of
              None \<Rightarrow> bnd (hold E tid cid claim (Some ''ambiguous-create'')) (\<lambda>_. ret None)
            | Some sid \<Rightarrow>
                bnd (step E (update_context cid claim
                  [Set_cma_session_id (Some sid), Set_lifecycle_state Ready])) (\<lambda>_. ret (Some sid))))
     (\<lambda>session. case session of
        None \<Rightarrow> ret ()
      | Some sid \<Rightarrow>
     bnd (step E (list_events E sid)) (\<lambda>events.
     if truthy (t_cma_input_event_id task) then reconcile_bound E cid task claim sid events
     else
       (case filter (\<lambda>e. e_type e = Some ''user.message'')
               (after_events events (t_cma_predecessor_event_id task)) of
          [] \<Rightarrow> hold E tid cid claim (Some ''ambiguous-dispatch'')
        | candidate # _ \<Rightarrow>
            (case e_id candidate of
               None \<Rightarrow> raise_err (KeyError ''id'')
             | Some i \<Rightarrow>
                 bnd (bind_input E task cid claim i) (\<lambda>_.
                 bnd (step E (reads (get_task tid))) (\<lambda>found.
                 reconcile_bound E cid (case found of None \<Rightarrow> task | Some t \<Rightarrow> t) claim sid events)))))))"

section \<open>Dispatching a turn\<close>

definition dispatch_first :: "'p env \<Rightarrow> context_row \<Rightarrow> task_row \<Rightarrow> string \<Rightarrow> string \<Rightarrow> ('p worker, unit) comp" where
  "dispatch_first E ctx task claim text = (let cid = c_context_id ctx; tid = t_task_id task in
     bnd (step E (find_session E cid (c_creation_message_id ctx))) (\<lambda>recovered.
     bnd (case recovered of
            Some sid \<Rightarrow> ret (Some sid)
          | None \<Rightarrow> try_except
              (bnd (observe (Create_session cid (c_creation_message_id ctx))) (\<lambda>_.
               bnd (step E (create_session E cid (c_creation_message_id ctx) text)) (\<lambda>sid. ret (Some sid))))
              (\<lambda>e. case e of
                 Killed \<Rightarrow> None
               | DefinitiveProviderError _ \<Rightarrow> Some (bnd (fail_context E cid tid claim) (\<lambda>_. ret None))
               | _ \<Rightarrow> Some (bnd (hold E tid cid claim (Some ''ambiguous-create'')) (\<lambda>_. ret None))))
     (\<lambda>session. case session of
        None \<Rightarrow> ret ()
      | Some sid \<Rightarrow>
     bnd (step E (update_context cid claim [Set_cma_session_id (Some sid), Set_lifecycle_state Ready])) (\<lambda>_.
     bnd (step E (list_events E sid)) (\<lambda>events.
     let input_event = find (\<lambda>e. e_type e = Some ''user.message'') events in
     case input_event of
       Some ie \<Rightarrow>
         if truthy (e_id ie) then
           bnd (bind_input E task cid claim (py_str (e_id ie))) (\<lambda>_.
           bnd (step E (reads (get_context cid))) (\<lambda>c.
           bnd (step E (reads (get_task tid))) (\<lambda>t.
           reconcile_active E (case c of None \<Rightarrow> ctx | Some c' \<Rightarrow> c')
             (case t of None \<Rightarrow> task | Some t' \<Rightarrow> t') claim)))
         else hold E tid cid claim (Some ''initial-input-not-visible'')
     | None \<Rightarrow> hold E tid cid claim (Some ''initial-input-not-visible''))))))"

definition dispatch_next :: "'p env \<Rightarrow> context_row \<Rightarrow> task_row \<Rightarrow> string \<Rightarrow> string \<Rightarrow> ('p worker, unit) comp" where
  "dispatch_next E ctx task claim text =
     (let cid = c_context_id ctx; tid = t_task_id task; sid = py_str (c_cma_session_id ctx) in
      bnd (try_except
        (bnd (observe (Send_message sid tid)) (\<lambda>_.
         bnd (step E (send_message E sid text)) (\<lambda>i. ret (Some i))))
        (\<lambda>e. case e of
           Killed \<Rightarrow> None
         | DefinitiveProviderError _ \<Rightarrow> Some (bnd (finish E cid tid claim FAILED []) (\<lambda>_. ret None))
         | _ \<Rightarrow> Some (bnd (hold E tid cid claim (Some ''ambiguous-send'')) (\<lambda>_. ret None))))
      (\<lambda>sent. case sent of
         None \<Rightarrow> ret ()
       | Some input_event \<Rightarrow>
           if truthy input_event then bind_input E task cid claim (py_str input_event)
           else hold E tid cid claim (Some ''input-event-not-returned'')))"

definition dispatch :: "'p env \<Rightarrow> context_row \<Rightarrow> task_row \<Rightarrow> string \<Rightarrow> ('p worker, unit) comp" where
  "dispatch E ctx task claim =
     bnd (step E (s3_get (py_str (t_input_object_key task)))) (\<lambda>text.
     if truthy (c_cma_session_id ctx) then dispatch_next E ctx task claim text
     else dispatch_first E ctx task claim text)"

section \<open>One reconciliation\<close>

definition last_event_id :: "cma_event list \<Rightarrow> string option" where
  "last_event_id events =
     (if events \<noteq> [] \<and> truthy (e_id (last events)) then e_id (last events) else None)"

definition reconcile_context :: "'p env \<Rightarrow> context_row \<Rightarrow> string \<Rightarrow> ('p worker, unit) comp" where
  "reconcile_context E ctx claim = (let cid = c_context_id ctx in
     if truthy (c_active_task_id ctx) then
       bnd (step E (reads (get_task (py_str (c_active_task_id ctx))))) (\<lambda>found.
       case found of None \<Rightarrow> ret () | Some task \<Rightarrow> reconcile_active E ctx task claim)
     else
       bnd (step E (reads (next_queued cid))) (\<lambda>queued.
       case queued of
         None \<Rightarrow> ret ()
       | Some task \<Rightarrow>
           if c_lifecycle_state ctx = Failed then finish E cid (t_task_id task) claim FAILED []
           else
             bnd (if truthy (c_cma_session_id ctx)
                  then step E (list_events E (py_str (c_cma_session_id ctx))) else ret []) (\<lambda>events.
             bnd (step E (activate_task cid (t_task_id task) claim (last_event_id events))) (\<lambda>active.
             dispatch E ctx active claim))))"

definition reconcile :: "'p env \<Rightarrow> string \<Rightarrow> string \<Rightarrow> ('p worker, unit) comp" where
  "reconcile E cid claim =
     bnd (step E (reads (get_context cid))) (\<lambda>found.
     case found of
       None \<Rightarrow> ret ()
     | Some ctx \<Rightarrow>
         bnd (reconcile_context E ctx claim) (\<lambda>_.
         bnd (step E (reads (get_context cid))) (\<lambda>refreshed.
         if (case refreshed of None \<Rightarrow> False | Some c \<Rightarrow> truthy (c_active_task_id c))
         then step E (schedule cid ''reconcile-active'' 30)
         else
           bnd (step E (reads (next_queued cid))) (\<lambda>queued.
           if queued \<noteq> None then step E (schedule cid ''next-queued'' 0) else ret ()))))"

definition start_previews :: "'p env \<Rightarrow> ('p worker, unit) comp" where
  "start_previews E = bnd get_locals (\<lambda>hints.
     case (preview_of E, hints) of
       (Some start, Some hs) \<Rightarrow> for_m (map snd hs) (\<lambda>h.
         try_except (bnd (observe (Preview_start h)) (\<lambda>_. step E (on_outside (start h))))
           (except_exception (\<lambda>_. ret ())))
     | _ \<Rightarrow> ret ())"

definition run_once :: "'p env \<Rightarrow> string \<Rightarrow> ('p worker, unit) comp" where
  "run_once E cid =
     bnd (fresh_uuid (rt_of E)) (\<lambda>claim_id.
     bnd (step E (claim_scheduler claim_id cid 60)) (\<lambda>claimed.
     case claimed of
       None \<Rightarrow> raise_err (SchedulerBusy cid)
     | Some claim \<Rightarrow>
         bnd (set_locals (Some [])) (\<lambda>_.
         try_finally (reconcile E cid claim)
           (bnd (step E (release_scheduler cid claim)) (\<lambda>_.
            bnd (when_m (has_push_trigger E)
                  (try_except (step E (schedule_context cid ''scheduler-reconciled'' 0))
                    (except_exception (\<lambda>_. ret ())))) (\<lambda>_.
            start_previews E))))))"

end
