(* ===== verification/Push_Repository.thy ===== *)
theory Push_Repository
  imports Controller_Repository
begin

text \<open>
  \<^verbatim>\<open>cma_controller/push_repository.py\<close> (class \<open>PushRepository\<close>): push configurations of a task
  and the delivery lease on each of them. Every method is one transaction.
\<close>

definition new_push :: "string \<Rightarrow> string \<Rightarrow> string \<Rightarrow> int \<Rightarrow> push_row" where
  "new_push tid pid url t = \<lparr>p_task_id = tid, p_config_id = pid, p_url = url,
     p_last_delivered_fingerprint = None, p_attempt_count = 0, p_next_attempt_at = None,
     p_last_attempt_at = None, p_last_delivered_at = None, p_delivery_claim_id = None,
     p_delivery_lease_expires_at = None, p_permanent_failure_at = None, p_deleted_at = None,
     p_created_at = t, p_updated_at = t\<rparr>"

definition push_key :: "string \<Rightarrow> string \<Rightarrow> push_row \<Rightarrow> bool" where
  "push_key tid pid p = (p_task_id p = tid \<and> p_config_id p = pid)"

definition push_create :: "string \<Rightarrow> string \<Rightarrow> string \<Rightarrow> ('p sys, push_row) comp" where
  "push_create tid pid url = transaction (\<lambda>s.
     if tid \<notin> set (map t_task_id (tasks s)) then (Inl (KeyError tid), s)
     else
       (case find (push_key tid pid) (push_configs s) of
          None \<Rightarrow> (let row = new_push tid pid url (clock s) in
                   (Inr row, s\<lparr>push_configs := push_configs s @ [row]\<rparr>))
        | Some old \<Rightarrow>
            let row = old\<lparr>p_updated_at := clock s\<rparr>;
                s' = s\<lparr>push_configs := upd_rows (push_key tid pid) (\<lambda>p. p\<lparr>p_updated_at := clock s\<rparr>)
                       (push_configs s)\<rparr> in
            if p_url row \<noteq> url \<or> p_deleted_at row \<noteq> None
            then (Inl (PushConfigConflict ''Push configuration ID is already used''), s')
            else (Inr row, s')))"

definition push_get :: "string \<Rightarrow> string \<Rightarrow> 'p sys \<Rightarrow> push_row option" where
  "push_get tid pid s = find (\<lambda>p. push_key tid pid p \<and> p_deleted_at p = None) (push_configs s)"

definition list_permanently_failed :: "'p sys \<Rightarrow> push_row list" where
  "list_permanently_failed s = sort_key (\<lambda>p. (p_task_id p, p_config_id p))
     (filter (\<lambda>p. p_deleted_at p = None \<and> p_permanent_failure_at p \<noteq> None
        \<and> p_task_id p \<in> set (map t_task_id (tasks s))) (push_configs s))"

text \<open>A delivery lease may be taken when there is none or it has expired.\<close>

definition delivery_free :: "int \<Rightarrow> push_row \<Rightarrow> bool" where
  "delivery_free now p = (p_delivery_claim_id p = None \<or>
     (case p_delivery_lease_expires_at p of None \<Rightarrow> False | Some t \<Rightarrow> t \<le> now))"

definition delivery_held :: "int \<Rightarrow> string \<Rightarrow> push_row \<Rightarrow> bool" where
  "delivery_held now claim p = (p_delivery_claim_id p = Some claim \<and>
     (case p_delivery_lease_expires_at p of None \<Rightarrow> False | Some t \<Rightarrow> t > now))"

definition reset_delivery :: "string \<Rightarrow> string \<Rightarrow> ('p sys, bool) comp" where
  "reset_delivery tid pid = (\<lambda>s.
     let q = (\<lambda>p. push_key tid pid p \<and> p_deleted_at p = None \<and> delivery_free (clock s) p);
         f = (\<lambda>p. p\<lparr>p_permanent_failure_at := None, p_attempt_count := 0, p_next_attempt_at := None,
               p_delivery_claim_id := None, p_delivery_lease_expires_at := None, p_updated_at := clock s\<rparr>) in
     (Inr (find q (push_configs s) \<noteq> None), s\<lparr>push_configs := upd_rows q f (push_configs s)\<rparr>))"

definition list_configs :: "string \<Rightarrow> string \<Rightarrow> int \<Rightarrow> 'p sys \<Rightarrow> push_row list" where
  "list_configs tid after limit s = take (nat limit) (sort_key p_config_id
     (filter (\<lambda>p. p_task_id p = tid \<and> p_config_id p > after \<and> p_deleted_at p = None) (push_configs s)))"

definition push_delete :: "string \<Rightarrow> string \<Rightarrow> ('p sys, bool) comp" where
  "push_delete tid pid = (\<lambda>s.
     let q = (\<lambda>p. push_key tid pid p \<and> p_deleted_at p = None);
         f = (\<lambda>p. p\<lparr>p_deleted_at := Some (clock s), p_updated_at := clock s\<rparr>) in
     (Inr (find q (push_configs s) \<noteq> None), s\<lparr>push_configs := upd_rows q f (push_configs s)\<rparr>))"

text \<open>The configurations of a context, each with the state of its task.\<close>

definition list_context :: "string \<Rightarrow> 'p sys \<Rightarrow> (push_row \<times> a2a_state) list" where
  "list_context cid s = List.map_filter
     (\<lambda>p. map_option (\<lambda>t. (p, t_a2a_state t)) (find (\<lambda>t. t_task_id t = p_task_id p \<and> t_context_id t = cid) (tasks s)))
     (sort_key (\<lambda>p. (p_task_id p, p_config_id p))
       (filter (\<lambda>p. p_deleted_at p = None \<and> p_permanent_failure_at p = None) (push_configs s)))"

definition delivery_due :: "int \<Rightarrow> string \<Rightarrow> string \<Rightarrow> push_row \<Rightarrow> bool" where
  "delivery_due now tid pid p = (push_key tid pid p \<and> p_deleted_at p = None \<and> p_permanent_failure_at p = None
     \<and> (case p_next_attempt_at p of None \<Rightarrow> True | Some t \<Rightarrow> t \<le> now) \<and> delivery_free now p)"

definition push_claim :: "string \<Rightarrow> string \<Rightarrow> string \<Rightarrow> int \<Rightarrow> ('p sys, string option) comp" where
  "push_claim claim tid pid lease = (\<lambda>s.
     let q = delivery_due (clock s) tid pid;
         f = (\<lambda>p. p\<lparr>p_delivery_claim_id := Some claim,
               p_delivery_lease_expires_at := Some (clock s + seconds lease)\<rparr>) in
     (Inr (if find q (push_configs s) \<noteq> None then Some claim else None),
      s\<lparr>push_configs := upd_rows q f (push_configs s)\<rparr>))"

definition push_claimed :: "string \<Rightarrow> string \<Rightarrow> string \<Rightarrow> 'p sys \<Rightarrow> bool" where
  "push_claimed tid pid claim s = list_ex (\<lambda>p. push_key tid pid p \<and> delivery_held (clock s) claim p
     \<and> p_deleted_at p = None) (push_configs s)"

datatype delivery_outcome = Delivered string | Permanent | Retry_after "int option"

fun outcome_update :: "int \<Rightarrow> delivery_outcome \<Rightarrow> push_row \<Rightarrow> push_row" where
  "outcome_update now (Delivered fp) p = p\<lparr>p_last_delivered_fingerprint := Some fp,
     p_last_delivered_at := Some now, p_attempt_count := 0, p_next_attempt_at := None\<rparr>"
| "outcome_update now Permanent p = p\<lparr>p_attempt_count := p_attempt_count p + 1,
     p_permanent_failure_at := Some now\<rparr>"
| "outcome_update now (Retry_after r) p = p\<lparr>p_attempt_count := p_attempt_count p + 1,
     p_next_attempt_at := Some (now + seconds
       (case r of None \<Rightarrow> 5 | Some n \<Rightarrow> if n = 0 then 5 else n))\<rparr>"

text \<open>\<open>finish\<close> takes a fingerprint, a flag and a delay; the first given one decides.\<close>

definition finish_outcome :: "string option \<Rightarrow> int option \<Rightarrow> bool \<Rightarrow> delivery_outcome" where
  "finish_outcome fingerprint retry permanent = (case fingerprint of
     Some fp \<Rightarrow> Delivered fp | None \<Rightarrow> if permanent then Permanent else Retry_after retry)"

definition push_finish :: "string \<Rightarrow> string \<Rightarrow> string \<Rightarrow> string option \<Rightarrow> int option \<Rightarrow> bool \<Rightarrow> ('p sys, bool) comp" where
  "push_finish tid pid claim fingerprint retry permanent = (\<lambda>s.
     let q = (\<lambda>p. push_key tid pid p \<and> delivery_held (clock s) claim p);
         f = (\<lambda>p. (outcome_update (clock s) (finish_outcome fingerprint retry permanent)
               (p\<lparr>p_delivery_claim_id := None, p_delivery_lease_expires_at := None,
                  p_last_attempt_at := Some (clock s)\<rparr>))\<lparr>p_updated_at := clock s\<rparr>) in
     (Inr (find q (push_configs s) \<noteq> None), s\<lparr>push_configs := upd_rows q f (push_configs s)\<rparr>))"

definition push_release :: "string \<Rightarrow> string \<Rightarrow> string \<Rightarrow> ('p sys, unit) comp" where
  "push_release tid pid claim = (\<lambda>s.
     let q = (\<lambda>p. push_key tid pid p \<and> p_delivery_claim_id p = Some claim);
         f = (\<lambda>p. p\<lparr>p_delivery_claim_id := None, p_delivery_lease_expires_at := None\<rparr>) in
     (Inr (), s\<lparr>push_configs := upd_rows q f (push_configs s)\<rparr>))"

lemma outcome_update_key [simp]:
  "p_task_id (outcome_update t d p) = p_task_id p"
  "p_config_id (outcome_update t d p) = p_config_id p"
  "p_deleted_at (outcome_update t d p) = p_deleted_at p"
  "p_delivery_claim_id (outcome_update t d p) = p_delivery_claim_id p"
  by (cases d; simp)+

end
