(* ===== verification/Repository_Steps.thy ===== *)
theory Repository_Steps
  imports Runtime_Repository Push_Repository Ports
begin

text \<open>
  The controller database as a transition system: one step is one transaction of any actor
  (request handlers, scheduler workers, push workers, administrators) with any arguments, or
  a change outside the tables. Shown here: every step keeps the constraints of the schema
  (\<open>schema_ok\<close>), and every step relates the rows before and after it by \<open>evolves\<close>: rows are
  never deleted, identities never change, an attempted confirmation is never forgotten, a
  denial is never turned into a permission, and a cancellation request is never withdrawn.
\<close>

section \<open>Steps\<close>

text \<open>The columns a worker may write through \<open>update_task\<close>: not the cancellation request, which
  only \<open>cancel_task\<close> writes, and not the attempt counter, which only \<open>activate_task\<close> writes.\<close>

fun worker_field :: "task_field \<Rightarrow> bool" where
  "worker_field (Set_cancel_requested_at _) = False"
| "worker_field (Set_dispatch_attempts _) = False"
| "worker_field _ = True"

inductive repo_step :: "'p sys \<Rightarrow> 'p sys \<Rightarrow> bool" where
  create_context: "repo_step s (snd (create_initializing_context cid mid s))"
| bind_session: "repo_step s (snd (bind_cma_session cid sid s))"
| create_task: "repo_step s (snd (create_task tid cid mid seq a st s))"
| admit: "repo_step s (snd (admit_operation pc rq mid pt key s))"
| policy_decision: "repo_step s (snd (record_policy_decision cid tid claim rid d s))"
| human_review: "repo_step s (snd (record_human_review nid cid tid claim rid dg au ok s))"
| human_ruling: "repo_step s (snd (record_human_ruling rid tid d s))"
| claim: "repo_step s (snd (claim_scheduler claim cid lease s))"
| release: "repo_step s (snd (release_scheduler cid claim s))"
| update_context: "repo_step s (snd (update_context cid claim cflds s))"
| update_task: "list_all worker_field flds \<Longrightarrow> repo_step s (snd (update_task tid cid claim flds s))"
| resolve_held: "repo_step s (snd (resolve_held_task tid claim res s))"
| activate: "repo_step s (snd (activate_task cid tid claim pred s))"
| cancel: "repo_step s (snd (cancel_task tid s))"
| add_input: "repo_step s (snd (add_input_request rid tid ev cid claim s))"
| add_clarification: "repo_step s (snd (add_clarification_request rid tid ev cid claim s))"
| decide_clarification: "repo_step s (snd (decide_clarification_request rid tid key s))"
| mark_clarification: "repo_step s (snd (mark_clarification_attempted rid cid claim s))"
| deny_cancelled: "repo_step s (snd (deny_cancelled_input_request rid cid claim s))"
| resolve_input: "repo_step s (snd (resolve_input_request rid cid claim s))"
| mark_confirmation: "repo_step s (snd (mark_confirmation_attempted rid cid claim s))"
| push_create: "repo_step s (snd (push_create tid pid url s))"
| push_reset: "repo_step s (snd (reset_delivery tid pid s))"
| push_delete: "repo_step s (snd (push_delete tid pid s))"
| push_claim: "repo_step s (snd (push_claim claim tid pid lease s))"
| push_finish: "repo_step s (snd (push_finish tid pid claim fp ra pm s))"
| push_release: "repo_step s (snd (push_release tid pid claim s))"
| elsewhere: "same_tables s s' \<Longrightarrow> repo_step s s'"

section \<open>Relations that every transaction keeps\<close>

text \<open>
  The interface between the repository and those who reason about it: a preorder on states
  that each transaction keeps holds across any sequence of steps. Admission is taken apart,
  so that only its statements have to be shown to keep the relation.
\<close>

locale repository_relation = step_relation R for R :: "'p sys \<Rightarrow> 'p sys \<Rightarrow> bool" +
  assumes kept_elsewhere: "same_tables s s' \<Longrightarrow> R s s'"
    and kept_insert_context: "keeps R (insert_context cid mid)"
    and kept_admit_turn: "keeps R (admit_turn ctx mid pt key)"
    and kept_bind_session: "keeps R (bind_cma_session cid sid)"
    and kept_create_task: "keeps R (create_task tid cid mid seq a st)"
    and kept_policy_decision: "keeps R (record_policy_decision cid tid claim rid d)"
    and kept_human_review: "keeps R (record_human_review nid cid tid claim rid dg au ok)"
    and kept_human_ruling: "keeps R (record_human_ruling rid tid d)"
    and kept_claim: "keeps R (claim_scheduler claim cid lease)"
    and kept_release: "keeps R (release_scheduler cid claim)"
    and kept_update_context: "keeps R (update_context cid claim cflds)"
    and kept_update_task: "list_all worker_field flds \<Longrightarrow> keeps R (update_task tid cid claim flds)"
    and kept_resolve_held: "keeps R (resolve_held_task tid claim res)"
    and kept_activate: "keeps R (activate_task cid tid claim pred)"
    and kept_cancel: "keeps R (cancel_task tid)"
    and kept_add_input: "keeps R (add_input_request rid tid ev cid claim)"
    and kept_add_clarification: "keeps R (add_clarification_request rid tid ev cid claim)"
    and kept_decide_clarification: "keeps R (decide_clarification_request rid tid key)"
    and kept_mark_clarification: "keeps R (mark_clarification_attempted rid cid claim)"
    and kept_deny_cancelled: "keeps R (deny_cancelled_input_request rid cid claim)"
    and kept_resolve_input: "keeps R (resolve_input_request rid cid claim)"
    and kept_mark_confirmation: "keeps R (mark_confirmation_attempted rid cid claim)"
    and kept_push_create: "keeps R (push_create tid pid url)"
    and kept_push_reset: "keeps R (reset_delivery tid pid)"
    and kept_push_delete: "keeps R (push_delete tid pid)"
    and kept_push_claim: "keeps R (push_claim claim tid pid lease)"
    and kept_push_finish: "keeps R (push_finish tid pid claim fp ra pm)"
    and kept_push_release: "keeps R (push_release tid pid claim)"
begin

lemma kept_reads: "keeps R (reads f)"
  by (rule keepsI) (simp add: step_refl)

lemma kept_create_context: "keeps R (create_initializing_context cid mid)"
  unfolding create_initializing_context_def
  by (auto intro!: keeps_raise keeps_try_except kept_insert_context
      simp: identity_conflict_def split: if_splits)

lemma kept_admit: "keeps R (admit_operation pc rq mid pt key)"
  unfolding admit_operation_def
  by (auto intro!: keeps_transaction keeps_bnd keeps_raise keeps_ret kept_reads
      kept_insert_context kept_admit_turn split: option.splits)

theorem repo_step_related:
  assumes "repo_step s s'"
  shows "R s s'"
  using assms
  by (induction rule: repo_step.induct)
     (simp_all add: keepsD kept_elsewhere kept_create_context kept_admit kept_bind_session
       kept_create_task kept_policy_decision kept_human_review kept_human_ruling kept_claim
       kept_release kept_update_context kept_update_task kept_resolve_held kept_activate
       kept_cancel kept_add_input kept_add_clarification kept_decide_clarification
       kept_mark_clarification kept_deny_cancelled kept_resolve_input kept_mark_confirmation
       kept_push_create kept_push_reset kept_push_delete kept_push_claim kept_push_finish
       kept_push_release)

theorem repo_steps_related:
  assumes "repo_step\<^sup>*\<^sup>* s s'"
  shows "R s s'"
  using assms by (induction rule: rtranclp_induct) (auto intro: step_refl step_trans repo_step_related)

end

section \<open>Unfolding the statements\<close>

lemma fold_set_ctx_ids [simp]:
  "c_context_id (fold set_ctx flds c) = c_context_id c"
  "c_creation_message_id (fold set_ctx flds c) = c_creation_message_id c"
  "c_next_sequence (fold set_ctx flds c) = c_next_sequence c"
  "c_scheduler_claim_id (fold set_ctx flds c) = c_scheduler_claim_id c"
  "c_scheduler_lease_expires_at (fold set_ctx flds c) = c_scheduler_lease_expires_at c"
  "c_created_at (fold set_ctx flds c) = c_created_at c"
proof -
  have one: "c_context_id (set_ctx f d) = c_context_id d \<and> c_creation_message_id (set_ctx f d) = c_creation_message_id d
    \<and> c_next_sequence (set_ctx f d) = c_next_sequence d \<and> c_scheduler_claim_id (set_ctx f d) = c_scheduler_claim_id d
    \<and> c_scheduler_lease_expires_at (set_ctx f d) = c_scheduler_lease_expires_at d
    \<and> c_created_at (set_ctx f d) = c_created_at d" for f d
    by (cases f) simp_all
  show "c_context_id (fold set_ctx flds c) = c_context_id c"
    "c_creation_message_id (fold set_ctx flds c) = c_creation_message_id c"
    "c_next_sequence (fold set_ctx flds c) = c_next_sequence c"
    "c_scheduler_claim_id (fold set_ctx flds c) = c_scheduler_claim_id c"
    "c_scheduler_lease_expires_at (fold set_ctx flds c) = c_scheduler_lease_expires_at c"
    "c_created_at (fold set_ctx flds c) = c_created_at c"
    by (induction flds arbitrary: c) (simp_all add: one)
qed

lemma fold_set_task_ids [simp]:
  "t_task_id (fold set_task flds t) = t_task_id t"
  "t_context_id (fold set_task flds t) = t_context_id t"
  "t_message_id (fold set_task flds t) = t_message_id t"
  "t_sequence (fold set_task flds t) = t_sequence t"
  "t_created_at (fold set_task flds t) = t_created_at t"
proof -
  have one: "t_task_id (set_task f d) = t_task_id d \<and> t_context_id (set_task f d) = t_context_id d
    \<and> t_message_id (set_task f d) = t_message_id d \<and> t_sequence (set_task f d) = t_sequence d
    \<and> t_created_at (set_task f d) = t_created_at d" for f d
    by (cases f) simp_all
  show "t_task_id (fold set_task flds t) = t_task_id t"
    "t_context_id (fold set_task flds t) = t_context_id t"
    "t_message_id (fold set_task flds t) = t_message_id t"
    "t_sequence (fold set_task flds t) = t_sequence t"
    "t_created_at (fold set_task flds t) = t_created_at t"
    by (induction flds arbitrary: t) (simp_all add: one)
qed

lemma fold_set_task_worker:
  assumes "list_all worker_field flds"
  shows "t_cancel_requested_at (fold set_task flds t) = t_cancel_requested_at t"
    and "t_dispatch_attempts (fold set_task flds t) = t_dispatch_attempts t"
proof -
  have one: "worker_field f \<Longrightarrow> t_cancel_requested_at (set_task f d) = t_cancel_requested_at d
    \<and> t_dispatch_attempts (set_task f d) = t_dispatch_attempts d" for f d
    by (cases f) simp_all
  show "t_cancel_requested_at (fold set_task flds t) = t_cancel_requested_at t"
    and "t_dispatch_attempts (fold set_task flds t) = t_dispatch_attempts t"
    using assms by (induction flds arbitrary: t) (simp_all add: one)
qed

section \<open>The constraints of the schema\<close>

lemma unique_opt_upd:
  assumes "unique_opt k rows" "\<And>r. r \<in> set rows \<Longrightarrow> p r \<Longrightarrow> k (f r) = k r"
  shows "unique_opt k (upd_rows p f rows)"
proof -
  have "List.map_filter k (upd_rows p f rows) = List.map_filter k rows"
    using assms(2) by (induction rows) (auto simp: upd_rows_simps List.map_filter_simps split: option.splits)
  with assms(1) show ?thesis by (simp add: unique_opt_def)
qed

lemma contexts_ok_upd:
  assumes "contexts_ok cs"
    and "\<And>c. c_context_id (f c) = c_context_id c" "\<And>c. c_creation_message_id (f c) = c_creation_message_id c"
    and "\<And>c. c_cma_session_id (f c) = c_cma_session_id c" "\<And>c. context_check c \<Longrightarrow> context_check (f c)"
  shows "contexts_ok (upd_rows p f cs)"
  using assms
  by (auto simp: contexts_ok_def map_upd_rows unique_opt_upd list_all_iff set_upd_rows)

lemma tasks_ok_upd:
  assumes "tasks_ok cs ts"
    and "\<And>t. t_task_id (f t) = t_task_id t" "\<And>t. t_context_id (f t) = t_context_id t"
    and "\<And>t. t_message_id (f t) = t_message_id t" "\<And>t. t_sequence (f t) = t_sequence t"
  shows "tasks_ok cs (upd_rows p f ts)"
  using assms by (auto simp: tasks_ok_def map_upd_rows list_all_iff set_upd_rows)

lemma approvals_ok_upd:
  assumes "approvals_ok ts rs" "distinct (map r_request_id (upd_rows p f rs))"
    and "\<And>r. r_task_id (f r) = r_task_id r" "\<And>r. r_cma_event_id (f r) = r_cma_event_id r"
  shows "approvals_ok ts (upd_rows p f rs)"
  using assms by (auto simp: approvals_ok_def map_upd_rows list_all_iff set_upd_rows)

lemma approvals_ok_upd_same:
  assumes "approvals_ok ts rs" "\<And>r. r_request_id (f r) = r_request_id r"
    and "\<And>r. r_task_id (f r) = r_task_id r" "\<And>r. r_cma_event_id (f r) = r_cma_event_id r"
  shows "approvals_ok ts (upd_rows p f rs)"
  using assms by (intro approvals_ok_upd) (auto simp: map_upd_rows approvals_ok_def)

lemma clarifications_ok_upd:
  assumes "clarifications_ok ts qs" "\<And>q. q_request_id (f q) = q_request_id q"
    and "\<And>q. q_task_id (f q) = q_task_id q" "\<And>q. q_cma_event_id (f q) = q_cma_event_id q"
  shows "clarifications_ok ts (upd_rows p f qs)"
  using assms by (auto simp: clarifications_ok_def map_upd_rows list_all_iff set_upd_rows)

lemma push_ok_upd:
  assumes "push_ok ts ps" "\<And>q. p_task_id (f q) = p_task_id q" "\<And>q. p_config_id (f q) = p_config_id q"
  shows "push_ok ts (upd_rows p f ps)"
  using assms by (auto simp: push_ok_def map_upd_rows list_all_iff set_upd_rows)

text \<open>Replacing one table: the other tables only refer to its keys.\<close>

lemma schema_ok_contexts:
  assumes "schema_ok s" "contexts_ok cs" "set (map c_context_id (contexts s)) \<subseteq> set (map c_context_id cs)"
  shows "schema_ok (s\<lparr>contexts := cs\<rparr>)"
  using assms by (auto simp: schema_ok_def tasks_ok_def list_all_iff)

lemma schema_ok_tasks:
  assumes "schema_ok s" "tasks_ok (contexts s) ts" "set (map t_task_id (tasks s)) \<subseteq> set (map t_task_id ts)"
  shows "schema_ok (s\<lparr>tasks := ts\<rparr>)"
  using assms
  by (auto simp: schema_ok_def approvals_ok_def clarifications_ok_def push_ok_def list_all_iff)

lemma schema_ok_approvals:
  "schema_ok s \<Longrightarrow> approvals_ok (tasks s) rs \<Longrightarrow> schema_ok (s\<lparr>approvals := rs\<rparr>)"
  by (simp add: schema_ok_def)

lemma schema_ok_clarifications:
  "schema_ok s \<Longrightarrow> clarifications_ok (tasks s) qs \<Longrightarrow> schema_ok (s\<lparr>clarifications := qs\<rparr>)"
  by (simp add: schema_ok_def)

lemma schema_ok_push: "schema_ok s \<Longrightarrow> push_ok (tasks s) ps \<Longrightarrow> schema_ok (s\<lparr>push_configs := ps\<rparr>)"
  by (simp add: schema_ok_def)

lemma schema_ok_upd_contexts:
  assumes "schema_ok s"
    and "\<And>c. c_context_id (f c) = c_context_id c" "\<And>c. c_creation_message_id (f c) = c_creation_message_id c"
    and "\<And>c. c_cma_session_id (f c) = c_cma_session_id c" "\<And>c. context_check c \<Longrightarrow> context_check (f c)"
  shows "schema_ok (s\<lparr>contexts := upd_rows p f (contexts s)\<rparr>)"
  using assms
  by (intro schema_ok_contexts contexts_ok_upd) (auto simp: schema_ok_def map_upd_rows)

lemma schema_ok_upd_tasks:
  assumes "schema_ok s"
    and "\<And>t. t_task_id (f t) = t_task_id t" "\<And>t. t_context_id (f t) = t_context_id t"
    and "\<And>t. t_message_id (f t) = t_message_id t" "\<And>t. t_sequence (f t) = t_sequence t"
  shows "schema_ok (s\<lparr>tasks := upd_rows p f (tasks s)\<rparr>)"
  using assms by (intro schema_ok_tasks tasks_ok_upd) (auto simp: schema_ok_def map_upd_rows)

lemma schema_ok_upd_both:
  assumes "schema_ok s"
    and "\<And>c. c_context_id (f c) = c_context_id c" "\<And>c. c_creation_message_id (f c) = c_creation_message_id c"
    and "\<And>c. c_cma_session_id (f c) = c_cma_session_id c" "\<And>c. context_check c \<Longrightarrow> context_check (f c)"
    and "\<And>t. t_task_id (g t) = t_task_id t" "\<And>t. t_context_id (g t) = t_context_id t"
    and "\<And>t. t_message_id (g t) = t_message_id t" "\<And>t. t_sequence (g t) = t_sequence t"
  shows "schema_ok (s\<lparr>contexts := upd_rows p f (contexts s), tasks := upd_rows q g (tasks s)\<rparr>)"
  using schema_ok_upd_tasks [OF schema_ok_upd_contexts [OF assms(1-5)] assms(6-9), of q p] by simp

lemmas schema_ok_upd = schema_ok_upd_contexts schema_ok_upd_tasks
  schema_ok_approvals [OF _ approvals_ok_upd_same]
  schema_ok_clarifications [OF _ clarifications_ok_upd] schema_ok_push [OF _ push_ok_upd]

lemma schema_okD:
  assumes "schema_ok s"
  shows "contexts_ok (contexts s)" "tasks_ok (contexts s) (tasks s)" "approvals_ok (tasks s) (approvals s)"
    "clarifications_ok (tasks s) (clarifications s)" "push_ok (tasks s) (push_configs s)"
  using assms by (simp_all add: schema_ok_def)


subsection \<open>Every operation keeps them\<close>

lemma schema_try_identity:
  assumes "schema_ok (snd (m s))"
  shows "schema_ok (snd (try_except m (identity_conflict msg) s))"
  using assms
  by (auto simp: try_except_def identity_conflict_def raise_err_def split: prod.splits sum.splits option.splits if_splits)

lemma insert_context_schema:
  assumes "schema_ok s"
  shows "schema_ok (snd (insert_context cid mid s))"
proof (cases rule: insert_context_cases [of mid s cid])
  case created
  with assms show ?thesis
    by (auto intro!: schema_ok_contexts contexts_ok_append dest: schema_okD)
qed (use assms in simp_all)

lemma insert_task_schema:
  assumes "schema_ok s"
  shows "schema_ok (snd (insert_task t s))"
proof (cases rule: insert_task_cases [of t s])
  case created
  then have "tasks_ok (contexts s) (tasks s @ [t])"
    using schema_okD(2) [OF assms] by (auto simp: tasks_ok_def)
  with created assms show ?thesis by (auto intro!: schema_ok_tasks)
qed (use assms in simp)

lemma write_contexts_schema:
  assumes "schema_ok s" "map c_context_id cs = map c_context_id (contexts s)"
    "map c_creation_message_id cs = map c_creation_message_id (contexts s)"
  shows "schema_ok (snd (write_contexts cs s))"
proof (cases rule: write_contexts_cases [of cs s])
  case written
  with assms have "contexts_ok cs"
    using schema_okD(1) [OF assms(1)] by (simp add: contexts_ok_def)
  then show ?thesis unfolding written(1) snd_conv
    by (rule schema_ok_contexts [OF assms(1)]) (simp only: assms(2) order_refl)
qed (use assms in simp)

lemma snd_bnd_ret: "snd (bnd m (\<lambda>x. ret (g x)) s) = snd (m s)"
  by (simp add: bnd_def ret_def split: prod.splits sum.splits)

lemma create_context_schema: "schema_ok s \<Longrightarrow> schema_ok (snd (create_initializing_context cid mid s))"
  unfolding create_initializing_context_def
  by (simp add: raise_err_def schema_try_identity insert_context_schema)

lemma bind_session_schema:
  assumes "schema_ok s"
  shows "schema_ok (snd (bind_cma_session cid sid s))"
  unfolding bind_cma_session_def
  using assms
  by (simp add: raise_err_def)
     (auto intro!: schema_try_identity write_contexts_schema
       simp: Let_def snd_bnd_ret map_upd_rows split: option.splits)

lemma create_task_schema: "schema_ok s \<Longrightarrow> schema_ok (snd (create_task tid cid mid seq a st s))"
  unfolding create_task_def
  by (simp add: raise_err_def)
     (auto intro!: schema_try_identity insert_task_schema split: option.splits)

lemma update_context_schema: "schema_ok s \<Longrightarrow> schema_ok (snd (update_context cid claim flds s))"
  unfolding update_context_def
  by (simp add: raise_err_def)
     (auto intro!: write_contexts_schema simp: Let_def snd_bnd_ret map_upd_rows split: option.splits)

lemma update_task_schema: "schema_ok s \<Longrightarrow> schema_ok (snd (update_task tid cid claim flds s))"
  unfolding update_task_def
  by (simp add: raise_err_def) (auto intro!: schema_ok_upd simp: Let_def split: option.splits)

lemma schema_ok_elsewhere: "same_tables s s' \<Longrightarrow> schema_ok s \<Longrightarrow> schema_ok s'"
  by (simp add: same_tables_def schema_ok_def)

lemma admit_turn_schema:
  assumes "schema_ok s"
  shows "schema_ok (snd (admit_turn ctx mid pt key s))"
  unfolding admit_turn_def Let_def
  using assms
  by (auto simp: snd_bnd_ret context_check_def
      intro!: insert_task_schema schema_ok_upd_contexts split: option.splits lifecycle.splits)

lemma approval_ops_schema:
  assumes "schema_ok s"
  shows "schema_ok (snd (record_policy_decision cid tid claim rid d s))"
    "schema_ok (snd (record_human_ruling rid tid d s))"
    "schema_ok (snd (deny_cancelled_input_request rid cid claim s))"
    "schema_ok (snd (mark_confirmation_attempted rid cid claim s))"
  using assms
  by (auto simp: record_policy_decision_def record_human_ruling_def deny_cancelled_input_request_def
      mark_confirmation_attempted_def raise_err_def Let_def intro!: schema_ok_upd dest: schema_okD
      split: option.splits)

lemma human_review_schema:
  assumes "schema_ok s"
  shows "schema_ok (snd (record_human_review nid cid tid claim rid dg au ok s))"
  using assms
  by (auto simp: record_human_review_def Let_def intro!: schema_ok_approvals approvals_ok_upd
      dest: schema_okD split: option.splits)

lemma clarification_ops_schema:
  assumes "schema_ok s"
  shows "schema_ok (snd (decide_clarification_request rid tid key s))"
    "schema_ok (snd (mark_clarification_attempted rid cid claim s))"
  using assms
  by (auto simp: decide_clarification_request_def mark_clarification_attempted_def Let_def
      intro!: schema_ok_upd dest: schema_okD split: option.splits)

lemma resolve_input_schema:
  assumes "schema_ok s"
  shows "schema_ok (snd (resolve_input_request rid cid claim s))"
  using assms unfolding resolve_input_request_def Let_def snd_conv
  by (auto simp: schema_ok_def intro!: approvals_ok_upd_same clarifications_ok_upd)

lemma add_request_schema:
  assumes "schema_ok s"
  shows "schema_ok (snd (add_input_request rid tid ev cid claim s))"
    "schema_ok (snd (add_clarification_request rid tid ev cid claim s))"
  using assms
  by (auto simp: add_input_request_def add_clarification_request_def schema_ok_def approvals_ok_def
      clarifications_ok_def new_approval_def new_clarification_def)

lemma lease_ops_schema:
  assumes "schema_ok s"
  shows "schema_ok (snd (claim_scheduler claim cid lease s))"
    "schema_ok (snd (release_scheduler cid claim s))"
  using assms
  by (auto simp: claim_scheduler_def release_scheduler_def Let_def context_check_def
      intro!: schema_ok_upd_contexts split: option.splits lifecycle.splits)

lemma cancel_schema: "schema_ok s \<Longrightarrow> schema_ok (snd (cancel_task tid s))"
  by (auto simp: cancel_task_def Let_def intro!: schema_ok_upd_tasks split: option.splits)

lemma activate_schema: "schema_ok s \<Longrightarrow> schema_ok (snd (activate_task cid tid claim pred s))"
  unfolding activate_task_def Let_def transaction_def
  by (auto simp: context_check_def intro!: schema_ok_upd_both
      split: option.splits lifecycle.splits)

lemma resolved_rows [simp]:
  "t_task_id (resolved_task r n t) = t_task_id t" "t_context_id (resolved_task r n t) = t_context_id t"
  "t_message_id (resolved_task r n t) = t_message_id t" "t_sequence (resolved_task r n t) = t_sequence t"
  "t_created_at (resolved_task r n t) = t_created_at t"
  "t_cancel_requested_at (resolved_task r n t) = t_cancel_requested_at t"
  "t_dispatch_attempts (resolved_task r n t) = t_dispatch_attempts t"
  "c_context_id (resolved_context r n c) = c_context_id c"
  "c_creation_message_id (resolved_context r n c) = c_creation_message_id c"
  "c_cma_session_id (resolved_context r n c) = c_cma_session_id c"
  "c_next_sequence (resolved_context r n c) = c_next_sequence c"
  "c_created_at (resolved_context r n c) = c_created_at c"
  by (simp_all add: resolved_task_def resolved_context_def)

lemma resolve_held_schema:
  assumes "schema_ok s"
  shows "schema_ok (snd (resolve_held_task tid claim res s))"
proof (cases rule: resolve_held_task_cases [of tid claim res s])
  case (resolved task ctx pc)
  have "context_check c \<Longrightarrow> context_check (resolved_context res (clock s) c)" for c
    by (auto simp: context_check_def resolved_context_def split: lifecycle.splits)
  then show ?thesis unfolding resolved(8) snd_conv
    by (intro schema_ok_upd_both assms) simp_all
qed (use assms in simp)

lemma push_ops_schema:
  assumes "schema_ok s"
  shows "schema_ok (snd (reset_delivery tid pid s))" "schema_ok (snd (push_delete tid pid s))"
    "schema_ok (snd (push_claim claim tid pid lease s))"
    "schema_ok (snd (push_finish tid pid claim fp ra pm s))" "schema_ok (snd (push_release tid pid claim s))"
  using assms
  by (auto simp: reset_delivery_def push_delete_def push_claim_def push_finish_def push_release_def Let_def
      intro!: schema_ok_upd dest: schema_okD)

lemma push_create_schema:
  assumes "schema_ok s"
  shows "schema_ok (snd (push_create tid pid url s))"
proof -
  have fresh: "push_ok (tasks s) (push_configs s @ [new_push tid pid url (clock s)])"
    if "find (push_key tid pid) (push_configs s) = None" "tid \<in> set (map t_task_id (tasks s))"
    using schema_okD(5) [OF assms] that
    by (auto simp: push_ok_def new_push_def push_key_def dest: find_NoneD)
  show ?thesis unfolding push_create_def transaction_def Let_def
    using assms fresh
    by (auto intro!: schema_ok_push push_ok_upd dest: schema_okD split: option.splits)
qed

interpretation schema: repository_relation "\<lambda>s s'. schema_ok s \<longrightarrow> schema_ok s'"
  by unfold_locales
     (simp_all add: keeps_def insert_context_schema admit_turn_schema
       bind_session_schema create_task_schema approval_ops_schema human_review_schema lease_ops_schema
       update_context_schema update_task_schema resolve_held_schema activate_schema cancel_schema
       add_request_schema clarification_ops_schema resolve_input_schema push_create_schema push_ops_schema,
      blast intro: schema_ok_elsewhere)

end
