(* ===== verification/Scheduler_Contract.thy ===== *)
theory Scheduler_Contract
  imports Scheduler Repository_Steps
begin

text \<open>
  The interface through which a run of the scheduler is reasoned about. A relation on worker
  states that is a preorder, that every single transaction, port call and observation of
  the scheduler keeps, and that the two sections around an attempt (the grant, then the call to
  the provider) keep, holds between the start and the end of a whole run (\<open>run_once\<close>),
  however the run ends: normally, with an exception, or with the death of the process at any
  step.
\<close>

section \<open>The sections around an attempt\<close>

text \<open>\<open>try\<close> with the exception turned into a value; the death of the process is not caught.\<close>

definition capture :: "('s, 'a) comp \<Rightarrow> ('s, error + 'a) comp" where
  "capture m = (\<lambda>s. case m s of
     (Inl e, s') \<Rightarrow> if e = Killed then (Inl Killed, s') else (Inr (Inl e), s')
   | (Inr x, s') \<Rightarrow> (Inr (Inr x), s'))"

lemma try_except_capture:
  assumes "h Killed = None"
  shows "try_except m h = bnd (capture m) (\<lambda>r. case r of
     Inl e \<Rightarrow> (case h e of None \<Rightarrow> raise_err e | Some k \<Rightarrow> k) | Inr x \<Rightarrow> ret x)"
  using assms
  by (intro ext) (auto simp: try_except_def capture_def bnd_def raise_err_def ret_def
      split: prod.splits sum.splits option.splits)

lemma capture_bnd_ret: "bnd (capture (bnd m (\<lambda>_. ret y))) f =
    bnd (capture m) (\<lambda>r. f (case r of Inl e \<Rightarrow> Inl e | Inr _ \<Rightarrow> Inr y))"
  by (intro ext) (auto simp: capture_def bnd_def ret_def split: prod.splits sum.splits)

definition confirm_call :: "'p env \<Rightarrow> task_row \<Rightarrow> string \<Rightarrow> approval_row \<Rightarrow> ruling \<Rightarrow> ('p worker, unit) comp" where
  "confirm_call E task sid r d =
     bnd (confirmation_reason E task r d) (\<lambda>reason.
     bnd (observe (Confirm_tool sid (r_cma_event_id r) (d = Allow))) (\<lambda>_.
     step E (confirm_tool E sid (r_cma_event_id r) (d = Allow) reason)))"

definition confirm_section :: "'p env \<Rightarrow> string \<Rightarrow> task_row \<Rightarrow> string \<Rightarrow> string \<Rightarrow> approval_row \<Rightarrow> ruling
    \<Rightarrow> ('p worker, (error + unit) option) comp" where
  "confirm_section E cid task claim sid r d =
     bnd (step E (mark_confirmation_attempted (r_request_id r) cid claim)) (\<lambda>granted.
     if \<not> granted then ret None
     else bnd (observe (Confirm_granted (r_request_id r) (r_cma_event_id r) d)) (\<lambda>_.
          bnd (capture (confirm_call E task sid r d)) (\<lambda>x. ret (Some x))))"

definition answer_call :: "'p env \<Rightarrow> task_row \<Rightarrow> string \<Rightarrow> clarification_row \<Rightarrow> ('p worker, unit) comp" where
  "answer_call E task sid q =
     bnd (step E (s3_get (py_str (q_answer_object_key q)))) (\<lambda>answer.
     bnd (observe (Tool_result sid (q_cma_event_id q))) (\<lambda>_.
     step E (send_custom_tool_result E sid (q_cma_event_id q) answer (t_cancel_requested_at task \<noteq> None))))"

definition answer_section :: "'p env \<Rightarrow> string \<Rightarrow> task_row \<Rightarrow> string \<Rightarrow> string \<Rightarrow> clarification_row
    \<Rightarrow> ('p worker, (error + unit) option) comp" where
  "answer_section E cid task claim sid q =
     bnd (step E (mark_clarification_attempted (q_request_id q) cid claim)) (\<lambda>granted.
     if \<not> granted then ret None
     else bnd (observe (Result_granted (q_request_id q) (q_cma_event_id q))) (\<lambda>_.
          bnd (capture (answer_call E task sid q)) (\<lambda>x. ret (Some x))))"

text \<open>The code of an attempt is its section followed by what the outcome asks for.\<close>

definition after_confirmation :: "'p env \<Rightarrow> string \<Rightarrow> string \<Rightarrow> string \<Rightarrow> string \<Rightarrow> (cma_event list \<Rightarrow> bool)
    \<Rightarrow> (error + unit) \<Rightarrow> ('p worker, flow) comp" where
  "after_confirmation E cid tid claim sid seen x = (case x of
     Inr _ \<Rightarrow> ret Fall_through
   | Inl e \<Rightarrow> (case e of
       DefinitiveProviderError _ \<Rightarrow> bnd (fail_context E cid tid claim) (\<lambda>_. ret Return_true)
     | Killed \<Rightarrow> raise_err Killed
     | _ \<Rightarrow> bnd (hold E tid cid claim (Some ''ambiguous-confirmation'')) (\<lambda>_.
            bnd (step E (list_events E sid)) (\<lambda>refreshed.
            ret (if seen refreshed then Fall_through else Continue)))))"

lemma captured_confirmation:
  "try_except (bnd m (\<lambda>_. ret Fall_through))
     (\<lambda>e. case e of
        Killed \<Rightarrow> None
      | DefinitiveProviderError _ \<Rightarrow> Some (bnd (fail_context E cid tid claim) (\<lambda>_. ret Return_true))
      | _ \<Rightarrow> Some
          (bnd (hold E tid cid claim (Some ''ambiguous-confirmation'')) (\<lambda>_.
           bnd (step E (list_events E sid)) (\<lambda>refreshed.
           ret (if seen refreshed then Fall_through else Continue)))))
   = bnd (capture m) (after_confirmation E cid tid claim sid seen)"
  by (subst try_except_capture)
     (auto simp: capture_bnd_ret after_confirmation_def intro!: arg_cong [where f = "bnd (capture m)"]
       split: sum.splits error.splits)

lemma bnd_if_not: "bnd (if \<not> b then ret x else m) f = (if \<not> b then f x else bnd m f)"
  by simp

lemma attempt_confirmation_section:
  "attempt_confirmation E cid task claim sid r d =
     bnd (confirm_section E cid task claim sid r d) (\<lambda>res. case res of
       None \<Rightarrow> ret None
     | Some x \<Rightarrow>
         bnd (after_confirmation E cid (t_task_id task) claim sid
                (has_confirmation (r_cma_event_id r) (ruling_str (Some d))) x)
         (\<lambda>outcome. case outcome of
            Return_true \<Rightarrow> ret (Some True)
          | Continue \<Rightarrow> ret None
          | Fall_through \<Rightarrow> bnd (resolve_input E (Approval r) cid claim) (\<lambda>_. ret None)))"
proof -
  have body: "bnd (confirmation_reason E task r d) (\<lambda>reason.
         bnd (observe (Confirm_tool sid (r_cma_event_id r) (d = Allow))) (\<lambda>_.
         bnd (step E (confirm_tool E sid (r_cma_event_id r) (d = Allow) reason)) (\<lambda>_. ret Fall_through)))
     = bnd (confirm_call E task sid r d) (\<lambda>_. ret Fall_through)"
    by (simp add: confirm_call_def bnd_assoc)
  show ?thesis
    unfolding attempt_confirmation_def confirm_section_def Let_def body captured_confirmation
    by (simp add: bnd_assoc bnd_if_not cong: if_cong)
qed

lemma answer_clarification_section:
  "answer_clarification E cid task claim sid events q =
     (if has_tool_result (q_cma_event_id q) events then
        bnd (resolve_input E (Clarification q) cid claim) (\<lambda>_.
        bnd (step E (s3_delete (py_str (q_answer_object_key q)))) (\<lambda>_. ret None))
      else if q_response_attempted_at q \<noteq> None then
        bnd (hold E (t_task_id task) cid claim (Some ''ambiguous-confirmation'')) (\<lambda>_. ret None)
      else
        bnd (answer_section E cid task claim sid q) (\<lambda>res. case res of
          None \<Rightarrow> ret None
        | Some x \<Rightarrow>
            bnd (after_confirmation E cid (t_task_id task) claim sid (has_tool_result (q_cma_event_id q)) x)
            (\<lambda>outcome. case outcome of
               Return_true \<Rightarrow> ret (Some True)
             | Continue \<Rightarrow> ret None
             | Fall_through \<Rightarrow> bnd (resolve_input E (Clarification q) cid claim) (\<lambda>_.
                 bnd (step E (s3_delete (py_str (q_answer_object_key q)))) (\<lambda>_. ret None)))))"
proof -
  have body: "bnd (step E (s3_get (py_str (q_answer_object_key q)))) (\<lambda>answer.
           bnd (observe (Tool_result sid (q_cma_event_id q))) (\<lambda>_.
           bnd (step E (send_custom_tool_result E sid (q_cma_event_id q) answer (t_cancel_requested_at task \<noteq> None)))
             (\<lambda>_. ret Fall_through)))
     = bnd (answer_call E task sid q) (\<lambda>_. ret Fall_through)"
    by (simp add: answer_call_def bnd_assoc)
  show ?thesis
    unfolding answer_clarification_def answer_section_def Let_def body captured_confirmation
    by (simp add: bnd_assoc bnd_if_not cong: if_cong)
qed

section \<open>The contract\<close>

text \<open>Observations that only the two sections make.\<close>

fun sectioned :: "sched_obs \<Rightarrow> bool" where
  "sectioned (Confirm_granted _ _ _) = True"
| "sectioned (Confirm_tool _ _ _) = True"
| "sectioned (Result_granted _ _) = True"
| "sectioned (Tool_result _ _) = True"
| "sectioned _ = False"

locale scheduler_contract = step_relation R for R :: "'p worker \<Rightarrow> 'p worker \<Rightarrow> bool" +
  fixes E :: "'p env"
  assumes kept_elsewhere: "same_tables (interfere (rt_of E) (tick w) (shared w)) s \<Longrightarrow>
      R w (w\<lparr>tick := Suc (tick w), shared := s\<rparr>)"
    and kept_uuid: "keeps R (fresh_uuid (rt_of E))"
    and kept_locals: "keeps R (set_locals l)"
    and kept_observe: "\<not> sectioned x \<Longrightarrow> keeps R (observe x)"
    and kept_claim: "keeps R (step E (claim_scheduler claim cid lease))"
    and kept_release: "keeps R (step E (release_scheduler cid claim))"
    and kept_update_context: "keeps R (step E (update_context cid claim cflds))"
    and kept_update_task: "list_all worker_field flds \<Longrightarrow> keeps R (step E (update_task tid cid claim flds))"
    and kept_policy_decision: "keeps R (step E (record_policy_decision cid tid claim rid d))"
    and kept_human_review: "keeps R (step E (record_human_review nid cid tid claim rid dg au ok))"
    and kept_activate: "keeps R (step E (activate_task cid tid claim pred))"
    and kept_add_input: "keeps R (step E (add_input_request rid tid ev cid claim))"
    and kept_add_clarification: "keeps R (step E (add_clarification_request rid tid ev cid claim))"
    and kept_decide_clarification: "keeps R (step E (decide_clarification_request rid tid key))"
    and kept_deny_cancelled: "keeps R (step E (deny_cancelled_input_request rid cid claim))"
    and kept_resolve_input: "keeps R (step E (resolve_input_request rid cid claim))"
    and kept_confirm_section: "keeps R (confirm_section E cid task claim sid r dec)"
    and kept_answer_section: "keeps R (answer_section E cid task claim sid q)"
begin

lemma kept_port:
  assumes "keeps same_tables f"
  shows "keeps R (step E f)"
proof (rule keepsI)
  fix w :: "'p worker"
  let ?s = "interfere (rt_of E) (tick w) (shared w)"
  have "same_tables ?s (snd (f ?s))" using assms by (rule keepsD)
  moreover have "same_tables ?s ?s" by (simp add: same_tables_def)
  ultimately show "R w (snd (step E f w))"
    by (auto simp: call_def Let_def dest: kept_elsewhere split: fault.splits prod.splits)
qed

lemma kept_get_locals: "keeps R get_locals"
  by (rule keepsI) (simp add: get_locals_def step_refl)

lemma kept_ports:
  "keeps R (step E (s3_put k x))" "keeps R (step E (s3_get k))" "keeps R (step E (s3_delete k))"
  "keeps R (step E (schedule c m n))" "keeps R (step E (schedule_context c m n))"
  "keeps R (step E (on_outside h))" "keeps R (step E (reads g))"
  "keeps R (step E (create_session E a b c))" "keeps R (step E (find_session E a b))"
  "keeps R (step E (list_events E a))" "keeps R (step E (send_message E a b))"
  "keeps R (step E (interrupt E a))"
  by (intro kept_port port_same_tables provider_same_tables)+

lemma kept_observes:
  "keeps R (observe (Create_session a b))" "keeps R (observe (Send_message a b))"
  "keeps R (observe (Interrupt_session a))" "keeps R (observe (Preview_start h))"
  by (simp_all add: kept_observe)

lemma kept_task_fields:
  "keeps R (step E (update_task tid cid claim [Set_held_reason h]))"
  "keeps R (step E (update_task tid cid claim [Set_internal_state i, Set_a2a_state a]))"
  "keeps R (step E (update_task tid cid claim [Set_cancel_attempted_at n, Set_internal_state i]))"
  "keeps R (step E (update_task tid cid claim [Set_internal_state i, Set_a2a_state a,
      Set_cma_terminal_event_id e, Set_held_reason h]))"
  "keeps R (step E (update_task tid cid claim [Set_cma_input_event_id e, Set_input_object_key k,
      Set_internal_state i, Set_a2a_state a, Set_held_reason h]))"
  by (simp_all add: kept_update_task)

lemma keeps_try_provider:
  assumes "keeps R m" "\<And>x. keeps R (a x)" "keeps R b"
  shows "keeps R (try_except m (\<lambda>e. case e of
     Killed \<Rightarrow> None | DefinitiveProviderError x \<Rightarrow> Some (a x) | _ \<Rightarrow> Some b))"
  using assms by (intro keeps_try_except) (auto split: error.splits)

lemma keeps_try_policy:
  assumes "keeps R m" "\<And>e. keeps R (b e)"
  shows "keeps R (try_except m (\<lambda>e. case e of LostSchedulerClaim _ \<Rightarrow> None | Killed \<Rightarrow> None | _ \<Rightarrow> Some (b e)))"
  using assms by (intro keeps_try_except) (auto split: error.splits)

lemmas kept_basic = keeps_control keeps_try_provider keeps_try_policy
  kept_ports kept_observes kept_task_fields kept_uuid kept_locals kept_get_locals
  kept_claim kept_release kept_update_context kept_policy_decision kept_human_review kept_activate
  kept_add_input kept_add_clarification kept_decide_clarification kept_deny_cancelled
  kept_resolve_input kept_confirm_section kept_answer_section

lemma kept_preview: "keeps R (preview E tid cid phase)"
  unfolding preview_def by (auto intro!: kept_basic)

lemma kept_resolve: "keeps R (resolve_input E request cid claim)"
  unfolding resolve_input_def Let_def
  by (auto intro!: kept_basic kept_preview split: option.splits)

lemma kept_finish: "keeps R (finish E cid tid claim state ev)"
  unfolding finish_def by (intro kept_basic)

lemma kept_hold: "keeps R (hold E tid cid claim reason)"
  unfolding hold_def by (intro kept_basic)

lemma kept_fail_context: "keeps R (fail_context E cid tid claim)"
  unfolding fail_context_def by (intro kept_basic kept_finish)

lemma kept_bind_input: "keeps R (bind_input E task cid claim ev)"
  unfolding bind_input_def by (auto intro!: kept_basic kept_preview)

lemmas kept_small = kept_basic kept_preview kept_resolve kept_finish kept_hold kept_fail_context kept_bind_input

lemma kept_set_waiting_state: "keeps R (set_waiting_state E cid tid claim)"
  unfolding set_waiting_state_def Let_def by (intro kept_basic)

lemma kept_publish_review: "keeps R (publish_review E cid tid claim row dg au key)"
  unfolding publish_review_def by (intro kept_basic)

lemma kept_evaluate_row: "keeps R (evaluate_row E cid tid claim by_id remaining row)"
  unfolding evaluate_row_def ask_policy_def
  by (auto intro!: kept_small kept_publish_review split: option.splits sum.splits)

lemma kept_policy_failed: "keeps R (policy_failed E cid tid claim row e)"
  unfolding policy_failed_def by (auto intro!: kept_small kept_publish_review)

lemma kept_evaluate_policy: "keeps R (evaluate_policy E cid tid claim by_id)"
  unfolding evaluate_policy_def Let_def
  by (auto intro!: kept_small kept_evaluate_row kept_policy_failed split: request_row.splits option.splits)

lemma kept_after_confirmation: "keeps R (after_confirmation E cid tid claim sid seen x)"
  unfolding after_confirmation_def by (auto intro!: kept_small split: sum.splits error.splits)

lemma kept_attempt_confirmation: "keeps R (attempt_confirmation E cid task claim sid r d)"
  unfolding attempt_confirmation_section
  by (auto intro!: kept_small kept_after_confirmation split: option.splits flow.splits)

lemma kept_answer_clarification: "keeps R (answer_clarification E cid task claim sid events q)"
  unfolding answer_clarification_section
  by (auto intro!: kept_small kept_after_confirmation split: option.splits flow.splits)

lemma kept_confirm_approval: "keeps R (confirm_approval E cid task claim sid events r)"
  unfolding confirm_approval_def Let_def
  by (auto intro!: kept_small kept_attempt_confirmation split: option.splits)

lemma kept_reconcile_confirmations: "keeps R (reconcile_confirmations E cid task claim sid events)"
  unfolding reconcile_confirmations_def Let_def
  by (auto intro!: kept_small kept_answer_clarification kept_confirm_approval
      split: option.splits request_row.splits)

lemma kept_cancel_requests: "keeps R (cancel_requests E cid tid claim)"
  unfolding cancel_requests_def
  by (auto intro!: kept_small split: request_row.splits option.splits)

lemma kept_interrupt_task: "keeps R (interrupt_task E cid task claim sid)"
  unfolding interrupt_task_def Let_def by (auto intro!: kept_small)

lemma kept_reconcile_cancel: "keeps R (reconcile_cancel E cid task claim sid events)"
  unfolding reconcile_cancel_def Let_def
  by (auto intro!: kept_small kept_cancel_requests kept_interrupt_task kept_reconcile_confirmations
      split: option.splits)

lemma kept_discover_requests: "keeps R (discover_requests E cid tid claim events ids)"
  unfolding discover_requests_def Let_def by (auto intro!: kept_basic)

lemma kept_settle_requests: "keeps R (settle_requests E cid task claim sid events)"
  unfolding settle_requests_def Let_def
  by (auto intro!: kept_small kept_evaluate_policy kept_set_waiting_state kept_reconcile_confirmations)

lemma kept_reconcile_status: "keeps R (reconcile_status E cid task claim sid events st)"
  unfolding reconcile_status_def Let_def
  by (auto intro!: kept_small kept_settle_requests kept_discover_requests)

lemma kept_reconcile_bound: "keeps R (reconcile_bound E cid task claim sid events)"
  unfolding reconcile_bound_def
  by (auto intro!: kept_small kept_reconcile_cancel kept_reconcile_confirmations kept_reconcile_status
      split: option.splits)

lemma kept_reconcile_active: "keeps R (reconcile_active E ctx task claim)"
  unfolding reconcile_active_def Let_def
  by (auto intro!: kept_small kept_reconcile_bound split: option.splits list.splits)

lemma kept_dispatch: "keeps R (dispatch E ctx task claim)"
  unfolding dispatch_def dispatch_first_def dispatch_next_def Let_def
  by (auto intro!: kept_small kept_reconcile_active split: option.splits)

lemma kept_reconcile: "keeps R (reconcile E cid claim)"
  unfolding reconcile_def reconcile_context_def Let_def
  by (auto intro!: kept_small kept_reconcile_active kept_dispatch split: option.splits)

lemma kept_start_previews: "keeps R (start_previews E)"
  unfolding start_previews_def
  by (auto intro!: kept_small split: option.splits)

lemma kept_sweep_orphans: "keeps R (sweep_orphans E)"
  unfolding sweep_orphans_def Let_def by (auto intro!: kept_basic)

theorem kept_run_once: "keeps R (run_once E cid)"
  unfolding run_once_def
  by (auto intro!: kept_small kept_reconcile kept_start_previews split: option.splits)

end

end
