(* ===== verification/Row_Evolution.thy ===== *)
theory Row_Evolution
  imports Repository_Steps
begin

text \<open>
  How rows change across transactions. \<open>evolves s s'\<close> compares the tables position by position:
  no row disappears or changes its identity, and each column that carries a promise moves in
  one direction only. Consequences proved here: a confirmation (and an answer to a
  clarification) is granted to at most one worker, ever, and a recorded denial is final.
\<close>

fun status_rank :: "request_status \<Rightarrow> nat" where
  "status_rank Pending = 0"
| "status_rank Resolving = 1"
| "status_rank Resolved = 2"

definition approval_evolves :: "approval_row \<Rightarrow> approval_row \<Rightarrow> bool" where
  "approval_evolves r r' = (r_task_id r' = r_task_id r \<and> r_cma_event_id r' = r_cma_event_id r
     \<and> r_created_at r' = r_created_at r
     \<and> (r_confirmation_attempted_at r \<noteq> None \<longrightarrow>
          r_confirmation_attempted_at r' = r_confirmation_attempted_at r
          \<and> r_request_id r' = r_request_id r \<and> r_decision r' = r_decision r)
     \<and> status_rank (r_status r) \<le> status_rank (r_status r')
     \<and> (r_status r = Resolved \<longrightarrow> r_decision r' = r_decision r \<and> r_request_id r' = r_request_id r)
     \<and> (r_decision r \<noteq> None \<longrightarrow> r_decision r' \<noteq> None)
     \<and> (r_decision r = Some Deny \<longrightarrow> r_decision r' = Some Deny))"

definition clarification_evolves :: "clarification_row \<Rightarrow> clarification_row \<Rightarrow> bool" where
  "clarification_evolves q q' = (q_request_id q' = q_request_id q \<and> q_task_id q' = q_task_id q
     \<and> q_cma_event_id q' = q_cma_event_id q \<and> q_created_at q' = q_created_at q
     \<and> (q_response_attempted_at q \<noteq> None \<longrightarrow> q_response_attempted_at q' = q_response_attempted_at q)
     \<and> status_rank (q_status q) \<le> status_rank (q_status q')
     \<and> (q_status q \<noteq> Pending \<longrightarrow> q_answer_object_key q' = q_answer_object_key q))"

definition attempts_of :: "task_row \<Rightarrow> int" where
  "attempts_of t = the (coalesce (t_dispatch_attempts t) (Some 0))"

definition task_evolves :: "task_row \<Rightarrow> task_row \<Rightarrow> bool" where
  "task_evolves t t' = (t_task_id t' = t_task_id t \<and> t_context_id t' = t_context_id t
     \<and> t_message_id t' = t_message_id t \<and> t_sequence t' = t_sequence t \<and> t_created_at t' = t_created_at t
     \<and> (t_cancel_requested_at t \<noteq> None \<longrightarrow> t_cancel_requested_at t' = t_cancel_requested_at t)
     \<and> attempts_of t \<le> attempts_of t')"

definition context_evolves :: "context_row \<Rightarrow> context_row \<Rightarrow> bool" where
  "context_evolves c c' = (c_context_id c' = c_context_id c
     \<and> c_creation_message_id c' = c_creation_message_id c \<and> c_created_at c' = c_created_at c
     \<and> c_next_sequence c \<le> c_next_sequence c')"

definition push_evolves :: "push_row \<Rightarrow> push_row \<Rightarrow> bool" where
  "push_evolves p p' = (p_task_id p' = p_task_id p \<and> p_config_id p' = p_config_id p \<and> p_url p' = p_url p
     \<and> (p_deleted_at p \<noteq> None \<longrightarrow> p_deleted_at p' = p_deleted_at p))"

definition evolves :: "'p sys \<Rightarrow> 'p sys \<Rightarrow> bool" where
  "evolves s s' = (rows_evolve context_evolves (contexts s) (contexts s')
     \<and> rows_evolve task_evolves (tasks s) (tasks s')
     \<and> rows_evolve approval_evolves (approvals s) (approvals s')
     \<and> rows_evolve clarification_evolves (clarifications s) (clarifications s')
     \<and> rows_evolve push_evolves (push_configs s) (push_configs s')
     \<and> clock s \<le> clock s')"

section \<open>Preorders\<close>

lemma row_evolves_refl [simp]:
  "approval_evolves r r" "clarification_evolves q q" "task_evolves t t" "context_evolves c c" "push_evolves p p"
  by (simp_all add: approval_evolves_def clarification_evolves_def task_evolves_def context_evolves_def
      push_evolves_def)

lemma status_rank_Resolved: "2 \<le> status_rank st \<longleftrightarrow> st = Resolved"
  by (cases st) simp_all

lemma approval_evolves_trans: "approval_evolves a b \<Longrightarrow> approval_evolves b c \<Longrightarrow> approval_evolves a c"
  unfolding approval_evolves_def by (auto simp: status_rank_Resolved)

lemma status_rank_pos: "0 < status_rank st \<longleftrightarrow> st \<noteq> Pending"
  by (cases st) simp_all

lemma clarification_evolves_trans:
  assumes "clarification_evolves a b" "clarification_evolves b c"
  shows "clarification_evolves a c"
proof -
  have "q_status a \<noteq> Pending \<Longrightarrow> q_status b \<noteq> Pending"
    using assms(1) status_rank_pos [of "q_status a"] status_rank_pos [of "q_status b"]
    by (simp add: clarification_evolves_def)
  with assms show ?thesis by (auto simp: clarification_evolves_def)
qed

lemma task_evolves_trans: "task_evolves a b \<Longrightarrow> task_evolves b c \<Longrightarrow> task_evolves a c"
  by (auto simp: task_evolves_def)

lemma context_evolves_trans: "context_evolves a b \<Longrightarrow> context_evolves b c \<Longrightarrow> context_evolves a c"
  by (auto simp: context_evolves_def)

lemma push_evolves_trans: "push_evolves a b \<Longrightarrow> push_evolves b c \<Longrightarrow> push_evolves a c"
  by (auto simp: push_evolves_def)

lemma evolves_refl [simp]: "evolves s s"
  by (simp add: evolves_def rows_evolve_refl)

lemma evolves_trans: "evolves a b \<Longrightarrow> evolves b c \<Longrightarrow> evolves a c"
  unfolding evolves_def
  by (auto intro: rows_evolve_trans [OF context_evolves_trans] rows_evolve_trans [OF task_evolves_trans]
      rows_evolve_trans [OF approval_evolves_trans] rows_evolve_trans [OF clarification_evolves_trans]
      rows_evolve_trans [OF push_evolves_trans])

lemma evolves_elsewhere: "same_tables s s' \<Longrightarrow> evolves s s'"
  by (simp add: evolves_def same_tables_def rows_evolve_refl)

text \<open>Changing one table.\<close>

lemma evolves_table:
  "rows_evolve context_evolves (contexts s) cs \<Longrightarrow> evolves s (s\<lparr>contexts := cs\<rparr>)"
  "rows_evolve task_evolves (tasks s) ts \<Longrightarrow> evolves s (s\<lparr>tasks := ts\<rparr>)"
  "rows_evolve approval_evolves (approvals s) rs \<Longrightarrow> evolves s (s\<lparr>approvals := rs\<rparr>)"
  "rows_evolve clarification_evolves (clarifications s) qs \<Longrightarrow> evolves s (s\<lparr>clarifications := qs\<rparr>)"
  "rows_evolve push_evolves (push_configs s) ps \<Longrightarrow> evolves s (s\<lparr>push_configs := ps\<rparr>)"
  "rows_evolve context_evolves (contexts s) cs \<Longrightarrow> rows_evolve task_evolves (tasks s) ts \<Longrightarrow>
     evolves s (s\<lparr>contexts := cs, tasks := ts\<rparr>)"
  "rows_evolve approval_evolves (approvals s) rs \<Longrightarrow> rows_evolve clarification_evolves (clarifications s) qs \<Longrightarrow>
     evolves s (s\<lparr>approvals := rs, clarifications := qs\<rparr>)"
  by (simp_all add: evolves_def rows_evolve_refl)

section \<open>Every transaction lets the rows evolve\<close>

lemma snd_try_identity: "snd (try_except m (identity_conflict msg) s) = snd (m s)"
  by (simp add: try_except_def identity_conflict_def raise_err_def split: prod.splits sum.splits option.splits)

lemma insert_context_evolves: "evolves s (snd (insert_context cid mid s))"
  by (cases rule: insert_context_cases [of mid s cid]) (simp_all add: evolves_table rows_evolve_append)

lemma insert_task_evolves: "evolves s (snd (insert_task t s))"
  by (cases rule: insert_task_cases [of t s]) (simp_all add: evolves_table rows_evolve_append)

lemma write_contexts_evolves:
  "rows_evolve context_evolves (contexts s) cs \<Longrightarrow> evolves s (snd (write_contexts cs s))"
  by (cases rule: write_contexts_cases [of cs s]) (simp_all add: evolves_table)

lemma admit_turn_evolves: "evolves s (snd (admit_turn ctx mid pt key s))"
proof (cases "returning (\<lambda>c. c_context_id c = c_context_id ctx)
    (\<lambda>c. c\<lparr>c_next_sequence := c_next_sequence c + 1, c_updated_at := clock s\<rparr>) (contexts s)")
  case None
  then show ?thesis by (simp add: admit_turn_def)
next
  case (Some c)
  let ?s = "s\<lparr>contexts := upd_rows (\<lambda>c. c_context_id c = c_context_id ctx)
    (\<lambda>c. c\<lparr>c_next_sequence := c_next_sequence c + 1, c_updated_at := clock s\<rparr>) (contexts s)\<rparr>"
  have "evolves s ?s"
    by (intro evolves_table rows_evolve_upd) (simp_all add: context_evolves_def)
  with Some show ?thesis
    by (simp add: admit_turn_def Let_def snd_bnd_ret evolves_trans [OF _ insert_task_evolves])
qed

lemma bind_session_evolves: "evolves s (snd (bind_cma_session cid sid s))"
  unfolding bind_cma_session_def
  by (auto simp: raise_err_def snd_try_identity Let_def snd_bnd_ret context_evolves_def
      intro!: write_contexts_evolves rows_evolve_upd split: option.splits)

lemma create_task_evolves: "evolves s (snd (create_task tid cid mid seq a st s))"
  unfolding create_task_def
  by (auto simp: raise_err_def snd_try_identity insert_task_evolves split: option.splits)

lemma update_context_evolves: "evolves s (snd (update_context cid claim flds s))"
  unfolding update_context_def
  by (auto simp: raise_err_def Let_def snd_bnd_ret context_evolves_def
      intro!: write_contexts_evolves rows_evolve_upd split: option.splits)

lemma update_task_evolves:
  "list_all worker_field flds \<Longrightarrow> evolves s (snd (update_task tid cid claim flds s))"
  unfolding update_task_def
  by (auto simp: raise_err_def Let_def task_evolves_def attempts_of_def fold_set_task_worker
      intro!: evolves_table rows_evolve_upd split: option.splits)

lemma policy_decision_evolves: "evolves s (snd (record_policy_decision cid tid claim rid d s))"
  unfolding record_policy_decision_def
  by (auto simp: raise_err_def Let_def approval_evolves_def policy_decision_guard_def
      intro!: evolves_table rows_evolve_upd split: option.splits)

lemma human_review_evolves: "evolves s (snd (record_human_review nid cid tid claim rid dg au ok s))"
  unfolding record_human_review_def
  by (auto simp: Let_def approval_evolves_def policy_decision_guard_def
      intro!: evolves_table rows_evolve_upd split: option.splits)

lemma human_ruling_evolves: "evolves s (snd (record_human_ruling rid tid d s))"
  unfolding record_human_ruling_def
  by (auto simp: raise_err_def approval_evolves_def intro!: evolves_table rows_evolve_upd split: option.splits)

lemma lease_evolves:
  "evolves s (snd (claim_scheduler claim cid lease s))" "evolves s (snd (release_scheduler cid claim s))"
  by (auto simp: claim_scheduler_def release_scheduler_def Let_def context_evolves_def
      intro!: evolves_table rows_evolve_upd split: option.splits)

lemma resolve_held_evolves: "evolves s (snd (resolve_held_task tid claim res s))"
  by (cases rule: resolve_held_task_cases [of tid claim res s])
     (auto simp: context_evolves_def task_evolves_def attempts_of_def intro!: evolves_table rows_evolve_upd)

lemma activate_evolves: "evolves s (snd (activate_task cid tid claim pred s))"
  unfolding activate_task_def transaction_def Let_def
  by (auto simp: context_evolves_def task_evolves_def attempts_of_def intro!: evolves_table rows_evolve_upd
      split: option.splits)

lemma cancel_evolves: "evolves s (snd (cancel_task tid s))"
  unfolding cancel_task_def Let_def
  by (auto simp: task_evolves_def attempts_of_def intro!: evolves_table rows_evolve_upd split: option.splits)

lemma add_request_evolves:
  "evolves s (snd (add_input_request rid tid ev cid claim s))"
  "evolves s (snd (add_clarification_request rid tid ev cid claim s))"
  by (simp_all add: add_input_request_def add_clarification_request_def evolves_table rows_evolve_append)

lemma clarification_ops_evolve:
  "evolves s (snd (decide_clarification_request rid tid key s))"
  "evolves s (snd (mark_clarification_attempted rid cid claim s))"
  by (auto simp: decide_clarification_request_def mark_clarification_attempted_def Let_def
      clarification_evolves_def clarification_guard_def
      intro!: evolves_table rows_evolve_upd split: option.splits)

lemma status_ranks_le [simp]: "status_rank st \<le> 2"
  by (cases st) simp_all

lemma approval_ops_evolve:
  "evolves s (snd (deny_cancelled_input_request rid cid claim s))"
  "evolves s (snd (mark_confirmation_attempted rid cid claim s))"
  "evolves s (snd (resolve_input_request rid cid claim s))"
  by (auto simp: deny_cancelled_input_request_def mark_confirmation_attempted_def resolve_input_request_def
      Let_def approval_evolves_def clarification_evolves_def confirmation_guard_def
      intro!: evolves_table rows_evolve_upd)

lemma outcome_update_url [simp]: "p_url (outcome_update t d p) = p_url p"
  by (cases d) simp_all

lemma push_evolve:
  "evolves s (snd (reset_delivery tid pid s))" "evolves s (snd (push_delete tid pid s))"
  "evolves s (snd (push_claim claim tid pid lease s))"
  "evolves s (snd (push_finish tid pid claim fp ra pm s))" "evolves s (snd (push_release tid pid claim s))"
  by (auto simp: reset_delivery_def push_delete_def push_claim_def push_finish_def push_release_def Let_def
      push_evolves_def intro!: evolves_table rows_evolve_upd)

lemma push_create_evolves: "evolves s (snd (push_create tid pid url s))"
  unfolding push_create_def transaction_def Let_def
  by (auto simp: push_evolves_def intro!: evolves_table rows_evolve_upd rows_evolve_append split: option.splits)

interpretation evolution: repository_relation evolves
  by unfold_locales
     (simp_all add: keeps_def evolves_elsewhere insert_context_evolves admit_turn_evolves bind_session_evolves
       create_task_evolves policy_decision_evolves human_review_evolves human_ruling_evolves lease_evolves
       update_context_evolves update_task_evolves resolve_held_evolves activate_evolves cancel_evolves
       add_request_evolves clarification_ops_evolve approval_ops_evolve push_evolve push_create_evolves,
      blast intro: evolves_trans)

end
