(* ===== verification/Sample_State.thy ===== *)
theory Sample_State
  imports Runtime_Repository Push_Repository
begin

text \<open>
  A small concrete database, on which the hypotheses of the theorems are shown to be
  satisfiable: context \<open>c1\<close> with an active task \<open>t1\<close> that waits for two tool approvals and a
  clarification, a second task \<open>t2\<close> in its queue, and one push configuration. The scheduler
  lease is held by \<open>k1\<close> for another 60 seconds.
\<close>

definition sample_context :: context_row where
  "sample_context = (new_context ''c1'' ''m1'' 0)\<lparr>c_cma_session_id := Some ''s1'', c_lifecycle_state := Ready,
     c_next_sequence := 3, c_active_task_id := Some ''t1'', c_scheduler_claim_id := Some ''k1'',
     c_scheduler_lease_expires_at := Some (seconds 160)\<rparr>"

definition sample_t1 :: task_row where
  "sample_t1 = (new_task ''t1'' ''c1'' ''m1'' 1 WORKING Waiting None None (Some 1) 0)
     \<lparr>t_cma_input_event_id := Some ''e1''\<rparr>"

definition sample_t2 :: task_row where
  "sample_t2 = new_task ''t2'' ''c1'' ''m2'' 2 SUBMITTED Queued (Some ''o2'') None (Some 0) 5"

definition sample_r1 :: approval_row where
  "sample_r1 = (new_approval ''r1'' ''t1'' ''e3'' 10)\<lparr>r_status := Resolving, r_decision := Some Allow\<rparr>"

definition sample_r2 :: approval_row where
  "sample_r2 = (new_approval ''r2'' ''t1'' ''e4'' 10)\<lparr>r_status := Resolving, r_decision := Some Deny\<rparr>"

definition sample_r3 :: approval_row where
  "sample_r3 = (new_approval ''r3'' ''t1'' ''e5'' 11)\<lparr>r_review_digest := Some ''d'', r_review_authority := Some ''a'',
     r_review_object_key := Some ''o3''\<rparr>"

definition sample_q1 :: clarification_row where
  "sample_q1 = (new_clarification ''q1'' ''t1'' ''e6'' 12)
     \<lparr>q_status := Resolving, q_answer_object_key := Some ''o4''\<rparr>"

definition sample_q2 :: clarification_row where
  "sample_q2 = (new_clarification ''q2'' ''t1'' ''e7'' 13)
     \<lparr>q_status := Resolving, q_answer_object_key := Some ''o5''\<rparr>"

definition sample :: "unit sys" where
  "sample = \<lparr>contexts = [sample_context], tasks = [sample_t1, sample_t2],
     approvals = [sample_r1, sample_r2, sample_r3], clarifications = [sample_q1, sample_q2],
     push_configs = [new_push ''t1'' ''p1'' ''https://sink'' 0], clock = seconds 100,
     objects = [(''o2'', ''hello'', 5), (''o3'', ''review'', 11), (''o4'', ''yes'', 12), (''o5'', ''no'', 13)],
     outside = (), wakeups = [], push_wakeups = []\<rparr>"

lemmas sample_row_defs = sample_context_def sample_t1_def sample_t2_def sample_r1_def sample_r2_def
  sample_r3_def sample_q1_def sample_q2_def new_context_def new_task_def new_approval_def
  new_clarification_def new_push_def

lemmas sample_defs = sample_def sample_row_defs seconds_def

lemmas guard_defs = exists_task_context_def active_uncancelled_def lease_held_def lease_live_def
  claimable_def confirmation_guard_def clarification_guard_def policy_decision_guard_def ruling_row_def

lemma schema_ok_sample: "schema_ok sample"
  by (simp add: sample_defs schema_ok_def contexts_ok_def tasks_ok_def approvals_ok_def
      clarifications_ok_def push_ok_def unique_opt_def context_check_def List.map_filter_def)

end
