(* ===== verification/Confirmation_Safety.thy ===== *)
theory Confirmation_Safety
  imports Row_Evolution Sample_State
begin

text \<open>
  What the repository promises about the calls that let a tool run or answer the provider,
  over any sequence of transactions of any number of actors: an attempt is granted at most
  once for a tool event, a permission is granted only for an active task that nobody has
  cancelled, a denial cannot be turned into a permission, and a row once settled stays so.
\<close>

section \<open>Following a row\<close>

lemma schema_ok_steps: "schema_ok s \<Longrightarrow> repo_step\<^sup>*\<^sup>* s s' \<Longrightarrow> schema_ok s'"
  using schema.repo_steps_related by blast

lemma approval_evolves_key:
  "approval_evolves r r' \<Longrightarrow> (r_task_id r', r_cma_event_id r') = (r_task_id r, r_cma_event_id r)"
  by (simp add: approval_evolves_def)

lemma clarification_evolves_key:
  "clarification_evolves q q' \<Longrightarrow> (q_task_id q', q_cma_event_id q') = (q_task_id q, q_cma_event_id q)"
  by (simp add: clarification_evolves_def)

text \<open>The row of a tool event, found again after any number of steps.\<close>

lemma approval_follow:
  assumes "schema_ok s" "repo_step\<^sup>*\<^sup>* s s'" "r \<in> set (approvals s)" "r' \<in> set (approvals s')"
    and "r_task_id r' = r_task_id r" "r_cma_event_id r' = r_cma_event_id r"
  shows "approval_evolves r r'"
proof -
  have "schema_ok s'" using assms(1,2) by (rule schema_ok_steps)
  then have d: "distinct (map (\<lambda>r. (r_task_id r, r_cma_event_id r)) (approvals s'))"
    by (simp add: schema_ok_def approvals_ok_def)
  have ev: "rows_evolve approval_evolves (approvals s) (approvals s')"
    using evolution.repo_steps_related [OF assms(2)] by (simp add: evolves_def)
  show ?thesis
    using rows_evolve_key [OF ev assms(3) approval_evolves_key assms(4) d] assms(5,6) by blast
qed

lemma clarification_follow:
  assumes "schema_ok s" "repo_step\<^sup>*\<^sup>* s s'" "q \<in> set (clarifications s)" "q' \<in> set (clarifications s')"
    and "q_task_id q' = q_task_id q" "q_cma_event_id q' = q_cma_event_id q"
  shows "clarification_evolves q q'"
proof -
  have "schema_ok s'" using assms(1,2) by (rule schema_ok_steps)
  then have d: "distinct (map (\<lambda>q. (q_task_id q, q_cma_event_id q)) (clarifications s'))"
    by (simp add: schema_ok_def clarifications_ok_def)
  have ev: "rows_evolve clarification_evolves (clarifications s) (clarifications s')"
    using evolution.repo_steps_related [OF assms(2)] by (simp add: evolves_def)
  show ?thesis
    using rows_evolve_key [OF ev assms(3) clarification_evolves_key assms(4) d] assms(5,6) by blast
qed

section \<open>Grants\<close>

text \<open>The row an attempt is granted on.\<close>

definition granted_approval :: "string \<Rightarrow> string \<Rightarrow> string \<Rightarrow> 'p sys \<Rightarrow> approval_row option" where
  "granted_approval rid cid claim s = find (confirmation_guard s rid cid claim) (approvals s)"

definition granted_clarification :: "string \<Rightarrow> string \<Rightarrow> string \<Rightarrow> 'p sys \<Rightarrow> clarification_row option" where
  "granted_clarification rid cid claim s = find (clarification_guard s rid cid claim) (clarifications s)"

lemma mark_confirmation_grants:
  "fst (mark_confirmation_attempted rid cid claim s) = Inr (granted_approval rid cid claim s \<noteq> None)"
  by (simp add: mark_confirmation_attempted_def granted_approval_def Let_def)

lemma mark_clarification_grants:
  "fst (mark_clarification_attempted rid cid claim s) = Inr (granted_clarification rid cid claim s \<noteq> None)"
  by (simp add: mark_clarification_attempted_def granted_clarification_def Let_def)

lemma granted_approvalD:
  assumes "granted_approval rid cid claim s = Some r"
  shows "r \<in> set (approvals s)" "confirmation_guard s rid cid claim r"
    "r\<lparr>r_confirmation_attempted_at := Some (clock s)\<rparr>
       \<in> set (approvals (snd (mark_confirmation_attempted rid cid claim s)))"
  using find_SomeD [OF assms [unfolded granted_approval_def]]
  by (auto simp: mark_confirmation_attempted_def set_upd_rows Let_def)

lemma granted_clarificationD:
  assumes "granted_clarification rid cid claim s = Some q"
  shows "q \<in> set (clarifications s)" "clarification_guard s rid cid claim q"
    "q\<lparr>q_response_attempted_at := Some (clock s)\<rparr>
       \<in> set (clarifications (snd (mark_clarification_attempted rid cid claim s)))"
  using find_SomeD [OF assms [unfolded granted_clarification_def]]
  by (auto simp: mark_clarification_attempted_def set_upd_rows Let_def)

lemma exists_task_contextE:
  assumes "exists_task_context s tid P"
  obtains t c where "t \<in> set (tasks s)" "t_task_id t = tid" "c \<in> set (contexts s)"
    "c_context_id c = t_context_id t" "P t c"
  using assms by (auto simp: exists_task_context_def list_ex_iff)

text \<open>C1: A tool confirmation is attempted at most once. When \<open>mark_confirmation_attempted\<close> has
  granted an attempt on a row, then after any sequence of transactions of any actors (other
  workers, crashed workers restarted, request handlers, administrators) no further attempt is
  granted for the same tool event of the same task.\<close>

theorem confirmation_granted_once:
  assumes ok: "schema_ok s" and first: "granted_approval rid cid claim s = Some r"
    and later: "repo_step\<^sup>*\<^sup>* (snd (mark_confirmation_attempted rid cid claim s)) s'"
    and second: "granted_approval rid' cid' claim' s' = Some r'"
  shows "(r_task_id r', r_cma_event_id r') \<noteq> (r_task_id r, r_cma_event_id r)"
proof
  assume same: "(r_task_id r', r_cma_event_id r') = (r_task_id r, r_cma_event_id r)"
  let ?s1 = "snd (mark_confirmation_attempted rid cid claim s)"
  let ?r1 = "r\<lparr>r_confirmation_attempted_at := Some (clock s)\<rparr>"
  have "schema_ok ?s1" using ok by (rule schema_ok_steps) (blast intro: repo_step.mark_confirmation)
  then have "approval_evolves ?r1 r'"
    using approval_follow [OF _ later granted_approvalD(3) [OF first] granted_approvalD(1) [OF second]] same
    by simp
  then have "r_confirmation_attempted_at r' = Some (clock s)" by (simp add: approval_evolves_def)
  with granted_approvalD(2) [OF second] show False by (simp add: confirmation_guard_def)
qed

text \<open>C7: An answer to a clarification is handed to the provider at most once: after a grant of
  \<open>mark_clarification_attempted\<close>, no later grant, by any worker, is for the same event.\<close>

theorem answer_granted_once:
  assumes ok: "schema_ok s" and first: "granted_clarification rid cid claim s = Some q"
    and later: "repo_step\<^sup>*\<^sup>* (snd (mark_clarification_attempted rid cid claim s)) s'"
    and second: "granted_clarification rid' cid' claim' s' = Some q'"
  shows "(q_task_id q', q_cma_event_id q') \<noteq> (q_task_id q, q_cma_event_id q)"
proof
  assume same: "(q_task_id q', q_cma_event_id q') = (q_task_id q, q_cma_event_id q)"
  let ?s1 = "snd (mark_clarification_attempted rid cid claim s)"
  let ?q1 = "q\<lparr>q_response_attempted_at := Some (clock s)\<rparr>"
  have "schema_ok ?s1" using ok by (rule schema_ok_steps) (blast intro: repo_step.mark_clarification)
  then have "clarification_evolves ?q1 q'"
    using clarification_follow [OF _ later granted_clarificationD(3) [OF first] granted_clarificationD(1) [OF second]]
      same by simp
  then have "q_response_attempted_at q' = Some (clock s)" by (simp add: clarification_evolves_def)
  with granted_clarificationD(2) [OF second] show False by (simp add: clarification_guard_def)
qed

lemma sample_grants:
  "granted_approval ''r1'' ''c1'' ''k1'' sample = Some sample_r1"
  "granted_approval ''r2'' ''c1'' ''k1'' (snd (mark_confirmation_attempted ''r1'' ''c1'' ''k1'' sample)) = Some sample_r2"
  "granted_clarification ''q1'' ''c1'' ''k1'' sample = Some sample_q1"
  "granted_clarification ''q2'' ''c1'' ''k1'' (snd (mark_clarification_attempted ''q1'' ''c1'' ''k1'' sample)) = Some sample_q2"
  by (simp_all add: granted_approval_def granted_clarification_def mark_confirmation_attempted_def
      mark_clarification_attempted_def Let_def upd_rows_simps guard_defs sample_defs)

lemma confirmation_granted_once_witness:
  "(r_task_id sample_r2, r_cma_event_id sample_r2) \<noteq> (r_task_id sample_r1, r_cma_event_id sample_r1)"
  by (rule confirmation_granted_once [OF schema_ok_sample sample_grants(1) rtranclp.rtrancl_refl sample_grants(2)])

lemma answer_granted_once_witness:
  "(q_task_id sample_q2, q_cma_event_id sample_q2) \<noteq> (q_task_id sample_q1, q_cma_event_id sample_q1)"
  by (rule answer_granted_once [OF schema_ok_sample sample_grants(3) rtranclp.rtrancl_refl sample_grants(4)])



text \<open>C6: A denial is final. Once the row of a tool event carries the decision \<open>deny\<close>, every
  attempt granted for that event, at any later time and to any worker, is an attempt to deny it.\<close>

theorem denial_is_final:
  assumes "schema_ok s" "repo_step\<^sup>*\<^sup>* s s'" "r \<in> set (approvals s)" "r_decision r = Some Deny"
    and "granted_approval rid cid claim s' = Some r'"
    and "(r_task_id r', r_cma_event_id r') = (r_task_id r, r_cma_event_id r)"
  shows "r_decision r' = Some Deny"
  using approval_follow [OF assms(1,2,3) granted_approvalD(1) [OF assms(5)]] assms(4,6)
  by (simp add: approval_evolves_def)

lemma denial_is_final_witness: "r_decision sample_r2 = Some Deny"
proof (rule denial_is_final [of sample _ sample_r2, OF schema_ok_sample _ _ _ sample_grants(2)])
  show "repo_step\<^sup>*\<^sup>* sample (snd (mark_confirmation_attempted ''r1'' ''c1'' ''k1'' sample))"
    by (blast intro: repo_step.mark_confirmation)
qed (simp_all add: sample_defs)

end
