(* ===== verification/Sample_Run.thy ===== *)
theory Sample_Run
  imports Scheduler Sample_State
begin

text \<open>
  A concrete environment for the scheduler: a provider whose session \<open>s1\<close> has received the
  message \<open>e1\<close> and waits for approvals, no policy engine, no preview queue, and no other
  actor. A run of the scheduler in it is evaluated in the kernel.
\<close>

definition sample_events :: "cma_event list" where
  "sample_events = [blank_event ''e1'' ''user.message'', blank_event ''e3'' ''agent.tool_use'',
     blank_event ''e4'' ''agent.tool_use'',
     (blank_event ''e8'' ''session.status_idle'')
       \<lparr>e_stop_reason := Some \<lparr>sr_type = Some ''requires_action'', sr_event_ids = [''e3'', ''e4'']\<rparr>\<rparr>]"

definition sample_sdk :: "unit sdk" where
  "sample_sdk = \<lparr>sdk_create_session = (\<lambda>_ _ _ p. (Inr ''s1'', p)), sdk_find_session = (\<lambda>_ _ p. (Inr None, p)),
     sdk_list_events = (\<lambda>_ p. (Inr sample_events, p)), sdk_send_message = (\<lambda>_ _ p. (Inr None, p)),
     sdk_confirm_tool = (\<lambda>_ _ _ _ p. (Inr (), p)), sdk_custom_tool_result = (\<lambda>_ _ _ _ p. (Inr (), p)),
     sdk_interrupt = (\<lambda>_ p. (Inr (), p))\<rparr>"

definition sample_env :: "unit env" where
  "sample_env = \<lparr>rt_of = quiet (\<lambda>n. CHR ''u'' # replicate n CHR ''x''), sdk_of = sample_sdk, policy_of = None,
     preview_of = None, has_push_trigger = False, uuid5_url = (\<lambda>x. x), sha256_hex = (\<lambda>x. x),
     config_of = \<lparr>app_name = ''app'', openappa_timeout = 30\<rparr>\<rparr>"

definition unclaimed_sample :: "unit sys" where
  "unclaimed_sample = sample\<lparr>contexts := [sample_context\<lparr>c_scheduler_claim_id := None,
      c_scheduler_lease_expires_at := None\<rparr>]\<rparr>"

lemma schema_ok_unclaimed: "schema_ok unclaimed_sample"
  by (simp add: unclaimed_sample_def sample_defs schema_ok_def contexts_ok_def tasks_ok_def approvals_ok_def
      clarifications_ok_def push_ok_def unique_opt_def context_check_def List.map_filter_def)

lemma sample_run_log:
  "obs (snd (run_once sample_env ''c1'' (start_run unclaimed_sample None)))
     = [Confirm_granted ''r1'' ''e3'' Allow, Confirm_tool ''s1'' ''e3'' True,
        Confirm_granted ''r2'' ''e4'' Deny, Confirm_tool ''s1'' ''e4'' False,
        Result_granted ''q1'' ''e6'', Tool_result ''s1'' ''e6'',
        Result_granted ''q2'' ''e7'', Tool_result ''s1'' ''e7'']"
  by code_simp

end
