(* ===== verification/Call_Log.thy ===== *)
theory Call_Log
  imports Prelude
begin

text \<open>
  Discipline of the log a worker leaves behind: a licence says which call may stand directly
  after which other one, and a log is disciplined when every call in it has its licence. The locale
  proves once that a worker made of disciplined pieces leaves a disciplined log; the
  scheduler and the Slack projector interpret it with their own licences.
\<close>

fun disciplined :: "('o option \<Rightarrow> 'o \<Rightarrow> bool) \<Rightarrow> 'o option \<Rightarrow> 'o list \<Rightarrow> bool" where
  "disciplined lic p [] = True"
| "disciplined lic p (x # xs) = (lic p x \<and> disciplined lic (Some x) xs)"

definition disciplined_run :: "('o option \<Rightarrow> 'o \<Rightarrow> bool) \<Rightarrow> ('s, 'l, 'o) run \<Rightarrow> ('s, 'l, 'o) run \<Rightarrow> bool" where
  "disciplined_run lic w w' = (\<exists>seg. obs w' = obs w @ seg \<and> disciplined lic None seg)"

lemma disciplined_nth:
  "disciplined lic p xs \<Longrightarrow> i < length xs \<Longrightarrow> lic (if i = 0 then p else Some (xs ! (i - 1))) (xs ! i)"
proof (induction xs arbitrary: p i)
  case (Cons x xs)
  then show ?case by (cases i) (auto dest: Cons.IH [of _ "i - 1"] split: if_splits)
qed simp

lemma disciplined_runI: "obs w' = obs w @ seg \<Longrightarrow> disciplined lic None seg \<Longrightarrow> disciplined_run lic w w'"
  by (auto simp: disciplined_run_def)

lemma disciplined_silent: "obs w' = obs w \<Longrightarrow> disciplined_run lic w w'"
  by (rule disciplined_runI [of _ _ "[]"]) simp_all

lemma disciplined_start:
  "disciplined_run lic (start_run s l) w \<Longrightarrow> disciplined lic None (obs w)"
  by (auto simp: disciplined_run_def start_run_def)

text \<open>A call with a licence out of nothing has one in every place.\<close>

locale call_log =
  fixes lic :: "'o option \<Rightarrow> 'o \<Rightarrow> bool"
  assumes lic_None: "lic None x \<Longrightarrow> lic p x"
begin

lemma disciplined_None: "disciplined lic None xs \<Longrightarrow> disciplined lic p xs"
  by (cases xs) (simp_all add: lic_None)

lemma disciplined_append: "disciplined lic p xs \<Longrightarrow> disciplined lic None ys \<Longrightarrow> disciplined lic p (xs @ ys)"
  by (induction xs arbitrary: p) (simp_all add: disciplined_None)

lemma disciplined_run_trans:
  assumes "disciplined_run lic w v" "disciplined_run lic v u"
  shows "disciplined_run lic w u"
proof -
  from assms obtain xs ys where
    "obs v = obs w @ xs" "obs u = obs v @ ys" "disciplined lic None xs" "disciplined lic None ys"
    by (auto simp: disciplined_run_def)
  then show ?thesis by (intro disciplined_runI [of _ _ "xs @ ys"]) (simp_all add: disciplined_append)
qed

end

sublocale call_log \<subseteq> step_relation "disciplined_run lic"
  by unfold_locales (auto intro: disciplined_silent disciplined_run_trans)

lemma disciplined_call: "keeps (disciplined_run lic) (call X f)"
  by (rule keepsI, rule disciplined_silent)
     (auto simp: call_def Let_def split: fault.splits prod.splits)

lemma disciplined_quiet: "keeps (disciplined_run lic) (fresh_uuid X)" "keeps (disciplined_run lic) (set_locals l)"
  by (rule keepsI, rule disciplined_silent, simp add: fresh_uuid_def set_locals_def)+

lemma disciplined_observe: "lic None x \<Longrightarrow> keeps (disciplined_run lic) (observe x)"
  by (rule keepsI, rule disciplined_runI [of _ _ "[x]"]) (simp_all add: observe_def)

section \<open>Silent steps\<close>

definition silent_run :: "('s, 'l, 'o) run \<Rightarrow> ('s, 'l, 'o) run \<Rightarrow> bool" where
  "silent_run w w' = (obs w' = obs w)"

interpretation silence: step_relation silent_run
  by unfold_locales (simp_all add: silent_run_def)

lemma silent_steps:
  "keeps silent_run (call X f)" "keeps silent_run (fresh_uuid X)" "keeps silent_run (set_locals l)"
  "keeps silent_run get_locals"
  by (rule keepsI, auto simp: silent_run_def worker_defs Let_def split: fault.splits prod.splits)+

lemmas silent_intros = silence.keeps_control silent_steps

lemma silentD: "keeps silent_run m \<Longrightarrow> obs (snd (m w)) = obs w"
  using keepsD [of silent_run m w] by (simp add: silent_run_def)

lemma silent_result: "keeps silent_run m \<Longrightarrow> m w = (r, v) \<Longrightarrow> obs v = obs w"
  using silentD [of m w] by simp

lemma observe_try:
  "try_except (bnd (observe x) (\<lambda>_. m)) h w = try_except m h (w\<lparr>obs := obs w @ [x]\<rparr>)"
  by (simp add: try_except_def bnd_def observe_def)

lemma bnd_cases:
  obtains (stop) e v where "m w = (Inl e, v)" "bnd m f w = (Inl e, v)"
  | (go) x v where "m w = (Inr x, v)" "bnd m f w = f x v"
  by (cases "m w"; cases "fst (m w)") (auto simp: bnd_def)

lemma call_result:
  assumes "call X f w = (Inr x, v)"
  shows "fst (f (interfere X (tick w) (shared w))) = Inr x"
  using assms by (auto simp: call_def Let_def split: fault.splits prod.splits)

end
