(* ===== verification/Scheduler_Safety.thy ===== *)
theory Scheduler_Safety
  imports Scheduler_Contract Confirmation_Safety Sample_Run Call_Log
begin

text \<open>
  Guarantees of a whole scheduler run, for every environment: any interleaving with other
  actors of the controller, any failure of any call, before or after it took effect, and death
  of the process at any step.
  \<^item> A run is a sequence of repository transactions, so the schema constraints and the
    evolution of the rows hold across it.
  \<^item> The provider is asked to confirm a tool, or given the answer to a clarification, only
    directly after the grant for it; this needs no assumption about the other actors.
  \<^item> No request is granted twice, within a run or across runs.
\<close>

section \<open>Calls as steps of the shared state\<close>

text \<open>The other actors change the controller's tables only through its transactions.\<close>

definition well_behaved :: "'p env \<Rightarrow> bool" where
  "well_behaved E = (\<forall>n s. repo_step\<^sup>*\<^sup>* s (interfere (rt_of E) n s))"

lemma call_effect:
  obtains "snd (call X f w) = w\<lparr>tick := Suc (tick w), shared := interfere X (tick w) (shared w)\<rparr>"
  | "snd (call X f w) = w\<lparr>tick := Suc (tick w), shared := snd (f (interfere X (tick w) (shared w)))\<rparr>"
  by (cases "fault X (tick w)"; cases "f (interfere X (tick w) (shared w))") (simp_all add: call_def Let_def)

lemma call_effect_other [simp]:
  "obs (snd (call X f w)) = obs w" "locals (snd (call X f w)) = locals w"
  by (rule call_effect [of X f w]; simp)+

lemma call_steps:
  assumes "well_behaved E" "\<And>s. repo_step s (snd (f s))"
  shows "repo_step\<^sup>*\<^sup>* (shared w) (shared (snd (call (rt_of E) f w)))"
proof -
  let ?s = "interfere (rt_of E) (tick w) (shared w)"
  have rely: "repo_step\<^sup>*\<^sup>* (shared w) ?s" using assms(1) by (simp add: well_behaved_def)
  moreover have "repo_step ?s (snd (f ?s))" by (rule assms(2))
  ultimately have "repo_step\<^sup>*\<^sup>* (shared w) (snd (f ?s))" by (rule rtranclp.rtrancl_into_rtrancl)
  with rely show ?thesis by (rule_tac call_effect [of "rt_of E" f w]) simp_all
qed

lemma shared_worker [simp]:
  "shared (snd (fresh_uuid X w)) = shared w" "shared (snd (set_locals l w)) = shared w"
  "shared (snd (observe x w)) = shared w"
  "obs (snd (fresh_uuid X w)) = obs w" "obs (snd (set_locals l w)) = obs w"
  "obs (snd (observe x w)) = obs w @ [x]"
  by (simp_all add: fresh_uuid_def set_locals_def observe_def)

lemma keeps_capture: "keeps R m \<Longrightarrow> keeps R (capture m)"
  by (auto intro!: keepsI dest: keeps_run simp: capture_def split: prod.splits sum.splits)

section \<open>A run is a sequence of transactions\<close>

definition steps_between :: "'p env \<Rightarrow> ('p sys, 'l, 'o) run \<Rightarrow> ('p sys, 'l, 'o) run \<Rightarrow> bool" where
  "steps_between E w w' = (well_behaved E \<longrightarrow> repo_step\<^sup>*\<^sup>* (shared w) (shared w'))"

interpretation between: step_relation "steps_between E" for E :: "'p env"
  by unfold_locales (auto simp: steps_between_def)

lemma between_call: "(\<And>s. repo_step s (snd (f s))) \<Longrightarrow> keeps (steps_between E) (call (rt_of E) f)"
  by (auto intro!: keepsI call_steps simp: steps_between_def)

lemma between_quiet:
  "keeps (steps_between E) (fresh_uuid X)" "keeps (steps_between E) (set_locals l)"
  "keeps (steps_between E) (observe x)"
  by (auto intro!: keepsI simp: steps_between_def)

lemma between_port: "keeps same_tables f \<Longrightarrow> keeps (steps_between E) (call (rt_of E) f)"
  by (rule between_call) (auto intro: repo_step.elsewhere keepsD)

lemma between_attempts:
  "keeps (steps_between E) (step E (s3_get k))" "keeps (steps_between E) (step E (confirm_tool E a b c e))"
  "keeps (steps_between E) (step E (send_custom_tool_result E a b x y))"
  by (intro between_port port_same_tables provider_same_tables)+

lemma between_marks:
  "keeps (steps_between E) (step E (mark_confirmation_attempted rid cid claim))"
  "keeps (steps_between E) (step E (mark_clarification_attempted rid cid claim))"
  by (intro between_call repo_step.intros)+

lemma between_confirm: "keeps (steps_between E) (confirm_section E cid task claim sid r d)"
  unfolding confirm_section_def confirm_call_def confirmation_reason_def
  by (auto intro!: between.keeps_control keeps_capture between_quiet between_attempts between_marks)

lemma between_answer: "keeps (steps_between E) (answer_section E cid task claim sid q)"
  unfolding answer_section_def answer_call_def
  by (auto intro!: between.keeps_control keeps_capture between_quiet between_attempts between_marks)

lemma between_elsewhere:
  assumes "same_tables (interfere (rt_of E) (tick w) (shared w)) s"
  shows "steps_between E w (w\<lparr>tick := Suc (tick w), shared := s\<rparr>)"
  using repo_step.elsewhere [OF assms]
  by (auto simp: steps_between_def well_behaved_def intro: rtranclp.rtrancl_into_rtrancl)

interpretation between: scheduler_contract "steps_between E" E for E :: "'p env"
  by unfold_locales
     (auto intro: between_call between_quiet between_confirm between_answer between_elsewhere repo_step.intros)

text \<open>A scheduler run keeps the database sound under any failure. Whatever happens during the run
  (other actors interleave their transactions at every step, any call fails before or after
  taking effect, the process dies), the constraints of the schema still hold afterwards,
  and no row was lost, changed its identity, forgot an attempt, a denial or a cancellation.\<close>

theorem scheduler_run_sound:
  assumes "well_behaved E" "schema_ok (shared w)"
  shows "schema_ok (shared (snd (run_once E cid w))) \<and> evolves (shared w) (shared (snd (run_once E cid w)))"
proof -
  have "repo_step\<^sup>*\<^sup>* (shared w) (shared (snd (run_once E cid w)))"
    using keepsD [OF between.kept_run_once [of E cid], of w] assms(1) by (simp add: steps_between_def)
  then show ?thesis using assms(2) schema_ok_steps evolution.repo_steps_related by blast
qed

lemma well_behaved_sample: "well_behaved sample_env"
  by (simp add: well_behaved_def sample_env_def)

lemma scheduler_run_sound_witness:
  "schema_ok (shared (snd (run_once sample_env ''c1'' (start_run unclaimed_sample None))))
   \<and> evolves unclaimed_sample (shared (snd (run_once sample_env ''c1'' (start_run unclaimed_sample None))))"
  using scheduler_run_sound [OF well_behaved_sample, of "start_run unclaimed_sample None" "''c1''"]
  by (simp add: start_run_def schema_ok_unclaimed)

section \<open>No call to the provider without a grant\<close>

fun licensed :: "sched_obs option \<Rightarrow> sched_obs \<Rightarrow> bool" where
  "licensed p (Confirm_tool sid ev ok) =
     (case p of Some (Confirm_granted rid ev' d) \<Rightarrow> ev' = ev \<and> ok = (d = Allow) | _ \<Rightarrow> False)"
| "licensed p (Tool_result sid ev) = (case p of Some (Result_granted rid ev') \<Rightarrow> ev' = ev | _ \<Rightarrow> False)"
| "licensed p _ = True"

interpretation sched_log: call_log licensed
proof
  show "licensed None x \<Longrightarrow> licensed p x" for p x by (cases x) simp_all
qed

lemma licensed_other: "\<not> sectioned x \<Longrightarrow> licensed None x"
  by (cases x) simp_all

text \<open>What a section adds to the log: nothing, the grant, or the grant and the call.\<close>

lemma capture_snd [simp]: "snd (capture m w) = snd (m w)"
  by (simp add: capture_def split: prod.splits sum.splits)

lemma bnd_ret_snd: "snd (bnd m (\<lambda>x. ret (g x)) w) = snd (m w)"
  by (simp add: bnd_def ret_def split: prod.splits sum.splits)

lemma bnd_obs:
  obtains "obs (snd (bnd m f w)) = obs (snd (m w))"
  | x where "m w = (Inr x, snd (m w))" "obs (snd (bnd m f w)) = obs (snd (f x (snd (m w))))"
  by (cases "fst (m w)"; cases "m w") (simp_all add: bnd_def)

lemma reason_silent: "obs (snd (confirmation_reason E task r d w)) = obs w"
  by (cases "truthy (r_decision_reason_object_key r)")
     (simp_all add: confirmation_reason_def bnd_ret_snd ret_apply)

lemma confirm_call_obs:
  "obs (snd (confirm_call E task sid r d w)) \<in>
     {obs w, obs w @ [Confirm_tool sid (r_cma_event_id r) (d = Allow)]}"
proof -
  let ?k = "\<lambda>reason. bnd (observe (Confirm_tool sid (r_cma_event_id r) (d = Allow))) (\<lambda>_.
     step E (confirm_tool E sid (r_cma_event_id r) (d = Allow) reason))"
  have "obs (snd (?k reason v)) = obs v @ [Confirm_tool sid (r_cma_event_id r) (d = Allow)]" for reason v
    by (simp add: bnd_def observe_def)
  then show ?thesis
    by (rule_tac bnd_obs [of "confirmation_reason E task r d" ?k w]) (simp_all add: confirm_call_def reason_silent)
qed

lemma answer_call_obs:
  "obs (snd (answer_call E task sid q w)) \<in> {obs w, obs w @ [Tool_result sid (q_cma_event_id q)]}"
proof -
  let ?k = "\<lambda>answer. bnd (observe (Tool_result sid (q_cma_event_id q))) (\<lambda>_. step E
     (send_custom_tool_result E sid (q_cma_event_id q) answer (t_cancel_requested_at task \<noteq> None)))"
  have "obs (snd (?k answer v)) = obs v @ [Tool_result sid (q_cma_event_id q)]" for answer v
    by (simp add: bnd_def observe_def)
  then show ?thesis
    by (rule_tac bnd_obs [of "step E (s3_get (py_str (q_answer_object_key q)))" ?k w]) (simp_all add: answer_call_def)
qed

lemma grant_cases:
  assumes "m = bnd (call X mark) (\<lambda>g. if \<not> g then ret None
       else bnd (observe x) (\<lambda>_. bnd (capture body) (\<lambda>y. ret (Some y))))"
  obtains (refused) "snd (m w) = snd (call X mark w)"
  | (granted) v where "call X mark w = (Inr True, v)" "snd (m w) = snd (body (v\<lparr>obs := obs v @ [x]\<rparr>))"
proof (cases "call X mark w")
  case (Pair res v)
  have grant: "snd (bnd (observe x) (\<lambda>_. bnd (capture body) (\<lambda>y. ret (Some y))) v)
      = snd (body (v\<lparr>obs := obs v @ [x]\<rparr>))"
    by (subst bnd_def) (simp add: observe_def bnd_ret_snd)
  have "snd (m w) = (case res of Inr True \<Rightarrow> snd (body (v\<lparr>obs := obs v @ [x]\<rparr>)) | _ \<Rightarrow> v)"
    unfolding assms by (subst bnd_def) (simp add: Pair grant ret_apply split: sum.splits bool.splits)
  with Pair show ?thesis
    by (cases res) (auto intro: refused granted split: bool.splits)
qed

lemma disciplined_confirm: "keeps (disciplined_run licensed) (confirm_section E cid task claim sid r d)"
proof (rule keepsI)
  fix w :: "'a worker"
  show "disciplined_run licensed w (snd (confirm_section E cid task claim sid r d w))"
  proof (rule grant_cases [OF confirm_section_def, of E cid task claim sid r d w])
    fix v assume mark: "step E (mark_confirmation_attempted (r_request_id r) cid claim) w = (Inr True, v)"
      and res: "snd (confirm_section E cid task claim sid r d w) = snd (confirm_call E task sid r d
        (v\<lparr>obs := obs v @ [Confirm_granted (r_request_id r) (r_cma_event_id r) d]\<rparr>))"
    have "obs v = obs w" using call_effect_other(1) [of "rt_of E" _ w] mark by (metis snd_conv)
    with confirm_call_obs [of E task sid r d "v\<lparr>obs := obs v @ [Confirm_granted (r_request_id r) (r_cma_event_id r) d]\<rparr>"]
    show ?thesis unfolding res by (auto simp: disciplined_run_def)
  qed (simp add: disciplined_silent)
qed

lemma disciplined_answer: "keeps (disciplined_run licensed) (answer_section E cid task claim sid q)"
proof (rule keepsI)
  fix w :: "'a worker"
  show "disciplined_run licensed w (snd (answer_section E cid task claim sid q w))"
  proof (rule grant_cases [OF answer_section_def, of E cid task claim sid q w])
    fix v assume mark: "step E (mark_clarification_attempted (q_request_id q) cid claim) w = (Inr True, v)"
      and res: "snd (answer_section E cid task claim sid q w) = snd (answer_call E task sid q
        (v\<lparr>obs := obs v @ [Result_granted (q_request_id q) (q_cma_event_id q)]\<rparr>))"
    have "obs v = obs w" using call_effect_other(1) [of "rt_of E" _ w] mark by (metis snd_conv)
    with answer_call_obs [of E task sid q "v\<lparr>obs := obs v @ [Result_granted (q_request_id q) (q_cma_event_id q)]\<rparr>"]
    show ?thesis unfolding res by (auto simp: disciplined_run_def)
  qed (simp add: disciplined_silent)
qed

interpretation discipline: scheduler_contract "disciplined_run licensed" E for E :: "'p env"
  by unfold_locales
     (auto intro: disciplined_silent sched_log.disciplined_run_trans disciplined_call disciplined_quiet disciplined_observe
       licensed_other disciplined_confirm disciplined_answer)



section \<open>No request is granted twice\<close>

definition attempted :: "string \<Rightarrow> 'p sys \<Rightarrow> bool" where
  "attempted rid s = list_ex (\<lambda>r. r_request_id r = rid \<and> r_confirmation_attempted_at r \<noteq> None) (approvals s)"

fun grants :: "sched_obs list \<Rightarrow> string list" where
  "grants [] = []"
| "grants (Confirm_granted rid ev d # xs) = rid # grants xs"
| "grants (_ # xs) = grants xs"

lemma grants_append [simp]: "grants (xs @ ys) = grants xs @ grants ys"
  by (induction xs rule: grants.induct) simp_all

lemma grants_unsectioned: "\<not> sectioned x \<Longrightarrow> grants [x] = []"
  by (cases x) simp_all

lemma attempted_evolves:
  assumes "evolves s s'" "attempted rid s"
  shows "attempted rid s'"
proof -
  from assms(2) obtain i where i: "i < length (approvals s)" "r_request_id (approvals s ! i) = rid"
    "r_confirmation_attempted_at (approvals s ! i) \<noteq> None"
    by (auto simp: attempted_def list_ex_iff in_set_conv_nth)
  with assms(1) have "approval_evolves (approvals s ! i) (approvals s' ! i)" "i < length (approvals s')"
    by (auto simp: evolves_def rows_evolve_def)
  with i show ?thesis
    by (auto simp: attempted_def list_ex_iff approval_evolves_def intro!: bexI [of _ "approvals s' ! i"])
qed

lemma attempted_steps: "repo_step\<^sup>*\<^sup>* s s' \<Longrightarrow> attempted rid s \<Longrightarrow> attempted rid s'"
  using evolution.repo_steps_related attempted_evolves by blast

lemma mark_attempted:
  assumes "mark_confirmation_attempted rid cid claim s = (Inr True, s')"
  shows "attempted rid s'"
proof -
  from assms obtain r where r: "granted_approval rid cid claim s = Some r"
    and s': "s' = snd (mark_confirmation_attempted rid cid claim s)"
    using mark_confirmation_grants [of rid cid claim s] by auto
  from granted_approvalD [OF r] show ?thesis
    unfolding s' attempted_def list_ex_iff by (intro bexI [of _ "r\<lparr>r_confirmation_attempted_at := Some (clock s)\<rparr>"])
      (auto simp: confirmation_guard_def)
qed

lemma mark_not_attempted:
  assumes "schema_ok s" "mark_confirmation_attempted rid cid claim s = (Inr True, s')"
  shows "\<not> attempted rid s"
proof
  assume "attempted rid s"
  then obtain r' where r': "r' \<in> set (approvals s)" "r_request_id r' = rid" "r_confirmation_attempted_at r' \<noteq> None"
    by (auto simp: attempted_def list_ex_iff)
  from assms(2) obtain r where "granted_approval rid cid claim s = Some r"
    using mark_confirmation_grants [of rid cid claim s] by auto
  from granted_approvalD(1,2) [OF this] have r: "r \<in> set (approvals s)" "r_request_id r = rid"
    "r_confirmation_attempted_at r = None" by (auto simp: confirmation_guard_def)
  from assms(1) have "distinct (map r_request_id (approvals s))" by (simp add: schema_ok_def approvals_ok_def)
  with r r' have "r = r'" using distinct_map_inj [of r_request_id "approvals s"] by metis
  with r r' show False by simp
qed

text \<open>The relation: if the other actors are well-behaved and the schema holds, everything granted in
  between is new, granted once, and recorded.\<close>

definition grants_once :: "'p env \<Rightarrow> 'p worker \<Rightarrow> 'p worker \<Rightarrow> bool" where
  "grants_once E w w' = (well_behaved E \<and> schema_ok (shared w) \<longrightarrow>
     repo_step\<^sup>*\<^sup>* (shared w) (shared w') \<and>
     (\<exists>seg. obs w' = obs w @ seg \<and> distinct (grants seg) \<and>
        (\<forall>rid \<in> set (grants seg). attempted rid (shared w') \<and> \<not> attempted rid (shared w))))"

lemma grants_once_trans:
  assumes "grants_once E w v" "grants_once E v u"
  shows "grants_once E w u"
  unfolding grants_once_def
proof (intro impI)
  assume pre: "well_behaved E \<and> schema_ok (shared w)"
  with assms(1) obtain xs where xs: "repo_step\<^sup>*\<^sup>* (shared w) (shared v)" "obs v = obs w @ xs" "distinct (grants xs)"
    "\<forall>rid \<in> set (grants xs). attempted rid (shared v) \<and> \<not> attempted rid (shared w)"
    by (auto simp: grants_once_def)
  have "schema_ok (shared v)" using pre xs(1) by (blast intro: schema_ok_steps)
  with pre assms(2) obtain ys where ys: "repo_step\<^sup>*\<^sup>* (shared v) (shared u)" "obs u = obs v @ ys" "distinct (grants ys)"
    "\<forall>rid \<in> set (grants ys). attempted rid (shared u) \<and> \<not> attempted rid (shared v)"
    by (auto simp: grants_once_def)
  have "repo_step\<^sup>*\<^sup>* (shared w) (shared u)" using xs(1) ys(1) by (rule rtranclp_trans)
  moreover have "obs u = obs w @ (xs @ ys)" using xs(2) ys(2) by simp
  moreover have "distinct (grants (xs @ ys))" using xs(3,4) ys(3,4) by auto
  moreover have "\<forall>rid \<in> set (grants (xs @ ys)). attempted rid (shared u) \<and> \<not> attempted rid (shared w)"
    using xs(1,4) ys(1,4) attempted_steps by fastforce
  ultimately show "repo_step\<^sup>*\<^sup>* (shared w) (shared u) \<and> (\<exists>seg. obs u = obs w @ seg \<and> distinct (grants seg) \<and>
        (\<forall>rid \<in> set (grants seg). attempted rid (shared u) \<and> \<not> attempted rid (shared w)))"
    by blast
qed

lemma grants_once_none:
  assumes "steps_between E w w'" "obs w' = obs w @ seg" "grants seg = []"
  shows "grants_once E w w'"
  using assms by (auto simp: grants_once_def steps_between_def)

lemma grants_once_silent: "keeps (steps_between E) m \<Longrightarrow> (\<And>w. obs (snd (m w)) = obs w) \<Longrightarrow> keeps (grants_once E) m"
  by (rule keepsI, rule grants_once_none [of _ _ _ "[]"]) (simp_all add: keepsD)

lemma grants_once_call: "(\<And>s. repo_step s (snd (f s))) \<Longrightarrow> keeps (grants_once E) (step E f)"
  by (rule grants_once_silent [OF between_call]) simp_all

text \<open>A granted mark, with the grant written to the log.\<close>

lemma grants_once_mark:
  assumes mark: "step E (mark_confirmation_attempted rid cid claim) w = (Inr True, v)"
  shows "grants_once E w (v\<lparr>obs := obs v @ [Confirm_granted rid ev d]\<rparr>)"
  unfolding grants_once_def
proof (intro impI)
  assume pre: "well_behaved E \<and> schema_ok (shared w)"
  let ?s = "interfere (rt_of E) (tick w) (shared w)"
  have v: "mark_confirmation_attempted rid cid claim ?s = (Inr True, shared v)" "obs v = obs w"
    using mark by (auto simp: call_def Let_def split: fault.splits prod.splits)
  have rely: "repo_step\<^sup>*\<^sup>* (shared w) ?s" using pre by (simp add: well_behaved_def)
  with pre have "schema_ok ?s" by (blast intro: schema_ok_steps)
  from mark_not_attempted [OF this v(1)] have "\<not> attempted rid (shared w)"
    using attempted_steps [OF rely] by blast
  moreover have "repo_step\<^sup>*\<^sup>* (shared w) (shared v)"
    using keepsD [OF between_marks(1), of E w rid cid claim] pre by (simp add: mark steps_between_def)
  ultimately show "repo_step\<^sup>*\<^sup>* (shared w) (shared (v\<lparr>obs := obs v @ [Confirm_granted rid ev d]\<rparr>)) \<and>
     (\<exists>seg. obs (v\<lparr>obs := obs v @ [Confirm_granted rid ev d]\<rparr>) = obs w @ seg \<and> distinct (grants seg) \<and>
        (\<forall>rid' \<in> set (grants seg). attempted rid' (shared (v\<lparr>obs := obs v @ [Confirm_granted rid ev d]\<rparr>))
           \<and> \<not> attempted rid' (shared w)))"
    using mark_attempted [OF v(1)] v(2) by (auto intro!: exI [of _ "[Confirm_granted rid ev d]"])
qed

lemma between_calls:
  "keeps (steps_between E) (confirm_call E task sid r d)" "keeps (steps_between E) (answer_call E task sid q)"
  unfolding confirm_call_def confirmation_reason_def answer_call_def
  by (auto intro!: between.keeps_control between_quiet between_attempts)

lemma grants_once_confirm: "keeps (grants_once E) (confirm_section E cid task claim sid r d)"
proof (rule keepsI)
  fix w :: "'a worker"
  show "grants_once E w (snd (confirm_section E cid task claim sid r d w))"
  proof (rule grant_cases [OF confirm_section_def, of E cid task claim sid r d w])
    assume "snd (confirm_section E cid task claim sid r d w)
      = snd (step E (mark_confirmation_attempted (r_request_id r) cid claim) w)"
    then show ?thesis
      using keepsD [OF grants_once_call] by (metis repo_step.mark_confirmation)
  next
    fix v :: "'a worker" let ?v = "v\<lparr>obs := obs v @ [Confirm_granted (r_request_id r) (r_cma_event_id r) d]\<rparr>"
    assume mark: "step E (mark_confirmation_attempted (r_request_id r) cid claim) w = (Inr True, v)"
      and res: "snd (confirm_section E cid task claim sid r d w) = snd (confirm_call E task sid r d ?v)"
    have "steps_between E ?v (snd (confirm_call E task sid r d ?v))" by (rule keepsD) (rule between_calls)
    with confirm_call_obs [of E task sid r d ?v] have "grants_once E ?v (snd (confirm_call E task sid r d ?v))"
      by (auto intro: grants_once_none [of _ _ _ "[]"] grants_once_none)
    with grants_once_mark [OF mark] show ?thesis unfolding res by (rule grants_once_trans)
  qed
qed

lemma grants_once_answer: "keeps (grants_once E) (answer_section E cid task claim sid q)"
proof (rule keepsI)
  fix w :: "'a worker"
  have st: "steps_between E w (snd (answer_section E cid task claim sid q w))" by (rule keepsD) (rule between_answer)
  show "grants_once E w (snd (answer_section E cid task claim sid q w))"
  proof (rule grant_cases [OF answer_section_def, of E cid task claim sid q w])
    assume "snd (answer_section E cid task claim sid q w)
      = snd (step E (mark_clarification_attempted (q_request_id q) cid claim) w)"
    with st show ?thesis by (auto intro: grants_once_none [of _ _ _ "[]"])
  next
    fix v :: "'a worker" let ?v = "v\<lparr>obs := obs v @ [Result_granted (q_request_id q) (q_cma_event_id q)]\<rparr>"
    assume mark: "step E (mark_clarification_attempted (q_request_id q) cid claim) w = (Inr True, v)"
      and res: "snd (answer_section E cid task claim sid q w) = snd (answer_call E task sid q ?v)"
    have "obs v = obs w" using call_effect_other(1) [of "rt_of E" _ w] mark by (metis snd_conv)
    with answer_call_obs [of E task sid q ?v] st show ?thesis
      unfolding res by (auto intro: grants_once_none)
  qed
qed

lemma grants_once_observe: "\<not> sectioned x \<Longrightarrow> keeps (grants_once E) (observe x)"
  by (rule keepsI, rule grants_once_none [of _ _ _ "[x]"])
     (simp_all add: grants_unsectioned keepsD [OF between_quiet(3)])

lemma grants_once_elsewhere:
  "same_tables (interfere (rt_of E) (tick w) (shared w)) s \<Longrightarrow> grants_once E w (w\<lparr>tick := Suc (tick w), shared := s\<rparr>)"
  by (rule grants_once_none [of _ _ _ "[]"]) (simp_all add: between_elsewhere)

lemma grants_once_quiet: "keeps (grants_once E) (fresh_uuid X)" "keeps (grants_once E) (set_locals l)"
  by (rule grants_once_silent; simp add: between_quiet)+

interpretation once: scheduler_contract "grants_once E" E for E :: "'p env"
  by unfold_locales
     (auto intro: grants_once_call grants_once_quiet grants_once_observe grants_once_confirm grants_once_answer
       grants_once_elsewhere grants_once_trans repo_step.intros grants_once_none [of _ _ _ "[]"]
       simp: steps_between_def)

text \<open>C2: No tool approval is granted twice by the scheduler. Take two runs of the scheduler, the second
  starting after the first with any transactions in between, in environments whose other actors
  use the controller's transactions: the requests granted in the two runs together are distinct,
  so no request is confirmed twice, within a run or across a crash and a restart.\<close>

theorem runs_grant_once:
  fixes E :: "'p env" and E' :: "'p env"
  assumes "well_behaved E" "well_behaved E'" "schema_ok s"
    and first: "w = snd (run_once E cid (start_run s None))"
    and between: "repo_step\<^sup>*\<^sup>* (shared w) s'"
    and second: "w' = snd (run_once E' cid' (start_run s' None))"
  shows "distinct (grants (obs w) @ grants (obs w'))"
proof -
  have "grants_once E (start_run s None) w" unfolding first by (rule keepsD) (rule once.kept_run_once)
  with assms(1,3) have w: "repo_step\<^sup>*\<^sup>* s (shared w)" "distinct (grants (obs w))"
    "\<forall>rid \<in> set (grants (obs w)). attempted rid (shared w)"
    by (auto simp: grants_once_def start_run_def)
  have "schema_ok s'" using schema_ok_steps [OF assms(3)] w(1) between by (blast intro: rtranclp_trans)
  moreover have "grants_once E' (start_run s' None) w'"
    unfolding second by (rule keepsD) (rule once.kept_run_once)
  ultimately have w': "distinct (grants (obs w'))" "\<forall>rid \<in> set (grants (obs w')). \<not> attempted rid s'"
    using assms(2) by (auto simp: grants_once_def start_run_def)
  show ?thesis using w w' attempted_steps [OF between] by auto
qed

lemma runs_grant_once_witness:
  "distinct (grants (obs (snd (run_once sample_env ''c1'' (start_run unclaimed_sample None)))) @
     grants (obs (snd (run_once sample_env ''c1''
       (start_run (shared (snd (run_once sample_env ''c1'' (start_run unclaimed_sample None)))) None)))))"
  by (rule runs_grant_once [OF well_behaved_sample well_behaved_sample schema_ok_unclaimed refl rtranclp.rtrancl_refl refl])

end
