(* ===== verification/Task_View.thy ===== *)
theory Task_View
  imports Schema
begin

text \<open>
  \<^verbatim>\<open>cma_controller/task_view.py\<close>: the A2A view of a task, built from its row, the history of the
  provider session and its human-input requests. A request comes with its review text
  when the caller has loaded it (\<open>row["review_description"]\<close>). The hash that enters the message
  identifier of a pending input is a parameter.
\<close>

record view_options =
  vo_history_length :: "int option"
  vo_human_input :: bool

definition default_options :: view_options where
  "default_options = \<lparr>vo_history_length = None, vo_human_input = False\<rparr>"

fun wire_state :: "a2a_state \<Rightarrow> task_state" where
  "wire_state SUBMITTED = TASK_STATE_SUBMITTED"
| "wire_state WORKING = TASK_STATE_WORKING"
| "wire_state COMPLETED = TASK_STATE_COMPLETED"
| "wire_state FAILED = TASK_STATE_FAILED"
| "wire_state CANCELED = TASK_STATE_CANCELED"
| "wire_state INPUT_REQUIRED = TASK_STATE_INPUT_REQUIRED"
| "wire_state REJECTED = TASK_STATE_REJECTED"

section \<open>Messages\<close>

definition text_from_event :: "cma_event \<Rightarrow> string" where
  "text_from_event e = concat (map (\<lambda>p. case cp_text p of None \<Rightarrow> [] | Some t \<Rightarrow> t)
     (filter (\<lambda>p. cp_type p = Some ''text'') (e_content e)))"

text \<open>A message of this task.\<close>

definition task_message :: "task_row \<Rightarrow> string \<Rightarrow> role \<Rightarrow> string \<Rightarrow> a2a_message" where
  "task_message task mid r text = \<lparr>msg_id = mid, msg_context_id = t_context_id task, msg_task_id = t_task_id task,
     msg_role = r, msg_parts = [Text_part text], msg_extensions = [], msg_metadata = []\<rparr>"

definition event_message :: "task_row \<Rightarrow> cma_event \<Rightarrow> a2a_message" where
  "event_message task e =
     (let r = (if e_type e = Some ''user.message'' then ROLE_USER else ROLE_AGENT) in
      task_message task (if r = ROLE_USER then t_message_id task else ''cma-'' @ py_str (e_id e)) r (text_from_event e))"

text \<open>The loop over the events: from the input event of the task to its terminal event.\<close>

definition is_message :: "cma_event \<Rightarrow> bool" where
  "is_message e = (e_type e \<in> {Some ''user.message'', Some ''agent.message''} \<and> truthy (e_id e))"

fun slice_messages :: "task_row \<Rightarrow> bool \<Rightarrow> cma_event list \<Rightarrow> a2a_message list" where
  "slice_messages task inside [] = []"
| "slice_messages task inside (e # es) =
     (let inside' = (inside \<or> (truthy (t_cma_input_event_id task) \<and> e_id e = t_cma_input_event_id task));
          here = (if inside' \<and> is_message e then [event_message task e] else []) in
      if inside' \<and> truthy (t_cma_terminal_event_id task) \<and> e_id e = t_cma_terminal_event_id task then here
      else here @ slice_messages task inside' es)"

definition full_history :: "task_row \<Rightarrow> cma_event list \<Rightarrow> string option \<Rightarrow> a2a_message list" where
  "full_history task events pending_text =
     (case pending_text of
        Some text \<Rightarrow> if truthy (t_cma_input_event_id task) then []
                     else [task_message task (t_message_id task) ROLE_USER text]
      | None \<Rightarrow> [])
     @ slice_messages task False events"

text \<open>\<open>history[-n:]\<close> for a positive \<open>n\<close>, nothing for zero.\<close>

definition last_n :: "int \<Rightarrow> 'a list \<Rightarrow> 'a list" where
  "last_n n xs = (if n > 0 then drop (length xs - nat n) xs else [])"

definition limit_history :: "int option \<Rightarrow> 'a list \<Rightarrow> 'a list" where
  "limit_history n xs = (case n of None \<Rightarrow> xs | Some k \<Rightarrow> last_n k xs)"

section \<open>Pending input\<close>

text \<open>The requests shown to a client that has enabled the extension.\<close>

fun shown :: "request_row \<times> string option \<Rightarrow> bool" where
  "shown (Clarification q, d) = (q_status q \<noteq> Resolved)"
| "shown (Approval r, d) = (r_status r = Pending \<and> truthy d \<and> r_human_ruling r = None)"

text \<open>
  The payload of one shown request, \<open>None\<close> when its event is not in the history. An event of the
  wrong shape raises. (\<open>str(source["name"])\<close> of a name that is not a string is not modelled: such
  an event never gets a review, as the policy evaluation refuses it.)
\<close>

definition tool_input :: "cma_event \<Rightarrow> json" where
  "tool_input e = (if json_falsy (e_input e) then JObj [] else the (e_input e))"

definition validated :: "hi_request \<Rightarrow> error + hi_request" where
  "validated r = (if valid_request r then Inr r else Inl (ValueError ''ValidationError''))"

definition approval_payload :: "approval_row \<Rightarrow> string option \<Rightarrow> cma_event \<Rightarrow> error + hi_request" where
  "approval_payload r d e = (case e_name e of
      Some (JStr nm) \<Rightarrow> (case tool_input e of
          JObj args \<Rightarrow> validated (Tool_approval_request (r_request_id r) nm args (Some (py_str d)))
        | _ \<Rightarrow> Inl (ValueError ''ValidationError''))
    | _ \<Rightarrow> Inl (KeyError ''name''))"

definition clarification_payload :: "clarification_row \<Rightarrow> cma_event \<Rightarrow> error + hi_request" where
  "clarification_payload q e = (case tool_input e of
      JObj args \<Rightarrow> (case map_of args ''prompt'' of
          Some (JStr p) \<Rightarrow>
            (case (case map_of args ''choices'' of None \<Rightarrow> Some None | Some JNull \<Rightarrow> Some None
                   | Some (JArr xs) \<Rightarrow> map_option Some (json_strings xs) | Some _ \<Rightarrow> None) of
               Some cs \<Rightarrow> validated (Clarification_request (q_request_id q) p cs)
             | None \<Rightarrow> Inl (ValueError ''ValidationError''))
        | _ \<Rightarrow> Inl (KeyError ''prompt''))
    | _ \<Rightarrow> Inl (ExternalError ''TypeError''))"

fun payload :: "request_row \<times> string option \<Rightarrow> cma_event \<Rightarrow> error + hi_request" where
  "payload (Approval r, d) e = approval_payload r d e"
| "payload (Clarification q, d) e = clarification_payload q e"

text \<open>The last event with an identifier wins, as in a dictionary built from the list.\<close>

definition event_by_id :: "cma_event list \<Rightarrow> string \<Rightarrow> cma_event option" where
  "event_by_id events i = find (\<lambda>e. py_str (e_id e) = i) (rev events)"

fun payloads :: "cma_event list \<Rightarrow> (request_row \<times> string option) list \<Rightarrow> error + hi_request list" where
  "payloads events [] = Inr []"
| "payloads events (row # rows) = (case event_by_id events (req_cma_event_id (fst row)) of
     None \<Rightarrow> payloads events rows
   | Some e \<Rightarrow> (case payload row e of
       Inl err \<Rightarrow> Inl err
     | Inr p \<Rightarrow> (case payloads events rows of Inl err \<Rightarrow> Inl err | Inr ps \<Rightarrow> Inr (p # ps))))"

definition pending_message :: "task_row \<Rightarrow> cma_event list \<Rightarrow> (request_row \<times> string option) list
    \<Rightarrow> error + a2a_message option" where
  "pending_message task events rows =
     (if t_cancel_requested_at task \<noteq> None then Inr None
      else case payloads events (filter shown rows) of
        Inl err \<Rightarrow> Inl err
      | Inr [] \<Rightarrow> Inr None
      | Inr ps \<Rightarrow> Inr (Some
          ((task_message task (''input-'' @ t_task_id task) ROLE_AGENT ''Human input required'')
             \<lparr>msg_extensions := [HUMAN_INPUT_EXTENSION_URI],
              msg_metadata := [(HUMAN_INPUT_EXTENSION_URI,
                JObj [(''requests'', JArr (map encode_request ps))])]\<rparr>)))"

section \<open>The task\<close>

definition awaited :: "request_row \<Rightarrow> bool" where
  "awaited row = ((is_clarification row \<and> req_status row \<noteq> Resolved)
     \<or> (truthy (req_review_digest row) \<and> req_status row = Pending \<and> req_human_ruling row = None))"

definition pending_revision :: "(string \<Rightarrow> string) \<Rightarrow> request_row list \<Rightarrow> string" where
  "pending_revision sha rows = take 16 (sha (concat (case sort (map req_request_id (filter awaited rows)) of
     [] \<Rightarrow> [] | i # is \<Rightarrow> i # map (\<lambda>j. CHR 0x00 # j) is)))"

definition input_message :: "(string \<Rightarrow> string) \<Rightarrow> task_row \<Rightarrow> cma_event list \<Rightarrow> (request_row \<times> string option) list
    \<Rightarrow> bool \<Rightarrow> error + a2a_message" where
  "input_message sha task events rows human_input =
     (let revision = pending_revision sha (map fst rows) in
      case (if human_input then pending_message task events rows else Inr None) of
        Inl err \<Rightarrow> Inl err
      | Inr (Some m) \<Rightarrow> Inr (m\<lparr>msg_id := msg_id m @ ''-'' @ revision\<rparr>)
      | Inr None \<Rightarrow> Inr (task_message task (''input-'' @ t_task_id task @ ''-'' @ revision) ROLE_AGENT
          ''This task requires user input.''))"

definition failed_text :: "task_row \<Rightarrow> cma_event list \<Rightarrow> string" where
  "failed_text task events =
     (let budget = (case find (\<lambda>e. e_id e = t_cma_terminal_event_id task) events of
         None \<Rightarrow> False
       | Some e \<Rightarrow> e_type e = Some ''session.budget_reached'' \<or> stop_type e = Some ''budget_reached'') in
      if budget then ''The CMA session reached its budget before this task completed.''
      else ''The CMA session ended before this task completed.'')"

definition status_message :: "(string \<Rightarrow> string) \<Rightarrow> task_row \<Rightarrow> cma_event list \<Rightarrow> (request_row \<times> string option) list
    \<Rightarrow> bool \<Rightarrow> a2a_message list \<Rightarrow> error + a2a_message option" where
  "status_message sha task events rows human_input history = (case t_a2a_state task of
      COMPLETED \<Rightarrow> Inr (find (\<lambda>m. msg_role m = ROLE_AGENT) (rev history))
    | INPUT_REQUIRED \<Rightarrow> (case input_message sha task events rows human_input of
        Inl err \<Rightarrow> Inl err | Inr m \<Rightarrow> Inr (Some m))
    | REJECTED \<Rightarrow> Inr (Some (task_message task (''rejected-'' @ t_task_id task) ROLE_AGENT
        (if t_held_reason task = Some ''context-failed''
         then ''This context is unavailable after a provider failure.''
         else ''Resolve the pending input request before starting another turn.'')))
    | FAILED \<Rightarrow> Inr (Some (task_message task (''failed-'' @ t_task_id task) ROLE_AGENT (failed_text task events)))
    | _ \<Rightarrow> Inr None)"

definition build_task :: "(string \<Rightarrow> string) \<Rightarrow> task_row \<Rightarrow> cma_event list \<Rightarrow> (request_row \<times> string option) list
    \<Rightarrow> view_options \<Rightarrow> string option \<Rightarrow> error + a2a_task" where
  "build_task sha task events rows options pending_text =
     (let history = full_history task events pending_text in
      case status_message sha task events rows (vo_human_input options) history of
        Inl err \<Rightarrow> Inl err
      | Inr m \<Rightarrow> Inr \<lparr>tk_id = t_task_id task, tk_context_id = t_context_id task,
          tk_state = wire_state (t_a2a_state task), tk_status_message = m,
          tk_history = limit_history (vo_history_length options) history\<rparr>)"

section \<open>What a client sees\<close>

lemma last_n_length: "length (last_n n xs) \<le> nat n"
  by (simp add: last_n_def) arith

lemma last_n_suffix: "\<exists>ys. xs = ys @ last_n n xs"
proof (cases "n > 0")
  case True
  then show ?thesis by (metis append_take_drop_id last_n_def)
qed (simp add: last_n_def)

lemma slice_messages_of_task:
  "m \<in> set (slice_messages task inside events) \<Longrightarrow>
     msg_task_id m = t_task_id task \<and> msg_context_id m = t_context_id task \<and> msg_metadata m = []"
  by (induction events arbitrary: inside)
     (auto simp: Let_def event_message_def task_message_def split: if_splits)

lemma full_history_of_task:
  "m \<in> set (full_history task events p) \<Longrightarrow>
     msg_task_id m = t_task_id task \<and> msg_context_id m = t_context_id task \<and> msg_metadata m = []"
  by (auto simp: full_history_def task_message_def dest: slice_messages_of_task split: option.splits if_splits)

lemma build_task_cases:
  assumes "build_task sha task events rows options p = Inr view"
  obtains m where "status_message sha task events rows (vo_human_input options) (full_history task events p) = Inr m"
    "view = \<lparr>tk_id = t_task_id task, tk_context_id = t_context_id task, tk_state = wire_state (t_a2a_state task),
      tk_status_message = m, tk_history = limit_history (vo_history_length options) (full_history task events p)\<rparr>"
  using assms by (auto simp: build_task_def Let_def split: sum.splits)

lemma payloads_valid: "payloads events rows = Inr ps \<Longrightarrow> list_all valid_request ps"
proof (induction rows arbitrary: ps)
  case (Cons row rows)
  have valid: "payload row e = Inr p \<Longrightarrow> valid_request p" for e p
    by (cases row; cases "fst row")
       (auto simp: approval_payload_def clarification_payload_def validated_def
         split: option.splits json.splits if_splits)
  from Cons show ?case
    by (auto split: option.splits sum.splits dest: valid)
qed simp


definition sample_request_task :: task_row where
  "sample_request_task = \<lparr>t_task_id = ''t1'', t_context_id = ''c1'', t_message_id = ''m1'', t_sequence = 1,
     t_a2a_state = INPUT_REQUIRED, t_internal_state = Input_required, t_cma_input_event_id = Some ''e1'',
     t_input_object_key = None, t_cma_predecessor_event_id = None, t_cma_terminal_event_id = None,
     t_dispatch_attempts = Some 1, t_dispatch_attempted_at = None, t_next_dispatch_at = None,
     t_cancel_requested_at = None, t_cancel_attempted_at = None, t_held_reason = None, t_created_at = 0, t_updated_at = 0\<rparr>"

definition sample_question :: clarification_row where
  "sample_question = \<lparr>q_request_id = ''q1'', q_task_id = ''t1'', q_cma_event_id = ''e2'', q_status = Pending,
     q_answer_object_key = None, q_response_attempted_at = None, q_created_at = 0, q_updated_at = 0, q_resolved_at = None\<rparr>"

definition sample_history :: "cma_event list" where
  "sample_history = [(blank_event ''e0'' ''agent.message'')\<lparr>e_content := [\<lparr>cp_type = Some ''text'', cp_text = Some ''old''\<rparr>]\<rparr>,
     (blank_event ''e1'' ''user.message'')\<lparr>e_content := [\<lparr>cp_type = Some ''text'', cp_text = Some ''hi''\<rparr>]\<rparr>,
     (blank_event ''e2'' ''agent.custom_tool_use'')\<lparr>e_name := Some (JStr ''ask_user''),
       e_input := Some (JObj [(''prompt'', JStr ''Which?''), (''choices'', JArr [JStr ''a'', JStr ''b''])])\<rparr>]"

abbreviation sample_view :: "error + a2a_task" where
  "sample_view \<equiv> build_task (\<lambda>x. x) sample_request_task sample_history [(Clarification sample_question, None)]
     \<lparr>vo_history_length = None, vo_human_input = True\<rparr> None"


section \<open>The slice of the history\<close>

text \<open>The first event satisfying a predicate, and what follows it; and a list up to such an event.\<close>

definition from_event :: "(cma_event \<Rightarrow> bool) \<Rightarrow> cma_event list \<Rightarrow> cma_event list" where
  "from_event p es = dropWhile (\<lambda>e. \<not> p e) es"

fun up_to_event :: "(cma_event \<Rightarrow> bool) \<Rightarrow> cma_event list \<Rightarrow> cma_event list" where
  "up_to_event p [] = []"
| "up_to_event p (e # es) = (if p e then [e] else e # up_to_event p es)"

definition task_events :: "task_row \<Rightarrow> cma_event list \<Rightarrow> cma_event list" where
  "task_events task events =
     (if truthy (t_cma_input_event_id task)
      then up_to_event (\<lambda>e. truthy (t_cma_terminal_event_id task) \<and> e_id e = t_cma_terminal_event_id task)
             (from_event (\<lambda>e. e_id e = t_cma_input_event_id task) events)
      else [])"

lemma slice_inside:
  "slice_messages task True events = map (event_message task) (filter is_message
     (up_to_event (\<lambda>e. truthy (t_cma_terminal_event_id task) \<and> e_id e = t_cma_terminal_event_id task) events))"
  by (induction events) (auto simp: Let_def)

text \<open>C10: The loop that builds the history computes the messages between the input event of the task and its
  terminal event: the history of a task holds no message of an earlier or a later turn, and holds
  all of its own.\<close>

theorem slice_messages_spec:
  "slice_messages task False events = map (event_message task) (filter is_message (task_events task events))"
proof (induction events)
  case (Cons e es)
  show ?case
  proof (cases "truthy (t_cma_input_event_id task) \<and> e_id e = t_cma_input_event_id task")
    case True
    then have "slice_messages task False (e # es) = slice_messages task True (e # es)" by (simp add: Let_def)
    with True show ?thesis by (simp add: slice_inside task_events_def from_event_def Let_def)
  next
    case False
    with Cons show ?thesis by (auto simp: Let_def task_events_def from_event_def)
  qed
qed (simp add: task_events_def from_event_def)



end
