(* ===== verification/Controller_Service.thy ===== *)
theory Controller_Service
  imports Runtime_Repository Ports Task_View
begin

text \<open>
  \<^verbatim>\<open>cma_controller/service.py\<close> (class \<open>ControllerService\<close>): admission of messages, continuation of
  a task with human input, reading, listing and cancelling tasks. Each method is a worker
  whose repository, store, queue and provider calls are single steps. The token of the next
  page is the sequence number itself (\<open>None\<close> for the empty token).
\<close>

type_synonym ('p, 'l, 'o) service = "('p sys, 'l, 'o) run"

section \<open>Reading a task\<close>

definition view_options_ok :: "view_options \<Rightarrow> bool" where
  "view_options_ok v = (case vo_history_length v of None \<Rightarrow> True | Some n \<Rightarrow> n \<ge> 0)"

definition negative_history :: error where
  "negative_history = InvalidParams ''historyLength must be nonnegative''"

text \<open>The text of a turn the provider has not accepted yet. The scheduler can bind the event and remove
  the object between the two reads; then the task is read again.\<close>

definition read_pending_text :: "'p env \<Rightarrow> task_row \<Rightarrow> (('p, 'l, 'o) service, task_row \<times> string option) comp" where
  "read_pending_text E task =
     (if \<not> truthy (t_cma_input_event_id task) \<and> truthy (t_input_object_key task)
      then let key = py_str (t_input_object_key task) in
        try_except (bnd (call (rt_of E) (s3_get key)) (\<lambda>text. ret (task, Some text)))
          (except_exception (\<lambda>e.
             bnd (call (rt_of E) (reads (get_task (t_task_id task)))) (\<lambda>refreshed.
             case refreshed of
               None \<Rightarrow> raise_err e
             | Some t \<Rightarrow> if t_input_object_key t = Some key then raise_err e else ret (t, None))))
      else ret (task, None))"

definition read_review :: "'p env \<Rightarrow> request_row \<Rightarrow> (('p, 'l, 'o) service, request_row \<times> string option) comp" where
  "read_review E row =
     (if truthy (req_review_object_key row) \<and> req_status row = Pending \<and> req_human_ruling row = None
      then bnd (call (rt_of E) (s3_get (py_str (req_review_object_key row)))) (\<lambda>text. ret (row, Some text))
      else ret (row, None))"

definition get_task_view :: "'p env \<Rightarrow> string \<Rightarrow> view_options \<Rightarrow> (('p, 'l, 'o) service, a2a_task) comp" where
  "get_task_view E tid options =
     (if \<not> view_options_ok options then raise_err negative_history
      else
        bnd (call (rt_of E) (reads (get_task tid))) (\<lambda>found.
        case found of
          None \<Rightarrow> raise_err TaskNotFound
        | Some task0 \<Rightarrow>
        bnd (read_pending_text E task0) (\<lambda>(task, pending_text).
        bnd (call (rt_of E) (reads (get_context (t_context_id task)))) (\<lambda>ctx.
        case ctx of
          None \<Rightarrow> raise_err TaskNotFound
        | Some c \<Rightarrow>
        bnd (if truthy (c_cma_session_id c) then call (rt_of E) (list_events E (py_str (c_cma_session_id c)))
             else ret []) (\<lambda>events.
        bnd (call (rt_of E) (reads (list_input_requests tid))) (\<lambda>requests.
        bnd (if vo_human_input options \<and> t_cancel_requested_at task = None
             then map_m (read_review E) requests
             else ret (map (\<lambda>row. (row, None)) requests)) (\<lambda>rows.
        case build_task (sha256_hex E) task events rows options pending_text of
          Inl err \<Rightarrow> raise_err err
        | Inr view \<Rightarrow> ret view)))))))"

definition watch_marker :: "'p env \<Rightarrow> string
    \<Rightarrow> (('p, 'l, 'o) service, int \<times> a2a_state \<times> string option \<times> string option) comp" where
  "watch_marker E tid =
     bnd (call (rt_of E) (reads (get_task tid))) (\<lambda>found.
     case found of
       None \<Rightarrow> raise_err TaskNotFound
     | Some task \<Rightarrow>
     bnd (call (rt_of E) (reads (get_context (t_context_id task)))) (\<lambda>ctx.
     case ctx of
       None \<Rightarrow> raise_err TaskNotFound
     | Some c \<Rightarrow> ret (t_updated_at task, t_a2a_state task,
         (if truthy (t_cma_input_event_id task) then t_cma_input_event_id task else None),
         (if truthy (c_cma_session_id c) then c_cma_session_id c else None))))"

section \<open>Continuing a task with human input\<close>

definition answer_request :: "'p env \<Rightarrow> a2a_message \<Rightarrow> task_row \<Rightarrow> string \<Rightarrow> string \<Rightarrow> view_options
    \<Rightarrow> (('p, 'l, 'o) service, a2a_task) comp" where
  "answer_request E message task rid answer options =
     bnd (call (rt_of E) (reads (get_input_request rid (msg_task_id message)))) (\<lambda>prior.
     case prior of
       Some (Clarification q) \<Rightarrow>
         if q_status q \<noteq> Pending then get_task_view E (msg_task_id message) options
         else if t_internal_state task \<noteq> Input_required
         then raise_err (InvalidParams ''Task is not waiting for human input'')
         else
           bnd (fresh_uuid (rt_of E)) (\<lambda>key.
           bnd (call (rt_of E) (s3_put key answer)) (\<lambda>_.
           bnd (try_except
                 (call (rt_of E) (decide_clarification_request rid (msg_task_id message) key))
                 (except_exception (\<lambda>e. bnd (call (rt_of E) (s3_delete key)) (\<lambda>_. raise_err e)))) (\<lambda>row.
           bnd (when_m (case row of None \<Rightarrow> True | Some d \<Rightarrow> q_answer_object_key d \<noteq> Some key)
                 (call (rt_of E) (s3_delete key))) (\<lambda>_.
           if row = None then raise_err (InvalidParams ''Unknown clarification request'')
           else
             bnd (call (rt_of E) (schedule (msg_context_id message) ''human-input'' 0)) (\<lambda>_.
             get_task_view E (msg_task_id message) options)))))
     | _ \<Rightarrow> raise_err (InvalidParams ''Unknown clarification request''))"

definition rule_on_request :: "'p env \<Rightarrow> a2a_message \<Rightarrow> string \<Rightarrow> string \<Rightarrow> view_options
    \<Rightarrow> (('p, 'l, 'o) service, a2a_task) comp" where
  "rule_on_request E message rid decision options =
     bnd (call (rt_of E) (record_human_ruling rid (msg_task_id message) decision)) (\<lambda>accepted.
     if \<not> accepted then raise_err (InvalidParams ''Unknown, stale, or conflicting OpenAPPA review'')
     else
       bnd (call (rt_of E) (schedule (msg_context_id message) ''human-review'' 0)) (\<lambda>_.
       get_task_view E (msg_task_id message) options))"

text \<open>The response in the metadata of the message, or why it is refused.\<close>

definition message_response :: "a2a_message \<Rightarrow> error + hi_response" where
  "message_response message =
     (case map_of (msg_metadata message) HUMAN_INPUT_EXTENSION_URI of
        Some (JObj envelope) \<Rightarrow>
          (case map_of envelope ''response'' of
             None \<Rightarrow> Inl (InvalidParams ''Missing human-input/v1 response'')
           | Some v \<Rightarrow> (case decode_response v of
               None \<Rightarrow> Inl (InvalidParams ''Invalid human-input/v1 response'')
             | Some r \<Rightarrow> Inr r))
      | _ \<Rightarrow> Inl (InvalidParams ''Missing human-input/v1 response''))"

definition continue_task :: "'p env \<Rightarrow> a2a_message \<Rightarrow> view_options \<Rightarrow> (('p, 'l, 'o) service, a2a_task) comp" where
  "continue_task E message options =
     (if \<not> vo_human_input options \<or> HUMAN_INPUT_EXTENSION_URI \<notin> set (msg_extensions message)
      then raise_err (InvalidParams ''Ordinary text cannot continue an existing task'')
      else if msg_parts message \<noteq> [] \<or> set (msg_extensions message) \<noteq> {HUMAN_INPUT_EXTENSION_URI}
      then raise_err (InvalidParams ''Human input must use only the declared extension'')
      else
        bnd (call (rt_of E) (reads (get_task (msg_task_id message)))) (\<lambda>found.
        case found of
          None \<Rightarrow> raise_err TaskNotFound
        | Some task \<Rightarrow>
            if t_context_id task \<noteq> msg_context_id message then raise_err TaskNotFound
            else (case message_response message of
                Inl err \<Rightarrow> raise_err err
              | Inr (Clarification_response rid answer) \<Rightarrow> answer_request E message task rid answer options
              | Inr (Tool_approval_response rid decision reason) \<Rightarrow> rule_on_request E message rid decision options)))"

section \<open>Admission\<close>

definition message_body :: "a2a_message \<Rightarrow> string" where
  "message_body m = concat (map (\<lambda>p. case p of Text_part t \<Rightarrow> t | Other_part \<Rightarrow> []) (msg_parts m))"

text \<open>What is wrong with a message that starts a turn.\<close>

definition turn_error :: "a2a_message \<Rightarrow> error option" where
  "turn_error m =
     (if msg_extensions m \<noteq> [] then Some (InvalidParams ''Extensions must continue an existing task'')
      else if msg_parts m = [] \<or> Other_part \<in> set (msg_parts m)
      then Some (InvalidParams ''Only text parts are supported'')
      else if blank (message_body m) then Some (InvalidParams ''Text input cannot be empty'')
      else None)"

text \<open>The input is stored before the task that refers to it is admitted, and removed again when the
  admission fails or finds that the message was admitted before.\<close>

definition admit_message :: "'p env \<Rightarrow> a2a_message \<Rightarrow> (('p, 'l, 'o) service, context_row \<times> task_row) comp" where
  "admit_message E m =
     bnd (fresh_uuid (rt_of E)) (\<lambda>key.
     bnd (call (rt_of E) (s3_put key (message_body m))) (\<lambda>_.
     bnd (fresh_uuid (rt_of E)) (\<lambda>proposed_context.
     bnd (fresh_uuid (rt_of E)) (\<lambda>proposed_task.
     bnd (try_except
           (admit (rt_of E) proposed_context (if msg_context_id m = [] then None else Some (msg_context_id m))
             (msg_id m) proposed_task key)
           (except_exception (\<lambda>e.
              bnd (call (rt_of E) (s3_delete key)) (\<lambda>_.
              raise_err (case e of KeyError _ \<Rightarrow> InvalidParams ''Unknown CMA context'' | _ \<Rightarrow> e)))))
     (\<lambda>(ctx, task, created).
     bnd (when_m (\<not> created) (call (rt_of E) (s3_delete key))) (\<lambda>_. ret (ctx, task)))))))"

definition send :: "'p env \<Rightarrow> a2a_message \<Rightarrow> view_options \<Rightarrow> (('p, 'l, 'o) service, a2a_task) comp" where
  "send E m options =
     (if \<not> view_options_ok options then raise_err negative_history
      else if msg_role m \<noteq> ROLE_USER \<or> msg_id m = []
      then raise_err (InvalidParams ''A USER message with messageId is required'')
      else if msg_task_id m \<noteq> [] then continue_task E m options
      else case turn_error m of
        Some err \<Rightarrow> raise_err err
      | None \<Rightarrow>
          bnd (admit_message E m) (\<lambda>(ctx, task).
          bnd (when_m (t_internal_state task \<noteq> Terminal)
                (call (rt_of E) (schedule (c_context_id ctx) ''task-admitted'' 0))) (\<lambda>_.
          get_task_view E (t_task_id task) options)))"

section \<open>Listing and cancelling\<close>

definition list_task_views :: "'p env \<Rightarrow> string \<Rightarrow> int \<Rightarrow> int \<Rightarrow> view_options
    \<Rightarrow> (('p, 'l, 'o) service, a2a_task list \<times> int option \<times> int) comp" where
  "list_task_views E cid after_sequence page_size options =
     (if \<not> view_options_ok options then raise_err negative_history
      else if cid = [] then raise_err (InvalidParams ''contextId is required in Phase 2'')
      else if after_sequence < 0 \<or> \<not> (1 \<le> page_size \<and> page_size \<le> 100)
      then raise_err (InvalidParams ''Invalid task page'')
      else
        bnd (call (rt_of E) (reads (list_tasks cid after_sequence (page_size + 1)))) (\<lambda>rows.
        let more = int (length rows) > page_size; selected = take (nat page_size) rows in
        bnd (map_m (\<lambda>row. get_task_view E (t_task_id row) options) selected) (\<lambda>views.
        bnd (call (rt_of E) (reads (count_tasks cid))) (\<lambda>total.
        ret (views, (if more \<and> selected \<noteq> [] then Some (t_sequence (last selected)) else None), total)))))"

definition cancel_request :: "'p env \<Rightarrow> string \<Rightarrow> view_options \<Rightarrow> (('p, 'l, 'o) service, a2a_task) comp" where
  "cancel_request E tid options =
     bnd (call (rt_of E) (reads (get_task tid))) (\<lambda>before.
     if before = None then raise_err TaskNotFound
     else
       bnd (call (rt_of E) (cancel_task tid)) (\<lambda>after.
       case after of
         None \<Rightarrow> raise_err AssertionError
       | Some task \<Rightarrow>
           bnd (if t_internal_state task \<noteq> Terminal
                then call (rt_of E) (schedule (t_context_id task) ''cancel-requested'' 0)
                else when_m (has_push_trigger E)
                  (try_except (call (rt_of E) (schedule_context (t_context_id task) ''queued-cancelled'' 0))
                    (except_exception (\<lambda>_. ret ())))) (\<lambda>_.
           get_task_view E tid options)))"

end
