(* ===== verification/Push_Dispatcher.thy ===== *)
theory Push_Dispatcher
  imports Push_Repository Controller_Service
begin

text \<open>
  \<^verbatim>\<open>cma_controller/push_dispatcher.py\<close> (class \<open>PushDispatcher\<close>): delivery of the current view of a
  task to a callback, under a lease, at most once for a view, with bounded retries. The HTTP
  client and the fingerprint of a view (the hash of its serialised form) are parameters. The
  log of the worker records every post.
\<close>

record 'p push_port =
  post_callback :: "string \<Rightarrow> string \<Rightarrow> a2a_task \<Rightarrow> 'p \<Rightarrow> (error + int) \<times> 'p"
  fingerprint_of :: "a2a_task \<Rightarrow> string"

datatype push_obs = Post_callback string string string string

type_synonym ('p, 'l) push_worker = "('p sys, 'l, push_obs) run"

definition backoff :: "int list" where
  "backoff = [5, 15, 30, 60, 120, 300]"

definition push_view :: view_options where
  "push_view = \<lparr>vo_history_length = Some 1, vo_human_input = False\<rparr>"

text \<open>\<open>min(900, max(1, ceil((due - now).total_seconds())))\<close>\<close>

definition remaining_delay :: "int \<Rightarrow> push_row \<Rightarrow> int" where
  "remaining_delay now row =
     (let due = List.map_filter id [p_next_attempt_at row, p_delivery_lease_expires_at row] in
      if due = [] then 1
      else min 900 (max 1 (- ((now - foldr max due (hd due)) div 1000000))))"

text \<open>What the attempt to post came to.\<close>

datatype attempt = Unchanged | Claim_lost | Answered int string | Not_sent

definition attempt_post :: "'p env \<Rightarrow> 'p push_port \<Rightarrow> string \<Rightarrow> string \<Rightarrow> string \<Rightarrow> push_row
    \<Rightarrow> (('p, 'l) push_worker, attempt) comp" where
  "attempt_post E P tid pid claim row =
     bnd (get_task_view E tid push_view) (\<lambda>view.
     let fingerprint = fingerprint_of P view;
         delivery_id = sha256_hex E (pid @ [CHR 0x00] @ tid @ [CHR 0x00] @ fingerprint) in
     if p_last_delivered_fingerprint row = Some fingerprint then ret Unchanged
     else
       bnd (call (rt_of E) (reads (push_claimed tid pid claim))) (\<lambda>still.
       if \<not> still then ret Claim_lost
       else
         bnd (observe (Post_callback (p_url row) tid pid fingerprint)) (\<lambda>_.
         bnd (call (rt_of E) (on_outside (post_callback P (p_url row) delivery_id view))) (\<lambda>code.
         ret (Answered code fingerprint)))))"

definition transient_code :: "int \<Rightarrow> bool" where
  "transient_code code = (code \<in> {408, 429} \<or> code \<ge> 500)"

definition retry_delay :: "bool \<Rightarrow> int \<Rightarrow> int option" where
  "retry_delay transient attempts =
     (if transient \<and> attempts < int (length backoff) then Some (backoff ! nat attempts) else None)"

definition failed_attempt :: "'p env \<Rightarrow> string \<Rightarrow> string \<Rightarrow> string \<Rightarrow> push_row \<Rightarrow> bool
    \<Rightarrow> (('p, 'l) push_worker, int option) comp" where
  "failed_attempt E tid pid claim row transient =
     (let delay = retry_delay transient (p_attempt_count row) in
      bnd (call (rt_of E) (push_finish tid pid claim None delay (delay = None))) (\<lambda>finished.
      ret (if finished then delay else Some 1)))"

text \<open>The delivery under a lease.\<close>

definition settle_attempt :: "'p env \<Rightarrow> string \<Rightarrow> string \<Rightarrow> string \<Rightarrow> push_row \<Rightarrow> attempt
    \<Rightarrow> (('p, 'l) push_worker, int option) comp" where
  "settle_attempt E tid pid claim row result = (case result of
       Unchanged \<Rightarrow> ret None
     | Claim_lost \<Rightarrow> ret (Some 1)
     | Answered code fingerprint \<Rightarrow>
         if 200 \<le> code \<and> code < 300
         then bnd (call (rt_of E) (push_finish tid pid claim (Some fingerprint) None False)) (\<lambda>finished.
              ret (if finished then None else Some 1))
         else failed_attempt E tid pid claim row (transient_code code)
     | Not_sent \<Rightarrow> failed_attempt E tid pid claim row True)"

definition deliver_claimed :: "'p env \<Rightarrow> 'p push_port \<Rightarrow> string \<Rightarrow> string \<Rightarrow> string
    \<Rightarrow> (('p, 'l) push_worker, int option) comp" where
  "deliver_claimed E P tid pid claim =
     bnd (call (rt_of E) (reads (push_get tid pid))) (\<lambda>found.
     case found of
       None \<Rightarrow> ret None
     | Some row \<Rightarrow>
         bnd (try_except (attempt_post E P tid pid claim row) (except_exception (\<lambda>_. ret Not_sent)))
           (settle_attempt E tid pid claim row))"

definition deliver :: "'p env \<Rightarrow> 'p push_port \<Rightarrow> string \<Rightarrow> string \<Rightarrow> (('p, 'l) push_worker, int option) comp" where
  "deliver E P tid pid =
     bnd (fresh_uuid (rt_of E)) (\<lambda>claim_id.
     bnd (call (rt_of E) (push_claim claim_id tid pid 60)) (\<lambda>claimed.
     case claimed of
       None \<Rightarrow>
         bnd (call (rt_of E) (reads (push_get tid pid))) (\<lambda>found.
         case found of
           None \<Rightarrow> ret None
         | Some row \<Rightarrow>
             if p_permanent_failure_at row \<noteq> None then ret None
             else bnd (call (rt_of E) (reads clock)) (\<lambda>now. ret (Some (remaining_delay now row))))
     | Some claim \<Rightarrow> try_finally (deliver_claimed E P tid pid claim) (call (rt_of E) (push_release tid pid claim))))"

text \<open>A terminal task whose view was delivered already needs no lease.\<close>

definition already_delivered :: "'p env \<Rightarrow> 'p push_port \<Rightarrow> push_row \<Rightarrow> a2a_state \<Rightarrow> (('p, 'l) push_worker, bool) comp" where
  "already_delivered E P row st =
     (if st \<in> {COMPLETED, CANCELED, FAILED, REJECTED} \<and> truthy (p_last_delivered_fingerprint row)
      then try_except
        (bnd (get_task_view E (p_task_id row) push_view) (\<lambda>view.
         ret (p_last_delivered_fingerprint row = Some (fingerprint_of P view))))
        (except_exception (\<lambda>_. ret False))
      else ret False)"

definition run_row :: "'p env \<Rightarrow> 'p push_port \<Rightarrow> push_row \<times> a2a_state \<Rightarrow> (('p, 'l) push_worker, int option) comp" where
  "run_row E P = (\<lambda>(row, st).
     bnd (already_delivered E P row st) (\<lambda>same.
     if same then ret None else deliver E P (p_task_id row) (p_config_id row)))"

definition run_context :: "'p env \<Rightarrow> 'p push_port \<Rightarrow> string \<Rightarrow> (('p, 'l) push_worker, unit) comp" where
  "run_context E P cid =
     bnd (call (rt_of E) (reads (list_context cid))) (\<lambda>rows.
     bnd (map_m (run_row E P) rows) (\<lambda>results.
     let delays = List.map_filter id results in
     if delays = [] then ret ()
     else call (rt_of E) (schedule_context cid ''push-retry'' (foldr min delays (hd delays)))))"

section \<open>Delays\<close>

definition good_delay :: "int option \<Rightarrow> bool" where
  "good_delay d = (case d of None \<Rightarrow> True | Some n \<Rightarrow> 1 \<le> n \<and> n \<le> 900)"

lemma backoff_nth: "n < length backoff \<Longrightarrow> 5 \<le> backoff ! n \<and> backoff ! n \<le> 300"
proof -
  assume "n < length backoff"
  then have "backoff ! n \<in> set backoff" by (rule nth_mem)
  then show ?thesis by (auto simp: backoff_def)
qed

lemma retry_delay_bounds:
  assumes "retry_delay transient n = Some d"
  shows "5 \<le> d \<and> d \<le> 300"
  using assms backoff_nth [of "nat n"] by (auto simp: retry_delay_def backoff_def split: if_splits)

lemma remaining_delay_bounds: "1 \<le> remaining_delay now row \<and> remaining_delay now row \<le> 900"
  by (auto simp: remaining_delay_def Let_def)

lemma failed_attempt_delay: "returns good_delay (failed_attempt E tid pid claim row transient)"
  unfolding failed_attempt_def Let_def
  using retry_delay_bounds [of transient "p_attempt_count row"]
  by (intro returns_bnd_any returns_ret) (auto simp: good_delay_def split: option.splits)

lemma deliver_delay: "returns good_delay (deliver E P tid pid)"
  unfolding deliver_def deliver_claimed_def settle_attempt_def
  by (auto intro!: returns_bnd_any returns_ret returns_try_finally failed_attempt_delay
      simp: good_delay_def remaining_delay_bounds split: option.splits attempt.splits)

lemma run_row_delay: "returns good_delay (run_row E P rs)"
  unfolding run_row_def
  by (auto intro!: returns_bnd_any returns_ret deliver_delay simp: good_delay_def [of None] split: prod.splits)

lemma returns_map_m: "(\<And>x. returns Q (f x)) \<Longrightarrow> returns (list_all Q) (map_m f xs)"
  by (induction xs) (auto intro!: returns_ret returns_bnd)





end
