(* ===== verification/Controller_Handlers.thy ===== *)
theory Controller_Handlers
  imports Scheduler Push_Dispatcher
begin

text \<open>
  The entry points of the controller's workers: \<^verbatim>\<open>cma_controller/admin.py\<close> (class
  \<open>ControllerAdmin\<close>), \<^verbatim>\<open>webhook.py\<close>, \<^verbatim>\<open>scheduler_handler.py\<close> and \<^verbatim>\<open>push_handler.py\<close>. The command
  line of the administrator is in theory \<open>Admin_Commands\<close>.
  \<open>json.loads\<close> of a queue record is a parameter of the batch handlers.
\<close>

section \<open>Administration\<close>

record held_summary =
  hs_task_id :: string
  hs_context_id :: string
  hs_state :: a2a_state
  hs_internal_state :: internal_state
  hs_reason :: string
  hs_dispatch_attempts :: int

definition held_task_summary :: "task_row \<Rightarrow> held_summary" where
  "held_task_summary t = \<lparr>hs_task_id = t_task_id t, hs_context_id = t_context_id t, hs_state = t_a2a_state t,
     hs_internal_state = t_internal_state t, hs_reason = py_str (t_held_reason t),
     hs_dispatch_attempts = the (coalesce (t_dispatch_attempts t) (Some 0))\<rparr>"

record push_summary =
  ps_task_id :: string
  ps_config_id :: string
  ps_attempt_count :: int
  ps_last_attempt_at :: "int option"
  ps_permanent_failure_at :: "int option"

definition push_summary_of :: "push_row \<Rightarrow> push_summary" where
  "push_summary_of p = \<lparr>ps_task_id = p_task_id p, ps_config_id = p_config_id p, ps_attempt_count = p_attempt_count p,
     ps_last_attempt_at = p_last_attempt_at p, ps_permanent_failure_at = p_permanent_failure_at p\<rparr>"

definition list_held :: "'p env \<Rightarrow> (('p, 'l, 'o) service, held_summary list) comp" where
  "list_held E = bnd (call (rt_of E) (reads list_held_tasks)) (\<lambda>rows. ret (map held_task_summary rows))"

definition list_failed_push :: "'p env \<Rightarrow> (('p, 'l, 'o) service, push_summary list) comp" where
  "list_failed_push E =
     bnd (call (rt_of E) (reads list_permanently_failed)) (\<lambda>rows. ret (map push_summary_of rows))"

definition inspect_push :: "'p env \<Rightarrow> string \<Rightarrow> string \<Rightarrow> (('p, 'l, 'o) service, push_summary) comp" where
  "inspect_push E tid pid = bnd (call (rt_of E) (reads (push_get tid pid))) (\<lambda>row.
     case row of None \<Rightarrow> raise_err (ValueError ''Unknown or deleted push config'') | Some p \<Rightarrow> ret (push_summary_of p))"

definition retry_push :: "'p env \<Rightarrow> string \<Rightarrow> string \<Rightarrow> (('p, 'l, 'o) service, unit) comp" where
  "retry_push E tid pid =
     (if \<not> has_push_trigger E then raise_err (RuntimeError ''Push queue is not configured'')
      else
        bnd (call (rt_of E) (reads (get_task tid))) (\<lambda>task.
        case task of
          None \<Rightarrow> raise_err (ValueError ''Unknown task'')
        | Some t \<Rightarrow>
            bnd (call (rt_of E) (reset_delivery tid pid)) (\<lambda>done.
            if \<not> done
            then raise_err (RuntimeError ''Push config is unknown, deleted, or has an active delivery claim'')
            else call (rt_of E) (schedule_context (t_context_id t) ''admin-retry-push'' 0))))"

definition inspect_held :: "'p env \<Rightarrow> string \<Rightarrow> (('p, 'l, 'o) service, held_summary) comp" where
  "inspect_held E tid = bnd (call (rt_of E) (reads list_held_tasks)) (\<lambda>rows.
     case find (\<lambda>t. t_task_id t = tid) rows of
       None \<Rightarrow> raise_err (ValueError ''Task is not held'')
     | Some t \<Rightarrow> ret (held_task_summary t))"

definition admin_resolve :: "'p env \<Rightarrow> string \<Rightarrow> string \<Rightarrow> bool \<Rightarrow> (('p, 'l, 'o) service, unit) comp" where
  "admin_resolve E tid resolution verified =
     (if resolution = ''retry'' \<and> \<not> verified
      then raise_err (ValueError ''Retry requires external verification that CMA did not accept the input'')
      else
        bnd (call (rt_of E) (reads (get_task tid))) (\<lambda>row.
        case row of
          None \<Rightarrow> raise_err (ValueError ''Unknown task'')
        | Some task \<Rightarrow>
            let cid = t_context_id task in
            bnd (fresh_uuid (rt_of E)) (\<lambda>claim_id.
            bnd (call (rt_of E) (claim_scheduler claim_id cid 60)) (\<lambda>claimed.
            case claimed of
              None \<Rightarrow> raise_err (RuntimeError ''Context scheduler lease is busy; retry this admin command'')
            | Some claim \<Rightarrow>
                bnd (try_finally
                      (bnd (call (rt_of E) (resolve_held_task tid claim resolution)) (\<lambda>_. ret ()))
                      (bnd (call (rt_of E) (release_scheduler cid claim)) (\<lambda>_. ret ()))) (\<lambda>_.
                bnd (call (rt_of E) (schedule cid (''admin-'' @ resolution) 0)) (\<lambda>_.
                when_m (has_push_trigger E)
                  (call (rt_of E) (schedule_context cid (''admin-'' @ resolution) 0))))))))"

section \<open>Webhook\<close>

definition webhook_supported :: "string \<Rightarrow> bool" where
  "webhook_supported ty = (ty \<in> {''session.status_idled'', ''session.status_terminated'',
     ''session.budget_reached'', ''session.status_rescheduled''})"

datatype http_reply = Reply int string

definition reply_ok :: http_reply where
  "reply_ok = Reply 200 ''ok''"

definition reply_ignored :: http_reply where
  "reply_ignored = Reply 200 ''ignored''"

definition reply_unavailable :: http_reply where
  "reply_unavailable = Reply 503 ''scheduler unavailable''"

text \<open>The type and the session of a verified webhook, when it is one the controller supports.\<close>

definition webhook_session :: "(string \<times> json) list \<Rightarrow> string option" where
  "webhook_session data = (case (map_of data ''type'', map_of data ''id'') of
     (Some (JStr ty), Some (JStr sid)) \<Rightarrow> if webhook_supported ty then Some sid else None
   | _ \<Rightarrow> None)"

text \<open>
  \<open>unwrapped\<close> is the SDK's verification of the signature (\<open>None\<close>: it raised), as the \<open>data\<close> object of
  the payload; \<open>ready\<close> tells whether a repository and a queue are configured.
\<close>

definition handle_webhook :: "'p env \<Rightarrow> bool \<Rightarrow> bool \<Rightarrow> (string \<times> json) list option
    \<Rightarrow> (('p, 'l, 'o) service, http_reply) comp" where
  "handle_webhook E has_key ready unwrapped =
     (if \<not> has_key then ret (Reply 503 ''Webhook is not configured'')
      else case unwrapped of
        None \<Rightarrow> ret (Reply 401 ''invalid signature'')
      | Some data \<Rightarrow>
          (case webhook_session data of
             None \<Rightarrow> ret reply_ignored
           | Some sid \<Rightarrow>
               if \<not> ready then ret reply_unavailable
               else try_except
                 (bnd (call (rt_of E) (reads (context_for_session sid))) (\<lambda>ctx.
                  case ctx of
                    None \<Rightarrow> ret reply_ignored
                  | Some c \<Rightarrow> bnd (call (rt_of E) (schedule (c_context_id c) ''cma-webhook'' 0)) (\<lambda>_. ret reply_ok)))
                 (except_exception (\<lambda>_. ret reply_unavailable))))"

section \<open>Queue batches\<close>

record sqs_record =
  rec_id :: string
  rec_body :: string

text \<open>\<open>1 == True\<close> holds in Python.\<close>

definition is_one :: "json option \<Rightarrow> bool" where
  "is_one v = (v = Some (JNum 1) \<or> v = Some (JBool True))"

definition scheduler_payload :: "json \<Rightarrow> error + string" where
  "scheduler_payload p = (case p of
     JObj kvs \<Rightarrow>
       if map_of kvs ''version'' = None then Inl (KeyError ''version'')
       else if \<not> is_one (map_of kvs ''version'') then Inl (ValueError ''Invalid scheduler payload'')
       else (case map_of kvs ''contextId'' of
               None \<Rightarrow> Inl (KeyError ''contextId'')
             | Some (JStr cid) \<Rightarrow> Inr cid
             | Some _ \<Rightarrow> Inl (ValueError ''Invalid scheduler payload''))
   | _ \<Rightarrow> Inl (ExternalError ''TypeError''))"

definition push_payload :: "json \<Rightarrow> error + string" where
  "push_payload p = (case p of
     JObj kvs \<Rightarrow>
       (case (map_of kvs ''contextId'', map_of kvs ''reason'') of
          (Some (JStr cid), Some (JStr reason)) \<Rightarrow>
            if is_one (map_of kvs ''version'') \<and> cid \<noteq> [] \<and> reason \<noteq> [] then Inr cid
            else Inl (ValueError ''Invalid push wakeup'')
        | _ \<Rightarrow> Inl (ValueError ''Invalid push wakeup''))
   | _ \<Rightarrow> Inl (ExternalError ''AttributeError''))"

text \<open>The batch: a record whose body is refused or whose run raises is reported as failed.\<close>

definition run_record :: "(string \<Rightarrow> error + json) \<Rightarrow> (json \<Rightarrow> error + string) \<Rightarrow> (string \<Rightarrow> ('s, unit) comp)
    \<Rightarrow> sqs_record \<Rightarrow> ('s, unit) comp" where
  "run_record loads decode body r = (case loads (rec_body r) of
     Inl e \<Rightarrow> raise_err e
   | Inr p \<Rightarrow> (case decode p of Inl e \<Rightarrow> raise_err e | Inr cid \<Rightarrow> body cid))"

fun run_batch :: "(sqs_record \<Rightarrow> ('s, unit) comp) \<Rightarrow> sqs_record list \<Rightarrow> ('s, string list) comp" where
  "run_batch body [] = ret []"
| "run_batch body (r # rs) =
     bnd (try_except (bnd (body r) (\<lambda>_. ret [])) (except_exception (\<lambda>_. ret [rec_id r]))) (\<lambda>failed.
     bnd (run_batch body rs) (\<lambda>failures. ret (failed @ failures)))"

definition scheduler_batch :: "'p env \<Rightarrow> (string \<Rightarrow> error + json) \<Rightarrow> sqs_record list \<Rightarrow> ('p worker, string list) comp" where
  "scheduler_batch E loads = run_batch (run_record loads scheduler_payload (run_once E))"

definition push_batch :: "'p env \<Rightarrow> 'p push_port \<Rightarrow> (string \<Rightarrow> error + json) \<Rightarrow> sqs_record list
    \<Rightarrow> (('p, 'l) push_worker, string list) comp" where
  "push_batch E P loads = run_batch (run_record loads push_payload (run_context E P))"

section \<open>What a batch reports\<close>

text \<open>The run of a batch, record by record: the failed ones are reported, in order.\<close>

inductive batch_run :: "(sqs_record \<Rightarrow> ('s, unit) comp) \<Rightarrow> sqs_record list \<Rightarrow> 's \<Rightarrow> string list \<Rightarrow> 's \<Rightarrow> bool" where
  none: "batch_run body [] s [] s"
| succeeded: "body r s = (Inr (), t) \<Longrightarrow> batch_run body rs t fs u \<Longrightarrow> batch_run body (r # rs) s fs u"
| failed: "body r s = (Inl e, t) \<Longrightarrow> e \<noteq> Killed \<Longrightarrow> batch_run body rs t fs u \<Longrightarrow> batch_run body (r # rs) s (rec_id r # fs) u"

inductive_cases batch_run_ConsE: "batch_run body (r # rs) s fs u"

lemma run_batch_iff: "run_batch body rs s = (Inr fs, u) \<longleftrightarrow> batch_run body rs s fs u"
proof (induction rs arbitrary: s fs)
  case Nil
  show ?case by (auto simp: ret_apply intro: batch_run.none elim: batch_run.cases)
next
  case (Cons r rs)
  obtain x t where rt: "body r s = (x, t)" by fastforce
  show ?case
  proof (cases x)
    case (Inr a)
    then have "run_batch body (r # rs) s = run_batch body rs t"
      using rt by (simp add: bnd_def try_except_def ret_apply split: prod.splits sum.splits)
    with Cons.IH rt Inr show ?thesis by (auto intro: batch_run.succeeded elim!: batch_run_ConsE)
  next
    case (Inl e)
    show ?thesis
    proof (cases "e = Killed")
      case True
      with rt Inl show ?thesis
        by (auto simp: bnd_def try_except_def except_exception_def elim!: batch_run_ConsE)
    next
      case False
      then have "run_batch body (r # rs) s = bnd (run_batch body rs) (\<lambda>fs. ret (rec_id r # fs)) t"
        using rt Inl
        by (simp add: bnd_def try_except_def except_exception_def ret_apply split: prod.splits sum.splits)
      then have "run_batch body (r # rs) s = (Inr fs, u) \<longleftrightarrow> (\<exists>gs. fs = rec_id r # gs \<and> run_batch body rs t = (Inr gs, u))"
        by (auto simp: bnd_def ret_apply split: prod.splits sum.splits)
      with Cons.IH rt Inl False show ?thesis by (auto intro: batch_run.failed elim!: batch_run_ConsE)
    qed
  qed
qed

end
