(* ===== verification/Json_Text.thy ===== *)
theory Json_Text
  imports A2A_Types
begin

text \<open>
  JSON texts: \<open>json.dumps\<close> (compact, and indented by two) and \<open>json.loads\<close>, as the program uses
  them, for strings of characters below 256. A number with a fraction or an exponent and an escape
  above that range are outside the model: \<open>json_loads\<close> refuses them like a syntax error. The reader takes fuel; the
  length of the text is enough for it, and reading what \<open>json.dumps\<close> has written gives the value back.
\<close>

section \<open>Writing JSON\<close>

fun hex_digit :: "nat \<Rightarrow> char" where
  "hex_digit n = (if n < 10 then char_of (48 + n) else char_of (87 + n))"

text \<open>The default \<open>ensure_ascii\<close> escapes everything outside the printable ASCII characters.\<close>

definition json_char :: "char \<Rightarrow> string" where
  "json_char c = (let n = (of_char c :: nat) in
     if n = 34 then [CHR 0x5C, CHR 0x22]
     else if n = 92 then [CHR 0x5C, CHR 0x5C]
     else if n = 8 then [CHR 0x5C, CHR ''b'']
     else if n = 9 then [CHR 0x5C, CHR ''t'']
     else if n = 10 then [CHR 0x5C, CHR ''n'']
     else if n = 12 then [CHR 0x5C, CHR ''f'']
     else if n = 13 then [CHR 0x5C, CHR ''r'']
     else if n < 32 \<or> 126 < n then [CHR 0x5C] @ ''u00'' @ [hex_digit (n div 16), hex_digit (n mod 16)]
     else [c])"

definition json_quote :: "string \<Rightarrow> string" where
  "json_quote s = [CHR 0x22] @ concat (map json_char s) @ [CHR 0x22]"

fun show_nat :: "nat \<Rightarrow> string" where
  "show_nat n = (if n < 10 then [char_of (48 + n)] else show_nat (n div 10) @ [char_of (48 + n mod 10)])"

declare show_nat.simps [simp del]

definition show_int :: "int \<Rightarrow> string" where
  "show_int n = (if n < 0 then ''-'' @ show_nat (nat (- n)) else show_nat (nat n))"

text \<open>\<open>separators=(",", ":")\<close>\<close>

fun dumps_compact :: "json \<Rightarrow> string" and dumps_items :: "json list \<Rightarrow> string"
  and dumps_fields :: "(string \<times> json) list \<Rightarrow> string" where
  "dumps_compact JNull = ''null''"
| "dumps_compact (JBool b) = (if b then ''true'' else ''false'')"
| "dumps_compact (JNum n) = show_int n"
| "dumps_compact (JStr s) = json_quote s"
| "dumps_compact (JArr xs) = ''['' @ dumps_items xs @ '']''"
| "dumps_compact (JObj kvs) = ''{'' @ dumps_fields kvs @ ''}''"
| "dumps_items [] = []"
| "dumps_items (x # xs) = dumps_compact x @ (if xs = [] then [] else '','' @ dumps_items xs)"
| "dumps_fields [] = []"
| "dumps_fields ((k, v) # kvs) = json_quote k @ '':'' @ dumps_compact v
     @ (if kvs = [] then [] else '','' @ dumps_fields kvs)"

text \<open>\<open>indent=2\<close>, at a depth of spaces.\<close>

definition newline :: "nat \<Rightarrow> string" where
  "newline d = [CHR 0x0A] @ replicate d (CHR '' '')"

fun dumps_indented :: "nat \<Rightarrow> json \<Rightarrow> string" and indented_items :: "nat \<Rightarrow> json list \<Rightarrow> string"
  and indented_fields :: "nat \<Rightarrow> (string \<times> json) list \<Rightarrow> string" where
  "dumps_indented d JNull = ''null''"
| "dumps_indented d (JBool b) = (if b then ''true'' else ''false'')"
| "dumps_indented d (JNum n) = show_int n"
| "dumps_indented d (JStr s) = json_quote s"
| "dumps_indented d (JArr xs) =
     (if xs = [] then ''[]'' else ''['' @ newline (d + 2) @ indented_items (d + 2) xs @ newline d @ '']'')"
| "dumps_indented d (JObj kvs) =
     (if kvs = [] then ''{}'' else ''{'' @ newline (d + 2) @ indented_fields (d + 2) kvs @ newline d @ ''}'')"
| "indented_items d [] = []"
| "indented_items d (x # xs) = dumps_indented d x @ (if xs = [] then [] else '','' @ newline d @ indented_items d xs)"
| "indented_fields d [] = []"
| "indented_fields d ((k, v) # kvs) = json_quote k @ '': '' @ dumps_indented d v
     @ (if kvs = [] then [] else '','' @ newline d @ indented_fields d kvs)"

section \<open>Reading JSON\<close>

definition skip_ws :: "string \<Rightarrow> string" where
  "skip_ws = dropWhile (\<lambda>c. c \<in> {CHR '' '', CHR 0x09, CHR 0x0A, CHR 0x0D})"

definition hex_value :: "char \<Rightarrow> nat option" where
  "hex_value c = (let n = (of_char c :: nat) in
     if 48 \<le> n \<and> n \<le> 57 then Some (n - 48)
     else if 97 \<le> n \<and> n \<le> 102 then Some (n - 87)
     else if 65 \<le> n \<and> n \<le> 70 then Some (n - 55)
     else None)"

definition unicode_escape :: "string \<Rightarrow> char option" where
  "unicode_escape ds = (case map hex_value ds of
     [Some a, Some b, Some c, Some d] \<Rightarrow> if a = 0 \<and> b = 0 then Some (char_of (16 * c + d)) else None
   | _ \<Rightarrow> None)"

definition simple_escape :: "char \<Rightarrow> char option" where
  "simple_escape c = map_of [(CHR 0x22, CHR 0x22), (CHR 0x5C, CHR 0x5C), (CHR ''/'', CHR ''/''),
     (CHR ''b'', CHR 0x08), (CHR ''f'', CHR 0x0C), (CHR ''n'', CHR 0x0A), (CHR ''r'', CHR 0x0D),
     (CHR ''t'', CHR 0x09)] c"

text \<open>The rest of a string after its opening quote; control characters are refused.\<close>

fun parse_chars :: "string \<Rightarrow> (string \<times> string) option" where
  "parse_chars [] = None"
| "parse_chars (c # cs) =
     (if c = CHR 0x22 then Some ([], cs)
      else if c = CHR 0x5C then
        (case cs of
           [] \<Rightarrow> None
         | e # ds \<Rightarrow>
             if e = CHR ''u'' then
               (case unicode_escape (take 4 ds) of
                  None \<Rightarrow> None
                | Some x \<Rightarrow> map_option (\<lambda>(s, r). (x # s, r)) (parse_chars (drop 4 ds)))
             else (case simple_escape e of
                  None \<Rightarrow> None
                | Some x \<Rightarrow> map_option (\<lambda>(s, r). (x # s, r)) (parse_chars ds)))
      else if (of_char c :: nat) < 32 then None
      else map_option (\<lambda>(s, r). (c # s, r)) (parse_chars cs))"

definition is_digit :: "char \<Rightarrow> bool" where
  "is_digit c = (48 \<le> (of_char c :: nat) \<and> (of_char c :: nat) \<le> 57)"

definition digits_value :: "string \<Rightarrow> nat" where
  "digits_value ds = foldl (\<lambda>n c. 10 * n + (of_char c - 48)) 0 ds"

definition parse_nat :: "string \<Rightarrow> (nat \<times> string) option" where
  "parse_nat s = (case s of
     [] \<Rightarrow> None
   | c # cs \<Rightarrow>
       if \<not> is_digit c then None
       else let ds = (if c = CHR ''0'' then [c] else takeWhile is_digit s); r = drop (length ds) s in
         if r \<noteq> [] \<and> hd r \<in> {CHR ''.'', CHR ''e'', CHR ''E''} then None else Some (digits_value ds, r))"

definition parse_number :: "string \<Rightarrow> (json \<times> string) option" where
  "parse_number s = (case s of
     [] \<Rightarrow> None
   | c # cs \<Rightarrow>
       if c = CHR ''-'' then map_option (\<lambda>(n, r). (JNum (- int n), r)) (parse_nat cs)
       else map_option (\<lambda>(n, r). (JNum (int n), r)) (parse_nat s))"

text \<open>A value; \<open>mk\<close> builds an object from its pairs (\<open>object_pairs_hook\<close>). \<open>dict(pairs)\<close>: a repeated key keeps its place and takes the last value.\<close>

fun dict_set :: "'k \<Rightarrow> 'v \<Rightarrow> ('k \<times> 'v) list \<Rightarrow> ('k \<times> 'v) list" where
  "dict_set k v [] = [(k, v)]"
| "dict_set k v ((k', v') # kvs) = (if k' = k then (k, v) # kvs else (k', v') # dict_set k v kvs)"

definition py_dict :: "('k \<times> 'v) list \<Rightarrow> ('k \<times> 'v) list" where
  "py_dict pairs = foldl (\<lambda>d (k, v). dict_set k v d) [] pairs"

fun parse_value :: "((string \<times> json) list \<Rightarrow> json) \<Rightarrow> nat \<Rightarrow> string \<Rightarrow> (json \<times> string) option"
  and parse_items :: "((string \<times> json) list \<Rightarrow> json) \<Rightarrow> nat \<Rightarrow> string \<Rightarrow> (json list \<times> string) option"
  and parse_fields :: "((string \<times> json) list \<Rightarrow> json) \<Rightarrow> nat \<Rightarrow> string \<Rightarrow> ((string \<times> json) list \<times> string) option" where
  "parse_value mk 0 s = None"
| "parse_value mk (Suc n) s = (case s of
     [] \<Rightarrow> None
   | c # cs \<Rightarrow>
       if c = CHR 0x22 then map_option (\<lambda>(t, r). (JStr t, r)) (parse_chars cs)
       else if c = CHR ''{'' then
         (case skip_ws cs of
            [] \<Rightarrow> None
          | d # ds \<Rightarrow> if d = CHR ''}'' then Some (mk [], ds)
                      else map_option (\<lambda>(kvs, r). (mk kvs, r)) (parse_fields mk n (d # ds)))
       else if c = CHR ''['' then
         (case skip_ws cs of
            [] \<Rightarrow> None
          | d # ds \<Rightarrow> if d = CHR '']'' then Some (JArr [], ds)
                      else map_option (\<lambda>(xs, r). (JArr xs, r)) (parse_items mk n (d # ds)))
       else if starts_with ''null'' s then Some (JNull, drop 4 s)
       else if starts_with ''true'' s then Some (JBool True, drop 4 s)
       else if starts_with ''false'' s then Some (JBool False, drop 5 s)
       else parse_number s)"
| "parse_items mk 0 s = None"
| "parse_items mk (Suc n) s = (case parse_value mk n s of
     None \<Rightarrow> None
   | Some (x, r) \<Rightarrow> (case skip_ws r of
       [] \<Rightarrow> None
     | c # cs \<Rightarrow> if c = CHR '']'' then Some ([x], cs)
                 else if c = CHR '','' then map_option (\<lambda>(xs, r'). (x # xs, r')) (parse_items mk n (skip_ws cs))
                 else None))"
| "parse_fields mk 0 s = None"
| "parse_fields mk (Suc n) s = (case s of
     [] \<Rightarrow> None
   | q # ks \<Rightarrow>
       if q \<noteq> CHR 0x22 then None
       else (case parse_chars ks of
         None \<Rightarrow> None
       | Some (k, r) \<Rightarrow> (case skip_ws r of
           [] \<Rightarrow> None
         | d # ds \<Rightarrow>
             if d \<noteq> CHR '':'' then None
             else (case parse_value mk n (skip_ws ds) of
               None \<Rightarrow> None
             | Some (v, r') \<Rightarrow> (case skip_ws r' of
                 [] \<Rightarrow> None
               | c # cs \<Rightarrow>
                   if c = CHR ''}'' then Some ([(k, v)], cs)
                   else if c = CHR '','' then map_option (\<lambda>(kvs, z). ((k, v) # kvs, z)) (parse_fields mk n (skip_ws cs))
                   else None)))))"

definition json_loads :: "string \<Rightarrow> error + json" where
  "json_loads s = (case parse_value (\<lambda>kvs. JObj (py_dict kvs)) (Suc (length s)) (skip_ws s) of
     Some (j, r) \<Rightarrow> if skip_ws r = [] then Inr j else Inl (ValueError ''Extra data'')
   | None \<Rightarrow> Inl (ValueError ''Expecting value''))"

section \<open>Reading what was written\<close>

lemma hex_value_digit: "n < 16 \<Longrightarrow> hex_value (hex_digit n) = Some n"
  by (auto simp: hex_value_def Let_def)

lemma parse_escaped:
  "parse_chars (CHR 0x5C # CHR ''u'' # a # b # c # d # s) =
     (case unicode_escape [a, b, c, d] of None \<Rightarrow> None | Some x \<Rightarrow> map_option (\<lambda>(t, r). (x # t, r)) (parse_chars s))"
  by (simp split: option.split)

lemma unicode_escape_char:
  "unicode_escape [CHR ''0'', CHR ''0'', hex_digit (of_char c div 16), hex_digit (of_char c mod 16)] = Some c"
proof -
  have "(of_char c :: nat) < 256" by simp
  then have "(of_char c :: nat) div 16 < 16" by (simp add: less_mult_imp_div_less)
  moreover have "hex_value (CHR ''0'') = Some 0" by (simp add: hex_value_def)
  ultimately show ?thesis by (simp add: unicode_escape_def hex_value_digit del: hex_digit.simps)
qed

lemma escaped_codes:
  "of_char c = (34 :: nat) \<Longrightarrow> c = CHR 0x22" "of_char c = (92 :: nat) \<Longrightarrow> c = CHR 0x5C"
  "of_char c = (8 :: nat) \<Longrightarrow> c = CHR 0x08" "of_char c = (9 :: nat) \<Longrightarrow> c = CHR 0x09"
  "of_char c = (10 :: nat) \<Longrightarrow> c = CHR 0x0A" "of_char c = (12 :: nat) \<Longrightarrow> c = CHR 0x0C"
  "of_char c = (13 :: nat) \<Longrightarrow> c = CHR 0x0D"
  using of_char_eq_iff [of c, where ?'a = nat] by fastforce+

lemma parse_char: "parse_chars (json_char c @ s) = map_option (\<lambda>(t, r). (c # t, r)) (parse_chars s)"
proof -
  let ?n = "of_char c :: nat"
  have c: "c = char_of ?n" by simp
  consider "?n \<in> {34, 92, 8, 9, 10, 12, 13}" | "?n \<notin> {34, 92, 8, 9, 10, 12, 13}" "?n < 32 \<or> 126 < ?n"
    | "?n \<notin> {34, 92}" "32 \<le> ?n" "?n \<le> 126" by force
  then show ?thesis
  proof cases
    case 1
    then have "c \<in> {CHR 0x22, CHR 0x5C, CHR 0x08, CHR 0x09, CHR 0x0A, CHR 0x0C, CHR 0x0D}"
      using escaped_codes [of c] by blast
    then show ?thesis by (auto simp: json_char_def simple_escape_def)
  next
    case 2
    then have "json_char c = [CHR 0x5C, CHR ''u'', CHR ''0'', CHR ''0'', hex_digit (?n div 16), hex_digit (?n mod 16)]"
      by (simp add: json_char_def Let_def)
    then show ?thesis by (simp add: parse_escaped unicode_escape_char del: parse_chars.simps hex_digit.simps)
  next
    case 3
    then have "c \<noteq> CHR 0x22" "c \<noteq> CHR 0x5C" by auto
    with 3 show ?thesis by (simp add: json_char_def Let_def)
  qed
qed

lemma parse_quoted: "parse_chars (concat (map json_char t) @ CHR 0x22 # s) = Some (t, s)"
  by (induction t) (simp_all add: parse_char)

lemma show_nat_digits: "list_all is_digit (show_nat n) \<and> show_nat n \<noteq> []"
proof (induction n rule: show_nat.induct)
  case (1 n)
  have "is_digit (char_of (48 + m))" if "m < 10" for m :: nat
    using that by (simp add: is_digit_def)
  with 1 show ?case by (simp add: show_nat.simps [of n])
qed

lemma show_nat_value: "digits_value (show_nat n) = n"
proof (induction n rule: show_nat.induct)
  case (1 n)
  then show ?case by (simp add: show_nat.simps [of n] digits_value_def)
qed

lemma show_nat_zero: "n \<noteq> 0 \<Longrightarrow> hd (show_nat n) \<noteq> CHR ''0''"
proof (induction n rule: show_nat.induct)
  case (1 n)
  have "char_of (48 + n) \<noteq> (CHR ''0'' :: char)" if "n < 10" "n \<noteq> 0"
  proof -
    have "of_char (char_of (48 + n) :: char) = 48 + n" using that by simp
    then show ?thesis using that by fastforce
  qed
  with 1 show_nat_digits [of "n div 10"] show ?case by (simp add: show_nat.simps [of n])
qed

text \<open>What may follow a value in a text.\<close>

definition ends_value :: "string \<Rightarrow> bool" where
  "ends_value r = (r = [] \<or> hd r \<in> {CHR '','', CHR '']'', CHR ''}''})"

lemma ends_value_digit: "ends_value r \<Longrightarrow> takeWhile is_digit r = []"
  by (cases r) (auto simp: ends_value_def is_digit_def)

lemma parse_show_nat:
  assumes "ends_value r"
  shows "parse_nat (show_nat n @ r) = Some (n, r)"
proof -
  obtain c cs where s: "show_nat n = c # cs" using show_nat_digits [of n] by (cases "show_nat n") auto
  have d: "is_digit c" "list_all is_digit cs" using show_nat_digits [of n] s by auto
  have all: "takeWhile is_digit (c # cs @ r) = c # cs" using d ends_value_digit [OF assms]
    by (simp add: takeWhile_append2 list_all_iff)
  have zero: "c = CHR ''0'' \<Longrightarrow> cs = []"
  proof -
    assume "c = CHR ''0''"
    with show_nat_zero [of n] s have "n = 0" by auto
    with s show "cs = []" by (simp add: show_nat.simps [of 0])
  qed
  have r: "\<not> (r \<noteq> [] \<and> hd r \<in> {CHR ''.'', CHR ''e'', CHR ''E''})" using assms by (auto simp: ends_value_def)
  show ?thesis using d all zero r show_nat_value [of n] s by (cases "c = CHR ''0''") (auto simp: parse_nat_def Let_def)
qed

text \<open>A value as Python has it: the keys of every object are distinct.\<close>

fun proper_json :: "json \<Rightarrow> bool" and proper_items :: "json list \<Rightarrow> bool"
  and proper_fields :: "(string \<times> json) list \<Rightarrow> bool" where
  "proper_json (JArr xs) = proper_items xs"
| "proper_json (JObj kvs) = (distinct (map fst kvs) \<and> proper_fields kvs)"
| "proper_json _ = True"
| "proper_items [] = True"
| "proper_items (x # xs) = (proper_json x \<and> proper_items xs)"
| "proper_fields [] = True"
| "proper_fields ((k, v) # kvs) = (proper_json v \<and> proper_fields kvs)"

lemma dict_set_fresh: "k \<notin> fst ` set kvs \<Longrightarrow> dict_set k v kvs = kvs @ [(k, v)]"
  by (induction kvs) auto

lemma py_dict_distinct: "distinct (map fst kvs) \<Longrightarrow> py_dict kvs = kvs"
  by (induction kvs rule: rev_induct) (auto simp: py_dict_def dict_set_fresh)

lemma skip_ws_start [simp]:
  "skip_ws (CHR '','' # r) = CHR '','' # r" "skip_ws (CHR '']'' # r) = CHR '']'' # r"
  "skip_ws (CHR ''}'' # r) = CHR ''}'' # r" "skip_ws (CHR '':'' # r) = CHR '':'' # r"
  "skip_ws (CHR 0x22 # r) = CHR 0x22 # r" "skip_ws [] = []"
  by (simp_all add: skip_ws_def)

lemma show_nat_start: obtains c cs where "show_nat n = c # cs" "is_digit c"
  using show_nat_digits [of n] that by (cases "show_nat n") auto

lemma dumps_start:
  obtains c cs where "dumps_compact j = c # cs" "c \<noteq> CHR '']''" "c \<noteq> CHR ''}''" "\<And>t. skip_ws (c # t) = c # t"
proof (cases j)
  case (JNum n)
  obtain c cs where s: "show_nat (nat n) = c # cs" and d: "is_digit c" by (rule show_nat_start)
  from d have "c \<noteq> CHR '']''" "c \<noteq> CHR ''}''" "\<And>t. skip_ws (c # t) = c # t"
    by (auto simp: is_digit_def skip_ws_def)
  with s JNum that show thesis
    by (cases "n < 0") (auto simp: show_int_def skip_ws_def)
next
  case (JBool b)
  with that show thesis by (cases b) (auto simp: skip_ws_def)
qed (use that in \<open>auto simp: json_quote_def skip_ws_def\<close>)

lemma dumps_items_start:
  assumes "xs \<noteq> []"
  obtains c cs where "dumps_items xs = c # cs" "c \<noteq> CHR '']''" "\<And>t. skip_ws (c # t) = c # t"
proof (cases xs)
  case (Cons x ys)
  then show thesis by (cases rule: dumps_start [of x]) (auto intro: that)
qed (use assms in simp)

lemma parse_number_dumps:
  assumes "ends_value r"
  shows "parse_number (show_int n @ r) = Some (JNum n, r)"
proof (cases "n < 0")
  case True
  then show ?thesis by (simp add: show_int_def parse_number_def parse_show_nat [OF assms])
next
  case False
  obtain c cs where s: "show_nat (nat n) = c # cs" "is_digit c" by (rule show_nat_start)
  from s(2) have "c \<noteq> CHR ''-''" by (auto simp: is_digit_def)
  with False s(1) parse_show_nat [OF assms, of "nat n"] show ?thesis by (simp add: show_int_def parse_number_def)
qed

lemma parse_value_number:
  assumes "ends_value r" "0 < m"
  shows "parse_value mk m (show_int n @ r) = Some (JNum n, r)"
proof -
  obtain k where m: "m = Suc k" using assms(2) by (cases m) auto
  obtain c cs where s: "show_int n = c # cs" "is_digit c \<or> c = CHR ''-''"
    by (rule show_nat_start [of "nat n"], cases "n < 0") (auto simp: show_int_def)
  have "c \<noteq> CHR 0x22" "c \<noteq> CHR ''{''" "c \<noteq> CHR ''[''" "c \<noteq> CHR ''n''" "c \<noteq> CHR ''t''" "c \<noteq> CHR ''f''"
    using s(2) by (auto simp: is_digit_def)
  then show ?thesis using parse_number_dumps [OF assms(1), of n] by (simp add: m s(1) starts_with_def)
qed

lemma parse_literal:
  "parse_value mk (Suc n) (''null'' @ r) = Some (JNull, r)" "parse_value mk (Suc n) (''true'' @ r) = Some (JBool True, r)"
  "parse_value mk (Suc n) (''false'' @ r) = Some (JBool False, r)"
  by (simp_all add: starts_with_def)

lemma ends_value_simps [simp]:
  "ends_value (CHR '','' # r)" "ends_value (CHR '']'' # r)" "ends_value (CHR ''}'' # r)" "ends_value []"
  by (simp_all add: ends_value_def)

lemma parse_dumps:
  assumes mk: "\<And>kvs. distinct (map fst kvs) \<Longrightarrow> mk kvs = JObj kvs"
  shows "proper_json j \<Longrightarrow> ends_value r \<Longrightarrow> length (dumps_compact j) < n \<Longrightarrow> parse_value mk n (dumps_compact j @ r) = Some (j, r)"
  "proper_items xs \<Longrightarrow> xs \<noteq> [] \<Longrightarrow> Suc (length (dumps_items xs)) < n \<Longrightarrow>
     parse_items mk n (dumps_items xs @ CHR '']'' # r) = Some (xs, r)"
  "proper_fields kvs \<Longrightarrow> kvs \<noteq> [] \<Longrightarrow> Suc (length (dumps_fields kvs)) < n \<Longrightarrow>
     parse_fields mk n (dumps_fields kvs @ CHR ''}'' # r) = Some (kvs, r)"
proof (induction j and xs and kvs arbitrary: n r and n r and n r rule: dumps_compact_dumps_items_dumps_fields.induct)
  case 1
  then show ?case using parse_literal(1) [of mk "n - 1" r] by (cases n) auto
next
  case (2 b)
  then show ?case using parse_literal(2,3) [of mk "n - 1" r] by (cases n; cases b) auto
next
  case (3 m)
  then show ?case by (simp add: parse_value_number)
next
  case (4 s)
  then show ?case by (cases n) (simp_all add: json_quote_def parse_quoted)
next
  case (5 xs)
  then obtain k where n: "n = Suc k" "Suc (length (dumps_items xs)) < k" by (cases n) auto
  show ?case
  proof (cases "xs = []")
    case True
    then show ?thesis using n by simp
  next
    case False
    from False obtain c cs where c: "dumps_items xs = c # cs" "c \<noteq> CHR '']''" "\<And>t. skip_ws (c # t) = c # t"
      by (rule dumps_items_start) blast
    have "parse_items mk k (dumps_items xs @ CHR '']'' # r) = Some (xs, r)"
      using 5 False n by simp
    with c n show ?thesis by simp
  qed
next
  case (6 kvs)
  then obtain k where n: "n = Suc k" "Suc (length (dumps_fields kvs)) < k" by (cases n) auto
  show ?case
  proof (cases kvs)
    case Nil
    then show ?thesis using n mk [of "[]"] by simp
  next
    case (Cons kv rest)
    have "parse_fields mk k (dumps_fields kvs @ CHR ''}'' # r) = Some (kvs, r)"
      using 6 Cons n by simp
    moreover obtain cs where "dumps_fields kvs = CHR 0x22 # cs"
      using Cons by (cases kv) (auto simp: json_quote_def)
    ultimately show ?thesis using n 6(2) by (simp add: mk)
  qed
next
  case 7
  then show ?case by simp
next
  case (8 x xs)
  then obtain k where n: "n = Suc k" by (cases n) auto
  show ?case
  proof (cases "xs = []")
    case True
    have "parse_value mk k (dumps_compact x @ CHR '']'' # r) = Some (x, CHR '']'' # r)"
      using 8 n True by simp
    with True n show ?thesis by simp
  next
    case False
    have x: "parse_value mk k (dumps_compact x @ CHR '','' # dumps_items xs @ CHR '']'' # r)
        = Some (x, CHR '','' # dumps_items xs @ CHR '']'' # r)"
      using 8 n False by simp
    from False obtain c cs where c: "dumps_items xs = c # cs" "\<And>t. skip_ws (c # t) = c # t"
      by (rule dumps_items_start) blast
    have "parse_items mk k (dumps_items xs @ CHR '']'' # r) = Some (xs, r)"
      using 8 n False by simp
    with x c False n show ?thesis by simp
  qed
next
  case 9
  then show ?case by simp
next
  case (10 k v kvs)
  then obtain m where n: "n = Suc m" by (cases n) auto
  let ?tail = "if kvs = [] then CHR ''}'' # r else CHR '','' # dumps_fields kvs @ CHR ''}'' # r"
  have v: "parse_value mk m (dumps_compact v @ ?tail) = Some (v, ?tail)"
    using 10 n by simp
  obtain c cs where c: "dumps_compact v = c # cs" "\<And>t. skip_ws (c # t) = c # t"
    by (rule dumps_start) blast
  have rest: "kvs \<noteq> [] \<Longrightarrow> parse_fields mk m (dumps_fields kvs @ CHR ''}'' # r) = Some (kvs, r)"
    using 10 n by (simp add: json_quote_def)
  have start: "kvs \<noteq> [] \<Longrightarrow> \<exists>ds. dumps_fields kvs = CHR 0x22 # ds"
    by (cases kvs) (auto simp: json_quote_def)
  show ?case
    using v c rest start n by (cases "kvs = []") (auto simp: json_quote_def parse_quoted)
qed

lemma loads_dumps:
  assumes "proper_json j"
  shows "json_loads (dumps_compact j) = Inr j"
proof -
  obtain c cs where c: "dumps_compact j = c # cs" "\<And>t. skip_ws (c # t) = c # t" by (rule dumps_start) blast
  with parse_dumps(1) [OF _ assms, of "\<lambda>kvs. JObj (py_dict kvs)" "[]" "Suc (length (dumps_compact j))"] show ?thesis
    by (simp add: json_loads_def py_dict_distinct)
qed

end
