(* ===== verification/Py_Json.thy ===== *)
theory Py_Json
  imports Json_Text
begin

text \<open>
  Python on decoded JSON: \<open>dict.get\<close>, truth values, membership in a set of strings (which fails
  for a value that cannot be hashed), indexing, \<open>str.lower\<close>, and the validation of a string field by
  pydantic. \<open>None\<close> is \<open>JNull\<close>. Code that may raise without touching any state is a sum.
\<close>

definition bind_sum :: "error + 'a \<Rightarrow> ('a \<Rightarrow> error + 'b) \<Rightarrow> error + 'b" where
  "bind_sum m f = (case m of Inl e \<Rightarrow> Inl e | Inr x \<Rightarrow> f x)"

lemma bind_sum_simps [simp]: "bind_sum (Inl e) f = Inl e" "bind_sum (Inr x) f = f x"
  by (simp_all add: bind_sum_def)

lemma bind_sum_Inr: "bind_sum m f = Inr y \<longleftrightarrow> (\<exists>x. m = Inr x \<and> f x = Inr y)"
  by (cases m) simp_all

definition py_true :: "json \<Rightarrow> bool" where
  "py_true v = (\<not> json_falsy (Some v))"

text \<open>\<open>a or b\<close>\<close>

definition py_or :: "json \<Rightarrow> json \<Rightarrow> json" where
  "py_or a b = (if py_true a then a else b)"

definition dict_get :: "(string \<times> json) list \<Rightarrow> string \<Rightarrow> json" where
  "dict_get kvs k = (case map_of kvs k of None \<Rightarrow> JNull | Some v \<Rightarrow> v)"

definition as_dict :: "json \<Rightarrow> error + (string \<times> json) list" where
  "as_dict v = (case v of JObj kvs \<Rightarrow> Inr kvs | _ \<Rightarrow> Inl (AttributeError ''get''))"

definition is_str :: "json \<Rightarrow> bool" where
  "is_str v = (case v of JStr s \<Rightarrow> True | _ \<Rightarrow> False)"

definition in_strings :: "json \<Rightarrow> string list \<Rightarrow> error + bool" where
  "in_strings v names = (case v of
     JStr s \<Rightarrow> Inr (s \<in> set names)
   | JArr xs \<Rightarrow> Inl (TypeError ''unhashable'')
   | JObj kvs \<Rightarrow> Inl (TypeError ''unhashable'')
   | _ \<Rightarrow> Inr False)"

text \<open>\<open>v[0]\<close>\<close>

definition first_item :: "json \<Rightarrow> error + json" where
  "first_item v = (case v of
     JArr (x # xs) \<Rightarrow> Inr x
   | JArr [] \<Rightarrow> Inl (KeyError ''index'')
   | JStr (c # cs) \<Rightarrow> Inr (JStr [c])
   | JStr [] \<Rightarrow> Inl (KeyError ''index'')
   | JObj kvs \<Rightarrow> Inl (KeyError ''0'')
   | _ \<Rightarrow> Inl (TypeError ''not subscriptable''))"

text \<open>A \<open>str\<close> field of at least \<open>lo\<close> characters, and an optional one.\<close>

definition str_field :: "nat \<Rightarrow> json \<Rightarrow> error + string" where
  "str_field lo v = (case v of
     JStr s \<Rightarrow> if lo \<le> length s then Inr s else Inl (ValueError ''string_too_short'')
   | _ \<Rightarrow> Inl (ValueError ''string_type''))"

definition opt_str_field :: "json \<Rightarrow> error + string option" where
  "opt_str_field v = (case v of JNull \<Rightarrow> Inr None | JStr s \<Rightarrow> Inr (Some s) | _ \<Rightarrow> Inl (ValueError ''string_type''))"

lemma str_field_Inr: "str_field lo v = Inr s \<longleftrightarrow> v = JStr s \<and> lo \<le> length s"
  by (auto simp: str_field_def split: json.splits)

lemma opt_str_field_Inr: "opt_str_field v = Inr s \<longleftrightarrow> (v = JNull \<and> s = None) \<or> (\<exists>t. v = JStr t \<and> s = Some t)"
  by (auto simp: opt_str_field_def split: json.splits)

section \<open>Strings\<close>

text \<open>\<open>str.lower()\<close> for characters below 256.\<close>

definition lower_char :: "char \<Rightarrow> char" where
  "lower_char c = (let n = (of_char c :: nat) in
     if (65 \<le> n \<and> n \<le> 90) \<or> (192 \<le> n \<and> n \<le> 222 \<and> n \<noteq> 215) then char_of (n + 32) else c)"

definition py_lower :: "string \<Rightarrow> string" where
  "py_lower = map lower_char"

text \<open>\<open>p in s\<close>\<close>

fun contains :: "string \<Rightarrow> string \<Rightarrow> bool" where
  "contains p [] = (p = [])"
| "contains p (c # cs) = (starts_with p (c # cs) \<or> contains p cs)"

definition ascii_alnum :: "char \<Rightarrow> bool" where
  "ascii_alnum c = (let n = (of_char c :: nat) in
     (48 \<le> n \<and> n \<le> 57) \<or> (65 \<le> n \<and> n \<le> 90) \<or> (97 \<le> n \<and> n \<le> 122))"

lemma of_lower_char:
  "(of_char (lower_char c) :: nat) = (let n = of_char c in
     if (65 \<le> n \<and> n \<le> 90) \<or> (192 \<le> n \<and> n \<le> 222 \<and> n \<noteq> 215) then n + 32 else n)"
  by (auto simp: lower_char_def Let_def)

lemma lower_char_idem [simp]: "lower_char (lower_char c) = lower_char c"
proof -
  have "(of_char (lower_char (lower_char c)) :: nat) = of_char (lower_char c)"
    by (auto simp: of_lower_char Let_def)
  then show ?thesis by (simp only: of_char_eq_iff)
qed

lemma py_lower_idem [simp]: "py_lower (py_lower s) = py_lower s"
  by (simp add: py_lower_def comp_def)

end
