(* ===== verification/Url.thy ===== *)
theory Url
  imports Py_Json
begin

text \<open>
  URLs: \<open>urllib.parse.urlsplit\<close> with the attributes of its result, for characters below 256, and the
  canonical form of a push callback, \<open>normalized_url\<close> of \<^verbatim>\<open>cma_controller/push_config.py\<close>. Whether a
  text between brackets is an IPv6 or IPvFuture address is a parameter.
\<close>

section \<open>Splitting\<close>

text \<open>\<open>s.partition(c)\<close> and \<open>s.rpartition(c)\<close>: the part front, whether \<open>c\<close> occurs, and the part after.\<close>

definition partition_at :: "char \<Rightarrow> string \<Rightarrow> string \<times> bool \<times> string" where
  "partition_at c s = (takeWhile (\<lambda>x. x \<noteq> c) s, c \<in> set s, tl (dropWhile (\<lambda>x. x \<noteq> c) s))"

definition rpartition_at :: "char \<Rightarrow> string \<Rightarrow> string \<times> bool \<times> string" where
  "rpartition_at c s = (rev (tl (dropWhile (\<lambda>x. x \<noteq> c) (rev s))), c \<in> set s, rev (takeWhile (\<lambda>x. x \<noteq> c) (rev s)))"

record split_url =
  u_scheme :: string
  u_netloc :: string
  u_path :: string
  u_query :: string
  u_fragment :: string

definition ascii_alpha :: "char \<Rightarrow> bool" where
  "ascii_alpha c = (let n = (of_char c :: nat) in (65 \<le> n \<and> n \<le> 90) \<or> (97 \<le> n \<and> n \<le> 122))"

definition scheme_char :: "char \<Rightarrow> bool" where
  "scheme_char c = (ascii_alnum c \<or> c \<in> {CHR ''+'', CHR ''-'', CHR ''.''})"

text \<open>Leading control characters and spaces go, and every tab and line break.\<close>

definition clean_url :: "string \<Rightarrow> string" where
  "clean_url u = filter (\<lambda>c. c \<notin> {CHR 0x09, CHR 0x0A, CHR 0x0D}) (dropWhile (\<lambda>c. (of_char c :: nat) \<le> 32) u)"

definition split_scheme :: "string \<Rightarrow> string \<times> string" where
  "split_scheme u = (case partition_at (CHR '':'') u of (front, found, after) \<Rightarrow>
     if found \<and> front \<noteq> [] \<and> ascii_alpha (hd front) \<and> list_all scheme_char front then (py_lower front, after) else ([], u))"

definition host_info :: "string \<Rightarrow> string \<times> string option" where
  "host_info netloc = (case rpartition_at (CHR ''@'') netloc of (_, _, info) \<Rightarrow>
     (case partition_at (CHR ''['') info of (_, bracket, bracketed) \<Rightarrow>
       if bracket
       then (case partition_at (CHR '']'') bracketed of (host, _, rest) \<Rightarrow>
              (case partition_at (CHR '':'') rest of (_, _, port) \<Rightarrow> (host, if port = [] then None else Some port)))
       else (case partition_at (CHR '':'') info of (host, _, port) \<Rightarrow> (host, if port = [] then None else Some port))))"

definition bracketed_netloc_ok :: "(string \<Rightarrow> bool) \<Rightarrow> string \<Rightarrow> bool" where
  "bracketed_netloc_ok ip_ok netloc = (case rpartition_at (CHR ''@'') netloc of (_, _, info) \<Rightarrow>
     (case partition_at (CHR ''['') info of (front, bracket, bracketed) \<Rightarrow>
       if bracket
       then (case partition_at (CHR '']'') bracketed of (host, _, rest) \<Rightarrow>
              front = [] \<and> (rest = [] \<or> hd rest = CHR '':'') \<and> ip_ok host)
       else (case partition_at (CHR '':'') info of (host, _, _) \<Rightarrow> ip_ok host)))"

definition netloc_ok :: "(string \<Rightarrow> bool) \<Rightarrow> string \<Rightarrow> bool" where
  "netloc_ok ip_ok netloc =
     ((CHR ''['' \<in> set netloc) = (CHR '']'' \<in> set netloc)
      \<and> (CHR ''['' \<in> set netloc \<longrightarrow> bracketed_netloc_ok ip_ok netloc))"

definition urlsplit :: "(string \<Rightarrow> bool) \<Rightarrow> string \<Rightarrow> error + split_url" where
  "urlsplit ip_ok u = (case split_scheme (clean_url u) of (scheme, rest) \<Rightarrow>
     let stop = (\<lambda>c. c \<in> {CHR ''/'', CHR ''?'', CHR ''#''});
         has_netloc = starts_with ''//'' rest;
         netloc = (if has_netloc then takeWhile (\<lambda>c. \<not> stop c) (drop 2 rest) else []);
         url = (if has_netloc then dropWhile (\<lambda>c. \<not> stop c) (drop 2 rest) else rest) in
     if \<not> netloc_ok ip_ok netloc then Inl (ValueError ''Invalid IPv6 URL'')
     else (case partition_at (CHR ''#'') url of (front, _, fragment) \<Rightarrow>
       (case partition_at (CHR ''?'') front of (path, _, query) \<Rightarrow>
         Inr \<lparr>u_scheme = scheme, u_netloc = netloc, u_path = path, u_query = query, u_fragment = fragment\<rparr>)))"

section \<open>Attributes\<close>

text \<open>\<open>hostname\<close>: the zone of an IPv6 address keeps its case.\<close>

definition url_hostname :: "split_url \<Rightarrow> string option" where
  "url_hostname p = (case host_info (u_netloc p) of (host, _) \<Rightarrow>
     if host = [] then None
     else (case partition_at (CHR ''%'') host of (name, zoned, zone) \<Rightarrow>
       Some (py_lower name @ (if zoned then CHR ''%'' # zone else []))))"

text \<open>Whether \<open>username\<close> or \<open>password\<close> is a nonempty string.\<close>

definition has_credentials :: "split_url \<Rightarrow> bool" where
  "has_credentials p = (case rpartition_at (CHR ''@'') (u_netloc p) of (info, found, _) \<Rightarrow>
     found \<and> (case partition_at (CHR '':'') info of (user, _, password) \<Rightarrow> user \<noteq> [] \<or> password \<noteq> []))"

definition url_port :: "split_url \<Rightarrow> error + nat option" where
  "url_port p = (case host_info (u_netloc p) of (_, port) \<Rightarrow>
     (case port of
        None \<Rightarrow> Inr None
      | Some ds \<Rightarrow> if \<not> list_all is_digit ds then Inl (ValueError ''Port could not be cast to integer value'')
                   else if digits_value ds > 65535 then Inl (ValueError ''Port out of range 0-65535'')
                   else Inr (Some (digits_value ds))))"

section \<open>The canonical form\<close>

definition default_port :: "string \<Rightarrow> nat" where
  "default_port scheme = (if scheme = ''http'' then 80 else 443)"

definition invalid_callback :: error where
  "invalid_callback = InvalidParams ''Invalid push callback URL''"

definition canonical_host :: "string \<Rightarrow> string" where
  "canonical_host h = (if CHR '':'' \<in> set h then ''['' @ h @ '']'' else h)"

definition canonical_port :: "string \<Rightarrow> nat option \<Rightarrow> string" where
  "canonical_port scheme port = (case port of
     None \<Rightarrow> []
   | Some n \<Rightarrow> if n \<noteq> 0 \<and> n \<noteq> default_port scheme then CHR '':'' # show_nat n else [])"

definition normalized_url :: "(string \<Rightarrow> bool) \<Rightarrow> string \<Rightarrow> error + string" where
  "normalized_url ip_ok u = bind_sum (urlsplit ip_ok u) (\<lambda>p.
     if u_scheme p \<notin> {''http'', ''https''} \<or> url_hostname p = None \<or> has_credentials p
        \<or> u_fragment p \<noteq> [] \<or> u_query p \<noteq> [] \<or> \<not> starts_with ''/'' (u_path p)
     then Inl invalid_callback
     else (case url_port p of
        Inl e \<Rightarrow> Inl invalid_callback
      | Inr port \<Rightarrow> Inr (py_lower (u_scheme p) @ ''://'' @ canonical_host (py_lower (the (url_hostname p)))
            @ canonical_port (u_scheme p) port @ u_path p)))"

end
