(* ===== verification/Push_Config.thy ===== *)
theory Push_Config
  imports Controller_Service Push_Repository Url
begin

text \<open>
  \<^verbatim>\<open>cma_controller/push_config.py\<close> (class \<open>PushConfigService\<close>): which push callbacks a client may
  register. There is one allowed URL, compared in canonical form; everything else is refused, so that the
  controller never posts to an address of a client's choice.
\<close>

section \<open>The service\<close>

record push_config =
  pc_id :: string
  pc_task_id :: string
  pc_url :: string
  pc_token :: string
  pc_authenticated :: bool

text \<open>The allowed URL in its canonical form, as the constructor computes it; empty when none is configured.\<close>

definition allowed_callback :: "(string \<Rightarrow> bool) \<Rightarrow> bool \<Rightarrow> string \<Rightarrow> error + string" where
  "allowed_callback ip_ok production url =
     bind_sum (if url = [] then Inr [] else normalized_url ip_ok url) (\<lambda>u.
     if production \<and> starts_with ''http://'' u then Inl (ValueError ''Production push callback must use HTTPS'') else Inr u)"

definition wire_config :: "push_row \<Rightarrow> push_config" where
  "wire_config row = \<lparr>pc_id = p_config_id row, pc_task_id = p_task_id row, pc_url = p_url row, pc_token = [],
     pc_authenticated = False\<rparr>"

text \<open>\<open>[A-Za-z0-9][A-Za-z0-9._-]{0,127}\<close>\<close>

definition config_id_ok :: "string \<Rightarrow> bool" where
  "config_id_ok s = (s \<noteq> [] \<and> length s \<le> 128 \<and> ascii_alnum (hd s)
     \<and> list_all (\<lambda>c. ascii_alnum c \<or> c \<in> {CHR ''.'', CHR ''_'', CHR ''-''}) (tl s))"

definition config_error :: "(string \<Rightarrow> bool) \<Rightarrow> string \<Rightarrow> push_config \<Rightarrow> string \<Rightarrow> string \<Rightarrow> error option" where
  "config_error ip_ok allowed c tid cid =
     (if tid = [] \<or> (pc_task_id c \<noteq> [] \<and> pc_task_id c \<noteq> tid)
      then Some (InvalidParams ''Push taskId does not match the Task'')
      else if pc_token c \<noteq> [] \<or> pc_authenticated c
      then Some (InvalidParams ''Push token and authentication are unsupported'')
      else if allowed = [] then Some (InvalidParams ''Push callback URL is not allowed'')
      else case normalized_url ip_ok (pc_url c) of
        Inl e \<Rightarrow> Some e
      | Inr u \<Rightarrow>
          if u \<noteq> allowed then Some (InvalidParams ''Push callback URL is not allowed'')
          else if \<not> config_id_ok cid \<or> cid \<in> {''.'', ''..''} then Some (InvalidParams ''Invalid push configuration ID'')
          else None)"

text \<open>A failed enqueue is repaired by repeating the creation, which is idempotent.\<close>

definition register_config :: "'p env \<Rightarrow> string \<Rightarrow> string \<Rightarrow> string \<Rightarrow> (('p, 'l, 'o) service, push_config) comp" where
  "register_config E allowed tid cid =
     bnd (try_except (call (rt_of E) (push_create tid cid allowed)) (\<lambda>e. case e of
            KeyError _ \<Rightarrow> Some (raise_err TaskNotFound)
          | PushConfigConflict m \<Rightarrow> Some (raise_err (InvalidParams m))
          | _ \<Rightarrow> None)) (\<lambda>row.
     bnd (call (rt_of E) (reads (get_task tid))) (\<lambda>task.
     bnd (case task of
            None \<Rightarrow> raise_err AssertionError
          | Some t \<Rightarrow> call (rt_of E) (schedule_context (t_context_id t) ''push-config-created'' 0)) (\<lambda>_.
     ret (wire_config row))))"

definition push_config_create :: "'p env \<Rightarrow> (string \<Rightarrow> bool) \<Rightarrow> string \<Rightarrow> push_config \<Rightarrow> string
    \<Rightarrow> (('p, 'l, 'o) service, push_config) comp" where
  "push_config_create E ip_ok allowed c task_id =
     (let tid = (if task_id = [] then pc_task_id c else task_id);
          cid = (if pc_id c = [] then ''inline-'' @ take 24 (sha256_hex E allowed) else pc_id c) in
      case config_error ip_ok allowed c tid cid of
        Some e \<Rightarrow> raise_err e
      | None \<Rightarrow> register_config E allowed tid cid)"

definition push_config_get :: "'p env \<Rightarrow> string \<Rightarrow> string \<Rightarrow> (('p, 'l, 'o) service, push_config) comp" where
  "push_config_get E tid cid = bnd (call (rt_of E) (reads (push_get tid cid))) (\<lambda>row.
     case row of None \<Rightarrow> raise_err TaskNotFound | Some r \<Rightarrow> ret (wire_config r))"

text \<open>One page and the token of the next, which is the identifier of the last configuration on it.\<close>

definition push_config_list :: "'p env \<Rightarrow> string \<Rightarrow> int \<Rightarrow> string \<Rightarrow> (('p, 'l, 'o) service, push_config list \<times> string) comp" where
  "push_config_list E tid page_size token =
     bnd (call (rt_of E) (reads (get_task tid))) (\<lambda>task.
     if task = None then raise_err TaskNotFound
     else
       let size = (if page_size = 0 then 50 else page_size) in
       if \<not> (1 \<le> size \<and> size \<le> 100) then raise_err (InvalidParams ''Invalid push config page size'')
       else
         bnd (call (rt_of E) (reads (list_configs tid token (size + 1)))) (\<lambda>rows.
         let selected = take (nat size) rows in
         ret (map wire_config selected, if int (length rows) > size then p_config_id (last selected) else [])))"

definition push_config_delete :: "'p env \<Rightarrow> string \<Rightarrow> string \<Rightarrow> (('p, 'l, 'o) service, unit) comp" where
  "push_config_delete E tid cid =
     bnd (call (rt_of E) (reads (get_task tid))) (\<lambda>task.
     if task = None then raise_err TaskNotFound
     else bnd (call (rt_of E) (push_delete tid cid)) (\<lambda>_. ret ()))"

end
