(* ===== verification/Request_Handler.thy ===== *)
theory Request_Handler
  imports Push_Config Call_Log
begin

text \<open>
  \<^verbatim>\<open>cma_controller/request_handler.py\<close> (class \<open>CmaA2ARequestHandler\<close>): the A2A operations of the
  controller. A watched task is a generator: what it yields is the log of the run. The loop takes fuel and tells
  with \<open>False\<close> that it is still watching; \<open>monotonic\<close> reads the clock, and a sleep moves it.
\<close>

section \<open>Options and snapshots\<close>

definition watch_boundary :: "task_state \<Rightarrow> bool" where
  "watch_boundary st = (st \<in> {TASK_STATE_COMPLETED, TASK_STATE_FAILED, TASK_STATE_CANCELED, TASK_STATE_REJECTED,
     TASK_STATE_INPUT_REQUIRED})"

definition snapshot :: "a2a_task \<Rightarrow> view_options \<Rightarrow> a2a_task" where
  "snapshot full options = full\<lparr>tk_history := limit_history (vo_history_length options) (tk_history full)\<rparr>"

definition options_of :: "string list \<Rightarrow> int option \<Rightarrow> view_options" where
  "options_of requested history_length =
     \<lparr>vo_history_length = history_length, vo_human_input = (HUMAN_INPUT_EXTENSION_URI \<in> set requested)\<rparr>"

definition live_options :: "view_options \<Rightarrow> view_options" where
  "live_options options = \<lparr>vo_history_length = None, vo_human_input = vo_human_input options\<rparr>"

section \<open>Watching a task\<close>

datatype stream_event =
    Task_event a2a_task
  | Message_event a2a_message
  | Status_event string string task_state "a2a_message option"

type_synonym 'p watcher = "('p sys, unit, stream_event) run"

definition monotonic :: "'p env \<Rightarrow> ('p watcher, int) comp" where
  "monotonic E = call (rt_of E) (reads clock)"

definition sleep :: "'p env \<Rightarrow> int \<Rightarrow> ('p watcher, unit) comp" where
  "sleep E secs = call (rt_of E) (\<lambda>s. (Inr (), s\<lparr>clock := clock s + seconds secs\<rparr>))"

definition task_status :: "a2a_task \<Rightarrow> task_state \<times> a2a_message option" where
  "task_status t = (tk_state t, tk_status_message t)"

record watch_state =
  w_emitted :: "string list"
  w_status :: "task_state \<times> a2a_message option"
  w_marker :: "(int \<times> a2a_state \<times> string option \<times> string option) option"
  w_next_snapshot :: int

definition fresh_message :: "string list \<Rightarrow> a2a_message \<Rightarrow> bool" where
  "fresh_message emitted m = (msg_role m = ROLE_AGENT \<and> msg_id m \<notin> set emitted)"

fun yield_messages :: "string list \<Rightarrow> a2a_message list \<Rightarrow> ('p watcher, string list) comp" where
  "yield_messages emitted [] = ret emitted"
| "yield_messages emitted (m # ms) =
     (if fresh_message emitted m
      then bnd (observe (Message_event m)) (\<lambda>_. yield_messages (msg_id m # emitted) ms)
      else yield_messages emitted ms)"

definition yield_status :: "task_state \<times> a2a_message option \<Rightarrow> a2a_task \<Rightarrow> ('p watcher, unit) comp" where
  "yield_status last_status t =
     when_m (task_status t \<noteq> last_status)
       (observe (Status_event (tk_id t) (tk_context_id t) (tk_state t) (tk_status_message t)))"

text \<open>One pass of the loop; \<open>None\<close> when the generator ends.\<close>

definition watch_poll :: "'p env \<Rightarrow> string \<Rightarrow> view_options \<Rightarrow> watch_state \<Rightarrow> ('p watcher, watch_state option) comp" where
  "watch_poll E tid live st =
     bnd (watch_marker E tid) (\<lambda>marker.
     bnd (if Some marker = w_marker st then bnd (monotonic E) (\<lambda>t. ret (t < w_next_snapshot st)) else ret False) (\<lambda>idle.
     if idle then bnd (sleep E 1) (\<lambda>_. ret (Some st))
     else
       bnd (get_task_view E tid live) (\<lambda>current.
       bnd (yield_messages (w_emitted st) (tk_history current)) (\<lambda>emitted.
       bnd (yield_status (w_status st) current) (\<lambda>_.
       bnd (monotonic E) (\<lambda>t.
       if watch_boundary (tk_state current) then ret None
       else ret (Some \<lparr>w_emitted = emitted, w_status = task_status current, w_marker = Some marker,
              w_next_snapshot = t + seconds 5\<rparr>)))))))"

definition watch_pass :: "'p env \<Rightarrow> string \<Rightarrow> view_options \<Rightarrow> int \<Rightarrow> watch_state \<Rightarrow> ('p watcher, watch_state option) comp" where
  "watch_pass E tid live deadline st =
     bnd (monotonic E) (\<lambda>now. if \<not> now < deadline then ret None else watch_poll E tid live st)"

primrec watch_loop :: "nat \<Rightarrow> 'p env \<Rightarrow> string \<Rightarrow> view_options \<Rightarrow> int \<Rightarrow> watch_state \<Rightarrow> ('p watcher, bool) comp" where
  "watch_loop 0 E tid live deadline st = ret False"
| "watch_loop (Suc n) E tid live deadline st =
     bnd (watch_pass E tid live deadline st) (\<lambda>next_state. case next_state of
       None \<Rightarrow> ret True | Some st' \<Rightarrow> watch_loop n E tid live deadline st')"

definition agent_ids :: "a2a_task \<Rightarrow> string list" where
  "agent_ids t = map msg_id (filter (\<lambda>m. msg_role m = ROLE_AGENT) (tk_history t))"

definition watch :: "nat \<Rightarrow> 'p env \<Rightarrow> a2a_task \<Rightarrow> view_options \<Rightarrow> a2a_task \<Rightarrow> ('p watcher, bool) comp" where
  "watch fuel E initial options baseline =
     bnd (observe (Task_event initial)) (\<lambda>_.
     if watch_boundary (tk_state initial) then ret True
     else
       bnd (monotonic E) (\<lambda>t1.
       bnd (monotonic E) (\<lambda>t2.
       watch_loop fuel E (tk_id initial) (live_options options) (t1 + seconds 800)
         \<lparr>w_emitted = agent_ids baseline, w_status = task_status initial, w_marker = None,
          w_next_snapshot = t2 + seconds 5\<rparr>)))"

section \<open>Operations\<close>

record send_params =
  sp_message :: a2a_message
  sp_history_length :: "int option"
  sp_push :: "push_config option"
  sp_return_immediately :: bool

text \<open>The push service of the handler: \<open>None\<close> when push is not configured, otherwise its allowed URL.\<close>

type_synonym push_service = "((string \<Rightarrow> bool) \<times> string) option"

definition the_push :: "push_service \<Rightarrow> ('s, (string \<Rightarrow> bool) \<times> string) comp" where
  "the_push P = (case P of None \<Rightarrow> raise_err PushNotificationNotSupported | Some p \<Rightarrow> ret p)"

text \<open>The common start of a blocking and of a streaming send: the full task and its snapshot.\<close>

definition begin_send :: "'p env \<Rightarrow> push_service \<Rightarrow> send_params \<Rightarrow> view_options \<Rightarrow> ('p watcher, a2a_task \<times> a2a_task) comp" where
  "begin_send E P params options =
     bnd (send E (sp_message params) (live_options options)) (\<lambda>full.
     let task = snapshot full options in
     bnd (case sp_push params of
            None \<Rightarrow> ret ()
          | Some c \<Rightarrow> bnd (the_push P) (\<lambda>(ip_ok, allowed).
              bnd (push_config_create E ip_ok allowed c (tk_id task)) (\<lambda>_. ret ()))) (\<lambda>_.
     ret (full, task)))"

text \<open>
  A blocking send consumes the generator and reads the task again at its end: the generator ends
  directly after the status that the consumer stops at. \<open>None\<close>: it is still watching.
\<close>

definition on_message_send :: "nat \<Rightarrow> 'p env \<Rightarrow> push_service \<Rightarrow> string list \<Rightarrow> send_params
    \<Rightarrow> ('p watcher, a2a_task option) comp" where
  "on_message_send fuel E P requested params =
     (let options = options_of requested (sp_history_length params) in
      bnd (begin_send E P params options) (\<lambda>(full, task).
      if sp_return_immediately params \<or> watch_boundary (tk_state task) then ret (Some task)
      else
        bnd (watch fuel E task options full) (\<lambda>ended.
        if ended then bnd (get_task_view E (tk_id task) options) (\<lambda>t. ret (Some t)) else ret None)))"

definition on_message_send_stream :: "nat \<Rightarrow> 'p env \<Rightarrow> push_service \<Rightarrow> string list \<Rightarrow> send_params
    \<Rightarrow> ('p watcher, bool) comp" where
  "on_message_send_stream fuel E P requested params =
     (let options = options_of requested (sp_history_length params) in
      bnd (begin_send E P params options) (\<lambda>(full, task). watch fuel E task options full))"

definition on_get_task :: "'p env \<Rightarrow> string list \<Rightarrow> string \<Rightarrow> int option \<Rightarrow> ('p watcher, a2a_task) comp" where
  "on_get_task E requested tid history_length = get_task_view E tid (options_of requested history_length)"

text \<open>\<open>int(text)\<close>: blanks around it, a sign, and single underscores between digits.\<close>

fun digit_groups :: "string \<Rightarrow> bool" where
  "digit_groups [] = False"
| "digit_groups [c] = is_digit c"
| "digit_groups (c # d # cs) = (is_digit c \<and> (if d = CHR ''_'' then digit_groups cs else digit_groups (d # cs)))"

definition py_int :: "string \<Rightarrow> int option" where
  "py_int text = (let s = py_strip text;
       negative = starts_with ''-'' s;
       ds = (if negative \<or> starts_with ''+'' s then tl s else s);
       n = int (digits_value (filter is_digit ds)) in
     if digit_groups ds then Some (if negative then - n else n) else None)"

definition on_list_tasks :: "'p env \<Rightarrow> string list \<Rightarrow> string \<Rightarrow> string \<Rightarrow> int \<Rightarrow> int option
    \<Rightarrow> ('p watcher, a2a_task list \<times> string \<times> int \<times> int) comp" where
  "on_list_tasks E requested cid page_token page_size history_length =
     (case py_int (if page_token = [] then ''0'' else page_token) of
        None \<Rightarrow> raise_err (InvalidParams ''Invalid page token'')
      | Some after \<Rightarrow>
          let size = (if page_size = 0 then 50 else page_size) in
          bnd (list_task_views E cid after size (options_of requested history_length)) (\<lambda>(views, next_page, total).
          ret (views, (case next_page of None \<Rightarrow> [] | Some n \<Rightarrow> show_int n), size, total)))"

definition on_cancel_task :: "'p env \<Rightarrow> string list \<Rightarrow> string \<Rightarrow> ('p watcher, a2a_task) comp" where
  "on_cancel_task E requested tid = cancel_request E tid (options_of requested None)"

definition on_subscribe_to_task :: "nat \<Rightarrow> 'p env \<Rightarrow> string list \<Rightarrow> string \<Rightarrow> ('p watcher, bool) comp" where
  "on_subscribe_to_task fuel E requested tid =
     (let options = options_of requested None in
      bnd (get_task_view E tid (live_options options)) (\<lambda>full. watch fuel E (snapshot full options) options full))"

definition on_create_push_config :: "'p env \<Rightarrow> push_service \<Rightarrow> push_config \<Rightarrow> ('p watcher, push_config) comp" where
  "on_create_push_config E P c = bnd (the_push P) (\<lambda>(ip_ok, allowed). push_config_create E ip_ok allowed c [])"

definition on_get_push_config :: "'p env \<Rightarrow> push_service \<Rightarrow> string \<Rightarrow> string \<Rightarrow> ('p watcher, push_config) comp" where
  "on_get_push_config E P tid cid = bnd (the_push P) (\<lambda>_. push_config_get E tid cid)"

definition on_list_push_configs :: "'p env \<Rightarrow> push_service \<Rightarrow> string \<Rightarrow> int \<Rightarrow> string
    \<Rightarrow> ('p watcher, push_config list \<times> string) comp" where
  "on_list_push_configs E P tid page_size token = bnd (the_push P) (\<lambda>_. push_config_list E tid page_size token)"

definition on_delete_push_config :: "'p env \<Rightarrow> push_service \<Rightarrow> string \<Rightarrow> string \<Rightarrow> ('p watcher, unit) comp" where
  "on_delete_push_config E P tid cid = bnd (the_push P) (\<lambda>_. push_config_delete E tid cid)"

definition on_get_extended_agent_card :: "('p watcher, unit) comp" where
  "on_get_extended_agent_card = raise_err ExtendedAgentCardNotConfigured"

end
