(* ===== verification/Controller_Safety.thy ===== *)
theory Controller_Safety
  imports Scheduler_Safety Controller_Handlers Request_Handler
begin

text \<open>
  The controller as a whole: every entry point (the A2A operations, the webhook, the administrator, the
  batches of the scheduler and of the push dispatcher) changes the tables only through the transactions of its repositories,
  whatever fails on the way. So the actors are what each of them assumes of the others, and the constraints
  of the schema and the evolution of the rows hold for the controller, not only for one worker of it.
\<close>

section \<open>Calls\<close>

lemma actor_ports:
  "keeps (steps_between E) (call (rt_of E) (reads q))" "keeps (steps_between E) (call (rt_of E) (s3_get k))"
  "keeps (steps_between E) (call (rt_of E) (s3_put k x))" "keeps (steps_between E) (call (rt_of E) (s3_delete k))"
  "keeps (steps_between E) (call (rt_of E) (schedule c r d))" "keeps (steps_between E) (call (rt_of E) (schedule_context c r d))"
  "keeps (steps_between E) (call (rt_of E) (on_outside h))" "keeps (steps_between E) (call (rt_of E) (list_events E sid))"
  by (intro between_port port_same_tables provider_same_tables)+

lemma actor_transactions:
  "keeps (steps_between E) (call (rt_of E) (admit_operation a b c d e))"
  "keeps (steps_between E) (call (rt_of E) (decide_clarification_request a c d))"
  "keeps (steps_between E) (call (rt_of E) (record_human_ruling a c e))"
  "keeps (steps_between E) (call (rt_of E) (cancel_task a))"
  "keeps (steps_between E) (call (rt_of E) (claim_scheduler a c n))"
  "keeps (steps_between E) (call (rt_of E) (release_scheduler a c))"
  "keeps (steps_between E) (call (rt_of E) (resolve_held_task a c e))"
  "keeps (steps_between E) (call (rt_of E) (reset_delivery a c))"
  "keeps (steps_between E) (call (rt_of E) (push_create a c e))"
  "keeps (steps_between E) (call (rt_of E) (push_delete a c))"
  "keeps (steps_between E) (call (rt_of E) (push_claim a c e n))"
  "keeps (steps_between E) (call (rt_of E) (push_finish a c e f g h))"
  "keeps (steps_between E) (call (rt_of E) (push_release a c e))"
  by (intro between_call repo_step.intros)+

lemmas actor_rules = between.keeps_control between_quiet actor_ports actor_transactions

section \<open>The service\<close>

lemma actor_view: "keeps (steps_between E) (get_task_view E tid options)"
  unfolding get_task_view_def read_pending_text_def read_review_def Let_def
  by (auto intro!: actor_rules split: option.splits prod.splits sum.splits)

lemma actor_admit: "keeps (steps_between E) (admit (rt_of E) a b c d e)"
  unfolding admit_def by (auto intro!: between.keeps_try_except actor_rules split: option.splits if_splits)

lemma actor_answer: "keeps (steps_between E) (answer_request E m task rid answer options)"
  unfolding answer_request_def
  by (intro between.keeps_bnd actor_ports) (auto intro!: actor_rules actor_view split: option.splits request_row.splits)

lemma actor_ruling: "keeps (steps_between E) (rule_on_request E m rid decision options)"
  unfolding rule_on_request_def by (auto intro!: actor_rules actor_view)

lemma actor_continue: "keeps (steps_between E) (continue_task E m options)"
  unfolding continue_task_def
  by (intro keeps_if between.keeps_raise between.keeps_bnd actor_ports)
     (auto intro!: actor_rules actor_answer actor_ruling split: option.splits sum.splits hi_response.splits)

lemma actor_send: "keeps (steps_between E) (send E m options)"
  unfolding send_def admit_message_def
  by (auto intro!: actor_rules actor_view actor_admit actor_continue split: option.splits prod.splits)

lemma actor_list: "keeps (steps_between E) (list_task_views E cid n k options)"
  unfolding list_task_views_def Let_def by (auto intro!: actor_rules actor_view)

lemma actor_cancel: "keeps (steps_between E) (cancel_request E tid options)"
  unfolding cancel_request_def by (auto intro!: actor_rules actor_view split: option.splits)

section \<open>The other entry points\<close>

lemma actor_register: "keeps (steps_between E) (register_config E allowed tid cid)"
  unfolding register_config_def
  by (auto intro!: between.keeps_try_except actor_rules split: option.splits error.splits)

lemma actor_push_config:
  "keeps (steps_between E) (push_config_create E ip_ok allowed c tid)" "keeps (steps_between E) (push_config_get E tid cid)"
  "keeps (steps_between E) (push_config_list E tid k token)" "keeps (steps_between E) (push_config_delete E tid cid)"
  unfolding push_config_create_def push_config_get_def push_config_list_def push_config_delete_def Let_def
  by (auto intro!: actor_rules actor_register split: option.splits)

lemma actor_clock: "keeps (steps_between E) (monotonic E)" "keeps (steps_between E) (sleep E 1)" "keeps (steps_between E) (watch_marker E tid)"
proof -
  have "keeps same_tables (\<lambda>s. (Inr (), s\<lparr>clock := clock s + seconds 1\<rparr>))"
    by (rule keepsI) (simp add: same_tables_def seconds_def)
  then show "keeps (steps_between E) (monotonic E)" "keeps (steps_between E) (sleep E 1)" "keeps (steps_between E) (watch_marker E tid)"
    unfolding monotonic_def sleep_def watch_marker_def
    by (auto intro!: actor_rules between_port split: option.splits)
qed

lemma actor_yield: "keeps (steps_between E) (yield_messages em ms)" "keeps (steps_between E) (yield_status st t)"
  unfolding yield_status_def by (induction ms arbitrary: em) (auto intro!: actor_rules)

lemma actor_pass: "keeps (steps_between E) (watch_pass E tid live deadline st)"
  unfolding watch_pass_def watch_poll_def
  by (auto intro!: actor_rules actor_view actor_clock actor_yield)

lemma actor_loop: "keeps (steps_between E) (watch_loop n E tid live deadline st)"
  by (induction n arbitrary: st) (auto intro!: actor_rules actor_pass split: option.splits)

lemma actor_watch: "keeps (steps_between E) (watch fuel E initial options baseline)"
  unfolding watch_def by (auto intro!: actor_rules actor_clock actor_loop)

lemma actor_begin: "keeps (steps_between E) (begin_send E P params options)"
  unfolding begin_send_def the_push_def Let_def
  by (auto intro!: actor_rules actor_send actor_push_config split: option.splits prod.splits)

lemma actor_deliver: "keeps (steps_between E) (deliver E P tid pid)"
  unfolding deliver_def deliver_claimed_def settle_attempt_def failed_attempt_def attempt_post_def Let_def
  by (auto intro!: actor_rules actor_view split: option.splits attempt.splits)

lemma actor_dispatch: "keeps (steps_between E) (run_context E P cid)"
  unfolding run_context_def run_row_def already_delivered_def Let_def
  by (auto intro!: actor_rules actor_view actor_deliver split: prod.splits)

lemma actor_batch: "(\<And>r. keeps R (body r)) \<Longrightarrow> step_relation R \<Longrightarrow> keeps R (run_batch body rs)"
  by (induction rs) (auto intro!: step_relation.keeps_control)

lemma actor_record:
  assumes "\<And>cid. keeps (steps_between E) (body cid)"
  shows "keeps (steps_between E) (run_record loads decode body r)"
  unfolding run_record_def by (auto intro!: actor_rules assms split: sum.splits)

lemma actor_admin: "keeps (steps_between E) (retry_push E tid pid)" "keeps (steps_between E) (admin_resolve E tid resolution verified)"
  unfolding retry_push_def admin_resolve_def Let_def by (auto intro!: actor_rules split: option.splits)

lemma actor_webhook: "keeps (steps_between E) (handle_webhook E has_key ready unwrapped)"
  unfolding handle_webhook_def by (auto intro!: actor_rules split: option.splits)

section \<open>The controller\<close>

text \<open>One request, delivery or command that the controller works on, from its beginning to its end.\<close>

inductive controller_acts :: "'p env \<Rightarrow> 'p sys \<Rightarrow> 'p sys \<Rightarrow> bool" for E :: "'p env" where
  message_send: "controller_acts E (shared w) (shared (snd (on_message_send fuel E P requested params w)))"
| message_send_stream: "controller_acts E (shared w) (shared (snd (on_message_send_stream fuel E P requested params w)))"
| get_task: "controller_acts E (shared w) (shared (snd (on_get_task E requested tid n w)))"
| list_tasks: "controller_acts E (shared w) (shared (snd (on_list_tasks E requested cid token k n w)))"
| cancel_task: "controller_acts E (shared w) (shared (snd (on_cancel_task E requested tid w)))"
| subscribe: "controller_acts E (shared w) (shared (snd (on_subscribe_to_task fuel E requested tid w)))"
| create_push: "controller_acts E (shared w) (shared (snd (on_create_push_config E P c w)))"
| get_push: "controller_acts E (shared w) (shared (snd (on_get_push_config E P tid cfg w)))"
| list_push: "controller_acts E (shared w) (shared (snd (on_list_push_configs E P tid k token w)))"
| delete_push: "controller_acts E (shared w) (shared (snd (on_delete_push_config E P tid cfg w)))"
| webhook: "controller_acts E (shared w) (shared (snd (handle_webhook E has_key ready unwrapped (w :: ('p, unit, unit) service))))"
| admin_retry: "controller_acts E (shared w) (shared (snd (retry_push E tid pid (w :: ('p, unit, unit) service))))"
| admin_resolve: "controller_acts E (shared w) (shared (snd (admin_resolve E tid resolution verified (w :: ('p, unit, unit) service))))"
| schedulers: "controller_acts E (shared w) (shared (snd (scheduler_batch E loads records w)))"
| dispatchers: "controller_acts E (shared w) (shared (snd (push_batch E D loads records (w :: ('p, unit) push_worker))))"

lemma actor_handlers:
  "keeps (steps_between E) (on_message_send fuel E P requested params)"
  "keeps (steps_between E) (on_message_send_stream fuel E P requested params)"
  "keeps (steps_between E) (on_get_task E requested tid n)"
  "keeps (steps_between E) (on_list_tasks E requested cid token k n)"
  "keeps (steps_between E) (on_cancel_task E requested tid)"
  "keeps (steps_between E) (on_subscribe_to_task fuel E requested tid)"
  unfolding on_message_send_def on_message_send_stream_def on_get_task_def on_list_tasks_def on_cancel_task_def
    on_subscribe_to_task_def Let_def
  by (auto intro!: actor_rules actor_view actor_begin actor_watch actor_list actor_cancel split: option.splits prod.splits)

lemma actor_push_handlers:
  "keeps (steps_between E) (on_create_push_config E P c)" "keeps (steps_between E) (on_get_push_config E P tid cfg)"
  "keeps (steps_between E) (on_list_push_configs E P tid k token)" "keeps (steps_between E) (on_delete_push_config E P tid cfg)"
  unfolding on_create_push_config_def on_get_push_config_def on_list_push_configs_def on_delete_push_config_def the_push_def
  by (auto intro!: actor_rules actor_push_config split: option.splits prod.splits)

lemma actor_batches: "keeps (steps_between E) (scheduler_batch E loads rs)" "keeps (steps_between E) (push_batch E D loads rs)"
  unfolding scheduler_batch_def push_batch_def
  by (intro actor_batch actor_record between.kept_run_once actor_dispatch between.step_relation_axioms)+

lemma between_run: "keeps (steps_between E) m \<Longrightarrow> well_behaved E \<Longrightarrow> repo_step\<^sup>*\<^sup>* (shared w) (shared (snd (m w)))"
  by (simp add: steps_between_def keeps_def)

lemma acts_are_steps:
  assumes "controller_acts E s t" "well_behaved E"
  shows "repo_step\<^sup>*\<^sup>* s t"
  using assms(1)
  by (induction rule: controller_acts.induct)
     (rule between_run [OF _ assms(2)], rule actor_handlers actor_push_handlers actor_batches actor_admin actor_webhook)+

text \<open>C4: The controller keeps its database sound. Let it work on any sequence of requests, webhooks, administrator commands and
  queue batches, with the actors interleaving their transactions at every step, calls failing before or after they took effect
  and processes dying anywhere. Then the constraints of the schema hold at the end if they held at the beginning, and no row was lost, changed its
  identity, or forgot an attempt, a denial or a cancellation.\<close>

theorem controller_sound:
  assumes "well_behaved E" "schema_ok s" "(controller_acts E)\<^sup>*\<^sup>* s t"
  shows "schema_ok t \<and> evolves s t"
proof -
  from assms(3) have "repo_step\<^sup>*\<^sup>* s t"
    by (induction rule: rtranclp_induct) (auto intro: rtranclp_trans acts_are_steps [OF _ assms(1)])
  then show ?thesis using assms(2) schema_ok_steps evolution.repo_steps_related by blast
qed

lemma controller_sound_witness:
  "schema_ok (shared (snd (on_cancel_task sample_env [] ''t1'' (start_run unclaimed_sample ()))))
   \<and> evolves unclaimed_sample (shared (snd (on_cancel_task sample_env [] ''t1'' (start_run unclaimed_sample ()))))"
proof -
  have "controller_acts sample_env unclaimed_sample (shared (snd (on_cancel_task sample_env [] ''t1'' (start_run unclaimed_sample ()))))"
    using controller_acts.cancel_task [of sample_env "start_run unclaimed_sample ()"] by (simp add: start_run_def)
  with well_behaved_sample schema_ok_unclaimed show ?thesis by (intro controller_sound) auto
qed

end
