(* ===== verification/App_Schema.thy ===== *)
theory App_Schema
  imports Prelude
begin

text \<open>
  The state of the application side (the Slack and web surfaces): the rows of its tables, the
  domain events it has published, and the outside world it talks to (\<open>'q\<close>: the agent
  controller behind the A2A protocol, and Slack). It is a database of its own: the controller's
  tables are reached only through the A2A client. Times are integers in microseconds.
\<close>

section \<open>Rows\<close>

datatype context_state = Uninitialized | Context_initializing | Context_ready

record thread_row =
  th_thread_id :: string
  th_principal_id :: string
  th_agent_id :: string
  th_creation_request_id :: "string option"
  th_context_id :: "string option"
  th_context_state :: context_state
  th_init_claim_id :: "string option"
  th_init_lease_expires_at :: "int option"
  th_title :: "string option"
  th_created_at :: int
  th_updated_at :: int
  th_archived_at :: "int option"

record binding_row =
  b_binding_id :: string
  b_thread_id :: string
  b_surface :: string
  b_tenant_id :: string
  b_external_thread_id :: string
  b_created_at :: int

datatype submission_status = Send_pending | Send_bound | Send_failed

text \<open>\<^verbatim>\<open>agent_tasks\<close>: one row for each logical send of a thread.\<close>

record send_row =
  s_task_binding_id :: string
  s_thread_id :: string
  s_agent_id :: string
  s_client_message_id :: string
  s_task_id :: "string option"
  s_submission_status :: submission_status
  s_created_at :: int
  s_updated_at :: int

datatype ingress_status = Received | Sending | Sent | Ingress_failed

record ingress_row =
  i_ingress_id :: string
  i_surface :: string
  i_external_event_id :: string
  i_status :: ingress_status
  i_thread_id :: "string option"
  i_task_id :: "string option"
  i_attempts :: int
  i_claim_id :: "string option"
  i_lease_expires_at :: "int option"
  i_last_error :: "string option"
  i_created_at :: int
  i_updated_at :: int

datatype projection_status = Projection_pending | Streaming | Projection_completed | Fallback

record projection_row =
  j_binding_id :: string
  j_task_id :: string
  j_request_event_id :: "string option"
  j_source_message_ts :: "string option"
  j_initiator_user_id :: "string option"
  j_status :: projection_status
  j_slack_message_ts :: "string option"
  j_last_task_state :: "string option"
  j_attempts :: int
  j_claim_id :: "string option"
  j_lease_expires_at :: "int option"
  j_last_error :: "string option"
  j_updated_at :: int

datatype item_kind = Agent_message | Human_input

datatype item_status = Posting | Posted | Item_failed

record item_row =
  m_binding_id :: string
  m_task_id :: string
  m_kind :: item_kind
  m_item_id :: string
  m_status :: item_status
  m_attempts :: int
  m_claim_id :: "string option"
  m_lease_expires_at :: "int option"
  m_last_error :: "string option"
  m_slack_message_ts :: "string option"
  m_projected_at :: "int option"

record identity_row =
  x_principal_id :: string
  x_provider :: string
  x_tenant_id :: string
  x_external_user_id :: string

section \<open>The shared state\<close>

text \<open>\<open>'e\<close> is the type of the domain events on the bus.\<close>

record ('e, 'q) app =
  principals :: "string list"
  identities :: "identity_row list"
  threads :: "thread_row list"
  surface_bindings :: "binding_row list"
  sends :: "send_row list"
  ingress :: "ingress_row list"
  projections :: "projection_row list"
  items :: "item_row list"
  bus :: "'e list"
  app_clock :: int
  world :: 'q

definition app_reads :: "('s \<Rightarrow> 'a) \<Rightarrow> ('s, 'a) comp" where
  "app_reads f = (\<lambda>s. (Inr (f s), s))"

lemma snd_app_reads [simp]: "snd (app_reads f s) = s"
  by (simp add: app_reads_def)

section \<open>Constraints of the schema\<close>

text \<open>The CHECK of \<^verbatim>\<open>agent_threads\<close>.\<close>

definition thread_check :: "thread_row \<Rightarrow> bool" where
  "thread_check t = (case th_context_state t of
      Uninitialized \<Rightarrow> th_context_id t = None \<and> th_init_claim_id t = None \<and> th_init_lease_expires_at t = None
    | Context_initializing \<Rightarrow> th_context_id t = None \<and> th_init_claim_id t \<noteq> None \<and> th_init_lease_expires_at t \<noteq> None
    | Context_ready \<Rightarrow> th_context_id t \<noteq> None \<and> th_init_claim_id t = None \<and> th_init_lease_expires_at t = None)"

text \<open>The CHECK of \<^verbatim>\<open>agent_tasks\<close>.\<close>

definition send_check :: "send_row \<Rightarrow> bool" where
  "send_check r = (case s_submission_status r of
      Send_pending \<Rightarrow> s_task_id r = None
    | Send_bound \<Rightarrow> s_task_id r \<noteq> None
    | Send_failed \<Rightarrow> True)"

text \<open>A UNIQUE constraint over a column and one that may be NULL: rows with NULL never collide.\<close>

definition pair_opt :: "'a \<Rightarrow> 'b option \<Rightarrow> ('a \<times> 'b) option" where
  "pair_opt a b = map_option (Pair a) b"

definition unique_key :: "('r \<Rightarrow> 'k option) \<Rightarrow> 'r list \<Rightarrow> bool" where
  "unique_key k rows = distinct (List.map_filter k rows)"

definition creation_key :: "thread_row \<Rightarrow> (string \<times> string) option" where
  "creation_key t = pair_opt (th_principal_id t) (th_creation_request_id t)"

definition context_key :: "thread_row \<Rightarrow> (string \<times> string) option" where
  "context_key t = pair_opt (th_agent_id t) (th_context_id t)"

definition task_key :: "send_row \<Rightarrow> (string \<times> string) option" where
  "task_key r = pair_opt (s_agent_id r) (s_task_id r)"

definition binding_key :: "binding_row \<Rightarrow> string \<times> string \<times> string" where
  "binding_key b = (b_surface b, b_tenant_id b, b_external_thread_id b)"

definition send_key :: "send_row \<Rightarrow> string \<times> string" where
  "send_key r = (s_thread_id r, s_client_message_id r)"

definition ingress_key :: "ingress_row \<Rightarrow> string \<times> string" where
  "ingress_key r = (i_surface r, i_external_event_id r)"

definition projection_key :: "projection_row \<Rightarrow> string \<times> string" where
  "projection_key r = (j_binding_id r, j_task_id r)"

definition item_key :: "item_row \<Rightarrow> string \<times> string \<times> item_kind \<times> string" where
  "item_key r = (m_binding_id r, m_task_id r, m_kind r, m_item_id r)"

definition threads_ok :: "thread_row list \<Rightarrow> bool" where
  "threads_ok ts = (distinct (map th_thread_id ts) \<and> unique_key creation_key ts \<and> unique_key context_key ts
     \<and> list_all thread_check ts)"

definition bindings_ok :: "thread_row list \<Rightarrow> binding_row list \<Rightarrow> bool" where
  "bindings_ok ts bs = (distinct (map b_binding_id bs) \<and> distinct (map binding_key bs)
     \<and> list_all (\<lambda>b. b_thread_id b \<in> set (map th_thread_id ts)) bs)"

definition sends_ok :: "thread_row list \<Rightarrow> send_row list \<Rightarrow> bool" where
  "sends_ok ts rs = (distinct (map s_task_binding_id rs) \<and> distinct (map send_key rs) \<and> unique_key task_key rs
     \<and> list_all send_check rs \<and> list_all (\<lambda>r. s_thread_id r \<in> set (map th_thread_id ts)) rs)"

definition app_ok :: "('e, 'q) app \<Rightarrow> bool" where
  "app_ok s = (threads_ok (threads s) \<and> bindings_ok (threads s) (surface_bindings s)
     \<and> sends_ok (threads s) (sends s) \<and> distinct (map ingress_key (ingress s))
     \<and> distinct (map projection_key (projections s)) \<and> distinct (map item_key (items s)))"

lemma app_ok_keys:
  assumes "app_ok s"
  shows "distinct (map th_thread_id (threads s))" "distinct (map binding_key (surface_bindings s))"
    "distinct (map send_key (sends s))" "distinct (map ingress_key (ingress s))"
    "distinct (map projection_key (projections s))" "distinct (map item_key (items s))"
  using assms by (simp_all add: app_ok_def threads_ok_def bindings_ok_def sends_ok_def)

end
