(* ===== verification/Lease.thy ===== *)
theory Lease
  imports Prelude
begin

text \<open>
  The lease pattern of the repositories: a row carries the identifier of a claim and a time of
  expiry; a claim is taken by one conditional update, and whoever finds the row taken gets
  nothing until the time is over. The same pattern guards a scheduler run, a push delivery,
  the initialisation of a context, a Slack event, a Slack stream and a Slack message. The
  locale states what the update and its condition have to satisfy, and proves mutual
  exclusion and absence of deadlock once for all of them.
\<close>

locale lease =
  fixes key :: "'r \<Rightarrow> 'k"
    and free :: "int \<Rightarrow> 'r \<Rightarrow> bool"
    and take :: "string \<Rightarrow> int \<Rightarrow> 'r \<Rightarrow> 'r"
  assumes take_key: "key (take c t r) = key r"
    and take_blocks: "now < t \<Longrightarrow> \<not> free now (take c t r)"
    and take_lapses: "free now r \<Longrightarrow> now \<le> now' \<Longrightarrow> t \<le> now' \<Longrightarrow> free now' (take c t r)"
begin

abbreviation claim_rows :: "int \<Rightarrow> 'k \<Rightarrow> string \<Rightarrow> int \<Rightarrow> 'r list \<Rightarrow> 'r list" where
  "claim_rows now k c t rows \<equiv> upd_rows (\<lambda>r. key r = k \<and> free now r) (take c t) rows"

lemma claimed_row:
  assumes "distinct (map key rows)" "find (\<lambda>r. key r = k \<and> free now r) rows = Some r"
    and "r' \<in> set (claim_rows now k c t rows)" "key r' = k"
  shows "r' = take c t r"
proof -
  from find_SomeD [OF assms(2)] have r: "key r = k" "free now r" "r \<in> set rows" by auto
  from assms(3) obtain x where x: "x \<in> set rows" "r' = (if key x = k \<and> free now x then take c t x else x)"
    by (auto simp: set_upd_rows)
  then have "key x = k" using assms(4) by (auto simp: take_key split: if_splits)
  with r x(1) have "x = r" using distinct_map_inj [OF assms(1)] by metis
  with x r show ?thesis by simp
qed

theorem exclusive:
  assumes "distinct (map key rows)" "find (\<lambda>r. key r = k \<and> free now r) rows = Some r"
    and "now' < t"
  shows "find (\<lambda>r. key r = k \<and> free now' r) (claim_rows now k c t rows) = None"
proof (rule ccontr)
  assume "find (\<lambda>r. key r = k \<and> free now' r) (claim_rows now k c t rows) \<noteq> None"
  then obtain r' where "find (\<lambda>r. key r = k \<and> free now' r) (claim_rows now k c t rows) = Some r'" by auto
  from find_SomeD [OF this] have r': "key r' = k" "free now' r'" "r' \<in> set (claim_rows now k c t rows)" by auto
  from claimed_row [OF assms(1,2) r'(3,1)] r'(2) take_blocks [OF assms(3)] show False by simp
qed

theorem recoverable:
  assumes "find (\<lambda>r. key r = k \<and> free now r) rows = Some r" "now \<le> now'" "t \<le> now'"
  shows "find (\<lambda>r. key r = k \<and> free now' r) (claim_rows now k c t rows) \<noteq> None"
proof
  assume none: "find (\<lambda>r. key r = k \<and> free now' r) (claim_rows now k c t rows) = None"
  from find_SomeD [OF assms(1)] have r: "key r = k" "free now r" "take c t r \<in> set (claim_rows now k c t rows)"
    by (auto simp: set_upd_rows)
  with find_NoneD [OF none r(3)] take_lapses [OF r(2) assms(2,3)] take_key show False by blast
qed

text \<open>After a claim, and as long as nothing else touches the row, the next claim fails exactly until the
  time of expiry.\<close>

theorem next_claim:
  assumes "distinct (map key rows)" "find (\<lambda>r. key r = k \<and> free now r) rows = Some r" "now \<le> now'"
  shows "find (\<lambda>r. key r = k \<and> free now' r) (claim_rows now k c t rows) = None \<longleftrightarrow> now' < t"
  using exclusive [OF assms(1,2)] recoverable [OF assms(2,3)] by (cases "now' < t") auto

end

end
