(* ===== verification/Dsql_Retry.thy ===== *)
theory Dsql_Retry
  imports Prelude
begin

text \<open>
  \<^verbatim>\<open>db/connection.py\<close>, \<open>with_dsql_retry\<close>: run a transaction again, up to a number of attempts
  (five by default), when the database aborts it with a serialization failure. The pause
  between attempts is not modelled. A transaction that is retried leaves no trace, so to
  its caller the method is one transaction that runs later or fails; the models of the
  repositories therefore call their transactions directly, and any failure, at any time, is a
  fault of the environment.
\<close>

primrec with_dsql_retry :: "nat \<Rightarrow> ('s, 'a) comp \<Rightarrow> ('s, 'a) comp" where
  "with_dsql_retry 0 m = raise_err AssertionError"
| "with_dsql_retry (Suc n) m = try_except m (\<lambda>e.
     if e = SerializationFailure then (if n = 0 then None else Some (with_dsql_retry n m)) else None)"

text \<open>The state after \<open>k\<close> runs that were all aborted.\<close>

primrec aborted :: "nat \<Rightarrow> ('s, 'a) comp \<Rightarrow> 's \<Rightarrow> 's \<Rightarrow> bool" where
  "aborted 0 m s t = (t = s)"
| "aborted (Suc k) m s t = (\<exists>u. m s = (Inl SerializationFailure, u) \<and> aborted k m u t)"

lemma retry_outcome:
  assumes "0 < n"
  shows "\<exists>k < n. \<exists>t. aborted k m s t \<and> with_dsql_retry n m s = m t
     \<and> (fst (m t) = Inl SerializationFailure \<longrightarrow> k = n - 1)"
  using assms
proof (induction n arbitrary: s)
  case (Suc n)
  show ?case
  proof (cases "fst (m s) = Inl SerializationFailure \<and> n \<noteq> 0")
    case True
    then obtain u where u: "m s = (Inl SerializationFailure, u)" by (metis prod.collapse)
    from True Suc.IH [of u] obtain k t where kt: "k < n" "aborted k m u t" "with_dsql_retry n m u = m t"
      "fst (m t) = Inl SerializationFailure \<longrightarrow> k = n - 1" by auto
    have "with_dsql_retry (Suc n) m s = m t" using True u kt(3) by (simp add: try_except_def)
    moreover have "aborted (Suc k) m s t" using u kt(2) by auto
    ultimately show ?thesis using kt True by (intro exI [of _ "Suc k"]) auto
  next
    case False
    then have "with_dsql_retry (Suc n) m s = m s"
      by (cases "m s") (auto simp: try_except_def split: sum.splits option.splits)
    with False show ?thesis by (intro exI [of _ 0]) auto
  qed
qed simp

text \<open>C8: \<open>with_dsql_retry\<close> returns what the operation returned on its last run: it makes at most
  \<open>attempts\<close> runs, all but the last one aborted by a serialization failure, it passes
  on every result and every other exception of that run unchanged, and it raises a
  serialization failure only after the last attempt. In particular it never reaches the
  \<open>AssertionError\<close> at its end.\<close>

theorem with_dsql_retry_runs:
  assumes "0 < attempts"
  shows "\<exists>k < attempts. \<exists>t. aborted k m s t \<and> with_dsql_retry attempts m s = m t
     \<and> (fst (with_dsql_retry attempts m s) = Inl SerializationFailure \<longrightarrow> k = attempts - 1)"
  using retry_outcome [OF assms, of m s] by metis

text \<open>An operation that is aborted twice and then succeeds, on a state that counts its runs.\<close>

definition flaky :: "nat \<Rightarrow> (nat, string) comp" where
  "flaky n = (\<lambda>s. if s < n then (Inl SerializationFailure, Suc s) else (Inr ''done'', s))"

lemma with_dsql_retry_runs_witness:
  "with_dsql_retry 5 (flaky 2) 0 = (Inr ''done'', 2) \<and> with_dsql_retry 2 (flaky 2) 0 = (Inl SerializationFailure, 2)
   \<and> (\<exists>k < 5. \<exists>t. aborted k (flaky 2) 0 t \<and> with_dsql_retry 5 (flaky 2) 0 = flaky 2 t
     \<and> (fst (with_dsql_retry 5 (flaky 2) 0) = Inl SerializationFailure \<longrightarrow> k = 5 - 1))"
  using with_dsql_retry_runs [of 5 "flaky 2" 0]
  by (simp add: flaky_def try_except_def eval_nat_numeral)

end
