(* ===== verification/Thread_Repository.thy ===== *)
theory Thread_Repository
  imports App_Schema Lease Dsql_Retry
begin

text \<open>
  \<^verbatim>\<open>db/thread_repository.py\<close> (class \<open>ThreadRepository\<close>): threads of the application, their
  binding to a surface (a Slack thread), the logical sends of a thread and the claim under
  which the first send creates the controller context; and \<^verbatim>\<open>db/repositories.py\<close> (class
  \<open>Database\<close>), the principals and their external identities. Every method is one transaction;
  identifiers drawn with \<open>uuid.uuid4()\<close> are arguments.
\<close>

section \<open>Statements\<close>

definition new_thread :: "string \<Rightarrow> string \<Rightarrow> string \<Rightarrow> string option \<Rightarrow> string option \<Rightarrow> int \<Rightarrow> thread_row" where
  "new_thread tid prin agent request title t = \<lparr>th_thread_id = tid, th_principal_id = prin,
     th_agent_id = agent, th_creation_request_id = request, th_context_id = None,
     th_context_state = Uninitialized, th_init_claim_id = None, th_init_lease_expires_at = None,
     th_title = title, th_created_at = t, th_updated_at = t, th_archived_at = None\<rparr>"

text \<open>\<^verbatim>\<open>INSERT INTO agent_threads .. RETURNING *\<close> without a conflict clause.\<close>

definition insert_thread :: "thread_row \<Rightarrow> (('e, 'q) app, thread_row) comp" where
  "insert_thread t = (\<lambda>s.
     if th_principal_id t \<notin> set (principals s) then (Inl (ExternalError ''ForeignKeyViolation''), s)
     else if th_thread_id t \<in> set (map th_thread_id (threads s))
       \<or> (creation_key t \<noteq> None \<and> creation_key t \<in> set (map creation_key (threads s)))
     then (Inl UniqueViolation, s)
     else (Inr t, s\<lparr>threads := threads s @ [t]\<rparr>))"

definition new_binding :: "string \<Rightarrow> string \<Rightarrow> string \<Rightarrow> string \<Rightarrow> string \<Rightarrow> int \<Rightarrow> binding_row" where
  "new_binding bid tid surface tenant ext t = \<lparr>b_binding_id = bid, b_thread_id = tid, b_surface = surface,
     b_tenant_id = tenant, b_external_thread_id = ext, b_created_at = t\<rparr>"

definition new_send :: "string \<Rightarrow> string \<Rightarrow> string \<Rightarrow> string \<Rightarrow> int \<Rightarrow> send_row" where
  "new_send bid tid agent mid t = \<lparr>s_task_binding_id = bid, s_thread_id = tid, s_agent_id = agent,
     s_client_message_id = mid, s_task_id = None, s_submission_status = Send_pending,
     s_created_at = t, s_updated_at = t\<rparr>"

section \<open>Threads\<close>

definition create_thread :: "string \<Rightarrow> string \<Rightarrow> string \<Rightarrow> string option \<Rightarrow> (('e, 'q) app, thread_row) comp" where
  "create_thread new_id prin agent title =
     (if agent = [] then raise_err (ValueError ''agent_id is required'')
      else (\<lambda>s. insert_thread (new_thread new_id prin agent None title (app_clock s)) s))"

definition create_thread_idempotent :: "string \<Rightarrow> string \<Rightarrow> string \<Rightarrow> string \<Rightarrow> string option
    \<Rightarrow> (('e, 'q) app, thread_row) comp" where
  "create_thread_idempotent new_id prin agent request title =
     (if agent = [] \<or> request = []
      then raise_err (ValueError ''Agent and creation request ID are required'')
      else transaction (\<lambda>s.
        bnd (case find (\<lambda>t. th_principal_id t = prin \<and> th_creation_request_id t = Some request) (threads s) of
               Some row \<Rightarrow> ret row
             | None \<Rightarrow> insert_thread (new_thread new_id prin agent (Some request) title (app_clock s)))
          (\<lambda>row. if th_agent_id row \<noteq> agent
                 then raise_err (BindingConflict ''Creation request is bound to another agent'')
                 else ret row) s))"

definition get_thread :: "string \<Rightarrow> ('e, 'q) app \<Rightarrow> thread_row option" where
  "get_thread tid s = find (\<lambda>t. th_thread_id t = tid) (threads s)"

definition get_owned_thread :: "string \<Rightarrow> string \<Rightarrow> ('e, 'q) app \<Rightarrow> thread_row option" where
  "get_owned_thread prin tid s =
     find (\<lambda>t. th_thread_id t = tid \<and> th_principal_id t = prin) (threads s)"

text \<open>\<^verbatim>\<open>ORDER BY updated_at DESC, thread_id DESC\<close>\<close>

definition list_threads :: "string \<Rightarrow> ('e, 'q) app \<Rightarrow> thread_row list" where
  "list_threads prin s = rev (sort_key (\<lambda>t. (th_updated_at t, th_thread_id t))
     (filter (\<lambda>t. th_principal_id t = prin \<and> th_archived_at t = None) (threads s)))"

text \<open>An update of one thread that cannot violate a constraint, with \<^verbatim>\<open>RETURNING *\<close>.\<close>

definition touch_thread :: "(thread_row \<Rightarrow> bool) \<Rightarrow> (int \<Rightarrow> thread_row \<Rightarrow> thread_row)
    \<Rightarrow> (('e, 'q) app, thread_row option) comp" where
  "touch_thread p f = (\<lambda>s. (Inr (returning p (f (app_clock s)) (threads s)),
     s\<lparr>threads := upd_rows p (f (app_clock s)) (threads s)\<rparr>))"

definition update_title_if_empty :: "string \<Rightarrow> string \<Rightarrow> (('e, 'q) app, thread_row option) comp" where
  "update_title_if_empty tid title = touch_thread
     (\<lambda>t. th_thread_id t = tid \<and> \<not> truthy (th_title t))
     (\<lambda>now t. t\<lparr>th_title := Some (take 60 title), th_updated_at := now\<rparr>)"

definition archive_thread :: "string \<Rightarrow> string \<Rightarrow> (('e, 'q) app, thread_row option) comp" where
  "archive_thread prin tid = touch_thread
     (\<lambda>t. th_principal_id t = prin \<and> th_thread_id t = tid \<and> th_archived_at t = None)
     (\<lambda>now t. t\<lparr>th_archived_at := Some now, th_updated_at := now\<rparr>)"

definition restore_thread :: "string \<Rightarrow> string \<Rightarrow> (('e, 'q) app, thread_row option) comp" where
  "restore_thread prin tid = touch_thread
     (\<lambda>t. th_principal_id t = prin \<and> th_thread_id t = tid \<and> th_archived_at t \<noteq> None)
     (\<lambda>now t. t\<lparr>th_archived_at := None, th_updated_at := now\<rparr>)"

definition owns_thread :: "string \<Rightarrow> string \<Rightarrow> ('e, 'q) app \<Rightarrow> bool" where
  "owns_thread prin tid s =
     list_ex (\<lambda>t. th_thread_id t = tid \<and> th_principal_id t = prin \<and> th_archived_at t = None) (threads s)"

section \<open>Surfaces\<close>

definition surface_key :: "string \<Rightarrow> string \<Rightarrow> string \<Rightarrow> binding_row \<Rightarrow> bool" where
  "surface_key surface tenant ext b =
     (b_surface b = surface \<and> b_tenant_id b = tenant \<and> b_external_thread_id b = ext)"

definition get_surface_binding :: "string \<Rightarrow> string \<Rightarrow> string \<Rightarrow> ('e, 'q) app \<Rightarrow> binding_row option" where
  "get_surface_binding surface tenant ext s = find (surface_key surface tenant ext) (surface_bindings s)"

definition check_binding :: "thread_row \<Rightarrow> string \<Rightarrow> string \<Rightarrow> error option" where
  "check_binding t prin agent =
     (if th_principal_id t \<noteq> prin \<or> th_agent_id t \<noteq> agent
      then Some (BindingConflict ''Surface thread belongs to another principal or agent'')
      else if th_archived_at t \<noteq> None then Some (BindingConflict ''Surface thread is archived'')
      else None)"

text \<open>
  \<open>get_or_create_surface_thread\<close>. The lookup joins the binding with its thread. Another transaction
  may bind the same surface between the lookup and the insert: then the insert of the binding
  does nothing, the transaction with the new thread is rolled back (\<open>_SurfaceCreationRace\<close>), and
  the method reads the winner's rows, or starts again if they are gone. Lookup and insert are
  separate steps of the worker here, so that the race can occur. \<open>fuel\<close> bounds the restarts; a
  worker that has used it up is still restarting, and no handler of its runs.
\<close>

definition bound_thread :: "string \<Rightarrow> string \<Rightarrow> string \<Rightarrow> ('e, 'q) app \<Rightarrow> (thread_row \<times> binding_row) option" where
  "bound_thread surface tenant ext s = (case get_surface_binding surface tenant ext s of
     None \<Rightarrow> None
   | Some b \<Rightarrow> map_option (\<lambda>t. (t, b)) (get_thread (b_thread_id b) s))"

definition creation_race :: error where
  "creation_race = RuntimeError ''_SurfaceCreationRace''"

definition insert_surface_thread :: "string \<Rightarrow> string \<Rightarrow> string \<Rightarrow> string \<Rightarrow> string \<Rightarrow> string \<Rightarrow> string
    \<Rightarrow> string option \<Rightarrow> (('e, 'q) app, thread_row \<times> binding_row) comp" where
  "insert_surface_thread new_tid new_bid prin agent surface tenant ext title = transaction (\<lambda>s.
     bnd (insert_thread (new_thread new_tid prin agent None title (app_clock s))) (\<lambda>t s'.
       if find (surface_key surface tenant ext) (surface_bindings s') \<noteq> None then (Inl creation_race, s')
       else if new_bid \<in> set (map b_binding_id (surface_bindings s')) then (Inl UniqueViolation, s')
       else let b = new_binding new_bid new_tid surface tenant ext (app_clock s') in
            (Inr (t, b), s'\<lparr>surface_bindings := surface_bindings s' @ [b]\<rparr>)) s)"

definition checked :: "thread_row \<Rightarrow> string \<Rightarrow> string \<Rightarrow> 'a \<Rightarrow> ('s, 'a) comp" where
  "checked t prin agent x = (case check_binding t prin agent of Some e \<Rightarrow> raise_err e | None \<Rightarrow> ret x)"

primrec get_or_create_surface_thread :: "nat \<Rightarrow> ('e, 'q) app rt \<Rightarrow> string \<Rightarrow> string \<Rightarrow> string \<Rightarrow> string \<Rightarrow> string
    \<Rightarrow> string option \<Rightarrow> ((('e, 'q) app, 'l, 'o) run, thread_row \<times> binding_row) comp" where
  "get_or_create_surface_thread 0 X prin agent surface tenant ext title = raise_err Killed"
| "get_or_create_surface_thread (Suc fuel) X prin agent surface tenant ext title =
     try_except
       (with_dsql_retry 5
         (bnd (call X (app_reads (bound_thread surface tenant ext))) (\<lambda>existing.
          case existing of
            Some (t, b) \<Rightarrow> checked t prin agent (t, b)
          | None \<Rightarrow>
              bnd (fresh_uuid X) (\<lambda>new_tid.
              bnd (fresh_uuid X) (\<lambda>new_bid.
              call X (insert_surface_thread new_tid new_bid prin agent surface tenant ext title))))))
       (\<lambda>e. if e \<noteq> creation_race then None else Some
          (bnd (call X (app_reads (get_surface_binding surface tenant ext))) (\<lambda>found.
           case found of
             None \<Rightarrow> get_or_create_surface_thread fuel X prin agent surface tenant ext title
           | Some b \<Rightarrow>
               bnd (call X (app_reads (get_thread (b_thread_id b)))) (\<lambda>th.
               case th of
                 None \<Rightarrow> raise_err (RuntimeError ''Surface binding has no thread'')
               | Some t \<Rightarrow> checked t prin agent (t, b)))))"

definition bind_surface :: "string \<Rightarrow> string \<Rightarrow> string \<Rightarrow> string \<Rightarrow> string \<Rightarrow> (('e, 'q) app, binding_row) comp" where
  "bind_surface new_id tid surface tenant ext = transaction (\<lambda>s.
     case get_surface_binding surface tenant ext s of
       Some b \<Rightarrow> if b_thread_id b \<noteq> tid
                 then (Inl (BindingConflict ''Surface is already bound to another thread''), s)
                 else (Inr b, s)
     | None \<Rightarrow>
         if tid \<notin> set (map th_thread_id (threads s)) then (Inl (ExternalError ''ForeignKeyViolation''), s)
         else if new_id \<in> set (map b_binding_id (surface_bindings s)) then (Inl UniqueViolation, s)
         else let b = new_binding new_id tid surface tenant ext (app_clock s) in
              (Inr b, s\<lparr>surface_bindings := surface_bindings s @ [b]\<rparr>))"

definition list_surface_bindings :: "string \<Rightarrow> ('e, 'q) app \<Rightarrow> binding_row list" where
  "list_surface_bindings tid s = sort_key (\<lambda>b. (b_created_at b, b_binding_id b))
     (filter (\<lambda>b. b_thread_id b = tid) (surface_bindings s))"

section \<open>Logical sends\<close>

definition get_latest_task_binding :: "string \<Rightarrow> ('e, 'q) app \<Rightarrow> send_row option" where
  "get_latest_task_binding tid s = (case rev (sort_key (\<lambda>r. (s_created_at r, s_task_binding_id r))
      (filter (\<lambda>r. s_thread_id r = tid \<and> s_task_id r \<noteq> None) (sends s))) of [] \<Rightarrow> None | r # _ \<Rightarrow> Some r)"

definition list_task_bindings :: "string \<Rightarrow> ('e, 'q) app \<Rightarrow> send_row list" where
  "list_task_bindings tid s = sort_key (\<lambda>r. (s_created_at r, s_task_binding_id r))
     (filter (\<lambda>r. s_thread_id r = tid) (sends s))"

definition message_key :: "string \<Rightarrow> string \<Rightarrow> send_row \<Rightarrow> bool" where
  "message_key tid mid r = (s_thread_id r = tid \<and> s_client_message_id r = mid)"

definition record_logical_send :: "string \<Rightarrow> string \<Rightarrow> string \<Rightarrow> string \<Rightarrow> (('e, 'q) app, send_row) comp" where
  "record_logical_send new_id tid agent mid =
     (if mid = [] then raise_err (ValueError ''client_message_id is required'')
      else transaction (\<lambda>s.
        case get_thread tid s of
          None \<Rightarrow> (Inl (KeyError ''Unknown thread''), s)
        | Some t \<Rightarrow>
            if th_agent_id t \<noteq> agent then (Inl (BindingConflict ''Agent does not match thread''), s)
            else
              let touched = upd_rows (\<lambda>t. th_thread_id t = tid) (\<lambda>t. t\<lparr>th_updated_at := app_clock s\<rparr>) (threads s) in
              (case find (message_key tid mid) (sends s) of
                 Some row \<Rightarrow>
                   if s_agent_id row \<noteq> agent
                   then (Inl (BindingConflict ''Logical send is bound to another agent''), s)
                   else (Inr row, s\<lparr>threads := touched\<rparr>)
               | None \<Rightarrow>
                   if new_id \<in> set (map s_task_binding_id (sends s)) then (Inl UniqueViolation, s)
                   else let row = new_send new_id tid agent mid (app_clock s) in
                        (Inr row, s\<lparr>threads := touched, sends := sends s @ [row]\<rparr>))))"

definition bind_task_id :: "string \<Rightarrow> string \<Rightarrow> string \<Rightarrow> (('e, 'q) app, send_row) comp" where
  "bind_task_id tid mid task =
     (if task = [] then raise_err (ValueError ''task_id is required'')
      else (\<lambda>s.
        let p = (\<lambda>r. message_key tid mid r \<and> s_submission_status r = Send_pending \<and> s_task_id r = None);
            f = (\<lambda>r. r\<lparr>s_task_id := Some task, s_submission_status := Send_bound, s_updated_at := app_clock s\<rparr>) in
        case returning p f (sends s) of
          Some row \<Rightarrow>
            if unique_key task_key (upd_rows p f (sends s))
            then (Inr row, s\<lparr>sends := upd_rows p f (sends s)\<rparr>)
            else (Inl (BindingConflict ''Task ID is already bound to another logical send''), s)
        | None \<Rightarrow>
            (case find (message_key tid mid) (sends s) of
               None \<Rightarrow> (Inl (KeyError ''Unknown logical send''), s)
             | Some row \<Rightarrow>
                 if s_task_id row = Some task \<and> s_submission_status row = Send_bound then (Inr row, s)
                 else (Inl (BindingConflict ''Logical send is not pending or is bound to another task''), s))))"

definition get_task_binding :: "string \<Rightarrow> string \<Rightarrow> ('e, 'q) app \<Rightarrow> send_row option" where
  "get_task_binding agent task s = find (\<lambda>r. s_agent_id r = agent \<and> s_task_id r = Some task) (sends s)"

definition get_task_binding_by_message :: "string \<Rightarrow> string \<Rightarrow> ('e, 'q) app \<Rightarrow> send_row option" where
  "get_task_binding_by_message tid mid s = find (message_key tid mid) (sends s)"

section \<open>The claim on the initialisation of a context\<close>

datatype context_claim = Claim_acquired string | Claim_busy | Claim_ready string

definition init_free :: "int \<Rightarrow> thread_row \<Rightarrow> bool" where
  "init_free now t = (th_context_state t = Uninitialized \<or> (th_context_state t = Context_initializing \<and>
     (case th_init_lease_expires_at t of None \<Rightarrow> True | Some e \<Rightarrow> e \<le> now)))"

definition init_take :: "string \<Rightarrow> int \<Rightarrow> thread_row \<Rightarrow> thread_row" where
  "init_take claim expires t = t\<lparr>th_context_state := Context_initializing, th_init_claim_id := Some claim,
     th_init_lease_expires_at := Some expires\<rparr>"

definition claim_context_initialization :: "string \<Rightarrow> string \<Rightarrow> int \<Rightarrow> (('e, 'q) app, context_claim) comp" where
  "claim_context_initialization claim tid lease_s =
     (if lease_s \<le> 0 then raise_err (ValueError ''Lease duration must be positive'')
      else (\<lambda>s.
        let p = (\<lambda>t. th_thread_id t = tid \<and> init_free (app_clock s) t);
            f = (\<lambda>t. (init_take claim (app_clock s + lease_s * 1000000) t)\<lparr>th_updated_at := app_clock s\<rparr>) in
        if find p (threads s) \<noteq> None
        then (Inr (Claim_acquired claim), s\<lparr>threads := upd_rows p f (threads s)\<rparr>)
        else (case get_thread tid s of
                None \<Rightarrow> (Inl (KeyError ''Unknown thread''), s)
              | Some t \<Rightarrow> if th_context_state t = Context_ready
                          then (Inr (Claim_ready (py_str (th_context_id t))), s)
                          else (Inr Claim_busy, s))))"

definition bind_context :: "string \<Rightarrow> string \<Rightarrow> string \<Rightarrow> (('e, 'q) app, thread_row) comp" where
  "bind_context tid claim context_id =
     (if context_id = [] then raise_err (ValueError ''context_id is required'')
      else (\<lambda>s.
        let p = (\<lambda>t. th_thread_id t = tid \<and> th_context_state t = Context_initializing
                  \<and> th_init_claim_id t = Some claim
                  \<and> (case th_init_lease_expires_at t of None \<Rightarrow> False | Some e \<Rightarrow> e > app_clock s));
            f = (\<lambda>t. t\<lparr>th_context_id := Some context_id, th_context_state := Context_ready,
                  th_init_claim_id := None, th_init_lease_expires_at := None, th_updated_at := app_clock s\<rparr>) in
        case returning p f (threads s) of
          Some row \<Rightarrow>
            if unique_key context_key (upd_rows p f (threads s))
            then (Inr row, s\<lparr>threads := upd_rows p f (threads s)\<rparr>)
            else (Inl (BindingConflict ''Context is already bound to another thread for this agent''), s)
        | None \<Rightarrow>
            (case get_thread tid s of
               None \<Rightarrow> (Inl (KeyError ''Unknown thread''), s)
             | Some row \<Rightarrow>
                 if th_context_state row = Context_ready \<and> th_context_id row = Some context_id then (Inr row, s)
                 else (Inl (BindingConflict ''Context claim is stale or thread is bound to another context''), s))))"

definition release_context_initialization :: "string \<Rightarrow> string \<Rightarrow> (('e, 'q) app, bool) comp" where
  "release_context_initialization tid claim = (\<lambda>s.
     let p = (\<lambda>t. th_thread_id t = tid \<and> th_context_state t = Context_initializing \<and> th_init_claim_id t = Some claim);
         f = (\<lambda>t. t\<lparr>th_context_state := Uninitialized, th_init_claim_id := None, th_init_lease_expires_at := None,
               th_updated_at := app_clock s\<rparr>) in
     (Inr (find p (threads s) \<noteq> None), s\<lparr>threads := upd_rows p f (threads s)\<rparr>))"

section \<open>Principals and identities\<close>

definition ensure_principal :: "string \<Rightarrow> (('e, 'q) app, unit) comp" where
  "ensure_principal prin = (\<lambda>s. (Inr (), if prin \<in> set (principals s) then s
     else s\<lparr>principals := principals s @ [prin]\<rparr>))"

definition identity_key :: "string \<Rightarrow> string \<Rightarrow> string \<Rightarrow> identity_row \<Rightarrow> bool" where
  "identity_key provider tenant user x =
     (x_provider x = provider \<and> x_tenant_id x = tenant \<and> x_external_user_id x = user)"

definition map_external_identity :: "string \<Rightarrow> string \<Rightarrow> string \<Rightarrow> string \<Rightarrow> (('e, 'q) app, unit) comp" where
  "map_external_identity prin provider tenant user = (\<lambda>s.
     if prin \<notin> set (principals s) then (Inl (ExternalError ''ForeignKeyViolation''), s)
     else if find (identity_key provider tenant user) (identities s) \<noteq> None
     then (Inr (), s\<lparr>identities := upd_rows (identity_key provider tenant user)
             (\<lambda>x. x\<lparr>x_principal_id := prin\<rparr>) (identities s)\<rparr>)
     else (Inr (), s\<lparr>identities := identities s @ [\<lparr>x_principal_id = prin, x_provider = provider,
             x_tenant_id = tenant, x_external_user_id = user\<rparr>]\<rparr>))"

definition resolve_external_identity :: "string \<Rightarrow> string \<Rightarrow> string \<Rightarrow> ('e, 'q) app \<Rightarrow> string option" where
  "resolve_external_identity provider tenant user s =
     map_option x_principal_id (find (identity_key provider tenant user) (identities s))"

section \<open>Laws\<close>

interpretation init_lease: lease th_thread_id init_free "\<lambda>c e t. (init_take c e t)\<lparr>th_updated_at := now\<rparr>" for now
  by unfold_locales (auto simp: init_free_def init_take_def split: option.splits)

end
