(* ===== verification/App_Ports.thy ===== *)
theory App_Ports
  imports App_Schema A2A_Types
begin

text \<open>
  What the application side is composed of (\<^verbatim>\<open>runtime.py\<close>, \<^verbatim>\<open>agents/registry.py\<close>, \<^verbatim>\<open>ports/\<close>):
  the domain events of \<^verbatim>\<open>domain.py\<close>, the registry of agents, the A2A SDK and the Slack gateway as
  parameters, and the observable calls a worker records. The SDK and the gateway act on
  the outside world \<open>'q\<close> only.
\<close>

section \<open>Domain events\<close>

record slack_message_received =
  sm_slack_event_id :: string
  sm_team_id :: string
  sm_channel_id :: string
  sm_thread_ts :: string
  sm_message_ts :: string
  sm_user_id :: string
  sm_text :: string
  sm_command :: string
  sm_link_thread_id :: "string option"
  sm_channel_type :: "string option"
  sm_event_type :: string

record slack_control_reply =
  cr_team_id :: string
  cr_channel_id :: string
  cr_thread_ts :: string
  cr_text :: string

record slack_projection_requested =
  pr_request_id :: string
  pr_thread_id :: string
  pr_task_id :: string
  pr_binding_id :: string
  pr_team_id :: string
  pr_channel_id :: string
  pr_thread_ts :: string
  pr_user_id :: string
  pr_source_message_ts :: "string option"

record slack_work_started =
  ws_request_id :: string
  ws_team_id :: string
  ws_channel_id :: string
  ws_thread_ts :: string
  ws_message_ts :: string
  ws_user_id :: string

record slack_stop_requested =
  sp_event_id :: string
  sp_team_id :: string
  sp_channel_id :: string
  sp_thread_ts :: string
  sp_user_id :: string

record slack_tool_confirmation =
  tc_interaction_id :: string
  tc_team_id :: string
  tc_channel_id :: string
  tc_thread_ts :: string
  tc_user_id :: string
  tc_task_id :: string
  tc_input_request_id :: string
  tc_approved :: bool
  tc_reason :: "string option"
  tc_response_message_ts :: "string option"

record a2a_task_updated =
  tu_delivery_id :: string
  tu_agent_id :: string
  tu_task_id :: string
  tu_thread_id :: string
  tu_context_id :: string
  tu_event_kind :: string
  tu_task_state :: "string option"

datatype domain_event =
    Slack_message_received slack_message_received
  | Slack_control_reply_requested slack_control_reply
  | Slack_task_projection_requested slack_projection_requested
  | Slack_work_started slack_work_started
  | Slack_thread_stop_requested slack_stop_requested
  | Slack_tool_confirmation_requested slack_tool_confirmation
  | A2A_task_updated a2a_task_updated

text \<open>\<open>TaskState.Name(state).removeprefix("TASK_STATE_")\<close>\<close>

fun task_state_name :: "task_state \<Rightarrow> string" where
  "task_state_name TASK_STATE_UNSPECIFIED = ''UNSPECIFIED''"
| "task_state_name TASK_STATE_SUBMITTED = ''SUBMITTED''"
| "task_state_name TASK_STATE_WORKING = ''WORKING''"
| "task_state_name TASK_STATE_COMPLETED = ''COMPLETED''"
| "task_state_name TASK_STATE_FAILED = ''FAILED''"
| "task_state_name TASK_STATE_CANCELED = ''CANCELED''"
| "task_state_name TASK_STATE_INPUT_REQUIRED = ''INPUT_REQUIRED''"
| "task_state_name TASK_STATE_REJECTED = ''REJECTED''"
| "task_state_name TASK_STATE_AUTH_REQUIRED = ''AUTH_REQUIRED''"

section \<open>Agents\<close>

record agent_registration =
  ar_agent_id :: string
  ar_endpoint :: string
  ar_required_profile :: string

record agent_card =
  ac_interfaces :: "(string \<times> string) list"
  ac_streaming :: bool
  ac_push_notifications :: bool
  ac_extensions :: "string list"

text \<open>An exception of the A2A SDK, as far as the client looks at it.\<close>

datatype a2a_error =
    Invalid_params_error string
  | Invalid_request_error string
  | Method_not_found_error string
  | Client_http_error int string
  | Other_a2a_error string

text \<open>
  The calls of the SDK, each on an endpoint. \<open>sdk_send_a2a\<close> gives the first Task of the
  response stream, \<open>None\<close> when the stream ends without one.
\<close>

record 'q a2a_sdk =
  sdk_agent_card :: "string \<Rightarrow> 'q \<Rightarrow> (error + agent_card) \<times> 'q"
  sdk_send_a2a :: "string \<Rightarrow> a2a_message \<Rightarrow> bool \<Rightarrow> 'q \<Rightarrow> (a2a_error + a2a_task option) \<times> 'q"
  sdk_get_task :: "string \<Rightarrow> string \<Rightarrow> bool \<Rightarrow> 'q \<Rightarrow> (error + a2a_task) \<times> 'q"
  sdk_list_tasks :: "string \<Rightarrow> string \<Rightarrow> int \<Rightarrow> string \<Rightarrow> 'q \<Rightarrow> (error + a2a_task list \<times> string) \<times> 'q"
  sdk_cancel_task :: "string \<Rightarrow> string \<Rightarrow> 'q \<Rightarrow> (error + a2a_task) \<times> 'q"
  sdk_create_push :: "string \<Rightarrow> string \<Rightarrow> string \<Rightarrow> string \<Rightarrow> 'q \<Rightarrow> (error + unit) \<times> 'q"

section \<open>Slack\<close>

datatype slack_status = Suspended | Processing | Active

text \<open>
  The gateway. Blocks and chunks are JSON values; a reply and a stream are named by the
  timestamp Slack gives them.
\<close>

record 'q slack_gateway =
  gw_post_reply :: "string \<Rightarrow> string \<Rightarrow> string \<Rightarrow> json list option \<Rightarrow> 'q \<Rightarrow> (error + string) \<times> 'q"
  gw_update_message :: "string \<Rightarrow> string \<Rightarrow> string \<Rightarrow> json list \<Rightarrow> 'q \<Rightarrow> (error + unit) \<times> 'q"
  gw_set_agent_status :: "string \<Rightarrow> string \<Rightarrow> slack_status \<Rightarrow> string option \<Rightarrow> string option \<Rightarrow> 'q \<Rightarrow> (error + unit) \<times> 'q"
  gw_start_stream :: "string \<Rightarrow> string \<Rightarrow> string \<Rightarrow> string \<Rightarrow> json list \<Rightarrow> 'q \<Rightarrow> (error + string) \<times> 'q"
  gw_append_chunks :: "string \<Rightarrow> string \<Rightarrow> json list \<Rightarrow> 'q \<Rightarrow> (error + unit) \<times> 'q"
  gw_stop_stream :: "string \<Rightarrow> string \<Rightarrow> json list \<Rightarrow> slack_status \<Rightarrow> 'q \<Rightarrow> (error + unit) \<times> 'q"
  gw_permalink :: "string \<Rightarrow> string \<Rightarrow> 'q \<Rightarrow> (error + string) \<times> 'q"
  gw_add_reaction :: "string \<Rightarrow> string \<Rightarrow> string \<Rightarrow> 'q \<Rightarrow> (error + unit) \<times> 'q"

section \<open>The environment of an application worker\<close>

record app_config =
  ac_event_sink_url :: string
  ac_team_allowlist :: "string option"
  ac_user_allowlist :: "string option"
  ac_has_bot_token :: bool
  ac_public_app_url :: string
  ac_receipt_reaction :: string
  ac_preview_enabled :: bool
  ac_slack_preview_enabled :: bool

text \<open>\<open>error_text\<close> is \<open>str\<close> of an exception.\<close>

record 'q app_env =
  app_rt :: "(domain_event, 'q) app rt"
  a2a_of :: "'q a2a_sdk"
  slack_of :: "'q slack_gateway"
  registrations :: "agent_registration list"
  default_agent :: "string option"
  cfg :: app_config
  slack_preview_of :: "(string \<Rightarrow> string \<Rightarrow> string \<Rightarrow> 'q \<Rightarrow> (error + unit) \<times> 'q) option"
  error_text :: "error \<Rightarrow> string"

text \<open>A call that reaches only the outside world.\<close>

definition on_world :: "('q \<Rightarrow> (error + 'a) \<times> 'q) \<Rightarrow> (('e, 'q) app, 'a) comp" where
  "on_world f = (\<lambda>s. case f (world s) of (r, q) \<Rightarrow> (r, s\<lparr>world := q\<rparr>))"

text \<open>\<open>EventBus.publish\<close>.\<close>

definition publish :: "'e \<Rightarrow> (('e, 'q) app, unit) comp" where
  "publish ev = (\<lambda>s. (Inr (), s\<lparr>bus := bus s @ [ev]\<rparr>))"

text \<open>
  What a worker records: every message it sends to a controller, every cancellation, every item
  it acquires for posting, and everything it shows in Slack.
\<close>

datatype app_obs =
    Sent_message string a2a_message bool
  | Cancelled string string
  | Claimed_item "string \<times> string \<times> item_kind \<times> string"
  | Shown_item "string \<times> string \<times> item_kind \<times> string" string
  | Started_stream string string string
  | Updated_message string string string

text \<open>The card cache of \<open>A2AControllerClient\<close>: agent, time of expiry, card.\<close>

type_synonym card_cache = "(string \<times> int \<times> agent_card) list"

type_synonym 'q app_worker = "((domain_event, 'q) app, card_cache, app_obs) run"

definition agent_of :: "'q app_env \<Rightarrow> string \<Rightarrow> agent_registration option" where
  "agent_of X agent_id = find (\<lambda>r. ar_agent_id r = agent_id) (registrations X)"

end
