(* ===== verification/Control_Plane.thy ===== *)
theory Control_Plane
  imports Thread_Repository App_Ports
begin

text \<open>
  \<^verbatim>\<open>a2a_client/client.py\<close> (class \<open>A2AControllerClient\<close>) and \<^verbatim>\<open>agent_control_plane/\<close> (class
  \<open>ThreadAgentService\<close> and \<open>application_control_plane\<close>): how the application binds a logical turn of a
  thread to a task of the controller. The claim on the context of a thread makes the first
  turn exclusive; the message identifier makes every turn repeatable.
\<close>

section \<open>The client\<close>

text \<open>\<open>_send_error\<close>: only an explicit rejection is definitive.\<close>

fun send_error :: "a2a_error \<Rightarrow> error" where
  "send_error (Invalid_params_error e) = DefinitiveA2ARequestError e"
| "send_error (Invalid_request_error e) = DefinitiveA2ARequestError e"
| "send_error (Method_not_found_error e) = DefinitiveA2ARequestError e"
| "send_error (Client_http_error code e) =
     (if code \<in> {401, 403, 404, 405} then DefinitiveA2ARequestError e else AmbiguousA2ATransportError e)"
| "send_error (Other_a2a_error e) = AmbiguousA2ATransportError e"

definition profile_error :: "agent_registration \<Rightarrow> agent_card \<Rightarrow> error option" where
  "profile_error reg crd =
     (if \<not> list_ex (\<lambda>(binding, url). binding = ''HTTP+JSON'' \<and> rstrip_slash url = rstrip_slash (ar_endpoint reg))
          (ac_interfaces crd)
      then Some (ControllerProfileError ''Controller has no matching HTTP+JSON interface'')
      else if \<not> ac_streaming crd \<or> \<not> ac_push_notifications crd
      then Some (ControllerProfileError ''Controller must support streaming and push'')
      else if ar_required_profile reg \<notin> set (ac_extensions crd)
      then Some (ControllerProfileError ''Controller does not advertise its required profile'')
      else None)"

definition card_ttl :: int where
  "card_ttl = 300 * 1000000"

definition fetch_entry :: "'q app_env \<Rightarrow> string \<Rightarrow> agent_registration
    \<Rightarrow> ('q app_worker, agent_registration \<times> agent_card) comp" where
  "fetch_entry X agent_id reg =
     bnd (call (app_rt X) (on_world (sdk_agent_card (a2a_of X) (ar_endpoint reg)))) (\<lambda>crd.
     case profile_error reg crd of
       Some e \<Rightarrow> raise_err e
     | None \<Rightarrow>
         bnd (call (app_rt X) (app_reads app_clock)) (\<lambda>now.
         bnd get_locals (\<lambda>cache.
         bnd (set_locals ((agent_id, now + card_ttl, crd) # cache)) (\<lambda>_. ret (reg, crd)))))"

definition entry :: "'q app_env \<Rightarrow> string \<Rightarrow> ('q app_worker, agent_registration \<times> agent_card) comp" where
  "entry X agent_id =
     (case agent_of X agent_id of
        None \<Rightarrow> raise_err (KeyError (''Unknown agent: '' @ agent_id))
      | Some reg \<Rightarrow>
          bnd get_locals (\<lambda>cache.
          case map_of cache agent_id of
            None \<Rightarrow> fetch_entry X agent_id reg
          | Some (expires, crd) \<Rightarrow>
              bnd (call (app_rt X) (app_reads app_clock)) (\<lambda>now.
              if expires > now then ret (reg, crd) else fetch_entry X agent_id reg)))"

definition get_agent_card :: "'q app_env \<Rightarrow> string \<Rightarrow> ('q app_worker, agent_card) comp" where
  "get_agent_card X agent_id = bnd (entry X agent_id) (\<lambda>(reg, crd). ret crd)"

definition validate_profile :: "'q app_env \<Rightarrow> string \<Rightarrow> ('q app_worker, bool) comp" where
  "validate_profile X agent_id =
     bnd (get_agent_card X agent_id) (\<lambda>crd. ret (HUMAN_INPUT_EXTENSION_URI \<in> set (ac_extensions crd)))"

text \<open>Every exception of the send itself goes through \<open>_send_error\<close>.\<close>

definition client_send :: "'q app_env \<Rightarrow> string \<Rightarrow> a2a_message \<Rightarrow> bool \<Rightarrow> ('q app_worker, a2a_task) comp" where
  "client_send X agent_id message human_input =
     bnd (entry X agent_id) (\<lambda>(reg, crd).
     bnd (if human_input
          then bnd (validate_profile X agent_id) (\<lambda>ok.
            if ok then ret () else raise_err (ControllerProfileError ''Controller does not support human-input/v1''))
          else ret ()) (\<lambda>_.
     bnd (observe (Sent_message agent_id message human_input)) (\<lambda>_.
     bnd (try_except
           (call (app_rt X) (on_world (\<lambda>q. case sdk_send_a2a (a2a_of X) (ar_endpoint reg) message human_input q of
              (r, q') \<Rightarrow> (Inr r, q'))))
           (except_exception (\<lambda>e. ret (Inl (Other_a2a_error (error_text X e)))))) (\<lambda>result.
     case result of
       Inl e \<Rightarrow> raise_err (send_error e)
     | Inr None \<Rightarrow> raise_err (AmbiguousA2ATransportError ''Controller did not return a Task'')
     | Inr (Some task) \<Rightarrow> ret task))))"

definition client_get_task :: "'q app_env \<Rightarrow> string \<Rightarrow> string \<Rightarrow> bool \<Rightarrow> ('q app_worker, a2a_task) comp" where
  "client_get_task X agent_id task_id human_input =
     bnd (entry X agent_id) (\<lambda>(reg, crd).
     call (app_rt X) (on_world (sdk_get_task (a2a_of X) (ar_endpoint reg) task_id human_input)))"

definition client_list_tasks :: "'q app_env \<Rightarrow> string \<Rightarrow> string \<Rightarrow> int \<Rightarrow> string
    \<Rightarrow> ('q app_worker, a2a_task list \<times> string) comp" where
  "client_list_tasks X agent_id context_id page_size token =
     bnd (entry X agent_id) (\<lambda>(reg, crd).
     call (app_rt X) (on_world (sdk_list_tasks (a2a_of X) (ar_endpoint reg) context_id page_size token)))"

definition client_cancel :: "'q app_env \<Rightarrow> string \<Rightarrow> string \<Rightarrow> ('q app_worker, a2a_task) comp" where
  "client_cancel X agent_id task_id =
     bnd (entry X agent_id) (\<lambda>(reg, crd).
     bnd (observe (Cancelled agent_id task_id)) (\<lambda>_.
     call (app_rt X) (on_world (sdk_cancel_task (a2a_of X) (ar_endpoint reg) task_id))))"

definition client_create_push :: "'q app_env \<Rightarrow> string \<Rightarrow> string \<Rightarrow> string \<Rightarrow> string \<Rightarrow> ('q app_worker, unit) comp" where
  "client_create_push X agent_id task_id config_id url =
     bnd (entry X agent_id) (\<lambda>(reg, crd).
     call (app_rt X) (on_world (sdk_create_push (a2a_of X) (ar_endpoint reg) task_id config_id url)))"

section \<open>The service\<close>

definition the_thread :: "'q app_env \<Rightarrow> string \<Rightarrow> ('q app_worker, thread_row) comp" where
  "the_thread X tid = bnd (call (app_rt X) (app_reads (get_thread tid))) (\<lambda>found.
     case found of None \<Rightarrow> raise_err (KeyError ''Unknown thread'') | Some t \<Rightarrow> ret t)"

text \<open>
  Eleven attempts at the claim on the context. The result is the context and the claim, of
  which at most one is given, as in the variables of the source.
\<close>

primrec claim_context :: "nat \<Rightarrow> 'q app_env \<Rightarrow> string \<Rightarrow> ('q app_worker, string \<times> string) comp" where
  "claim_context 0 X tid = ret ([], [])"
| "claim_context (Suc n) X tid =
     bnd (fresh_uuid (app_rt X)) (\<lambda>new_claim.
     bnd (call (app_rt X) (claim_context_initialization new_claim tid 30)) (\<lambda>claim.
     case claim of
       Claim_acquired claim_id \<Rightarrow> ret ([], claim_id)
     | Claim_ready context_id \<Rightarrow> ret (context_id, [])
     | Claim_busy \<Rightarrow> claim_context n X tid))"

definition turn_message :: "string \<Rightarrow> string \<Rightarrow> string \<Rightarrow> a2a_message" where
  "turn_message mid context_id body = \<lparr>msg_id = mid, msg_context_id = context_id, msg_task_id = [],
     msg_role = ROLE_USER, msg_parts = [Text_part body], msg_extensions = [], msg_metadata = []\<rparr>"

text \<open>The send under the claim: a definitive rejection releases it, any other failure keeps it.\<close>

definition send_claimed :: "'q app_env \<Rightarrow> string \<Rightarrow> string \<Rightarrow> string \<Rightarrow> a2a_message \<Rightarrow> ('q app_worker, a2a_task) comp" where
  "send_claimed X agent_id tid claim_id message =
     try_except (client_send X agent_id message False) (\<lambda>e. case e of
       DefinitiveA2ARequestError _ \<Rightarrow> Some
         (bnd (if claim_id \<noteq> [] then call (app_rt X) (release_context_initialization tid claim_id) else ret False)
          (\<lambda>_. raise_err e))
     | _ \<Rightarrow> None)"

definition bind_turn :: "'q app_env \<Rightarrow> string \<Rightarrow> string \<Rightarrow> string \<Rightarrow> string \<Rightarrow> a2a_task \<Rightarrow> ('q app_worker, unit) comp" where
  "bind_turn X tid mid context_id claim_id task =
     bnd (if claim_id \<noteq> [] then bnd (call (app_rt X) (bind_context tid claim_id (tk_context_id task))) (\<lambda>_. ret ())
          else if tk_context_id task \<noteq> context_id then raise_err (RuntimeError ''Controller changed the bound context'')
          else ret ()) (\<lambda>_.
     bnd (call (app_rt X) (bind_task_id tid mid (tk_id task))) (\<lambda>_. ret ()))"

definition set_up_push :: "'q app_env \<Rightarrow> string \<Rightarrow> a2a_task \<Rightarrow> ('q app_worker, unit) comp" where
  "set_up_push X agent_id task = try_except
     (client_create_push X agent_id (tk_id task) ''app-control-plane''
       (rstrip_slash (ac_event_sink_url (cfg X)) @ ''/'' @ agent_id))
     (except_exception (\<lambda>_. raise_err (RetryablePushSetupError (tk_id task))))"

definition send_turn :: "'q app_env \<Rightarrow> string \<Rightarrow> string \<Rightarrow> string \<Rightarrow> ('q app_worker, a2a_task) comp" where
  "send_turn X tid mid body =
     (if blank body \<or> mid = []
      then raise_err (ValueError ''A nonempty text and client message ID are required'')
      else
        bnd (the_thread X tid) (\<lambda>thread.
        let agent_id = th_agent_id thread in
        bnd (get_agent_card X agent_id) (\<lambda>_.
        bnd (fresh_uuid (app_rt X)) (\<lambda>new_id.
        bnd (call (app_rt X) (record_logical_send new_id tid agent_id mid)) (\<lambda>_.
        bnd (if truthy (th_context_id thread) then ret (py_str (th_context_id thread), [])
             else bnd (claim_context 11 X tid) (\<lambda>(context_id, claim_id).
               if context_id = [] \<and> claim_id = []
               then raise_err (RetryableControlPlaneError ''Thread context initialization is busy'')
               else ret (context_id, claim_id))) (\<lambda>(context_id, claim_id).
        bnd (send_claimed X agent_id tid claim_id (turn_message mid context_id body)) (\<lambda>task.
        bnd (bind_turn X tid mid context_id claim_id task) (\<lambda>_.
        bnd (set_up_push X agent_id task) (\<lambda>_. ret task)))))))))"

definition bound :: "'q app_env \<Rightarrow> string \<Rightarrow> string \<Rightarrow> ('q app_worker, thread_row) comp" where
  "bound X tid task_id =
     bnd (the_thread X tid) (\<lambda>thread.
     bnd (call (app_rt X) (app_reads (get_task_binding (th_agent_id thread) task_id))) (\<lambda>binding.
     case binding of
       None \<Rightarrow> raise_err (KeyError ''Task is not bound to this thread'')
     | Some r \<Rightarrow> if s_thread_id r \<noteq> tid then raise_err (KeyError ''Task is not bound to this thread'')
                 else ret thread))"

definition service_get_task :: "'q app_env \<Rightarrow> string \<Rightarrow> string \<Rightarrow> bool \<Rightarrow> ('q app_worker, a2a_task) comp" where
  "service_get_task X tid task_id human_input =
     bnd (bound X tid task_id) (\<lambda>thread.
     bnd (client_get_task X (th_agent_id thread) task_id human_input) (\<lambda>task.
     if th_context_id thread \<noteq> Some (tk_context_id task)
     then raise_err (RuntimeError ''Controller Task context does not match thread'')
     else ret task))"

definition service_cancel_task :: "'q app_env \<Rightarrow> string \<Rightarrow> string \<Rightarrow> ('q app_worker, a2a_task) comp" where
  "service_cancel_task X tid task_id =
     bnd (bound X tid task_id) (\<lambda>thread. client_cancel X (th_agent_id thread) task_id)"

definition response_message :: "string \<Rightarrow> string \<Rightarrow> string \<Rightarrow> json \<Rightarrow> a2a_message" where
  "response_message mid context_id task_id response = \<lparr>msg_id = mid, msg_context_id = context_id,
     msg_task_id = task_id, msg_role = ROLE_USER, msg_parts = [], msg_extensions = [HUMAN_INPUT_EXTENSION_URI],
     msg_metadata = [(HUMAN_INPUT_EXTENSION_URI, JObj [(''response'', response)])]\<rparr>"

definition continue_human_input :: "'q app_env \<Rightarrow> string \<Rightarrow> string \<Rightarrow> string \<Rightarrow> json \<Rightarrow> ('q app_worker, a2a_task) comp" where
  "continue_human_input X tid task_id mid response =
     bnd (bound X tid task_id) (\<lambda>thread.
     client_send X (th_agent_id thread)
       (response_message mid (py_str (th_context_id thread)) task_id response) True)"

text \<open>
  The loop over the pages ends when a page has no next token. \<open>fuel\<close> bounds the number of pages; a
  worker that has used it up is still reading.
\<close>

primrec list_pages :: "nat \<Rightarrow> 'q app_env \<Rightarrow> string \<Rightarrow> string \<Rightarrow> string \<Rightarrow> ('q app_worker, a2a_task list) comp" where
  "list_pages 0 X agent_id context_id token = raise_err Killed"
| "list_pages (Suc fuel) X agent_id context_id token =
     bnd (client_list_tasks X agent_id context_id 50 token) (\<lambda>(page, next_token).
     if next_token = [] then ret page
     else bnd (list_pages fuel X agent_id context_id next_token) (\<lambda>rest. ret (page @ rest)))"

definition service_list_tasks :: "nat \<Rightarrow> 'q app_env \<Rightarrow> string \<Rightarrow> ('q app_worker, a2a_task list) comp" where
  "service_list_tasks fuel X tid =
     bnd (the_thread X tid) (\<lambda>thread.
     if \<not> truthy (th_context_id thread) then ret []
     else list_pages fuel X (th_agent_id thread) (py_str (th_context_id thread)) [])"

definition active_task_state :: "task_state \<Rightarrow> bool" where
  "active_task_state st = (st \<in> {TASK_STATE_SUBMITTED, TASK_STATE_WORKING, TASK_STATE_INPUT_REQUIRED})"

definition get_active_task :: "nat \<Rightarrow> 'q app_env \<Rightarrow> string \<Rightarrow> bool \<Rightarrow> ('q app_worker, a2a_task option) comp" where
  "get_active_task fuel X tid human_input =
     bnd (service_list_tasks fuel X tid) (\<lambda>ts.
     case find (\<lambda>t. active_task_state (tk_state t)) ts of
       None \<Rightarrow> ret None
     | Some active \<Rightarrow>
         if human_input then bnd (service_get_task X tid (tk_id active) True) (\<lambda>t. ret (Some t))
         else ret (Some active))"

definition cancel_active_task :: "nat \<Rightarrow> 'q app_env \<Rightarrow> string \<Rightarrow> ('q app_worker, a2a_task option) comp" where
  "cancel_active_task fuel X tid =
     bnd (get_active_task fuel X tid False) (\<lambda>active.
     case active of
       None \<Rightarrow> ret None
     | Some t \<Rightarrow> bnd (service_cancel_task X tid (tk_id t)) (\<lambda>c. ret (Some c)))"

text \<open>\<open>application_control_plane\<close>: a client, with an empty card cache, for the body of one \<open>async with\<close>.\<close>

definition application_control_plane :: "'q app_env \<Rightarrow> ('q app_worker, 'a) comp \<Rightarrow> ('q app_worker, 'a) comp" where
  "application_control_plane X body =
     (if ac_event_sink_url (cfg X) = []
      then raise_err (RuntimeError ''A2A_EVENT_SINK_URL is required for application A2A execution'')
      else bnd (set_locals []) (\<lambda>_. body))"

end
