(* ===== verification/Slack_A2A_Repository.thy ===== *)
theory Slack_A2A_Repository
  imports App_Schema Lease
begin

text \<open>
  \<^verbatim>\<open>db/slack_a2a_repository.py\<close> (class \<open>SlackA2ARepository\<close>): claims on Slack events, on the
  projection of a task into a Slack thread, and on each message posted there. Every method is
  one transaction; identifiers drawn with \<open>uuid.uuid4()\<close> are arguments.
\<close>

datatype 'r claim = Acquired string 'r | Busy "'r option" | Completed "'r option"

text \<open>A lease that has a time of expiry which is over.\<close>

definition lapsed :: "int \<Rightarrow> int option \<Rightarrow> bool" where
  "lapsed now e = (case e of None \<Rightarrow> False | Some t \<Rightarrow> t \<le> now)"

lemma lapsed_simps [simp]: "lapsed now None = False" "lapsed now (Some t) = (t \<le> now)"
  by (simp_all add: lapsed_def)

section \<open>Slack events\<close>

definition new_ingress :: "string \<Rightarrow> string \<Rightarrow> string \<Rightarrow> int \<Rightarrow> ingress_row" where
  "new_ingress iid surface ev t = \<lparr>i_ingress_id = iid, i_surface = surface, i_external_event_id = ev,
     i_status = Received, i_thread_id = None, i_task_id = None, i_attempts = 0, i_claim_id = None,
     i_lease_expires_at = None, i_last_error = None, i_created_at = t, i_updated_at = t\<rparr>"

definition ingress_free :: "int \<Rightarrow> ingress_row \<Rightarrow> bool" where
  "ingress_free now r = (i_status r \<in> {Received, Ingress_failed}
     \<or> (i_status r = Sending \<and> lapsed now (i_lease_expires_at r)))"

definition ingress_take :: "string \<Rightarrow> int \<Rightarrow> ingress_row \<Rightarrow> ingress_row" where
  "ingress_take token expires r = r\<lparr>i_status := Sending, i_claim_id := Some token,
     i_lease_expires_at := Some expires, i_attempts := i_attempts r + 1\<rparr>"

definition claim_ingress :: "string \<Rightarrow> string \<Rightarrow> string \<Rightarrow> string \<Rightarrow> int \<Rightarrow> (('e, 'q) app, ingress_row claim) comp" where
  "claim_ingress token new_id surface ev lease_s = (\<lambda>s.
     let rows = (if (surface, ev) \<in> set (map ingress_key (ingress s)) then ingress s
                 else ingress s @ [new_ingress new_id surface ev (app_clock s)]);
         p = (\<lambda>r. ingress_key r = (surface, ev) \<and> ingress_free (app_clock s) r);
         f = (\<lambda>r. (ingress_take token (app_clock s + lease_s * 1000000) r)\<lparr>i_updated_at := app_clock s\<rparr>);
         current = find (\<lambda>r. ingress_key r = (surface, ev)) rows in
     case returning p f rows of
       Some row \<Rightarrow> (Inr (Acquired token row), s\<lparr>ingress := upd_rows p f rows\<rparr>)
     | None \<Rightarrow> (Inr (if (case current of None \<Rightarrow> False | Some r \<Rightarrow> i_status r = Sent)
                     then Completed current else Busy current), s\<lparr>ingress := rows\<rparr>))"

definition ingress_owned :: "string \<Rightarrow> string \<Rightarrow> string \<Rightarrow> ingress_row \<Rightarrow> bool" where
  "ingress_owned surface ev token r = (ingress_key r = (surface, ev) \<and> i_claim_id r = Some token)"

definition complete_ingress :: "string \<Rightarrow> string \<Rightarrow> string \<Rightarrow> string option \<Rightarrow> string option
    \<Rightarrow> (('e, 'q) app, unit) comp" where
  "complete_ingress surface ev token tid task = (\<lambda>s.
     let f = (\<lambda>r. r\<lparr>i_status := Sent, i_thread_id := tid, i_task_id := task, i_claim_id := None,
               i_lease_expires_at := None, i_last_error := None, i_updated_at := app_clock s\<rparr>) in
     if find (ingress_owned surface ev token) (ingress s) = None
     then (Inl (RuntimeError ''Ingress claim is stale''), s)
     else if (case tid of None \<Rightarrow> False | Some t \<Rightarrow> t \<notin> set (map th_thread_id (threads s)))
     then (Inl (ExternalError ''ForeignKeyViolation''), s)
     else (Inr (), s\<lparr>ingress := upd_rows (ingress_owned surface ev token) f (ingress s)\<rparr>))"

definition fail_ingress :: "string \<Rightarrow> string \<Rightarrow> string \<Rightarrow> string \<Rightarrow> (('e, 'q) app, unit) comp" where
  "fail_ingress surface ev token err = (\<lambda>s.
     let f = (\<lambda>r. r\<lparr>i_status := Ingress_failed, i_claim_id := None, i_lease_expires_at := None,
               i_last_error := Some (take 1000 err), i_updated_at := app_clock s\<rparr>) in
     (Inr (), s\<lparr>ingress := upd_rows (ingress_owned surface ev token) f (ingress s)\<rparr>))"

section \<open>Projections of tasks\<close>

definition new_projection :: "string \<Rightarrow> string \<Rightarrow> string option \<Rightarrow> string option \<Rightarrow> string option \<Rightarrow> int
    \<Rightarrow> projection_row" where
  "new_projection bid task req src user t = \<lparr>j_binding_id = bid, j_task_id = task, j_request_event_id = req,
     j_source_message_ts = src, j_initiator_user_id = user, j_status = Projection_pending,
     j_slack_message_ts = None, j_last_task_state = None, j_attempts = 0, j_claim_id = None,
     j_lease_expires_at = None, j_last_error = None, j_updated_at = t\<rparr>"

definition ensure_projection :: "string \<Rightarrow> string \<Rightarrow> string option \<Rightarrow> string option \<Rightarrow> string option
    \<Rightarrow> (('e, 'q) app, projection_row) comp" where
  "ensure_projection bid task req src user = (\<lambda>s.
     let p = (\<lambda>r. projection_key r = (bid, task));
         f = (\<lambda>r. r\<lparr>j_request_event_id := coalesce (j_request_event_id r) req,
               j_source_message_ts := coalesce (j_source_message_ts r) src,
               j_initiator_user_id := coalesce (j_initiator_user_id r) user\<rparr>) in
     case returning p f (projections s) of
       Some row \<Rightarrow> (Inr row, s\<lparr>projections := upd_rows p f (projections s)\<rparr>)
     | None \<Rightarrow>
         if bid \<notin> set (map b_binding_id (surface_bindings s)) then (Inl (ExternalError ''ForeignKeyViolation''), s)
         else let row = new_projection bid task req src user (app_clock s) in
              (Inr row, s\<lparr>projections := projections s @ [row]\<rparr>))"

definition get_projection :: "string \<Rightarrow> string \<Rightarrow> ('e, 'q) app \<Rightarrow> projection_row option" where
  "get_projection bid task s = find (\<lambda>r. projection_key r = (bid, task)) (projections s)"

definition stream_free :: "int \<Rightarrow> projection_row \<Rightarrow> bool" where
  "stream_free now r = (j_status r \<in> {Projection_pending, Fallback, Projection_completed}
     \<or> (j_status r = Streaming \<and> lapsed now (j_lease_expires_at r)))"

definition stream_take :: "string \<Rightarrow> int \<Rightarrow> projection_row \<Rightarrow> projection_row" where
  "stream_take token expires r = r\<lparr>j_status := Streaming, j_claim_id := Some token,
     j_lease_expires_at := Some expires, j_attempts := j_attempts r + 1\<rparr>"

definition claim_task_stream :: "string \<Rightarrow> string \<Rightarrow> string \<Rightarrow> int \<Rightarrow> (('e, 'q) app, projection_row claim) comp" where
  "claim_task_stream token bid task lease_s = (\<lambda>s.
     let p = (\<lambda>r. projection_key r = (bid, task) \<and> stream_free (app_clock s) r);
         f = (\<lambda>r. (stream_take token (app_clock s + lease_s * 1000000) r)\<lparr>j_updated_at := app_clock s\<rparr>);
         current = get_projection bid task s in
     case returning p f (projections s) of
       Some row \<Rightarrow> (Inr (Acquired token row), s\<lparr>projections := upd_rows p f (projections s)\<rparr>)
     | None \<Rightarrow> (Inr (if (case current of None \<Rightarrow> False | Some r \<Rightarrow> j_status r = Streaming)
                     then Busy current else Completed current), s))"

definition stream_owned :: "string \<Rightarrow> string \<Rightarrow> string \<Rightarrow> projection_row \<Rightarrow> bool" where
  "stream_owned bid task token r = (projection_key r = (bid, task) \<and> j_claim_id r = Some token)"

definition update_stream_message :: "string \<Rightarrow> string \<Rightarrow> string \<Rightarrow> string \<Rightarrow> (('e, 'q) app, unit) comp" where
  "update_stream_message bid task token ts = (\<lambda>s.
     (Inr (), s\<lparr>projections := upd_rows (stream_owned bid task token)
        (\<lambda>r. r\<lparr>j_slack_message_ts := Some ts, j_updated_at := app_clock s\<rparr>) (projections s)\<rparr>))"

definition settled_name :: "string option \<Rightarrow> bool" where
  "settled_name st = (st \<in> {Some ''INPUT_REQUIRED'', Some ''COMPLETED'', Some ''CANCELED'', Some ''FAILED'',
     Some ''REJECTED''})"

definition finish_stream :: "string \<Rightarrow> string \<Rightarrow> string \<Rightarrow> bool \<Rightarrow> string option \<Rightarrow> string option
    \<Rightarrow> (('e, 'q) app, unit) comp" where
  "finish_stream bid task token fallback st err = (\<lambda>s.
     (Inr (), s\<lparr>projections := upd_rows (stream_owned bid task token)
        (\<lambda>r. r\<lparr>j_status := (if fallback then Fallback
                 else if settled_name st then Projection_completed else Projection_pending),
               j_last_task_state := st,
               j_slack_message_ts := (if \<not> fallback \<and> settled_name st then None else j_slack_message_ts r),
               j_last_error := (if truthy err then map_option (take 1000) err else None),
               j_claim_id := None, j_lease_expires_at := None, j_updated_at := app_clock s\<rparr>) (projections s)\<rparr>))"

definition active_stream :: "string \<Rightarrow> string \<Rightarrow> ('e, 'q) app \<Rightarrow> bool" where
  "active_stream bid task s = list_ex (\<lambda>r. projection_key r = (bid, task) \<and> j_status r = Streaming
     \<and> (case j_lease_expires_at r of None \<Rightarrow> False | Some t \<Rightarrow> t > app_clock s)) (projections s)"

definition mark_projection :: "string \<Rightarrow> string \<Rightarrow> string \<Rightarrow> projection_status \<Rightarrow> (('e, 'q) app, unit) comp" where
  "mark_projection bid task st status = (\<lambda>s.
     (Inr (), s\<lparr>projections := upd_rows
        (\<lambda>r. projection_key r = (bid, task) \<and> (j_status r \<noteq> Streaming \<or> lapsed (app_clock s) (j_lease_expires_at r)))
        (\<lambda>r. r\<lparr>j_last_task_state := Some st, j_status := status,
               j_slack_message_ts := (if status = Projection_completed then None else j_slack_message_ts r),
               j_updated_at := app_clock s\<rparr>) (projections s)\<rparr>))"

section \<open>Posted items\<close>

definition human_input_messages :: "string \<Rightarrow> string \<Rightarrow> ('e, 'q) app \<Rightarrow> (string \<times> string) list" where
  "human_input_messages bid task s = List.map_filter
     (\<lambda>r. if m_binding_id r = bid \<and> m_task_id r = task \<and> m_kind r = Human_input \<and> m_status r = Posted
          then map_option (\<lambda>ts. (m_item_id r, ts)) (m_slack_message_ts r) else None) (items s)"

definition has_human_input_receipt :: "string \<Rightarrow> string \<Rightarrow> ('e, 'q) app \<Rightarrow> bool" where
  "has_human_input_receipt bid task s = list_ex (\<lambda>r. m_binding_id r = bid \<and> m_task_id r = task
     \<and> m_kind r = Human_input \<and> m_status r = Posted) (items s)"

definition close_human_input :: "string \<Rightarrow> string \<Rightarrow> string \<Rightarrow> (('e, 'q) app, unit) comp" where
  "close_human_input bid task item = (\<lambda>s.
     (Inr (), s\<lparr>items := upd_rows (\<lambda>r. item_key r = (bid, task, Human_input, item))
        (\<lambda>r. r\<lparr>m_slack_message_ts := None\<rparr>) (items s)\<rparr>))"

definition new_item :: "string \<Rightarrow> string \<Rightarrow> item_kind \<Rightarrow> string \<Rightarrow> item_row" where
  "new_item bid task kind item = \<lparr>m_binding_id = bid, m_task_id = task, m_kind = kind, m_item_id = item,
     m_status = Item_failed, m_attempts = 0, m_claim_id = None, m_lease_expires_at = None, m_last_error = None,
     m_slack_message_ts = None, m_projected_at = None\<rparr>"

definition item_free :: "int \<Rightarrow> item_row \<Rightarrow> bool" where
  "item_free now r = (m_status r = Item_failed \<or> (m_status r = Posting \<and> lapsed now (m_lease_expires_at r)))"

definition item_take :: "string \<Rightarrow> int \<Rightarrow> item_row \<Rightarrow> item_row" where
  "item_take token expires r = r\<lparr>m_status := Posting, m_claim_id := Some token,
     m_lease_expires_at := Some expires, m_attempts := m_attempts r + 1\<rparr>"

definition claim_item :: "string \<Rightarrow> string \<Rightarrow> string \<Rightarrow> item_kind \<Rightarrow> string \<Rightarrow> int
    \<Rightarrow> (('e, 'q) app, item_row claim) comp" where
  "claim_item token bid task kind item lease_s = (\<lambda>s.
     let k = (bid, task, kind, item);
         rows = (if k \<in> set (map item_key (items s)) then items s else items s @ [new_item bid task kind item]);
         p = (\<lambda>r. item_key r = k \<and> item_free (app_clock s) r);
         f = item_take token (app_clock s + lease_s * 1000000);
         current = find (\<lambda>r. item_key r = k) rows in
     case returning p f rows of
       Some row \<Rightarrow> (Inr (Acquired token row), s\<lparr>items := upd_rows p f rows\<rparr>)
     | None \<Rightarrow> (Inr (if (case current of None \<Rightarrow> False | Some r \<Rightarrow> m_status r = Posted)
                     then Completed current else Busy current), s\<lparr>items := rows\<rparr>))"

definition item_owned :: "string \<times> string \<times> item_kind \<times> string \<Rightarrow> string \<Rightarrow> item_row \<Rightarrow> bool" where
  "item_owned k token r = (item_key r = k \<and> m_claim_id r = Some token)"

text \<open>An empty error text counts as success, as an empty string is false.\<close>

definition finish_item :: "string \<Rightarrow> string \<Rightarrow> item_kind \<Rightarrow> string \<Rightarrow> string \<Rightarrow> string option \<Rightarrow> string option
    \<Rightarrow> (('e, 'q) app, unit) comp" where
  "finish_item bid task kind item token ts err = (\<lambda>s.
     (Inr (), s\<lparr>items := upd_rows (item_owned (bid, task, kind, item) token)
        (\<lambda>r. r\<lparr>m_status := (if truthy err then Item_failed else Posted), m_slack_message_ts := ts,
               m_last_error := (if truthy err then map_option (take 1000) err else None),
               m_projected_at := (if truthy err then None else Some (app_clock s)),
               m_claim_id := None, m_lease_expires_at := None\<rparr>) (items s)\<rparr>))"

section \<open>The leases\<close>

interpretation ingress_lease: lease ingress_key ingress_free "\<lambda>c e r. (ingress_take c e r)\<lparr>i_updated_at := now\<rparr>" for now
  by unfold_locales (auto simp: ingress_free_def ingress_take_def ingress_key_def)

interpretation stream_lease: lease projection_key stream_free "\<lambda>c e r. (stream_take c e r)\<lparr>j_updated_at := now\<rparr>" for now
  by unfold_locales (auto simp: stream_free_def stream_take_def projection_key_def)

interpretation item_lease: lease item_key item_free item_take
  by unfold_locales (auto simp: item_free_def item_take_def item_key_def)

end
