(* ===== verification/Agent_Input.thy ===== *)
theory Agent_Input
  imports Control_Plane Slack_A2A_Repository
begin

text \<open>
  \<^verbatim>\<open>handlers/agent_input.py\<close> and \<^verbatim>\<open>handlers/agent_input_sqs.py\<close>: the worker that turns Slack messages,
  stop requests and approval clicks into turns, cancellations and human-input responses of
  the thread a Slack thread is bound to. Every event is handled under a claim on its
  identifier, and only for a Slack identity that is mapped to the owner of the thread. Fault
  points of the test runtime (\<open>runtime.faults.hit\<close>) are steps that may fail.
\<close>

section \<open>Steps shared by the handlers\<close>

definition slack_filter :: "app_config \<Rightarrow> string \<Rightarrow> string \<Rightarrow> bool" where
  "slack_filter c team user =
     (if truthy (ac_team_allowlist c) \<and> ac_team_allowlist c \<noteq> Some team then False
      else \<not> truthy (ac_user_allowlist c) \<or> ac_user_allowlist c = Some user)"

definition authorize :: "'q app_env \<Rightarrow> string \<Rightarrow> string \<Rightarrow> ('q app_worker, string option) comp" where
  "authorize X team user =
     (if \<not> slack_filter (cfg X) team user then ret None
      else call (app_rt X) (app_reads (resolve_external_identity ''slack'' team user)))"

text \<open>\<open>_claim\<close>: a busy event is retried later, a completed one needs nothing.\<close>

definition claim_event :: "'q app_env \<Rightarrow> string \<Rightarrow> string \<Rightarrow> ('q app_worker, string option) comp" where
  "claim_event X surface event_id =
     bnd (fresh_uuid (app_rt X)) (\<lambda>token.
     bnd (fresh_uuid (app_rt X)) (\<lambda>new_id.
     bnd (call (app_rt X) (claim_ingress token new_id surface event_id 60)) (\<lambda>claim.
     case claim of
       Acquired tok row \<Rightarrow> ret (Some tok)
     | Busy row \<Rightarrow> raise_err (RetryableDeliveryError (''Ingress lease is active for '' @ surface @ '':'' @ event_id))
     | Completed row \<Rightarrow> ret None)))"

text \<open>A claimed event: what the handler raises is recorded on the event and raised again.\<close>

definition handled :: "'q app_env \<Rightarrow> string \<Rightarrow> string \<Rightarrow> string \<Rightarrow> ('q app_worker, unit) comp \<Rightarrow> ('q app_worker, unit) comp" where
  "handled X surface event_id token body =
     try_except body (except_exception (\<lambda>e.
       bnd (call (app_rt X) (fail_ingress surface event_id token (error_text X e))) (\<lambda>_. raise_err e)))"

definition external_thread :: "string \<Rightarrow> string \<Rightarrow> string" where
  "external_thread channel thread_ts = channel @ '':'' @ thread_ts"

definition slack_binding :: "'q app_env \<Rightarrow> string \<Rightarrow> string \<Rightarrow> string \<Rightarrow> ('q app_worker, binding_row option) comp" where
  "slack_binding X team channel thread_ts =
     call (app_rt X) (app_reads (get_surface_binding ''slack'' team (external_thread channel thread_ts)))"

definition owned_thread :: "'q app_env \<Rightarrow> string option \<Rightarrow> binding_row option \<Rightarrow> ('q app_worker, string option) comp" where
  "owned_thread X prin binding =
     (case binding of
        None \<Rightarrow> ret None
      | Some b \<Rightarrow>
          if \<not> truthy prin then ret None
          else bnd (call (app_rt X) (app_reads (owns_thread (py_str prin) (b_thread_id b)))) (\<lambda>owned.
               ret (if owned then Some (b_thread_id b) else None)))"

definition reply :: "'q app_env \<Rightarrow> string \<Rightarrow> string \<Rightarrow> string \<Rightarrow> string \<Rightarrow> ('q app_worker, unit) comp" where
  "reply X team channel thread_ts txt = call (app_rt X) (publish (Slack_control_reply_requested
     \<lparr>cr_team_id = team, cr_channel_id = channel, cr_thread_ts = thread_ts, cr_text = txt\<rparr>))"

definition announce_work :: "'q app_env \<Rightarrow> slack_message_received \<Rightarrow> ('q app_worker, unit) comp" where
  "announce_work X d = call (app_rt X) (publish (Slack_work_started
     \<lparr>ws_request_id = sm_slack_event_id d, ws_team_id = sm_team_id d, ws_channel_id = sm_channel_id d,
      ws_thread_ts = sm_thread_ts d, ws_message_ts = sm_message_ts d, ws_user_id = sm_user_id d\<rparr>))"

definition request_projection :: "'q app_env \<Rightarrow> slack_message_received \<Rightarrow> string \<Rightarrow> string \<Rightarrow> string
    \<Rightarrow> ('q app_worker, unit) comp" where
  "request_projection X d binding_id thread_id task_id =
     bnd (call (app_rt X) (ensure_projection binding_id task_id (Some (sm_slack_event_id d))
            (Some (sm_message_ts d)) (Some (sm_user_id d)))) (\<lambda>_.
     call (app_rt X) (publish (Slack_task_projection_requested
       \<lparr>pr_request_id = sm_slack_event_id d, pr_thread_id = thread_id, pr_task_id = task_id,
        pr_binding_id = binding_id, pr_team_id = sm_team_id d, pr_channel_id = sm_channel_id d,
        pr_thread_ts = sm_thread_ts d, pr_user_id = sm_user_id d,
        pr_source_message_ts = Some (sm_message_ts d)\<rparr>)))"

definition application_agent_id :: "'q app_env \<Rightarrow> ('q app_worker, string) comp" where
  "application_agent_id X = (case default_agent X of
     None \<Rightarrow> raise_err (RuntimeError ''CMA application agent is not registered'')
   | Some a \<Rightarrow> (case agent_of X a of
       None \<Rightarrow> raise_err (RuntimeError ''CMA application agent is not registered'')
     | Some reg \<Rightarrow> ret (ar_agent_id reg)))"

definition fault_point :: "'q app_env \<Rightarrow> ('q app_worker, unit) comp" where
  "fault_point X = call (app_rt X) (ret ())"

definition with_slack :: "'q app_env \<Rightarrow> ('q slack_gateway \<Rightarrow> ('q app_worker, 'a) comp) \<Rightarrow> ('q app_worker, 'a) comp" where
  "with_slack X f = (if ac_has_bot_token (cfg X) then f (slack_of X)
     else raise_err (RuntimeError ''Slack bot token is not configured''))"

section \<open>Messages\<close>

definition complete_event :: "'q app_env \<Rightarrow> string \<Rightarrow> string \<Rightarrow> string \<Rightarrow> string option \<Rightarrow> string option
    \<Rightarrow> ('q app_worker, unit) comp" where
  "complete_event X surface event_id token tid task =
     call (app_rt X) (complete_ingress surface event_id token tid task)"

definition link_existing :: "'q app_env \<Rightarrow> string \<Rightarrow> string \<Rightarrow> string \<Rightarrow> string \<Rightarrow> string option
    \<Rightarrow> ('q app_worker, string option) comp" where
  "link_existing X prin team channel thread_ts thread_id =
     bnd (if truthy thread_id then call (app_rt X) (app_reads (get_thread (py_str thread_id))) else ret None) (\<lambda>target.
     bnd (case target of
            None \<Rightarrow> ret False
          | Some t \<Rightarrow> call (app_rt X) (app_reads (owns_thread prin (th_thread_id t)))) (\<lambda>owned.
     case target of
       None \<Rightarrow> bnd (reply X team channel thread_ts ''That thread does not exist or is not owned by your identity.'')
                (\<lambda>_. ret None)
     | Some t \<Rightarrow>
         if \<not> owned
         then bnd (reply X team channel thread_ts ''That thread does not exist or is not owned by your identity.'')
                (\<lambda>_. ret None)
         else
           bnd (slack_binding X team channel thread_ts) (\<lambda>binding.
           if (case binding of None \<Rightarrow> False | Some b \<Rightarrow> Some (b_thread_id b) \<noteq> thread_id)
           then bnd (reply X team channel thread_ts ''This Slack thread is already linked to another thread.'')
                  (\<lambda>_. ret None)
           else
             bnd (fresh_uuid (app_rt X)) (\<lambda>new_id.
             bnd (try_except
                   (bnd (call (app_rt X) (bind_surface new_id (th_thread_id t) ''slack'' team
                          (external_thread channel thread_ts))) (\<lambda>_. ret True))
                   (\<lambda>e. case e of BindingConflict _ \<Rightarrow> Some (ret False) | _ \<Rightarrow> None)) (\<lambda>linked.
             if linked
             then bnd (reply X team channel thread_ts (''Linked this thread to Claude thread '' @ py_str thread_id @ ''.''))
                    (\<lambda>_. ret thread_id)
             else bnd (reply X team channel thread_ts ''This Slack thread is already linked to another thread.'')
                    (\<lambda>_. ret None))))))"

definition message_id_of :: "slack_message_received \<Rightarrow> string" where
  "message_id_of d = ''slack:event:'' @ sm_team_id d @ '':'' @ sm_slack_event_id d"

text \<open>The turn of an authorized message.\<close>

definition take_turn :: "nat \<Rightarrow> 'q app_env \<Rightarrow> slack_message_received \<Rightarrow> string \<Rightarrow> string \<Rightarrow> ('q app_worker, unit) comp" where
  "take_turn fuel X d token prin =
     bnd (application_agent_id X) (\<lambda>agent_id.
     bnd (get_or_create_surface_thread fuel (app_rt X) prin agent_id ''slack'' (sm_team_id d)
            (external_thread (sm_channel_id d) (sm_thread_ts d)) (Some (take 60 (sm_text d)))) (\<lambda>(thread, binding).
     bnd (announce_work X d) (\<lambda>_.
     bnd (fault_point X) (\<lambda>_.
     bnd (application_control_plane X (send_turn X (th_thread_id thread) (message_id_of d) (sm_text d))) (\<lambda>task.
     bnd (fault_point X) (\<lambda>_.
     bnd (request_projection X d (b_binding_id binding) (th_thread_id thread) (tk_id task)) (\<lambda>_.
     bnd (fault_point X) (\<lambda>_.
     complete_event X ''slack'' (sm_slack_event_id d) token (Some (th_thread_id thread)) (Some (tk_id task))))))))))"

definition claimed_message :: "nat \<Rightarrow> 'q app_env \<Rightarrow> slack_message_received \<Rightarrow> string \<Rightarrow> binding_row option
    \<Rightarrow> ('q app_worker, unit) comp" where
  "claimed_message fuel X d token binding =
     bnd (authorize X (sm_team_id d) (sm_user_id d)) (\<lambda>prin.
     if \<not> truthy prin
     then bnd (reply X (sm_team_id d) (sm_channel_id d) (sm_thread_ts d)
                 ''This Slack identity is not linked to an application principal.'') (\<lambda>_.
          complete_event X ''slack'' (sm_slack_event_id d) token None None)
     else if sm_command d = ''link''
     then bnd (link_existing X (py_str prin) (sm_team_id d) (sm_channel_id d) (sm_thread_ts d) (sm_link_thread_id d))
            (\<lambda>tid. complete_event X ''slack'' (sm_slack_event_id d) token tid None)
     else if blank (sm_text d) then raise_err (ValueError ''Slack message is empty'')
     else
       bnd (if binding = None then ret True
            else bnd (owned_thread X prin binding) (\<lambda>tid. ret (truthy tid))) (\<lambda>allowed.
       if \<not> allowed
       then bnd (reply X (sm_team_id d) (sm_channel_id d) (sm_thread_ts d)
                   ''This request is not authorized for the linked thread.'') (\<lambda>_.
            complete_event X ''slack'' (sm_slack_event_id d) token None None)
       else take_turn fuel X d token (py_str prin)))"

definition on_message :: "nat \<Rightarrow> 'q app_env \<Rightarrow> slack_message_received \<Rightarrow> ('q app_worker, unit) comp" where
  "on_message fuel X d =
     bnd (slack_binding X (sm_team_id d) (sm_channel_id d) (sm_thread_ts d)) (\<lambda>binding.
     if sm_event_type d = ''message'' \<and> sm_channel_type d \<noteq> Some ''im'' \<and> binding = None then ret ()
     else
       bnd (claim_event X ''slack'' (sm_slack_event_id d)) (\<lambda>claim.
       case claim of
         None \<Rightarrow> ret ()
       | Some token \<Rightarrow> handled X ''slack'' (sm_slack_event_id d) token (claimed_message fuel X d token binding)))"

section \<open>Stop requests\<close>

definition claimed_stop :: "nat \<Rightarrow> 'q app_env \<Rightarrow> slack_stop_requested \<Rightarrow> string \<Rightarrow> ('q app_worker, unit) comp" where
  "claimed_stop fuel X d token =
     bnd (authorize X (sp_team_id d) (sp_user_id d)) (\<lambda>prin.
     bnd (slack_binding X (sp_team_id d) (sp_channel_id d) (sp_thread_ts d)) (\<lambda>binding.
     bnd (owned_thread X prin binding) (\<lambda>owned.
     bnd (if truthy owned
          then bnd (application_control_plane X (cancel_active_task fuel X (py_str owned))) (\<lambda>task.
               bnd (with_slack X (\<lambda>slack. call (app_rt X)
                     (on_world (gw_set_agent_status slack (sp_channel_id d) (sp_thread_ts d) Active None None)))) (\<lambda>_.
               ret (map_option tk_id task)))
          else ret None) (\<lambda>task_id.
     complete_event X ''slack-stop'' (sp_event_id d) token owned task_id))))"

definition on_stop :: "nat \<Rightarrow> 'q app_env \<Rightarrow> slack_stop_requested \<Rightarrow> ('q app_worker, unit) comp" where
  "on_stop fuel X d =
     bnd (claim_event X ''slack-stop'' (sp_event_id d)) (\<lambda>claim.
     case claim of
       None \<Rightarrow> ret ()
     | Some token \<Rightarrow> handled X ''slack-stop'' (sp_event_id d) token (claimed_stop fuel X d token))"

section \<open>Approval clicks\<close>

definition still_pending :: "string \<Rightarrow> a2a_task \<Rightarrow> error + bool" where
  "still_pending rid task = (case requests_from_task task of
     None \<Rightarrow> Inl (ValueError ''Invalid human-input/v1 request'')
   | Some rs \<Rightarrow> Inr (tk_state task = TASK_STATE_INPUT_REQUIRED \<and> rid \<in> set (map hi_request_id rs)))"

definition click_response :: "slack_tool_confirmation \<Rightarrow> json" where
  "click_response d = JObj ([(''kind'', JStr ''tool_approval''), (''requestId'', JStr (tc_input_request_id d)),
     (''decision'', JStr (if tc_approved d then ''allow'' else ''deny''))]
     @ (if truthy (tc_reason d) then [(''reason'', JStr (py_str (tc_reason d)))] else []))"

definition interaction_message_id :: "slack_tool_confirmation \<Rightarrow> string" where
  "interaction_message_id d = ''slack:interaction:'' @ tc_team_id d @ '':'' @ tc_interaction_id d"

text \<open>Whether the request was resolved already; a failed response counts as that when the request is gone.\<close>

definition submit_click :: "'q app_env \<Rightarrow> slack_tool_confirmation \<Rightarrow> string \<Rightarrow> ('q app_worker, bool) comp" where
  "submit_click X d tid =
     bnd (service_get_task X tid (tc_task_id d) True) (\<lambda>task.
     bnd (lift_sum (still_pending (tc_input_request_id d) task)) (\<lambda>pending.
     if \<not> pending then ret True
     else try_except
       (bnd (continue_human_input X tid (tc_task_id d) (interaction_message_id d) (click_response d)) (\<lambda>_. ret False))
       (except_exception (\<lambda>e.
          bnd (service_get_task X tid (tc_task_id d) True) (\<lambda>current.
          bnd (lift_sum (still_pending (tc_input_request_id d) current)) (\<lambda>still.
          if still then raise_err e else ret True))))))"

definition click_text :: "slack_tool_confirmation \<Rightarrow> bool \<Rightarrow> string" where
  "click_text d resolved =
     (if resolved then ''This approval was already resolved.''
      else (if tc_approved d then ''Approval submitted to OpenAPPA'' else ''Denial submitted to OpenAPPA'')
        @ '' by <@'' @ tc_user_id d @ ''>''
        @ (if truthy (tc_reason d) then [CHR 0x0A] @ ''Reason: '' @ py_str (tc_reason d) else []))"

definition claimed_click :: "'q app_env \<Rightarrow> slack_tool_confirmation \<Rightarrow> string \<Rightarrow> ('q app_worker, unit) comp" where
  "claimed_click X d token =
     bnd (authorize X (tc_team_id d) (tc_user_id d)) (\<lambda>prin.
     bnd (slack_binding X (tc_team_id d) (tc_channel_id d) (tc_thread_ts d)) (\<lambda>binding.
     bnd (owned_thread X prin binding) (\<lambda>owned.
     if \<not> truthy owned
     then complete_event X ''slack-interaction'' (tc_interaction_id d) token None None
     else
       bnd (application_control_plane X (submit_click X d (py_str owned))) (\<lambda>resolved.
       bnd (if truthy (tc_response_message_ts d)
            then with_slack X (\<lambda>slack.
              bnd (observe (Updated_message (tc_channel_id d) (py_str (tc_response_message_ts d)) (click_text d resolved)))
              (\<lambda>_. call (app_rt X) (on_world (gw_update_message slack (tc_channel_id d)
                 (py_str (tc_response_message_ts d)) (click_text d resolved) []))))
            else ret ()) (\<lambda>_.
       bnd (if resolved then ret ()
            else with_slack X (\<lambda>slack. call (app_rt X)
              (on_world (gw_set_agent_status slack (tc_channel_id d) (tc_thread_ts d) Processing None None)))) (\<lambda>_.
       complete_event X ''slack-interaction'' (tc_interaction_id d) token owned (Some (tc_task_id d))))))))"

definition on_tool_confirmation :: "'q app_env \<Rightarrow> slack_tool_confirmation \<Rightarrow> ('q app_worker, unit) comp" where
  "on_tool_confirmation X d =
     bnd (claim_event X ''slack-interaction'' (tc_interaction_id d)) (\<lambda>claim.
     case claim of
       None \<Rightarrow> ret ()
     | Some token \<Rightarrow> handled X ''slack-interaction'' (tc_interaction_id d) token (claimed_click X d token))"

section \<open>Dispatch\<close>

text \<open>Events of other kinds belong to other workers and are ignored.\<close>

definition handle_input_event :: "nat \<Rightarrow> 'q app_env \<Rightarrow> domain_event \<Rightarrow> ('q app_worker, unit) comp" where
  "handle_input_event fuel X ev = (case ev of
     Slack_message_received d \<Rightarrow> on_message fuel X d
   | Slack_thread_stop_requested d \<Rightarrow> on_stop fuel X d
   | Slack_tool_confirmation_requested d \<Rightarrow> on_tool_confirmation X d
   | _ \<Rightarrow> ret ())"

text \<open>
  A batch of queue records. \<open>parse\<close> is \<open>json.loads\<close> with the validation of the event it names
  (\<open>None\<close> for a kind that no model describes). A record without a message identifier fails the
  whole batch, every other failure only its record.
\<close>

definition record_id :: "json \<Rightarrow> error + string" where
  "record_id r = (case r of
     JObj kvs \<Rightarrow> (case map_of kvs ''messageId'' of
        Some (JStr m) \<Rightarrow> if m = [] then Inl (ValueError ''SQS record is missing a usable messageId'') else Inr m
      | _ \<Rightarrow> Inl (ValueError ''SQS record is missing a usable messageId''))
   | _ \<Rightarrow> Inl (ValueError ''SQS record must be an object''))"

definition record_event :: "(string \<Rightarrow> error + domain_event option) \<Rightarrow> json \<Rightarrow> error + domain_event option" where
  "record_event parse r = (case r of
     JObj kvs \<Rightarrow> (case map_of kvs ''body'' of
        Some (JStr b) \<Rightarrow> parse b
      | _ \<Rightarrow> Inl (ValueError ''SQS record body must be a JSON string''))
   | _ \<Rightarrow> Inl (ValueError ''SQS record must be an object''))"

definition handle_record :: "(string \<Rightarrow> error + domain_event option) \<Rightarrow> nat \<Rightarrow> 'q app_env \<Rightarrow> json
    \<Rightarrow> ('q app_worker, unit) comp" where
  "handle_record parse fuel X r = bnd (lift_sum (record_event parse r)) (\<lambda>ev.
     case ev of None \<Rightarrow> ret () | Some e \<Rightarrow> handle_input_event fuel X e)"

fun handle_records :: "(string \<Rightarrow> error + domain_event option) \<Rightarrow> nat \<Rightarrow> 'q app_env \<Rightarrow> json list
    \<Rightarrow> ('q app_worker, string list) comp" where
  "handle_records parse fuel X [] = ret []"
| "handle_records parse fuel X (r # rs) =
     bnd (lift_sum (record_id r)) (\<lambda>mid.
     bnd (try_except (bnd (handle_record parse fuel X r) (\<lambda>_. ret [])) (except_exception (\<lambda>_. ret [mid]))) (\<lambda>failed.
     bnd (handle_records parse fuel X rs) (\<lambda>failures. ret (failed @ failures))))"

definition handle_sqs_event :: "(string \<Rightarrow> error + domain_event option) \<Rightarrow> nat \<Rightarrow> 'q app_env \<Rightarrow> json option
    \<Rightarrow> ('q app_worker, string list) comp" where
  "handle_sqs_event parse fuel X records = (case records of
     Some (JArr rs) \<Rightarrow> handle_records parse fuel X rs
   | _ \<Rightarrow> raise_err (ValueError ''SQS event must contain a Records list''))"

end
