(* ===== verification/Slack_Blocks.thy ===== *)
theory Slack_Blocks
  imports Json_Text
begin

text \<open>
  \<^verbatim>\<open>slack/blocks.py\<close>: the JSON that the projector shows in Slack. Shown here: the blocks of a long
  text are its pieces in order, none longer than Slack allows.
\<close>

section \<open>Chunks and blocks\<close>

definition markdown_text_chunk :: "string \<Rightarrow> json" where
  "markdown_text_chunk t = JObj [(''type'', JStr ''markdown_text''), (''text'', JStr t)]"

text \<open>\<open>text[start : start + 3000] for start in range(0, len(text), 3000)\<close>\<close>

fun text_pieces :: "nat \<Rightarrow> string \<Rightarrow> string list" where
  "text_pieces n s = (if s = [] \<or> n = 0 then [] else take n s # text_pieces n (drop n s))"

declare text_pieces.simps [simp del]

definition section_block :: "string \<Rightarrow> json" where
  "section_block t = JObj [(''type'', JStr ''section''),
     (''text'', JObj [(''type'', JStr ''mrkdwn''), (''text'', JStr t)])]"

definition response_text_blocks :: "string \<Rightarrow> json list" where
  "response_text_blocks t = map section_block (text_pieces 3000 t)"

definition working_task_chunk :: "string \<Rightarrow> string option \<Rightarrow> json" where
  "working_task_chunk request_id permalink = JObj ([(''type'', JStr ''task_update''),
     (''id'', JStr (''request:'' @ request_id)), (''title'', JStr ''Working on request''),
     (''status'', JStr ''in_progress'')]
     @ (if truthy permalink then [(''sources'', JArr [JObj [(''type'', JStr ''url''),
          (''text'', JStr ''Original message''), (''url'', JStr (py_str permalink))]])] else []))"

definition settled_title :: "string \<Rightarrow> bool \<Rightarrow> string" where
  "settled_title st approval =
     (if st = ''COMPLETED'' then ''Request complete''
      else if st = ''INPUT_REQUIRED'' then (if approval then ''Waiting for your approval'' else ''Waiting for your answer'')
      else if st = ''CANCELED'' then ''Request stopped''
      else if st = ''FAILED'' then ''Request failed''
      else if st = ''REJECTED'' then ''Request rejected''
      else ''Request ended'')"

definition settled_task_chunk :: "string \<Rightarrow> string \<Rightarrow> bool \<Rightarrow> json" where
  "settled_task_chunk request_id st approval = JObj [(''type'', JStr ''task_update''),
     (''id'', JStr (''request:'' @ request_id)), (''title'', JStr (settled_title st approval)),
     (''status'', JStr ''complete'')]"

definition source_link_blocks :: "string option \<Rightarrow> json list" where
  "source_link_blocks permalink = (if \<not> truthy permalink then []
     else [JObj [(''type'', JStr ''context''), (''elements'', JArr [JObj [(''type'', JStr ''mrkdwn''),
            (''text'', JStr (''<'' @ py_str permalink @ ''|Original message>''))]])]])"

definition button :: "string \<Rightarrow> string \<Rightarrow> string \<Rightarrow> string \<Rightarrow> json" where
  "button action label style value = JObj [(''type'', JStr ''button''), (''action_id'', JStr action),
     (''text'', JObj [(''type'', JStr ''plain_text''), (''text'', JStr label)]), (''style'', JStr style),
     (''value'', JStr value)]"

definition button_value :: "string \<Rightarrow> string \<Rightarrow> string" where
  "button_value task_id request_id =
     dumps_compact (JObj [(''taskId'', JStr task_id), (''requestId'', JStr request_id)])"

definition clip :: "nat \<Rightarrow> string \<Rightarrow> string" where
  "clip n s = (if length s > n then take (n - 3) s @ ''...'' else s)"

definition tool_approval_blocks :: "string \<Rightarrow> string \<Rightarrow> string \<Rightarrow> json \<Rightarrow> string option \<Rightarrow> json list" where
  "tool_approval_blocks task_id request_id name args explanation =
     (let rendered = clip 2500 (dumps_indented 0 args); value = button_value task_id request_id in
      response_text_blocks (if truthy explanation then py_str explanation
         else ''OpenAPPA requests review of this exact call.'')
      @ [JObj [(''type'', JStr ''section''), (''text'', JObj [(''type'', JStr ''mrkdwn''), (''verbatim'', JBool True),
           (''text'', JStr (''*Agent wants to run a tool*'' @ [CHR 0x0A] @ ''*Tool:* `'' @ name @ ''`''
              @ [CHR 0x0A] @ ''```'' @ rendered @ ''```''))])],
         JObj [(''type'', JStr ''actions''), (''block_id'', JStr (''tool:'' @ request_id)),
           (''elements'', JArr [button ''agent_tool_allow'' ''Allow'' ''primary'' value,
              button ''agent_tool_deny'' ''Deny'' ''danger'' value])]])"

section \<open>Long texts\<close>

lemma concat_text_pieces: "0 < n \<Longrightarrow> concat (text_pieces n s) = s"
proof (induction n s rule: text_pieces.induct)
  case (1 n s)
  show ?case
  proof (cases "s = []")
    case False
    with 1 show ?thesis by (simp add: text_pieces.simps [of n s])
  qed (simp add: text_pieces.simps)
qed

lemma text_pieces_length: "x \<in> set (text_pieces n s) \<Longrightarrow> 0 < length x \<and> length x \<le> n"
proof (induction n s rule: text_pieces.induct)
  case (1 n s)
  then show ?case by (cases "s = [] \<or> n = 0") (auto simp: text_pieces.simps [of n s])
qed

end
