(* ===== verification/Slack_Projector.thy ===== *)
theory Slack_Projector
  imports Agent_Input Slack_Blocks
begin

text \<open>
  \<^verbatim>\<open>handlers/slack_projector.py\<close> and \<^verbatim>\<open>slack/a2a_projection.py\<close>: the worker that shows the current
  state of a task in the Slack threads bound to its thread. A projection is made under a
  lease on the task's stream; each message is posted under a claim of its own, so that a
  repeated projection does not post it again.
\<close>

section \<open>Decisions\<close>

definition agent_messages :: "a2a_task \<Rightarrow> a2a_message list" where
  "agent_messages task = filter (\<lambda>m. msg_role m = ROLE_AGENT \<and> msg_id m \<noteq> []) (tk_history task)"

fun part_text :: "part \<Rightarrow> string" where
  "part_text (Text_part t) = t"
| "part_text Other_part = []"

fun join :: "string \<Rightarrow> string list \<Rightarrow> string" where
  "join sep [] = []"
| "join sep [x] = x"
| "join sep (x # y # ys) = x @ sep @ join sep (y # ys)"

definition message_text :: "a2a_message \<Rightarrow> string" where
  "message_text m = py_strip (join [CHR 0x0A, CHR 0x0A] (filter (\<lambda>t. t \<noteq> []) (map part_text (msg_parts m))))"

definition task_slack_status :: "a2a_task \<Rightarrow> slack_status" where
  "task_slack_status task =
     (if tk_state task = TASK_STATE_INPUT_REQUIRED then Suspended
      else if tk_state task \<in> {TASK_STATE_SUBMITTED, TASK_STATE_WORKING} then Processing
      else Active)"

definition is_settled :: "a2a_task \<Rightarrow> bool" where
  "is_settled task = (tk_state task \<notin> {TASK_STATE_SUBMITTED, TASK_STATE_WORKING})"

text \<open>\<open>value.partition(":")\<close>\<close>

definition split_thread :: "string \<Rightarrow> error + (string \<times> string)" where
  "split_thread v = (case dropWhile (\<lambda>c. c \<noteq> CHR '':'') v of
     [] \<Rightarrow> Inl (ValueError ''Invalid Slack external thread ID'')
   | _ # rest \<Rightarrow> Inr (takeWhile (\<lambda>c. c \<noteq> CHR '':'') v, rest))"

text \<open>Where a projection goes.\<close>

record target =
  to_binding :: string
  to_task :: string
  to_channel :: string
  to_thread_ts :: string
  to_team :: string

definition target_item :: "target \<Rightarrow> item_kind \<Rightarrow> string \<Rightarrow> string \<times> string \<times> item_kind \<times> string" where
  "target_item T kind item = (to_binding T, to_task T, kind, item)"

section \<open>One item\<close>

text \<open>\<open>repo.claim_item\<close>, with the acquired item recorded.\<close>

definition acquire_item :: "'q app_env \<Rightarrow> target \<Rightarrow> item_kind \<Rightarrow> string \<Rightarrow> string \<Rightarrow> ('q app_worker, string option) comp" where
  "acquire_item X T kind item busy =
     bnd (fresh_uuid (app_rt X)) (\<lambda>new_token.
     bnd (call (app_rt X) (claim_item new_token (to_binding T) (to_task T) kind item 60)) (\<lambda>claim.
     case claim of
       Busy row \<Rightarrow> raise_err (RuntimeError busy)
     | Completed row \<Rightarrow> ret None
     | Acquired token row \<Rightarrow> bnd (observe (Claimed_item (target_item T kind item))) (\<lambda>_. ret (Some token))))"

definition close_item :: "'q app_env \<Rightarrow> target \<Rightarrow> item_kind \<Rightarrow> string \<Rightarrow> string \<Rightarrow> string option \<Rightarrow> string option
    \<Rightarrow> ('q app_worker, unit) comp" where
  "close_item X T kind item token ts err =
     call (app_rt X) (finish_item (to_binding T) (to_task T) kind item token ts err)"

text \<open>Post under the claim; what goes wrong is recorded on the item and raised again.\<close>

definition post_item :: "'q app_env \<Rightarrow> target \<Rightarrow> item_kind \<Rightarrow> string \<Rightarrow> string \<Rightarrow> string
    \<Rightarrow> ('q app_worker, string) comp \<Rightarrow> ('q app_worker, unit) comp" where
  "post_item X T kind item token txt post =
     try_except
       (bnd (observe (Shown_item (target_item T kind item) txt)) (\<lambda>_.
        bnd post (\<lambda>ts. close_item X T kind item token (Some ts) None)))
       (except_exception (\<lambda>e.
          bnd (close_item X T kind item token None (Some (error_text X e))) (\<lambda>_. raise_err e)))"

definition post_text :: "'q app_env \<Rightarrow> target \<Rightarrow> string option \<Rightarrow> string option \<Rightarrow> string \<Rightarrow> ('q app_worker, string) comp" where
  "post_text X T stream_ts permalink txt =
     (if truthy stream_ts
      then bnd (call (app_rt X) (on_world (gw_append_chunks (slack_of X) (to_channel T) (py_str stream_ts)
                  [markdown_text_chunk txt]))) (\<lambda>_. ret (py_str stream_ts))
      else let link = source_link_blocks permalink in
        call (app_rt X) (on_world (gw_post_reply (slack_of X) (to_channel T) (to_thread_ts T) txt
          (if link = [] then None else Some (response_text_blocks txt @ link)))))"

definition project_message :: "'q app_env \<Rightarrow> target \<Rightarrow> string option \<Rightarrow> string option \<Rightarrow> a2a_message \<Rightarrow> ('q app_worker, unit) comp" where
  "project_message X T stream_ts permalink m =
     bnd (acquire_item X T Agent_message (msg_id m) ''Agent Message projection is busy'') (\<lambda>claim.
     case claim of
       None \<Rightarrow> ret ()
     | Some token \<Rightarrow>
         if message_text m = [] then close_item X T Agent_message (msg_id m) token None None
         else post_item X T Agent_message (msg_id m) token (message_text m)
                (post_text X T stream_ts permalink (message_text m)))"

fun request_text :: "hi_request \<Rightarrow> string" where
  "request_text (Tool_approval_request rid name args msg) = ''Agent wants to run '' @ name"
| "request_text (Clarification_request rid prompt choices) = prompt"

fun request_blocks :: "string \<Rightarrow> hi_request \<Rightarrow> json list option" where
  "request_blocks task_id (Tool_approval_request rid name args msg) =
     Some (tool_approval_blocks task_id rid name (JObj args) msg)"
| "request_blocks task_id (Clarification_request rid prompt choices) = None"

definition project_human_input :: "'q app_env \<Rightarrow> target \<Rightarrow> hi_request \<Rightarrow> ('q app_worker, unit) comp" where
  "project_human_input X T r =
     bnd (acquire_item X T Human_input (hi_request_id r) ''Human-input projection is busy'') (\<lambda>claim.
     case claim of
       None \<Rightarrow> ret ()
     | Some token \<Rightarrow> post_item X T Human_input (hi_request_id r) token (request_text r)
         (call (app_rt X) (on_world (gw_post_reply (slack_of X) (to_channel T) (to_thread_ts T) (request_text r)
           (request_blocks (to_task T) r)))))"

section \<open>One task\<close>

text \<open>Requests that are no longer pending lose their buttons.\<close>

definition retire_request :: "'q app_env \<Rightarrow> target \<Rightarrow> string set \<Rightarrow> string \<times> string \<Rightarrow> ('q app_worker, unit) comp" where
  "retire_request X T pending = (\<lambda>(item, ts).
     if item \<in> pending then ret ()
     else
       bnd (observe (Updated_message (to_channel T) ts ''This request is no longer pending.'')) (\<lambda>_.
       bnd (call (app_rt X) (on_world (gw_update_message (slack_of X) (to_channel T) ts
              ''This request is no longer pending.'' []))) (\<lambda>_.
       call (app_rt X) (close_human_input (to_binding T) (to_task T) item))))"

definition is_approval :: "hi_request \<Rightarrow> bool" where
  "is_approval r = (case r of Tool_approval_request _ _ _ _ \<Rightarrow> True | Clarification_request _ _ _ \<Rightarrow> False)"

definition decoded_requests :: "a2a_task \<Rightarrow> error + hi_request list" where
  "decoded_requests task = (case requests_from_task task of
     None \<Rightarrow> Inl (ValueError ''Invalid human-input/v1 request'') | Some rs \<Rightarrow> Inr rs)"

definition stop_card :: "'q app_env \<Rightarrow> target \<Rightarrow> a2a_task \<Rightarrow> hi_request list \<Rightarrow> string option \<Rightarrow> string option
    \<Rightarrow> ('q app_worker, unit) comp" where
  "stop_card X T task rs stream_ts request_id =
     (if truthy stream_ts \<and> is_settled task
      then call (app_rt X) (on_world (gw_stop_stream (slack_of X) (to_channel T) (py_str stream_ts)
        [settled_task_chunk (if truthy request_id then py_str request_id else to_task T)
           (task_state_name (tk_state task)) (list_ex is_approval rs)] (task_slack_status task)))
      else ret ())"

definition project_task :: "'q app_env \<Rightarrow> target \<Rightarrow> a2a_task \<Rightarrow> string option \<Rightarrow> string option \<Rightarrow> string option
    \<Rightarrow> ('q app_worker, unit) comp" where
  "project_task X T task stream_ts request_id permalink =
     bnd (for_m (agent_messages task) (project_message X T stream_ts permalink)) (\<lambda>_.
     bnd (lift_sum (decoded_requests task)) (\<lambda>rs.
     bnd (for_m (if tk_state task = TASK_STATE_INPUT_REQUIRED then rs else []) (project_human_input X T)) (\<lambda>_.
     bnd (call (app_rt X) (app_reads (human_input_messages (to_binding T) (to_task T)))) (\<lambda>posted.
     bnd (for_m posted (retire_request X T
            (if tk_state task = TASK_STATE_INPUT_REQUIRED then set (map hi_request_id rs) else {}))) (\<lambda>_.
     bnd (stop_card X T task rs stream_ts request_id) (\<lambda>_.
     bnd (call (app_rt X) (on_world (gw_set_agent_status (slack_of X) (to_channel T) (to_thread_ts T)
            (task_slack_status task) None None))) (\<lambda>_.
     call (app_rt X) (mark_projection (to_binding T) (to_task T) (task_state_name (tk_state task))
            (if is_settled task then Projection_completed else Projection_pending)))))))))"

section \<open>The projection\<close>

definition source_permalink :: "'q app_env \<Rightarrow> string \<Rightarrow> string option \<Rightarrow> ('q app_worker, string option) comp" where
  "source_permalink X channel source_ts =
     (if ac_public_app_url (cfg X) = [] \<or> \<not> truthy source_ts then ret None
      else try_except
        (bnd (call (app_rt X) (on_world (gw_permalink (slack_of X) channel (py_str source_ts)))) (\<lambda>l. ret (Some l)))
        (except_exception (\<lambda>_. ret None)))"

definition can_start :: "projection_row \<Rightarrow> bool" where
  "can_start row = (j_last_task_state row \<in> {None, Some ''SUBMITTED'', Some ''WORKING''}
     \<and> truthy (j_initiator_user_id row))"

text \<open>The stream to write to, and whether it was started just now. A stream that cannot be opened is not an error.\<close>

definition open_stream :: "'q app_env \<Rightarrow> target \<Rightarrow> string \<Rightarrow> projection_row \<Rightarrow> string option
    \<Rightarrow> ('q app_worker, string option \<times> string option) comp" where
  "open_stream X T token row permalink =
     (if \<not> can_start row \<or> truthy (j_slack_message_ts row) then ret (j_slack_message_ts row, None)
      else
        bnd (call (app_rt X) (app_reads (has_human_input_receipt (to_binding T) (to_task T)))) (\<lambda>receipt.
        if receipt then ret (j_slack_message_ts row, None)
        else try_except
          (bnd (observe (Started_stream (to_binding T) (to_task T) (to_channel T))) (\<lambda>_.
           bnd (call (app_rt X) (on_world (gw_start_stream (slack_of X) (to_channel T) (to_thread_ts T) (to_team T)
                  (py_str (j_initiator_user_id row))
                  [working_task_chunk (if truthy (j_request_event_id row) then py_str (j_request_event_id row)
                     else to_task T) permalink]))) (\<lambda>ts.
           bnd (call (app_rt X) (update_stream_message (to_binding T) (to_task T) token ts)) (\<lambda>_.
           ret (Some ts, Some ts)))))
          (except_exception (\<lambda>_. ret (None, None)))))"

text \<open>Under the stream's lease: an exception is recorded with the last known state and raised again.\<close>

definition guarded :: "'q app_env \<Rightarrow> target \<Rightarrow> string \<Rightarrow> string option \<Rightarrow> ('q app_worker, 'a) comp \<Rightarrow> ('q app_worker, 'a) comp" where
  "guarded X T token st m = try_except m (except_exception (\<lambda>e.
     bnd (call (app_rt X) (finish_stream (to_binding T) (to_task T) token True st (Some (error_text X e)))) (\<lambda>_.
     raise_err e)))"

definition show_task :: "'q app_env \<Rightarrow> target \<Rightarrow> string \<Rightarrow> projection_row \<Rightarrow> a2a_task \<Rightarrow> ('q app_worker, string option) comp" where
  "show_task X T token row task =
     bnd (source_permalink X (to_channel T) (j_source_message_ts row)) (\<lambda>permalink.
     bnd (open_stream X T token row permalink) (\<lambda>(stream_ts, new_stream).
     bnd (project_task X T task stream_ts (j_request_event_id row) permalink) (\<lambda>_.
     bnd (call (app_rt X) (finish_stream (to_binding T) (to_task T) token False
            (Some (task_state_name (tk_state task))) None)) (\<lambda>_.
     ret new_stream))))"

definition hint_preview :: "'q app_env \<Rightarrow> target \<Rightarrow> a2a_task \<Rightarrow> string option \<Rightarrow> ('q app_worker, unit) comp" where
  "hint_preview X T task new_stream =
     (if truthy new_stream \<and> tk_state task \<in> {TASK_STATE_SUBMITTED, TASK_STATE_WORKING}
        \<and> ac_preview_enabled (cfg X) \<and> ac_slack_preview_enabled (cfg X)
      then (case slack_preview_of X of
              None \<Rightarrow> ret ()
            | Some start \<Rightarrow> try_except
                (call (app_rt X) (on_world (start (to_binding T) (to_task T) (py_str new_stream))))
                (except_exception (\<lambda>_. ret ())))
      else ret ())"

definition reconcile_projection :: "'q app_env \<Rightarrow> string \<Rightarrow> target \<Rightarrow> ('q app_worker, unit) comp" where
  "reconcile_projection X tid T =
     bnd (fresh_uuid (app_rt X)) (\<lambda>new_token.
     bnd (call (app_rt X) (claim_task_stream new_token (to_binding T) (to_task T) 90)) (\<lambda>claim.
     case claim of
       Acquired token row \<Rightarrow>
         bnd (guarded X T token (j_last_task_state row)
                (application_control_plane X (service_get_task X tid (to_task T) True))) (\<lambda>task.
         bnd (guarded X T token (Some (task_state_name (tk_state task))) (show_task X T token row task)) (\<lambda>new_stream.
         hint_preview X T task new_stream))
     | _ \<Rightarrow> raise_err (RuntimeError ''Slack projection is busy; retry current Task later'')))"

section \<open>Events\<close>

definition project_started :: "'q app_env \<Rightarrow> slack_work_started \<Rightarrow> ('q app_worker, unit) comp" where
  "project_started X d =
     bnd (call (app_rt X) (on_world (gw_set_agent_status (slack_of X) (ws_channel_id d) (ws_thread_ts d) Processing
            (Some ''Claude thread'') (Some (ws_user_id d))))) (\<lambda>_.
     call (app_rt X) (on_world (gw_add_reaction (slack_of X) (ws_channel_id d) (ws_message_ts d)
            (ac_receipt_reaction (cfg X)))))"

definition initial_projection :: "'q app_env \<Rightarrow> slack_projection_requested \<Rightarrow> ('q app_worker, unit) comp" where
  "initial_projection X d =
     bnd (call (app_rt X) (ensure_projection (pr_binding_id d) (pr_task_id d) (Some (pr_request_id d))
            (pr_source_message_ts d) (Some (pr_user_id d)))) (\<lambda>_.
     reconcile_projection X (pr_thread_id d) \<lparr>to_binding = pr_binding_id d, to_task = pr_task_id d,
       to_channel = pr_channel_id d, to_thread_ts = pr_thread_ts d, to_team = pr_team_id d\<rparr>)"

definition update_binding :: "'q app_env \<Rightarrow> a2a_task_updated \<Rightarrow> binding_row \<Rightarrow> ('q app_worker, unit) comp" where
  "update_binding X d b =
     (if b_surface b \<noteq> ''slack'' then ret ()
      else
        bnd (lift_sum (split_thread (b_external_thread_id b))) (\<lambda>(channel, thread_ts).
        bnd (call (app_rt X) (ensure_projection (b_binding_id b) (tu_task_id d) None None None)) (\<lambda>_.
        reconcile_projection X (tu_thread_id d) \<lparr>to_binding = b_binding_id b, to_task = tu_task_id d,
          to_channel = channel, to_thread_ts = thread_ts, to_team = b_tenant_id b\<rparr>)))"

definition task_updated :: "'q app_env \<Rightarrow> a2a_task_updated \<Rightarrow> ('q app_worker, unit) comp" where
  "task_updated X d =
     bnd (call (app_rt X) (app_reads (list_surface_bindings (tu_thread_id d)))) (\<lambda>bindings.
     for_m bindings (update_binding X d))"

definition handle_projection_event :: "'q app_env \<Rightarrow> domain_event \<Rightarrow> ('q app_worker, unit) comp" where
  "handle_projection_event X ev = with_slack X (\<lambda>slack. case ev of
     Slack_control_reply_requested d \<Rightarrow>
       bnd (call (app_rt X) (on_world (gw_post_reply slack (cr_channel_id d) (cr_thread_ts d) (cr_text d) None))) (\<lambda>_. ret ())
   | Slack_work_started d \<Rightarrow> project_started X d
   | Slack_task_projection_requested d \<Rightarrow> initial_projection X d
   | A2A_task_updated d \<Rightarrow> task_updated X d
   | _ \<Rightarrow> ret ())"

end
