(* ===== verification/Event_Sink.thy ===== *)
theory Event_Sink
  imports Control_Plane
begin

text \<open>
  \<^verbatim>\<open>a2a_event_sink/app.py\<close> (\<open>receive\<close>): the private endpoint to which the controller pushes a changed
  task. It publishes an update only for a task that is bound to a thread whose agent and
  context agree with the push. Reading the body, its size limit, its decoding from JSON and the
  syntax of the headers belong to the HTTP framework; the model starts from the decoded
  envelope. \<open>body_hash\<close> is the SHA-256 of the body.
\<close>

datatype envelope =
    Task_payload a2a_task
  | Message_payload a2a_message
  | Status_payload string string task_state
  | Artifact_payload string string
  | No_payload

datatype push_reply = Push_ok | Push_error int string

fun envelope_kind :: "envelope \<Rightarrow> string" where
  "envelope_kind (Task_payload t) = ''task''"
| "envelope_kind (Message_payload m) = ''message''"
| "envelope_kind (Status_payload i c st) = ''status_update''"
| "envelope_kind (Artifact_payload i c) = ''artifact_update''"
| "envelope_kind No_payload = []"

fun envelope_ids :: "envelope \<Rightarrow> (string \<times> string) option" where
  "envelope_ids (Task_payload t) = Some (tk_id t, tk_context_id t)"
| "envelope_ids (Message_payload m) = Some (msg_task_id m, msg_context_id m)"
| "envelope_ids (Status_payload i c st) = Some (i, c)"
| "envelope_ids (Artifact_payload i c) = Some (i, c)"
| "envelope_ids No_payload = None"

fun envelope_state :: "envelope \<Rightarrow> task_state option" where
  "envelope_state (Task_payload t) = Some (tk_state t)"
| "envelope_state (Status_payload i c st) = Some st"
| "envelope_state _ = None"

text \<open>The zero value of the enumeration is false: it gives no state.\<close>

definition update_state :: "envelope \<Rightarrow> string option" where
  "update_state v = (case envelope_state v of
     None \<Rightarrow> None
   | Some st \<Rightarrow> if st = TASK_STATE_UNSPECIFIED then None else Some (task_state_name st))"

definition usable_id :: "string \<Rightarrow> bool" where
  "usable_id v = (\<not> blank v \<and> length v \<le> 512)"

definition receive_push :: "'q app_env \<Rightarrow> string \<Rightarrow> string \<Rightarrow> string \<Rightarrow> envelope \<Rightarrow> ('q app_worker, push_reply) comp" where
  "receive_push X agent_id delivery_id body_hash v =
     (case envelope_ids v of
        None \<Rightarrow> ret (Push_error 400 ''Push has no task identity'')
      | Some (task_id, context_id) \<Rightarrow>
          if \<not> usable_id task_id \<or> \<not> usable_id context_id \<or> agent_of X agent_id = None
          then ret (Push_error 400 ''Unknown agent or task identity'')
          else
            bnd (call (app_rt X) (app_reads (get_task_binding agent_id task_id))) (\<lambda>binding.
            bnd (case binding of
                   None \<Rightarrow> ret None
                 | Some b \<Rightarrow> call (app_rt X) (app_reads (get_thread (s_thread_id b)))) (\<lambda>thread.
            case thread of
              None \<Rightarrow> ret (Push_error 503 ''Task binding is not ready'')
            | Some t \<Rightarrow>
                if th_agent_id t \<noteq> agent_id \<or> th_context_id t \<noteq> Some context_id
                then ret (Push_error 409 ''Push context does not match thread'')
                else try_except
                  (bnd (call (app_rt X) (publish (A2A_task_updated
                     \<lparr>tu_delivery_id = (if delivery_id = [] then body_hash else delivery_id), tu_agent_id = agent_id,
                      tu_task_id = task_id, tu_thread_id = th_thread_id t, tu_context_id = context_id,
                      tu_event_kind = envelope_kind v, tu_task_state = update_state v\<rparr>))) (\<lambda>_. ret Push_ok))
                  (except_exception (\<lambda>_. ret (Push_error 503 ''Event publication failed''))))))"

end
