(* ===== verification/App_Steps.thy ===== *)
theory App_Steps
  imports Thread_Repository Slack_A2A_Repository
begin

text \<open>
  The application database as a transition system: one step is one transaction of any actor with
  any arguments, or a change outside the tables. Shown here: every step keeps the constraints
  of the schema and the discipline of claims (\<open>app_inv\<close>), and every step lets the rows evolve in
  one direction only (\<open>app_evolves\<close>): a thread keeps its owner and, once bound, its
  controller context; a logical send keeps the task it was bound to; a surface stays bound to
  its thread; an event that was handled and a message that was posted stay so.
\<close>

section \<open>Steps\<close>

definition same_app_tables :: "('e, 'q) app \<Rightarrow> ('e, 'q) app \<Rightarrow> bool" where
  "same_app_tables s s' = (principals s' = principals s \<and> identities s' = identities s \<and> threads s' = threads s
     \<and> surface_bindings s' = surface_bindings s \<and> sends s' = sends s \<and> ingress s' = ingress s
     \<and> projections s' = projections s \<and> items s' = items s \<and> app_clock s \<le> app_clock s')"

inductive app_step :: "('e, 'q) app \<Rightarrow> ('e, 'q) app \<Rightarrow> bool" where
  thread: "app_step s (snd (create_thread n pr ag ti s))"
| thread_idempotent: "app_step s (snd (create_thread_idempotent n pr ag rq ti s))"
| title: "app_step s (snd (update_title_if_empty th x s))"
| archive: "app_step s (snd (archive_thread pr th s))"
| restore: "app_step s (snd (restore_thread pr th s))"
| surface_thread: "app_step s (snd (insert_surface_thread n b pr ag su te ex ti s))"
| surface: "app_step s (snd (bind_surface b th su te ex s))"
| send: "app_step s (snd (record_logical_send n th ag mid s))"
| task: "app_step s (snd (bind_task_id th mid tk s))"
| claim_context: "app_step s (snd (claim_context_initialization cl th ls s))"
| bind_context: "app_step s (snd (bind_context th cl cx s))"
| release_context: "app_step s (snd (release_context_initialization th cl s))"
| principal: "app_step s (snd (ensure_principal pr s))"
| identity: "app_step s (snd (map_external_identity pr pv te us s))"
| claim_ingress: "app_step s (snd (claim_ingress tok n su ev ls s))"
| complete_ingress: "app_step s (snd (complete_ingress su ev tok tid tk s))"
| fail_ingress: "app_step s (snd (fail_ingress su ev tok er s))"
| projection: "app_step s (snd (ensure_projection b tk rq sr us s))"
| claim_stream: "app_step s (snd (claim_task_stream tok b tk ls s))"
| stream_message: "app_step s (snd (update_stream_message b tk tok ts s))"
| finish_stream: "app_step s (snd (finish_stream b tk tok fb st er s))"
| mark_projection: "app_step s (snd (mark_projection b tk st stt s))"
| close_input: "app_step s (snd (close_human_input b tk it s))"
| claim_item: "app_step s (snd (claim_item tok b tk ki it ls s))"
| finish_item: "app_step s (snd (finish_item b tk ki it tok ts er s))"
| elsewhere: "same_app_tables s s' \<Longrightarrow> app_step s s'"

section \<open>Invariant and evolution\<close>

text \<open>A claim is recorded only on a row in the state the claim protects.\<close>

definition claims_ok :: "('e, 'q) app \<Rightarrow> bool" where
  "claims_ok s = (list_all (\<lambda>r. i_claim_id r \<noteq> None \<longrightarrow> i_status r = Sending) (ingress s)
     \<and> list_all (\<lambda>r. m_claim_id r \<noteq> None \<longrightarrow> m_status r = Posting) (items s))"

definition app_inv :: "('e, 'q) app \<Rightarrow> bool" where
  "app_inv s = (app_ok s \<and> claims_ok s)"

definition thread_evolves :: "thread_row \<Rightarrow> thread_row \<Rightarrow> bool" where
  "thread_evolves t t' = (th_thread_id t' = th_thread_id t \<and> th_principal_id t' = th_principal_id t
     \<and> th_agent_id t' = th_agent_id t \<and> th_creation_request_id t' = th_creation_request_id t
     \<and> th_created_at t' = th_created_at t
     \<and> (th_context_state t = Context_ready \<longrightarrow>
          th_context_state t' = Context_ready \<and> th_context_id t' = th_context_id t))"

definition send_evolves :: "send_row \<Rightarrow> send_row \<Rightarrow> bool" where
  "send_evolves r r' = (send_key r' = send_key r \<and> s_agent_id r' = s_agent_id r
     \<and> s_task_binding_id r' = s_task_binding_id r
     \<and> (s_task_id r \<noteq> None \<longrightarrow> s_task_id r' = s_task_id r \<and> s_submission_status r' = s_submission_status r))"

definition ingress_evolves :: "ingress_row \<Rightarrow> ingress_row \<Rightarrow> bool" where
  "ingress_evolves r r' = (ingress_key r' = ingress_key r \<and> i_attempts r \<le> i_attempts r'
     \<and> (i_status r = Sent \<longrightarrow> r' = r))"

definition projection_evolves :: "projection_row \<Rightarrow> projection_row \<Rightarrow> bool" where
  "projection_evolves r r' = (projection_key r' = projection_key r \<and> j_attempts r \<le> j_attempts r'
     \<and> (j_request_event_id r \<noteq> None \<longrightarrow> j_request_event_id r' = j_request_event_id r)
     \<and> (j_initiator_user_id r \<noteq> None \<longrightarrow> j_initiator_user_id r' = j_initiator_user_id r))"

definition item_evolves :: "item_row \<Rightarrow> item_row \<Rightarrow> bool" where
  "item_evolves r r' = (item_key r' = item_key r \<and> m_attempts r \<le> m_attempts r'
     \<and> (m_status r = Posted \<longrightarrow> m_status r' = Posted \<and> m_attempts r' = m_attempts r \<and> m_claim_id r' = m_claim_id r))"

definition app_evolves :: "('e, 'q) app \<Rightarrow> ('e, 'q) app \<Rightarrow> bool" where
  "app_evolves s s' = (rows_evolve thread_evolves (threads s) (threads s')
     \<and> rows_evolve (=) (surface_bindings s) (surface_bindings s')
     \<and> rows_evolve send_evolves (sends s) (sends s')
     \<and> rows_evolve ingress_evolves (ingress s) (ingress s')
     \<and> rows_evolve projection_evolves (projections s) (projections s')
     \<and> rows_evolve item_evolves (items s) (items s')
     \<and> set (principals s) \<subseteq> set (principals s') \<and> app_clock s \<le> app_clock s')"

definition app_kept :: "('e, 'q) app \<Rightarrow> ('e, 'q) app \<Rightarrow> bool" where
  "app_kept s s' = (app_inv s \<longrightarrow> app_inv s' \<and> app_evolves s s')"

lemma app_row_refl [simp]:
  "thread_evolves t t" "send_evolves r r" "ingress_evolves i i" "projection_evolves j j" "item_evolves m m"
  by (simp_all add: thread_evolves_def send_evolves_def ingress_evolves_def projection_evolves_def item_evolves_def)

lemma app_row_trans:
  "thread_evolves t u \<Longrightarrow> thread_evolves u v \<Longrightarrow> thread_evolves t v"
  "send_evolves r r' \<Longrightarrow> send_evolves r' r'' \<Longrightarrow> send_evolves r r''"
  "ingress_evolves i i' \<Longrightarrow> ingress_evolves i' i'' \<Longrightarrow> ingress_evolves i i''"
  "projection_evolves j j' \<Longrightarrow> projection_evolves j' j'' \<Longrightarrow> projection_evolves j j''"
  "item_evolves m m' \<Longrightarrow> item_evolves m' m'' \<Longrightarrow> item_evolves m m''"
  by (auto simp: thread_evolves_def send_evolves_def ingress_evolves_def projection_evolves_def item_evolves_def)

lemma app_evolves_refl [simp]: "app_evolves s s"
  by (simp add: app_evolves_def rows_evolve_refl)

lemma app_evolves_trans: "app_evolves a b \<Longrightarrow> app_evolves b c \<Longrightarrow> app_evolves a c"
  unfolding app_evolves_def
  by (auto intro: rows_evolve_trans [OF app_row_trans(1)] rows_evolve_trans [OF app_row_trans(2)]
      rows_evolve_trans [OF app_row_trans(3)] rows_evolve_trans [OF app_row_trans(4)]
      rows_evolve_trans [OF app_row_trans(5)] rows_evolve_trans [of "(=)"])

lemma app_kept_refl [simp]: "app_kept s s"
  by (simp add: app_kept_def)

lemma app_kept_trans: "app_kept a b \<Longrightarrow> app_kept b c \<Longrightarrow> app_kept a c"
  by (auto simp: app_kept_def intro: app_evolves_trans)

section \<open>Changing one table\<close>

lemma unique_key_upd:
  assumes "unique_key k rows" "\<And>r. r \<in> set rows \<Longrightarrow> p r \<Longrightarrow> k (f r) = k r"
  shows "unique_key k (upd_rows p f rows)"
proof -
  have "List.map_filter k (upd_rows p f rows) = List.map_filter k rows"
    using assms(2) by (induction rows) (auto simp: upd_rows_simps List.map_filter_simps split: option.splits)
  with assms(1) show ?thesis by (simp add: unique_key_def)
qed

lemma unique_key_append:
  "unique_key k rows \<Longrightarrow> (k r = None \<or> k r \<notin> set (map k rows)) \<Longrightarrow> unique_key k (rows @ [r])"
  by (auto simp: unique_key_def List.map_filter_def split: option.splits) force

lemma unique_key_inj:
  assumes "unique_key k rows" "x \<in> set rows" "y \<in> set rows" "k x = Some c" "k y = Some c"
  shows "x = y"
  using assms
proof (induction rows)
  case (Cons r rows)
  have mem: "z \<in> set rows \<Longrightarrow> k z = Some c \<Longrightarrow> c \<in> set (List.map_filter k rows)" for z
    by (force simp: List.map_filter_def)
  from Cons show ?case
    by (cases "k r") (auto simp: unique_key_def List.map_filter_simps dest: mem)
qed simp

lemma thread_ids_upd:
  "(\<And>t. p t \<Longrightarrow> th_thread_id (f t) = th_thread_id t) \<Longrightarrow> map th_thread_id (upd_rows p f ts) = map th_thread_id ts"
  by (rule map_upd_rows)

text \<open>An update of threads that keeps their keys.\<close>

lemma app_kept_threads_upd:
  assumes "\<And>t. p t \<Longrightarrow> thread_check t \<Longrightarrow> thread_check (f t) \<and> thread_evolves t (f t)"
    and "\<And>ts. threads_ok ts \<Longrightarrow> ts = threads s \<Longrightarrow> unique_key context_key (upd_rows p f ts)"
  shows "app_kept s (s\<lparr>threads := upd_rows p f (threads s)\<rparr>)"
  unfolding app_kept_def
proof
  assume inv: "app_inv s"
  then have ts: "threads_ok (threads s)" by (simp add: app_inv_def app_ok_def)
  then have chk: "t \<in> set (threads s) \<Longrightarrow> thread_check t" for t by (simp add: threads_ok_def list_all_iff)
  have ev: "t \<in> set (threads s) \<Longrightarrow> p t \<Longrightarrow> thread_evolves t (f t)" for t using assms(1) chk by blast
  have ids: "map th_thread_id (upd_rows p f (threads s)) = map th_thread_id (threads s)"
    using ev by (intro map_upd_rows) (auto simp: thread_evolves_def)
  have "unique_key creation_key (upd_rows p f (threads s))"
    using ts ev by (intro unique_key_upd) (auto simp: threads_ok_def creation_key_def thread_evolves_def)
  moreover have "list_all thread_check (upd_rows p f (threads s))"
    using assms(1) chk by (auto simp: list_all_iff set_upd_rows)
  ultimately have "threads_ok (upd_rows p f (threads s))"
    using ts assms(2) [OF ts] by (simp add: threads_ok_def ids)
  moreover have "rows_evolve thread_evolves (threads s) (upd_rows p f (threads s))"
    using ev by (auto simp: rows_evolve_def nth_upd_rows)
  moreover have "set (map th_thread_id (upd_rows p f (threads s))) = set (map th_thread_id (threads s))"
    by (simp only: ids)
  ultimately show "app_inv (s\<lparr>threads := upd_rows p f (threads s)\<rparr>) \<and>
      app_evolves s (s\<lparr>threads := upd_rows p f (threads s)\<rparr>)"
    using inv by (simp add: app_inv_def app_ok_def claims_ok_def bindings_ok_def sends_ok_def
        app_evolves_def rows_evolve_refl)
qed

lemma app_kept_threads_same_context:
  assumes "\<And>t. p t \<Longrightarrow> thread_check t \<Longrightarrow> thread_check (f t) \<and> thread_evolves t (f t)"
    and "\<And>t. p t \<Longrightarrow> th_context_id (f t) = th_context_id t"
  shows "app_kept s (s\<lparr>threads := upd_rows p f (threads s)\<rparr>)"
proof (rule app_kept_threads_upd [OF assms(1)])
  fix ts assume ts: "threads_ok ts" "ts = threads s"
  then show "unique_key context_key (upd_rows p f ts)"
    using assms by (intro unique_key_upd)
      (auto simp: threads_ok_def context_key_def list_all_iff thread_evolves_def)
qed

lemma insert_thread_kept:
  assumes "th_context_state t = Uninitialized" "thread_check t"
  shows "app_kept s (snd (insert_thread t s))"
proof -
  have none: "context_key t = None" using assms by (simp add: thread_check_def context_key_def pair_opt_def)
  have "app_inv s \<Longrightarrow> app_inv (s\<lparr>threads := threads s @ [t]\<rparr>)"
    if "th_thread_id t \<notin> set (map th_thread_id (threads s))"
      "creation_key t = None \<or> creation_key t \<notin> set (map creation_key (threads s))"
    using that assms none
    by (auto simp: app_inv_def app_ok_def claims_ok_def threads_ok_def bindings_ok_def sends_ok_def
        unique_key_append list_all_iff)
  moreover have "app_evolves s (s\<lparr>threads := threads s @ [t]\<rparr>)"
    by (simp add: app_evolves_def rows_evolve_refl rows_evolve_append)
  ultimately show ?thesis by (cases "creation_key t") (auto simp: insert_thread_def app_kept_def)
qed

lemma new_thread_fresh [simp]:
  "th_context_state (new_thread a b c d e t) = Uninitialized" "thread_check (new_thread a b c d e t)"
  "th_thread_id (new_thread a b c d e t) = a" "th_context_id (new_thread a b c d e t) = None"
  "th_principal_id (new_thread a b c d e t) = b" "th_agent_id (new_thread a b c d e t) = c"
  "th_creation_request_id (new_thread a b c d e t) = d"
  by (simp_all add: new_thread_def thread_check_def)

text \<open>New bindings and sends, and updates of the tables that no other table refers to.\<close>

lemma app_kept_binding:
  assumes "binding_key b \<notin> set (map binding_key (surface_bindings s))"
    "b_binding_id b \<notin> set (map b_binding_id (surface_bindings s))" "b_thread_id b \<in> set (map th_thread_id (threads s))"
  shows "app_kept s (s\<lparr>surface_bindings := surface_bindings s @ [b]\<rparr>)"
  using assms
  by (auto simp: app_kept_def app_inv_def app_ok_def claims_ok_def bindings_ok_def app_evolves_def
      rows_evolve_refl rows_evolve_append list_all_iff)

lemma app_kept_send:
  assumes "send_key r \<notin> set (map send_key (sends s))"
    "s_task_binding_id r \<notin> set (map s_task_binding_id (sends s))" "s_thread_id r \<in> set (map th_thread_id (threads s))"
    "s_task_id r = None" "send_check r"
  shows "app_kept s (s\<lparr>sends := sends s @ [r]\<rparr>)"
  using assms
  by (auto simp: app_kept_def app_inv_def app_ok_def claims_ok_def sends_ok_def app_evolves_def
      rows_evolve_refl rows_evolve_append list_all_iff unique_key_append task_key_def pair_opt_def)

lemma app_kept_sends_upd:
  assumes "\<And>r. p r \<Longrightarrow> send_check (f r) \<and> send_evolves r (f r) \<and> s_thread_id (f r) = s_thread_id r"
    and "unique_key task_key (upd_rows p f (sends s))"
  shows "app_kept s (s\<lparr>sends := upd_rows p f (sends s)\<rparr>)"
proof -
  have "map send_key (upd_rows p f (sends s)) = map send_key (sends s)"
    "map s_task_binding_id (upd_rows p f (sends s)) = map s_task_binding_id (sends s)"
    using assms(1) by (auto intro!: map_upd_rows simp: send_evolves_def)
  then show ?thesis using assms
    by (auto simp: app_kept_def app_inv_def app_ok_def claims_ok_def sends_ok_def app_evolves_def
        rows_evolve_refl rows_evolve_upd list_all_iff set_upd_rows)
qed

lemma app_kept_projections:
  assumes "distinct (map projection_key (projections s)) \<Longrightarrow> distinct (map projection_key js)"
    and "rows_evolve projection_evolves (projections s) js"
  shows "app_kept s (s\<lparr>projections := js\<rparr>)"
  using assms by (auto simp: app_kept_def app_inv_def app_ok_def claims_ok_def app_evolves_def rows_evolve_refl)

lemma app_kept_projections_upd:
  assumes "\<And>r. p r \<Longrightarrow> projection_evolves r (f r)"
  shows "app_kept s (s\<lparr>projections := upd_rows p f (projections s)\<rparr>)"
proof (rule app_kept_projections)
  show "rows_evolve projection_evolves (projections s) (upd_rows p f (projections s))"
    using assms by (intro rows_evolve_upd) simp_all
qed (subst map_upd_rows, use assms in \<open>auto simp: projection_evolves_def\<close>)

lemma app_kept_ingress:
  assumes "app_inv s \<Longrightarrow> distinct (map ingress_key is)
      \<and> list_all (\<lambda>r. i_claim_id r \<noteq> None \<longrightarrow> i_status r = Sending) is
      \<and> rows_evolve ingress_evolves (ingress s) is"
  shows "app_kept s (s\<lparr>ingress := is\<rparr>)"
  using assms by (auto simp: app_kept_def app_inv_def app_ok_def claims_ok_def app_evolves_def rows_evolve_refl)

lemma app_kept_items:
  assumes "app_inv s \<Longrightarrow> distinct (map item_key ms)
      \<and> list_all (\<lambda>r. m_claim_id r \<noteq> None \<longrightarrow> m_status r = Posting) ms
      \<and> rows_evolve item_evolves (items s) ms"
  shows "app_kept s (s\<lparr>items := ms\<rparr>)"
  using assms by (auto simp: app_kept_def app_inv_def app_ok_def claims_ok_def app_evolves_def rows_evolve_refl)

section \<open>Every transaction\<close>

lemma snd_transaction: "app_kept s (snd (m s)) \<Longrightarrow> app_kept s (snd (transaction m s))"
  by (auto simp: transaction_def split: prod.splits sum.splits)

lemma app_kept_bnd:
  assumes "app_kept s (snd (m s))" "\<And>x s'. m s = (Inr x, s') \<Longrightarrow> app_kept s' (snd (f x s'))"
  shows "app_kept s (snd (bnd m f s))"
  using assms by (cases "m s") (auto simp: bnd_def intro: app_kept_trans split: sum.splits)

lemma create_thread_kept: "app_kept s (snd (create_thread n pr ag ti s))"
  by (simp add: create_thread_def raise_apply insert_thread_kept)

lemma create_thread_idempotent_kept: "app_kept s (snd (create_thread_idempotent n pr ag rq ti s))"
proof -
  let ?m = "case find (\<lambda>t. th_principal_id t = pr \<and> th_creation_request_id t = Some rq) (threads s) of
      Some row \<Rightarrow> ret row | None \<Rightarrow> insert_thread (new_thread n pr ag (Some rq) ti (app_clock s))"
  have "app_kept s (snd (?m s))" by (simp add: ret_apply insert_thread_kept split: option.splits)
  then show ?thesis unfolding create_thread_idempotent_def
    by (auto simp: raise_apply intro!: snd_transaction app_kept_bnd) (auto simp: raise_apply ret_apply)
qed

lemma thread_check_other [simp]:
  "thread_check (t\<lparr>th_updated_at := v\<rparr>) = thread_check t" "thread_check (t\<lparr>th_title := x\<rparr>) = thread_check t"
  "thread_check (t\<lparr>th_archived_at := a\<rparr>) = thread_check t"
  by (cases "th_context_state t"; simp add: thread_check_def)+

lemma thread_evolves_other [simp]:
  "thread_evolves t (t\<lparr>th_updated_at := v\<rparr>)" "thread_evolves t (t\<lparr>th_title := x, th_updated_at := v\<rparr>)"
  "thread_evolves t (t\<lparr>th_archived_at := a, th_updated_at := v\<rparr>)"
  by (simp_all add: thread_evolves_def)

lemma touch_kept:
  "app_kept s (snd (update_title_if_empty th x s))" "app_kept s (snd (archive_thread pr th s))"
  "app_kept s (snd (restore_thread pr th s))"
  unfolding update_title_if_empty_def archive_thread_def restore_thread_def touch_thread_def
  by (auto intro!: app_kept_threads_same_context)

lemma find_surface_none:
  "find (surface_key su te ex) bs = None \<Longrightarrow> (su, te, ex) \<notin> set (map binding_key bs)"
  by (auto simp: binding_key_def surface_key_def dest: find_NoneD)

lemma new_binding_simps [simp]:
  "binding_key (new_binding b th su te ex t) = (su, te, ex)" "b_binding_id (new_binding b th su te ex t) = b"
  "b_thread_id (new_binding b th su te ex t) = th"
  by (simp_all add: new_binding_def binding_key_def)

lemma insert_thread_result: "insert_thread t s = (Inr x, s') \<Longrightarrow> x = t \<and> s' = s\<lparr>threads := threads s @ [t]\<rparr>"
  by (auto simp: insert_thread_def split: if_splits)

lemma insert_surface_thread_kept: "app_kept s (snd (insert_surface_thread n b pr ag su te ex ti s))"
  unfolding insert_surface_thread_def
proof (intro snd_transaction app_kept_bnd insert_thread_kept new_thread_fresh)
  let ?t = "new_thread n pr ag None ti (app_clock s)"
  fix x s' assume "insert_thread ?t s = (Inr x, s')"
  then have s': "s' = s\<lparr>threads := threads s @ [?t]\<rparr>" by (blast dest: insert_thread_result)
  show "app_kept s' (snd (if find (surface_key su te ex) (surface_bindings s') \<noteq> None then (Inl creation_race, s')
       else if b \<in> set (map b_binding_id (surface_bindings s')) then (Inl UniqueViolation, s')
       else let b = new_binding b n su te ex (app_clock s') in
            (Inr (x, b), s'\<lparr>surface_bindings := surface_bindings s' @ [b]\<rparr>)))"
    using app_kept_binding [of "new_binding b n su te ex (app_clock s')" s'] find_surface_none
    by (auto simp: Let_def s')
qed

lemma bind_surface_kept: "app_kept s (snd (bind_surface b th su te ex s))"
  unfolding bind_surface_def get_surface_binding_def
  by (auto intro!: snd_transaction app_kept_binding dest!: find_surface_none simp: Let_def split: option.splits)

lemma touched_kept:
  "app_kept s (s\<lparr>threads := upd_rows p (\<lambda>t. t\<lparr>th_updated_at := v\<rparr>) (threads s)\<rparr>)"
  by (intro app_kept_threads_same_context) auto

lemma find_message_none: "find (message_key th mid) rs = None \<Longrightarrow> (th, mid) \<notin> set (map send_key rs)"
  by (auto simp: send_key_def message_key_def dest: find_NoneD)

lemma get_threadD: "get_thread th s = Some t \<Longrightarrow> t \<in> set (threads s) \<and> th_thread_id t = th"
  by (auto simp: get_thread_def dest: find_SomeD)

lemma record_logical_send_kept: "app_kept s (snd (record_logical_send n th ag mid s))"
proof -
  let ?touched = "upd_rows (\<lambda>t. th_thread_id t = th) (\<lambda>t. t\<lparr>th_updated_at := app_clock s\<rparr>) (threads s)"
  let ?row = "new_send n th ag mid (app_clock s)"
  have insert: "app_kept s (s\<lparr>threads := ?touched, sends := sends s @ [?row]\<rparr>)"
    if "get_thread th s = Some t" "find (message_key th mid) (sends s) = None"
      "n \<notin> set (map s_task_binding_id (sends s))" for t
  proof (rule app_kept_trans [OF touched_kept])
    have "map th_thread_id ?touched = map th_thread_id (threads s)" by (rule thread_ids_upd) simp
    with get_threadD [OF that(1)] have "th \<in> set (map th_thread_id ?touched)" by auto
    with find_message_none [OF that(2)] that(3)
    show "app_kept (s\<lparr>threads := ?touched\<rparr>) (s\<lparr>threads := ?touched, sends := sends s @ [?row]\<rparr>)"
      using app_kept_send [of ?row "s\<lparr>threads := ?touched\<rparr>"]
      by (simp add: new_send_def send_key_def send_check_def)
  qed
  then show ?thesis unfolding record_logical_send_def
    by (auto simp: raise_apply Let_def intro!: snd_transaction touched_kept split: option.splits)
qed

lemma bind_task_id_kept: "app_kept s (snd (bind_task_id th mid tk s))"
  unfolding bind_task_id_def
  by (auto simp: raise_apply Let_def send_check_def send_evolves_def send_key_def
      intro!: app_kept_sends_upd split: option.splits)

lemma claim_context_kept: "app_kept s (snd (claim_context_initialization cl th ls s))"
  unfolding claim_context_initialization_def
  by (auto simp: raise_apply Let_def init_take_def init_free_def thread_check_def thread_evolves_def
      intro!: app_kept_threads_same_context split: option.splits context_state.splits)

lemma release_context_kept: "app_kept s (snd (release_context_initialization th cl s))"
  unfolding release_context_initialization_def
  by (auto simp: Let_def thread_check_def thread_evolves_def intro!: app_kept_threads_same_context)

lemma bind_context_kept: "app_kept s (snd (bind_context th cl cx s))"
  unfolding bind_context_def
  by (auto simp: raise_apply Let_def thread_check_def thread_evolves_def
      intro!: app_kept_threads_upd split: option.splits)

lemma principal_kept: "app_kept s (snd (ensure_principal pr s))" "app_kept s (snd (map_external_identity pr pv te us s))"
  by (auto simp: ensure_principal_def map_external_identity_def app_kept_def app_inv_def app_ok_def claims_ok_def
      app_evolves_def rows_evolve_refl)

lemma app_kept_ingress_upd:
  assumes "\<And>r. p r \<Longrightarrow> i_claim_id r \<noteq> None \<longrightarrow> i_status r = Sending \<Longrightarrow>
      ingress_evolves r (f r) \<and> (i_claim_id (f r) \<noteq> None \<longrightarrow> i_status (f r) = Sending)"
  shows "app_kept s (s\<lparr>ingress := upd_rows p f (ingress s)\<rparr>)"
proof (rule app_kept_ingress, intro conjI)
  assume inv: "app_inv s"
  then have ok: "r \<in> set (ingress s) \<Longrightarrow> i_claim_id r \<noteq> None \<longrightarrow> i_status r = Sending" for r
    by (simp add: app_inv_def claims_ok_def list_all_iff)
  have "map ingress_key (upd_rows p f (ingress s)) = map ingress_key (ingress s)"
    using assms ok by (intro map_upd_rows) (auto simp: ingress_evolves_def)
  with inv show "distinct (map ingress_key (upd_rows p f (ingress s)))" by (simp add: app_inv_def app_ok_def)
  show "list_all (\<lambda>r. i_claim_id r \<noteq> None \<longrightarrow> i_status r = Sending) (upd_rows p f (ingress s))"
    using assms ok by (auto simp: list_all_iff set_upd_rows)
  show "rows_evolve ingress_evolves (ingress s) (upd_rows p f (ingress s))"
    using assms ok by (auto simp: rows_evolve_def nth_upd_rows)
qed

lemma app_kept_items_upd:
  assumes "\<And>r. p r \<Longrightarrow> m_claim_id r \<noteq> None \<longrightarrow> m_status r = Posting \<Longrightarrow>
      item_evolves r (f r) \<and> (m_claim_id (f r) \<noteq> None \<longrightarrow> m_status (f r) = Posting)"
  shows "app_kept s (s\<lparr>items := upd_rows p f (items s)\<rparr>)"
proof (rule app_kept_items, intro conjI)
  assume inv: "app_inv s"
  then have ok: "r \<in> set (items s) \<Longrightarrow> m_claim_id r \<noteq> None \<longrightarrow> m_status r = Posting" for r
    by (simp add: app_inv_def claims_ok_def list_all_iff)
  have "map item_key (upd_rows p f (items s)) = map item_key (items s)"
    using assms ok by (intro map_upd_rows) (auto simp: item_evolves_def)
  with inv show "distinct (map item_key (upd_rows p f (items s)))" by (simp add: app_inv_def app_ok_def)
  show "list_all (\<lambda>r. m_claim_id r \<noteq> None \<longrightarrow> m_status r = Posting) (upd_rows p f (items s))"
    using assms ok by (auto simp: list_all_iff set_upd_rows)
  show "rows_evolve item_evolves (items s) (upd_rows p f (items s))"
    using assms ok by (auto simp: rows_evolve_def nth_upd_rows)
qed

lemma app_kept_to: "t = t' \<Longrightarrow> app_kept s t' \<Longrightarrow> app_kept s t"
  by simp

lemma claim_ingress_kept: "app_kept s (snd (claim_ingress tok n su ev ls s))"
proof -
  let ?rows = "if (su, ev) \<in> set (map ingress_key (ingress s)) then ingress s
    else ingress s @ [new_ingress n su ev (app_clock s)]"
  have keys: "ingress_key (new_ingress n su ev t) = (su, ev)" "i_claim_id (new_ingress n su ev t) = None" for t
    by (simp_all add: new_ingress_def ingress_key_def)
  have rows: "app_kept s (s\<lparr>ingress := ?rows\<rparr>)"
    by (rule app_kept_ingress)
       (auto simp: app_inv_def app_ok_def claims_ok_def rows_evolve_refl rows_evolve_append keys)
  let ?p = "\<lambda>r. ingress_key r = (su, ev) \<and> ingress_free (app_clock s) r"
  have prem: "?p r \<Longrightarrow> ingress_evolves r ((ingress_take tok e r)\<lparr>i_updated_at := app_clock s\<rparr>)
     \<and> (i_claim_id ((ingress_take tok e r)\<lparr>i_updated_at := app_clock s\<rparr>) \<noteq> None
        \<longrightarrow> i_status ((ingress_take tok e r)\<lparr>i_updated_at := app_clock s\<rparr>) = Sending)" for r e
    by (auto simp: ingress_evolves_def ingress_take_def ingress_key_def ingress_free_def)
  have "app_kept (s\<lparr>ingress := ?rows\<rparr>) (s\<lparr>ingress := upd_rows ?p
      (\<lambda>r. (ingress_take tok e r)\<lparr>i_updated_at := app_clock s\<rparr>) ?rows\<rparr>)" for e
    by (rule app_kept_to [OF _ app_kept_ingress_upd [where p = ?p]], simp) (rule prem)
  with rows show ?thesis unfolding claim_ingress_def Let_def
    by (auto split: option.splits intro: app_kept_trans)
qed

lemma finish_ingress_kept:
  "app_kept s (snd (complete_ingress su ev tok tid tk s))" "app_kept s (snd (fail_ingress su ev tok er s))"
  unfolding complete_ingress_def fail_ingress_def Let_def
  by (auto intro!: app_kept_ingress_upd simp: ingress_owned_def ingress_evolves_def ingress_key_def)

lemma projection_ops_kept:
  "app_kept s (snd (claim_task_stream tok b tk ls s))" "app_kept s (snd (update_stream_message b tk tok ts s))"
  "app_kept s (snd (finish_stream b tk tok fb st er s))" "app_kept s (snd (mark_projection b tk sn stt s))"
  unfolding claim_task_stream_def update_stream_message_def finish_stream_def mark_projection_def Let_def
  by (auto intro!: app_kept_projections_upd simp: projection_evolves_def projection_key_def stream_take_def
      split: option.splits)

lemma ensure_projection_kept: "app_kept s (snd (ensure_projection b tk rq sr us s))"
proof (cases "find (\<lambda>r. projection_key r = (b, tk)) (projections s)")
  case None
  then have fresh: "(b, tk) \<notin> set (map projection_key (projections s))" by (auto dest!: find_NoneD)
  have key: "projection_key (new_projection b tk rq sr us t) = (b, tk)" for t
    by (simp add: new_projection_def projection_key_def)
  have "app_kept s (s\<lparr>projections := projections s @ [new_projection b tk rq sr us (app_clock s)]\<rparr>)"
    by (rule app_kept_projections) (use fresh in \<open>auto simp: key intro!: rows_evolve_append\<close>)
  with None show ?thesis by (simp add: ensure_projection_def returning_def Let_def)
next
  case (Some r)
  then show ?thesis
    by (auto simp: ensure_projection_def returning_def Let_def projection_evolves_def projection_key_def
        intro!: app_kept_projections_upd)
qed

lemma claim_item_kept: "app_kept s (snd (claim_item tok b tk ki it ls s))"
proof -
  let ?k = "(b, tk, ki, it)"
  let ?rows = "if ?k \<in> set (map item_key (items s)) then items s else items s @ [new_item b tk ki it]"
  have keys: "item_key (new_item b tk ki it) = ?k" "m_claim_id (new_item b tk ki it) = None"
    by (simp_all add: new_item_def item_key_def)
  have rows: "app_kept s (s\<lparr>items := ?rows\<rparr>)"
    by (rule app_kept_items)
       (auto simp: app_inv_def app_ok_def claims_ok_def rows_evolve_refl rows_evolve_append keys)
  let ?p = "\<lambda>r. item_key r = ?k \<and> item_free (app_clock s) r"
  have prem: "?p r \<Longrightarrow> item_evolves r (item_take tok e r)
     \<and> (m_claim_id (item_take tok e r) \<noteq> None \<longrightarrow> m_status (item_take tok e r) = Posting)" for r e
    by (auto simp: item_evolves_def item_take_def item_key_def item_free_def)
  have "app_kept (s\<lparr>items := ?rows\<rparr>) (s\<lparr>items := upd_rows ?p (item_take tok e) ?rows\<rparr>)" for e
    by (rule app_kept_to [OF _ app_kept_items_upd [where p = ?p]], simp) (rule prem)
  with rows show ?thesis unfolding claim_item_def Let_def
    by (auto split: option.splits intro: app_kept_trans)
qed

lemma item_ops_kept:
  "app_kept s (snd (close_human_input b tk it s))" "app_kept s (snd (finish_item b tk ki it tok ts er s))"
  unfolding close_human_input_def finish_item_def
  by (auto intro!: app_kept_items_upd simp: item_evolves_def item_key_def item_owned_def)

lemma app_elsewhere_kept: "same_app_tables s s' \<Longrightarrow> app_kept s s'"
  by (simp add: same_app_tables_def app_kept_def app_inv_def app_ok_def claims_ok_def app_evolves_def rows_evolve_refl)

lemma app_step_kept: "app_step s s' \<Longrightarrow> app_kept s s'"
  by (induction rule: app_step.induct)
     (simp_all add: create_thread_kept create_thread_idempotent_kept touch_kept insert_surface_thread_kept
       bind_surface_kept record_logical_send_kept bind_task_id_kept claim_context_kept release_context_kept
       bind_context_kept principal_kept claim_ingress_kept finish_ingress_kept projection_ops_kept
       ensure_projection_kept claim_item_kept item_ops_kept app_elsewhere_kept)

lemma app_steps_kept: "app_step\<^sup>*\<^sup>* s s' \<Longrightarrow> app_kept s s'"
  by (induction rule: rtranclp_induct) (auto intro: app_kept_trans app_step_kept)

end
