(* ===== verification/App_Contract.thy ===== *)
theory App_Contract
  imports Slack_Projector Event_Sink App_Steps
begin

text \<open>
  What a worker of the application needs from a relation on its states so that the whole worker
  keeps it: the relation is a preorder, it is kept by every transaction of the repositories, by
  every call outside the tables, by local steps and by the observations other than those about items; and
  it is kept by the two places that show an item in Slack, each taken as a whole. The locale proves it
  for the input worker, the projector and the event sink once; \<open>App_Safety\<close> interprets it.
\<close>

text \<open>Observations that belong to the showing of an item.\<close>

definition about_item :: "app_obs \<Rightarrow> bool" where
  "about_item x = (case x of Claimed_item k \<Rightarrow> True | Shown_item k t \<Rightarrow> True | _ \<Rightarrow> False)"

text \<open>An item is acquired and then shown, or closed without being shown.\<close>

definition show_section :: "'q app_env \<Rightarrow> target \<Rightarrow> item_kind \<Rightarrow> string \<Rightarrow> string \<Rightarrow> bool \<Rightarrow> string
    \<Rightarrow> ('q app_worker, string) comp \<Rightarrow> ('q app_worker, unit) comp" where
  "show_section X T kind item busy skip txt post =
     bnd (acquire_item X T kind item busy) (\<lambda>claim. case claim of
       None \<Rightarrow> ret ()
     | Some token \<Rightarrow> if skip then close_item X T kind item token None None
                    else post_item X T kind item token txt post)"

lemma project_message_section:
  "project_message X T st pl m = show_section X T Agent_message (msg_id m) ''Agent Message projection is busy''
     (message_text m = []) (message_text m) (post_text X T st pl (message_text m))"
  by (simp add: project_message_def show_section_def)

lemma project_human_input_section:
  "project_human_input X T r = show_section X T Human_input (hi_request_id r) ''Human-input projection is busy'' False
     (request_text r) (call (app_rt X) (on_world (gw_post_reply (slack_of X) (to_channel T) (to_thread_ts T) (request_text r)
           (request_blocks (to_task T) r))))"
  by (simp add: project_human_input_def show_section_def cong: option.case_cong)

lemma call_other_parts [simp]:
  "obs (snd (call Y f w)) = obs w" "locals (snd (call Y f w)) = locals w"
  by (auto simp: call_def Let_def split: fault.splits prod.splits)

lemma post_text_silent: "obs (snd (post_text X T st pl txt w)) = obs w"
  by (simp add: post_text_def Let_def bnd_def ret_def split: prod.splits sum.splits)
     (metis call_other_parts(1) snd_conv)

locale app_contract = step_relation R
  for R :: "'q app_worker \<Rightarrow> 'q app_worker \<Rightarrow> bool" +
  fixes X :: "'q app_env"
  assumes kept_step: "app_step (interfere (app_rt X) (tick w) (shared w)) s \<Longrightarrow> R w (w\<lparr>tick := Suc (tick w), shared := s\<rparr>)"
    and kept_tick: "R w (w\<lparr>tick := Suc (tick w)\<rparr>)"
    and kept_locals: "R w (w\<lparr>locals := l\<rparr>)"
    and kept_observe: "\<not> about_item x \<Longrightarrow> R w (w\<lparr>obs := obs w @ [x]\<rparr>)"
    and kept_show: "keeps R post \<Longrightarrow> (\<And>v. obs (snd (post v)) = obs v) \<Longrightarrow> keeps R (show_section X T kind item busy skip txt post)"
begin

lemma app_call:
  assumes "\<And>s. app_step s (snd (f s))"
  shows "keeps R (call (app_rt X) f)"
proof (rule keepsI)
  fix w :: "'q app_worker"
  have "app_step s s" for s :: "(domain_event, 'q) app" by (rule app_step.elsewhere) (simp add: same_app_tables_def)
  then show "R w (snd (call (app_rt X) f w))"
    using kept_step [of w] assms [of "interfere (app_rt X) (tick w) (shared w)"]
    by (auto simp: call_def Let_def split: fault.splits prod.splits)
qed

lemma app_quiet: "keeps R (fresh_uuid Y)" "keeps R (set_locals l)" "keeps R get_locals"
  using kept_tick kept_locals step_refl by (auto intro!: keepsI simp: fresh_uuid_def set_locals_def get_locals_def)

lemma app_observe: "\<not> about_item x \<Longrightarrow> keeps R (observe x)"
  using kept_observe by (auto intro!: keepsI simp: observe_def)

lemma app_observed:
  "keeps R (observe (Sent_message a m h))" "keeps R (observe (Cancelled a t))" "keeps R (observe (Started_stream b t c))"
  "keeps R (observe (Updated_message c t x))"
  by (auto intro!: app_observe simp: about_item_def)

lemma app_outside:
  "keeps R (call (app_rt X) (app_reads g))" "keeps R (call (app_rt X) (on_world h))"
  "keeps R (call (app_rt X) (publish ev))" "keeps R (call (app_rt X) (ret r))"
  by (rule app_call, rule app_step.elsewhere,
      auto simp: same_app_tables_def app_reads_def on_world_def publish_def ret_def split: prod.splits)+

lemma app_transactions:
  "keeps R (call (app_rt X) (insert_surface_thread n b pr ag su te ex ti))"
  "keeps R (call (app_rt X) (bind_surface b th su te ex))"
  "keeps R (call (app_rt X) (record_logical_send n th ag mid))"
  "keeps R (call (app_rt X) (bind_task_id th mid tk))"
  "keeps R (call (app_rt X) (claim_context_initialization cl th ls))"
  "keeps R (call (app_rt X) (bind_context th cl cx))"
  "keeps R (call (app_rt X) (release_context_initialization th cl))"
  "keeps R (call (app_rt X) (claim_ingress tok n su ev ls))"
  "keeps R (call (app_rt X) (complete_ingress su ev tok tid tk'))"
  "keeps R (call (app_rt X) (fail_ingress su ev tok er))"
  "keeps R (call (app_rt X) (ensure_projection b tk rq sr us))"
  "keeps R (call (app_rt X) (claim_task_stream tok b tk ls))"
  "keeps R (call (app_rt X) (update_stream_message b tk tok ts))"
  "keeps R (call (app_rt X) (finish_stream b tk tok fb st er'))"
  "keeps R (call (app_rt X) (mark_projection b tk sn stt))"
  "keeps R (call (app_rt X) (close_human_input b tk it))"
  "keeps R (call (app_rt X) (claim_item tok b tk ki it ls))"
  "keeps R (call (app_rt X) (finish_item b tk ki it tok ts' er'))"
  by (rule app_call, rule app_step.intros)+

lemma app_lift: "keeps R (lift_sum r)"
  by (cases r) (simp_all add: lift_sum_def keeps_ret keeps_raise)

lemmas app_basic = keeps_control app_quiet app_observed app_outside app_transactions app_lift

text \<open>The client and the service.\<close>

lemma app_entry: "keeps R (entry X ag)"
  unfolding entry_def fetch_entry_def by (auto intro!: app_basic split: option.splits)

lemma app_client:
  "keeps R (get_agent_card X ag)" "keeps R (client_get_task X ag tk hi)"
  "keeps R (client_list_tasks X ag cx n tok)" "keeps R (client_cancel X ag tk)"
  "keeps R (client_create_push X ag tk cf u)"
  unfolding get_agent_card_def client_get_task_def client_list_tasks_def client_cancel_def client_create_push_def
  by (auto intro!: app_basic app_entry)

lemma app_client_send: "keeps R (client_send X ag m hi)"
  unfolding client_send_def validate_profile_def
  by (auto intro!: app_basic app_entry app_client split: sum.splits option.splits)

lemma app_claim_context: "keeps R (claim_context n X tid)"
  by (induction n) (auto intro!: app_basic split: context_claim.splits)

lemma app_send_claimed: "keeps R (send_claimed X ag tid cl m)"
  unfolding send_claimed_def
  by (rule keeps_try_except [OF app_client_send]) (auto intro!: app_basic split: error.splits)

lemma app_the_thread: "keeps R (the_thread X tid)"
  unfolding the_thread_def by (auto intro!: app_basic split: option.splits)

lemma app_send_turn: "keeps R (send_turn X tid mid body)"
  unfolding send_turn_def bind_turn_def set_up_push_def Let_def
  by (auto intro!: app_basic app_the_thread app_client app_claim_context app_send_claimed split: prod.splits)

lemma app_bound: "keeps R (bound X tid tk)"
  unfolding bound_def by (auto intro!: app_basic app_the_thread split: option.splits)

lemma app_list_pages: "keeps R (list_pages n X ag cx tok)"
  by (induction n arbitrary: tok) (auto intro!: app_basic app_client split: prod.splits)

lemma app_service:
  "keeps R (service_get_task X tid tk hi)" "keeps R (service_cancel_task X tid tk)"
  "keeps R (continue_human_input X tid tk mid r)" "keeps R (service_list_tasks n X tid)"
  unfolding service_get_task_def service_cancel_task_def continue_human_input_def service_list_tasks_def
  by (auto intro!: app_basic app_bound app_client app_client_send app_the_thread app_list_pages)

lemma app_cancel_active: "keeps R (cancel_active_task n X tid)"
  unfolding cancel_active_task_def get_active_task_def
  by (auto intro!: app_basic app_service split: option.splits)

lemma app_plane: "keeps R m \<Longrightarrow> keeps R (application_control_plane X m)"
  unfolding application_control_plane_def by (auto intro!: app_basic)

lemma app_retry: "keeps R m \<Longrightarrow> keeps R (with_dsql_retry n m)"
proof (induction n)
  case (Suc n)
  then show ?case
    by (auto intro!: keeps_try_except split: if_splits)
qed (simp add: keeps_raise)

lemma app_checked: "keeps R (checked t pr ag x)"
  unfolding checked_def by (auto intro!: app_basic split: option.splits)

lemma app_surface_thread:
  "keeps R (get_or_create_surface_thread n (app_rt X) pr ag su te ex ti)"
  by (induction n)
     (auto intro!: app_basic app_retry app_checked keeps_try_except split: option.splits if_splits)

text \<open>The input worker.\<close>

lemma app_authorize: "keeps R (authorize X te us)"
  unfolding authorize_def by (auto intro!: app_basic)

lemma app_claim_event: "keeps R (claim_event X su ev)"
  unfolding claim_event_def by (auto intro!: app_basic split: claim.splits)

lemma app_binding: "keeps R (slack_binding X te ch ts)"
  unfolding slack_binding_def by (intro app_outside)

lemma app_owned: "keeps R (owned_thread X pr b)"
  unfolding owned_thread_def by (auto intro!: app_basic split: option.splits)

lemma app_events:
  "keeps R (reply X te ch ts txt)" "keeps R (announce_work X d)"
  "keeps R (request_projection X d b th tk)" "keeps R (application_agent_id X)"
  "keeps R (fault_point X)" "keeps R (complete_event X su ev tok tid tk')"
  unfolding reply_def announce_work_def request_projection_def application_agent_id_def fault_point_def
    complete_event_def
  by (auto intro!: app_basic split: option.splits)

lemma app_with_slack: "(\<And>g. keeps R (f g)) \<Longrightarrow> keeps R (with_slack X f)"
  unfolding with_slack_def by (auto intro!: app_basic)

lemma app_link_try:
  "keeps R m \<Longrightarrow>
     keeps R (try_except m (\<lambda>e. case e of BindingConflict _ \<Rightarrow> Some (ret False) | _ \<Rightarrow> None))"
  by (rule keeps_try_except) (auto intro!: app_basic split: error.splits)

lemma app_link: "keeps R (link_existing X pr te ch ts tid)"
  unfolding link_existing_def
  by (auto intro!: app_basic app_events app_binding app_link_try split: option.splits)

lemma app_handled: "keeps R m \<Longrightarrow> keeps R (handled X su ev tok m)"
  unfolding handled_def by (auto intro!: app_basic)

lemma app_take_turn: "keeps R (take_turn n X d tok pr)"
  unfolding take_turn_def
  by (auto intro!: app_basic app_events app_surface_thread app_plane app_send_turn split: prod.splits)

lemma app_on_message: "keeps R (on_message n X d)"
  unfolding on_message_def claimed_message_def
  by (auto intro!: app_basic app_binding app_claim_event app_handled app_authorize app_events app_link app_owned
      app_take_turn split: option.splits)

lemma app_on_stop: "keeps R (on_stop n X d)"
  unfolding on_stop_def claimed_stop_def
  by (auto intro!: app_basic app_binding app_claim_event app_handled app_authorize app_events app_owned
      app_plane app_cancel_active app_with_slack split: option.splits)

lemma app_submit: "keeps R (submit_click X d tid)"
  unfolding submit_click_def by (auto intro!: app_basic app_service)

lemma app_on_click: "keeps R (on_tool_confirmation X d)"
  unfolding on_tool_confirmation_def claimed_click_def
  by (auto intro!: app_basic app_binding app_claim_event app_handled app_authorize app_events app_owned
      app_plane app_submit app_with_slack split: option.splits)

lemma app_input: "keeps R (handle_input_event n X ev)"
  unfolding handle_input_event_def
  by (auto intro!: app_basic app_on_message app_on_stop app_on_click split: domain_event.splits)

text \<open>The projector and the event sink.\<close>

lemma app_post_text: "keeps R (post_text X T st pl txt)"
  unfolding post_text_def Let_def by (auto intro!: app_basic)

lemma app_project_items: "keeps R (project_message X T st pl m)" "keeps R (project_human_input X T r)"
  unfolding project_message_section project_human_input_section
  by (auto intro!: kept_show app_post_text app_outside simp: post_text_silent)

lemma app_project_task: "keeps R (project_task X T task st rq pl)"
  unfolding project_task_def retire_request_def stop_card_def
  by (auto intro!: app_basic app_project_items split: prod.splits)

lemma app_show_task: "keeps R (show_task X T tok row task)"
  unfolding show_task_def source_permalink_def open_stream_def
  by (auto intro!: app_basic app_project_task split: prod.splits)

lemma app_guarded: "keeps R m \<Longrightarrow> keeps R (guarded X T tok st m)"
  unfolding guarded_def by (auto intro!: app_basic)

lemma app_reconcile: "keeps R (reconcile_projection X tid T)"
  unfolding reconcile_projection_def hint_preview_def
  by (auto intro!: app_basic app_guarded app_plane app_service app_show_task split: claim.splits option.splits)

lemma app_projection: "keeps R (handle_projection_event X ev)"
  unfolding handle_projection_event_def project_started_def initial_projection_def task_updated_def update_binding_def
  by (auto intro!: app_basic app_with_slack app_reconcile split: domain_event.splits prod.splits)

lemma app_receive: "keeps R (receive_push X ag dv h v)"
  unfolding receive_push_def by (auto intro!: app_basic split: option.splits prod.splits)

end

end
