(* ===== verification/App_Permanence.thy ===== *)
theory App_Permanence
  imports App_Steps App_Ports
begin

text \<open>
  What stays true in the application database whatever its actors do: a handled Slack event and a
  posted Slack message are never claimed again, a surface stays bound to its thread, a thread to
  its controller context and a logical send to its task, and repeating a creation request finds
  the same thread. Each is stated over any sequence of transactions between the two points.
\<close>

section \<open>Rows after any sequence of steps\<close>

lemma app_steps_inv:
  assumes "app_inv s" "app_step\<^sup>*\<^sup>* s s'"
  shows "app_inv s'" "app_evolves s s'"
  using app_steps_kept [OF assms(2)] assms(1) by (simp_all add: app_kept_def)

lemma app_one_step: "app_step s s' \<Longrightarrow> app_step\<^sup>*\<^sup>* s s'"
  by (rule r_into_rtranclp)

lemma evolved_row:
  assumes "rows_evolve Q xs ys" "x \<in> set xs" "distinct (map k ys)" "\<And>a b. Q a b \<Longrightarrow> k b = k a"
  obtains y where "y \<in> set ys" "Q x y" "k y = k x" "find (\<lambda>r. k r = k x) ys = Some y"
proof -
  from assms(2) obtain i where i: "i < length xs" "xs ! i = x" by (auto simp: in_set_conv_nth)
  with assms(1) have y: "ys ! i \<in> set ys" "Q x (ys ! i)" by (auto simp: rows_evolve_def)
  then have "k (ys ! i) = k x" by (intro assms(4))
  with y find_key [OF assms(3) y(1)] that show thesis by metis
qed

lemma find_key_and:
  assumes "distinct (map k xs)" "find (\<lambda>r. k r = c) xs = Some x" "\<not> p x"
  shows "find (\<lambda>r. k r = c \<and> p r) xs = None"
proof (rule ccontr)
  assume "find (\<lambda>r. k r = c \<and> p r) xs \<noteq> None"
  then obtain y where "find (\<lambda>r. k r = c \<and> p r) xs = Some y" by auto
  with assms find_SomeD [OF this] find_SomeD [OF assms(2)] show False
    using distinct_map_inj [OF assms(1)] by metis
qed

section \<open>A sample state\<close>

definition sample_thread :: thread_row where
  "sample_thread = (new_thread ''th1'' ''pr1'' ''cma'' (Some ''rq1'') (Some ''title'') 0)
     \<lparr>th_context_id := Some ''cx1'', th_context_state := Context_ready\<rparr>"

definition sample_event :: ingress_row where
  "sample_event = (new_ingress ''in1'' ''slack'' ''ev1'' 0)\<lparr>i_status := Sent, i_thread_id := Some ''th1'',
     i_task_id := Some ''tk1'', i_attempts := 1\<rparr>"

definition sample_item :: item_row where
  "sample_item = (new_item ''b1'' ''tk1'' Agent_message ''m1'')\<lparr>m_status := Posted, m_attempts := 1,
     m_slack_message_ts := Some ''1.0''\<rparr>"

definition sample_send :: send_row where
  "sample_send = (new_send ''sb1'' ''th1'' ''cma'' ''mid1'' 0)"

definition sample_app :: "(domain_event, unit) app" where
  "sample_app = \<lparr>principals = [''pr1''], identities = [], threads = [sample_thread],
     surface_bindings = [new_binding ''b1'' ''th1'' ''slack'' ''te1'' ''C:1'' 0], sends = [sample_send],
     ingress = [sample_event], projections = [], items = [sample_item], bus = [], app_clock = 100, world = ()\<rparr>"

lemmas sample_app_defs = sample_thread_def sample_event_def sample_item_def sample_send_def sample_app_def
  new_thread_def new_ingress_def new_item_def new_send_def new_binding_def

lemma app_inv_sample: "app_inv sample_app"
  by (simp add: app_inv_def app_ok_def claims_ok_def threads_ok_def bindings_ok_def sends_ok_def sample_app_defs
      unique_key_def creation_key_def context_key_def task_key_def pair_opt_def thread_check_def send_check_def
      List.map_filter_def)

section \<open>Handled events and posted messages\<close>

lemma sent_row_steps:
  assumes "app_inv s" "app_step\<^sup>*\<^sup>* s s'" "r \<in> set (ingress s)" "i_status r = Sent"
  shows "r \<in> set (ingress s')"
proof -
  note after = app_steps_inv [OF assms(1,2)]
  have ks: "distinct (map ingress_key (ingress s'))" using after(1) by (simp add: app_inv_def app_ok_def)
  obtain r' where "r' \<in> set (ingress s')" "ingress_evolves r r'"
    by (rule evolved_row [OF _ assms(3) ks, of ingress_evolves]) (use after(2) in \<open>auto simp: app_evolves_def ingress_evolves_def\<close>)
  then show ?thesis using assms(4) by (auto simp: ingress_evolves_def)
qed

lemma sent_row_claim:
  assumes "app_inv s" "r \<in> set (ingress s)" "i_status r = Sent" "ingress_key r = (su, ev)"
  shows "claim_ingress token new_id su ev lease_s s = (Inr (Completed (Some r)), s)"
proof -
  have ks: "distinct (map ingress_key (ingress s))" using assms(1) by (simp add: app_inv_def app_ok_def)
  have f: "find (\<lambda>x. ingress_key x = (su, ev)) (ingress s) = Some r" "(su, ev) \<in> set (map ingress_key (ingress s))"
    using find_key [OF ks assms(2)] assms(2,4) by force+
  have "\<not> ingress_free (app_clock s) r" using assms(3) by (simp add: ingress_free_def)
  from find_key_and [where p = "ingress_free (app_clock s)", OF ks f(1) this] f assms(3) show ?thesis
    by (simp add: claim_ingress_def Let_def returning_def)
qed

text \<open>C14: A Slack event is handled at most once. After an event was completed, no claim on it succeeds,
  whatever transactions of whatever actors come in between, and the claim tells that it was completed.\<close>

theorem handled_event_final:
  assumes "app_inv s" "app_step\<^sup>*\<^sup>* s s'" "r \<in> set (ingress s)" "i_status r = Sent" "ingress_key r = (su, ev)"
  shows "fst (claim_ingress token new_id su ev lease_s s') = Inr (Completed (Some r))"
  using sent_row_claim [OF app_steps_inv(1) [OF assms(1,2)] sent_row_steps [OF assms(1-4)] assms(4,5)] by simp

lemma handled_event_final_witness:
  "fst (claim_ingress ''k'' ''n'' ''slack'' ''ev1'' 60 (snd (fail_ingress ''slack'' ''ev1'' ''k0'' ''boom'' sample_app)))
     = Inr (Completed (Some sample_event))"
  by (rule handled_event_final [OF app_inv_sample app_one_step], rule app_step.fail_ingress)
     (simp_all add: sample_app_defs ingress_key_def)

definition posted :: "string \<times> string \<times> item_kind \<times> string \<Rightarrow> ('e, 'q) app \<Rightarrow> bool" where
  "posted k s = list_ex (\<lambda>r. item_key r = k \<and> m_status r = Posted) (items s)"

lemma posted_steps:
  assumes "app_inv s" "app_step\<^sup>*\<^sup>* s s'" "posted k s"
  shows "posted k s'"
proof -
  note after = app_steps_inv [OF assms(1,2)]
  from assms(3) obtain r where r: "r \<in> set (items s)" "item_key r = k" "m_status r = Posted"
    by (auto simp: posted_def list_ex_iff)
  have ks: "distinct (map item_key (items s'))" using after(1) by (simp add: app_inv_def app_ok_def)
  obtain r' where "r' \<in> set (items s')" "item_evolves r r'" "item_key r' = item_key r"
    by (rule evolved_row [OF _ r(1) ks, of item_evolves]) (use after(2) in \<open>auto simp: app_evolves_def item_evolves_def\<close>)
  with r show ?thesis by (auto simp: posted_def list_ex_iff item_evolves_def)
qed

lemma posted_claim:
  assumes "app_inv s" "posted (bid, task, kind, item) s"
  obtains row where "claim_item token bid task kind item lease_s s = (Inr (Completed (Some row)), s)"
proof -
  let ?k = "(bid, task, kind, item)"
  from assms(2) obtain r where r: "r \<in> set (items s)" "item_key r = ?k" "m_status r = Posted"
    by (auto simp: posted_def list_ex_iff)
  have ks: "distinct (map item_key (items s))" using assms(1) by (simp add: app_inv_def app_ok_def)
  have f: "find (\<lambda>x. item_key x = ?k) (items s) = Some r" using find_key [OF ks r(1)] r(2) by simp
  have "\<not> item_free (app_clock s) r" using r(3) by (simp add: item_free_def)
  from find_key_and [where p = "item_free (app_clock s)", OF ks f this] f r that show thesis
    by (force simp: claim_item_def Let_def returning_def)
qed

text \<open>A Slack message is posted at most once after success. After an item was posted, no claim on it
  succeeds, whatever transactions come in between.\<close>

theorem posted_item_final:
  assumes "app_inv s" "app_step\<^sup>*\<^sup>* s s'" "r \<in> set (items s)" "m_status r = Posted"
    "item_key r = (bid, task, kind, item)"
  shows "\<exists>row. fst (claim_item token bid task kind item lease_s s') = Inr (Completed (Some row))"
proof -
  have "posted (bid, task, kind, item) s" using assms(3-5) by (auto simp: posted_def list_ex_iff)
  then have "posted (bid, task, kind, item) s'" by (rule posted_steps [OF assms(1,2)])
  with app_steps_inv(1) [OF assms(1,2)] show ?thesis by (metis posted_claim fst_conv)
qed

lemma posted_item_final_witness:
  "\<exists>row. fst (claim_item ''k'' ''b1'' ''tk1'' Agent_message ''m1'' 60
     (snd (finish_item ''b1'' ''tk1'' Agent_message ''m1'' ''k0'' None (Some ''late'') sample_app))) = Inr (Completed (Some row))"
  by (rule posted_item_final [where r = sample_item, OF app_inv_sample app_one_step], rule app_step.finish_item)
     (simp_all add: sample_app_defs item_key_def)

section \<open>Bindings\<close>

text \<open>A surface stays bound to its thread. Once a Slack thread is bound, the lookup returns the same
  binding after any sequence of transactions.\<close>

theorem surface_binding_permanent:
  assumes "app_inv s" "app_step\<^sup>*\<^sup>* s s'" "get_surface_binding su te ex s = Some b"
  shows "get_surface_binding su te ex s' = Some b"
proof -
  note after = app_steps_inv [OF assms(1,2)]
  have key: "surface_key su te ex x = (binding_key x = (su, te, ex))" for x
    by (simp add: surface_key_def binding_key_def)
  from assms(3) have b: "b \<in> set (surface_bindings s)" "binding_key b = (su, te, ex)"
    by (auto simp: get_surface_binding_def key dest: find_SomeD)
  have "distinct (map binding_key (surface_bindings s'))" using after(1) by (simp add: app_inv_def app_ok_def threads_ok_def bindings_ok_def)
  moreover have "rows_evolve (=) (surface_bindings s) (surface_bindings s')" using after(2) by (simp add: app_evolves_def)
  ultimately obtain b' where "b = b'" "find (\<lambda>x. binding_key x = binding_key b) (surface_bindings s') = Some b'"
    using evolved_row [of "(=)" "surface_bindings s" "surface_bindings s'" b binding_key] b(1) by metis
  moreover have "surface_key su te ex = (\<lambda>x. binding_key x = binding_key b)" using key b(2) by auto
  ultimately show ?thesis by (simp add: get_surface_binding_def)
qed

lemma surface_binding_permanent_witness:
  "get_surface_binding ''slack'' ''te1'' ''C:1'' (snd (bind_surface ''b9'' ''th1'' ''slack'' ''te1'' ''C:1'' sample_app))
     = Some (new_binding ''b1'' ''th1'' ''slack'' ''te1'' ''C:1'' 0)"
  by (rule surface_binding_permanent [OF app_inv_sample app_one_step], rule app_step.surface)
     (simp add: get_surface_binding_def surface_key_def sample_app_defs)

text \<open>C15: A thread keeps its controller context. Once a context is bound to a thread, the thread keeps it,
  its owner and its agent for ever, and every attempt to bind another context fails.\<close>

theorem context_bound_forever:
  assumes "app_inv s" "app_step\<^sup>*\<^sup>* s s'" "t \<in> set (threads s)" "th_context_id t = Some cx"
  shows "(\<exists>t'. get_thread (th_thread_id t) s' = Some t' \<and> th_context_id t' = Some cx
      \<and> th_principal_id t' = th_principal_id t \<and> th_agent_id t' = th_agent_id t)
    \<and> (\<forall>claim other. other \<noteq> cx \<longrightarrow> (\<exists>e. fst (bind_context (th_thread_id t) claim other s') = Inl e))"
proof -
  note after = app_steps_inv [OF assms(1,2)]
  from assms(1,3) have "thread_check t"
    by (simp add: app_inv_def app_ok_def threads_ok_def list_all_iff)
  with assms(4) have ready: "th_context_state t = Context_ready"
    by (cases "th_context_state t") (auto simp: thread_check_def)
  have ks: "distinct (map th_thread_id (threads s'))" using after(1) by (simp add: app_inv_def app_ok_def threads_ok_def bindings_ok_def)
  obtain t' where t': "t' \<in> set (threads s')" "thread_evolves t t'"
      "find (\<lambda>x. th_thread_id x = th_thread_id t) (threads s') = Some t'"
    by (rule evolved_row [OF _ assms(3) ks, of thread_evolves]) (use after(2) in \<open>auto simp: app_evolves_def thread_evolves_def\<close>)
  with ready assms(4) have same: "th_context_state t' = Context_ready" "th_context_id t' = Some cx"
    "th_principal_id t' = th_principal_id t" "th_agent_id t' = th_agent_id t" by (auto simp: thread_evolves_def)
  have g: "get_thread (th_thread_id t) s' = Some t'" using t'(3) by (simp add: get_thread_def)
  have "find (\<lambda>x. th_thread_id x = th_thread_id t \<and> th_context_state x = Context_initializing \<and> q x) (threads s') = None" for q
    by (rule find_key_and [OF ks t'(3), of "\<lambda>x. th_context_state x = Context_initializing \<and> q x"]) (simp add: same)
  then have "fst (bind_context (th_thread_id t) claim other s') \<noteq> Inr x" if "other \<noteq> cx" for claim other x
    using that g same by (auto simp: bind_context_def returning_def Let_def raise_err_def)
  then show ?thesis using g same by (metis old.sum.exhaust)
qed

lemma context_bound_forever_witness:
  "\<exists>t'. get_thread ''th1'' (snd (archive_thread ''pr1'' ''th1'' sample_app)) = Some t' \<and> th_context_id t' = Some ''cx1''"
proof -
  have "app_step\<^sup>*\<^sup>* sample_app (snd (archive_thread ''pr1'' ''th1'' sample_app))"
    by (rule app_one_step, rule app_step.archive)
  from context_bound_forever [OF app_inv_sample this, of sample_thread "''cx1''"] show ?thesis
    by (auto simp: sample_app_defs)
qed

text \<open>A logical send is bound to one task. After a send was bound to a task, binding it again to that task
  succeeds and changes nothing, and binding it to any other task is a conflict, at any later time.\<close>

theorem logical_send_bound_once:
  assumes "app_inv s" "bind_task_id tid mid task s = (Inr row, s1)" "app_step\<^sup>*\<^sup>* s1 s2"
  shows "(\<exists>r. bind_task_id tid mid task s2 = (Inr r, s2) \<and> s_task_id r = Some task)
    \<and> (\<forall>other. other \<noteq> task \<and> other \<noteq> [] \<longrightarrow> (\<exists>m. bind_task_id tid mid other s2 = (Inl (BindingConflict m), s2)))"
proof -
  have inv1: "app_inv s1" using app_steps_inv(1) [OF assms(1) app_one_step [OF app_step.task], of tid mid task] assms(2) by simp
  note after = app_steps_inv [OF inv1 assms(3)]
  have ks: "distinct (map send_key (sends s1))" "distinct (map send_key (sends s2))"
    using inv1 after(1) by (simp_all add: app_inv_def app_ok_def sends_ok_def)
  have mk: "message_key tid mid r = (send_key r = (tid, mid))" for r by (simp add: message_key_def send_key_def)
  from assms(2) have task: "task \<noteq> []" by (auto simp: bind_task_id_def raise_err_def)
  from assms(2) have row: "row \<in> set (sends s1) \<and> send_key row = (tid, mid) \<and> s_task_id row = Some task
      \<and> s_submission_status row = Send_bound"
    by (fastforce simp: bind_task_id_def raise_err_def Let_def returning_def mk set_upd_rows send_key_def
        dest: find_SomeD split: if_splits option.splits)
  obtain r where r: "r \<in> set (sends s2)" "send_evolves row r" "find (\<lambda>x. send_key x = send_key row) (sends s2) = Some r"
    by (rule evolved_row [of send_evolves "sends s1" "sends s2" row send_key])
       (use row ks after(2) in \<open>auto simp: app_evolves_def send_evolves_def\<close>)
  then have same: "s_task_id r = Some task" "s_submission_status r = Send_bound"
    using row by (auto simp: send_evolves_def)
  have f: "find (message_key tid mid) (sends s2) = Some r" using r(3) row by (simp add: mk [abs_def])
  have "find (\<lambda>x. send_key x = (tid, mid) \<and> s_submission_status x = Send_pending \<and> s_task_id x = None) (sends s2) = None"
    using find_key_and [OF ks(2), of "(tid, mid)" r "\<lambda>x. s_submission_status x = Send_pending \<and> s_task_id x = None"]
      r(3) row same by simp
  then have "find (\<lambda>x. message_key tid mid x \<and> s_submission_status x = Send_pending \<and> s_task_id x = None) (sends s2) = None"
    by (simp add: mk)
  with f same task show ?thesis by (auto simp: bind_task_id_def Let_def returning_def)
qed

lemma logical_send_bound_once_witness:
  "\<exists>m. bind_task_id ''th1'' ''mid1'' ''tk2'' (snd (bind_task_id ''th1'' ''mid1'' ''tk1'' sample_app))
     = (Inl (BindingConflict m), snd (bind_task_id ''th1'' ''mid1'' ''tk1'' sample_app))"
proof -
  let ?s = "snd (bind_task_id ''th1'' ''mid1'' ''tk1'' sample_app)"
  have "\<exists>row. bind_task_id ''th1'' ''mid1'' ''tk1'' sample_app = (Inr row, ?s)"
    by (simp add: bind_task_id_def Let_def returning_def message_key_def sample_app_defs unique_key_def task_key_def
        pair_opt_def List.map_filter_def upd_rows_def)
  then obtain row where row: "bind_task_id ''th1'' ''mid1'' ''tk1'' sample_app = (Inr row, ?s)" ..
  have "\<forall>other. other \<noteq> ''tk1'' \<and> other \<noteq> [] \<longrightarrow> (\<exists>m. bind_task_id ''th1'' ''mid1'' other ?s = (Inl (BindingConflict m), ?s))"
    by (rule conjunct2 [OF logical_send_bound_once [OF app_inv_sample row rtranclp.rtrancl_refl]])
  then show ?thesis by (rule allE [of _ "''tk2''"]) simp
qed

text \<open>Repeating a creation request finds the same thread. After a thread was created for a request of a
  principal, the same request by the same principal for the same agent returns that thread and changes
  nothing, at any later time.\<close>

theorem creation_request_idempotent:
  assumes "app_inv s" "create_thread_idempotent n1 prin agent request title s = (Inr t, s1)" "app_step\<^sup>*\<^sup>* s1 s2"
  shows "\<exists>t'. create_thread_idempotent n2 prin agent request title2 s2 = (Inr t', s2)
    \<and> th_thread_id t' = th_thread_id t"
proof -
  have inv1: "app_inv s1"
    using app_steps_inv(1) [OF assms(1) app_one_step [OF app_step.thread_idempotent], of n1 prin agent request title]
      assms(2) by simp
  note after = app_steps_inv [OF inv1 assms(3)]
  let ?p = "\<lambda>t. th_principal_id t = prin \<and> th_creation_request_id t = Some request"
  from assms(2) have args: "agent \<noteq> []" "request \<noteq> []"
    by (auto simp: create_thread_idempotent_def raise_err_def split: if_splits)
  have t: "t \<in> set (threads s1)" "?p t" "th_agent_id t = agent"
  proof -
    have "t \<in> set (threads s1) \<and> ?p t \<and> th_agent_id t = agent"
    proof (cases "find ?p (threads s)")
      case None
      with assms(2) args show ?thesis
        by (simp add: create_thread_idempotent_def transaction_def bnd_def insert_thread_def ret_apply raise_apply
            split: if_splits) auto
    next
      case (Some u)
      with assms(2) args find_SomeD [OF Some] show ?thesis
        by (simp add: create_thread_idempotent_def transaction_def ret_apply raise_apply split: if_splits)
    qed
    then show "t \<in> set (threads s1)" "?p t" "th_agent_id t = agent" by simp_all
  qed
  have ks: "distinct (map th_thread_id (threads s2))" "unique_key creation_key (threads s2)"
    using after(1) by (simp_all add: app_inv_def app_ok_def threads_ok_def)
  obtain t' where t': "t' \<in> set (threads s2)" "thread_evolves t t'"
    by (rule evolved_row [of thread_evolves "threads s1" "threads s2" t th_thread_id])
       (use after(2) t(1) ks(1) in \<open>simp_all add: app_evolves_def thread_evolves_def\<close>)
  then have p': "?p t'" "th_agent_id t' = agent" "th_thread_id t' = th_thread_id t"
    using t by (auto simp: thread_evolves_def)
  have same: "u = t'" if "u \<in> set (threads s2)" "?p u" for u
    by (rule unique_key_inj [OF ks(2) that(1) t'(1)]) (use that p' in \<open>simp_all add: creation_key_def pair_opt_def\<close>)
  have "find ?p (threads s2) = Some t'" by (rule find_unique [where p = ?p, OF t'(1) p'(1) same])
  with p' args show ?thesis by (simp add: create_thread_idempotent_def transaction_def bnd_def ret_apply)
qed

lemma creation_request_idempotent_witness:
  "\<exists>t'. create_thread_idempotent ''th3'' ''pr1'' ''cma'' ''rq1'' None sample_app = (Inr t', sample_app)
     \<and> th_thread_id t' = th_thread_id sample_thread"
proof -
  have "create_thread_idempotent ''th2'' ''pr1'' ''cma'' ''rq1'' None sample_app = (Inr sample_thread, sample_app)"
    by (simp add: create_thread_idempotent_def transaction_def bnd_def ret_apply sample_app_defs)
  from creation_request_idempotent [OF app_inv_sample this rtranclp.rtrancl_refl] show ?thesis .
qed

section \<open>Leases\<close>



text \<open>A message is posted by one worker at a time, and a crashed worker does not block it for ever. After a
  claim on an item, and as long as its row is not touched, another claim is refused exactly until the lease
  is over.\<close>

theorem item_claim_exclusive:
  assumes "app_inv s" "claim_item c bid task kind item lease_s s = (Inr (Acquired c row), s')"
    and "items s'' = items s'" "app_clock s \<le> app_clock s''"
  shows "(\<exists>r. fst (claim_item c' bid task kind item lease_s' s'') = Inr (Acquired c' r))
    \<longleftrightarrow> app_clock s + lease_s * 1000000 \<le> app_clock s''"
proof -
  let ?k = "(bid, task, kind, item)"
  let ?rows = "if ?k \<in> set (map item_key (items s)) then items s else items s @ [new_item bid task kind item]"
  let ?p = "\<lambda>now r. item_key r = ?k \<and> item_free now r"
  let ?e = "app_clock s + lease_s * 1000000"
  have ks: "distinct (map item_key ?rows)"
    using assms(1) by (auto simp: app_inv_def app_ok_def new_item_def item_key_def)
  from assms(2) obtain r where r: "find (?p (app_clock s)) ?rows = Some r"
      and s': "items s' = upd_rows (?p (app_clock s)) (item_take c ?e) ?rows"
    by (auto simp: claim_item_def Let_def returning_def split: option.splits if_splits)
  have nxt: "find (?p (app_clock s'')) (items s'') = None \<longleftrightarrow> app_clock s'' < ?e"
    unfolding assms(3) s' by (rule item_lease.next_claim [OF ks r assms(4)])
  have "?k \<in> item_key ` set (items s'')"
  proof -
    from find_SomeD [OF r] have "item_take c ?e r \<in> set (items s'')" by (auto simp: assms(3) s' set_upd_rows)
    moreover have "item_key (item_take c ?e r) = ?k" using find_SomeD [OF r] by (simp add: item_lease.take_key)
    ultimately show ?thesis by force
  qed
  with nxt show ?thesis
    by (cases "find (?p (app_clock s'')) (items s'')") (auto simp: claim_item_def Let_def returning_def)
qed

lemma item_claim_exclusive_witness:
  "\<not> (\<exists>r. fst (claim_item ''k2'' ''b1'' ''tk1'' Agent_message ''m2'' 60
      (snd (claim_item ''k1'' ''b1'' ''tk1'' Agent_message ''m2'' 60 sample_app))) = Inr (Acquired ''k2'' r))"
proof -
  let ?s' = "snd (claim_item ''k1'' ''b1'' ''tk1'' Agent_message ''m2'' 60 sample_app)"
  have "\<exists>row. claim_item ''k1'' ''b1'' ''tk1'' Agent_message ''m2'' 60 sample_app = (Inr (Acquired ''k1'' row), ?s')"
    "app_clock ?s' = 100" "app_clock sample_app = 100"
    by (simp_all add: claim_item_def Let_def returning_def sample_app_defs item_key_def item_free_def upd_rows_def)
  then obtain row where run: "claim_item ''k1'' ''b1'' ''tk1'' Agent_message ''m2'' 60 sample_app = (Inr (Acquired ''k1'' row), ?s')"
    "app_clock ?s' = 100" "app_clock sample_app = 100" by blast
  show ?thesis using item_claim_exclusive [OF app_inv_sample run(1) refl, of "''k2''" 60] run(2,3) by simp
qed

end
