(* ===== verification/Sample_App.thy ===== *)
theory Sample_App
  imports Slack_Projector Event_Sink App_Permanence
begin

text \<open>
  A concrete environment for the workers of the application: one registered agent whose controller
  has the completed task \<open>tk1\<close> with two agent messages, a Slack workspace that accepts every call,
  and a state in which the first message was posted before. Runs in it are evaluated in the kernel.
\<close>

definition sample_message :: "string \<Rightarrow> string \<Rightarrow> a2a_message" where
  "sample_message mid body = \<lparr>msg_id = mid, msg_context_id = ''cx1'', msg_task_id = ''tk1'', msg_role = ROLE_AGENT,
     msg_parts = [Text_part body], msg_extensions = [], msg_metadata = []\<rparr>"

definition sample_task_view :: a2a_task where
  "sample_task_view = \<lparr>tk_id = ''tk1'', tk_context_id = ''cx1'', tk_state = TASK_STATE_COMPLETED,
     tk_status_message = None, tk_history = [sample_message ''m1'' ''one'', sample_message ''m2'' ''two'']\<rparr>"

definition sample_card :: agent_card where
  "sample_card = \<lparr>ac_interfaces = [(''HTTP+JSON'', ''https://c/'')], ac_streaming = True,
     ac_push_notifications = True, ac_extensions = [''profile'']\<rparr>"

definition sample_a2a :: "unit a2a_sdk" where
  "sample_a2a = \<lparr>sdk_agent_card = (\<lambda>_ q. (Inr sample_card, q)),
     sdk_send_a2a = (\<lambda>_ _ _ q. (Inr (Some sample_task_view), q)),
     sdk_get_task = (\<lambda>_ _ _ q. (Inr sample_task_view, q)),
     sdk_list_tasks = (\<lambda>_ _ _ _ q. (Inr ([sample_task_view], []), q)),
     sdk_cancel_task = (\<lambda>_ _ q. (Inr sample_task_view, q)),
     sdk_create_push = (\<lambda>_ _ _ _ q. (Inr (), q))\<rparr>"

definition sample_slack :: "unit slack_gateway" where
  "sample_slack = \<lparr>gw_post_reply = (\<lambda>_ _ _ _ q. (Inr ''2.0'', q)), gw_update_message = (\<lambda>_ _ _ _ q. (Inr (), q)),
     gw_set_agent_status = (\<lambda>_ _ _ _ _ q. (Inr (), q)), gw_start_stream = (\<lambda>_ _ _ _ _ q. (Inr ''3.0'', q)),
     gw_append_chunks = (\<lambda>_ _ _ q. (Inr (), q)), gw_stop_stream = (\<lambda>_ _ _ _ q. (Inr (), q)),
     gw_permalink = (\<lambda>_ _ q. (Inr ''link'', q)), gw_add_reaction = (\<lambda>_ _ _ q. (Inr (), q))\<rparr>"

definition sample_cfg :: app_config where
  "sample_cfg = \<lparr>ac_event_sink_url = ''https://sink'', ac_team_allowlist = None, ac_user_allowlist = Some ''U1'',
     ac_has_bot_token = True, ac_public_app_url = [], ac_receipt_reaction = ''eyes'', ac_preview_enabled = False,
     ac_slack_preview_enabled = False\<rparr>"

definition sample_app_env :: "unit app_env" where
  "sample_app_env = \<lparr>app_rt = quiet (\<lambda>n. CHR ''u'' # replicate n CHR ''x''), a2a_of = sample_a2a,
     slack_of = sample_slack, registrations = [\<lparr>ar_agent_id = ''cma'', ar_endpoint = ''https://c'',
       ar_required_profile = ''profile''\<rparr>], default_agent = Some ''cma'', cfg = sample_cfg,
     slack_preview_of = None, error_text = (\<lambda>_. ''boom'')\<rparr>"

text \<open>The sample state after the logical send was bound to the task.\<close>

definition bound_app :: "(domain_event, unit) app" where
  "bound_app = snd (bind_task_id ''th1'' ''mid1'' ''tk1'' sample_app)"

lemma bound_app_step: "app_step\<^sup>*\<^sup>* sample_app bound_app"
  unfolding bound_app_def by (rule app_one_step, rule app_step.task)

lemma app_inv_bound: "app_inv bound_app"
  by (rule app_steps_inv(1) [OF app_inv_sample bound_app_step])

definition sample_update :: domain_event where
  "sample_update = A2A_task_updated \<lparr>tu_delivery_id = ''d1'', tu_agent_id = ''cma'', tu_task_id = ''tk1'',
     tu_thread_id = ''th1'', tu_context_id = ''cx1'', tu_event_kind = ''task'', tu_task_state = Some ''COMPLETED''\<rparr>"

lemma sample_projection_log:
  "obs (snd (handle_projection_event sample_app_env sample_update (start_run bound_app [])))
     = [Claimed_item (''b1'', ''tk1'', Agent_message, ''m2''), Shown_item (''b1'', ''tk1'', Agent_message, ''m2'') ''two'']"
  by code_simp

end
