(* ===== verification/App_Safety.thy ===== *)
theory App_Safety
  imports App_Contract Sample_App Call_Log
begin

text \<open>
  Guarantees of the application's workers in every environment: any interleaving with other
  actors of the application, any failure of any call before or after it took effect, and death
  at any step. The input worker, the projector and the event sink change the database only by
  its transactions, so the invariant of \<open>App_Steps\<close> and the permanence of bindings, handled events
  and posted messages hold across them; the projector shows a message only directly
  after it has acquired the claim on it, and never one that was posted before. Each of the three
  is an interpretation of \<open>app_contract\<close>.
\<close>

section \<open>Workers as sequences of transactions\<close>

definition app_well_behaved :: "'q app_env \<Rightarrow> bool" where
  "app_well_behaved X = (\<forall>n s. app_step\<^sup>*\<^sup>* s (interfere (app_rt X) n s))"

definition app_between :: "'q app_env \<Rightarrow> 'q app_worker \<Rightarrow> 'q app_worker \<Rightarrow> bool" where
  "app_between X w w' = (app_well_behaved X \<longrightarrow> app_step\<^sup>*\<^sup>* (shared w) (shared w'))"

lemma app_path_step:
  assumes "app_step (interfere (app_rt X) (tick w) (shared w)) s"
  shows "app_between X w (w\<lparr>tick := n, shared := s\<rparr>)"
  unfolding app_between_def
proof (rule impI)
  assume "app_well_behaved X"
  then have "app_step\<^sup>*\<^sup>* (shared w) (interfere (app_rt X) (tick w) (shared w))" by (simp add: app_well_behaved_def)
  also have "app_step\<^sup>*\<^sup>* (interfere (app_rt X) (tick w) (shared w)) s" by (rule app_one_step [OF assms])
  finally show "app_step\<^sup>*\<^sup>* (shared w) (shared (w\<lparr>tick := n, shared := s\<rparr>))" by simp
qed

lemma app_path_same: "shared w' = shared w \<Longrightarrow> app_between X w w'"
  by (simp add: app_between_def)

interpretation app_path: step_relation "app_between X" for X :: "'q app_env"
  by unfold_locales (auto simp: app_between_def)

lemma app_path_call:
  assumes "\<And>s. app_step s (snd (f s))"
  shows "keeps (app_between X) (call (app_rt X) f)"
proof (rule keepsI)
  fix w :: "'a app_worker"
  have "app_step s s" for s :: "(domain_event, 'a) app" by (rule app_step.elsewhere) (simp add: same_app_tables_def)
  then show "app_between X w (snd (call (app_rt X) f w))"
    using app_path_step [of X w] assms [of "interfere (app_rt X) (tick w) (shared w)"]
    by (auto simp: call_def Let_def intro: app_path_same split: fault.splits prod.splits)
qed

lemma app_path_quiet: "keeps (app_between X) (fresh_uuid Y)" "keeps (app_between X) (observe x)"
  by (auto intro!: keepsI app_path_same simp: fresh_uuid_def observe_def)

lemma app_path_items:
  "keeps (app_between X) (call (app_rt X) (claim_item tok b tk ki it ls))"
  "keeps (app_between X) (call (app_rt X) (finish_item b tk ki it tok ts er))"
  by (rule app_path_call, rule app_step.intros)+

lemma show_kept:
  assumes R: "step_relation R" and base: "\<And>w w'. app_between X w w' \<Longrightarrow> R w w'" and post: "keeps R post"
  shows "keeps R (show_section X T kind item busy skip txt post)"
proof -
  have lift: "keeps R m" if "keeps (app_between X) m" for m :: "('a app_worker, 'b) comp"
    using that base by (simp add: keeps_def)
  have uuid: "keeps R (fresh_uuid Y)" for Y
    by (rule keepsI, rule base) (simp add: app_path_same fresh_uuid_def)
  have claim: "keeps R (call (app_rt X) (claim_item tok b tk ki it ls))" for tok b tk ki it ls
    by (rule keepsI, rule base, rule keepsD [OF app_path_items(1)])
  note steps = uuid claim lift [OF app_path_quiet(2)] lift [OF app_path_items(2)]
  show ?thesis
    unfolding show_section_def acquire_item_def close_item_def post_item_def
    by (auto intro!: step_relation.keeps_control [OF R] post steps split: option.splits claim.splits)
qed

lemma app_path_show: "keeps (app_between X) post \<Longrightarrow> keeps (app_between X) (show_section X T kind item busy skip txt post)"
  by (rule show_kept [OF app_path.step_relation_axioms])

interpretation app_sound: app_contract "app_between X" X for X :: "'q app_env"
  by unfold_locales (auto intro: app_path_step app_path_same app_path_show)

lemma app_between_sound:
  assumes "app_well_behaved X" "app_inv (shared w)" "app_between X w w'"
  shows "app_inv (shared w') \<and> app_evolves (shared w) (shared w')"
  using assms app_steps_inv by (auto simp: app_between_def)

section \<open>Nothing is shown without a claim\<close>

fun shown_after_claim :: "app_obs option \<Rightarrow> app_obs \<Rightarrow> bool" where
  "shown_after_claim p (Shown_item k txt) = (p = Some (Claimed_item k))"
| "shown_after_claim p _ = True"

interpretation app_log: call_log shown_after_claim
proof
  show "shown_after_claim None x \<Longrightarrow> shown_after_claim p x" for p x by (cases x) simp_all
qed

lemma shown_other: "\<not> about_item x \<Longrightarrow> shown_after_claim None x"
  by (cases x) (simp_all add: about_item_def)

lemma post_item_obs:
  assumes "\<And>v. obs (snd (post v)) = obs v"
  shows "obs (snd (post_item X T kind item token txt post w)) = obs w @ [Shown_item (target_item T kind item) txt]"
proof -
  have "keeps silent_run post" using assms by (intro keepsI) (simp add: silent_run_def)
  then have "keeps silent_run (try_except (bnd post (\<lambda>ts. close_item X T kind item token (Some ts) None))
       (except_exception (\<lambda>e. bnd (close_item X T kind item token None (Some (error_text X e))) (\<lambda>_. raise_err e))))"
    by (auto intro!: silent_intros simp: close_item_def)
  from silentD [OF this] show ?thesis by (simp add: post_item_def observe_try)
qed

lemma acquired_token:
  "fst (claim_item token b tk kind item ls s) = Inr (Acquired token' row) \<Longrightarrow> token' = token"
  by (simp add: claim_item_def Let_def split: option.splits if_splits)

text \<open>Acquiring an item either is silent or records the claim, which then was acquired in the database.\<close>

lemma acquire_item_obs:
  assumes "acquire_item X T kind item busy w = (res, v)"
  obtains "obs v = obs w" "\<And>token. res \<noteq> Inr (Some token)"
  | n token row where "fst (claim_item token (to_binding T) (to_task T) kind item 60 (interfere (app_rt X) n (shared w))) = Inr (Acquired token row)"
      "obs v = obs w @ [Claimed_item (target_item T kind item)]" "res = Inr (Some token)"
proof -
  let ?t = "uuid4 (app_rt X) (tick w)" and ?w = "w\<lparr>tick := Suc (tick w)\<rparr>"
  let ?k = "\<lambda>claim. case claim of Busy row \<Rightarrow> raise_err (RuntimeError busy) | Completed row \<Rightarrow> ret None
     | Acquired token row \<Rightarrow> bnd (observe (Claimed_item (target_item T kind item))) (\<lambda>_. ret (Some token))"
  let ?c = "call (app_rt X) (claim_item ?t (to_binding T) (to_task T) kind item 60)"
  have run: "bnd ?c ?k ?w = (res, v)"
    using assms by (simp add: acquire_item_def bnd_def fresh_uuid_def)
  show thesis
  proof (rule bnd_cases [of ?c ?w ?k])
    fix e u assume "?c ?w = (Inl e, u)" "bnd ?c ?k ?w = (Inl e, u)"
    with run silent_result [OF silent_steps(1), of "app_rt X" _ ?w] that(1) show thesis by fastforce
  next
    fix claim u assume c: "?c ?w = (Inr claim, u)" and k: "bnd ?c ?k ?w = ?k claim u"
    have u: "obs u = obs w" using silent_result [OF silent_steps(1) c] by simp
    show thesis
    proof (cases claim)
      case (Acquired token row)
      have "fst (claim_item ?t (to_binding T) (to_task T) kind item 60
          (interfere (app_rt X) (tick ?w) (shared w))) = Inr (Acquired token row)"
        using call_result [OF c] Acquired by simp
      moreover from this have "token = ?t" by (rule acquired_token)
      ultimately show thesis using run k u Acquired that(2) by (auto simp: bnd_def observe_def ret_def)
    qed (use run k u that(1) in \<open>auto simp: ret_def raise_err_def\<close>)
  qed
qed

lemma show_section_obs:
  assumes post: "\<And>v. obs (snd (post v)) = obs v"
  obtains "obs (snd (show_section X T kind item busy skip body post w)) = obs w"
  | n token row where "fst (claim_item token (to_binding T) (to_task T) kind item 60 (interfere (app_rt X) n (shared w))) = Inr (Acquired token row)"
      "obs (snd (show_section X T kind item busy skip body post w))
         \<in> {obs w @ [Claimed_item (target_item T kind item)],
            obs w @ [Claimed_item (target_item T kind item), Shown_item (target_item T kind item) body]}"
proof -
  obtain res v where a: "acquire_item X T kind item busy w = (res, v)" by fastforce
  show thesis
  proof (rule acquire_item_obs [OF a])
    assume "obs v = obs w" "\<And>token. res \<noteq> Inr (Some token)"
    with a show thesis
      by (intro that(1)) (auto simp: show_section_def bnd_def ret_def split: sum.splits option.splits)
  next
    fix n token row
    assume c: "fst (claim_item token (to_binding T) (to_task T) kind item 60 (interfere (app_rt X) n (shared w))) = Inr (Acquired token row)"
      and v: "obs v = obs w @ [Claimed_item (target_item T kind item)]" and r: "res = Inr (Some token)"
    have "snd (show_section X T kind item busy skip body post w) =
        snd ((if skip then close_item X T kind item token None None else post_item X T kind item token body post) v)"
      using a r by (simp add: show_section_def bnd_def)
    moreover have "obs (snd (close_item X T kind item token None None v)) = obs v"
      unfolding close_item_def by (rule silentD [OF silent_steps(1)])
    ultimately show thesis using that(2) [OF c] v post_item_obs [OF post] by simp
  qed
qed

lemma disciplined_show:
  assumes "\<And>v. obs (snd (post v)) = obs v"
  shows "keeps (disciplined_run shown_after_claim) (show_section X T kind item busy skip body post)"
proof (rule keepsI)
  fix w :: "'a app_worker"
  show "disciplined_run shown_after_claim w (snd (show_section X T kind item busy skip body post w))"
    by (rule show_section_obs [OF assms, where w = w and X = X and T = T and kind = kind and item = item
        and busy = busy and skip = skip and body = body]) (auto simp: disciplined_run_def)
qed

lemma disciplined_observed: "\<not> about_item x \<Longrightarrow> disciplined_run shown_after_claim w (w\<lparr>obs := obs w @ [x]\<rparr>)"
  by (rule disciplined_runI [of _ _ "[x]"]) (simp_all add: shown_other)

interpretation app_discipline: app_contract "disciplined_run shown_after_claim" X for X :: "'q app_env"
  by unfold_locales
     (auto intro: disciplined_silent app_log.disciplined_run_trans disciplined_show disciplined_observed)

section \<open>Nothing is shown twice\<close>

type_synonym item_id = "string \<times> string \<times> item_kind \<times> string"

definition posted_kept :: "item_id \<Rightarrow> 'q app_env \<Rightarrow> 'q app_worker \<Rightarrow> 'q app_worker \<Rightarrow> bool" where
  "posted_kept k X w w' = (app_well_behaved X \<and> app_inv (shared w) \<and> posted k (shared w) \<longrightarrow>
     app_inv (shared w') \<and> posted k (shared w'))"

definition never_again :: "item_id \<Rightarrow> 'q app_env \<Rightarrow> 'q app_worker \<Rightarrow> 'q app_worker \<Rightarrow> bool" where
  "never_again k X w w' = (posted_kept k X w w' \<and> (app_well_behaved X \<and> app_inv (shared w) \<and> posted k (shared w) \<longrightarrow>
     (\<exists>seg. obs w' = obs w @ seg \<and> (\<forall>txt. Shown_item k txt \<notin> set seg))))"

lemma posted_kept_between: "app_between X w w' \<Longrightarrow> posted_kept k X w w'"
  using app_steps_inv(1) posted_steps unfolding posted_kept_def app_between_def by blast

interpretation posting: step_relation "posted_kept k X" for k and X :: "'q app_env"
  by unfold_locales (auto simp: posted_kept_def)

lemma never_again_trans: "never_again k X w v \<Longrightarrow> never_again k X v u \<Longrightarrow> never_again k X w u"
  by (fastforce simp: never_again_def posted_kept_def)

lemma never_again_silent: "app_between X w w' \<Longrightarrow> obs w' = obs w \<Longrightarrow> never_again k X w w'"
  by (auto simp: never_again_def posted_kept_between intro: exI [of _ "[]"])

lemma never_again_observe: "\<not> about_item x \<Longrightarrow> never_again k X w (w\<lparr>obs := obs w @ [x]\<rparr>)"
  by (auto simp: never_again_def posted_kept_between app_path_same about_item_def intro!: exI [of _ "[x]"])

lemma posted_not_acquired:
  assumes "app_well_behaved X" "app_inv s" "posted (b, tk, kind, item) s"
  shows "fst (claim_item token b tk kind item ls (interfere (app_rt X) n s)) \<noteq> Inr (Acquired token row)"
proof -
  have st: "app_step\<^sup>*\<^sup>* s (interfere (app_rt X) n s)" using assms(1) by (simp add: app_well_behaved_def)
  show ?thesis
    by (rule posted_claim [OF app_steps_inv(1) [OF assms(2) st] posted_steps [OF assms(2) st assms(3)], of token ls]) simp
qed

lemma never_again_show:
  fixes X :: "'q app_env"
  assumes keep: "keeps (never_again k X) post" and silent: "\<And>v. obs (snd (post v)) = obs v"
  shows "keeps (never_again k X) (show_section X T kind item busy skip txt post)"
proof (rule keepsI)
  fix w :: "'q app_worker"
  let ?w = "snd (show_section X T kind item busy skip txt post w)"
  have "keeps (posted_kept k X) post" using keep by (simp add: keeps_def never_again_def)
  then have "keeps (posted_kept k X) (show_section X T kind item busy skip txt post)"
    by (intro show_kept [OF posting.step_relation_axioms]) (rule posted_kept_between)
  moreover have "\<exists>seg. obs ?w = obs w @ seg \<and> (\<forall>txt. Shown_item k txt \<notin> set seg)"
    if "app_well_behaved X" "app_inv (shared w)" "posted k (shared w)"
  proof (rule show_section_obs [OF silent, of X T kind item busy skip "txt" w])
    fix n token row
    assume "fst (claim_item token (to_binding T) (to_task T) kind item 60 (interfere (app_rt X) n (shared w)))
        = Inr (Acquired token row)"
    then have "k \<noteq> target_item T kind item"
      using posted_not_acquired [OF that(1,2)] that(3) by (auto simp: target_item_def)
    then show "obs ?w \<in> {obs w @ [Claimed_item (target_item T kind item)],
            obs w @ [Claimed_item (target_item T kind item), Shown_item (target_item T kind item) txt]} \<Longrightarrow> ?thesis"
      by auto
  qed simp
  ultimately show "never_again k X w ?w" by (simp add: never_again_def keepsD)
qed

interpretation app_once: app_contract "never_again k X" X for k :: item_id and X :: "'q app_env"
proof
  show "never_again k X s s" for s by (rule never_again_silent) (simp_all add: app_path_same)
  show "never_again k X s t \<Longrightarrow> never_again k X t u \<Longrightarrow> never_again k X s u" for s t u by (rule never_again_trans)
  show "app_step (interfere (app_rt X) (tick w) (shared w)) s \<Longrightarrow> never_again k X w (w\<lparr>tick := Suc (tick w), shared := s\<rparr>)" for w s
    by (rule never_again_silent [OF app_path_step]) simp_all
qed (auto intro: never_again_silent [OF app_path_same] never_again_observe never_again_show)

section \<open>Properties\<close>

text \<open>C17: The workers of the application keep its database sound under any failure. Whatever happens while
  the input worker, the projector or the event sink runs (other actors interleave their
  transactions at every step, any call fails before or after taking effect, the process dies), the
  constraints of the schema and the consistency of the claims still hold afterwards, and every row has only evolved:
  no binding, context, bound task, handled event or posted item was lost or changed.\<close>

theorem app_workers_sound:
  assumes "app_well_behaved X" "app_inv (shared w)"
    and "w' \<in> {snd (handle_input_event fuel X ev w), snd (handle_projection_event X ev w),
                snd (receive_push X agent delivery body_hash v w)}"
  shows "app_inv (shared w') \<and> app_evolves (shared w) (shared w')"
proof -
  have "app_between X w w'"
    using assms(3) keepsD [OF app_sound.app_input] keepsD [OF app_sound.app_projection] keepsD [OF app_sound.app_receive]
    by auto
  with assms(1,2) show ?thesis by (rule_tac app_between_sound)
qed

lemma app_well_behaved_sample: "app_well_behaved sample_app_env"
  by (simp add: app_well_behaved_def sample_app_env_def)

lemma app_workers_sound_witness:
  "app_inv (shared (snd (handle_projection_event sample_app_env sample_update (start_run bound_app []))))"
  using app_workers_sound [OF app_well_behaved_sample, of "start_run bound_app []"
      "snd (handle_projection_event sample_app_env sample_update (start_run bound_app []))" 0 sample_update]
    app_inv_bound by (simp add: start_run_def)

text \<open>C18: Nothing is shown in Slack without a claim. In the log of any run of the projector, in any
  environment whatsoever, every agent message and every request for input that is shown stands directly after the
  acquisition of the claim on that very item.\<close>

theorem shown_items_are_claimed:
  assumes "log = obs (snd (handle_projection_event X ev (start_run s cache)))" "i < length log"
    and "log ! i = Shown_item k txt"
  shows "0 < i \<and> log ! (i - 1) = Claimed_item k"
proof -
  have "disciplined shown_after_claim None log"
    using keepsD [OF app_discipline.app_projection] unfolding assms(1) by (rule disciplined_start)
  from disciplined_nth [OF this assms(2)] assms(3) show ?thesis by (simp split: if_splits)
qed

lemma shown_items_are_claimed_witness:
  "(0::nat) < 1 \<and> obs (snd (handle_projection_event sample_app_env sample_update (start_run bound_app []))) ! 0
     = Claimed_item (''b1'', ''tk1'', Agent_message, ''m2'')"
  using shown_items_are_claimed [OF refl, of 1 sample_app_env sample_update bound_app "[]"
      "(''b1'', ''tk1'', Agent_message, ''m2'')" "''two''"]
  by (simp add: sample_projection_log)

text \<open>C19: A message that was posted is never shown again. If an item was marked posted, then no later run of the
  projector shows it, whatever transactions came in between and whatever happens during the run.\<close>

theorem posted_item_never_shown_again:
  assumes "app_well_behaved X" "app_inv s" "posted k s" "app_step\<^sup>*\<^sup>* s s'"
  shows "Shown_item k txt \<notin> set (obs (snd (handle_projection_event X ev (start_run s' cache))))"
proof -
  have "never_again k X (start_run s' cache) (snd (handle_projection_event X ev (start_run s' cache)))"
    by (rule keepsD [OF app_once.app_projection])
  with assms(1) app_steps_inv(1) [OF assms(2,4)] posted_steps [OF assms(2,4,3)] show ?thesis
    by (auto simp: never_again_def start_run_def)
qed

lemma posted_item_never_shown_again_witness:
  "Shown_item (''b1'', ''tk1'', Agent_message, ''m1'') ''one''
     \<notin> set (obs (snd (handle_projection_event sample_app_env sample_update (start_run bound_app []))))"
  by (rule posted_item_never_shown_again [OF app_well_behaved_sample app_inv_sample _ bound_app_step])
     (simp add: posted_def sample_app_defs item_key_def)

end
