(* ===== verification/Slack_Ingress.thy ===== *)
theory Slack_Ingress
  imports Py_Json App_Ports
begin

text \<open>
  \<^verbatim>\<open>handlers/slack_ingress.py\<close> (\<open>handle_request\<close>), \<^verbatim>\<open>slack/normalize.py\<close>, \<^verbatim>\<open>slack/signatures.py\<close> and
  \<^verbatim>\<open>http.py\<close>: the public endpoint that Slack calls. It checks the signature over the raw body before it
  reads it, turns the callback or the click into a domain event, and publishes it. Everything in the
  payload is untrusted JSON, so that attribute, type and validation errors are
  branches; the handler answers the last two with 400.
\<close>

section \<open>HTTP\<close>

text \<open>
  What the handler uses of libraries: the signature check of \<open>slack_sdk\<close> (secret, body, timestamp, signature), \<open>json.loads\<close>,
  base64 with UTF-8, \<open>parse_qs\<close>, SHA-256 in hexadecimal, and \<open>str\<close> of a decoded value.
\<close>

record slack_wire =
  signature_valid :: "string \<Rightarrow> string \<Rightarrow> string \<Rightarrow> string \<Rightarrow> bool"
  loads :: "string \<Rightarrow> error + json"
  b64_text :: "string \<Rightarrow> error + string"
  parse_qs :: "string \<Rightarrow> (string \<times> string list) list"
  sha256_text :: "string \<Rightarrow> string"
  str_of :: "json \<Rightarrow> string"

record slack_secrets =
  signing_secret :: "string option"
  user_bot_id :: "string option"
  user_app_id :: "string option"

record http_response =
  status_code :: int
  response_headers :: "(string \<times> string) list"
  response_body :: string

definition raw_body :: "slack_wire \<Rightarrow> (string \<times> json) list \<Rightarrow> error + string" where
  "raw_body W event =
     (let body = py_or (dict_get event ''body'') (JStr []) in
      if py_true (dict_get event ''isBase64Encoded'')
      then (case body of JStr s \<Rightarrow> b64_text W s | _ \<Rightarrow> Inl (TypeError ''bytes-like object''))
      else Inr (case body of JStr s \<Rightarrow> s | _ \<Rightarrow> str_of W body))"

definition header_pairs :: "slack_wire \<Rightarrow> (string \<times> json) list \<Rightarrow> (string \<times> string) list" where
  "header_pairs W kvs = py_dict (map (\<lambda>(k, v). (py_lower k, case v of JStr s \<Rightarrow> s | _ \<Rightarrow> str_of W v))
     (filter (\<lambda>(k, v). v \<noteq> JNull) kvs))"

definition headers :: "slack_wire \<Rightarrow> (string \<times> json) list \<Rightarrow> error + (string \<times> string) list" where
  "headers W event = (case py_or (dict_get event ''headers'') (JObj []) of
     JObj kvs \<Rightarrow> Inr (header_pairs W kvs)
   | _ \<Rightarrow> Inl (AttributeError ''items''))"

definition response :: "int \<Rightarrow> json \<Rightarrow> http_response" where
  "response code body = \<lparr>status_code = code, response_headers = [(''content-type'', ''application/json'')],
     response_body = dumps_compact body\<rparr>"

definition verify_slack_signature :: "slack_wire \<Rightarrow> string \<Rightarrow> string option \<Rightarrow> string option \<Rightarrow> string \<Rightarrow> bool" where
  "verify_slack_signature W secret timestamp signature body =
     (truthy timestamp \<and> truthy signature \<and> signature_valid W secret body (py_str timestamp) (py_str signature))"

definition interaction_id :: "slack_wire \<Rightarrow> string \<Rightarrow> string" where
  "interaction_id W body = sha256_text W body"

section \<open>Callbacks\<close>

text \<open>\<open>re.sub(r"<@[A-Z0-9]+>", "", text, flags=re.IGNORECASE)\<close>: a mention at the start of a text, and all of them.\<close>

definition mention_rest :: "string \<Rightarrow> string option" where
  "mention_rest s = (case s of
     a # b # cs \<Rightarrow>
       (case dropWhile ascii_alnum cs of
          d # ds \<Rightarrow> if a = CHR ''<'' \<and> b = CHR ''@'' \<and> d = CHR ''>'' \<and> takeWhile ascii_alnum cs \<noteq> [] then Some ds else None
        | [] \<Rightarrow> None)
   | _ \<Rightarrow> None)"

lemma mention_rest_shorter: "mention_rest s = Some r \<Longrightarrow> length r < length s"
proof -
  assume "mention_rest s = Some r"
  then obtain a b cs d where s: "s = a # b # cs" "dropWhile ascii_alnum cs = d # r"
    by (auto simp: mention_rest_def split: list.splits if_splits)
  from length_dropWhile_le [of ascii_alnum cs] s show ?thesis by simp
qed

function remove_mentions :: "string \<Rightarrow> string" where
  "remove_mentions s = (case mention_rest s of
     Some r \<Rightarrow> remove_mentions r
   | None \<Rightarrow> (case s of [] \<Rightarrow> [] | c # cs \<Rightarrow> c # remove_mentions cs))"
  by auto
termination by (relation "measure length") (auto simp: mention_rest_shorter)

declare remove_mentions.simps [simp del]

definition is_hex :: "char \<Rightarrow> bool" where
  "is_hex c = (hex_value c \<noteq> None)"

text \<open>\<open>[0-9a-f]{8}(?:-[0-9a-f]{4}){3}-[0-9a-f]{12}\<close>\<close>

definition is_uuid :: "string \<Rightarrow> bool" where
  "is_uuid s = (length s = 36 \<and> list_all (\<lambda>i. if i \<in> {8, 13, 18, 23} then s ! i = CHR ''-'' else is_hex (s ! i)) [0..<36])"

text \<open>\<open>THREAD_RE.match\<close> on a stripped text.\<close>

definition match_link :: "string \<Rightarrow> string option" where
  "match_link s =
     (let rest = drop 4 s; u = dropWhile py_space rest in
      if py_lower (take 4 s) = ''link'' \<and> rest \<noteq> [] \<and> py_space (hd rest) \<and> is_uuid u then Some u else None)"

definition stripped_text :: "slack_wire \<Rightarrow> json \<Rightarrow> string" where
  "stripped_text W v = (let t = py_or v (JStr []) in
     py_strip (remove_mentions (case t of JStr s \<Rightarrow> s | _ \<Rightarrow> str_of W t)))"

text \<open>The validated \<open>SlackMessageReceived\<close> of a callback.\<close>

definition message_received :: "slack_wire \<Rightarrow> (string \<times> json) list \<Rightarrow> (string \<times> json) list \<Rightarrow> string \<Rightarrow> error + domain_event" where
  "message_received W env ev event_type =
     (let body = stripped_text W (dict_get ev ''text''); link = match_link body in
      bind_sum (str_field 1 (dict_get env ''event_id'')) (\<lambda>event_id.
      bind_sum (str_field 1 (dict_get env ''team_id'')) (\<lambda>team.
      bind_sum (str_field 1 (dict_get ev ''channel'')) (\<lambda>channel.
      bind_sum (str_field 1 (py_or (dict_get ev ''thread_ts'') (dict_get ev ''ts''))) (\<lambda>thread_ts.
      bind_sum (str_field 1 (dict_get ev ''ts'')) (\<lambda>ts.
      bind_sum (str_field 1 (dict_get ev ''user'')) (\<lambda>user.
      bind_sum (opt_str_field (dict_get ev ''channel_type'')) (\<lambda>channel_type.
      Inr (Slack_message_received \<lparr>sm_slack_event_id = event_id, sm_team_id = team, sm_channel_id = channel,
        sm_thread_ts = thread_ts, sm_message_ts = ts, sm_user_id = user, sm_text = body,
        sm_command = (if link = None then ''message'' else ''link''), sm_link_thread_id = link,
        sm_channel_type = channel_type, sm_event_type = event_type\<rparr>)))))))))"

definition stop_requested :: "(string \<times> json) list \<Rightarrow> (string \<times> json) list \<Rightarrow> error + domain_event" where
  "stop_requested env ev =
     bind_sum (str_field 0 (dict_get env ''event_id'')) (\<lambda>event_id.
     bind_sum (str_field 0 (dict_get env ''team_id'')) (\<lambda>team.
     bind_sum (str_field 0 (dict_get ev ''channel'')) (\<lambda>channel.
     bind_sum (str_field 0 (dict_get ev ''thread_ts'')) (\<lambda>thread_ts.
     bind_sum (str_field 0 (dict_get ev ''user'')) (\<lambda>user.
     Inr (Slack_thread_stop_requested \<lparr>sp_event_id = event_id, sp_team_id = team, sp_channel_id = channel,
       sp_thread_ts = thread_ts, sp_user_id = user\<rparr>))))))"

text \<open>A message of the one bot that may speak for a user.\<close>

definition allowed_app_bot :: "slack_secrets \<Rightarrow> bool \<Rightarrow> (string \<times> json) list \<Rightarrow> bool" where
  "allowed_app_bot K is_message ev =
     (is_message \<and> truthy (user_bot_id K) \<and> truthy (user_app_id K)
      \<and> dict_get ev ''bot_id'' = JStr (py_str (user_bot_id K)) \<and> dict_get ev ''app_id'' = JStr (py_str (user_app_id K)))"

definition all_strings :: "(string \<times> json) list \<Rightarrow> string list \<Rightarrow> bool" where
  "all_strings kvs keys = list_all (\<lambda>k. is_str (dict_get kvs k)) keys"

definition callback_event :: "slack_wire \<Rightarrow> slack_secrets \<Rightarrow> (string \<times> json) list \<Rightarrow> (string \<times> json) list
    \<Rightarrow> error + domain_event option" where
  "callback_event W K env ev =
     (let event_type = dict_get ev ''type''; subtype = dict_get ev ''subtype'' in
      bind_sum (in_strings event_type [''app_mention'', ''message'']) (\<lambda>is_message.
      let bot = allowed_app_bot K is_message ev in
      if py_true subtype \<and> \<not> (subtype = JStr ''bot_message'' \<and> bot) then Inr None
      else if py_true (dict_get ev ''bot_id'') \<and> \<not> bot then Inr None
      else if is_message then
        (if \<not> all_strings ev [''user'', ''channel'', ''ts''] then Inr None
         else if event_type = JStr ''message'' \<and> dict_get ev ''channel_type'' \<noteq> JStr ''im''
                 \<and> \<not> py_true (dict_get ev ''thread_ts'') then Inr None
         else bind_sum (str_field 0 event_type) (\<lambda>t. bind_sum (message_received W env ev t) (\<lambda>e. Inr (Some e))))
      else if event_type = JStr ''agent_session_stopped'' \<and> all_strings ev [''user'', ''channel'', ''thread_ts'']
      then bind_sum (stop_requested env ev) (\<lambda>e. Inr (Some e))
      else Inr None))"

definition normalize_event :: "slack_wire \<Rightarrow> slack_secrets \<Rightarrow> json \<Rightarrow> error + domain_event option" where
  "normalize_event W K envelope =
     bind_sum (as_dict envelope) (\<lambda>env.
     if dict_get env ''type'' \<noteq> JStr ''event_callback'' \<or> \<not> py_true (dict_get env ''event_id'')
        \<or> \<not> py_true (dict_get env ''team_id'') then Inr None
     else bind_sum (as_dict (py_or (dict_get env ''event'') (JObj []))) (callback_event W K env))"

section \<open>Clicks\<close>

fun nested :: "json \<Rightarrow> string list \<Rightarrow> json" where
  "nested v [] = v"
| "nested v (k # ks) = (case v of JObj kvs \<Rightarrow> nested (dict_get kvs k) ks | _ \<Rightarrow> JNull)"

text \<open>The two identifiers in the value of a button; what \<open>except\<close> catches there is \<open>None\<close>.\<close>

definition button_ids :: "slack_wire \<Rightarrow> json \<Rightarrow> error + (json \<times> json) option" where
  "button_ids W v = (case v of
     JStr s \<Rightarrow> (case loads W s of
        Inr (JObj kvs) \<Rightarrow> Inr (case (map_of kvs ''taskId'', map_of kvs ''requestId'') of
            (Some t, Some r) \<Rightarrow> Some (t, r) | _ \<Rightarrow> None)
      | Inr _ \<Rightarrow> Inr None
      | Inl (ValueError m) \<Rightarrow> Inr None
      | Inl e \<Rightarrow> Inl e)
   | _ \<Rightarrow> Inr None)"

definition confirmation_requested :: "string \<Rightarrow> json \<Rightarrow> json \<Rightarrow> json \<Rightarrow> json \<Rightarrow> json \<Rightarrow> json \<Rightarrow> bool \<Rightarrow> json \<Rightarrow> error + domain_event" where
  "confirmation_requested identity team channel thread_ts user task request approved message_ts =
     bind_sum (str_field 0 team) (\<lambda>team'.
     bind_sum (str_field 0 channel) (\<lambda>channel'.
     bind_sum (str_field 0 thread_ts) (\<lambda>thread_ts'.
     bind_sum (str_field 0 user) (\<lambda>user'.
     bind_sum (str_field 0 task) (\<lambda>task'.
     bind_sum (str_field 0 request) (\<lambda>request'.
     bind_sum (opt_str_field message_ts) (\<lambda>message_ts'.
     Inr (Slack_tool_confirmation_requested \<lparr>tc_interaction_id = identity, tc_team_id = team', tc_channel_id = channel',
       tc_thread_ts = thread_ts', tc_user_id = user', tc_task_id = task', tc_input_request_id = request',
       tc_approved = approved, tc_reason = None, tc_response_message_ts = message_ts'\<rparr>))))))))"

definition action_event :: "slack_wire \<Rightarrow> string \<Rightarrow> json \<Rightarrow> json \<Rightarrow> json \<Rightarrow> json \<Rightarrow> json \<Rightarrow> (string \<times> json) list
    \<Rightarrow> error + domain_event option" where
  "action_event W identity team user channel thread_ts message_ts act =
     (let action_id = dict_get act ''action_id''; v = dict_get act ''value'' in
      if \<not> list_all py_true [team, user, channel, thread_ts, action_id, v] then Inr None
      else
        bind_sum (in_strings action_id [''agent_tool_allow'', ''agent_tool_deny'']) (\<lambda>known.
        if \<not> known then Inr None
        else bind_sum (button_ids W v) (\<lambda>ids. case ids of
            None \<Rightarrow> Inr None
          | Some (task, request) \<Rightarrow> bind_sum (confirmation_requested identity team channel thread_ts user task
              request (action_id = JStr ''agent_tool_allow'') message_ts) (\<lambda>e. Inr (Some e)))))"

definition normalize_interaction :: "slack_wire \<Rightarrow> json \<Rightarrow> string \<Rightarrow> error + domain_event option" where
  "normalize_interaction W p body =
     (let team = nested p [''team'', ''id'']; user = nested p [''user'', ''id''];
          channel = py_or (nested p [''channel'', ''id'']) (nested p [''container'', ''channel_id'']);
          message_ts = py_or (nested p [''message'', ''ts'']) (nested p [''container'', ''message_ts'']);
          thread_ts = py_or (nested p [''message'', ''thread_ts'']) message_ts in
      bind_sum (as_dict p) (\<lambda>kvs.
      if dict_get kvs ''type'' \<noteq> JStr ''block_actions'' \<or> \<not> py_true (dict_get kvs ''actions'') then Inr None
      else
        bind_sum (first_item (dict_get kvs ''actions'')) (\<lambda>action.
        bind_sum (as_dict action) (action_event W (interaction_id W body) team user channel thread_ts message_ts))))"

section \<open>The handler\<close>

text \<open>The arguments of the log line of a click; only their errors matter.\<close>

definition click_log :: "json \<Rightarrow> error + unit" where
  "click_log p =
     bind_sum (as_dict p) (\<lambda>kvs.
     bind_sum (first_item (py_or (dict_get kvs ''actions'') (JArr [JObj []]))) (\<lambda>_.
     if py_true (dict_get kvs ''callback_id'') then Inr ()
     else bind_sum (as_dict (py_or (dict_get kvs ''view'') (JObj []))) (\<lambda>_. Inr ())))"

datatype ingress_outcome = Challenge string | Normalized "domain_event option"

definition read_payload :: "slack_wire \<Rightarrow> slack_secrets \<Rightarrow> string \<Rightarrow> string \<Rightarrow> error + ingress_outcome" where
  "read_payload W K content_type body =
     (if contains ''application/x-www-form-urlencoded'' content_type
      then
        bind_sum (loads W (case map_of (parse_qs W body) ''payload'' of Some (x # xs) \<Rightarrow> x | _ \<Rightarrow> ''{}'')) (\<lambda>p.
        bind_sum (click_log p) (\<lambda>_.
        bind_sum (normalize_interaction W p body) (\<lambda>e. Inr (Normalized e))))
      else
        bind_sum (loads W body) (\<lambda>p.
        bind_sum (as_dict p) (\<lambda>kvs.
        if dict_get kvs ''type'' = JStr ''url_verification'' \<and> is_str (dict_get kvs ''challenge'')
        then bind_sum (str_field 0 (dict_get kvs ''challenge'')) (\<lambda>c. Inr (Challenge c))
        else bind_sum (normalize_event W K p) (\<lambda>e. Inr (Normalized e)))))"

definition invalid_payload :: "error \<Rightarrow> bool" where
  "invalid_payload e = (case e of ValueError m \<Rightarrow> True | TypeError m \<Rightarrow> True | _ \<Rightarrow> False)"

definition handle_request :: "slack_wire \<Rightarrow> slack_secrets \<Rightarrow> 'q app_env \<Rightarrow> (string \<times> json) list
    \<Rightarrow> ('q app_worker, http_response) comp" where
  "handle_request W K X event =
     (if \<not> truthy (signing_secret K) then ret (response 503 (JObj [(''error'', JStr ''Slack is not configured'')]))
      else case raw_body W event of Inl e \<Rightarrow> raise_err e | Inr body \<Rightarrow>
      (case headers W event of Inl e \<Rightarrow> raise_err e | Inr hs \<Rightarrow>
       if \<not> verify_slack_signature W (py_str (signing_secret K)) (map_of hs ''x-slack-request-timestamp'')
            (map_of hs ''x-slack-signature'') body
       then ret (response 401 (JObj [(''error'', JStr ''invalid signature'')]))
       else case read_payload W K (case map_of hs ''content-type'' of None \<Rightarrow> [] | Some t \<Rightarrow> t) body of
         Inl e \<Rightarrow> if invalid_payload e then ret (response 400 (JObj [(''error'', JStr ''invalid payload'')])) else raise_err e
       | Inr (Challenge c) \<Rightarrow> ret (response 200 (JObj [(''challenge'', JStr c)]))
       | Inr (Normalized None) \<Rightarrow> ret (response 200 (JObj [(''ok'', JBool True), (''ignored'', JBool True)]))
       | Inr (Normalized (Some e)) \<Rightarrow>
           bnd (call (app_rt X) (publish e)) (\<lambda>_. ret (response 200 (JObj [(''ok'', JBool True)])))))"

end
