(* ===== verification/Ingress_Safety.thy ===== *)
theory Ingress_Safety
  imports Slack_Ingress Sample_App
begin

text \<open>
  Guarantees of the public endpoint for Slack: without a valid signature nothing happens, what it
  publishes is well-formed whatever arrives, and a click on a button that the projector has shown names the task and
  the request of that very button, up to the decision that the controller decodes.
\<close>

section \<open>What the endpoint publishes\<close>

text \<open>The shape of a published event, as the workers rely on it.\<close>

definition event_ok :: "domain_event \<Rightarrow> bool" where
  "event_ok ev = (case ev of
     Slack_message_received d \<Rightarrow> sm_slack_event_id d \<noteq> [] \<and> sm_team_id d \<noteq> [] \<and> sm_channel_id d \<noteq> []
       \<and> sm_thread_ts d \<noteq> [] \<and> sm_message_ts d \<noteq> [] \<and> sm_user_id d \<noteq> []
       \<and> sm_event_type d \<in> {''app_mention'', ''message''} \<and> sm_command d \<in> {''message'', ''link''}
       \<and> (case sm_link_thread_id d of None \<Rightarrow> sm_command d = ''message'' | Some u \<Rightarrow> sm_command d = ''link'' \<and> is_uuid u)
   | Slack_thread_stop_requested d \<Rightarrow> sp_event_id d \<noteq> [] \<and> sp_team_id d \<noteq> []
   | Slack_tool_confirmation_requested d \<Rightarrow> tc_team_id d \<noteq> [] \<and> tc_channel_id d \<noteq> [] \<and> tc_thread_ts d \<noteq> []
       \<and> tc_user_id d \<noteq> [] \<and> tc_reason d = None
   | _ \<Rightarrow> False)"

lemmas field_simps' = bind_sum_Inr str_field_Inr opt_str_field_Inr

lemma message_received_ok:
  assumes "message_received W env ev t = Inr e" "t \<in> {''app_mention'', ''message''}"
  shows "event_ok e"
  using assms by (auto simp: message_received_def Let_def field_simps' event_ok_def match_link_def Suc_le_eq split: if_splits)

lemma py_true_str: "py_true (JStr s) \<longleftrightarrow> s \<noteq> []"
  by (simp add: py_true_def)

lemma normalize_event_ok:
  assumes "normalize_event W K p = Inr (Some e)"
  shows "event_ok e"
proof -
  from assms obtain env ev where env: "py_true (dict_get env ''event_id'')" "py_true (dict_get env ''team_id'')"
    and e: "callback_event W K env ev = Inr (Some e)"
    by (auto simp: normalize_event_def bind_sum_Inr split: if_splits)
  show ?thesis
  proof (cases "in_strings (dict_get ev ''type'') [''app_mention'', ''message'']")
    case (Inr is_message)
    with e consider t where "dict_get ev ''type'' = JStr t" "t \<in> {''app_mention'', ''message''}" "message_received W env ev t = Inr e"
      | "stop_requested env ev = Inr e"
      by (auto simp: callback_event_def Let_def bind_sum_Inr str_field_Inr in_strings_def split: if_splits json.splits)
    then show ?thesis
    proof cases
      case 2
      with env show ?thesis by (auto simp: stop_requested_def field_simps' event_ok_def py_true_str)
    qed (rule message_received_ok)
  qed (use e in \<open>simp add: callback_event_def Let_def\<close>)
qed

lemma confirmation_requested_ok:
  assumes "confirmation_requested i team channel thread_ts user task request approved message_ts = Inr e"
    "list_all py_true [team, user, channel, thread_ts]"
  shows "event_ok e"
  using assms by (auto simp: confirmation_requested_def field_simps' event_ok_def py_true_str)

lemma action_event_ok: "action_event W i team user channel thread_ts message_ts act = Inr (Some e) \<Longrightarrow> event_ok e"
  by (auto simp: action_event_def Let_def bind_sum_Inr intro: confirmation_requested_ok split: if_splits option.splits)

lemma normalize_interaction_ok: "normalize_interaction W p body = Inr (Some e) \<Longrightarrow> event_ok e"
  by (auto simp: normalize_interaction_def Let_def bind_sum_Inr dest: action_event_ok split: if_splits)

lemma read_payload_ok:
  assumes "read_payload W K content_type body = Inr (Normalized (Some e))"
  shows "event_ok e"
  using assms
  by (auto simp: read_payload_def bind_sum_Inr dest: normalize_event_ok normalize_interaction_ok
      split: if_splits)

text \<open>The handler either touches nothing or publishes one event of a signed request.\<close>

lemma handle_request_cases:
  obtains (silent) r where "handle_request W K X event w = (r, w)"
  | (publishes) secret body hs t g e where "signing_secret K = Some secret" "raw_body W event = Inr body"
      "headers W event = Inr hs" "map_of hs ''x-slack-request-timestamp'' = Some t" "map_of hs ''x-slack-signature'' = Some g"
      "signature_valid W secret body t g" "event_ok e"
      "snd (handle_request W K X event w) = snd (call (app_rt X) (publish e) w)"
proof (cases "truthy (signing_secret K)")
  case secret: True
  show thesis
  proof (cases "raw_body W event")
    case body: (Inr body)
    show thesis
    proof (cases "headers W event")
      case hs: (Inr hs)
      let ?o = "read_payload W K (case map_of hs ''content-type'' of None \<Rightarrow> [] | Some t \<Rightarrow> t) body"
      let ?v = "verify_slack_signature W (py_str (signing_secret K)) (map_of hs ''x-slack-request-timestamp'')
            (map_of hs ''x-slack-signature'') body"
      show thesis
      proof (cases "\<exists>e. ?v \<and> ?o = Inr (Normalized (Some e))")
        case True
        then obtain e where v: "?v" and e: "?o = Inr (Normalized (Some e))" by blast
        have "snd (handle_request W K X event w) = snd (call (app_rt X) (publish e) w)"
          using secret body hs v e by (simp add: handle_request_def bnd_def ret_def split: prod.splits sum.splits)
        with publishes [OF _ body hs] secret v read_payload_ok [OF e] show thesis
          by (auto simp: verify_slack_signature_def elim!: truthyE)
      next
        case False
        then have "snd (handle_request W K X event w) = w"
          using secret body hs
          by (auto simp: handle_request_def ret_def raise_err_def split: sum.splits option.splits ingress_outcome.splits)
        then show thesis using silent by (metis prod.collapse)
      qed
    qed (use secret body silent in \<open>auto simp: handle_request_def raise_err_def\<close>)
  qed (use secret silent in \<open>auto simp: handle_request_def raise_err_def\<close>)
qed (use silent in \<open>auto simp: handle_request_def ret_def\<close>)

text \<open>C21: Only a signed request has an effect. If the endpoint changes anything at all, then a signing secret is
  configured, the request carries a timestamp and a signature, and the signature is valid for exactly the
  body that was read; and the effect is the publication of one event.\<close>

theorem only_signed_requests_act:
  assumes "snd (handle_request W K X event w) \<noteq> w"
  shows "\<exists>secret body hs t g e. signing_secret K = Some secret \<and> raw_body W event = Inr body \<and> headers W event = Inr hs
    \<and> map_of hs ''x-slack-request-timestamp'' = Some t \<and> map_of hs ''x-slack-signature'' = Some g
    \<and> signature_valid W secret body t g
    \<and> snd (handle_request W K X event w) = snd (call (app_rt X) (publish e) w)"
  by (rule handle_request_cases [of W K X event w]) (use assms in \<open>simp, metis\<close>)


section \<open>A sample request\<close>

definition sample_wire :: slack_wire where
  "sample_wire = \<lparr>signature_valid = (\<lambda>secret body t g. g = secret @ t @ body), loads = json_loads,
     b64_text = Inr, parse_qs = (\<lambda>b. [(''payload'', [drop 8 b])]), sha256_text = (\<lambda>s. s), str_of = (\<lambda>_. ''?'')\<rparr>"

definition sample_secrets :: slack_secrets where
  "sample_secrets = \<lparr>signing_secret = Some ''s'', user_bot_id = None, user_app_id = None\<rparr>"

definition sample_callback :: string where
  "sample_callback = dumps_compact (JObj [(''type'', JStr ''event_callback''), (''event_id'', JStr ''Ev1''),
     (''team_id'', JStr ''T1''), (''event'', JObj [(''type'', JStr ''app_mention''), (''user'', JStr ''U1''),
       (''channel'', JStr ''C1''), (''ts'', JStr ''1.5''), (''text'', JStr ''<@UBOT> hello'')])])"

definition sample_request :: "(string \<times> json) list" where
  "sample_request = [(''body'', JStr sample_callback),
     (''headers'', JObj [(''X-Slack-Request-Timestamp'', JStr ''7''), (''X-Slack-Signature'', JStr (''s7'' @ sample_callback))])]"

lemma sample_published:
  "bus (shared (snd (handle_request sample_wire sample_secrets sample_app_env sample_request (start_run sample_app []))))
     = [Slack_message_received \<lparr>sm_slack_event_id = ''Ev1'', sm_team_id = ''T1'', sm_channel_id = ''C1'',
          sm_thread_ts = ''1.5'', sm_message_ts = ''1.5'', sm_user_id = ''U1'', sm_text = ''hello'',
          sm_command = ''message'', sm_link_thread_id = None, sm_channel_type = None, sm_event_type = ''app_mention''\<rparr>]"
  by code_simp

lemma only_signed_requests_act_witness:
  "\<exists>secret body t g. signing_secret sample_secrets = Some secret \<and> raw_body sample_wire sample_request = Inr body
     \<and> signature_valid sample_wire secret body t g"
proof -
  let ?w = "start_run sample_app [] :: unit app_worker"
  have "bus (shared ?w) = []" by (simp add: start_run_def sample_app_def)
  then have "snd (handle_request sample_wire sample_secrets sample_app_env sample_request ?w) \<noteq> ?w"
    using sample_published by force
  from only_signed_requests_act [OF this] show ?thesis by blast
qed

section \<open>Clicks on the buttons that were shown\<close>

lemma button_ids_shown:
  assumes "loads W = json_loads"
  shows "button_ids W (JStr (button_value task request)) = Inr (Some (JStr task, JStr request))"
proof -
  have "json_loads (button_value task request) = Inr (JObj [(''taskId'', JStr task), (''requestId'', JStr request)])"
    unfolding button_value_def by (rule loads_dumps) simp
  with assms show ?thesis by (simp add: button_ids_def)
qed

lemma button_value_nonempty: "button_value task request \<noteq> []"
  by (simp add: button_value_def)

text \<open>C23: A click decides exactly what was shown. Let a payload of Slack carry the action and the value of one of the buttons
  that the projector has shown for a request, from a named team, user, channel and thread. Then the
  endpoint turns it into a confirmation for the task and the request of that button, approved exactly
  when the button is \<open>Allow\<close>; and the response that the input worker sends for it decodes at the
  controller to that decision on that request.\<close>

theorem click_decides_what_was_shown:
  assumes "loads W = json_loads" "request \<noteq> []"
    and "JObj [(''type'', JStr ''actions''), (''block_id'', JStr (''tool:'' @ request)), (''elements'', JArr buttons)]
           \<in> set (tool_approval_blocks task request name args explanation)" "JObj b \<in> set buttons"
    and "dict_get kvs ''type'' = JStr ''block_actions''" "dict_get kvs ''actions'' = JArr (JObj act # others)"
    and "dict_get act ''action_id'' = dict_get b ''action_id''" "dict_get act ''value'' = dict_get b ''value''"
    and "nested (JObj kvs) [''team'', ''id''] = JStr team" "nested (JObj kvs) [''user'', ''id''] = JStr user"
    and "nested (JObj kvs) [''channel'', ''id''] = JStr channel" "nested (JObj kvs) [''message'', ''ts''] = JStr ts"
    and "nested (JObj kvs) [''message'', ''thread_ts''] = JStr thread_ts"
    and "[] \<notin> {team, user, channel, ts, thread_ts}"
  shows "\<exists>d. normalize_interaction W (JObj kvs) body = Inr (Some (Slack_tool_confirmation_requested d))
    \<and> tc_task_id d = task \<and> tc_input_request_id d = request
    \<and> tc_approved d = (dict_get b ''action_id'' = JStr ''agent_tool_allow'')
    \<and> tc_team_id d = team \<and> tc_user_id d = user \<and> tc_channel_id d = channel \<and> tc_thread_ts d = thread_ts
    \<and> decode_response (click_response d)
        = Some (Tool_approval_response request (if tc_approved d then ''allow'' else ''deny'') None)"
proof -
  have "b \<in> {[(''type'', JStr ''button''), (''action_id'', JStr a), (''text'', JObj [(''type'', JStr ''plain_text''), (''text'', JStr l)]),
      (''style'', JStr st), (''value'', JStr (button_value task request))] | a l st. a \<in> {''agent_tool_allow'', ''agent_tool_deny''}}"
    using assms(3,4) by (auto simp: tool_approval_blocks_def Let_def button_def response_text_blocks_def section_block_def)
  then obtain a where a: "a \<in> {''agent_tool_allow'', ''agent_tool_deny''}"
    "dict_get b ''action_id'' = JStr a" "dict_get b ''value'' = JStr (button_value task request)"
    by (auto simp: dict_get_def)
  let ?d = "\<lparr>tc_interaction_id = interaction_id W body, tc_team_id = team, tc_channel_id = channel,
    tc_thread_ts = thread_ts, tc_user_id = user, tc_task_id = task, tc_input_request_id = request,
    tc_approved = (a = ''agent_tool_allow''), tc_reason = None, tc_response_message_ts = Some ts\<rparr>"
  have "action_event W (interaction_id W body) (JStr team) (JStr user) (JStr channel) (JStr thread_ts) (JStr ts) act
      = Inr (Some (Slack_tool_confirmation_requested ?d))"
    using a assms(1,7,8,14) button_value_nonempty [of task request]
    by (auto simp: action_event_def Let_def py_true_def in_strings_def button_ids_shown confirmation_requested_def
        str_field_def opt_str_field_def)
  then have "normalize_interaction W (JObj kvs) body = Inr (Some (Slack_tool_confirmation_requested ?d))"
    using assms(5,6,9-14) by (auto simp: normalize_interaction_def Let_def as_dict_def py_true_def py_or_def first_item_def simp del: nested.simps)
  moreover have "decode_response (click_response ?d)
      = Some (Tool_approval_response request (if tc_approved ?d then ''allow'' else ''deny'') None)"
    using assms(2) by (auto simp: decode_response_def click_response_def known_fields_def field_def text_field_def
        opt_text_field_def Suc_le_eq)
  ultimately show ?thesis using a(2) by (intro exI [of _ ?d]) simp
qed

definition sample_click :: "(string \<times> json) list" where
  "sample_click = [(''type'', JStr ''block_actions''), (''team'', JObj [(''id'', JStr ''T1'')]),
     (''user'', JObj [(''id'', JStr ''U1'')]), (''channel'', JObj [(''id'', JStr ''C1'')]),
     (''message'', JObj [(''ts'', JStr ''2.0''), (''thread_ts'', JStr ''1.5'')]),
     (''actions'', JArr [button ''agent_tool_deny'' ''Deny'' ''danger'' (button_value ''tk1'' ''r1'')])]"

lemma click_decides_what_was_shown_witness:
  "\<exists>d. normalize_interaction sample_wire (JObj sample_click) ''payload='' = Inr (Some (Slack_tool_confirmation_requested d))
     \<and> tc_task_id d = ''tk1'' \<and> tc_input_request_id d = ''r1'' \<and> \<not> tc_approved d"
proof -
  let ?v = "button_value ''tk1'' ''r1''"
  let ?act = "[(''type'', JStr ''button''), (''action_id'', JStr ''agent_tool_deny''),
     (''text'', JObj [(''type'', JStr ''plain_text''), (''text'', JStr ''Deny'')]), (''style'', JStr ''danger''), (''value'', JStr ?v)]"
  have deny: "dict_get ?act ''action_id'' = JStr ''agent_tool_deny''" by (simp add: dict_get_def)
  have "\<exists>d. normalize_interaction sample_wire (JObj sample_click) ''payload='' = Inr (Some (Slack_tool_confirmation_requested d))
    \<and> tc_task_id d = ''tk1'' \<and> tc_input_request_id d = ''r1''
    \<and> tc_approved d = (dict_get ?act ''action_id'' = JStr ''agent_tool_allow'')
    \<and> tc_team_id d = ''T1'' \<and> tc_user_id d = ''U1'' \<and> tc_channel_id d = ''C1'' \<and> tc_thread_ts d = ''1.5''
    \<and> decode_response (click_response d)
        = Some (Tool_approval_response ''r1'' (if tc_approved d then ''allow'' else ''deny'') None)"
    by (rule click_decides_what_was_shown [where
          buttons = "[button ''agent_tool_allow'' ''Allow'' ''primary'' ?v, button ''agent_tool_deny'' ''Deny'' ''danger'' ?v]"
          and act = ?act and b = ?act and others = "[]" and ts = "''2.0''" and name = "''tool''" and args = JNull
          and explanation = None])
       (simp_all add: sample_wire_def sample_click_def dict_get_def tool_approval_blocks_def Let_def button_def)
  with deny show ?thesis by auto
qed

end
