(* ===== verification/Policy_Engine.thy ===== *)
theory Policy_Engine
  imports Schema Py_Json
begin

text \<open>
  \<^verbatim>\<open>policy/openappa.py\<close> (class \<open>OpenAppaPolicyEngine\<close>): the adapter to the OpenAPPA runtime, a child
  process that reads one JSON request and writes one JSON response. The process is a parameter; what it
  writes is untrusted. Shown here: the adapter allows a call only on a response that says so in exactly
  the agreed form, every malformed response is a policy error, and a human denial is never overridden.
\<close>

section \<open>The process\<close>

text \<open>
  The outcome of writing the request to the child and reading its output under the timeout: it could not be
  started, the time was over, another exception, or the bytes it wrote with its return code.
\<close>

datatype process_outcome = Not_started | Timed_out | Broken error | Finished string int

record 'p policy_process =
  read_policy :: "'p \<Rightarrow> (error + string) \<times> 'p"
  run_process :: "json \<Rightarrow> int \<Rightarrow> 'p \<Rightarrow> process_outcome \<times> 'p"
  policy_loads :: "string \<Rightarrow> error + json"

fun tool_kind_name :: "tool_kind \<Rightarrow> string" where
  "tool_kind_name Builtin = ''builtin''"
| "tool_kind_name Mcp = ''mcp''"

text \<open>\<open>asdict(request)\<close>\<close>

definition request_json :: "tool_policy_request \<Rightarrow> json" where
  "request_json r = JObj [(''root_id'', JStr (root_id r)), (''invocation_id'', JStr (invocation_id r)),
     (''agent_id'', JStr (agent_id r)), (''tool_kind'', JStr (tool_kind_name (tool_kind_of r))),
     (''tool_name'', JStr (tool_name r)), (''arguments'', JObj (arguments r)), (''runtime'', JStr ''cma'')]"

definition resolve_json :: "human_review \<Rightarrow> ruling \<Rightarrow> json" where
  "resolve_json review ruling = JObj [(''fingerprint'', JStr (hr_fingerprint review)),
     (''authority'', JStr (hr_authority review)),
     (''ruling'', JStr (if ruling = Allow then ''approve'' else ''deny''))]"

definition exchange_json :: "string \<Rightarrow> tool_policy_request \<Rightarrow> json \<Rightarrow> json" where
  "exchange_json policy request resolve = JObj [(''version'', JNum 3), (''policy'', JStr policy),
     (''request'', request_json request), (''resolve'', resolve)]"

section \<open>The response\<close>

definition invalid_response :: error where
  "invalid_response = PolicyError ''policy-invalid-response''"

text \<open>\<open>set(d) == keys\<close> for a dictionary.\<close>

definition has_keys :: "(string \<times> json) list \<Rightarrow> string list \<Rightarrow> bool" where
  "has_keys kvs keys = (set (map fst kvs) = set keys)"

definition error_code :: "json \<Rightarrow> string" where
  "error_code v = (case v of
     JStr s \<Rightarrow> (case map_of [(''invalid_policy'', ''policy-invalid-policy''),
         (''unsupported_policy'', ''policy-unsupported-policy''), (''invalid_request'', ''policy-invalid-request''),
         (''unsupported_remedy'', ''policy-remedy-unsupported''), (''stale_review'', ''policy-stale-review'')] s of
       Some code \<Rightarrow> code | None \<Rightarrow> ''policy-runtime-failure'')
   | JArr xs \<Rightarrow> ''policy-invalid-response''
   | JObj kvs \<Rightarrow> ''policy-invalid-response''
   | _ \<Rightarrow> ''policy-runtime-failure'')"

definition fingerprint_ok :: "string \<Rightarrow> bool" where
  "fingerprint_ok s = (length s = 64 \<and> list_all (\<lambda>c. let n = (of_char c :: nat) in
     (48 \<le> n \<and> n \<le> 57) \<or> (97 \<le> n \<and> n \<le> 102)) s)"

definition nonempty_str :: "json \<Rightarrow> string option" where
  "nonempty_str v = (case v of JStr s \<Rightarrow> if s = [] then None else Some s | _ \<Rightarrow> None)"

definition decode_review :: "json \<Rightarrow> error + human_review" where
  "decode_review v = (case v of
     JObj kvs \<Rightarrow>
       if \<not> has_keys kvs [''authority'', ''fingerprint'', ''description''] then Inl invalid_response
       else (case (nonempty_str (dict_get kvs ''authority''), nonempty_str (dict_get kvs ''fingerprint''),
                   nonempty_str (dict_get kvs ''description'')) of
               (Some a, Some f, Some d) \<Rightarrow>
                 if fingerprint_ok f then Inr \<lparr>hr_authority = a, hr_fingerprint = f, hr_description = d\<rparr>
                 else Inl invalid_response
             | _ \<Rightarrow> Inl invalid_response)
   | _ \<Rightarrow> Inl invalid_response)"

definition decode_result :: "json \<Rightarrow> error + tool_policy_decision" where
  "decode_result v = (case v of
     JObj kvs \<Rightarrow>
       if map_of kvs ''decision'' = Some (JStr ''human_review'') then
         (if \<not> has_keys kvs [''decision'', ''reason'', ''review''] then Inl invalid_response
          else bind_sum (decode_review (dict_get kvs ''review'')) (\<lambda>review.
            Inr \<lparr>d_decision = ''human_review'', d_reason = None, d_review = Some review\<rparr>))
       else if \<not> has_keys kvs [''decision'', ''reason''] then Inl invalid_response
       else if map_of kvs ''decision'' = Some (JStr ''deny'')
       then Inr \<lparr>d_decision = ''deny'', d_reason = Some ''Denied by OpenAPPA policy.'', d_review = None\<rparr>
       else if map_of kvs ''decision'' = Some (JStr ''allow'')
       then Inr \<lparr>d_decision = ''allow'', d_reason = None, d_review = None\<rparr>
       else Inl invalid_response
   | _ \<Rightarrow> Inl invalid_response)"

definition decode_output :: "(string \<Rightarrow> error + json) \<Rightarrow> string \<Rightarrow> int \<Rightarrow> error + tool_policy_decision" where
  "decode_output parse stdout returncode =
     (if length stdout > 65536 then Inl invalid_response
      else case parse stdout of
        Inr (JObj kvs) \<Rightarrow>
          if returncode \<noteq> 0 \<or> dict_get kvs ''version'' \<noteq> JNum 3 then Inl (PolicyError ''policy-runtime-failure'')
          else if ''error'' \<in> set (map fst kvs) then
            (if \<not> has_keys kvs [''version'', ''error''] then Inl invalid_response
             else Inl (PolicyError (error_code (dict_get kvs ''error''))))
          else if \<not> has_keys kvs [''version'', ''result''] then Inl invalid_response
          else decode_result (dict_get kvs ''result'')
      | Inr _ \<Rightarrow> Inl (if returncode \<noteq> 0 then PolicyError ''policy-runtime-failure'' else invalid_response)
      | Inl e \<Rightarrow> Inl invalid_response)"

section \<open>The engine\<close>

definition exchange_outcome :: "(string \<Rightarrow> error + json) \<Rightarrow> process_outcome \<Rightarrow> error + tool_policy_decision" where
  "exchange_outcome parse out = (case out of
     Not_started \<Rightarrow> Inl (PolicyError ''policy-unavailable'')
   | Timed_out \<Rightarrow> Inl (PolicyError ''policy-runtime-timeout'')
   | Broken e \<Rightarrow> Inl e
   | Finished stdout code \<Rightarrow> decode_output parse stdout code)"

definition policy_exchange :: "'p policy_process \<Rightarrow> tool_policy_request \<Rightarrow> int \<Rightarrow> json \<Rightarrow> 'p
    \<Rightarrow> (error + tool_policy_decision) \<times> 'p" where
  "policy_exchange P request timeout resolve p = (case read_policy P p of
     (Inl e, p1) \<Rightarrow> (Inl (PolicyError ''policy-unavailable''), p1)
   | (Inr policy, p1) \<Rightarrow> (case run_process P (exchange_json policy request resolve) timeout p1 of
       (out, p2) \<Rightarrow> (exchange_outcome (policy_loads P) out, p2)))"

text \<open>The answer to a ruling must settle the call and may not overrule a denial.\<close>

definition check_resolution :: "ruling \<Rightarrow> error + tool_policy_decision \<Rightarrow> error + tool_policy_decision" where
  "check_resolution ruling r = bind_sum r (\<lambda>d.
     if d_decision d = ''human_review'' \<or> (ruling = Deny \<and> d_decision d \<noteq> ''deny'') then Inl invalid_response else Inr d)"

definition openappa_engine :: "'p policy_process \<Rightarrow> 'p policy_engine" where
  "openappa_engine P =
     \<lparr>evaluate_tool_call = (\<lambda>request timeout. policy_exchange P request timeout JNull),
      resolve_tool_call = (\<lambda>request review ruling timeout p.
        apfst (check_resolution ruling) (policy_exchange P request timeout (resolve_json review ruling) p))\<rparr>"

section \<open>Failing closed\<close>

text \<open>The one form of a response that allows a call.\<close>

definition says_allow :: "'p policy_process \<Rightarrow> process_outcome \<Rightarrow> bool" where
  "says_allow P out = (\<exists>stdout kvs res. out = Finished stdout 0 \<and> length stdout \<le> 65536
     \<and> policy_loads P stdout = Inr (JObj kvs) \<and> has_keys kvs [''version'', ''result'']
     \<and> dict_get kvs ''version'' = JNum 3 \<and> dict_get kvs ''result'' = JObj res
     \<and> has_keys res [''decision'', ''reason''] \<and> map_of res ''decision'' = Some (JStr ''allow''))"

definition decision_ok :: "tool_policy_decision \<Rightarrow> bool" where
  "decision_ok d = (d_decision d \<in> {''allow'', ''deny'', ''human_review''}
     \<and> (d_decision d = ''human_review'' \<longleftrightarrow> d_review d \<noteq> None)
     \<and> (case d_review d of None \<Rightarrow> True
        | Some r \<Rightarrow> fingerprint_ok (hr_fingerprint r) \<and> hr_authority r \<noteq> [] \<and> hr_description r \<noteq> []))"

lemma nonempty_str_Some: "nonempty_str v = Some s \<longleftrightarrow> v = JStr s \<and> s \<noteq> []"
  by (auto simp: nonempty_str_def split: json.splits if_splits)

lemma decode_review_ok:
  "decode_review v = Inr r \<Longrightarrow> fingerprint_ok (hr_fingerprint r) \<and> hr_authority r \<noteq> [] \<and> hr_description r \<noteq> []"
  by (auto simp: decode_review_def nonempty_str_Some split: json.splits if_splits option.splits)

lemma decode_result_ok: "decode_result v = Inr d \<Longrightarrow> decision_ok d"
  by (auto simp: decode_result_def decision_ok_def bind_sum_Inr dest: decode_review_ok split: json.splits if_splits)

lemma decode_result_allow:
  "decode_result v = Inr d \<Longrightarrow> d_decision d = ''allow'' \<Longrightarrow>
     \<exists>res. v = JObj res \<and> has_keys res [''decision'', ''reason''] \<and> map_of res ''decision'' = Some (JStr ''allow'')"
  by (auto simp: decode_result_def bind_sum_Inr split: json.splits if_splits)

lemma exchange_outcome_Inr:
  assumes "exchange_outcome parse out = Inr d"
  obtains stdout kvs where "out = Finished stdout 0" "length stdout \<le> 65536" "parse stdout = Inr (JObj kvs)"
    "has_keys kvs [''version'', ''result'']" "dict_get kvs ''version'' = JNum 3"
    "decode_result (dict_get kvs ''result'') = Inr d"
  using assms
  by (auto simp: exchange_outcome_def decode_output_def split: process_outcome.splits sum.splits json.splits if_splits)

lemma exchange_outcome_Inl:
  "exchange_outcome parse out = Inl e \<Longrightarrow> (\<exists>code. e = PolicyError code) \<or> out = Broken e"
  by (auto simp: exchange_outcome_def decode_output_def decode_result_def decode_review_def invalid_response_def
      bind_sum_def split: process_outcome.splits sum.splits json.splits if_splits option.splits)

lemma policy_exchange_cases:
  obtains (unreadable) p1 where "policy_exchange P request timeout resolve p = (Inl (PolicyError ''policy-unavailable''), p1)"
  | (ran) policy p1 out p2 where "read_policy P p = (Inr policy, p1)"
      "run_process P (exchange_json policy request resolve) timeout p1 = (out, p2)"
      "policy_exchange P request timeout resolve p = (exchange_outcome (policy_loads P) out, p2)"
proof (cases "read_policy P p")
  case (Pair r p1)
  show thesis
  proof (cases r)
    case (Inl e)
    with Pair unreadable show thesis by (simp add: policy_exchange_def)
  next
    case (Inr policy)
    obtain out p2 where "run_process P (exchange_json policy request resolve) timeout p1 = (out, p2)" by fastforce
    with Pair Inr ran show thesis by (simp add: policy_exchange_def)
  qed
qed

text \<open>The answer of the engine to a first evaluation (no ruling) or to a ruling.\<close>

definition engine_answer :: "'p policy_process \<Rightarrow> tool_policy_request \<Rightarrow> (human_review \<times> ruling) option \<Rightarrow> int \<Rightarrow> 'p
    \<Rightarrow> error + tool_policy_decision" where
  "engine_answer P request ruled timeout p = (case ruled of
     None \<Rightarrow> fst (evaluate_tool_call (openappa_engine P) request timeout p)
   | Some (review, ruling) \<Rightarrow> fst (resolve_tool_call (openappa_engine P) request review ruling timeout p))"

definition resolve_of :: "(human_review \<times> ruling) option \<Rightarrow> json" where
  "resolve_of ruled = (case ruled of None \<Rightarrow> JNull | Some (review, ruling) \<Rightarrow> resolve_json review ruling)"

lemma engine_answer_exchange:
  "engine_answer P request ruled timeout p =
     (case ruled of None \<Rightarrow> id | Some (review, ruling) \<Rightarrow> check_resolution ruling)
       (fst (policy_exchange P request timeout (resolve_of ruled) p))"
  by (auto simp: engine_answer_def openappa_engine_def resolve_of_def split: option.splits)

lemma engine_answer_Inr:
  assumes "engine_answer P request ruled timeout p = Inr d"
  shows "fst (policy_exchange P request timeout (resolve_of ruled) p) = Inr d"
    and "ruled = Some (review, ruling) \<Longrightarrow> d_decision d \<noteq> ''human_review'' \<and> (ruling = Deny \<longrightarrow> d_decision d = ''deny'')"
  using assms unfolding engine_answer_exchange
  by (auto simp: check_resolution_def bind_sum_Inr split: option.splits if_splits)

text \<open>C24: The policy engine fails closed. If it answers \<open>allow\<close>, to a first evaluation or to a human ruling, then the policy
  file was read, the runtime was given exactly this request with that policy and ruling, ended with return
  code 0 and wrote, in at most 65536 bytes, a response of version 3 whose result has only a decision and a
  reason and decides \<open>allow\<close>; and the human ruling, if there was one, was not a denial.\<close>

theorem engine_fails_closed:
  assumes "engine_answer P request ruled timeout p = Inr d" "d_decision d = ''allow''"
  shows "(\<exists>policy p1. read_policy P p = (Inr policy, p1)
      \<and> says_allow P (fst (run_process P (exchange_json policy request (resolve_of ruled)) timeout p1)))
    \<and> (\<forall>review ruling. ruled = Some (review, ruling) \<longrightarrow> ruling = Allow)"
proof
  note ex = engine_answer_Inr(1) [OF assms(1)]
  show "\<exists>policy p1. read_policy P p = (Inr policy, p1)
      \<and> says_allow P (fst (run_process P (exchange_json policy request (resolve_of ruled)) timeout p1))"
  proof (rule policy_exchange_cases [of P request timeout "resolve_of ruled" p])
    fix policy p1 out p2
    assume r: "read_policy P p = (Inr policy, p1)"
      "run_process P (exchange_json policy request (resolve_of ruled)) timeout p1 = (out, p2)"
      "policy_exchange P request timeout (resolve_of ruled) p = (exchange_outcome (policy_loads P) out, p2)"
    with ex have "exchange_outcome (policy_loads P) out = Inr d" by simp
    then have "says_allow P out"
      using decode_result_allow [OF _ assms(2)] by (elim exchange_outcome_Inr) (fastforce simp: says_allow_def)
    with r show ?thesis by auto
  qed (use ex in simp)
  show "\<forall>review ruling. ruled = Some (review, ruling) \<longrightarrow> ruling = Allow"
  proof (intro allI impI)
    fix review ruling assume "ruled = Some (review, ruling)"
    from engine_answer_Inr(2) [OF assms(1) this] assms(2) show "ruling = Allow" by (cases ruling) simp_all
  qed
qed


definition sample_process :: "unit policy_process" where
  "sample_process = \<lparr>read_policy = (\<lambda>p. (Inr ''policy'', p)),
     run_process = (\<lambda>req t p. (Finished (dumps_compact (JObj [(''version'', JNum 3),
       (''result'', JObj [(''decision'', JStr ''allow''), (''reason'', JNull)])])) 0, p)),
     policy_loads = json_loads\<rparr>"

definition sample_tool_request :: tool_policy_request where
  "sample_tool_request = \<lparr>root_id = ''c1'', invocation_id = ''e3'', agent_id = ''app'', tool_kind_of = Builtin,
     tool_name = ''bash'', arguments = []\<rparr>"

lemma sample_answer:
  "engine_answer sample_process sample_tool_request None 10 () = Inr \<lparr>d_decision = ''allow'', d_reason = None, d_review = None\<rparr>"
proof -
  let ?v = "JObj [(''version'', JNum 3), (''result'', JObj [(''decision'', JStr ''allow''), (''reason'', JNull)])]"
  have "length (dumps_compact ?v) \<le> 65536"
    by (simp add: json_quote_def json_char_def show_int_def show_nat.simps [of 3])
  moreover have "json_loads (dumps_compact ?v) = Inr ?v" by (rule loads_dumps) simp
  ultimately show ?thesis
    by (simp add: engine_answer_def openappa_engine_def policy_exchange_def sample_process_def exchange_outcome_def
        decode_output_def decode_result_def has_keys_def dict_get_def del: dumps_compact.simps)
qed

lemma engine_fails_closed_witness:
  "\<exists>policy p1. read_policy sample_process () = (Inr policy, p1)
     \<and> says_allow sample_process (fst (run_process sample_process (exchange_json policy sample_tool_request (resolve_of None)) 10 p1))"
  using engine_fails_closed [OF sample_answer] by simp

end
