(* ===== verification/Watch_Safety.thy ===== *)
theory Watch_Safety
  imports Request_Handler Sample_Run
begin

text \<open>
  What a client that watches a task sees: first the task, then every agent message at most once and none it
  has been given before, only real changes of the status, and nothing after a status that
  ends the interaction. This holds in any environment. And watching ends: with a clock that moves, the fuel of the loop
  is enough.
\<close>

section \<open>The stream\<close>

fun message_ids :: "stream_event list \<Rightarrow> string list" where
  "message_ids [] = []"
| "message_ids (Message_event m # xs) = msg_id m # message_ids xs"
| "message_ids (_ # xs) = message_ids xs"

fun statuses :: "stream_event list \<Rightarrow> (task_state \<times> a2a_message option) list" where
  "statuses [] = []"
| "statuses (Status_event i c st m # xs) = (st, m) # statuses xs"
| "statuses (_ # xs) = statuses xs"

fun ends_watch :: "stream_event \<Rightarrow> bool" where
  "ends_watch (Status_event i c st m) = watch_boundary st"
| "ends_watch _ = False"

text \<open>A segment of the stream, given what was emitted before and the last status.\<close>

definition stream_ok :: "string list \<Rightarrow> task_state \<times> a2a_message option \<Rightarrow> stream_event list \<Rightarrow> bool" where
  "stream_ok emitted st xs = (distinct (message_ids xs) \<and> set (message_ids xs) \<inter> set emitted = {}
     \<and> distinct_adj (st # statuses xs) \<and> list_all (\<lambda>x. \<not> ends_watch x) (butlast xs))"

lemma message_ids_append [simp]: "message_ids (xs @ ys) = message_ids xs @ message_ids ys"
  by (induction xs rule: message_ids.induct) simp_all

lemma statuses_append [simp]: "statuses (xs @ ys) = statuses xs @ statuses ys"
  by (induction xs rule: statuses.induct) simp_all

lemma distinct_adj_join:
  assumes "distinct_adj (x # xs)" "distinct_adj (last (x # xs) # ys)"
  shows "distinct_adj (x # xs @ ys)"
proof -
  have "distinct_adj ((x # xs) @ ys)"
    unfolding distinct_adj_append_iff using assms by (cases ys) auto
  then show ?thesis by simp
qed

lemma list_all_butlast: "list_all p xs \<Longrightarrow> list_all p (butlast xs)"
  by (auto simp: list_all_iff dest: in_set_butlastD)

lemma stream_ok_append:
  assumes "stream_ok em st xs" "list_all (\<lambda>x. \<not> ends_watch x) xs"
    and "stream_ok em' (last (st # statuses xs)) ys" "set em' = set em \<union> set (message_ids xs)"
  shows "stream_ok em st (xs @ ys)"
proof -
  have "distinct_adj (st # statuses xs @ statuses ys)"
    using assms(1,3) by (intro distinct_adj_join) (simp_all add: stream_ok_def)
  moreover have "list_all (\<lambda>x. \<not> ends_watch x) (butlast (xs @ ys))"
    using assms(2,3) by (auto simp: stream_ok_def butlast_append list_all_iff dest: in_set_butlastD)
  ultimately show ?thesis using assms(1,3,4) by (auto simp: stream_ok_def)
qed

section \<open>Silent parts\<close>

lemma silent_reads:
  "keeps silent_run (monotonic E)" "keeps silent_run (sleep E n)" "keeps silent_run (watch_marker E tid)"
  "keeps silent_run (get_task_view E tid options)"
  unfolding monotonic_def sleep_def watch_marker_def get_task_view_def read_pending_text_def read_review_def Let_def
  by (auto intro!: silent_intros split: option.splits prod.splits sum.splits)

text \<open>What a computation adds to the stream, with its result.\<close>

definition yields :: "(error + 'a \<Rightarrow> 'o list \<Rightarrow> bool) \<Rightarrow> (('s, 'l, 'o) run, 'a) comp \<Rightarrow> bool" where
  "yields P m = (\<forall>w. \<exists>seg. obs (snd (m w)) = obs w @ seg \<and> P (fst (m w)) seg)"

lemma yieldsD: "yields P m \<Longrightarrow> \<exists>seg. obs (snd (m w)) = obs w @ seg \<and> P (fst (m w)) seg"
  by (simp add: yields_def)

lemma yields_ret: "P (Inr x) [] \<Longrightarrow> yields P (ret x)"
  by (simp add: yields_def ret_def)

lemma yields_silent_bnd:
  assumes "keeps silent_run m" "\<And>e. P (Inl e) []" "\<And>x. yields P (f x)"
  shows "yields P (bnd m f)"
  unfolding yields_def
proof
  fix w
  show "\<exists>seg. obs (snd (bnd m f w)) = obs w @ seg \<and> P (fst (bnd m f w)) seg"
  proof (rule bnd_cases [of m w f])
    fix e v assume "m w = (Inl e, v)" "bnd m f w = (Inl e, v)"
    with assms(2) silent_result [OF assms(1)] show ?thesis by fastforce
  next
    fix x v assume x: "m w = (Inr x, v)" "bnd m f w = f x v"
    with yieldsD [OF assms(3), of x v] silent_result [OF assms(1) x(1)] show ?thesis by simp
  qed
qed

lemma yield_messages_stream:
  "\<exists>seg em'. yield_messages em ms w = (Inr em', w\<lparr>obs := obs w @ seg\<rparr>) \<and> set em' = set em \<union> set (message_ids seg)
     \<and> distinct (message_ids seg) \<and> set (message_ids seg) \<inter> set em = {} \<and> statuses seg = [] \<and> list_all (\<lambda>x. \<not> ends_watch x) seg"
proof (induction ms arbitrary: em w)
  case Nil
  then show ?case by (intro exI [of _ "[]"] exI [of _ em]) (simp add: ret_def)
next
  case (Cons m ms)
  show ?case
  proof (cases "fresh_message em m")
    case True
    let ?w = "w\<lparr>obs := obs w @ [Message_event m]\<rparr>"
    from Cons.IH [of "msg_id m # em" ?w] obtain seg em' where
      "yield_messages (msg_id m # em) ms ?w = (Inr em', ?w\<lparr>obs := obs ?w @ seg\<rparr>)"
      "set em' = set (msg_id m # em) \<union> set (message_ids seg)" "distinct (message_ids seg)"
      "set (message_ids seg) \<inter> set (msg_id m # em) = {}" "statuses seg = []" "list_all (\<lambda>x. \<not> ends_watch x) seg" by blast
    with True show ?thesis
      by (intro exI [of _ "Message_event m # seg"] exI [of _ em']) (auto simp: bnd_def observe_def fresh_message_def)
  qed (use Cons.IH in simp)
qed

lemma yield_status_run:
  "yield_status st t w = (Inr (), w\<lparr>obs := obs w @ (if task_status t = st then []
     else [Status_event (tk_id t) (tk_context_id t) (tk_state t) (tk_status_message t)])\<rparr>)"
  by (simp add: yield_status_def when_m_def observe_def ret_def)

text \<open>What one pass adds to the stream, and that a continued pass has not ended it.\<close>

definition pass_ok :: "watch_state \<Rightarrow> error + watch_state option \<Rightarrow> stream_event list \<Rightarrow> bool" where
  "pass_ok st r seg = (stream_ok (w_emitted st) (w_status st) seg \<and>
     (\<forall>st'. r = Inr (Some st') \<longrightarrow> list_all (\<lambda>x. \<not> ends_watch x) seg \<and> w_status st' = last (w_status st # statuses seg)
        \<and> set (w_emitted st') = set (w_emitted st) \<union> set (message_ids seg)))"

lemma pass_ok_none: "pass_ok st (Inl e) []" "pass_ok st (Inr None) []" "pass_ok st (Inr (Some st)) []"
  by (simp_all add: pass_ok_def stream_ok_def)

lemma yields_stream:
  "yields (pass_ok st) (bnd (yield_messages (w_emitted st) (tk_history cur)) (\<lambda>emitted. bnd (yield_status (w_status st) cur) (\<lambda>_.
      bnd (monotonic E) (\<lambda>t. if watch_boundary (tk_state cur) then ret None
         else ret (Some \<lparr>w_emitted = emitted, w_status = task_status cur, w_marker = mk, w_next_snapshot = t + d\<rparr>)))))"
  (is "yields _ ?m")
  unfolding yields_def
proof
  fix w :: "'a watcher"
  obtain seg em' where y: "yield_messages (w_emitted st) (tk_history cur) w = (Inr em', w\<lparr>obs := obs w @ seg\<rparr>)"
    "set em' = set (w_emitted st) \<union> set (message_ids seg)" "distinct (message_ids seg)"
    "set (message_ids seg) \<inter> set (w_emitted st) = {}" "statuses seg = []" "list_all (\<lambda>x. \<not> ends_watch x) seg"
    using yield_messages_stream by blast
  let ?s = "if task_status cur = w_status st then [] else [Status_event (tk_id cur) (tk_context_id cur) (tk_state cur) (tk_status_message cur)]"
  let ?k = "\<lambda>t. if watch_boundary (tk_state cur) then ret None
         else ret (Some \<lparr>w_emitted = em', w_status = task_status cur, w_marker = mk, w_next_snapshot = t + d\<rparr>)"
  have run: "?m w = bnd (monotonic E) ?k (w\<lparr>obs := obs w @ seg @ ?s\<rparr>)"
    using y(1) yield_status_run [of "w_status st" cur "w\<lparr>obs := obs w @ seg\<rparr>"] by (auto simp: bnd_def split: if_splits)
  have "stream_ok (w_emitted st) (w_status st) (seg @ ?s)"
    using y by (auto simp: stream_ok_def task_status_def butlast_append list_all_butlast)
  then have "yields (\<lambda>r xs. xs = [] \<and> pass_ok st r (seg @ ?s)) (bnd (monotonic E) ?k)"
    using y by (intro yields_silent_bnd silent_reads) (auto intro!: yields_ret simp: pass_ok_def task_status_def)
  from yieldsD [OF this, of "w\<lparr>obs := obs w @ seg @ ?s\<rparr>"] show "\<exists>seg. obs (snd (?m w)) = obs w @ seg \<and> pass_ok st (fst (?m w)) seg"
    unfolding run by auto
qed

lemma pass_stream: "yields (pass_ok st) (watch_pass E tid live deadline st)"
  unfolding watch_pass_def watch_poll_def
  by (auto intro!: yields_silent_bnd yields_ret yields_stream pass_ok_none silent_reads silent_intros)

lemma loop_stream: "yields (\<lambda>r. stream_ok (w_emitted st) (w_status st)) (watch_loop n E tid live deadline st)"
proof (induction n arbitrary: st)
  case 0
  then show ?case by (simp add: yields_ret stream_ok_def)
next
  case (Suc n)
  show ?case unfolding yields_def
  proof
    fix w :: "'a watcher"
    obtain seg where seg: "obs (snd (watch_pass E tid live deadline st w)) = obs w @ seg"
      "pass_ok st (fst (watch_pass E tid live deadline st w)) seg" using yieldsD [OF pass_stream] by blast
    show "\<exists>seg. obs (snd (watch_loop (Suc n) E tid live deadline st w)) = obs w @ seg
        \<and> stream_ok (w_emitted st) (w_status st) seg"
    proof (cases "\<exists>st' v. watch_pass E tid live deadline st w = (Inr (Some st'), v)")
      case True
      then obtain st' v where p: "watch_pass E tid live deadline st w = (Inr (Some st'), v)" by blast
      obtain ys where "obs (snd (watch_loop n E tid live deadline st' v)) = obs v @ ys" "stream_ok (w_emitted st') (w_status st') ys"
        using yieldsD [OF Suc.IH] by blast
      moreover have "stream_ok (w_emitted st) (w_status st) (seg @ ys)"
        by (rule stream_ok_append [of _ _ _ "w_emitted st'"]) (use seg p calculation in \<open>auto simp: pass_ok_def\<close>)
      ultimately show ?thesis using p seg by (auto simp: bnd_def)
    next
      case False
      then have "snd (watch_loop (Suc n) E tid live deadline st w) = snd (watch_pass E tid live deadline st w)"
        by (auto simp: bnd_def ret_def split: prod.splits sum.splits option.splits)
      with seg show ?thesis by (auto simp: pass_ok_def)
    qed
  qed
qed


section \<open>Watching ends\<close>

text \<open>The clock moves between any two steps.\<close>

definition time_passes :: "'p env \<Rightarrow> bool" where
  "time_passes E = (\<forall>n s. clock s < clock (interfere (rt_of E) n s))"

definition later :: "('p sys, 'l, 'o) run \<Rightarrow> ('p sys, 'l, 'o) run \<Rightarrow> bool" where
  "later w v = (clock (shared w) \<le> clock (shared v))"

interpretation lateness: step_relation later
  by unfold_locales (auto simp: later_def)

lemma later_call:
  fixes f :: "('p sys, 'x) comp"
  assumes "time_passes E" "keeps same_tables f"
  shows "keeps later (call (rt_of E) f :: (('p sys, 'l, 'o) run, 'x) comp)"
proof (rule keepsI)
  fix w :: "('p sys, 'l, 'o) run"
  let ?s = "interfere (rt_of E) (tick w) (shared w)"
  have "clock ?s \<le> clock (snd (f ?s))" using keepsD [OF assms(2), of ?s] by (simp add: same_tables_def)
  moreover have "clock (shared w) \<le> clock ?s" using assms(1) by (simp add: time_passes_def less_imp_le)
  ultimately show "later w (snd (call (rt_of E) f w))"
    by (auto simp: later_def call_def Let_def split: fault.splits prod.splits)
qed

lemma later_observe: "keeps later (observe x)"
  by (auto intro!: keepsI simp: later_def observe_def)

lemma later_yield_messages: "keeps later (yield_messages em ms)"
  by (induction ms arbitrary: em) (auto intro!: lateness.keeps_control later_observe)

lemma later_yield_status: "keeps later (yield_status st t)"
  unfolding yield_status_def by (intro lateness.keeps_when later_observe)

lemma sleep_same_tables: "keeps same_tables (\<lambda>s. (Inr (), s\<lparr>clock := clock s + seconds 1\<rparr>))"
  by (rule keepsI) (simp add: same_tables_def seconds_def)

lemma later_reads:
  assumes "time_passes E"
  shows "keeps later (monotonic E)" "keeps later (sleep E 1)" "keeps later (watch_marker E tid)"
    "keeps later (get_task_view E tid options)"
  unfolding monotonic_def sleep_def watch_marker_def get_task_view_def read_pending_text_def read_review_def Let_def
  by (auto intro!: lateness.keeps_control later_call [OF assms] port_same_tables provider_same_tables sleep_same_tables
      split: option.splits prod.splits sum.splits)

text \<open>A pass that goes on has seen a time before the deadline, and has moved the clock.\<close>

lemma pass_progress:
  assumes "time_passes E" "watch_pass E tid live deadline st w = (Inr (Some st'), v)"
  shows "clock (shared w) < deadline" "clock (shared w) < clock (shared v)"
proof -
  let ?s = "interfere (rt_of E) (tick w) (shared w)"
  let ?w = "w\<lparr>tick := Suc (tick w), shared := ?s\<rparr>"
  have up: "clock (shared w) < clock ?s" using assms(1) by (simp add: time_passes_def)
  from assms(2) have now: "clock ?s < deadline" and rest: "watch_poll E tid live st ?w = (Inr (Some st'), v)"
    by (auto simp: watch_pass_def monotonic_def bnd_def call_def Let_def reads_def ret_def
        split: fault.splits if_splits)
  have "keeps later (watch_poll E tid live st)"
    unfolding watch_poll_def
    by (auto intro!: lateness.keeps_control later_reads [OF assms(1)] later_yield_messages later_yield_status)
  from keeps_run [OF this rest] have "clock ?s \<le> clock (shared v)" by (simp add: later_def)
  with now up show "clock (shared w) < deadline" "clock (shared w) < clock (shared v)" by simp_all
qed

lemma bnd_never:
  assumes "\<And>x v. m w = (Inr x, v) \<Longrightarrow> fst (f x v) \<noteq> Inr y"
  shows "fst (bnd m f w) \<noteq> Inr y"
  using assms by (auto simp: bnd_def split: prod.splits sum.splits)

lemma loop_ends:
  assumes "time_passes E"
  shows "deadline \<le> clock (shared w) + int n \<Longrightarrow> fst (watch_loop (Suc n) E tid live deadline st w) \<noteq> Inr False"
proof (induction n arbitrary: st w)
  case 0
  have "watch_pass E tid live deadline st w \<noteq> (Inr (Some st'), v)" for st' v
    using pass_progress(1) [OF assms] 0 by force
  then show ?case by (auto simp: bnd_def ret_def split: prod.splits sum.splits option.splits)
next
  case (Suc n)
  show ?case
  proof (cases "\<exists>st' v. watch_pass E tid live deadline st w = (Inr (Some st'), v)")
    case True
    then obtain st' v where p: "watch_pass E tid live deadline st w = (Inr (Some st'), v)" by blast
    with pass_progress(2) [OF assms p] Suc.prems have "deadline \<le> clock (shared v) + int n" by simp
    from Suc.IH [OF this, of st'] p show ?thesis
      by (simp only: watch_loop.simps(2) [of "Suc n"]) (simp add: bnd_def)
  next
    case False
    then show ?thesis by (auto simp: bnd_def ret_def split: prod.splits sum.splits option.splits)
  qed
qed

text \<open>C27: Watching a task ends. If the clock moves by at least a microsecond between any two steps, then 800000001
  passes of the loop are enough: the watcher returns or raises, however often the task changes and whatever fails.\<close>

theorem watch_terminates:
  assumes "time_passes E" "800000000 < fuel"
  shows "fst (watch fuel E initial options baseline w) \<noteq> Inr False"
proof -
  from assms(2) obtain n where n: "fuel = Suc n" "800000000 \<le> n" by (cases fuel) auto
  let ?L = "\<lambda>t1 t2. watch_loop fuel E (tk_id initial) (live_options options) (t1 + seconds 800)
         \<lparr>w_emitted = agent_ids baseline, w_status = task_status initial, w_marker = None, w_next_snapshot = t2 + seconds 5\<rparr>"
  have loop: "fst (?L t1 t2 v) \<noteq> Inr False" if "t1 \<le> clock (shared v)" for t1 t2 v
    unfolding n(1) by (rule loop_ends [OF assms(1)]) (use that n(2) in \<open>simp add: seconds_def\<close>)
  have mono: "monotonic E u = (r, v) \<Longrightarrow> clock (shared u) \<le> clock (shared v) \<and> (\<forall>t. r = Inr t \<longrightarrow> t = clock (shared v))" for u r v
    using keeps_run [OF later_reads(1) [OF assms(1)], of u r v]
    by (auto simp: later_def monotonic_def call_def Let_def reads_def split: fault.splits)
  have second: "fst (bnd (monotonic E) (\<lambda>t2. ?L t1 t2) v) \<noteq> Inr False" if "t1 = clock (shared v)" for t1 v
  proof (rule bnd_never)
    fix t2 u assume "monotonic E v = (Inr t2, u)"
    from mono [OF this] that show "fst (?L t1 t2 u) \<noteq> Inr False" by (intro loop) simp
  qed
  have "fst (bnd (monotonic E) (\<lambda>t1. bnd (monotonic E) (\<lambda>t2. ?L t1 t2)) u) \<noteq> Inr False" for u
  proof (rule bnd_never)
    fix t1 v assume "monotonic E u = (Inr t1, v)"
    from mono [OF this] show "fst (bnd (monotonic E) (\<lambda>t2. ?L t1 t2) v) \<noteq> Inr False" by (intro second) simp
  qed
  then show ?thesis unfolding watch_def by (intro bnd_never) (simp add: ret_def)
qed

definition ticking_env :: "unit env" where
  "ticking_env = sample_env\<lparr>rt_of := (rt_of sample_env)\<lparr>interfere := (\<lambda>n s. s\<lparr>clock := clock s + 1\<rparr>)\<rparr>\<rparr>"

lemma watch_terminates_witness:
  "fst (watch 800000001 ticking_env \<lparr>tk_id = ''t1'', tk_context_id = ''c1'', tk_state = TASK_STATE_WORKING,
     tk_status_message = None, tk_history = []\<rparr> default_options \<lparr>tk_id = ''t1'', tk_context_id = ''c1'',
     tk_state = TASK_STATE_WORKING, tk_status_message = None, tk_history = []\<rparr> (start_run unclaimed_sample ())) \<noteq> Inr False"
  by (rule watch_terminates) (simp_all add: time_passes_def ticking_env_def)

end
