(* ===== verification/Invariant_Logic.thy ===== *)
theory Invariant_Logic
  imports Prelude
begin

text \<open>
  A small logic for invariants of workers that depend on what earlier steps have read: \<open>upholds I Q m\<close> says that \<open>m\<close> keeps the invariant
  \<open>I\<close> of the state, also when it fails, and returns only values that satisfy \<open>Q\<close>. One rule for each
  control structure of the code.
\<close>

definition upholds :: "('s \<Rightarrow> bool) \<Rightarrow> ('a \<Rightarrow> bool) \<Rightarrow> ('s, 'a) comp \<Rightarrow> bool" where
  "upholds I Q m = (\<forall>s. I s \<longrightarrow> I (snd (m s)) \<and> (\<forall>x. fst (m s) = Inr x \<longrightarrow> Q x))"

lemma upholdsD: "upholds I Q m \<Longrightarrow> I s \<Longrightarrow> I (snd (m s))"
  by (simp add: upholds_def)

lemma upholds_value: "upholds I Q m \<Longrightarrow> I s \<Longrightarrow> m s = (Inr x, s') \<Longrightarrow> Q x"
  unfolding upholds_def by (metis fst_conv)

lemma upholds_weaken: "upholds I Q m \<Longrightarrow> (\<And>x. Q x \<Longrightarrow> Q' x) \<Longrightarrow> upholds I Q' m"
  by (auto simp: upholds_def)

lemma upholds_ret: "Q x \<Longrightarrow> upholds I Q (ret x)"
  by (simp add: upholds_def ret_def)

lemma upholds_raise: "upholds I Q (raise_err e)"
  by (simp add: upholds_def raise_err_def)

lemma upholds_bnd:
  assumes "upholds I Q m" "\<And>x. Q x \<Longrightarrow> upholds I Q' (f x)"
  shows "upholds I Q' (bnd m f)"
  unfolding upholds_def
proof (intro allI impI)
  fix s assume I: "I s"
  obtain r s' where m: "m s = (r, s')" by fastforce
  from assms(1) I m have s': "I s'" "\<And>x. r = Inr x \<Longrightarrow> Q x" by (auto simp: upholds_def dest!: spec [of _ s])
  show "I (snd (bnd m f s)) \<and> (\<forall>x. fst (bnd m f s) = Inr x \<longrightarrow> Q' x)"
  proof (cases r)
    case (Inr x)
    with s' assms(2) [of x] m show ?thesis by (simp add: bnd_def upholds_def)
  qed (use m s' in \<open>simp add: bnd_def\<close>)
qed

lemma upholds_bnd_any: "upholds I (\<lambda>_. True) m \<Longrightarrow> (\<And>x. upholds I Q (f x)) \<Longrightarrow> upholds I Q (bnd m f)"
  by (rule upholds_bnd)

lemma upholds_try_except:
  assumes "upholds I Q m" "\<And>e k. h e = Some k \<Longrightarrow> upholds I Q k"
  shows "upholds I Q (try_except m h)"
  using assms unfolding upholds_def try_except_def
  by (fastforce split: prod.splits sum.splits option.splits)

lemma upholds_try_exception:
  "upholds I Q m \<Longrightarrow> (\<And>e. upholds I Q (h e)) \<Longrightarrow> upholds I Q (try_except m (except_exception h))"
  by (rule upholds_try_except) (auto simp: except_exception_def split: if_splits)

lemma upholds_try_finally:
  assumes "upholds I Q m" "upholds I (\<lambda>_. True) k"
  shows "upholds I Q (try_finally m k)"
  using assms unfolding upholds_def try_finally_def
  by (fastforce split: prod.splits sum.splits if_splits)

lemma upholds_when: "upholds I (\<lambda>_. True) m \<Longrightarrow> upholds I (\<lambda>_. True) (when_m b m)"
  by (simp add: when_m_def upholds_ret)

lemma upholds_map_m: "(\<And>x. x \<in> set xs \<Longrightarrow> upholds I (\<lambda>_. True) (f x)) \<Longrightarrow> upholds I (\<lambda>_. True) (map_m f xs)"
  by (induction xs) (auto intro!: upholds_ret upholds_bnd_any)

lemma upholds_for_m: "(\<And>x. x \<in> set xs \<Longrightarrow> upholds I (\<lambda>_. True) (f x)) \<Longrightarrow> upholds I (\<lambda>_. True) (for_m xs f)"
  by (induction xs) (auto intro!: upholds_ret upholds_bnd_any)

lemmas upholds_control = upholds_raise upholds_bnd_any upholds_try_exception upholds_try_finally upholds_when
  upholds_map_m upholds_for_m

text \<open>Invariants of a worker: one of the shared state, which the other actors keep, and one of its log.\<close>

definition run_inv :: "('s \<Rightarrow> bool) \<Rightarrow> ('o list \<Rightarrow> bool) \<Rightarrow> ('s, 'l, 'o) run \<Rightarrow> bool" where
  "run_inv I J w = (I (shared w) \<and> J (obs w))"

lemma upholds_call:
  assumes "\<And>n s. I s \<Longrightarrow> I (interfere E n s)" "upholds I Q f"
  shows "upholds (run_inv I J) Q (call E f)"
  unfolding upholds_def
proof (intro allI impI)
  fix w :: "('a, 'c, 'd) run"
  assume w: "run_inv I J w"
  let ?s = "interfere E (tick w) (shared w)"
  have s: "I ?s" using w assms(1) by (simp add: run_inv_def)
  obtain r s' where f: "f ?s = (r, s')" by fastforce
  from assms(2) s f have "I s'" "\<And>x. r = Inr x \<Longrightarrow> Q x" by (auto simp: upholds_def dest!: spec [of _ ?s])
  with s f w show "run_inv I J (snd (call E f w)) \<and> (\<forall>x. fst (call E f w) = Inr x \<longrightarrow> Q x)"
    by (auto simp: run_inv_def call_def Let_def split: fault.splits)
qed

lemma upholds_fresh_uuid: "upholds (run_inv I J) (\<lambda>_. True) (fresh_uuid X)"
  by (simp add: upholds_def run_inv_def fresh_uuid_def)

lemma upholds_observe: "(\<And>xs. J xs \<Longrightarrow> J (xs @ [x])) \<Longrightarrow> upholds (run_inv I J) (\<lambda>_. True) (observe x)"
  by (simp add: upholds_def run_inv_def observe_def)

end
