(* ===== verification/Push_Safety.thy ===== *)
theory Push_Safety
  imports Push_Config Push_Dispatcher Invariant_Logic Sample_Run
begin

text \<open>
  Where the controller posts: the push service registers callbacks to the one allowed URL only, and
  the dispatcher posts only to registered callbacks, whatever clients ask for and whatever happens in between.
\<close>

section \<open>One destination\<close>

definition sink_only :: "string \<Rightarrow> 'p sys \<Rightarrow> bool" where
  "sink_only allowed s = list_all (\<lambda>p. p_url p = allowed) (push_configs s)"

fun post_url :: "push_obs \<Rightarrow> string" where
  "post_url (Post_callback url tid pid fp) = url"

definition posts_to :: "string \<Rightarrow> push_obs list \<Rightarrow> bool" where
  "posts_to allowed log = list_all (\<lambda>x. post_url x = allowed) log"

text \<open>The other actors register nothing but the allowed URL.\<close>

definition sink_kept :: "string \<Rightarrow> 'p env \<Rightarrow> bool" where
  "sink_kept allowed E = (\<forall>n s. sink_only allowed s \<longrightarrow> sink_only allowed (interfere (rt_of E) n s))"

lemma sink_upd: "(\<And>p. p_url (f p) = p_url p) \<Longrightarrow> sink_only allowed s \<Longrightarrow> list_all (\<lambda>p. p_url p = allowed) (upd_rows q f (push_configs s))"
  by (auto simp: sink_only_def list_all_iff set_upd_rows)

lemma sink_elsewhere: "keeps same_tables f \<Longrightarrow> upholds (sink_only allowed) (\<lambda>_. True) f"
  unfolding upholds_def by (metis keepsD same_tables_def sink_only_def)

lemma sink_transactions:
  "upholds (sink_only allowed) (\<lambda>_. True) (push_claim cl tid pid ls)"
  "upholds (sink_only allowed) (\<lambda>_. True) (push_finish tid pid cl fp d perm)"
  "upholds (sink_only allowed) (\<lambda>_. True) (push_release tid pid cl)"
  "upholds (sink_only allowed) (\<lambda>_. True) (push_delete tid pid)"
proof -
  have out: "p_url (outcome_update now out p) = p_url p" for now out p by (cases out) simp_all
  show "upholds (sink_only allowed) (\<lambda>_. True) (push_claim cl tid pid ls)"
    "upholds (sink_only allowed) (\<lambda>_. True) (push_finish tid pid cl fp d perm)"
    "upholds (sink_only allowed) (\<lambda>_. True) (push_release tid pid cl)"
    "upholds (sink_only allowed) (\<lambda>_. True) (push_delete tid pid)"
    by (auto simp: upholds_def push_claim_def push_finish_def push_release_def push_delete_def Let_def out
        sink_only_def [of _ "_\<lparr>push_configs := _\<rparr>"] intro!: sink_upd split: option.splits)
qed

lemma sink_create: "upholds (sink_only allowed) (\<lambda>row. p_url row = allowed) (push_create tid pid allowed)"
proof -
  have "sink_only allowed s \<Longrightarrow> find (push_key tid pid) (push_configs s) = Some old \<Longrightarrow> p_url old = allowed" for s old
    by (auto simp: sink_only_def list_all_iff dest: find_SomeD)
  then show ?thesis
    by (auto simp: upholds_def push_create_def transaction_def Let_def new_push_def
        sink_only_def [of _ "_\<lparr>push_configs := _\<rparr>"] intro!: sink_upd split: option.splits)
       (simp_all add: sink_only_def)
qed

lemma sink_get: "upholds (sink_only allowed) (\<lambda>row. \<forall>p. row = Some p \<longrightarrow> p_url p = allowed) (reads (push_get tid pid))"
  by (auto simp: upholds_def reads_def push_get_def sink_only_def list_all_iff dest: find_SomeD)

section \<open>The workers\<close>

lemma sink_calls:
  assumes "sink_kept allowed E"
  shows "upholds (sink_only allowed) Q f \<Longrightarrow> upholds (run_inv (sink_only allowed) J) Q (call (rt_of E) f)"
  using assms by (auto intro!: upholds_call simp: sink_kept_def)

lemma sink_view:
  assumes "sink_kept allowed E"
  shows "upholds (run_inv (sink_only allowed) J) (\<lambda>_. True) (get_task_view E tid options)"
  unfolding get_task_view_def read_pending_text_def read_review_def Let_def
  by (auto intro!: upholds_control upholds_ret sink_calls [OF assms] sink_elsewhere port_same_tables provider_same_tables
      split: option.splits prod.splits sum.splits)

lemma sink_post:
  assumes "sink_kept allowed E" "p_url row = allowed"
  shows "upholds (run_inv (sink_only allowed) (posts_to allowed)) (\<lambda>_. True) (attempt_post E P tid pid claim row)"
  unfolding attempt_post_def Let_def
  by (auto intro!: upholds_control upholds_ret sink_calls [OF assms(1)] sink_elsewhere sink_view [OF assms(1)] upholds_observe
      port_same_tables simp: posts_to_def assms(2))

lemma sink_failed:
  assumes "sink_kept allowed E"
  shows "upholds (run_inv (sink_only allowed) (posts_to allowed)) (\<lambda>_. True) (failed_attempt E tid pid claim row tr)"
  unfolding failed_attempt_def Let_def
  by (auto intro!: upholds_control upholds_ret sink_calls [OF assms] sink_transactions)

lemma sink_settle:
  assumes "sink_kept allowed E"
  shows "upholds (run_inv (sink_only allowed) (posts_to allowed)) (\<lambda>_. True) (settle_attempt E tid pid claim row result)"
  unfolding settle_attempt_def
  by (auto intro!: upholds_control upholds_ret sink_calls [OF assms] sink_transactions sink_failed [OF assms] split: attempt.splits)

lemma sink_claimed:
  assumes "sink_kept allowed E"
  shows "upholds (run_inv (sink_only allowed) (posts_to allowed)) (\<lambda>_. True) (deliver_claimed E P tid pid claim)"
  unfolding deliver_claimed_def
proof (rule upholds_bnd [OF sink_calls [OF assms sink_get]])
  fix found :: "push_row option" assume url: "\<forall>p. found = Some p \<longrightarrow> p_url p = allowed"
  have post: "found = Some row \<Longrightarrow>
      upholds (run_inv (sink_only allowed) (posts_to allowed)) (\<lambda>_. True) (attempt_post E P tid pid claim row)" for row
    using url by (intro sink_post [OF assms]) simp
  show "upholds (run_inv (sink_only allowed) (posts_to allowed)) (\<lambda>_. True) (case found of None \<Rightarrow> ret None
      | Some row \<Rightarrow> bnd (try_except (attempt_post E P tid pid claim row) (except_exception (\<lambda>_. ret Not_sent)))
           (settle_attempt E tid pid claim row))"
    by (cases found) (auto intro!: upholds_control upholds_ret post sink_settle [OF assms])
qed

lemma sink_deliver:
  assumes "sink_kept allowed E"
  shows "upholds (run_inv (sink_only allowed) (posts_to allowed)) (\<lambda>_. True) (deliver E P tid pid)"
  unfolding deliver_def
  by (auto intro!: upholds_control upholds_ret sink_calls [OF assms] sink_transactions upholds_fresh_uuid sink_elsewhere
      port_same_tables sink_claimed [OF assms] split: option.splits)

lemma sink_run_context:
  assumes "sink_kept allowed E"
  shows "upholds (run_inv (sink_only allowed) (posts_to allowed)) (\<lambda>_. True) (run_context E P cid)"
  unfolding run_context_def run_row_def already_delivered_def Let_def
  by (auto intro!: upholds_control upholds_ret sink_calls [OF assms] sink_elsewhere port_same_tables sink_view [OF assms]
      sink_deliver [OF assms] split: prod.splits)

lemma sink_registered:
  assumes "sink_kept allowed E"
  shows "upholds (run_inv (sink_only allowed) J) (\<lambda>c. pc_url c = allowed) (register_config E allowed tid cid)"
  unfolding register_config_def
proof (rule upholds_bnd)
  show "upholds (run_inv (sink_only allowed) J) (\<lambda>row. p_url row = allowed)
      (try_except (call (rt_of E) (push_create tid cid allowed)) (\<lambda>e. case e of
            KeyError _ \<Rightarrow> Some (raise_err TaskNotFound)
          | PushConfigConflict m \<Rightarrow> Some (raise_err (InvalidParams m))
          | _ \<Rightarrow> None))"
    by (rule upholds_try_except [OF sink_calls [OF assms sink_create]]) (auto intro: upholds_raise split: error.splits)
  fix row :: push_row assume "p_url row = allowed"
  then have url: "upholds (run_inv (sink_only allowed) J) (\<lambda>c. pc_url c = allowed) (ret (wire_config row))"
    by (intro upholds_ret) (simp add: wire_config_def)
  show "upholds (run_inv (sink_only allowed) J) (\<lambda>c. pc_url c = allowed)
      (bnd (call (rt_of E) (reads (get_task tid))) (\<lambda>task.
       bnd (case task of
            None \<Rightarrow> raise_err AssertionError
          | Some t \<Rightarrow> call (rt_of E) (schedule_context (t_context_id t) ''push-config-created'' 0)) (\<lambda>_.
       ret (wire_config row))))"
    by (intro upholds_bnd_any url sink_calls [OF assms] sink_elsewhere port_same_tables)
       (auto intro!: upholds_raise sink_calls [OF assms] sink_elsewhere port_same_tables split: option.splits)
qed

lemma sink_config:
  assumes "sink_kept allowed E"
  shows "upholds (run_inv (sink_only allowed) J) (\<lambda>c. pc_url c = allowed) (push_config_create E ip_ok allowed c tid)"
  unfolding push_config_create_def Let_def
  by (simp add: upholds_raise sink_registered [OF assms] split: option.split)

text \<open>C20: The controller posts only to the configured sink. If all registered callbacks point to the allowed URL and the other actors
  keep it so, then they do so after any registration a client asks for, a registration that is accepted
  is for exactly that URL, and every post of the dispatcher goes there, whatever fails on the way.\<close>

theorem posts_only_to_sink:
  fixes E :: "'p env" and l :: 'l and l' :: 'm
  assumes "sink_kept allowed E" "sink_only allowed s"
  defines "w \<equiv> start_run s l :: ('p, 'l, 'o) service"
  shows "sink_only allowed (shared (snd (push_config_create E ip_ok allowed c tid w)))
    \<and> (\<forall>c'. fst (push_config_create E ip_ok allowed c tid w) = Inr c' \<longrightarrow> pc_url c' = allowed)
    \<and> (\<forall>url t i f. Post_callback url t i f \<in> set (obs (snd (run_context E P cid (start_run s l')))) \<longrightarrow> url = allowed)"
proof -
  have start: "run_inv (sink_only allowed) (\<lambda>_. True) w"
    using assms(2) by (simp add: run_inv_def start_run_def w_def)
  have "run_inv (sink_only allowed) (posts_to allowed) (snd (run_context E P cid (start_run s l')))"
    by (rule upholdsD [OF sink_run_context [OF assms(1)]]) (simp add: run_inv_def start_run_def posts_to_def assms(2))
  moreover have "sink_only allowed (shared (snd (push_config_create E ip_ok allowed c tid w)))"
    using upholdsD [OF sink_config [OF assms(1)] start] by (simp add: run_inv_def)
  moreover have "\<forall>c'. fst (push_config_create E ip_ok allowed c tid w) = Inr c' \<longrightarrow> pc_url c' = allowed"
    using upholds_value [OF sink_config [OF assms(1)] start] by (metis prod.collapse)
  ultimately show ?thesis by (auto simp: run_inv_def posts_to_def list_all_iff)
qed

definition sample_callback_config :: push_config where
  "sample_callback_config = \<lparr>pc_id = ''p1'', pc_task_id = ''t1'', pc_url = ''HTTPS://Sink.example:443/events'', pc_token = [],
     pc_authenticated = False\<rparr>"

lemma posts_only_to_sink_witness:
  "sink_only ''https://sink.example/events'' (shared (snd (push_config_create sample_env (\<lambda>_. True)
     ''https://sink.example/events'' sample_callback_config [] (start_run (unclaimed_sample\<lparr>push_configs := []\<rparr>) () :: (unit, unit, unit) service))))"
proof -
  have "sink_kept ''https://sink.example/events'' sample_env" "sink_only ''https://sink.example/events'' (unclaimed_sample\<lparr>push_configs := []\<rparr>)"
    by (simp_all add: sink_kept_def sample_env_def sink_only_def)
  then show ?thesis by (rule posts_only_to_sink [THEN conjunct1])
qed

end
