(* ===== verification/Local_Triggers.thy ===== *)
theory Local_Triggers
  imports Schema "HOL-Library.AList"
begin

text \<open>
  The in-process wakeup queues of the local controller: \<open>AsyncLocalSchedulerTrigger\<close> of
  \<^verbatim>\<open>cma_controller/trigger.py\<close> and \<open>AsyncLocalPushTrigger\<close> of \<^verbatim>\<open>cma_controller/push_trigger.py\<close>, as
  labelled transition systems. Threads hand callbacks to the event loop, the loop runs them one at a
  time and fires timers, and a worker runs between its awaits; one label is one such uninterrupted piece
  of code. Both queues meet the contract \<open>wakeup_queue\<close>: a wakeup stays owed until it is served.
\<close>

section \<open>Paths and the contract\<close>

inductive path :: "('e \<Rightarrow> 's \<Rightarrow> 's \<Rightarrow> bool) \<Rightarrow> 's \<Rightarrow> 'e list \<Rightarrow> 's \<Rightarrow> bool" for step where
  path_Nil: "path step s [] s"
| path_Cons: "step e s t \<Longrightarrow> path step t es u \<Longrightarrow> path step s (e # es) u"

inductive_simps path_Nil_iff [simp]: "path step s [] t"
inductive_simps path_Cons_iff: "path step s (e # es) t"

lemma path_append: "path step s (es @ fs) u \<longleftrightarrow> (\<exists>t. path step s es t \<and> path step t fs u)"
  by (induction es arbitrary: s) (auto simp: path_Cons_iff)

lemma path_snoc: "path step s es t \<Longrightarrow> step e t u \<Longrightarrow> path step s (es @ [e]) u"
  by (auto simp: path_append path_Cons_iff)

text \<open>
  \<open>ok\<close> is an invariant while nothing \<open>ends\<close> the queue; \<open>owed c\<close> says a wakeup of \<open>c\<close> is on its way,
  and \<open>serves c e\<close> that the event \<open>e\<close> is the one it was for.
\<close>

locale wakeup_queue =
  fixes step :: "'e \<Rightarrow> 's \<Rightarrow> 's \<Rightarrow> bool"
    and ends :: "'e \<Rightarrow> bool"
    and ok :: "'s \<Rightarrow> bool"
    and owed :: "string \<Rightarrow> 's \<Rightarrow> bool"
    and serves :: "string \<Rightarrow> 'e \<Rightarrow> bool"
  assumes ok_step: "step e s t \<Longrightarrow> \<not> ends e \<Longrightarrow> ok s \<Longrightarrow> ok t"
    and owed_step: "step e s t \<Longrightarrow> \<not> ends e \<Longrightarrow> ok s \<Longrightarrow> owed c s \<Longrightarrow> serves c e \<or> owed c t"
begin

lemma ok_path: "path step s es t \<Longrightarrow> list_all (\<lambda>e. \<not> ends e) es \<Longrightarrow> ok s \<Longrightarrow> ok t"
  by (induction rule: path.induct) (auto intro: ok_step)

lemma owed_path:
  "path step s es t \<Longrightarrow> list_all (\<lambda>e. \<not> ends e) es \<Longrightarrow> ok s \<Longrightarrow> owed c s \<Longrightarrow> list_ex (serves c) es \<or> owed c t"
proof (induction rule: path.induct)
  case (path_Cons e s t es u)
  from path_Cons.prems have "\<not> ends e" "list_all (\<lambda>e. \<not> ends e) es" "ok t"
    using path_Cons.hyps(1) by (auto intro: ok_step)
  with path_Cons.IH owed_step [OF path_Cons.hyps(1)] path_Cons.prems show ?case by auto
qed simp

text \<open>A wakeup that was owed at some point of a run is served later in it, or still owed at its end.\<close>

lemma kept:
  assumes "path step s (es @ e # fs) u" "list_all (\<lambda>e. \<not> ends e) (es @ e # fs)" "ok s"
    and "\<And>t t'. step e t t' \<Longrightarrow> ok t \<Longrightarrow> owed c t'"
  shows "list_ex (serves c) fs \<or> owed c u"
proof -
  from assms(1) obtain t t' where p: "path step s es t" "step e t t'" "path step t' fs u"
    by (auto simp: path_append path_Cons_iff)
  with ok_path [OF p(1)] assms(2,3) have "ok t" by simp
  with assms(4) p(2) ok_step [OF p(2)] assms(2) have "ok t'" "owed c t'" by simp_all
  with owed_path [OF p(3)] assms(2) show ?thesis by simp
qed

end

section \<open>Push wakeups\<close>

text \<open>
  \<open>_loop\<close> and \<open>_queue\<close> are set and cleared together, which is \<open>pt_open\<close>. A timer handle is its number and the
  time it is for, in microseconds; \<open>pt_timers\<close> is the dictionary \<open>_timers\<close> and \<open>lp_scheduled\<close> the handles the event loop will
  still fire. Within one callback the clock is read once.
\<close>

datatype push_worker_state = No_worker | Waiting | Dispatching string | Cancelling

record push_trigger =
  pt_pending :: "(string \<times> string \<times> int) list"
  pt_open :: bool
  pt_queue :: "string list"
  pt_queued :: "string set"
  pt_timers :: "(string \<times> nat \<times> int) list"
  pt_worker :: push_worker_state
  lp_now :: int
  lp_next :: nat
  lp_scheduled :: "(nat \<times> string \<times> int) list"
  lp_ready :: "(string \<times> int) list"

definition push_trigger_init :: "int \<Rightarrow> push_trigger" where
  "push_trigger_init now = \<lparr>pt_pending = [], pt_open = False, pt_queue = [], pt_queued = {}, pt_timers = [],
     pt_worker = No_worker, lp_now = now, lp_next = 0, lp_scheduled = [], lp_ready = []\<rparr>"

definition cancel_timer :: "string \<Rightarrow> push_trigger \<Rightarrow> push_trigger" where
  "cancel_timer c s = (case map_of (pt_timers s) c of
     None \<Rightarrow> s
   | Some (i, _) \<Rightarrow> s\<lparr>lp_scheduled := filter (\<lambda>(j, _). j \<noteq> i) (lp_scheduled s)\<rparr>)"

definition call_later :: "string \<Rightarrow> int \<Rightarrow> push_trigger \<Rightarrow> push_trigger" where
  "call_later c d s = s\<lparr>pt_timers := AList.update c (lp_next s, lp_now s + seconds d) (pt_timers s),
     lp_scheduled := (lp_next s, c, lp_now s + seconds d) # lp_scheduled s, lp_next := Suc (lp_next s)\<rparr>"

definition enqueue :: "string \<Rightarrow> int \<Rightarrow> push_trigger \<Rightarrow> push_trigger" where
  "enqueue c d s = (
     if \<not> pt_open s then s
     else if d \<noteq> 0
     then (case map_of (pt_timers s) c of
             Some (_, at) \<Rightarrow> if at \<le> lp_now s + seconds d then s else call_later c d (cancel_timer c s)
           | None \<Rightarrow> call_later c d s)
     else let s1 = (cancel_timer c s)\<lparr>pt_timers := AList.delete c (pt_timers s)\<rparr> in
          if c \<in> pt_queued s then s1
          else s1\<lparr>pt_queued := insert c (pt_queued s), pt_queue := pt_queue s @ [c]\<rparr>)"

definition local_push_start :: "push_trigger \<Rightarrow> error + push_trigger" where
  "local_push_start s = (
     if pt_worker s \<noteq> No_worker then Inl (RuntimeError ''Local push worker already started'')
     else let s1 = fold (\<lambda>(c, _, d). enqueue c d) (pt_pending s) (s\<lparr>pt_open := True, pt_queue := []\<rparr>) in
          Inr (s1\<lparr>pt_pending := [], pt_worker := Waiting\<rparr>))"

definition local_schedule_context :: "string \<Rightarrow> string \<Rightarrow> int \<Rightarrow> push_trigger \<Rightarrow> error + push_trigger" where
  "local_schedule_context c reason d s = (
     if c = [] \<or> reason = [] \<or> \<not> (0 \<le> d \<and> d \<le> 900) then Inl (ValueError ''Invalid push wakeup'')
     else if \<not> pt_open s then Inr (s\<lparr>pt_pending := pt_pending s @ [(c, reason, d)]\<rparr>)
     else Inr (s\<lparr>lp_ready := lp_ready s @ [(c, d)]\<rparr>))"

text \<open>\<open>stop\<close> up to its \<open>await\<close>, and from there on.\<close>

definition local_push_closed :: "push_trigger \<Rightarrow> push_trigger" where
  "local_push_closed s = s\<lparr>pt_worker := No_worker, pt_open := False, pt_queue := [], pt_queued := {}\<rparr>"

definition local_push_stop :: "push_trigger \<Rightarrow> push_trigger" where
  "local_push_stop s = (
     let s1 = (fold cancel_timer (map fst (pt_timers s)) s)\<lparr>pt_timers := []\<rparr> in
     if pt_worker s = No_worker then local_push_closed s1 else s1\<lparr>pt_worker := Cancelling\<rparr>)"

text \<open>
  The labels: a thread schedules a wakeup, the loop runs the next callback, a timer fires, time passes,
  the application starts or stops the trigger, the worker takes a context off its queue, and the
  dispatcher returns or raises an exception, which the worker survives.
\<close>

datatype push_event = Started | Scheduled string string int | Callback | Fired string | Ticked int | Taken string
  | Dispatched | Stop_called | Stop_done

inductive push_step :: "push_event \<Rightarrow> push_trigger \<Rightarrow> push_trigger \<Rightarrow> bool" where
  push_started: "local_push_start s = Inr t \<Longrightarrow> push_step Started s t"
| push_scheduled: "local_schedule_context c r d s = Inr t \<Longrightarrow> push_step (Scheduled c r d) s t"
| push_callback: "lp_ready s = (c, d) # rest \<Longrightarrow> push_step Callback s (enqueue c d (s\<lparr>lp_ready := rest\<rparr>))"
| push_fired: "(i, c, at) \<in> set (lp_scheduled s) \<Longrightarrow> at \<le> lp_now s \<Longrightarrow>
    push_step (Fired c) s (enqueue c 0 (s\<lparr>lp_scheduled := filter (\<lambda>(j, _). j \<noteq> i) (lp_scheduled s)\<rparr>))"
| push_ticked: "0 \<le> n \<Longrightarrow> push_step (Ticked n) s (s\<lparr>lp_now := lp_now s + n\<rparr>)"
| push_taken: "pt_worker s = Waiting \<Longrightarrow> pt_queue s = c # rest \<Longrightarrow>
    push_step (Taken c) s (s\<lparr>pt_worker := Dispatching c, pt_queue := rest, pt_queued := pt_queued s - {c}\<rparr>)"
| push_dispatched: "pt_worker s = Dispatching c \<Longrightarrow> push_step Dispatched s (s\<lparr>pt_worker := Waiting\<rparr>)"
| push_stop_called: "push_step Stop_called s (local_push_stop s)"
| push_stop_done: "pt_worker s = Cancelling \<Longrightarrow> push_step Stop_done s (local_push_closed s)"

fun push_ends :: "push_event \<Rightarrow> bool" where
  "push_ends Stop_called = True"
| "push_ends Stop_done = True"
| "push_ends _ = False"

fun push_serves :: "string \<Rightarrow> push_event \<Rightarrow> bool" where
  "push_serves c (Taken c') = (c = c')"
| "push_serves c _ = False"

subsection \<open>Invariants\<close>

text \<open>One queue entry per context.\<close>

definition queue_ok :: "push_trigger \<Rightarrow> bool" where
  "queue_ok s = (distinct (pt_queue s) \<and> set (pt_queue s) = pt_queued s)"

text \<open>The handles in \<open>_timers\<close> are exactly the ones the loop will fire, one for each context.\<close>

definition handles_ok :: "(string \<rightharpoonup> nat \<times> int) \<Rightarrow> (nat \<times> string \<times> int) list \<Rightarrow> nat \<Rightarrow> bool" where
  "handles_ok m hs n = (distinct (map fst hs) \<and> (\<forall>(i, _) \<in> set hs. i < n)
     \<and> (\<forall>c i at. m c = Some (i, at) \<longleftrightarrow> (i, c, at) \<in> set hs))"

abbreviation timers_ok :: "push_trigger \<Rightarrow> bool" where
  "timers_ok s \<equiv> handles_ok (map_of (pt_timers s)) (lp_scheduled s) (lp_next s)"

definition phase_ok :: "push_trigger \<Rightarrow> bool" where
  "phase_ok s = (if pt_open s then pt_pending s = [] \<and> pt_worker s \<notin> {No_worker, Cancelling}
     else pt_queue s = [] \<and> pt_timers s = [] \<and> lp_ready s = [] \<and> pt_worker s = No_worker)"

definition trigger_ok :: "push_trigger \<Rightarrow> bool" where
  "trigger_ok s = (queue_ok s \<and> timers_ok s \<and> phase_ok s)"

text \<open>A wakeup of a context is under way: in the queue or behind a timer, or not yet handed to the loop.\<close>

definition waits :: "string \<Rightarrow> push_trigger \<Rightarrow> bool" where
  "waits c s = (c \<in> pt_queued s \<or> map_of (pt_timers s) c \<noteq> None)"

definition push_owed :: "string \<Rightarrow> push_trigger \<Rightarrow> bool" where
  "push_owed c s = (waits c s \<or> c \<in> fst ` set (lp_ready s) \<or> c \<in> fst ` set (pt_pending s))"

lemma distinct_filter_keys: "distinct (map fst xs) \<Longrightarrow> distinct (map fst (filter P xs))"
  by (induction xs) auto

lemma handles_drop:
  assumes "handles_ok m hs n" "m c = Some (i, at)"
  shows "handles_ok (m(c := None)) (filter (\<lambda>(j, _). j \<noteq> i) hs) n"
proof -
  from assms have i: "(i, c, at) \<in> set hs" and d: "distinct (map fst hs)" by (simp_all add: handles_ok_def)
  have iff: "m c' = Some (j, t) \<longleftrightarrow> (j, c', t) \<in> set hs" for c' j t using assms(1) by (simp add: handles_ok_def)
  have same: "c' = c" if "(i, c', t) \<in> set hs" for c' t
    using eq_key_imp_eq_value [OF d i that] by simp
  have "(m(c := None)) c' = Some (j, t) \<longleftrightarrow> (j, c', t) \<in> set hs \<and> j \<noteq> i" for c' j t
    using iff [of c' j t] same [of c' t] assms(2) by auto
  with assms(1) show ?thesis by (auto simp: handles_ok_def intro: distinct_filter_keys)
qed

lemma handles_add:
  assumes "handles_ok m hs n" "m c = None"
  shows "handles_ok (m(c \<mapsto> (n, at))) ((n, c, at) # hs) (Suc n)"
proof -
  from assms have "(i, c, t) \<notin> set hs" for i t by (metis handles_ok_def option.distinct(1))
  with assms(1) show ?thesis by (fastforce simp: handles_ok_def)
qed

lemma timers_ok_cancelled:
  "timers_ok s \<Longrightarrow> handles_ok ((map_of (pt_timers s))(c := None)) (lp_scheduled (cancel_timer c s)) (lp_next s)"
  by (auto simp: cancel_timer_def handles_drop map_upd_triv split: option.splits)
     (metis fun_upd_triv)

lemma cancel_timer_simps [simp]:
  "pt_timers (cancel_timer c s) = pt_timers s" "lp_next (cancel_timer c s) = lp_next s" "pt_open (cancel_timer c s) = pt_open s"
  "pt_queue (cancel_timer c s) = pt_queue s" "pt_queued (cancel_timer c s) = pt_queued s" "pt_pending (cancel_timer c s) = pt_pending s"
  "pt_worker (cancel_timer c s) = pt_worker s" "lp_ready (cancel_timer c s) = lp_ready s" "lp_now (cancel_timer c s) = lp_now s"
  by (simp_all add: cancel_timer_def split: option.splits)

lemma call_later_simps [simp]:
  "pt_open (call_later c d s) = pt_open s" "pt_queue (call_later c d s) = pt_queue s" "pt_queued (call_later c d s) = pt_queued s"
  "pt_pending (call_later c d s) = pt_pending s" "pt_worker (call_later c d s) = pt_worker s" "lp_ready (call_later c d s) = lp_ready s"
  "lp_now (call_later c d s) = lp_now s" "map_of (pt_timers (call_later c d s)) = (map_of (pt_timers s))(c \<mapsto> (lp_next s, lp_now s + seconds d))"
  by (simp_all add: call_later_def update_conv')

lemma timers_ok_call_later: "timers_ok s \<Longrightarrow> timers_ok (call_later c d (cancel_timer c s))"
  using handles_add [OF timers_ok_cancelled, of s c c] by (simp add: call_later_def update_conv')

lemma enqueue_delayed:
  "pt_open s \<Longrightarrow> d \<noteq> 0 \<Longrightarrow> enqueue c d s = (if \<exists>i at. map_of (pt_timers s) c = Some (i, at) \<and> at \<le> lp_now s + seconds d then s
     else call_later c d (cancel_timer c s))"
  by (auto simp: enqueue_def cancel_timer_def split: option.splits)

lemma timers_ok_enqueue: "timers_ok s \<Longrightarrow> timers_ok (enqueue c d s)"
  using timers_ok_call_later [of s c d] timers_ok_cancelled [of s c] enqueue_delayed [of s d c]
  by (cases "pt_open s \<and> d \<noteq> 0") (auto simp: enqueue_def [of c 0] delete_conv' Let_def, auto simp: enqueue_def)

lemma queue_ok_enqueue: "queue_ok s \<Longrightarrow> queue_ok (enqueue c d s)"
  by (auto simp: queue_ok_def enqueue_def Let_def split: option.splits)

lemma enqueue_simps [simp]:
  "pt_open (enqueue c d s) = pt_open s" "pt_pending (enqueue c d s) = pt_pending s"
  "pt_worker (enqueue c d s) = pt_worker s" "lp_ready (enqueue c d s) = lp_ready s" "lp_now (enqueue c d s) = lp_now s"
  by (auto simp: enqueue_def Let_def split: option.splits)

lemma enqueue_waits: "pt_open s \<Longrightarrow> waits c (enqueue c d s)"
  by (auto simp: waits_def enqueue_def Let_def split: option.splits)

lemma enqueue_keeps_waiting: "waits c s \<Longrightarrow> waits c (enqueue c' d s)"
  by (auto simp: waits_def enqueue_def Let_def delete_conv' split: option.splits)

lemma fold_enqueue:
  fixes ws :: "(string \<times> string \<times> int) list"
  defines "run \<equiv> fold (\<lambda>(c, _, d). enqueue c d) ws"
  shows "queue_ok s \<Longrightarrow> queue_ok (run s)" "timers_ok s \<Longrightarrow> timers_ok (run s)"
    "pt_open (run s) = pt_open s" "lp_ready (run s) = lp_ready s" "waits c s \<Longrightarrow> waits c (run s)"
    "pt_open s \<Longrightarrow> c \<in> fst ` set ws \<Longrightarrow> waits c (run s)"
  unfolding run_def
proof (induction ws arbitrary: s)
  case (Cons w ws)
  {
    case 6
    obtain a r d where w: "w = (a, r, d)" by (cases w)
    with 6 Cons.IH(5) [of "enqueue a d s"] Cons.IH(6) [of "enqueue a d s"] enqueue_waits [of s a d] show ?case by auto
  }
qed (auto simp: queue_ok_enqueue timers_ok_enqueue enqueue_keeps_waiting split: prod.splits)

lemma trigger_ok_step: "push_step e s t \<Longrightarrow> \<not> push_ends e \<Longrightarrow> trigger_ok s \<Longrightarrow> trigger_ok t"
proof (induction rule: push_step.induct)
  case (push_started s t)
  let ?s = "s\<lparr>pt_open := True, pt_queue := []\<rparr>"
  from push_started have "pt_worker s = No_worker" "queue_ok ?s" "timers_ok ?s" 
    by (auto simp: local_push_start_def trigger_ok_def phase_ok_def queue_ok_def split: if_splits)
  with push_started fold_enqueue [where s = ?s and ws = "pt_pending s"] show ?case
    by (auto simp: local_push_start_def trigger_ok_def phase_ok_def queue_ok_def split: if_splits)
next
  case (push_callback s c d rest)
  let ?s = "s\<lparr>lp_ready := rest\<rparr>"
  from push_callback have "queue_ok ?s" "timers_ok ?s" "phase_ok ?s" "pt_open s"
    by (auto simp: trigger_ok_def queue_ok_def phase_ok_def split: if_splits)
  with queue_ok_enqueue [of ?s c d] timers_ok_enqueue [of ?s c d] show ?case
    by (simp add: trigger_ok_def phase_ok_def)
next
  case (push_fired i c at s)
  let ?s = "s\<lparr>lp_scheduled := filter (\<lambda>(j, _). j \<noteq> i) (lp_scheduled s)\<rparr>"
  from push_fired have c: "map_of (pt_timers s) c = Some (i, at)" and ok: "queue_ok ?s" "phase_ok s"
    by (auto simp: trigger_ok_def handles_ok_def queue_ok_def)
  then have "pt_open s" by (auto simp: phase_ok_def split: if_splits)
  moreover have "handles_ok ((map_of (pt_timers s))(c := None)) (lp_scheduled (enqueue c 0 ?s)) (lp_next (enqueue c 0 ?s))"
    using push_fired c handles_drop [of "map_of (pt_timers s)" "lp_scheduled s" "lp_next s" c i at] \<open>pt_open s\<close>
    by (auto simp: trigger_ok_def enqueue_def cancel_timer_def Let_def)
  moreover have "map_of (pt_timers (enqueue c 0 ?s)) = (map_of (pt_timers s))(c := None)"
    using \<open>pt_open s\<close> by (auto simp: enqueue_def Let_def delete_conv')
  ultimately show ?case
    using ok queue_ok_enqueue [OF ok(1), of c 0] by (simp add: trigger_ok_def phase_ok_def)
next
  case (push_taken s c rest)
  then show ?case by (auto simp: trigger_ok_def queue_ok_def phase_ok_def split: if_splits)
qed (auto simp: trigger_ok_def queue_ok_def phase_ok_def local_schedule_context_def split: if_splits)

lemma push_owed_step:
  "push_step e s t \<Longrightarrow> \<not> push_ends e \<Longrightarrow> trigger_ok s \<Longrightarrow> push_owed c s \<Longrightarrow> push_serves c e \<or> push_owed c t"
proof (induction rule: push_step.induct)
  case (push_started s t)
  let ?s = "s\<lparr>pt_open := True, pt_queue := []\<rparr>"
  let ?t = "fold (\<lambda>(c, _, d). enqueue c d) (pt_pending s) ?s"
  have t: "t = ?t\<lparr>pt_pending := [], pt_worker := Waiting\<rparr>"
    using push_started(1) by (simp add: local_push_start_def Let_def split: if_splits)
  have "waits c ?t" if "waits c s \<or> c \<in> fst ` set (pt_pending s)"
    using that fold_enqueue(5,6) [where s = ?s and c = c and ws = "pt_pending s"] by (elim disjE) (simp_all add: waits_def)
  then have "waits c ?t \<or> c \<in> fst ` set (lp_ready ?t)"
    using push_started(4) by (simp add: push_owed_def fold_enqueue(4)) blast
  then show ?case by (simp add: t push_owed_def waits_def)
next
  case (push_callback s c' d rest)
  then have "pt_open s" by (auto simp: trigger_ok_def phase_ok_def split: if_splits)
  with push_callback enqueue_waits [of "s\<lparr>lp_ready := rest\<rparr>" c d] enqueue_keeps_waiting [of c "s\<lparr>lp_ready := rest\<rparr>" c' d]
  show ?case by (auto simp: push_owed_def waits_def)
next
  case (push_fired i c' at s)
  then show ?case
    using enqueue_keeps_waiting [of c "s\<lparr>lp_scheduled := filter (\<lambda>(j, _). j \<noteq> i) (lp_scheduled s)\<rparr>" c' 0]
    by (auto simp: push_owed_def waits_def)
qed (auto simp: push_owed_def waits_def local_schedule_context_def split: if_splits)

interpretation push_wakeups: wakeup_queue push_step push_ends trigger_ok push_owed push_serves
  by unfold_locales (fact trigger_ok_step, fact push_owed_step)

lemma trigger_ok_init: "trigger_ok (push_trigger_init now)"
  by (simp add: trigger_ok_def push_trigger_init_def queue_ok_def handles_ok_def phase_ok_def)

subsection \<open>Merging, through stops and restarts\<close>

definition merged_ok :: "push_trigger \<Rightarrow> bool" where
  "merged_ok s = (queue_ok s \<and> (pt_worker s = No_worker \<longrightarrow> \<not> pt_open s \<and> pt_queue s = []))"

lemma merged_ok_enqueue: "merged_ok s \<Longrightarrow> merged_ok (enqueue c d s)"
  using queue_ok_enqueue [of s c d] by (cases "pt_open s") (auto simp: merged_ok_def, auto simp: enqueue_def)

lemma fold_cancel_timer:
  "pt_queue (fold cancel_timer cs s) = pt_queue s" "pt_queued (fold cancel_timer cs s) = pt_queued s"
  "pt_worker (fold cancel_timer cs s) = pt_worker s"
  by (induction cs arbitrary: s) simp_all

lemma merged_ok_step: "push_step e s t \<Longrightarrow> merged_ok s \<Longrightarrow> merged_ok t"
proof (induction rule: push_step.induct)
  case (push_started s t)
  then have "queue_ok (s\<lparr>pt_open := True, pt_queue := []\<rparr>)"
    by (auto simp: local_push_start_def merged_ok_def queue_ok_def split: if_splits)
  with push_started fold_enqueue(1) [where s = "s\<lparr>pt_open := True, pt_queue := []\<rparr>" and ws = "pt_pending s"] show ?case
    by (auto simp: local_push_start_def Let_def merged_ok_def queue_ok_def split: if_splits)
next
  case (push_callback s c d rest)
  then show ?case by (intro merged_ok_enqueue) (simp add: merged_ok_def queue_ok_def)
next
  case (push_fired i c at s)
  then show ?case by (intro merged_ok_enqueue) (simp add: merged_ok_def queue_ok_def)
next
  case (push_stop_called s)
  then show ?case by (simp add: local_push_stop_def local_push_closed_def merged_ok_def queue_ok_def Let_def fold_cancel_timer)
qed (auto simp: merged_ok_def queue_ok_def local_schedule_context_def local_push_closed_def split: if_splits)

lemma merged_ok_path: "path push_step s es t \<Longrightarrow> merged_ok s \<Longrightarrow> merged_ok t"
  by (induction rule: path.induct) (auto intro: merged_ok_step)

lemma one_timer_each:
  assumes "trigger_ok s"
  shows "distinct (map (\<lambda>(_, c, _). c) (lp_scheduled s))"
proof -
  have "inj_on (\<lambda>(_, c, _). c) (set (lp_scheduled s))"
  proof (rule inj_onI)
    fix x y assume xy: "x \<in> set (lp_scheduled s)" "y \<in> set (lp_scheduled s)" "(case x of (_, c, _) \<Rightarrow> c) = (case y of (_, c, _) \<Rightarrow> c)"
    obtain i c at j at' where p: "x = (i, c, at)" "y = (j, c, at')" using xy(3) by (cases x, cases y) auto
    have "map_of (pt_timers s) c = Some (i, at)" "map_of (pt_timers s) c = Some (j, at')"
      using assms xy p by (auto simp: trigger_ok_def handles_ok_def)
    then show "x = y" using p by simp
  qed
  moreover have "distinct (lp_scheduled s)" using assms by (simp add: trigger_ok_def handles_ok_def distinct_map)
  ultimately show ?thesis by (simp add: distinct_map)
qed

subsection \<open>Every wakeup is served\<close>

text \<open>The steps the loop and the worker take on their own, and a bound on how many there are before new input or time.\<close>

fun internal :: "push_event \<Rightarrow> bool" where
  "internal Callback = True"
| "internal (Fired _) = True"
| "internal (Taken _) = True"
| "internal Dispatched = True"
| "internal _ = False"

definition push_work :: "push_trigger \<Rightarrow> nat" where
  "push_work s = 4 * length (lp_ready s) + 3 * length (lp_scheduled s) + 2 * length (pt_queue s)
     + (case pt_worker s of Dispatching _ \<Rightarrow> 1 | _ \<Rightarrow> 0)"

lemma cancel_timer_shorter: "length (lp_scheduled (cancel_timer c s)) \<le> length (lp_scheduled s)"
  by (auto simp: cancel_timer_def split: option.splits)

lemma work_enqueue: "push_work (enqueue c d s) \<le> push_work s + (if d = 0 then 2 else 3)"
  using cancel_timer_shorter [of c s]
  by (auto simp: push_work_def enqueue_def call_later_def Let_def split: option.splits)

lemma work_decreases: "push_step e s t \<Longrightarrow> internal e \<Longrightarrow> push_work t < push_work s"
proof (induction rule: push_step.induct)
  case (push_callback s c d rest)
  then have "push_work (s\<lparr>lp_ready := rest\<rparr>) + 4 = push_work s" by (simp add: push_work_def)
  with work_enqueue [of c d "s\<lparr>lp_ready := rest\<rparr>"] show ?case by (auto split: if_splits)
next
  case (push_fired i c at s)
  let ?s = "s\<lparr>lp_scheduled := filter (\<lambda>(j, _). j \<noteq> i) (lp_scheduled s)\<rparr>"
  from push_fired have "length (lp_scheduled ?s) < length (lp_scheduled s)"
    by (auto intro: length_filter_less)
  then have "push_work ?s + 3 \<le> push_work s" by (simp add: push_work_def)
  with work_enqueue [of c 0 ?s] show ?case by simp
qed (auto simp: push_work_def)

lemma work_bounds_path: "path push_step s es t \<Longrightarrow> list_all internal es \<Longrightarrow> length es + push_work t \<le> push_work s"
proof (induction rule: path.induct)
  case (path_Cons e s t es u)
  with work_decreases [of e s t] show ?case by auto
qed simp

definition quiescent :: "push_trigger \<Rightarrow> bool" where
  "quiescent s = (\<forall>e t. internal e \<longrightarrow> \<not> push_step e s t)"

lemma quiescent_empty:
  assumes "quiescent s" "trigger_ok s" "pt_open s"
  shows "lp_ready s = []" "pt_pending s = []" "pt_queued s = {}" "(i, c, at) \<in> set (lp_scheduled s) \<Longrightarrow> lp_now s < at"
proof -
  have no: "\<not> push_step e s t" if "internal e" for e t using assms(1) that by (simp add: quiescent_def)
  show ready: "lp_ready s = []"
    using no [of Callback] push_callback [of s] by (cases "lp_ready s") auto
  show "pt_pending s = []" using assms(2,3) by (simp add: trigger_ok_def phase_ok_def)
  have "pt_worker s \<noteq> Dispatching c" for c using no [of Dispatched] push_dispatched by auto
  with assms(2,3) have "pt_worker s = Waiting" by (cases "pt_worker s") (auto simp: trigger_ok_def phase_ok_def)
  then have "pt_queue s = []" using no [of "Taken _"] push_taken [of s] by (cases "pt_queue s") auto
  with assms(2) show "pt_queued s = {}" by (simp add: trigger_ok_def queue_ok_def)
  show "(i, c, at) \<in> set (lp_scheduled s) \<Longrightarrow> lp_now s < at"
    using no [of "Fired c"] push_fired [of i c at s] by (meson internal.simps(2) not_less)
qed

lemma push_open_path: "path push_step s es t \<Longrightarrow> list_all internal es \<Longrightarrow> pt_open s \<Longrightarrow> pt_open t"
proof (induction rule: path.induct)
  case (path_Cons e s t es u)
  then have "pt_open t" by (auto elim!: push_step.cases)
  with path_Cons show ?case by auto
qed simp

subsection \<open>What the queue promises\<close>

text \<open>
  The contract of the queue as a reference machine: contexts that are due, and one alarm per context, of
  which the earliest request counts.
\<close>

record alarms =
  al_now :: int
  al_due :: "string set"
  al_alarm :: "string \<rightharpoonup> int"

datatype alarm_event = Ask string int | Ring string | Serve string | Pass int | Idle

fun earlier :: "int option \<Rightarrow> int \<Rightarrow> int" where
  "earlier None t = t"
| "earlier (Some u) t = min u t"

fun alarm_next :: "alarm_event \<Rightarrow> alarms \<Rightarrow> alarms option" where
  "alarm_next (Ask c d) a = Some (if d = 0 then a\<lparr>al_due := insert c (al_due a), al_alarm := (al_alarm a)(c := None)\<rparr>
     else a\<lparr>al_alarm := (al_alarm a)(c \<mapsto> earlier (al_alarm a c) (al_now a + seconds d))\<rparr>)"
| "alarm_next (Ring c) a = (case al_alarm a c of
       Some t \<Rightarrow> if t \<le> al_now a then Some (a\<lparr>al_due := insert c (al_due a), al_alarm := (al_alarm a)(c := None)\<rparr>) else None
     | None \<Rightarrow> None)"
| "alarm_next (Serve c) a = (if c \<in> al_due a then Some (a\<lparr>al_due := al_due a - {c}\<rparr>) else None)"
| "alarm_next (Pass n) a = (if 0 \<le> n then Some (a\<lparr>al_now := al_now a + n\<rparr>) else None)"
| "alarm_next Idle a = Some a"

definition alarms_of :: "push_trigger \<Rightarrow> alarms" where
  "alarms_of s = \<lparr>al_now = lp_now s, al_due = pt_queued s, al_alarm = (\<lambda>c. map_option snd (map_of (pt_timers s) c))\<rparr>"

fun alarm_of :: "push_trigger \<Rightarrow> push_event \<Rightarrow> alarm_event" where
  "alarm_of s Callback = (case lp_ready s of (c, d) # _ \<Rightarrow> Ask c d | [] \<Rightarrow> Idle)"
| "alarm_of s (Fired c) = Ring c"
| "alarm_of s (Taken c) = Serve c"
| "alarm_of s (Ticked n) = Pass n"
| "alarm_of s _ = Idle"

lemma enqueue_alarm:
  assumes "pt_open s"
  shows "alarm_next (Ask c d) (alarms_of s) = Some (alarms_of (enqueue c d s))"
proof (cases "d = 0")
  case True
  with assms show ?thesis by (auto simp: alarms_of_def enqueue_def Let_def delete_conv')
next
  case False
  show ?thesis
  proof (cases "map_of (pt_timers s) c")
    case None
    with False assms show ?thesis by (auto simp: alarms_of_def enqueue_delayed)
  next
    case (Some h)
    with False assms show ?thesis by (cases h) (auto simp: alarms_of_def enqueue_delayed fun_eq_iff)
  qed
qed

section \<open>Scheduler wakeups\<close>

text \<open>
  Each wakeup becomes a job of its own: created by a callback of the loop, it sleeps for its delay and then
  makes one scheduler run, whose outcome decides whether the context is scheduled once more.
\<close>

datatype job_stage = Created int | Sleeping int | Running_once

datatype run_outcome = Run_returned | Run_busy | Run_raised

record sched_trigger =
  sg_started :: bool
  sg_stopped :: bool
  sg_ready :: "(string \<times> int) list"
  sg_jobs :: "(nat \<times> string \<times> job_stage) list"
  sg_next :: nat
  sg_now :: int

definition sched_trigger_init :: "int \<Rightarrow> sched_trigger" where
  "sched_trigger_init now = \<lparr>sg_started = False, sg_stopped = False, sg_ready = [], sg_jobs = [], sg_next = 0, sg_now = now\<rparr>"

definition local_scheduler_start :: "sched_trigger \<Rightarrow> error + sched_trigger" where
  "local_scheduler_start s = (if sg_started s then Inl (RuntimeError ''Local scheduler already started'')
     else Inr (s\<lparr>sg_started := True\<rparr>))"

definition local_schedule :: "string \<Rightarrow> string \<Rightarrow> int \<Rightarrow> sched_trigger \<Rightarrow> error + sched_trigger" where
  "local_schedule c reason d s = (
     if c = [] \<or> reason = [] \<or> \<not> (0 \<le> d \<and> d \<le> 900) then Inl (ValueError ''Invalid scheduler wakeup'')
     else if \<not> sg_started s \<or> sg_stopped s then Inl (RuntimeError ''Local scheduler is not running'')
     else Inr (s\<lparr>sg_ready := sg_ready s @ [(c, d)]\<rparr>))"

definition launch :: "string \<Rightarrow> int \<Rightarrow> sched_trigger \<Rightarrow> sched_trigger" where
  "launch c d s = (if sg_stopped s then s
     else s\<lparr>sg_jobs := sg_jobs s @ [(sg_next s, c, Created d)], sg_next := Suc (sg_next s)\<rparr>)"

definition set_stage :: "nat \<Rightarrow> job_stage \<Rightarrow> sched_trigger \<Rightarrow> sched_trigger" where
  "set_stage i g s = s\<lparr>sg_jobs := map (\<lambda>(j, c, h). (j, c, if j = i then g else h)) (sg_jobs s)\<rparr>"

text \<open>The first piece of \<open>_run\<close>, up to the sleep or the run of the scheduler.\<close>

definition begin_job :: "nat \<Rightarrow> int \<Rightarrow> sched_trigger \<Rightarrow> sched_trigger" where
  "begin_job i d s = set_stage i (if d \<noteq> 0 then Sleeping (sg_now s + seconds d) else Running_once) s"

text \<open>The last piece of \<open>_run\<close>; a refused \<open>schedule\<close> ends the job with that error.\<close>

definition rescheduled :: "run_outcome \<Rightarrow> string \<Rightarrow> sched_trigger \<Rightarrow> error + sched_trigger" where
  "rescheduled r c s = (case r of
     Run_returned \<Rightarrow> Inr s
   | Run_busy \<Rightarrow> local_schedule c ''lease-busy'' 1 s
   | Run_raised \<Rightarrow> local_schedule c ''retry-after-error'' 5 s)"

definition finish_job :: "nat \<Rightarrow> string \<Rightarrow> run_outcome \<Rightarrow> sched_trigger \<Rightarrow> sched_trigger" where
  "finish_job i c r s = (let t = (case rescheduled r c s of Inr t \<Rightarrow> t | Inl _ \<Rightarrow> s) in
     t\<lparr>sg_jobs := filter (\<lambda>(j, _). j \<noteq> i) (sg_jobs t)\<rparr>)"

definition local_scheduler_stop :: "sched_trigger \<Rightarrow> sched_trigger" where
  "local_scheduler_stop s = s\<lparr>sg_stopped := True, sg_jobs := []\<rparr>"

datatype sched_event = Sched_start | Sched_ask string string int | Sched_launch | Job_begins nat | Job_wakes nat
  | Job_ends string run_outcome | Sched_time int | Sched_stop

inductive sched_step :: "sched_event \<Rightarrow> sched_trigger \<Rightarrow> sched_trigger \<Rightarrow> bool" where
  sched_start: "local_scheduler_start s = Inr t \<Longrightarrow> sched_step Sched_start s t"
| sched_ask: "local_schedule c r d s = Inr t \<Longrightarrow> sched_step (Sched_ask c r d) s t"
| sched_launch: "sg_ready s = (c, d) # rest \<Longrightarrow> sched_step Sched_launch s (launch c d (s\<lparr>sg_ready := rest\<rparr>))"
| job_begins: "(i, c, Created d) \<in> set (sg_jobs s) \<Longrightarrow> sched_step (Job_begins i) s (begin_job i d s)"
| job_wakes: "(i, c, Sleeping at) \<in> set (sg_jobs s) \<Longrightarrow> at \<le> sg_now s \<Longrightarrow> sched_step (Job_wakes i) s (set_stage i Running_once s)"
| job_ends: "(i, c, Running_once) \<in> set (sg_jobs s) \<Longrightarrow> sched_step (Job_ends c r) s (finish_job i c r s)"
| sched_time: "0 \<le> n \<Longrightarrow> sched_step (Sched_time n) s (s\<lparr>sg_now := sg_now s + n\<rparr>)"
| sched_stop: "sched_step Sched_stop s (local_scheduler_stop s)"

fun sched_ends :: "sched_event \<Rightarrow> bool" where
  "sched_ends Sched_stop = True"
| "sched_ends _ = False"

text \<open>A wakeup is served by a run of the scheduler that returns, not by one that is refused the lease or raises.\<close>

fun sched_serves :: "string \<Rightarrow> sched_event \<Rightarrow> bool" where
  "sched_serves c (Job_ends c' r) = (c = c' \<and> r = Run_returned)"
| "sched_serves c _ = False"

definition sched_ok :: "sched_trigger \<Rightarrow> bool" where
  "sched_ok s = (\<not> sg_stopped s \<and> distinct (map fst (sg_jobs s)) \<and> list_all (\<lambda>(i, _, _). i < sg_next s) (sg_jobs s)
     \<and> list_all (\<lambda>(c, _). c \<noteq> []) (sg_ready s) \<and> list_all (\<lambda>(_, c, _). c \<noteq> []) (sg_jobs s)
     \<and> (\<not> sg_started s \<longrightarrow> sg_ready s = [] \<and> sg_jobs s = []))"

definition sched_owed :: "string \<Rightarrow> sched_trigger \<Rightarrow> bool" where
  "sched_owed c s = (list_ex (\<lambda>(c', _). c' = c) (sg_ready s) \<or> list_ex (\<lambda>(_, c', _). c' = c) (sg_jobs s))"

lemma staged_jobs:
  fixes js :: "(nat \<times> string \<times> job_stage) list"
  defines "f \<equiv> \<lambda>i g. map (\<lambda>(j, c, h). (j, c, if j = i then g else h))"
  shows "list_all (\<lambda>(j, c, _). p j c) (f i g js) = list_all (\<lambda>(j, c, _). p j c) js"
    "list_ex (\<lambda>(j, c, _). p j c) (f i g js) = list_ex (\<lambda>(j, c, _). p j c) js" "map fst (f i g js) = map fst js"
  unfolding f_def by (induction js) auto

lemma stage_contract: "sched_ok (set_stage i g s) = sched_ok s" "sched_owed c (set_stage i g s) = sched_owed c s"
  using staged_jobs(1) [of "\<lambda>j _. j < sg_next s" i g "sg_jobs s"] staged_jobs(1) [of "\<lambda>_ c. c \<noteq> []" i g "sg_jobs s"]
    staged_jobs(2) [of "\<lambda>_ c'. c' = c" i g "sg_jobs s"] staged_jobs(3) [of i g "sg_jobs s"]
  unfolding sched_ok_def sched_owed_def set_stage_def by (simp_all del: map_map map_eq_conv)

lemma rescheduled_running:
  assumes "sched_ok s" "(i, c, Running_once) \<in> set (sg_jobs s)"
  shows "finish_job i c r s = s\<lparr>sg_ready := sg_ready s @ (case r of Run_returned \<Rightarrow> [] | Run_busy \<Rightarrow> [(c, 1)] | Run_raised \<Rightarrow> [(c, 5)]),
     sg_jobs := filter (\<lambda>(j, _). j \<noteq> i) (sg_jobs s)\<rparr>" "c \<noteq> []"
proof -
  from assms have "sg_started s" "\<not> sg_stopped s" by (auto simp: sched_ok_def)
  moreover show c: "c \<noteq> []" using assms by (auto simp: sched_ok_def list_all_iff)
  ultimately show "finish_job i c r s = s\<lparr>sg_ready := sg_ready s @ (case r of Run_returned \<Rightarrow> [] | Run_busy \<Rightarrow> [(c, 1)] | Run_raised \<Rightarrow> [(c, 5)]),
     sg_jobs := filter (\<lambda>(j, _). j \<noteq> i) (sg_jobs s)\<rparr>"
    by (cases r) (simp_all add: finish_job_def rescheduled_def local_schedule_def)
qed

lemma sched_ok_step: "sched_step e s t \<Longrightarrow> \<not> sched_ends e \<Longrightarrow> sched_ok s \<Longrightarrow> sched_ok t"
proof (induction rule: sched_step.induct)
  case (job_ends i c s r)
  have "distinct (map fst (filter (\<lambda>(j, _). j \<noteq> i) (sg_jobs s)))"
    using job_ends by (intro distinct_filter_keys) (simp add: sched_ok_def)
  with job_ends rescheduled_running [OF job_ends(3,1)] show ?case
    by (cases r) (auto simp: sched_ok_def list_all_iff)
next
  case (job_begins i c d s)
  then show ?case by (simp add: begin_job_def stage_contract)
next
  case (job_wakes i c at s)
  then show ?case by (simp add: stage_contract)
qed (auto simp: sched_ok_def local_scheduler_start_def local_schedule_def launch_def list_all_iff split: if_splits)

lemma sched_owed_step:
  "sched_step e s t \<Longrightarrow> \<not> sched_ends e \<Longrightarrow> sched_ok s \<Longrightarrow> sched_owed c s \<Longrightarrow> sched_serves c e \<or> sched_owed c t"
proof (induction rule: sched_step.induct)
  case (job_ends i c' s r)
  have other: "(j, c, g) \<in> set (sg_jobs s) \<Longrightarrow> c \<noteq> c' \<Longrightarrow> j \<noteq> i" for j g
    using job_ends(1,3) by (auto simp: sched_ok_def dest: eq_key_imp_eq_value)
  show ?case
  proof (cases "c = c' \<and> r \<noteq> Run_returned")
    case True
    then show ?thesis by (cases r) (auto simp: rescheduled_running [OF job_ends(3,1)] sched_owed_def list_ex_iff)
  next
    case False
    with job_ends(4) show ?thesis
      by (cases r) (auto simp: rescheduled_running [OF job_ends(3,1)] sched_owed_def list_ex_iff dest: other)
  qed
next
  case (sched_launch s c' d rest)
  then show ?case by (auto simp: sched_owed_def launch_def sched_ok_def)
next
  case (job_begins i c' d s)
  then show ?case by (simp add: begin_job_def stage_contract)
next
  case (job_wakes i c' at s)
  then show ?case by (simp add: stage_contract)
qed (auto simp: stage_contract sched_owed_def local_scheduler_start_def local_schedule_def split: if_splits)

interpretation scheduler_wakeups: wakeup_queue sched_step sched_ends sched_ok sched_owed sched_serves
  by unfold_locales (fact sched_ok_step, fact sched_owed_step)

lemma sched_ok_init: "sched_ok (sched_trigger_init now)"
  by (simp add: sched_ok_def sched_trigger_init_def)

end
