(* ===== verification/Trigger_Safety.thy ===== *)
theory Trigger_Safety
  imports Local_Triggers
begin

text \<open>
  The promises of the in-process wakeup queues: a scheduled wakeup is never lost, wakeups of one context are
  merged, every wakeup is served after a bounded number of steps, and the push queue refines a set of alarms.
\<close>

section \<open>Push wakeups\<close>

lemma sample_push_path:
  "\<exists>s. path push_step (push_trigger_init 0) [Started, Scheduled ''c1'' ''task'' 0] s \<and> pt_open s \<and> push_owed ''c1'' s
     \<and> (\<exists>t. path push_step s [Callback, Taken ''c1''] t)"
proof -
  let ?s0 = "push_trigger_init 0"
  let ?s1 = "?s0\<lparr>pt_open := True, pt_worker := Waiting\<rparr>"
  let ?s2 = "?s1\<lparr>lp_ready := [(''c1'', 0)]\<rparr>"
  let ?s3 = "enqueue ''c1'' 0 (?s2\<lparr>lp_ready := []\<rparr>)"
  have "push_step Started ?s0 ?s1" by (rule push_started) (simp add: local_push_start_def push_trigger_init_def)
  moreover have "push_step (Scheduled ''c1'' ''task'' 0) ?s1 ?s2"
    by (rule push_scheduled) (simp add: local_schedule_context_def push_trigger_init_def)
  moreover have "push_step Callback ?s2 ?s3" by (rule push_callback) simp
  moreover have "push_step (Taken ''c1'') ?s3 (?s3\<lparr>pt_worker := Dispatching ''c1'', pt_queue := [], pt_queued := pt_queued ?s3 - {''c1''}\<rparr>)"
    by (rule push_taken) (simp_all add: enqueue_def push_trigger_init_def Let_def cancel_timer_def)
  moreover have "pt_open ?s2" "push_owed ''c1'' ?s2" by (simp_all add: push_owed_def)
  ultimately show ?thesis
    by (intro exI [of _ ?s2]) (auto simp: path_Cons_iff)
qed

text \<open>C28: A push wakeup is never lost. In any run of the local push queue that has not been stopped, a context
  that is scheduled at some point is afterwards taken by the worker at least once, or its wakeup is still
  in the queue, behind a timer or on its way there; this holds for every interleaving of threads, timers and worker.\<close>

theorem push_wakeup_never_lost:
  assumes "path push_step (push_trigger_init now) (es @ Scheduled c r d # fs) s"
    and "list_all (\<lambda>e. \<not> push_ends e) (es @ Scheduled c r d # fs)"
  shows "list_ex (push_serves c) fs \<or> push_owed c s"
proof (rule push_wakeups.kept [OF assms trigger_ok_init])
  fix t t' assume "push_step (Scheduled c r d) t t'"
  then show "push_owed c t'"
    by (auto elim!: push_step.cases simp: local_schedule_context_def push_owed_def split: if_splits)
qed

lemma push_wakeup_never_lost_witness:
  "\<exists>s. path push_step (push_trigger_init 0) ([Started] @ Scheduled ''c1'' ''task'' 0 # []) s
     \<and> (list_ex (push_serves ''c1'') [] \<or> push_owed ''c1'' s)"
proof -
  from sample_push_path obtain s where p: "path push_step (push_trigger_init 0) ([Started] @ Scheduled ''c1'' ''task'' 0 # []) s" by auto
  from push_wakeup_never_lost [OF this] p show ?thesis by auto
qed

text \<open>Wakeups of one context are merged. In every run of the local push queue, stopped and restarted or not, a context
  is in the queue at most once; and until a stop every context has at most one timer that will fire, which is the one in
  \<open>_timers\<close>.\<close>

theorem push_wakeups_merged:
  assumes "path push_step (push_trigger_init now) es s"
  shows "distinct (pt_queue s)
    \<and> (list_all (\<lambda>e. \<not> push_ends e) es \<longrightarrow> distinct (map (\<lambda>(_, c, _). c) (lp_scheduled s)))"
proof -
  have "merged_ok (push_trigger_init now)" by (simp add: merged_ok_def queue_ok_def push_trigger_init_def)
  then have "distinct (pt_queue s)" using merged_ok_path [OF assms] by (simp add: merged_ok_def queue_ok_def)
  with push_wakeups.ok_path [OF assms _ trigger_ok_init] one_timer_each show ?thesis by blast
qed

lemma push_wakeups_merged_witness:
  "\<exists>s. path push_step (push_trigger_init 0) [Started, Scheduled ''c1'' ''task'' 0] s \<and> distinct (pt_queue s)"
proof -
  from sample_push_path obtain s where "path push_step (push_trigger_init 0) [Started, Scheduled ''c1'' ''task'' 0] s" by blast
  with push_wakeups_merged [OF this] show ?thesis by blast
qed

text \<open>C29: Every push wakeup is served. From any state of a running queue the loop and the worker can make only a bounded
  number of steps of their own, whatever their order; and when none is left, a context that was owed a wakeup has been
  taken by the worker, or it waits for a timer that is not due yet.\<close>

theorem push_wakeups_served:
  assumes "path push_step (push_trigger_init now) hist s" "list_all (\<lambda>e. \<not> push_ends e) hist"
    and "pt_open s" "push_owed c s" "path push_step s es t" "list_all internal es"
  shows "length es \<le> push_work s
    \<and> (quiescent t \<longrightarrow> list_ex (push_serves c) es \<or> (\<exists>i at. map_of (pt_timers t) c = Some (i, at) \<and> lp_now t < at))"
proof -
  have "internal e \<Longrightarrow> \<not> push_ends e" for e by (cases e) simp_all
  with assms(6) have running: "list_all (\<lambda>e. \<not> push_ends e) es" by (auto simp: list_all_iff)
  have ok: "trigger_ok s" "trigger_ok t"
    using push_wakeups.ok_path [OF assms(1,2) trigger_ok_init] push_wakeups.ok_path [OF assms(5) running] by blast+
  have "list_ex (push_serves c) es \<or> (\<exists>i at. map_of (pt_timers t) c = Some (i, at) \<and> lp_now t < at)" if q: "quiescent t"
  proof -
    note empty = quiescent_empty [OF q ok(2) push_open_path [OF assms(5,6,3)]]
    have "map_of (pt_timers t) c = Some (i, at) \<Longrightarrow> lp_now t < at" for i at
      using ok(2) empty(4) [of i c at] by (simp add: trigger_ok_def handles_ok_def)
    with push_wakeups.owed_path [OF assms(5) running ok(1) assms(4)] empty(1-3) show ?thesis
      by (auto simp: push_owed_def waits_def)
  qed
  with work_bounds_path [OF assms(5,6)] show ?thesis by auto
qed

lemma push_wakeups_served_witness:
  "\<exists>s t. path push_step (push_trigger_init 0) [Started, Scheduled ''c1'' ''task'' 0] s
     \<and> path push_step s [Callback, Taken ''c1''] t \<and> length [Callback, Taken ''c1''] \<le> push_work s"
proof -
  from sample_push_path obtain s t where p: "path push_step (push_trigger_init 0) [Started, Scheduled ''c1'' ''task'' 0] s"
    "pt_open s" "push_owed ''c1'' s" "path push_step s [Callback, Taken ''c1''] t" by blast
  from push_wakeups_served [OF p(1) _ p(2-4)] have "length [Callback, Taken ''c1''] \<le> push_work s" by simp
  with p(1,4) show ?thesis by blast
qed

text \<open>C30: The push queue implements a set of alarms. Every step of a running queue is a step of the reference machine that keeps one alarm per
  context and lets the earliest request count: a callback asks for a wakeup, a timer rings, the worker serves a context
  that is due, time passes, and everything else changes nothing.\<close>

theorem push_queue_refines_alarms:
  assumes "path push_step (push_trigger_init now) hist s" "list_all (\<lambda>e. \<not> push_ends e) hist"
    and "pt_open s" "push_step e s t" "\<not> push_ends e"
  shows "alarm_next (alarm_of s e) (alarms_of s) = Some (alarms_of t)"
proof -
  have ok: "trigger_ok s" by (rule push_wakeups.ok_path [OF assms(1,2) trigger_ok_init])
  from assms(4) show ?thesis
  proof cases
    case (push_callback c d rest)
    with enqueue_alarm [of "s\<lparr>lp_ready := rest\<rparr>" c d] assms(3) show ?thesis by (simp add: alarms_of_def)
  next
    case (push_fired i c at)
    let ?s = "s\<lparr>lp_scheduled := filter (\<lambda>(j, _). j \<noteq> i) (lp_scheduled s)\<rparr>"
    from push_fired ok have "map_of (pt_timers s) c = Some (i, at)" by (simp add: trigger_ok_def handles_ok_def)
    with push_fired enqueue_alarm [of ?s c 0] assms(3) show ?thesis by (simp add: alarms_of_def)
  next
    case (push_taken c rest)
    with ok have "c \<in> pt_queued s" by (auto simp: trigger_ok_def queue_ok_def)
    with push_taken show ?thesis by (simp add: alarms_of_def)
  next
    case push_started
    with ok assms(3) show ?thesis by (auto simp: local_push_start_def trigger_ok_def phase_ok_def split: if_splits)
  qed (use assms(5) in \<open>auto simp: alarms_of_def local_schedule_context_def split: if_splits\<close>)
qed

lemma push_queue_refines_alarms_witness:
  "\<exists>s t. push_step Callback s t \<and> alarm_next (alarm_of s Callback) (alarms_of s) = Some (alarms_of t)"
proof -
  from sample_push_path obtain s t where p: "path push_step (push_trigger_init 0) [Started, Scheduled ''c1'' ''task'' 0] s"
    "pt_open s" "push_step Callback s t" by (auto simp: path_Cons_iff)
  from push_queue_refines_alarms [OF p(1) _ p(2,3)] p(3) show ?thesis by auto
qed

section \<open>Scheduler wakeups\<close>

text \<open>C31: A scheduler wakeup is retried until it succeeds. In any run of the local scheduler queue that has not been stopped,
  a context that is scheduled at some point is afterwards run by the scheduler to a normal return at least once, or a callback or a job for it is
  still there: a run that is refused the lease or raises leaves a new wakeup behind.\<close>

theorem scheduler_wakeup_never_lost:
  assumes "path sched_step (sched_trigger_init now) (es @ Sched_ask c r d # fs) s"
    and "list_all (\<lambda>e. \<not> sched_ends e) (es @ Sched_ask c r d # fs)"
  shows "list_ex (sched_serves c) fs \<or> sched_owed c s"
proof (rule scheduler_wakeups.kept [OF assms sched_ok_init])
  fix t t' assume "sched_step (Sched_ask c r d) t t'"
  then show "sched_owed c t'"
    by (auto elim!: sched_step.cases simp: local_schedule_def sched_owed_def split: if_splits)
qed

lemma scheduler_wakeup_never_lost_witness:
  "\<exists>s. path sched_step (sched_trigger_init 0) ([Sched_start] @ Sched_ask ''c1'' ''task'' 0 # [Sched_launch, Job_begins 0, Job_ends ''c1'' Run_busy]) s
     \<and> (list_ex (sched_serves ''c1'') [Sched_launch, Job_begins 0, Job_ends ''c1'' Run_busy] \<or> sched_owed ''c1'' s)"
proof -
  let ?s1 = "(sched_trigger_init 0)\<lparr>sg_started := True\<rparr>"
  let ?s2 = "?s1\<lparr>sg_ready := [(''c1'', 0)]\<rparr>"
  let ?s3 = "launch ''c1'' 0 (?s2\<lparr>sg_ready := []\<rparr>)"
  let ?s4 = "begin_job 0 0 ?s3"
  have "sched_step Sched_start (sched_trigger_init 0) ?s1"
    by (rule sched_start) (simp add: local_scheduler_start_def sched_trigger_init_def)
  moreover have "sched_step (Sched_ask ''c1'' ''task'' 0) ?s1 ?s2"
    by (rule sched_ask) (simp add: local_schedule_def sched_trigger_init_def)
  moreover have "sched_step Sched_launch ?s2 ?s3" by (rule sched_launch) simp
  moreover have "sched_step (Job_begins 0) ?s3 ?s4"
    by (rule job_begins [of _ "''c1''"]) (simp add: launch_def sched_trigger_init_def)
  moreover have "sched_step (Job_ends ''c1'' Run_busy) ?s4 (finish_job 0 ''c1'' Run_busy ?s4)"
    by (rule job_ends) (simp add: launch_def begin_job_def set_stage_def sched_trigger_init_def)
  ultimately have p: "path sched_step (sched_trigger_init 0)
      ([Sched_start] @ Sched_ask ''c1'' ''task'' 0 # [Sched_launch, Job_begins 0, Job_ends ''c1'' Run_busy]) (finish_job 0 ''c1'' Run_busy ?s4)"
    by (auto simp: path_Cons_iff)
  from scheduler_wakeup_never_lost [OF p] p show ?thesis by auto
qed

end
