(* ===== verification/Configuration.thy ===== *)
theory Configuration
  imports Url Complex_Main
begin

text \<open>
  \<^verbatim>\<open>config.py\<close> with the parts of \<^verbatim>\<open>db/connection.py\<close> and \<^verbatim>\<open>runtime.py\<close> that choose by configuration: reading
  the environment and the secrets, validating them, and the database, CORS origins and preview queue that follow. The
  environment is a map from names to texts; the secrets manager, base64 and \<open>float\<close> are parameters. The caches
  of \<open>lru_cache\<close> return what the first call returned and are not modelled.
\<close>

section \<open>Reading the environment\<close>

type_synonym environ = "string \<rightharpoonup> string"

definition getenv :: "environ \<Rightarrow> string \<Rightarrow> string \<Rightarrow> string" where
  "getenv env name fallback = (case env name of None \<Rightarrow> fallback | Some v \<Rightarrow> v)"

text \<open>\<open>os.getenv(name) or None\<close>\<close>

definition getenv_opt :: "environ \<Rightarrow> string \<Rightarrow> string option" where
  "getenv_opt env name = (if truthy (env name) then env name else None)"

definition flag :: "environ \<Rightarrow> string \<Rightarrow> bool \<Rightarrow> bool" where
  "flag env name fallback = (case env name of
     None \<Rightarrow> fallback
   | Some v \<Rightarrow> py_lower v \<in> {''1'', ''true'', ''yes'', ''on''})"

definition agent_version :: "environ \<Rightarrow> error + nat option" where
  "agent_version env = (case env ''CLAUDE_AGENT_VERSION'' of
     None \<Rightarrow> Inr None
   | Some v \<Rightarrow> if v = [] \<or> \<not> list_all is_digit v \<or> digits_value v < 1
       then Inl (RuntimeError ''CLAUDE_AGENT_VERSION must be a positive integer'')
       else Inr (Some (digits_value v)))"

text \<open>What \<open>get_secret_value\<close> comes to: the secret does not exist, another error, or its two optional fields.\<close>

datatype secret_outcome = No_such_secret | Secret_failed error | Secret_found "string option" "string option"

record secret_store =
  get_secret_value :: "string \<Rightarrow> secret_outcome"
  decode_binary :: "string \<Rightarrow> error + string"

definition e2e_secrets :: "(string \<times> string) list" where
  "e2e_secrets = [(''WEB_ACCESS_TOKEN'', ''e2e-access-token''),
     (''WEB_COOKIE_SECRET'', ''e2e-cookie-secret-at-least-32-bytes''),
     (''SLACK_SIGNING_SECRET'', ''e2e-slack-secret''),
     (''SLACK_BOT_TOKEN'', ''e2e-bot''),
     (''ANTHROPIC_API_KEY'', ''e2e-agent''),
     (''ANTHROPIC_WEBHOOK_SIGNING_KEY'', ''whsec_ZTJlLXdlYmhvb2stc2VjcmV0'')]"

definition secret :: "environ \<Rightarrow> secret_store \<Rightarrow> string \<Rightarrow> string \<Rightarrow> error + string option" where
  "secret env S arn_name direct_name =
     (if env ''APP_ENV'' = Some ''e2e'' then Inr (map_of e2e_secrets direct_name)
      else if truthy (env direct_name) then Inr (env direct_name)
      else if \<not> truthy (env arn_name) then Inr None
      else (case get_secret_value S (the (env arn_name)) of
          No_such_secret \<Rightarrow> Inr None
        | Secret_failed e \<Rightarrow> Inl e
        | Secret_found text binary \<Rightarrow>
            if truthy text then Inr text
            else if truthy binary then bind_sum (decode_binary S (the binary)) (\<lambda>v. Inr (Some v))
            else Inr None))"

section \<open>The configuration\<close>

record settings =
  app_env :: string
  database_mode :: string
  database_url :: string
  cf_app_name :: string
  aws_region :: string
  cf_agent_id :: string
  environment_id :: string
  cf_agent_version :: "nat option"
  cma_a2a_endpoint :: string
  a2a_event_sink_url :: string
  cma_a2a_push_allowed_url :: string
  cma_scheduler_queue_url :: string
  cma_push_queue_url :: string
  cma_preview_queue_url :: string
  preview_enabled :: bool
  slack_preview_enabled :: bool
  slack_preview_queue_url :: string
  cma_pending_input_bucket :: string
  openappa_binary_path :: string
  openappa_policy_path :: string
  openappa_timeout_seconds :: rat
  dsql_endpoint :: string
  dsql_database :: string
  dsql_role :: string
  event_bus_name :: string
  dev_principal_id :: string
  web_access_token :: string
  web_cookie_secret :: string
  anthropic_api_key :: string
  anthropic_webhook_signing_key :: "string option"
  slack_signing_secret :: "string option"
  slack_bot_token :: "string option"
  slack_team_allowlist :: "string option"
  slack_user_allowlist :: "string option"
  slack_user_bot_id :: "string option"
  slack_user_app_id :: "string option"
  public_app_url :: string
  slack_receipt_reaction :: string

text \<open>The checks of the model's fields.\<close>

definition checked_settings :: "settings \<Rightarrow> error + settings" where
  "checked_settings c = (if app_env c \<in> {''production'', ''development'', ''e2e''} \<and> database_mode c \<in> {''dsql'', ''postgres''}
       \<and> cf_agent_version c \<noteq> Some 0 \<and> 0 < openappa_timeout_seconds c \<and> openappa_timeout_seconds c \<le> 30
     then Inr c else Inl (ValueError ''validation''))"

definition or_empty :: "string option \<Rightarrow> string" where
  "or_empty v = (case v of None \<Rightarrow> [] | Some s \<Rightarrow> s)"

definition or_default :: "string \<Rightarrow> string \<Rightarrow> string" where
  "or_default s d = (if s = [] then d else s)"

text \<open>The arguments of the constructor that can raise are evaluated in the order of the call.\<close>

definition load_config :: "environ \<Rightarrow> secret_store \<Rightarrow> (string \<Rightarrow> error + rat) \<Rightarrow> error + settings" where
  "load_config env S py_float =
     bind_sum (agent_version env) (\<lambda>version.
     bind_sum (py_float (getenv env ''OPENAPPA_TIMEOUT_SECONDS'' ''10'')) (\<lambda>timeout.
     bind_sum (secret env S ''WEB_ACCESS_TOKEN_SECRET_ARN'' ''WEB_ACCESS_TOKEN'') (\<lambda>access_token.
     bind_sum (secret env S ''WEB_COOKIE_SECRET_SECRET_ARN'' ''WEB_COOKIE_SECRET'') (\<lambda>cookie_secret.
     bind_sum (secret env S ''ANTHROPIC_API_KEY_SECRET_ARN'' ''ANTHROPIC_API_KEY'') (\<lambda>api_key.
     bind_sum (secret env S ''ANTHROPIC_WEBHOOK_SIGNING_KEY_SECRET_ARN'' ''ANTHROPIC_WEBHOOK_SIGNING_KEY'') (\<lambda>webhook_key.
     bind_sum (secret env S ''SLACK_SIGNING_SECRET_SECRET_ARN'' ''SLACK_SIGNING_SECRET'') (\<lambda>signing_secret.
     bind_sum (secret env S ''SLACK_BOT_TOKEN_SECRET_ARN'' ''SLACK_BOT_TOKEN'') (\<lambda>bot_token.
     checked_settings \<lparr>
       app_env = getenv env ''APP_ENV'' ''development'',
       database_mode = getenv env ''DATABASE_MODE'' ''dsql'',
       database_url = getenv env ''DATABASE_URL'' [],
       cf_app_name = getenv env ''APP_NAME'' ''claude-managed-agents-ui-eda'',
       aws_region = getenv env ''AWS_REGION'' ''us-west-2'',
       cf_agent_id = getenv env ''CLAUDE_AGENT_ID'' [],
       environment_id = getenv env ''CLAUDE_ENVIRONMENT_ID'' [],
       cf_agent_version = version,
       cma_a2a_endpoint = py_strip (getenv env ''CMA_A2A_ENDPOINT'' []),
       a2a_event_sink_url = py_strip (getenv env ''A2A_EVENT_SINK_URL'' []),
       cma_a2a_push_allowed_url = py_strip (getenv env ''CMA_A2A_PUSH_ALLOWED_URL'' []),
       cma_scheduler_queue_url = py_strip (getenv env ''CMA_SCHEDULER_QUEUE_URL'' []),
       cma_push_queue_url = py_strip (getenv env ''CMA_PUSH_QUEUE_URL'' []),
       cma_preview_queue_url = py_strip (getenv env ''CMA_PREVIEW_QUEUE_URL'' []),
       preview_enabled = flag env ''PREVIEW_ENABLED'' False,
       slack_preview_enabled = flag env ''SLACK_PREVIEW_ENABLED'' False,
       slack_preview_queue_url = py_strip (getenv env ''SLACK_PREVIEW_QUEUE_URL'' []),
       cma_pending_input_bucket = py_strip (getenv env ''CMA_PENDING_INPUT_BUCKET'' []),
       openappa_binary_path = getenv env ''OPENAPPA_BINARY_PATH'' [],
       openappa_policy_path = getenv env ''OPENAPPA_POLICY_PATH'' [],
       openappa_timeout_seconds = timeout,
       dsql_endpoint = getenv env ''DSQL_ENDPOINT'' [],
       dsql_database = getenv env ''DSQL_DATABASE'' ''postgres'',
       dsql_role = getenv env ''DSQL_ROLE'' ''app_runtime'',
       event_bus_name = getenv env ''EVENT_BUS_NAME'' ''claude-managed-agents-dev'',
       dev_principal_id = getenv env ''DEV_PRINCIPAL_ID'' ''00000000-0000-4000-8000-000000000001'',
       web_access_token = or_empty access_token,
       web_cookie_secret = or_empty cookie_secret,
       anthropic_api_key = or_empty api_key,
       anthropic_webhook_signing_key = webhook_key,
       slack_signing_secret = signing_secret,
       slack_bot_token = bot_token,
       slack_team_allowlist = getenv_opt env ''SLACK_TEAM_ID'',
       slack_user_allowlist = getenv_opt env ''SLACK_USER_ID'',
       slack_user_bot_id = getenv_opt env ''SLACK_USER_BOT_ID'',
       slack_user_app_id = getenv_opt env ''SLACK_USER_APP_ID'',
       public_app_url = rstrip_slash (getenv env ''PUBLIC_APP_URL'' []),
       slack_receipt_reaction = or_default (py_strip (getenv env ''SLACK_RECEIPT_REACTION'' ''eyes'')) ''eyes''\<rparr>))))))))"

section \<open>What follows from it\<close>

definition local_cors_origins :: "(string \<Rightarrow> bool) \<Rightarrow> settings \<Rightarrow> error + string list" where
  "local_cors_origins ip_ok c =
     (if app_env c = ''e2e'' \<and> public_app_url c \<noteq> []
      then bind_sum (urlsplit ip_ok (public_app_url c)) (\<lambda>url.
        if u_scheme url \<noteq> ''http'' \<or> url_hostname url \<notin> {Some ''127.0.0.1'', Some ''localhost''}
           \<or> u_path url \<noteq> [] \<or> u_query url \<noteq> [] \<or> u_fragment url \<noteq> [] \<or> has_credentials url
        then Inl (ValueError ''E2E frontend origin must be an HTTP loopback origin'')
        else Inr [public_app_url c])
      else Inr [''http://127.0.0.1:3000'', ''http://localhost:3000''])"

datatype db_target = Postgres string | Dsql string string string string

definition connect :: "settings \<Rightarrow> string option \<Rightarrow> error + db_target" where
  "connect c role =
     (if database_mode c = ''postgres''
      then if database_url c = [] then Inl (RuntimeError ''Missing PostgreSQL URL'') else Inr (Postgres (database_url c))
      else if dsql_endpoint c = [] then Inl (RuntimeError ''Missing DSQL endpoint'')
      else Inr (Dsql (dsql_endpoint c) (aws_region c) (if truthy role then the role else dsql_role c) (dsql_database c)))"

definition runtime_slack :: "settings \<Rightarrow> error + string" where
  "runtime_slack c = (if truthy (slack_bot_token c) then Inr (the (slack_bot_token c))
     else Inl (RuntimeError ''Slack bot token is not configured''))"

definition slack_preview_queue :: "settings \<Rightarrow> string option" where
  "slack_preview_queue c = (if preview_enabled c \<and> slack_preview_enabled c \<and> slack_preview_queue_url c \<noteq> []
     then Some (slack_preview_queue_url c) else None)"

text \<open>A configuration that loads has all its promised ranges, and no secret of the test environment outside it.\<close>

lemma load_config_valid:
  assumes "load_config env S py_float = Inr c"
  shows "app_env c \<in> {''production'', ''development'', ''e2e''}" "0 < openappa_timeout_seconds c" "openappa_timeout_seconds c \<le> 30"
    "cf_agent_version c \<noteq> Some 0" "slack_receipt_reaction c \<noteq> []"
  using assms by (auto simp: load_config_def bind_sum_Inr checked_settings_def or_default_def split: if_splits)

lemma loopback_only:
  assumes "local_cors_origins ip_ok c = Inr os" "o' \<in> set os" "urlsplit ip_ok o' = Inr p"
    and "app_env c = ''e2e''" "public_app_url c \<noteq> []"
  shows "url_hostname p \<in> {Some ''127.0.0.1'', Some ''localhost''} \<and> \<not> has_credentials p"
  using assms by (auto simp: local_cors_origins_def bind_sum_Inr split: if_splits)

definition sample_settings :: settings where
  "sample_settings = \<lparr>app_env = ''development'', database_mode = ''dsql'', database_url = [], cf_app_name = ''app'', aws_region = [],
     cf_agent_id = ''a'', environment_id = ''e'', cf_agent_version = Some 1, cma_a2a_endpoint = [], a2a_event_sink_url = [],
     cma_a2a_push_allowed_url = ''http://s/e'', cma_scheduler_queue_url = [], cma_push_queue_url = [], cma_preview_queue_url = [],
     preview_enabled = False, slack_preview_enabled = False, slack_preview_queue_url = [], cma_pending_input_bucket = [],
     openappa_binary_path = [], openappa_policy_path = [], openappa_timeout_seconds = 10, dsql_endpoint = [], dsql_database = [],
     dsql_role = [], event_bus_name = [], dev_principal_id = [], web_access_token = [], web_cookie_secret = [],
     anthropic_api_key = ''k'', anthropic_webhook_signing_key = None, slack_signing_secret = None, slack_bot_token = None,
     slack_team_allowlist = None, slack_user_allowlist = None, slack_user_bot_id = None, slack_user_app_id = None,
     public_app_url = [], slack_receipt_reaction = ''eyes''\<rparr>"

end
