(* ===== verification/Wiring.thy ===== *)
theory Wiring
  imports Configuration Push_Config Control_Plane
begin

text \<open>
  How the processes are put together: the agent registry of the application (\<^verbatim>\<open>agents/registry.py\<close>), the controller
  (\<^verbatim>\<open>cma_controller/composition.py\<close>, \<open>build_controller\<close>) and its ASGI application with the agent card it advertises
  (\<^verbatim>\<open>cma_controller/app.py\<close>). The objects are modelled by what the wiring decides about them: which kind of queue, store
  and worker there is. A trigger is its identity and its kind.
\<close>

section \<open>The registry\<close>

definition registration_error :: "(string \<Rightarrow> bool) \<Rightarrow> agent_registration \<Rightarrow> error option" where
  "registration_error ip_ok r = (case urlsplit ip_ok (ar_endpoint r) of
     Inl e \<Rightarrow> Some e
   | Inr p \<Rightarrow>
       if ar_agent_id r = [] \<or> u_scheme p \<notin> {''http'', ''https''} \<or> url_hostname p = None
       then Some (ValueError ''Agent registration requires an ID and an HTTP(S) endpoint'')
       else if has_credentials p \<or> u_fragment p \<noteq> []
       then Some (ValueError ''Agent endpoint must not contain credentials or a fragment'')
       else None)"

record agent_registry =
  reg_items :: "agent_registration list"
  default_agent_id :: "string option"

fun add_registrations :: "agent_registration list \<Rightarrow> agent_registration list \<Rightarrow> error + agent_registration list" where
  "add_registrations [] known = Inr known"
| "add_registrations (r # rs) known =
     (if ar_agent_id r \<in> ar_agent_id ` set known then Inl (ValueError (''Duplicate agent ID: '' @ ar_agent_id r))
      else add_registrations rs (known @ [r]))"

definition agent_registry_of :: "agent_registration list \<Rightarrow> string option \<Rightarrow> error + agent_registry" where
  "agent_registry_of rs default_id = bind_sum (add_registrations rs []) (\<lambda>known.
     case default_id of
       None \<Rightarrow> Inr \<lparr>reg_items = known, default_agent_id = None\<rparr>
     | Some i \<Rightarrow> if i \<notin> ar_agent_id ` set known then Inl (ValueError ''Default agent is not registered'')
                else Inr \<lparr>reg_items = known, default_agent_id = Some i\<rparr>)"

definition registry_get :: "agent_registry \<Rightarrow> string \<Rightarrow> agent_registration option" where
  "registry_get R i = find (\<lambda>r. ar_agent_id r = i) (reg_items R)"

definition registry_default :: "agent_registry \<Rightarrow> agent_registration option" where
  "registry_default R = (if truthy (default_agent_id R) then registry_get R (the (default_agent_id R)) else None)"

definition registry_from_config :: "(string \<Rightarrow> bool) \<Rightarrow> settings \<Rightarrow> error + agent_registry" where
  "registry_from_config ip_ok c =
     (let endpoint = py_strip (cma_a2a_endpoint c) in
      if endpoint = [] then agent_registry_of [] None
      else let r = \<lparr>ar_agent_id = ''cma'', ar_endpoint = endpoint, ar_required_profile = ASYNC_COPILOT_PROFILE_URI\<rparr> in
        case registration_error ip_ok r of
          Some e \<Rightarrow> Inl e
        | None \<Rightarrow> agent_registry_of [r] (Some ''cma''))"

section \<open>The controller\<close>

datatype trigger_kind = Async_local | Sqs_queue | Other_trigger

type_synonym trigger_object = "nat \<times> trigger_kind"

datatype input_store = S3_store string | File_store string | Given_store

text \<open>What a caller may pass in; \<open>None\<close> and \<open>False\<close> leave the choice to the configuration.\<close>

record wiring_args =
  given_provider :: bool
  given_store :: bool
  given_scheduler_trigger :: "trigger_object option"
  given_push_trigger :: "trigger_object option"
  given_push_http :: bool
  with_dispatcher :: bool

record composition =
  co_pending_input :: input_store
  co_scheduler_trigger :: trigger_object
  co_push_trigger :: "trigger_object option"
  co_push_config :: "string option"
  co_dispatcher :: bool
  co_preview_queue :: "string option"
  co_owns_push_http :: bool

text \<open>\<open>ManagedAgentClient(config)\<close> refuses an incomplete configuration.\<close>

definition client_error :: "settings \<Rightarrow> error option" where
  "client_error c =
     (if anthropic_api_key c = [] then Some (RuntimeError ''Missing Anthropic API key'')
      else if cf_agent_id c = [] then Some (RuntimeError ''Missing Claude agent ID'')
      else if environment_id c = [] then Some (RuntimeError ''Missing Claude environment ID'')
      else if cf_agent_version c = None \<or> cf_agent_version c = Some 0
      then Some (RuntimeError ''Missing or invalid Claude agent version; set CLAUDE_AGENT_VERSION'')
      else None)"

definition choose_scheduler_trigger :: "settings \<Rightarrow> wiring_args \<Rightarrow> trigger_object" where
  "choose_scheduler_trigger c a = (case given_scheduler_trigger a of
     Some t \<Rightarrow> t
   | None \<Rightarrow> (0, if cma_scheduler_queue_url c \<noteq> [] then Sqs_queue else Async_local))"

definition choose_push_trigger :: "settings \<Rightarrow> wiring_args \<Rightarrow> trigger_object option" where
  "choose_push_trigger c a = (case given_push_trigger a of
     Some t \<Rightarrow> Some t
   | None \<Rightarrow>
       if cma_push_queue_url c \<noteq> [] then Some (1, Sqs_queue)
       else if cma_a2a_push_allowed_url c \<noteq> [] \<and> cma_scheduler_queue_url c = [] then Some (1, Async_local)
       else None)"

definition no_push_worker :: error where
  "no_push_worker = RuntimeError ''Push callback policy requires a runnable push worker''"

definition push_wiring_error :: "settings \<Rightarrow> trigger_object option \<Rightarrow> error option" where
  "push_wiring_error c t =
     (if cma_a2a_push_allowed_url c \<noteq> [] \<and> t = None then Some no_push_worker
      else if cma_a2a_push_allowed_url c \<noteq> [] \<and> map_option snd t \<noteq> Some Async_local \<and> cma_push_queue_url c = []
      then Some no_push_worker
      else None)"

definition build_controller :: "(string \<Rightarrow> bool) \<Rightarrow> environ \<Rightarrow> settings \<Rightarrow> wiring_args \<Rightarrow> error + composition" where
  "build_controller ip_ok env c a =
     (case (if given_provider a then None else client_error c) of
        Some e \<Rightarrow> Inl e
      | None \<Rightarrow>
          let push = choose_push_trigger c a in
          (case push_wiring_error c push of
             Some e \<Rightarrow> Inl e
           | None \<Rightarrow>
               let owned = (with_dispatcher a \<and> push \<noteq> None \<and> \<not> given_push_http a) in
               bind_sum
                 (if cma_a2a_push_allowed_url c \<noteq> [] \<and> push \<noteq> None
                  then bind_sum (allowed_callback ip_ok (app_env c = ''production'') (cma_a2a_push_allowed_url c)) (\<lambda>u. Inr (Some u))
                  else Inr None) (\<lambda>callback.
               Inr \<lparr>co_pending_input = (if given_store a then Given_store
                      else if cma_pending_input_bucket c \<noteq> [] then S3_store (cma_pending_input_bucket c)
                      else File_store (getenv env ''CMA_PENDING_INPUT_DIR'' ''/tmp/cma-pending-input'')),
                    co_scheduler_trigger = choose_scheduler_trigger c a,
                    co_push_trigger = push,
                    co_push_config = callback,
                    co_dispatcher = (with_dispatcher a \<and> push \<noteq> None \<and> (owned \<or> given_push_http a)),
                    co_preview_queue = (if preview_enabled c \<and> cma_preview_queue_url c \<noteq> [] then Some (cma_preview_queue_url c) else None),
                    co_owns_push_http = owned\<rparr>)))"

section \<open>The application\<close>

definition agent_card_of :: "string \<Rightarrow> bool \<Rightarrow> agent_card" where
  "agent_card_of base_url push_enabled =
     \<lparr>ac_interfaces = [(''HTTP+JSON'', rstrip_slash base_url)], ac_streaming = True, ac_push_notifications = push_enabled,
      ac_extensions = HUMAN_INPUT_EXTENSION_URI # (if push_enabled then [ASYNC_COPILOT_PROFILE_URI] else [])\<rparr>"

text \<open>The arguments of \<open>create_app\<close>: the triggers the service and the dispatcher hold, the one passed, and the push service.\<close>

record app_args =
  aa_service_trigger :: trigger_object
  aa_service_push :: "trigger_object option"
  aa_push_trigger :: "trigger_object option"
  aa_dispatcher :: "trigger_object option option"
  aa_push_config :: "string option"
  aa_allowed_url :: string
  aa_local_scheduler :: bool

definition app_error :: "app_args \<Rightarrow> error option" where
  "app_error a =
     (if aa_allowed_url a \<noteq> [] \<and> (aa_push_trigger a = None \<or> aa_dispatcher a = None) then Some no_push_worker
      else if aa_push_trigger a \<noteq> None \<and> map_option fst (aa_service_push a) \<noteq> map_option fst (aa_push_trigger a)
      then Some (RuntimeError ''Service and push configuration must share a push trigger'')
      else if aa_dispatcher a \<noteq> None \<and> map_option fst (the (aa_dispatcher a)) \<noteq> map_option fst (aa_push_trigger a)
      then Some (RuntimeError ''Dispatcher and service must share a push trigger'')
      else if aa_allowed_url a \<noteq> [] \<and> map_option snd (aa_push_trigger a) \<notin> {Some Async_local, Some Sqs_queue}
      then Some (RuntimeError ''Push trigger has no runnable worker'')
      else if aa_allowed_url a \<noteq> [] \<and> aa_push_config a = None
      then Some (RuntimeError ''Push callback policy requires a push configuration service'')
      else None)"

definition create_app :: "app_args \<Rightarrow> string \<Rightarrow> error + agent_card" where
  "create_app a base_url = (case app_error a of
     Some e \<Rightarrow> Inl e
   | None \<Rightarrow> Inr (agent_card_of base_url (aa_allowed_url a \<noteq> [] \<and> aa_dispatcher a \<noteq> None)))"

text \<open>The start of the lifespan: which of the two local queues are started, or the error.\<close>

definition lifespan_start :: "app_args \<Rightarrow> error + bool \<times> bool" where
  "lifespan_start a =
     (if aa_local_scheduler a \<and> snd (aa_service_trigger a) \<noteq> Async_local
      then Inl (RuntimeError ''Local scheduler requires an async local trigger'')
      else if map_option snd (aa_push_trigger a) = Some Async_local \<and> aa_dispatcher a = None then Inl AssertionError
      else Inr (aa_local_scheduler a, map_option snd (aa_push_trigger a) = Some Async_local))"

definition default_wiring :: wiring_args where
  "default_wiring = \<lparr>given_provider = False, given_store = False, given_scheduler_trigger = None, given_push_trigger = None,
     given_push_http = False, with_dispatcher = True\<rparr>"

definition production_args :: "settings \<Rightarrow> composition \<Rightarrow> app_args" where
  "production_args c k = \<lparr>aa_service_trigger = co_scheduler_trigger k, aa_service_push = co_push_trigger k,
     aa_push_trigger = co_push_trigger k, aa_dispatcher = (if co_dispatcher k then Some (co_push_trigger k) else None),
     aa_push_config = co_push_config k, aa_allowed_url = cma_a2a_push_allowed_url c,
     aa_local_scheduler = (snd (co_scheduler_trigger k) = Async_local)\<rparr>"

definition controller_base_url :: "environ \<Rightarrow> string" where
  "controller_base_url env = getenv env ''CMA_A2A_BASE_URL'' (''http://127.0.0.1:'' @ getenv env ''PORT'' ''8081'')"

definition production_app :: "(string \<Rightarrow> bool) \<Rightarrow> environ \<Rightarrow> settings \<Rightarrow> error + agent_card" where
  "production_app ip_ok env c = bind_sum (build_controller ip_ok env c default_wiring) (\<lambda>k.
     create_app (production_args c k) (controller_base_url env))"

lemma build_default:
  assumes "build_controller ip_ok env c default_wiring = Inr k"
  shows "co_push_trigger k = choose_push_trigger c default_wiring" "co_dispatcher k = (co_push_trigger k \<noteq> None)"
    "cma_a2a_push_allowed_url c \<noteq> [] \<Longrightarrow> co_push_trigger k \<noteq> None \<and> co_push_config k \<noteq> None"
  using assms
  by (auto simp: build_controller_def default_wiring_def Let_def bind_sum_Inr push_wiring_error_def split: option.splits if_splits)

lemma push_trigger_kind: "choose_push_trigger c default_wiring = Some t \<Longrightarrow> snd t \<in> {Async_local, Sqs_queue}"
  by (auto simp: choose_push_trigger_def default_wiring_def split: if_splits)

text \<open>C32: A controller that starts is one the application can use, or one that says it is not. If the configuration builds at all,
  then the production application is created and starts its local queues without an error; and the application's client accepts
  its card for an endpoint that is the configured base URL, up to trailing slashes, exactly when push is configured; then there
  are a push worker, a dispatcher and the registration of callbacks behind the capability.\<close>

theorem production_app_consistent:
  assumes "build_controller ip_ok env c default_wiring = Inr k"
    and "rstrip_slash (ar_endpoint reg) = rstrip_slash (controller_base_url env)" "ar_required_profile reg = ASYNC_COPILOT_PROFILE_URI"
  shows "\<exists>crd. production_app ip_ok env c = Inr crd
    \<and> (\<exists>started. lifespan_start (production_args c k) = Inr started)
    \<and> (profile_error reg crd = None \<longleftrightarrow> cma_a2a_push_allowed_url c \<noteq> [])
    \<and> (profile_error reg crd = None \<longrightarrow> co_dispatcher k \<and> co_push_config k \<noteq> None
         \<and> (\<exists>i kind. co_push_trigger k = Some (i, kind) \<and> kind \<in> {Async_local, Sqs_queue}))"
proof -
  note built = build_default [OF assms(1)]
  have kind: "co_push_trigger k = Some t \<Longrightarrow> snd t = Async_local \<or> snd t = Sqs_queue" for t
    using built(1) push_trigger_kind [of c t] by auto
  have ok: "app_error (production_args c k) = None"
    using built kind by (cases "co_push_trigger k") (auto simp: app_error_def production_args_def)
  let ?crd = "agent_card_of (controller_base_url env) (cma_a2a_push_allowed_url c \<noteq> [])"
  have "create_app (production_args c k) (controller_base_url env) = Inr ?crd"
    using ok built(2,3) by (cases "cma_a2a_push_allowed_url c = []") (auto simp: create_app_def production_args_def)
  then have crd: "production_app ip_ok env c = Inr ?crd"
    by (simp add: production_app_def assms(1))
  have card: "profile_error reg ?crd = None \<longleftrightarrow> cma_a2a_push_allowed_url c \<noteq> []"
    using assms(2,3) by (auto simp: profile_error_def agent_card_of_def)
  have start: "\<exists>started. lifespan_start (production_args c k) = Inr started"
    using built(2) by (auto simp: lifespan_start_def production_args_def)
  have worker: "cma_a2a_push_allowed_url c \<noteq> [] \<Longrightarrow> co_dispatcher k \<and> co_push_config k \<noteq> None
      \<and> (\<exists>i kind. co_push_trigger k = Some (i, kind) \<and> kind \<in> {Async_local, Sqs_queue})"
    using built(2,3) kind by (cases "co_push_trigger k") (auto simp: split_paired_all)
  show ?thesis by (rule exI [of _ ?crd], intro conjI impI crd start card worker) (simp add: card)
qed

lemma sample_callback_url: "allowed_callback (\<lambda>_. True) False ''http://s/e'' = Inr ''http://s/e''"
  by code_simp

lemma sample_build: "\<exists>k. build_controller (\<lambda>_. True) (\<lambda>_. None) sample_settings default_wiring = Inr k"
  by (simp add: build_controller_def sample_settings_def default_wiring_def client_error_def choose_push_trigger_def
      push_wiring_error_def sample_callback_url)

lemma production_app_consistent_witness:
  "\<exists>crd. production_app (\<lambda>_. True) (\<lambda>_. None) sample_settings = Inr crd
     \<and> profile_error \<lparr>ar_agent_id = ''cma'', ar_endpoint = ''http://127.0.0.1:8081/'', ar_required_profile = ASYNC_COPILOT_PROFILE_URI\<rparr> crd = None"
proof -
  from sample_build obtain k where k: "build_controller (\<lambda>_. True) (\<lambda>_. None) sample_settings default_wiring = Inr k" ..
  from production_app_consistent [OF k, of "\<lparr>ar_agent_id = ''cma'', ar_endpoint = ''http://127.0.0.1:8081/'', ar_required_profile = ASYNC_COPILOT_PROFILE_URI\<rparr>"]
  show ?thesis by (auto simp: controller_base_url_def getenv_def rstrip_slash_def sample_settings_def)
qed

end
