(* ===== verification/Provider_Client.thy ===== *)
theory Provider_Client
  imports Py_Json Schema Configuration
begin

text \<open>
  \<^verbatim>\<open>managed_agent/client.py\<close> (class \<open>ManagedAgentClient\<close>), \<^verbatim>\<open>managed_agent/events.py\<close> and \<^verbatim>\<open>models.py\<close>: the calls of the Claude
  SDK that the provider adapter makes, with the requests it builds and the answers it decodes. The SDK is a
  parameter; a value it returns is what \<open>model_dump\<close> makes of it. \<open>anthropic_sdk\<close> is the SDK interface of the
  controller's model, made of this client.
\<close>

section \<open>The SDK\<close>

record 'p raw_sdk =
  raw_create :: "json \<Rightarrow> 'p \<Rightarrow> (sdk_error + json) \<times> 'p"
  raw_retrieve :: "string \<Rightarrow> 'p \<Rightarrow> (sdk_error + json) \<times> 'p"
  raw_list_sessions :: "string \<Rightarrow> 'p \<Rightarrow> (sdk_error + json list) \<times> 'p"
  raw_list_events :: "string \<Rightarrow> 'p \<Rightarrow> (sdk_error + json list) \<times> 'p"
  raw_send_events :: "string \<Rightarrow> json list \<Rightarrow> 'p \<Rightarrow> (sdk_error + json) \<times> 'p"
  raw_archive :: "string \<Rightarrow> 'p \<Rightarrow> (sdk_error + json) \<times> 'p"
  raw_update_title :: "string \<Rightarrow> string \<Rightarrow> 'p \<Rightarrow> (sdk_error + json) \<times> 'p"
  text_of :: "json \<Rightarrow> string"

text \<open>An exception that Python itself raises while the answer is read has no status code.\<close>

fun python_error :: "error \<Rightarrow> sdk_error" where
  "python_error (KeyError _) = Sdk_error None ''KeyError''"
| "python_error (TypeError _) = Sdk_error None ''TypeError''"
| "python_error (AttributeError _) = Sdk_error None ''AttributeError''"
| "python_error (ValueError _) = Sdk_error None ''ValidationError''"
| "python_error _ = Sdk_error None ''Exception''"

definition read_answer :: "('p \<Rightarrow> (sdk_error + 'a) \<times> 'p) \<Rightarrow> ('a \<Rightarrow> error + 'b) \<Rightarrow> 'p \<Rightarrow> (sdk_error + 'b) \<times> 'p" where
  "read_answer m f p = (case m p of
     (Inl e, p') \<Rightarrow> (Inl e, p')
   | (Inr v, p') \<Rightarrow> (case f v of Inl e \<Rightarrow> (Inl (python_error e), p') | Inr x \<Rightarrow> (Inr x, p')))"

definition model_dict :: "json \<Rightarrow> error + (string \<times> json) list" where
  "model_dict v = (case v of JObj kvs \<Rightarrow> Inr kvs | _ \<Rightarrow> Inl (TypeError ''Unsupported SDK response type''))"

fun all_ok :: "('a \<Rightarrow> error + 'b) \<Rightarrow> 'a list \<Rightarrow> error + 'b list" where
  "all_ok f [] = Inr []"
| "all_ok f (x # xs) = bind_sum (f x) (\<lambda>y. bind_sum (all_ok f xs) (\<lambda>ys. Inr (y # ys)))"

section \<open>Sessions\<close>

record session_summary =
  ss_id :: string
  ss_title :: "string option"
  ss_status :: string
  ss_created_at :: string
  ss_archived_at :: "string option"
  ss_environment_id :: string
  ss_metadata :: "(string \<times> string) list"

definition as_text :: "'p raw_sdk \<Rightarrow> json \<Rightarrow> string" where
  "as_text A v = (case v of JStr s \<Rightarrow> s | _ \<Rightarrow> text_of A v)"

definition item :: "(string \<times> json) list \<Rightarrow> string \<Rightarrow> error + json" where
  "item kvs k = (case map_of kvs k of None \<Rightarrow> Inl (KeyError k) | Some v \<Rightarrow> Inr v)"

definition session_metadata :: "'p raw_sdk \<Rightarrow> (string \<times> json) list \<Rightarrow> error + (string \<times> string) list" where
  "session_metadata A kvs = (case py_or (dict_get kvs ''metadata'') (JObj []) of
     JObj m \<Rightarrow> Inr (map (\<lambda>(k, v). (k, as_text A v)) m)
   | _ \<Rightarrow> Inl (AttributeError ''items''))"

definition session_of :: "'p raw_sdk \<Rightarrow> json \<Rightarrow> error + session_summary" where
  "session_of A raw =
     bind_sum (model_dict raw) (\<lambda>kvs.
     bind_sum (item kvs ''id'') (\<lambda>i.
     bind_sum (item kvs ''status'') (\<lambda>status.
     bind_sum (item kvs ''created_at'') (\<lambda>created.
     bind_sum (item kvs ''environment_id'') (\<lambda>environment.
     bind_sum (session_metadata A kvs) (\<lambda>metadata.
     bind_sum (opt_str_field (dict_get kvs ''title'')) (\<lambda>title.
     let archived = dict_get kvs ''archived_at'' in
     Inr \<lparr>ss_id = as_text A i, ss_title = title, ss_status = as_text A status, ss_created_at = as_text A created,
       ss_archived_at = (if py_true archived then Some (as_text A archived) else None),
       ss_environment_id = as_text A environment, ss_metadata = metadata\<rparr>)))))))"

definition agent_ref :: "settings \<Rightarrow> json" where
  "agent_ref c = JObj [(''type'', JStr ''agent''), (''id'', JStr (cf_agent_id c)), (''version'', JNum (int (the (cf_agent_version c))))]"

definition text_event :: "string \<Rightarrow> string \<Rightarrow> json" where
  "text_event ty text = JObj [(''type'', JStr ty),
     (''content'', JArr [JObj [(''type'', JStr ''text''), (''text'', JStr text)]])]"

definition create_params :: "settings \<Rightarrow> string \<Rightarrow> string \<Rightarrow> string \<Rightarrow> string option \<Rightarrow> string option \<Rightarrow> string option \<Rightarrow> json" where
  "create_params c owner surface request_id title initial_text system_context =
     JObj ([(''agent'', agent_ref c), (''environment_id'', JStr (environment_id c)),
       (''title'', JStr (if truthy title then the title else ''New chat'')),
       (''metadata'', JObj [(''application'', JStr (cf_app_name c)), (''owner_id'', JStr owner),
          (''surface'', JStr surface), (''creation_request_id'', JStr request_id)])]
     @ (if truthy initial_text
        then [(''initial_events'', JArr [text_event ''user.message''
          (if truthy system_context
           then the system_context @ [CHR 0x0A, CHR 0x0A] @ ''User request:'' @ [CHR 0x0A] @ the initial_text
           else the initial_text)])]
        else []))"

definition client_create_session :: "'p raw_sdk \<Rightarrow> settings \<Rightarrow> string \<Rightarrow> string \<Rightarrow> string \<Rightarrow> string option \<Rightarrow> string option
    \<Rightarrow> string option \<Rightarrow> 'p \<Rightarrow> (sdk_error + session_summary) \<times> 'p" where
  "client_create_session A c owner surface request_id title initial_text system_context =
     read_answer (raw_create A (create_params c owner surface request_id title initial_text system_context)) (session_of A)"

definition controller_metadata :: "settings \<Rightarrow> string \<Rightarrow> string \<Rightarrow> (string \<times> string) list" where
  "controller_metadata c cid mid = [(''application'', cf_app_name c), (''controller'', ''a2a-cma''),
     (''a2a_context_id'', cid), (''a2a_creation_message_id'', mid)]"

definition controller_params :: "settings \<Rightarrow> string \<Rightarrow> string \<Rightarrow> string \<Rightarrow> json" where
  "controller_params c cid mid text = JObj [(''agent'', agent_ref c), (''environment_id'', JStr (environment_id c)),
     (''title'', JStr ''A2A conversation''), (''metadata'', JObj (map (\<lambda>(k, v). (k, JStr v)) (controller_metadata c cid mid))),
     (''initial_events'', JArr [text_event ''user.message'' text])]"

definition create_controller_session :: "'p raw_sdk \<Rightarrow> settings \<Rightarrow> string \<Rightarrow> string \<Rightarrow> string
    \<Rightarrow> 'p \<Rightarrow> (sdk_error + session_summary) \<times> 'p" where
  "create_controller_session A c cid mid text = read_answer (raw_create A (controller_params c cid mid text)) (session_of A)"

definition list_sessions :: "'p raw_sdk \<Rightarrow> settings \<Rightarrow> 'p \<Rightarrow> (sdk_error + session_summary list) \<times> 'p" where
  "list_sessions A c = read_answer (raw_list_sessions A (cf_agent_id c)) (all_ok (session_of A))"

definition controller_session :: "string \<Rightarrow> string \<Rightarrow> session_summary \<Rightarrow> bool" where
  "controller_session cid mid s = (map_of (ss_metadata s) ''controller'' = Some ''a2a-cma''
     \<and> map_of (ss_metadata s) ''a2a_context_id'' = Some cid
     \<and> map_of (ss_metadata s) ''a2a_creation_message_id'' = Some mid)"

definition find_controller_session :: "'p raw_sdk \<Rightarrow> settings \<Rightarrow> string \<Rightarrow> string
    \<Rightarrow> 'p \<Rightarrow> (sdk_error + session_summary option) \<times> 'p" where
  "find_controller_session A c cid mid = read_answer (list_sessions A c) (\<lambda>ss. Inr (find (controller_session cid mid) ss))"

definition find_by_creation_request_id :: "'p raw_sdk \<Rightarrow> settings \<Rightarrow> string
    \<Rightarrow> 'p \<Rightarrow> (sdk_error + session_summary option) \<times> 'p" where
  "find_by_creation_request_id A c request_id = read_answer (list_sessions A c)
     (\<lambda>ss. Inr (find (\<lambda>s. map_of (ss_metadata s) ''creation_request_id'' = Some request_id) ss))"

definition retrieve_session :: "'p raw_sdk \<Rightarrow> string \<Rightarrow> 'p \<Rightarrow> (sdk_error + session_summary) \<times> 'p" where
  "retrieve_session A sid = read_answer (raw_retrieve A sid) (session_of A)"

section \<open>Events\<close>

definition client_list_events :: "'p raw_sdk \<Rightarrow> string \<Rightarrow> 'p \<Rightarrow> (sdk_error + (string \<times> json) list list) \<times> 'p" where
  "client_list_events A sid = read_answer (raw_list_events A sid) (all_ok model_dict)"

text \<open>The identifier of the first event that was accepted, if the answer has one.\<close>

definition accepted_id :: "'p raw_sdk \<Rightarrow> json \<Rightarrow> error + string option" where
  "accepted_id A answer = bind_sum (model_dict answer) (\<lambda>kvs.
     let data = py_or (dict_get kvs ''data'') (JArr []) in
     if \<not> py_true data then Inr None
     else bind_sum (first_item data) (\<lambda>d.
       bind_sum (as_dict d) (\<lambda>fields.
       Inr (if py_true (dict_get fields ''id'') then Some (as_text A (dict_get fields ''id'')) else None))))"

definition client_send_message :: "'p raw_sdk \<Rightarrow> string \<Rightarrow> string \<Rightarrow> string option
    \<Rightarrow> 'p \<Rightarrow> (sdk_error + string option) \<times> 'p" where
  "client_send_message A sid text system_context =
     read_answer (raw_send_events A sid
       ((if truthy system_context then [text_event ''system.message'' (the system_context)] else [])
        @ [text_event ''user.message'' text])) (accepted_id A)"

definition confirmation_event :: "string \<Rightarrow> bool \<Rightarrow> string option \<Rightarrow> json" where
  "confirmation_event tool_use_id approved reason = JObj ([(''type'', JStr ''user.tool_confirmation''),
     (''tool_use_id'', JStr tool_use_id), (''result'', JStr (if approved then ''allow'' else ''deny''))]
     @ (if \<not> approved \<and> truthy reason then [(''deny_message'', JStr (the reason))] else []))"

definition client_confirm_tool :: "'p raw_sdk \<Rightarrow> string \<Rightarrow> string \<Rightarrow> bool \<Rightarrow> string option \<Rightarrow> 'p \<Rightarrow> (sdk_error + unit) \<times> 'p" where
  "client_confirm_tool A sid tool_use_id approved reason =
     read_answer (raw_send_events A sid [confirmation_event tool_use_id approved reason]) (\<lambda>_. Inr ())"

definition tool_result_event :: "string \<Rightarrow> string \<Rightarrow> bool \<Rightarrow> json" where
  "tool_result_event tool_use_id answer is_error = JObj [(''type'', JStr ''user.custom_tool_result''),
     (''custom_tool_use_id'', JStr tool_use_id),
     (''content'', JArr [JObj [(''type'', JStr ''text''), (''text'', JStr answer)]]), (''is_error'', JBool is_error)]"

definition client_custom_tool_result :: "'p raw_sdk \<Rightarrow> string \<Rightarrow> string \<Rightarrow> string \<Rightarrow> bool \<Rightarrow> 'p \<Rightarrow> (sdk_error + unit) \<times> 'p" where
  "client_custom_tool_result A sid tool_use_id answer is_error =
     read_answer (raw_send_events A sid [tool_result_event tool_use_id answer is_error]) (\<lambda>_. Inr ())"

definition client_interrupt :: "'p raw_sdk \<Rightarrow> string \<Rightarrow> 'p \<Rightarrow> (sdk_error + unit) \<times> 'p" where
  "client_interrupt A sid = read_answer (raw_send_events A sid [JObj [(''type'', JStr ''user.interrupt'')]]) (\<lambda>_. Inr ())"

definition client_archive :: "'p raw_sdk \<Rightarrow> string \<Rightarrow> 'p \<Rightarrow> (sdk_error + unit) \<times> 'p" where
  "client_archive A sid = read_answer (raw_archive A sid) (\<lambda>_. Inr ())"

definition client_update_title :: "'p raw_sdk \<Rightarrow> string \<Rightarrow> string \<Rightarrow> 'p \<Rightarrow> (sdk_error + unit) \<times> 'p" where
  "client_update_title A sid title = read_answer (raw_update_title A sid (take 60 title)) (\<lambda>_. Inr ())"

text \<open>The tools that the most recent idle event waits for.\<close>

definition idle_event :: "cma_event \<Rightarrow> bool" where
  "idle_event e = (e_type e \<in> {Some ''session.status_idle'', Some ''session.thread_status_idle''})"

definition pending_tool_ids :: "cma_event list \<Rightarrow> string set" where
  "pending_tool_ids events = (case find idle_event (rev events) of
     None \<Rightarrow> {}
   | Some e \<Rightarrow> if stop_type e \<noteq> Some ''requires_action'' then {} else set (stop_event_ids e))"

definition tool_is_pending :: "cma_event list \<Rightarrow> string \<Rightarrow> bool" where
  "tool_is_pending events tool_use_id = (tool_use_id \<in> pending_tool_ids events)"

section \<open>The SDK of the controller\<close>

text \<open>\<open>event_of\<close> reads the keys of an event dictionary that the controller looks at.\<close>

definition anthropic_sdk :: "'p raw_sdk \<Rightarrow> settings \<Rightarrow> ((string \<times> json) list \<Rightarrow> cma_event) \<Rightarrow> 'p sdk" where
  "anthropic_sdk A c event_of = \<lparr>
     sdk_create_session = (\<lambda>cid mid text. read_answer (create_controller_session A c cid mid text) (\<lambda>s. Inr (ss_id s))),
     sdk_find_session = (\<lambda>cid mid. read_answer (find_controller_session A c cid mid) (\<lambda>s. Inr (map_option ss_id s))),
     sdk_list_events = (\<lambda>sid. read_answer (client_list_events A sid) (\<lambda>es. Inr (map event_of es))),
     sdk_send_message = (\<lambda>sid text. client_send_message A sid text None),
     sdk_confirm_tool = client_confirm_tool A,
     sdk_custom_tool_result = client_custom_tool_result A,
     sdk_interrupt = client_interrupt A\<rparr>"

section \<open>A created session is found again\<close>

lemma read_answer_Inr: "read_answer m f p = (Inr x, q) \<longleftrightarrow> (\<exists>v. m p = (Inr v, q) \<and> f v = Inr x)"
  by (auto simp: read_answer_def split: prod.splits sum.splits)

lemma all_ok_Inr: "all_ok f xs = Inr ys \<longleftrightarrow> list_all2 (\<lambda>x y. f x = Inr y) xs ys"
  by (induction xs arbitrary: ys) (auto simp: bind_sum_Inr list_all2_Cons1)

lemma all_ok_total:
  assumes "\<And>x. x \<in> set xs \<Longrightarrow> \<exists>y. f x = Inr y"
  shows "\<exists>ys. all_ok f xs = Inr ys"
  using assms by (induction xs) fastforce+

text \<open>
  What the service documents: after a successful creation the sessions of the agent can be listed, each in the documented form, the new one among them,
  and it carries the metadata of the request.
\<close>

definition lists_created :: "'p raw_sdk \<Rightarrow> settings \<Rightarrow> (string \<times> json) list \<Rightarrow> 'p \<Rightarrow> bool" where
  "lists_created A c params p = (\<forall>v q. raw_create A (JObj params) p = (Inr v, q) \<longrightarrow>
     (\<exists>kvs vs q'. v = JObj kvs \<and> map_of kvs ''metadata'' = map_of params ''metadata''
        \<and> raw_list_sessions A (cf_agent_id c) q = (Inr vs, q') \<and> v \<in> set vs
        \<and> (\<forall>x \<in> set vs. \<exists>s. session_of A x = Inr s)))"

text \<open>No other session of the agent was created for the same context and message.\<close>

definition session_unique :: "'p raw_sdk \<Rightarrow> settings \<Rightarrow> string \<Rightarrow> string \<Rightarrow> string \<Rightarrow> 'p \<Rightarrow> bool" where
  "session_unique A c cid mid sid q = (case fst (list_sessions A c q) of
     Inr ss \<Rightarrow> list_all (\<lambda>s. controller_session cid mid s \<longrightarrow> ss_id s = sid) ss
   | Inl _ \<Rightarrow> False)"

lemma controller_metadata_read:
  assumes "session_of A (JObj kvs) = Inr s"
    and "map_of kvs ''metadata'' = Some (JObj (map (\<lambda>(k, v). (k, JStr v)) (controller_metadata c cid mid)))"
  shows "controller_session cid mid s"
proof -
  have m: "session_metadata A kvs = Inr (controller_metadata c cid mid)"
    using assms(2) by (simp add: session_metadata_def dict_get_def py_or_def py_true_def as_text_def controller_metadata_def)
  from assms(1) have "ss_metadata s = controller_metadata c cid mid"
    by (auto simp: session_of_def model_dict_def bind_sum_Inr m Let_def)
  then show ?thesis by (simp add: controller_session_def controller_metadata_def)
qed

lemma created_session_listed:
  assumes "create_controller_session A c cid mid text p = (Inr s, q)"
    and "lists_created A c the_params p" "controller_params c cid mid text = JObj the_params"
  shows "\<exists>ss q'. list_sessions A c q = (Inr ss, q') \<and> s \<in> set ss \<and> controller_session cid mid s"
proof -
  from assms(1) obtain v where v: "raw_create A (JObj the_params) p = (Inr v, q)" "session_of A v = Inr s"
    by (auto simp: create_controller_session_def read_answer_Inr assms(3))
  with assms(2) obtain kvs vs q' where l: "v = JObj kvs" "map_of kvs ''metadata'' = map_of the_params ''metadata''"
    "raw_list_sessions A (cf_agent_id c) q = (Inr vs, q')" "v \<in> set vs" "\<And>x. x \<in> set vs \<Longrightarrow> \<exists>s. session_of A x = Inr s"
    unfolding lists_created_def by metis
  obtain ss where ss: "all_ok (session_of A) vs = Inr ss" using all_ok_total [of vs "session_of A"] l(5) by blast
  then have "s \<in> set ss" using l(4) v(2) by (auto simp: all_ok_Inr list_all2_conv_all_nth in_set_conv_nth)
  moreover have "controller_session cid mid s"
    using v(2) l(1,2) assms(3) by (intro controller_metadata_read [of A kvs s c]) (auto simp: controller_params_def)
  ultimately show ?thesis using l(3) ss by (auto simp: list_sessions_def read_answer_def)
qed

text \<open>The request of \<open>create_controller_session\<close> as its keyword arguments.\<close>

definition controller_arguments :: "settings \<Rightarrow> string \<Rightarrow> string \<Rightarrow> string \<Rightarrow> (string \<times> json) list" where
  "controller_arguments c cid mid text = (case controller_params c cid mid text of JObj kvs \<Rightarrow> kvs | _ \<Rightarrow> [])"

lemma created_session_found:
  assumes "sdk_create_session (anthropic_sdk A c ev) cid mid text p = (Inr sid, q)"
    and "lists_created A c (controller_arguments c cid mid text) p"
  shows "\<exists>found r. sdk_find_session (anthropic_sdk A c ev) cid mid q = (Inr (Some found), r)
      \<and> (session_unique A c cid mid sid q \<longrightarrow> found = sid)"
proof -
  from assms(1) obtain s where s: "create_controller_session A c cid mid text p = (Inr s, q)" "sid = ss_id s"
    by (auto simp: anthropic_sdk_def read_answer_Inr)
  have "controller_params c cid mid text = JObj (controller_arguments c cid mid text)"
    by (simp add: controller_arguments_def controller_params_def)
  from created_session_listed [OF s(1) assms(2) this] obtain ss r where l: "list_sessions A c q = (Inr ss, r)"
    "s \<in> set ss" "controller_session cid mid s" by blast
  then obtain t where t: "find (controller_session cid mid) ss = Some t"
    by (cases "find (controller_session cid mid) ss") (auto simp: find_None_iff)
  from find_SomeD [OF this] have "t \<in> set ss" "controller_session cid mid t" by auto
  then have "session_unique A c cid mid sid q \<Longrightarrow> ss_id t = sid"
    using l(1) by (auto simp: session_unique_def list_all_iff)
  moreover have "sdk_find_session (anthropic_sdk A c ev) cid mid q = (Inr (Some (ss_id t)), r)"
    using l(1) t by (simp add: anthropic_sdk_def read_answer_def find_controller_session_def)
  ultimately show ?thesis by blast
qed


definition sample_raw :: "json list raw_sdk" where
  "sample_raw = \<lparr>raw_create = (\<lambda>params p. let v = JObj [(''id'', JStr ''s1''), (''status'', JStr ''idle''), (''created_at'', JStr ''now''),
         (''environment_id'', JStr ''e''), (''metadata'', (case params of JObj kvs \<Rightarrow> dict_get kvs ''metadata'' | _ \<Rightarrow> JNull))] in (Inr v, [v])),
     raw_retrieve = (\<lambda>_ p. (Inr (hd p), p)), raw_list_sessions = (\<lambda>_ p. (Inr p, p)), raw_list_events = (\<lambda>_ p. (Inr [], p)),
     raw_send_events = (\<lambda>_ _ p. (Inr (JObj []), p)), raw_archive = (\<lambda>_ p. (Inr (JObj []), p)),
     raw_update_title = (\<lambda>_ _ p. (Inr (JObj []), p)), text_of = (\<lambda>_. [])\<rparr>"


end
