(* ===== verification/Slack_Client.thy ===== *)
theory Slack_Client
  imports Py_Json App_Ports
begin

text \<open>
  \<^verbatim>\<open>slack/client.py\<close> (class \<open>SlackClient\<close>): the calls of the Slack Web API behind the gateway of the application, and the optional start hints of
  \<^verbatim>\<open>slack/preview.py\<close> and \<^verbatim>\<open>cma_controller/preview.py\<close>. The Web client is a parameter: a method name and its arguments give a response or an exception,
  which for \<open>SlackApiError\<close> carries a response too. An argument of \<open>None\<close> is \<open>JNull\<close>.
\<close>

section \<open>The Web API\<close>

datatype slack_raised = Api_error "(string \<times> json) list" | Call_failed error

record 'q web_client =
  web_call :: "string \<Rightarrow> (string \<times> json) list \<Rightarrow> 'q \<Rightarrow> (slack_raised + (string \<times> json) list) \<times> 'q"
  slack_text :: "json \<Rightarrow> string"

definition slack_str :: "'q web_client \<Rightarrow> json \<Rightarrow> string" where
  "slack_str W v = (case v of JStr s \<Rightarrow> s | _ \<Rightarrow> slack_text W v)"

text \<open>An exception leaves the client as it is; of an API error only the type is of interest outside.\<close>

fun raised_error :: "slack_raised \<Rightarrow> error" where
  "raised_error (Api_error _) = ExternalError ''SlackApiError''"
| "raised_error (Call_failed e) = e"

definition require :: "'q web_client \<Rightarrow> string \<Rightarrow> (string \<times> json) list \<Rightarrow> error + (string \<times> json) list" where
  "require W operation response = (if py_true (dict_get response ''ok'') then Inr response
     else Inl (RuntimeError (''Slack '' @ operation @ '' failed: '' @
       (case map_of response ''error'' of None \<Rightarrow> ''unknown error'' | Some e \<Rightarrow> slack_str W e))))"

definition web_request :: "'q web_client \<Rightarrow> string \<Rightarrow> string \<Rightarrow> (string \<times> json) list \<Rightarrow> ((string \<times> json) list \<Rightarrow> error + 'a)
    \<Rightarrow> 'q \<Rightarrow> (error + 'a) \<times> 'q" where
  "web_request W method operation args finish q = (case web_call W method args q of
     (Inl e, q') \<Rightarrow> (Inl (raised_error e), q')
   | (Inr response, q') \<Rightarrow> (bind_sum (require W operation response) finish, q'))"

definition no_result :: "(string \<times> json) list \<Rightarrow> error + unit" where
  "no_result _ = Inr ()"

text \<open>The timestamp that names a posted message or a stream.\<close>

definition timestamp_of :: "'q web_client \<Rightarrow> string \<Rightarrow> (string \<times> json) list \<Rightarrow> error + string" where
  "timestamp_of W operation response = (if py_true (dict_get response ''ts'') then Inr (slack_str W (dict_get response ''ts''))
     else Inl (RuntimeError (''Slack '' @ operation @ '' returned no timestamp'')))"

definition opt_json :: "('a \<Rightarrow> json) \<Rightarrow> 'a option \<Rightarrow> json" where
  "opt_json f x = (case x of None \<Rightarrow> JNull | Some v \<Rightarrow> f v)"

section \<open>The methods\<close>

definition auth_test :: "'q web_client \<Rightarrow> 'q \<Rightarrow> (error + (string \<times> string) list) \<times> 'q" where
  "auth_test W = web_request W ''auth_test'' ''auth.test'' [] (\<lambda>response.
     Inr (List.map_filter (\<lambda>(key, source). if py_true (dict_get response source)
        then Some (key, slack_str W (dict_get response source)) else None)
       [(''team_id'', ''team_id''), (''bot_user_id'', ''user_id'')]))"

definition post_reply :: "'q web_client \<Rightarrow> string \<Rightarrow> string \<Rightarrow> string \<Rightarrow> json list option \<Rightarrow> 'q \<Rightarrow> (error + string) \<times> 'q" where
  "post_reply W channel thread_ts text blocks = web_request W ''chat_postMessage'' ''chat.postMessage''
     [(''channel'', JStr channel), (''thread_ts'', JStr thread_ts), (''text'', JStr text), (''blocks'', opt_json JArr blocks),
      (''unfurl_links'', JBool False), (''unfurl_media'', JBool False)]
     (timestamp_of W ''chat.postMessage'')"

definition update_message :: "'q web_client \<Rightarrow> string \<Rightarrow> string \<Rightarrow> string \<Rightarrow> json list option \<Rightarrow> 'q \<Rightarrow> (error + unit) \<times> 'q" where
  "update_message W channel ts text blocks = web_request W ''chat_update'' ''chat.update''
     [(''channel'', JStr channel), (''ts'', JStr ts), (''text'', JStr text), (''blocks'', opt_json JArr blocks)] no_result"

definition set_agent_status :: "'q web_client \<Rightarrow> string \<Rightarrow> string \<Rightarrow> string \<Rightarrow> string option \<Rightarrow> string option
    \<Rightarrow> 'q \<Rightarrow> (error + unit) \<times> 'q" where
  "set_agent_status W channel thread_ts status title initiator = web_request W ''agents_sessions_setStatus'' ''agents.sessions.setStatus''
     [(''channel_id'', JStr channel), (''thread_ts'', JStr thread_ts), (''status'', JStr status),
      (''title'', opt_json JStr title), (''initiator_user_id'', opt_json JStr initiator)] no_result"

definition rename_agent_session :: "'q web_client \<Rightarrow> string \<Rightarrow> string \<Rightarrow> string \<Rightarrow> 'q \<Rightarrow> (error + unit) \<times> 'q" where
  "rename_agent_session W channel thread_ts title = web_request W ''agents_sessions_rename'' ''agents.sessions.rename''
     [(''channel_id'', JStr channel), (''thread_ts'', JStr thread_ts), (''title'', JStr (take 200 title))] no_result"

definition start_stream :: "'q web_client \<Rightarrow> string \<Rightarrow> string \<Rightarrow> string \<Rightarrow> string \<Rightarrow> string \<Rightarrow> json list option \<Rightarrow> string option
    \<Rightarrow> 'q \<Rightarrow> (error + string) \<times> 'q" where
  "start_stream W channel thread_ts team user initial_text chunks display_mode =
     (let has_chunks = (chunks \<noteq> None \<and> chunks \<noteq> Some []) in
      if (initial_text \<noteq> []) = has_chunks
      then (\<lambda>q. (Inl (ValueError ''Slack streams require exactly one of initial_text or chunks''), q))
      else web_request W ''chat_startStream'' ''chat.startStream''
        ([(''channel'', JStr channel), (''thread_ts'', JStr thread_ts), (''recipient_team_id'', JStr team), (''recipient_user_id'', JStr user)]
         @ (if initial_text \<noteq> [] then [(''markdown_text'', JStr initial_text)]
            else (''chunks'', opt_json JArr chunks) # (if truthy display_mode then [(''task_display_mode'', JStr (the display_mode))] else [])))
        (timestamp_of W ''chat.startStream''))"

definition append_stream :: "'q web_client \<Rightarrow> string \<Rightarrow> string \<Rightarrow> string \<Rightarrow> 'q \<Rightarrow> (error + unit) \<times> 'q" where
  "append_stream W channel ts text = web_request W ''chat_appendStream'' ''chat.appendStream''
     [(''channel'', JStr channel), (''ts'', JStr ts), (''markdown_text'', JStr text)] no_result"

definition append_stream_chunks :: "'q web_client \<Rightarrow> string \<Rightarrow> string \<Rightarrow> json list \<Rightarrow> 'q \<Rightarrow> (error + unit) \<times> 'q" where
  "append_stream_chunks W channel ts chunks =
     (if chunks = [] then (\<lambda>q. (Inl (ValueError ''Slack stream chunks cannot be empty''), q))
      else web_request W ''chat_appendStream'' ''chat.appendStream''
        [(''channel'', JStr channel), (''ts'', JStr ts), (''chunks'', JArr chunks)] no_result)"

text \<open>
  \<open>stop_stream\<close> and \<open>add_reaction\<close> take one answer for success, whether it comes as a response or as an exception:
  the stream was stopped already, the reaction is there already.
\<close>

definition tolerate :: "'q web_client \<Rightarrow> string \<Rightarrow> string \<Rightarrow> string \<Rightarrow> (string \<times> json) list \<Rightarrow> ((string \<times> json) list \<Rightarrow> bool)
    \<Rightarrow> 'q \<Rightarrow> (error + unit) \<times> 'q" where
  "tolerate W method operation benign args accept q = (case web_call W method args q of
     (Inl (Api_error response), q') \<Rightarrow>
       (if dict_get response ''error'' = JStr benign then Inr () else Inl (raised_error (Api_error response)), q')
   | (Inl (Call_failed e), q') \<Rightarrow> (Inl e, q')
   | (Inr response, q') \<Rightarrow> (if accept response then Inr () else bind_sum (require W operation response) no_result, q'))"

definition stop_stream :: "'q web_client \<Rightarrow> string \<Rightarrow> string \<Rightarrow> string option \<Rightarrow> json list option \<Rightarrow> json list option \<Rightarrow> string
    \<Rightarrow> 'q \<Rightarrow> (error + unit) \<times> 'q" where
  "stop_stream W channel ts text chunks blocks status =
     (if text \<noteq> None \<and> chunks \<noteq> None then (\<lambda>q. (Inl (ValueError ''Slack stream stop cannot mix text and chunks''), q))
      else tolerate W ''chat_stopStream'' ''chat.stopStream'' ''message_not_in_streaming_state''
        ([(''channel'', JStr channel), (''ts'', JStr ts), (''blocks'', opt_json JArr blocks), (''session_status'', JStr status)]
         @ (case text of None \<Rightarrow> [] | Some t \<Rightarrow> [(''markdown_text'', JStr t)])
         @ (case chunks of None \<Rightarrow> [] | Some c \<Rightarrow> [(''chunks'', JArr c)]))
        (\<lambda>response. dict_get response ''error'' = JStr ''message_not_in_streaming_state''))"

definition message_permalink :: "'q web_client \<Rightarrow> string \<Rightarrow> string \<Rightarrow> 'q \<Rightarrow> (error + string) \<times> 'q" where
  "message_permalink W channel ts = web_request W ''chat_getPermalink'' ''chat.getPermalink''
     [(''channel'', JStr channel), (''message_ts'', JStr ts)] (\<lambda>response.
     let permalink = dict_get response ''permalink'' in
     if py_true permalink then Inr (slack_str W permalink)
     else Inl (RuntimeError ''Slack chat.getPermalink returned no permalink''))"

definition add_reaction :: "'q web_client \<Rightarrow> string \<Rightarrow> string \<Rightarrow> string \<Rightarrow> 'q \<Rightarrow> (error + unit) \<times> 'q" where
  "add_reaction W channel ts name = tolerate W ''reactions_add'' ''reactions.add'' ''already_reacted''
     [(''channel'', JStr channel), (''timestamp'', JStr ts), (''name'', JStr name)]
     (\<lambda>response. \<not> py_true (dict_get response ''ok'') \<and> dict_get response ''error'' = JStr ''already_reacted'')"

section \<open>The gateway\<close>

fun status_name :: "slack_status \<Rightarrow> string" where
  "status_name Suspended = ''suspended''"
| "status_name Processing = ''processing''"
| "status_name Active = ''active''"

text \<open>The gateway of the application's model, with the arguments its workers pass.\<close>

definition slack_client_gateway :: "'q web_client \<Rightarrow> 'q slack_gateway" where
  "slack_client_gateway W = \<lparr>
     gw_post_reply = post_reply W,
     gw_update_message = (\<lambda>channel ts text blocks. update_message W channel ts text (Some blocks)),
     gw_set_agent_status = (\<lambda>channel thread_ts status. set_agent_status W channel thread_ts (status_name status)),
     gw_start_stream = (\<lambda>channel thread_ts team user chunks. start_stream W channel thread_ts team user [] (Some chunks) (Some ''timeline'')),
     gw_append_chunks = append_stream_chunks W,
     gw_stop_stream = (\<lambda>channel ts chunks status. stop_stream W channel ts None (Some chunks) None (status_name status)),
     gw_permalink = message_permalink W,
     gw_add_reaction = add_reaction W\<rparr>"

text \<open>A repeated stop or reaction succeeds: when Slack says that the effect is there already, the client reports success.\<close>

lemma repeated_effects:
  assumes "web_call W ''reactions_add'' [(''channel'', JStr channel), (''timestamp'', JStr ts), (''name'', JStr name)] q = (r, q')"
    and "r = Inl (Api_error [(''error'', JStr ''already_reacted'')]) \<or> r = Inr [(''ok'', JBool False), (''error'', JStr ''already_reacted'')]"
  shows "add_reaction W channel ts name q = (Inr (), q')"
  using assms by (auto simp: add_reaction_def tolerate_def dict_get_def py_true_def)

text \<open>A reply or a stream that is reported as posted has the timestamp Slack gave it.\<close>

lemma posted_has_timestamp:
  assumes "post_reply W channel thread_ts text blocks q = (Inr ts, q')"
  shows "\<exists>response. web_call W ''chat_postMessage'' [(''channel'', JStr channel), (''thread_ts'', JStr thread_ts), (''text'', JStr text),
      (''blocks'', opt_json JArr blocks), (''unfurl_links'', JBool False), (''unfurl_media'', JBool False)] q = (Inr response, q')
    \<and> py_true (dict_get response ''ok'') \<and> py_true (dict_get response ''ts'') \<and> ts = slack_str W (dict_get response ''ts'')"
  using assms
  by (auto simp: post_reply_def web_request_def bind_sum_Inr require_def timestamp_of_def split: prod.splits sum.splits if_splits)

end
