(* ===== verification/Outbound.thy ===== *)
theory Outbound
  imports Controller_Handlers Py_Json
begin

text \<open>
  Messages that leave a process: the wakeups of \<open>SqsSchedulerTrigger\<close> and \<open>SqsPushTrigger\<close> (\<^verbatim>\<open>trigger.py\<close>, \<^verbatim>\<open>push_trigger.py\<close>), the start
  hints of \<^verbatim>\<open>cma_controller/preview.py\<close> and \<^verbatim>\<open>slack/preview.py\<close>, and the domain events of \<^verbatim>\<open>events.py\<close> and \<^verbatim>\<open>event_wire.py\<close>. The
  queue and the bus are parameters; a body is the JSON value that \<open>json.dumps\<close> is given. The bodies of wakeups
  are what the batch handlers accept.
\<close>

section \<open>Queues\<close>

record sqs_message =
  q_url :: string
  q_body :: json
  q_delay :: "int option"
  q_group :: "string option"
  q_deduplication :: "string option"

definition wakeup_json :: "string \<Rightarrow> string \<Rightarrow> json" where
  "wakeup_json cid reason = JObj [(''version'', JNum 1), (''contextId'', JStr cid), (''reason'', JStr reason)]"

definition sqs_wakeup :: "string \<Rightarrow> string \<Rightarrow> string \<Rightarrow> string \<Rightarrow> int \<Rightarrow> error + sqs_message" where
  "sqs_wakeup refusal url cid reason delay =
     (if cid = [] \<or> reason = [] \<or> \<not> (0 \<le> delay \<and> delay \<le> 900) then Inl (ValueError refusal)
      else Inr \<lparr>q_url = url, q_body = wakeup_json cid reason, q_delay = Some delay, q_group = None, q_deduplication = None\<rparr>)"

definition sqs_schedule :: "string \<Rightarrow> string \<Rightarrow> string \<Rightarrow> int \<Rightarrow> error + sqs_message" where
  "sqs_schedule = sqs_wakeup ''Invalid scheduler wakeup''"

definition sqs_schedule_context :: "string \<Rightarrow> string \<Rightarrow> string \<Rightarrow> int \<Rightarrow> error + sqs_message" where
  "sqs_schedule_context = sqs_wakeup ''Invalid push wakeup''"

section \<open>Hints\<close>

text \<open>\<open>int(time.time() * 1000)\<close>, from a clock in microseconds.\<close>

definition millis :: "int \<Rightarrow> int" where
  "millis now = now div 1000"

definition hint_wire :: "int \<Rightarrow> preview_hint \<Rightarrow> json" where
  "hint_wire now h = JObj [(''v'', JNum 1), (''taskId'', JStr (h_task_id h)), (''contextId'', JStr (h_context_id h)),
     (''sessionId'', JStr (h_session_id h)), (''phaseId'', JStr (h_phase_id h)), (''createdAt'', JNum (millis now))]"

definition preview_start :: "(string \<Rightarrow> string) \<Rightarrow> string \<Rightarrow> int \<Rightarrow> preview_hint \<Rightarrow> sqs_message" where
  "preview_start sha256 url now h = \<lparr>q_url = url, q_body = hint_wire now h, q_delay = None, q_group = Some (h_context_id h),
     q_deduplication = Some (sha256 (h_task_id h @ [CHR 0x00] @ h_phase_id h))\<rparr>"

record slack_preview_hint =
  sh_binding_id :: string
  sh_task_id :: string
  sh_message_ts :: string

definition slack_hint_wire :: "int \<Rightarrow> slack_preview_hint \<Rightarrow> json" where
  "slack_hint_wire now h = JObj [(''v'', JNum 1), (''bindingId'', JStr (sh_binding_id h)), (''taskId'', JStr (sh_task_id h)),
     (''createdAt'', JNum (millis now))]"

definition slack_preview_start :: "(string \<Rightarrow> string) \<Rightarrow> string \<Rightarrow> int \<Rightarrow> slack_preview_hint \<Rightarrow> sqs_message" where
  "slack_preview_start sha256 url now h = \<lparr>q_url = url, q_body = slack_hint_wire now h, q_delay = None, q_group = Some (sh_binding_id h),
     q_deduplication = Some (sha256 (sh_binding_id h @ [CHR 0x00] @ sh_task_id h @ [CHR 0x00] @ sh_message_ts h))\<rparr>"

section \<open>Events\<close>

text \<open>The value that survives the JSON boundary, and its text; a detail is what its \<open>boundary\<close> method gives.\<close>

definition normalize_event_detail :: "json \<Rightarrow> error + json" where
  "normalize_event_detail detail = json_loads (dumps_compact detail)"

definition serialize_event_detail :: "json \<Rightarrow> error + string" where
  "serialize_event_detail detail = bind_sum (normalize_event_detail detail) (\<lambda>v. Inr (dumps_compact v))"

record bus_entry =
  be_bus :: string
  be_source :: string
  be_detail_type :: string
  be_detail :: string

definition put_domain_event :: "(bus_entry list \<Rightarrow> 'q \<Rightarrow> (error + (string \<times> json) list) \<times> 'q) \<Rightarrow> (json \<Rightarrow> string)
    \<Rightarrow> string \<Rightarrow> string \<Rightarrow> string \<Rightarrow> json \<Rightarrow> 'q \<Rightarrow> (error + unit) \<times> 'q" where
  "put_domain_event put_events text bus_name source detail_type detail q =
     (case serialize_event_detail detail of
        Inl e \<Rightarrow> (Inl e, q)
      | Inr d \<Rightarrow> (case put_events [\<lparr>be_bus = bus_name, be_source = source, be_detail_type = detail_type, be_detail = d\<rparr>] q of
            (Inl e, q') \<Rightarrow> (Inl e, q')
          | (Inr response, q') \<Rightarrow>
              (if py_true (dict_get response ''FailedEntryCount'')
               then Inl (RuntimeError (''EventBridge rejected '' @ text (dict_get response ''FailedEntryCount'') @ '' event(s)''))
               else Inr (), q')))"

section \<open>What is sent is what is read\<close>

text \<open>The batch handlers read the context out of a wakeup that a trigger has sent.\<close>

lemma wakeup_read:
  "sqs_schedule url cid reason delay = Inr m \<Longrightarrow> scheduler_payload (q_body m) = Inr cid"
  "sqs_schedule_context url cid reason delay = Inr m \<Longrightarrow> push_payload (q_body m) = Inr cid"
  by (auto simp: sqs_schedule_def sqs_schedule_context_def sqs_wakeup_def wakeup_json_def scheduler_payload_def push_payload_def is_one_def
      split: if_splits)

text \<open>A detail of proper JSON crosses the boundary unchanged, and normalising it again changes nothing.\<close>

lemma detail_survives:
  assumes "proper_json detail"
  shows "normalize_event_detail detail = Inr detail" "serialize_event_detail detail = Inr (dumps_compact detail)"
  using loads_dumps [OF assms] by (simp_all add: normalize_event_detail_def serialize_event_detail_def)

end
