(* ===== verification/Text_Patterns.thy ===== *)
theory Text_Patterns
  imports Py_Json
begin

text \<open>
  Python's string operations and the regular expressions that the operator commands share: \<open>str.split\<close>, the patterns of credentials in \<^verbatim>\<open>scripts/cma_lock.py\<close> and
  \<^verbatim>\<open>scripts/check_public_readiness.py\<close>, and \<open>json.dumps\<close> with its default separators. Characters are below 256; the letters of \<open>\w\<close> are those of ASCII.
\<close>

section \<open>Strings\<close>

fun split_on :: "char \<Rightarrow> string \<Rightarrow> string list" where
  "split_on d [] = [[]]"
| "split_on d (c # cs) = (if c = d then [] # split_on d cs else (case split_on d cs of x # xs \<Rightarrow> (c # x) # xs | [] \<Rightarrow> [[c]]))"

text \<open>Replacing by a text in brackets brings back nothing without brackets.\<close>

definition unbracketed :: "string \<Rightarrow> bool" where
  "unbracketed t = (t \<noteq> [] \<and> CHR ''['' \<notin> set t \<and> CHR '']'' \<notin> set t)"

lemma starts_with_Cons [simp]:
  "starts_with [] s" "starts_with (c # p) [] = False" "starts_with (c # p) (d # s) = (c = d \<and> starts_with p s)"
  by (auto simp: starts_with_def)

lemma contains_break:
  assumes "t \<noteq> []" "c \<notin> set t"
  shows "contains t (a @ c # b) \<longleftrightarrow> contains t a \<or> contains t b"
proof (induction a)
  case Nil
  from assms show ?case by (cases t) (auto simp: starts_with_def)
next
  case (Cons x a)
  have "starts_with t (x # a @ c # b) \<longleftrightarrow> starts_with t (x # a)"
  proof -
    have "starts_with t (y @ c # b) \<longleftrightarrow> starts_with t y" if "c \<notin> set t" for t y
      using that by (induction y arbitrary: t) (case_tac t; auto)+
    from this [OF assms(2), of "x # a"] show ?thesis by simp
  qed
  with Cons show ?case by simp
qed

lemma replace_all_start:
  "CHR ''['' \<notin> set t \<Longrightarrow> starts_with t (replace_all u (CHR ''['' # mid) s) \<Longrightarrow> starts_with t s"
proof (induction t arbitrary: s)
  case (Cons c t)
  then show ?case by (cases s) (auto split: if_splits)
qed simp

lemma contains_drop: "contains t (drop n s) \<Longrightarrow> contains t s"
proof (induction s arbitrary: n)
  case (Cons c s)
  then show ?case by (cases n) auto
qed simp

lemma replace_all_hides:
  assumes "unbracketed t" "\<not> contains t mid" "u = t \<or> \<not> contains t s"
  shows "\<not> contains t (replace_all u (''['' @ mid @ '']'') s)"
  using assms(3)
proof (induction "length s" arbitrary: s rule: less_induct)
  case less
  have t: "t \<noteq> []" "CHR ''['' \<notin> set t" "CHR '']'' \<notin> set t" using assms(1) by (simp_all add: unbracketed_def)
  show ?case
  proof (cases s)
    case Nil
    then show ?thesis using t by simp
  next
    case (Cons c cs)
    show ?thesis
    proof (cases "u \<noteq> [] \<and> starts_with u s")
      case True
      let ?r = "replace_all u (''['' @ mid @ '']'') (drop (length u - 1) cs)"
      have "\<not> contains t ?r" using less.prems by (intro less.hyps) (auto simp: Cons dest: contains_drop)
      then have "\<not> contains t (mid @ CHR '']'' # ?r)" using assms(2) contains_break [OF t(1,3)] by blast
      then have "\<not> contains t ([] @ CHR ''['' # mid @ CHR '']'' # ?r)" using contains_break [OF t(1,2), of "[]"] t(1) by (metis contains.simps(1))
      with True show ?thesis by (simp add: Cons)
    next
      case False
      have "\<not> contains t (replace_all u (''['' @ mid @ '']'') cs)" using less.prems by (intro less.hyps) (auto simp: Cons)
      moreover have "\<not> starts_with t (c # replace_all u (''['' @ mid @ '']'') cs)"
      proof
        assume start: "starts_with t (c # replace_all u (''['' @ mid @ '']'') cs)"
        then obtain t' where t': "t = c # t'" "starts_with t' (replace_all u (CHR ''['' # mid @ '']'') cs)" using t(1) by (cases t) auto
        with replace_all_start [of t'] t(2) have "starts_with t s" by (simp add: Cons)
        with less.prems False t(1) show False by (auto simp: Cons)
      qed
      ultimately show ?thesis using False by (auto simp: Cons)
    qed
  qed
qed

definition word_char :: "char \<Rightarrow> bool" where
  "word_char c = (ascii_alnum c \<or> c = CHR ''_'')"

text \<open>\<open>[a-z]\<close>, \<open>[A-Z]\<close>\<close>

definition lower_letter :: "char \<Rightarrow> bool" where
  "lower_letter c = (let n = (of_char c :: nat) in 97 \<le> n \<and> n \<le> 122)"

definition upper_letter :: "char \<Rightarrow> bool" where
  "upper_letter c = (let n = (of_char c :: nat) in 65 \<le> n \<and> n \<le> 90)"

text \<open>A prefix and at least one character of ASCII letters and digits: \<open>prefix_[A-Za-z0-9]+\<close>.\<close>

definition prefixed_id :: "string \<Rightarrow> string \<Rightarrow> bool" where
  "prefixed_id prefix s = (starts_with prefix s \<and> length prefix < length s \<and> list_all ascii_alnum (drop (length prefix) s))"

section \<open>Credentials\<close>

text \<open>\<open>SECRET_PATTERN\<close>: a form is a prefix, the characters after it, and whether there are exactly 16 of them or at least 16. A match stands between word boundaries, and is the longest one.\<close>

definition word_boundary :: "char option \<Rightarrow> char option \<Rightarrow> bool" where
  "word_boundary before_char after_char =
     ((case before_char of None \<Rightarrow> False | Some c \<Rightarrow> word_char c) \<noteq> (case after_char of None \<Rightarrow> False | Some c \<Rightarrow> word_char c))"

definition char_at :: "string \<Rightarrow> nat \<Rightarrow> char option" where
  "char_at s i = (if i < length s then Some (s ! i) else None)"

definition secret_forms :: "(string \<times> (char \<Rightarrow> bool) \<times> bool) list" where
  "secret_forms =
     (let dashed = (\<lambda>c. ascii_alnum c \<or> c = CHR ''-''); both = (\<lambda>c. ascii_alnum c \<or> c = CHR ''_'' \<or> c = CHR ''-'');
          upper = (\<lambda>c. upper_letter c \<or> is_digit c) in
      [(''xoxa-'', dashed, False), (''xoxb-'', dashed, False), (''xoxp-'', dashed, False), (''xapp-'', dashed, False),
       (''sk-ant-'', both, False), (''whsec_'', both, False), (''AKIA'', upper, True), (''ASIA'', upper, True)])"

definition form_length :: "string \<Rightarrow> string \<times> (char \<Rightarrow> bool) \<times> bool \<Rightarrow> nat option" where
  "form_length s = (\<lambda>(prefix, cls, exact).
     if \<not> starts_with prefix s then None
     else let k = length prefix; n = length (takeWhile cls (drop k s)) in
       find (\<lambda>m. word_boundary (char_at s (m - 1)) (char_at s m))
         (map ((+) k) (if exact then (if 16 \<le> n then [16] else []) else rev [16..<Suc n])))"

fun first_some :: "('a \<Rightarrow> 'b option) \<Rightarrow> 'a list \<Rightarrow> 'b option" where
  "first_some f [] = None"
| "first_some f (x # xs) = (case f x of None \<Rightarrow> first_some f xs | Some y \<Rightarrow> Some y)"

definition secret_length :: "char option \<Rightarrow> string \<Rightarrow> nat option" where
  "secret_length prev s = (if word_boundary prev (char_at s 0) then first_some (form_length s) secret_forms else None)"

text \<open>\<open>SECRET_PATTERN.findall\<close>: \<open>skip\<close> characters are still part of the last match.\<close>

fun secrets_from :: "char option \<Rightarrow> nat \<Rightarrow> string \<Rightarrow> string list" where
  "secrets_from prev skip [] = []"
| "secrets_from prev (Suc skip) (c # cs) = secrets_from (Some c) skip cs"
| "secrets_from prev 0 (c # cs) = (case secret_length prev (c # cs) of
     None \<Rightarrow> secrets_from (Some c) 0 cs
   | Some n \<Rightarrow> take n (c # cs) # secrets_from (Some c) (n - 1) cs)"

definition find_secrets :: "string \<Rightarrow> string list" where
  "find_secrets s = secrets_from None 0 s"

text \<open>\<open>SECRET_FIELD_PATTERN.search\<close>: the words of a name may be joined by one of \<open>_\<close> and \<open>-\<close>.\<close>

definition secret_fields :: "string list list" where
  "secret_fields =
     [[''api'', ''key''], [''access'', ''token''], [''client'', ''secret''], [''password''], [''secret''], [''authorization''], [''signing'', ''key''],
      [''private'', ''key''], [''webhook'', ''secret''], [''oauth'', ''token''], [''refresh'', ''token''], [''cookie'', ''secret''],
      [''aws'', ''secret'', ''access'', ''key''], [''aws'', ''session'', ''token'']]"

fun match_words :: "string list \<Rightarrow> string \<Rightarrow> string option" where
  "match_words [] s = Some s"
| "match_words (w # ws) s =
     (if py_lower (take (length w) s) \<noteq> w then None
      else let r = drop (length w) s in
        match_words ws (if ws \<noteq> [] \<and> r \<noteq> [] \<and> hd r \<in> {CHR ''_'', CHR ''-''} then tl r else r))"

definition skip_quote :: "string \<Rightarrow> string" where
  "skip_quote s = (if s \<noteq> [] \<and> hd s \<in> {CHR 0x22, CHR 0x27} then tl s else s)"

definition secret_field_at :: "string \<Rightarrow> bool" where
  "secret_field_at s = (let t = skip_quote (dropWhile py_space s) in
     list_ex (\<lambda>ws. case match_words ws t of
       None \<Rightarrow> False
     | Some r \<Rightarrow> (case dropWhile py_space (skip_quote r) of [] \<Rightarrow> False | c # _ \<Rightarrow> c = CHR '':'')) secret_fields)"

fun secret_field_from :: "bool \<Rightarrow> string \<Rightarrow> bool" where
  "secret_field_from line_start [] = False"
| "secret_field_from line_start (c # cs) =
     (line_start \<and> secret_field_at (c # cs)
      \<or> c \<in> {CHR '','', CHR ''{''} \<and> secret_field_at cs
      \<or> secret_field_from (c = CHR 0x0A) cs)"

definition secret_bearing :: "string \<Rightarrow> bool" where
  "secret_bearing s = (find_secrets s \<noteq> [] \<or> secret_field_from True s)"

section \<open>JSON\<close>

lemma map_of_dict_set: "map_of (dict_set k v d) = (map_of d)(k \<mapsto> v)"
  by (induction k v d rule: dict_set.induct) (auto simp: fun_eq_iff)

lemma list_all_dict_set: "list_all P d \<Longrightarrow> P (k, v) \<Longrightarrow> list_all P (dict_set k v d)"
  by (induction k v d rule: dict_set.induct) auto

lemma dict_get_set: "dict_get (dict_set k v d) j = (if j = k then v else dict_get d j)"
  by (simp add: dict_get_def map_of_dict_set)

text \<open>\<open>json.dumps(value)\<close>\<close>

fun dumps_spaced :: "json \<Rightarrow> string" and spaced_items :: "json list \<Rightarrow> string" and spaced_fields :: "(string \<times> json) list \<Rightarrow> string" where
  "dumps_spaced JNull = ''null''"
| "dumps_spaced (JBool b) = (if b then ''true'' else ''false'')"
| "dumps_spaced (JNum n) = show_int n"
| "dumps_spaced (JStr s) = json_quote s"
| "dumps_spaced (JArr xs) = ''['' @ spaced_items xs @ '']''"
| "dumps_spaced (JObj kvs) = ''{'' @ spaced_fields kvs @ ''}''"
| "spaced_items [] = []"
| "spaced_items (x # xs) = dumps_spaced x @ (if xs = [] then [] else '', '' @ spaced_items xs)"
| "spaced_fields [] = []"
| "spaced_fields ((k, v) # kvs) = json_quote k @ '': '' @ dumps_spaced v @ (if kvs = [] then [] else '', '' @ spaced_fields kvs)"

text \<open>\<open>json.loads\<close> with a hook that refuses an object with a repeated key. A text that repeats a key and is malformed later on is refused either way.\<close>

definition loads_unique :: "error \<Rightarrow> string \<Rightarrow> error + json" where
  "loads_unique repeated s = (case parse_value JObj (Suc (length s)) (skip_ws s) of
     Some (j, r) \<Rightarrow>
       if skip_ws r \<noteq> [] then Inl (ValueError ''Extra data'')
       else if \<not> proper_json j then Inl repeated
       else Inr j
   | None \<Rightarrow> Inl (ValueError ''Expecting value''))"

lemma loads_unique_dumps:
  assumes "proper_json j"
  shows "loads_unique e (dumps_compact j) = Inr j"
proof -
  obtain c cs where c: "dumps_compact j = c # cs" "\<And>t. skip_ws (c # t) = c # t" by (rule dumps_start) blast
  with parse_dumps(1) [OF _ assms, of JObj "[]" "Suc (length (dumps_compact j))"] assms show ?thesis
    by (simp add: loads_unique_def)
qed

end
