(* ===== verification/Operations.thy ===== *)
theory Operations
  imports Configuration Slack_Ingress Thread_Repository Text_Patterns
begin

text \<open>
  \<^verbatim>\<open>operations.py\<close>: the commands of the database administrator. \<open>migrate\<close> applies the files that are not yet recorded,
  statement by statement, since the database allows one DDL statement in a transaction; it may be
  interrupted anywhere and run again. The database is a parameter: what a statement does to it, an index build with its job, and the catalog.
  \<open>database\<close> is its state, \<open>applied\<close> the table \<^verbatim>\<open>schema_migrations\<close>, and \<open>completed\<close> records, for the statements below, which statements of which
  file have completed.
\<close>

section \<open>The database\<close>

record 'd sql_port =
  run_sql :: "string \<Rightarrow> 'd \<Rightarrow> (error + unit) \<times> 'd"
  create_index :: "string \<Rightarrow> 'd \<Rightarrow> (error + string option) \<times> 'd"
  index_job :: "string \<Rightarrow> 'd \<Rightarrow> (error + (string \<times> string) option) \<times> 'd"
  index_valid :: "string \<Rightarrow> 'd \<Rightarrow> (error + bool option) \<times> 'd"
  legacy_column :: "'d \<Rightarrow> (error + bool) \<times> 'd"
  message_of :: "error \<Rightarrow> string"

record 'd admin_db =
  applied :: "string list"
  database :: 'd
  adm_now :: int
  completed :: "(string \<times> string) list"

definition on_db :: "('d \<Rightarrow> (error + 'a) \<times> 'd) \<Rightarrow> ('d admin_db, 'a) comp" where
  "on_db f = (\<lambda>s. case f (database s) of (r, d) \<Rightarrow> (r, s\<lparr>database := d\<rparr>))"

section \<open>Texts\<close>

text \<open>\<open>re.split(r";\s*(?:\n|$)", source)\<close>: a semicolon ends a statement when nothing but blanks follows up to the end of the line or of the text.\<close>

definition ends_statement :: "string \<Rightarrow> bool" where
  "ends_statement rest = (let w = takeWhile py_space rest in CHR 0x0A \<in> set w \<or> length w = length rest)"

fun split_statements :: "string \<Rightarrow> string \<Rightarrow> string list" where
  "split_statements acc [] = [rev acc]"
| "split_statements acc (c # cs) =
     (if c = CHR '';'' \<and> ends_statement cs then rev acc # split_statements [] cs else split_statements (c # acc) cs)"

definition statements :: "string \<Rightarrow> string list" where
  "statements source = filter (\<lambda>t. t \<noteq> []) (map py_strip (split_statements [] source))"

text \<open>A keyword in any case, and the blanks after it, of which there is at least one.\<close>

definition keyword :: "string \<Rightarrow> string \<Rightarrow> string option" where
  "keyword k s = (if py_lower (take (length k) s) = k then Some (drop (length k) s) else None)"

definition blanks :: "string \<Rightarrow> string option" where
  "blanks s = (if s \<noteq> [] \<and> py_space (hd s) then Some (dropWhile py_space s) else None)"

definition keyword_blanks :: "string \<Rightarrow> string \<Rightarrow> string option" where
  "keyword_blanks k s = (case keyword k s of None \<Rightarrow> None | Some r \<Rightarrow> blanks r)"

definition or_else :: "'a option \<Rightarrow> 'a \<Rightarrow> 'a" where
  "or_else x d = (case x of None \<Rightarrow> d | Some v \<Rightarrow> v)"

definition if_not_exists :: "string \<Rightarrow> string option" where
  "if_not_exists s = Option.bind (keyword_blanks ''if'' s) (\<lambda>r. Option.bind (keyword_blanks ''not'' r) (keyword_blanks ''exists''))"

text \<open>The text up to \<open>INDEX\<close> and the name of a \<open>CREATE INDEX\<close> that is not asynchronous yet.\<close>

definition index_name :: "string \<Rightarrow> string option" where
  "index_name s = (let name = takeWhile word_char s in
     if name \<noteq> [] \<and> \<not> is_digit (hd name) then Some name else None)"

definition match_index :: "string \<Rightarrow> (string \<times> string) option" where
  "match_index statement =
     Option.bind (keyword_blanks ''create'' statement) (\<lambda>r1.
     let r2 = or_else (keyword_blanks ''unique'' r1) r1 in
     Option.bind (keyword ''index'' r2) (\<lambda>r3.
     Option.bind (blanks r3) (\<lambda>r4.
     if py_lower (takeWhile word_char r4) = ''async'' then None
     else let front = take (length statement - length r3) statement in
       (case Option.bind (if_not_exists r4) index_name of
          Some name \<Rightarrow> Some (front, name)
        | None \<Rightarrow> map_option (Pair front) (index_name r4)))))"

section \<open>Migrating\<close>

text \<open>Waiting for the job of an index build: every round ends it or moves the clock by a second towards the deadline.\<close>

function wait_for_job :: "'d sql_port \<Rightarrow> string \<Rightarrow> string \<Rightarrow> int \<Rightarrow> ('d admin_db, unit) comp" where
  "wait_for_job P index job deadline s = (case on_db (index_job P job) s of
     (Inl e, t) \<Rightarrow> (Inl e, t)
   | (Inr None, t) \<Rightarrow> (Inr (), t)
   | (Inr (Some (status, details)), t) \<Rightarrow>
       if status = ''completed'' then (Inr (), t)
       else if status = ''failed'' then (Inl (RuntimeError (''DSQL index build failed for '' @ index @ '': '' @ details)), t)
       else if deadline \<le> adm_now s then (Inl TimeoutError, t)
       else wait_for_job P index job deadline (t\<lparr>adm_now := adm_now s + 1000000\<rparr>))"
  by pat_completeness auto
termination by (relation "measure (\<lambda>(P, index, job, deadline, s). nat (deadline - adm_now s))") auto

declare wait_for_job.simps [simp del]

definition wait_for_dsql_index :: "'d sql_port \<Rightarrow> string \<Rightarrow> string option \<Rightarrow> ('d admin_db, unit) comp" where
  "wait_for_dsql_index P index job =
     bnd (if truthy job then (\<lambda>s. wait_for_job P index (the job) (adm_now s + 300000000) s) else ret ()) (\<lambda>_.
     bnd (on_db (index_valid P index)) (\<lambda>valid.
     if valid \<noteq> Some True then raise_err (RuntimeError (''DSQL index is not valid: '' @ index)) else ret ()))"

definition legacy_update :: "string \<Rightarrow> string \<Rightarrow> bool" where
  "legacy_update migration statement = (migration = ''011_stateless_openappa.sql'' \<and> contains ''UPDATE cma_input_requests'' statement)"

definition execute_migration_statement :: "'d sql_port \<Rightarrow> settings \<Rightarrow> string \<Rightarrow> string \<Rightarrow> ('d admin_db, unit) comp" where
  "execute_migration_statement P c migration statement =
     bnd (if legacy_update migration statement then on_db (legacy_column P) else ret True) (\<lambda>needed.
     if \<not> needed then ret ()
     else case match_index statement of
       None \<Rightarrow> on_db (run_sql P statement)
     | Some (front, index) \<Rightarrow>
         if database_mode c = ''postgres'' then on_db (run_sql P statement)
         else bnd (on_db (create_index P (front @ '' ASYNC'' @ drop (length front) statement))) (\<lambda>job.
              wait_for_dsql_index P index job))"

definition complete_statement :: "string \<Rightarrow> string \<Rightarrow> ('d admin_db, unit) comp" where
  "complete_statement migration statement = (\<lambda>s. (Inr (), s\<lparr>completed := completed s @ [(migration, statement)]\<rparr>))"

definition record_version :: "string \<Rightarrow> ('d admin_db, unit) comp" where
  "record_version name = (\<lambda>s. if name \<in> set (applied s) then (Inl UniqueViolation, s) else (Inr (), s\<lparr>applied := applied s @ [name]\<rparr>))"

definition migrate_file :: "'d sql_port \<Rightarrow> settings \<Rightarrow> string \<times> string \<Rightarrow> ('d admin_db, unit) comp" where
  "migrate_file P c = (\<lambda>(name, source) s.
     if name \<in> set (applied s) then (Inr (), s)
     else bnd (for_m (statements source) (\<lambda>st. bnd (execute_migration_statement P c name st) (\<lambda>_. complete_statement name st)))
       (\<lambda>_. record_version name) s)"

text \<open>\<open>_identifier\<close>, the role names and the grants of a production database.\<close>

definition identifier_ok :: "string \<Rightarrow> bool" where
  "identifier_ok v = (v \<noteq> [] \<and> list_all (\<lambda>c. c = CHR ''_'' \<or> is_digit c \<or> (CHR ''a'' \<le> c \<and> c \<le> CHR ''z'')) v \<and> \<not> is_digit (hd v))"

definition role_arns :: "environ \<Rightarrow> string list" where
  "role_arns env = filter (\<lambda>t. t \<noteq> []) (map py_strip (split_on (CHR '','') (getenv env ''DSQL_RUNTIME_ROLE_ARNS'' [])))"

definition arn_ok :: "string \<Rightarrow> bool" where
  "arn_ok arn = (let account = drop 13 arn; path = drop 18 account in
     starts_with ''arn:aws:iam::'' arn \<and> length account > 18 \<and> list_all is_digit (take 12 account)
     \<and> take 6 (drop 12 account) = '':role/''
     \<and> list_all (\<lambda>c. ascii_alnum c \<or> c \<in> {CHR ''+'', CHR ''='', CHR '','', CHR ''.'', CHR ''@'', CHR ''_'', CHR ''/'', CHR ''-''}) path)"

definition tolerating :: "'d sql_port \<Rightarrow> string \<Rightarrow> string \<Rightarrow> ('d admin_db, unit) comp" where
  "tolerating P phrase sql = try_except (on_db (run_sql P sql))
     (except_exception (\<lambda>e. if contains phrase (py_lower (message_of P e)) then ret () else raise_err e))"

definition grant_roles :: "'d sql_port \<Rightarrow> environ \<Rightarrow> settings \<Rightarrow> ('d admin_db, unit) comp" where
  "grant_roles P env c =
     (if \<not> identifier_ok (dsql_role c) then raise_err (ValueError (''Invalid SQL identifier: '' @ dsql_role c))
      else
        bnd (tolerating P ''already exists'' (''CREATE ROLE '' @ dsql_role c @ '' WITH LOGIN'')) (\<lambda>_.
        bnd (for_m (role_arns env) (\<lambda>arn.
              if \<not> arn_ok arn then raise_err (ValueError (''Invalid IAM role ARN: '' @ arn))
              else tolerating P ''already'' (''AWS IAM GRANT '' @ dsql_role c @ '' TO '' @ [CHR 0x27] @ arn @ [CHR 0x27]))) (\<lambda>_.
        on_db (run_sql P (''GRANT SELECT, INSERT, UPDATE, DELETE ON ALL TABLES IN SCHEMA public TO '' @ dsql_role c)))))"

definition create_versions :: string where
  "create_versions = ''CREATE TABLE IF NOT EXISTS schema_migrations (version TEXT PRIMARY KEY, applied_at TIMESTAMPTZ NOT NULL DEFAULT CURRENT_TIMESTAMP)''"

definition migrate :: "'d sql_port \<Rightarrow> environ \<Rightarrow> settings \<Rightarrow> (string \<times> string) list \<Rightarrow> ('d admin_db, unit) comp" where
  "migrate P env c files =
     (case connect c (Some ''admin'') of
        Inl e \<Rightarrow> raise_err e
      | Inr _ \<Rightarrow>
          bnd (on_db (run_sql P create_versions)) (\<lambda>_.
          bnd (for_m (sort_key fst files) (migrate_file P c)) (\<lambda>_.
          if database_mode c = ''postgres'' then ret () else grant_roles P env c)))"

section \<open>Identities\<close>

definition seed :: "settings \<Rightarrow> (('e, 'q) app, unit) comp" where
  "seed c =
     bnd (ensure_principal (dev_principal_id c)) (\<lambda>_.
     bnd (map_external_identity (dev_principal_id c) ''web'' ''development'' ''single-user'') (\<lambda>_.
     when_m (truthy (slack_team_allowlist c) \<and> truthy (slack_user_allowlist c))
       (map_external_identity (dev_principal_id c) ''slack'' (the (slack_team_allowlist c)) (the (slack_user_allowlist c)))))"

definition slack_id_ok :: "char list \<Rightarrow> string \<Rightarrow> bool" where
  "slack_id_ok kinds s = (2 \<le> length s \<and> hd s \<in> set kinds
     \<and> list_all (\<lambda>c. is_digit c \<or> (CHR ''A'' \<le> c \<and> c \<le> CHR ''Z'')) (tl s))"

definition principal_ok :: "string \<Rightarrow> bool" where
  "principal_ok s = (is_uuid s \<and> s ! 14 \<in> {CHR ''1'', CHR ''2'', CHR ''3'', CHR ''4'', CHR ''5''}
     \<and> lower_char (s ! 19) \<in> {CHR ''8'', CHR ''9'', CHR ''a'', CHR ''b''})"

definition map_slack :: "settings \<Rightarrow> string \<Rightarrow> string \<Rightarrow> string option \<Rightarrow> (('e, 'q) app, unit) comp" where
  "map_slack c team user given =
     (let target = (if truthy given then the given else dev_principal_id c) in
      if \<not> slack_id_ok [CHR ''T''] team then raise_err (ValueError ''--team-id must be a Slack team ID such as T01234567'')
      else if \<not> slack_id_ok [CHR ''U'', CHR ''W''] user
      then raise_err (ValueError ''--user-id must be a human Slack member ID such as U01234567'')
      else if \<not> principal_ok target then raise_err (ValueError ''--principal-id must be a UUID'')
      else bnd (ensure_principal target) (\<lambda>_. map_external_identity target ''slack'' team user))"

section \<open>Secrets\<close>

text \<open>\<open>sync_secrets\<close>: \<open>outputs\<close> is the \<open>value\<close> of each Terraform output, \<open>put\<close> the secrets manager of a region. The region is the
  fourth part of the secret's ARN.\<close>

definition secret_outputs :: "(string \<times> string) list" where
  "secret_outputs =
     [(''anthropic_api_key_secret_arn'', ''ANTHROPIC_API_KEY''),
      (''anthropic_webhook_signing_key_secret_arn'', ''ANTHROPIC_WEBHOOK_SIGNING_KEY''),
      (''slack_signing_secret_arn'', ''SLACK_SIGNING_SECRET''),
      (''slack_bot_token_secret_arn'', ''SLACK_BOT_TOKEN''),
      (''web_access_token_secret_arn'', ''WEB_ACCESS_TOKEN''),
      (''web_cookie_secret_secret_arn'', ''WEB_COOKIE_SECRET'')]"

definition sync_secrets ::
  "(string \<Rightarrow> string option) \<Rightarrow> environ \<Rightarrow> (string \<Rightarrow> string \<Rightarrow> string \<Rightarrow> ('s, unit) comp) \<Rightarrow> ('s, unit) comp" where
  "sync_secrets outputs env put = for_m secret_outputs (\<lambda>(output_name, environment_name).
     if \<not> truthy (outputs output_name) \<or> \<not> truthy (env environment_name) then ret ()
     else let secret_id = the (outputs output_name); parts = split_on (CHR '':'') secret_id in
       if length parts \<le> 3 then raise_err (KeyError ''list index out of range'')
       else put (parts ! 3) secret_id (the (env environment_name)))"

section \<open>Migrations can be repeated\<close>

text \<open>A version is recorded only after every statement of its file has completed, in order.\<close>

definition versions_complete :: "(string \<times> string) list \<Rightarrow> 'd admin_db \<Rightarrow> 'd admin_db \<Rightarrow> bool" where
  "versions_complete files s t = ((\<exists>more. applied t = applied s @ more) \<and> (\<exists>more. completed t = completed s @ more)
     \<and> (\<forall>name \<in> set (applied t) - set (applied s). \<exists>source front later. (name, source) \<in> set files
          \<and> completed t = front @ map (Pair name) (statements source) @ later))"

interpretation versions: step_relation "versions_complete files" for files
proof
  show "versions_complete files s s" for s :: "'d admin_db" by (simp add: versions_complete_def)
  fix s t u :: "'d admin_db"
  assume st: "versions_complete files s t" and tu: "versions_complete files t u"
  from tu obtain more where more: "completed u = completed t @ more" by (auto simp: versions_complete_def)
  have "\<exists>source front later. (name, source) \<in> set files \<and> completed u = front @ map (Pair name) (statements source) @ later"
    if "name \<in> set (applied u) - set (applied s)" for name
  proof (cases "name \<in> set (applied t)")
    case True
    with st that obtain source front later where "(name, source) \<in> set files"
      "completed t = front @ map (Pair name) (statements source) @ later" unfolding versions_complete_def by blast
    with more show ?thesis by (intro exI [of _ source] exI [of _ front] exI [of _ "later @ more"]) simp
  next
    case False
    with tu that show ?thesis unfolding versions_complete_def by blast
  qed
  with st tu show "versions_complete files s u" by (auto simp: versions_complete_def)
qed

text \<open>Nothing but \<open>record_version\<close> and \<open>complete_statement\<close> touches the two records.\<close>

definition records_kept :: "'d admin_db \<Rightarrow> 'd admin_db \<Rightarrow> bool" where
  "records_kept s t = (applied t = applied s \<and> completed t = completed s)"

interpretation records: step_relation records_kept
  by unfold_locales (auto simp: records_kept_def)

lemma records_on_db: "keeps records_kept (on_db f)"
  by (auto intro!: keepsI simp: on_db_def records_kept_def split: prod.splits)

lemma records_wait: "records_kept s (snd (wait_for_job P index job deadline s))"
proof (induction P index job deadline s rule: wait_for_job.induct)
  case (1 P index job deadline s)
  have "records_kept s (snd (on_db (index_job P job) s))" by (rule keepsD [OF records_on_db])
  with 1 show ?case
    by (subst wait_for_job.simps) (auto simp: records_kept_def split: prod.splits sum.splits option.splits)
qed

lemma records_statement: "keeps records_kept (execute_migration_statement P c migration statement)"
proof -
  have "keeps records_kept (\<lambda>s. wait_for_job P index job (adm_now s + d) s)" for index job d
    by (rule keepsI) (rule records_wait)
  then show ?thesis
    unfolding execute_migration_statement_def wait_for_dsql_index_def
    by (auto intro!: records.keeps_control records_on_db split: option.splits)
qed

lemma statements_run:
  "for_m sts (\<lambda>st. bnd (execute_migration_statement P c name st) (\<lambda>_. complete_statement name st)) s = (r, t) \<Longrightarrow>
   applied t = applied s \<and> (\<exists>new. completed t = completed s @ new) \<and> (r = Inr () \<longrightarrow> completed t = completed s @ map (Pair name) sts)"
proof (induction sts arbitrary: s)
  case Nil
  then show ?case by (simp add: ret_def)
next
  case (Cons st sts)
  obtain x u where u: "execute_migration_statement P c name st s = (x, u)" by fastforce
  have kept: "applied u = applied s" "completed u = completed s"
    using keeps_run [OF records_statement u] by (simp_all add: records_kept_def)
  show ?case
  proof (cases x)
    case (Inl e)
    with Cons.prems u kept show ?thesis by (auto simp: bnd_def)
  next
    case (Inr y)
    let ?u = "u\<lparr>completed := completed u @ [(name, st)]\<rparr>"
    have "for_m sts (\<lambda>st. bnd (execute_migration_statement P c name st) (\<lambda>_. complete_statement name st)) ?u = (r, t)"
      using Cons.prems u Inr by (simp add: bnd_def complete_statement_def)
    from Cons.IH [OF this] kept show ?thesis by auto
  qed
qed

lemma migrate_file_versions:
  assumes "(name, source) \<in> set files"
  shows "versions_complete files s (snd (migrate_file P c (name, source) s))"
proof (cases "name \<in> set (applied s)")
  case True
  then show ?thesis by (simp add: migrate_file_def versions.step_refl)
next
  case False
  obtain r t where run: "for_m (statements source)
      (\<lambda>st. bnd (execute_migration_statement P c name st) (\<lambda>_. complete_statement name st)) s = (r, t)" by fastforce
  note st = statements_run [OF run]
  have "snd (migrate_file P c (name, source) s) = (case r of Inl _ \<Rightarrow> t | Inr _ \<Rightarrow> t\<lparr>applied := applied s @ [name]\<rparr>)"
    using False st run by (auto simp: migrate_file_def bnd_def record_version_def split: sum.splits)
  then show ?thesis using st assms
    by (cases r) (auto simp: versions_complete_def, metis append_Nil2)
qed

lemma plain_versions: "keeps records_kept m \<Longrightarrow> keeps (versions_complete files) m"
  by (auto simp: keeps_def records_kept_def versions_complete_def)

lemma migrate_versions: "keeps (versions_complete files) (migrate P env c files)"
proof -
  have grants: "keeps records_kept (grant_roles P env c)"
    unfolding grant_roles_def tolerating_def by (auto intro!: records.keeps_control records_on_db)
  have each: "keeps (versions_complete files) (migrate_file P c f)" if "f \<in> set (sort_key fst files)" for f
    using that migrate_file_versions [of "fst f" "snd f" files] by (auto intro: keepsI)
  show ?thesis unfolding migrate_def
    by (auto intro!: versions.keeps_control plain_versions [OF records_on_db] plain_versions [OF grants] each split: sum.splits)
qed

text \<open>After a migration that succeeded every file is recorded, and running it again completes no statement.\<close>

lemma migrate_file_records:
  assumes "migrate_file P c f s = (Inr (), t)"
  shows "fst f \<in> set (applied t) \<and> set (applied s) \<subseteq> set (applied t)"
proof (cases "fst f \<in> set (applied s)")
  case True
  with assms show ?thesis by (auto simp: migrate_file_def split: prod.splits)
next
  case False
  obtain r u where run: "for_m (statements (snd f))
      (\<lambda>st. bnd (execute_migration_statement P c (fst f) st) (\<lambda>_. complete_statement (fst f) st)) s = (r, u)" by fastforce
  with statements_run [OF run] assms False show ?thesis
    by (cases r) (auto simp: migrate_file_def bnd_def [of "for_m _ _"] record_version_def case_prod_unfold)
qed

lemma migrate_files_record:
  "for_m fs (migrate_file P c) s = (Inr (), t) \<Longrightarrow> set (map fst fs) \<union> set (applied s) \<subseteq> set (applied t)"
proof (induction fs arbitrary: s)
  case (Cons f fs)
  then obtain u where u: "migrate_file P c f s = (Inr (), u)" "for_m fs (migrate_file P c) u = (Inr (), t)"
    by (auto simp: bnd_def split: prod.splits sum.splits)
  from Cons.IH [OF u(2)] migrate_file_records [OF u(1)] show ?case by auto
qed (simp add: ret_def)

lemma migrate_files_again:
  assumes "set (map fst fs) \<subseteq> set (applied s)"
  shows "for_m fs (migrate_file P c) s = (Inr (), s)"
  using assms by (induction fs) (auto simp: ret_def bnd_def migrate_file_def)

lemma migrate_runs:
  assumes "migrate P env c files s = (Inr (), t)"
  shows "\<exists>u v. records_kept s u \<and> for_m (sort_key fst files) (migrate_file P c) u = (Inr (), v) \<and> records_kept v t"
proof -
  from assms obtain u where u: "on_db (run_sql P create_versions) s = (Inr (), u)"
    and rest: "bnd (for_m (sort_key fst files) (migrate_file P c)) (\<lambda>_.
      if database_mode c = ''postgres'' then ret () else grant_roles P env c) u = (Inr (), t)"
    by (auto simp: migrate_def raise_err_def bnd_def split: sum.splits prod.splits)
  from rest obtain v where v: "for_m (sort_key fst files) (migrate_file P c) u = (Inr (), v)"
    and last: "(if database_mode c = ''postgres'' then ret () else grant_roles P env c) v = (Inr (), t)"
    by (auto simp: bnd_def split: sum.splits prod.splits)
  have "keeps records_kept (if database_mode c = ''postgres'' then ret () else grant_roles P env c)"
    unfolding grant_roles_def tolerating_def by (auto intro!: records.keeps_control records_on_db)
  from keeps_run [OF this last] keeps_run [OF records_on_db u] v show ?thesis by blast
qed

lemma grants_kept: "keeps records_kept (grant_roles P env c)"
  unfolding grant_roles_def tolerating_def by (auto intro!: records.keeps_control records_on_db)

lemma migrate_completed:
  assumes "set (map fst files) \<subseteq> set (applied s)"
  shows "records_kept s (snd (migrate P env c files s))"
proof -
  obtain r v where v: "on_db (run_sql P create_versions) s = (r, v)" by fastforce
  have sv: "records_kept s v" using keeps_run [OF records_on_db v] .
  with assms have "for_m (sort_key fst files) (migrate_file P c) v = (Inr (), v)"
    by (intro migrate_files_again) (simp add: records_kept_def)
  then show ?thesis using sv v keepsD [OF grants_kept, of v P env c]
    by (auto simp: migrate_def bnd_def ret_def raise_err_def records_kept_def split: sum.splits)
qed


text \<open>A database that only keeps the statements it ran, and one migration file of two statements.\<close>

definition sample_sql :: "string list sql_port" where
  "sample_sql = \<lparr>run_sql = (\<lambda>q d. (Inr (), d @ [q])), create_index = (\<lambda>q d. (Inr None, d @ [q])),
     index_job = (\<lambda>j d. (Inr None, d)), index_valid = (\<lambda>i d. (Inr (Some True), d)),
     legacy_column = (\<lambda>d. (Inr True, d)), message_of = (\<lambda>e. [])\<rparr>"

definition sample_files :: "(string \<times> string) list" where
  "sample_files = [(''001.sql'', ''CREATE TABLE t (x INT);'' @ [CHR 0x0A] @ ''CREATE INDEX t_x ON t (x);'')]"


end
