(* ===== verification/Local_Queue.thy ===== *)
theory Local_Queue
  imports Json_Text
begin

text \<open>
  \<^verbatim>\<open>testing/local_queue.py\<close>: the queue that stands for SQS in local runs. A message is delivered until its handler succeeds,
  hidden for the visibility timeout after each receipt, and set aside after too many receipts. Time is logical. The handler is
  a parameter that acts on a world of its own; with its answer comes what anybody sent to the queue while it ran. The deliveries of a
  batch are modelled one after the other, in the order in which the pool got them.
\<close>

section \<open>The queue\<close>

datatype message_state = MVisible | MInflight | MDeleted | MDlq

record message =
  m_id :: string
  m_body :: string
  m_count :: nat
  m_visible_at :: int
  m_state :: message_state

record outcome =
  o_id :: string
  o_count :: nat
  o_status :: string
  o_error :: "string option"

record 'w local_queue =
  q_now :: int
  q_counter :: nat
  q_messages :: "message list"
  q_history :: "outcome list"
  q_world :: 'w

record 'w queue_setup =
  q_handler :: "message \<Rightarrow> 'w \<Rightarrow> (error + string list) \<times> string list \<times> 'w"
  q_timeout :: int
  q_max_receives :: nat
  q_after :: "'w \<Rightarrow> 'w"
  q_text :: "error \<Rightarrow> string"

definition empty_queue :: "'w \<Rightarrow> 'w local_queue" where
  "empty_queue w = \<lparr>q_now = 0, q_counter = 0, q_messages = [], q_history = [], q_world = w\<rparr>"

definition message_name :: "nat \<Rightarrow> string" where
  "message_name n = ''local-sqs-'' @ show_nat n"

definition send_raw :: "string \<Rightarrow> 'w local_queue \<Rightarrow> string \<times> 'w local_queue" where
  "send_raw body q = (let n = q_counter q + 1 in
     (message_name n, q\<lparr>q_counter := n, q_messages := q_messages q @
        [\<lparr>m_id = message_name n, m_body = body, m_count = 0, m_visible_at = q_now q, m_state = MVisible\<rparr>]\<rparr>))"

definition duplicate :: "string \<Rightarrow> 'w local_queue \<Rightarrow> (error + string) \<times> 'w local_queue" where
  "duplicate i q = (case find (\<lambda>m. m_id m = i) (q_messages q) of
     None \<Rightarrow> (Inl (ValueError (''Unknown queue message: '' @ i)), q)
   | Some m \<Rightarrow> (case send_raw (m_body m) q of (n, q') \<Rightarrow> (Inr n, q')))"

definition refresh :: "int \<Rightarrow> message \<Rightarrow> message" where
  "refresh now m = (if m_state m = MInflight \<and> m_visible_at m \<le> now then m\<lparr>m_state := MVisible\<rparr> else m)"

definition refresh_visibility :: "'w local_queue \<Rightarrow> 'w local_queue" where
  "refresh_visibility q = q\<lparr>q_messages := map (refresh (q_now q)) (q_messages q)\<rparr>"

definition advance_time :: "int \<Rightarrow> 'w local_queue \<Rightarrow> (error + unit) \<times> 'w local_queue" where
  "advance_time seconds q =
     (if seconds < 0 then (Inl (ValueError ''Logical time cannot move backwards''), q)
      else (Inr (), refresh_visibility (q\<lparr>q_now := q_now q + seconds\<rparr>)))"

definition take_message :: "int \<Rightarrow> message \<Rightarrow> message" where
  "take_message until m = m\<lparr>m_count := m_count m + 1, m_state := MInflight, m_visible_at := until\<rparr>"

text \<open>The loop of \<open>_receive_batch\<close>: the messages after it, what was received, and what was set aside.\<close>

fun receive_from :: "nat \<Rightarrow> int \<Rightarrow> nat \<Rightarrow> message list \<Rightarrow> message list \<times> message list \<times> outcome list" where
  "receive_from most until room [] = ([], [], [])"
| "receive_from most until room (m # ms) =
     (if room = 0 then (m # ms, [], [])
      else if m_state m \<noteq> MVisible then
        (case receive_from most until room ms of (ns, got, moved) \<Rightarrow> (m # ns, got, moved))
      else if most \<le> m_count m then
        (case receive_from most until room ms of (ns, got, moved) \<Rightarrow>
           (m\<lparr>m_state := MDlq\<rparr> # ns, got, \<lparr>o_id = m_id m, o_count = m_count m, o_status = ''dlq'', o_error = None\<rparr> # moved))
      else
        (case receive_from most until (room - 1) ms of (ns, got, moved) \<Rightarrow> (take_message until m # ns, take_message until m # got, moved)))"

definition receive_batch :: "'w queue_setup \<Rightarrow> nat \<Rightarrow> 'w local_queue \<Rightarrow> message list \<times> bool \<times> 'w local_queue" where
  "receive_batch S room q = (let q = refresh_visibility q in
     case receive_from (q_max_receives S) (q_now q + q_timeout S) room (q_messages q) of
       (ns, got, moved) \<Rightarrow> (got, moved \<noteq> [], q\<lparr>q_messages := ns, q_history := q_history q @ moved\<rparr>))"

fun update_first :: "('a \<Rightarrow> bool) \<Rightarrow> ('a \<Rightarrow> 'a) \<Rightarrow> 'a list \<Rightarrow> 'a list" where
  "update_first P f [] = []"
| "update_first P f (x # xs) = (if P x then f x # xs else x # update_first P f xs)"

definition deliver_message :: "'w queue_setup \<Rightarrow> message \<Rightarrow> 'w local_queue \<Rightarrow> 'w local_queue" where
  "deliver_message S m q = (case q_handler S m (q_world q) of (answer, sent, w) \<Rightarrow>
     let failed = (case answer of Inl e \<Rightarrow> True | Inr ids \<Rightarrow> m_id m \<in> set ids);
         err = (case answer of Inl e \<Rightarrow> if q_text S e = [] then None else Some (q_text S e) | Inr ids \<Rightarrow> None);
         q = fold (\<lambda>body q. snd (send_raw body q)) sent (q\<lparr>q_world := w\<rparr>)
     in q\<lparr>q_messages := update_first (\<lambda>x. m_id x = m_id m) (m_state_update (\<lambda>_. if failed then MInflight else MDeleted)) (q_messages q),
          q_history := q_history q @ [\<lparr>o_id = m_id m, o_count = m_count m,
            o_status = if failed then ''failed'' else ''completed'', o_error = err\<rparr>],
          q_world := if failed then q_world q else q_after S (q_world q)\<rparr>)"

text \<open>What \<open>drain\<close> has left to set aside, by which its loop ends also when it receives nothing.\<close>

definition visible_count :: "'w local_queue \<Rightarrow> nat" where
  "visible_count q = length (filter (\<lambda>m. m_state m = MVisible) (map (refresh (q_now q)) (q_messages q)))"

lemma receive_from_visible:
  "receive_from most until room ms = (ns, [], moved) \<Longrightarrow>
   length (filter (\<lambda>m. m_state m = MVisible) ns) + length moved = length (filter (\<lambda>m. m_state m = MVisible) ms)"
  by (induction most until room ms arbitrary: ns moved rule: receive_from.induct)
     (auto split: if_splits prod.splits simp: Let_def)

lemma receive_from_inflight:
  "receive_from most until room ms = (ns, got, moved) \<Longrightarrow> m \<in> set ns \<Longrightarrow> m \<in> set ms \<or> m \<in> set got \<or> m_state m = MDlq"
  by (induction most until room ms arbitrary: ns got moved rule: receive_from.induct)
     (auto split: if_splits prod.splits simp: Let_def)

lemma take_message_simps [simp]: "m_id (take_message until m) = m_id m" "m_state (take_message until m) = MInflight"
  "m_count (take_message until m) = Suc (m_count m)"
  by (simp_all add: take_message_def)

lemma refresh_twice [simp]: "refresh now (refresh now m) = refresh now m"
  by (simp add: refresh_def)

lemma refresh_fixed: "m_state m = MDlq \<Longrightarrow> refresh now m = m"
  by (simp add: refresh_def)

lemma receive_batch_nothing:
  assumes "receive_batch S room q = ([], True, q')"
  shows "visible_count q' < visible_count q"
proof -
  obtain ns moved where run: "receive_from (q_max_receives S) (q_now q + q_timeout S) room (map (refresh (q_now q)) (q_messages q))
      = (ns, [], moved)" and moved: "moved \<noteq> []"
    and q': "q' = (refresh_visibility q)\<lparr>q_messages := ns, q_history := q_history q @ moved\<rparr>"
    using assms by (auto simp: receive_batch_def Let_def refresh_visibility_def split: prod.splits)
  have "map (refresh (q_now q)) ns = ns"
    using receive_from_inflight [OF run] by (intro map_idI) (fastforce simp: refresh_fixed)
  then have "visible_count q' = length (filter (\<lambda>m. m_state m = MVisible) ns)"
    by (simp add: visible_count_def q' refresh_visibility_def)
  with receive_from_visible [OF run] moved show ?thesis unfolding visible_count_def [of q] by (cases moved) simp_all
qed

text \<open>The loop of \<open>drain\<close>, with the number of messages it has processed; it ends for every handler.\<close>

function drain_loop :: "'w queue_setup \<Rightarrow> nat \<Rightarrow> nat \<Rightarrow> nat \<Rightarrow> 'w local_queue \<Rightarrow> nat \<times> 'w local_queue" where
  "drain_loop S most workers processed q =
     (if processed < most then
        (case receive_batch S (min workers (most - processed)) q of (batch, moved, t) \<Rightarrow>
           if batch = [] then (if moved then drain_loop S most workers processed t else (processed, t))
           else drain_loop S most workers (processed + length batch) (fold (deliver_message S) batch t))
      else (processed, q))"
  by pat_completeness auto
termination
  by (relation "(\<lambda>(S, most, workers, processed, q). most - processed) <*mlex*> measure (\<lambda>(S, most, workers, processed, q). visible_count q)")
     (auto simp: wf_mlex mlex_iff intro: receive_batch_nothing simp flip: length_greater_0_conv)

declare drain_loop.simps [simp del]

definition drain :: "'w queue_setup \<Rightarrow> nat \<Rightarrow> nat \<Rightarrow> 'w local_queue \<Rightarrow> (error + unit) \<times> 'w local_queue" where
  "drain S most workers q =
     (if workers = 0 then (Inl (ValueError ''max_workers must be greater than 0''), q)
      else (Inr (), refresh_visibility (snd (drain_loop S most workers 0 q))))"

definition reset_queue :: "'w local_queue \<Rightarrow> 'w local_queue" where
  "reset_queue q = q\<lparr>q_now := 0, q_counter := 0, q_messages := [], q_history := []\<rparr>"

section \<open>Every receipt has one outcome\<close>

text \<open>The receipts of a message in the history, and the history of a message in each state. \<open>pend\<close> holds the messages that are being delivered.\<close>

definition tries :: "string \<Rightarrow> outcome list \<Rightarrow> (nat \<times> string) list" where
  "tries i h = map (\<lambda>x. (o_count x, o_status x)) (filter (\<lambda>x. o_id x = i) h)"

definition failures :: "nat \<Rightarrow> (nat \<times> string) list" where
  "failures k = map (\<lambda>n. (n, ''failed'')) [1..<Suc k]"

definition message_ok :: "nat \<Rightarrow> string set \<Rightarrow> outcome list \<Rightarrow> message \<Rightarrow> bool" where
  "message_ok most pend h m = (m_count m \<le> most \<and>
     (if m_id m \<in> pend then m_state m = MInflight \<and> 1 \<le> m_count m \<and> tries (m_id m) h = failures (m_count m - 1)
      else (case m_state m of
        MDeleted \<Rightarrow> 1 \<le> m_count m \<and> tries (m_id m) h = failures (m_count m - 1) @ [(m_count m, ''completed'')]
      | MDlq \<Rightarrow> m_count m = most \<and> tries (m_id m) h = failures (m_count m) @ [(m_count m, ''dlq'')]
      | _ \<Rightarrow> tries (m_id m) h = failures (m_count m))))"

definition message_names :: "nat \<Rightarrow> string list" where
  "message_names n = map message_name [1..<Suc n]"

definition queue_ok :: "nat \<Rightarrow> string set \<Rightarrow> 'w local_queue \<Rightarrow> bool" where
  "queue_ok most pend q =
     (map m_id (q_messages q) = message_names (q_counter q)
      \<and> list_all (message_ok most pend (q_history q)) (q_messages q)
      \<and> set (map o_id (q_history q)) \<union> pend \<subseteq> set (message_names (q_counter q)))"

lemma tries_simps [simp]:
  "tries i [] = []" "tries i (x # h) = (if o_id x = i then [(o_count x, o_status x)] else []) @ tries i h"
  "tries i (h @ k) = tries i h @ tries i k"
  by (simp_all add: tries_def)

lemma tries_fresh: "i \<notin> set (map o_id h) \<Longrightarrow> tries i h = []"
  by (induction h) auto

lemma failures_simps [simp]: "failures 0 = []" "failures (Suc k) = failures k @ [(Suc k, ''failed'')]"
  by (simp_all add: failures_def)

lemma message_name_inj: "inj message_name"
  by (rule injI) (metis append_same_eq message_name_def same_append_eq show_nat_value)

lemma message_names_simps [simp]: "message_names 0 = []" "message_names (Suc n) = message_names n @ [message_name (Suc n)]"
  by (simp_all add: message_names_def)

lemma message_names_distinct: "distinct (message_names n)" "message_name (Suc n) \<notin> set (message_names n)"
  by (auto simp: message_names_def distinct_map inj_on_def simp del: upt_Suc dest: injD [OF message_name_inj])

lemma queue_ids: "queue_ok most pend q \<Longrightarrow> distinct (map m_id (q_messages q))"
  by (simp add: queue_ok_def message_names_distinct)

lemma send_raw_ok:
  assumes "queue_ok most pend q"
  shows "queue_ok most pend (snd (send_raw body q))"
proof -
  have sub: "set (map o_id (q_history q)) \<union> pend \<subseteq> set (message_names (q_counter q))" using assms by (simp add: queue_ok_def)
  with message_names_distinct(2) [of "q_counter q"] have "message_name (Suc (q_counter q)) \<notin> set (map o_id (q_history q))" "message_name (Suc (q_counter q)) \<notin> pend" by blast+
  then have "message_ok most pend (q_history q)
      \<lparr>m_id = message_name (Suc (q_counter q)), m_body = body, m_count = 0, m_visible_at = q_now q, m_state = MVisible\<rparr>"
    by (simp add: message_ok_def tries_fresh)
  with assms sub show ?thesis by (auto simp: queue_ok_def send_raw_def Let_def)
qed

lemma send_raw_kept: "set (q_messages q) \<subseteq> set (q_messages (snd (send_raw body q)))"
  by (auto simp: send_raw_def Let_def)

lemma sends_ok:
  "queue_ok most pend q \<Longrightarrow> queue_ok most pend (fold (\<lambda>body q. snd (send_raw body q)) sent q)
   \<and> set (q_messages q) \<subseteq> set (q_messages (fold (\<lambda>body q. snd (send_raw body q)) sent q))"
proof (induction sent arbitrary: q)
  case (Cons body sent)
  from Cons.IH [OF send_raw_ok [OF Cons.prems]] send_raw_kept [of q body] show ?case by auto
qed simp

lemma refresh_id [simp]: "m_id (refresh now m) = m_id m"
  by (simp add: refresh_def)

lemma message_ok_refresh: "message_ok most {} h m \<Longrightarrow> message_ok most {} h (refresh now m)"
  by (auto simp: message_ok_def refresh_def)

lemma refresh_ok: "queue_ok most {} q \<Longrightarrow> queue_ok most {} (refresh_visibility q)"
  by (auto simp: queue_ok_def refresh_visibility_def list.pred_map list_all_iff message_ok_refresh comp_def)

text \<open>What a receipt does to each message.\<close>

definition received :: "nat \<Rightarrow> int \<Rightarrow> message list \<Rightarrow> outcome list \<Rightarrow> message \<Rightarrow> message \<Rightarrow> bool" where
  "received most until got moved m n =
     ((n = m \<and> m_id m \<notin> m_id ` set got \<and> tries (m_id m) moved = [])
      \<or> (n = m\<lparr>m_state := MDlq\<rparr> \<and> m_state m = MVisible \<and> most \<le> m_count m \<and> m_id m \<notin> m_id ` set got
          \<and> tries (m_id m) moved = [(m_count m, ''dlq'')])
      \<or> (n = take_message until m \<and> m_state m = MVisible
          \<and> m_count m < most \<and> n \<in> set got \<and> tries (m_id m) moved = []))"

lemma received_more:
  "received most until got moved m n \<Longrightarrow> m_id x \<noteq> m_id m \<Longrightarrow> received most until (x # got) moved m n"
  "received most until got moved m n \<Longrightarrow> o_id y \<noteq> m_id m \<Longrightarrow> received most until got (y # moved) m n"
  by (auto simp: received_def)

lemma receive_from_ids: "receive_from most until room ms = (ns, got, moved) \<Longrightarrow> map m_id ns = map m_id ms"
  by (induction most until room ms arbitrary: ns got moved rule: receive_from.induct)
     (auto split: if_splits prod.splits simp: Let_def)

lemma receive_from_got: "receive_from most until room ms = (ns, got, moved) \<Longrightarrow> set got \<subseteq> set ns"
  by (induction most until room ms arbitrary: ns got moved rule: receive_from.induct)
     (auto split: if_splits prod.splits simp: Let_def)

lemma receive_from_moved: "receive_from most until room ms = (ns, got, moved) \<Longrightarrow> x \<in> set moved \<Longrightarrow> o_id x \<in> m_id ` set ms"
  by (induction most until room ms arbitrary: ns got moved rule: receive_from.induct)
     (auto split: if_splits prod.splits simp: Let_def)

lemma receive_from_cases:
  assumes "receive_from most until room ms = (ns, got, moved)" "distinct (map m_id ms)"
  shows "distinct (map m_id got) \<and> (\<forall>(m, n) \<in> set (zip ms ns). received most until got moved m n)"
  using assms
proof (induction most until room ms arbitrary: ns got moved rule: receive_from.induct)
  case (2 most until room m ms)
  have dist: "m_id m \<notin> m_id ` set ms" "distinct (map m_id ms)" using 2(5) by simp_all
  have new: "m_id m \<noteq> m_id x" if "(x, n) \<in> set (zip ms ns')" for x n ns'
    using dist(1) set_zip_leftD [OF that] by (metis imageI)
  have head: "m_id m \<notin> m_id ` set got'" "tries (m_id m) moved' = []"
    if "receive_from most until room' ms = (ns', got', moved')" for room' ns' got' moved'
  proof -
    have "set (map m_id got') \<subseteq> set (map m_id ms)"
      using receive_from_got [OF that] receive_from_ids [OF that] by (metis image_mono set_map)
    with dist(1) show "m_id m \<notin> m_id ` set got'" by auto
    show "tries (m_id m) moved' = []" using receive_from_moved [OF that] dist(1) by (intro tries_fresh) auto
  qed
  note IH = 2(1-3) and run = 2(4)
  consider "room = 0" | "room \<noteq> 0" "m_state m \<noteq> MVisible" | "room \<noteq> 0" "m_state m = MVisible" "most \<le> m_count m"
    | "room \<noteq> 0" "m_state m = MVisible" "m_count m < most" by linarith
  then show ?case
  proof cases
    case 1
    with run show ?thesis by (auto simp: received_def in_set_zip)
  next
    case 2
    with run obtain ns' where r: "receive_from most until room ms = (ns', got, moved)" "ns = m # ns'" by (auto split: prod.splits)
    from IH(1) [OF 2 r(1) dist(2)] head [OF r(1)] show ?thesis by (simp add: r(2) received_def [of _ _ _ _ m])
  next
    case 3
    with run obtain ns' moved' where r: "receive_from most until room ms = (ns', got, moved')" "ns = m\<lparr>m_state := MDlq\<rparr> # ns'"
      and moved: "moved = \<lparr>o_id = m_id m, o_count = m_count m, o_status = ''dlq'', o_error = None\<rparr> # moved'" by (auto split: prod.splits)
    have "received most until got moved m (m\<lparr>m_state := MDlq\<rparr>)" using 3 head [OF r(1)] by (simp add: received_def moved)
    with IH(2) [OF 3(1) _ 3(3) r(1) dist(2)] 3 show ?thesis by (auto simp: r(2) moved intro!: received_more dest: new)
  next
    case 4
    with run obtain ns' got' where r: "receive_from most until (room - 1) ms = (ns', got', moved)" "ns = take_message until m # ns'"
      and got: "got = take_message until m # got'" by (auto split: prod.splits)
    have "received most until got moved m (take_message until m)" using 4 head [OF r(1)] by (simp add: received_def got)
    with IH(3) [OF 4(1) _ _ r(1) dist(2)] 4 head [OF r(1)] show ?thesis by (auto simp: r(2) got intro!: received_more dest: new)
  qed
qed simp

lemma received_ok:
  assumes "received most until got moved m n" "message_ok most {} h m"
  shows "message_ok most (m_id ` set got) (h @ moved) n"
proof -
  have "m_id m \<in> m_id ` set got" if "take_message until m \<in> set got" using that by (metis imageI take_message_simps(1))
  with assms show ?thesis unfolding received_def
    by (elim disjE) (auto simp: message_ok_def split: message_state.splits)
qed

lemma receive_batch_ok:
  assumes "queue_ok (q_max_receives S) {} q" "receive_batch S room q = (got, moved, t)"
  shows "queue_ok (q_max_receives S) (m_id ` set got) t \<and> distinct (map m_id got) \<and> set got \<subseteq> set (q_messages t)"
proof -
  let ?q = "refresh_visibility q" and ?M = "q_max_receives S"
  have ok: "queue_ok ?M {} ?q" using assms(1) by (rule refresh_ok)
  obtain ns out where run: "receive_from ?M (q_now ?q + q_timeout S) room (q_messages ?q) = (ns, got, out)"
    and t: "t = ?q\<lparr>q_messages := ns, q_history := q_history ?q @ out\<rparr>"
    using assms(2) by (auto simp: receive_batch_def Let_def split: prod.splits)
  note cases = receive_from_cases [OF run queue_ids [OF ok]] and ids = receive_from_ids [OF run] and got = receive_from_got [OF run]
  have each: "message_ok ?M (m_id ` set got) (q_history ?q @ out) n" if "n \<in> set ns" for n
  proof -
    have "length ns = length (q_messages ?q)" using ids by (metis length_map)
    with that obtain m where mn: "(m, n) \<in> set (zip (q_messages ?q) ns)" by (metis in_set_impl_in_set_zip2)
    with cases have "received ?M (q_now ?q + q_timeout S) got out m n" by auto
    moreover have "message_ok ?M {} (q_history ?q) m" using ok set_zip_leftD [OF mn] by (auto simp: queue_ok_def list_all_iff)
    ultimately show ?thesis by (rule received_ok)
  qed
  have names: "set (map m_id ns) = set (message_names (q_counter ?q))" using ok ids by (simp add: queue_ok_def)
  have "m_id ` set got \<subseteq> set (message_names (q_counter ?q))" using got names by auto
  moreover have "o_id ` set out \<subseteq> set (message_names (q_counter ?q))" using receive_from_moved [OF run] names ids by auto
  ultimately have "queue_ok ?M (m_id ` set got) t" using ok ids each by (auto simp: queue_ok_def t list_all_iff)
  with cases got show ?thesis by (simp add: t)
qed

lemma update_first_map:
  "distinct (map m_id ms) \<Longrightarrow> update_first (\<lambda>x. m_id x = i) f ms = map (\<lambda>x. if m_id x = i then f x else x) ms"
  by (induction ms) (auto intro!: map_idI [symmetric] simp: rev_image_eqI)

lemma message_ok_delivered:
  assumes "message_ok most pend h m" "m_id m \<in> pend" "x = \<lparr>o_id = m_id m, o_count = m_count m, o_status = st, o_error = e\<rparr>"
    "failed \<Longrightarrow> st = ''failed''" "\<not> failed \<Longrightarrow> st = ''completed''"
  shows "message_ok most (pend - {m_id m}) (h @ [x]) (m\<lparr>m_state := if failed then MInflight else MDeleted\<rparr>)"
  using assms by (cases "m_count m") (auto simp: message_ok_def)

lemma message_ok_other:
  "message_ok most pend h n \<Longrightarrow> m_id n \<noteq> i \<Longrightarrow> o_id x = i \<Longrightarrow> message_ok most (pend - {i}) (h @ [x]) n"
  by (auto simp: message_ok_def split: message_state.splits if_splits)

lemma deliver_ok:
  assumes ok: "queue_ok most pend q" and m: "m \<in> set (q_messages q)" "m_id m \<in> pend"
  shows "queue_ok most (pend - {m_id m}) (deliver_message S m q)
    \<and> (\<forall>n \<in> set (q_messages q). m_id n \<noteq> m_id m \<longrightarrow> n \<in> set (q_messages (deliver_message S m q)))"
proof -
  obtain answer sent w where h: "q_handler S m (q_world q) = (answer, sent, w)" by (metis prod_cases3)
  define failed where "failed = (case answer of Inl e \<Rightarrow> True | Inr ids \<Rightarrow> m_id m \<in> set ids)"
  define err where "err = (case answer of Inl e \<Rightarrow> if q_text S e = [] then None else Some (q_text S e) | Inr ids \<Rightarrow> None)"
  define t where "t = fold (\<lambda>body q. snd (send_raw body q)) sent (q\<lparr>q_world := w\<rparr>)"
  define x where "x = \<lparr>o_id = m_id m, o_count = m_count m, o_status = if failed then ''failed'' else ''completed'', o_error = err\<rparr>"
  define f where "f = (\<lambda>n :: message. if m_id n = m_id m then n\<lparr>m_state := if failed then MInflight else MDeleted\<rparr> else n)"
  have "queue_ok most pend (q\<lparr>q_world := w\<rparr>)" using ok by (simp add: queue_ok_def)
  from sends_ok [OF this, of sent] have t: "queue_ok most pend t" "set (q_messages q) \<subseteq> set (q_messages t)" by (simp_all add: t_def)
  have new: "deliver_message S m q = t\<lparr>q_messages := map f (q_messages t), q_history := q_history t @ [x],
      q_world := if failed then q_world t else q_after S (q_world t)\<rparr>"
    using queue_ids [OF t(1)] by (simp add: deliver_message_def h Let_def update_first_map f_def x_def flip: failed_def err_def t_def)
  have same: "n = m" if "n \<in> set (q_messages t)" "m_id n = m_id m" for n
    using that queue_ids [OF t(1)] m t(2) by (auto simp: distinct_map dest: inj_onD)
  have "message_ok most (pend - {m_id m}) (q_history t @ [x]) (f n)" if n: "n \<in> set (q_messages t)" for n
  proof (cases "m_id n = m_id m")
    case True
    with n have nm: "n = m" using same by blast
    with n t(1) have "message_ok most pend (q_history t) m" by (auto simp: queue_ok_def list_all_iff)
    from message_ok_delivered [OF this m(2) x_def, of failed] show ?thesis by (simp add: nm f_def)
  next
    case False
    with n t(1) show ?thesis by (auto simp: queue_ok_def list_all_iff f_def x_def intro!: message_ok_other)
  qed
  moreover have "m_id \<circ> f = m_id" by (auto simp: f_def)
  moreover have "o_id x \<in> set (message_names (q_counter t))" using t(1) m(2) by (auto simp: queue_ok_def x_def)
  ultimately have "queue_ok most (pend - {m_id m}) (deliver_message S m q)"
    using t(1) by (simp add: queue_ok_def new list_all_iff subset_iff)
  with t(2) show ?thesis by (auto simp: new f_def intro: rev_image_eqI)
qed

lemma deliver_batch_ok:
  assumes "queue_ok most (m_id ` set batch) q" "distinct (map m_id batch)" "set batch \<subseteq> set (q_messages q)"
  shows "queue_ok most {} (fold (deliver_message S) batch q)"
  using assms
proof (induction batch arbitrary: q)
  case (Cons m batch)
  from deliver_ok [OF Cons.prems(1), of m S] Cons.prems(3)
  have d: "queue_ok most (m_id ` set (m # batch) - {m_id m}) (deliver_message S m q)"
    "\<And>n. n \<in> set (q_messages q) \<Longrightarrow> m_id n \<noteq> m_id m \<Longrightarrow> n \<in> set (q_messages (deliver_message S m q))" by auto
  have "m_id ` set (m # batch) - {m_id m} = m_id ` set batch" using Cons.prems(2) by auto
  moreover have "set batch \<subseteq> set (q_messages (deliver_message S m q))"
  proof
    fix n assume n: "n \<in> set batch"
    then have "m_id n \<noteq> m_id m" using Cons.prems(2) by (auto simp: rev_image_eqI)
    with n Cons.prems(3) show "n \<in> set (q_messages (deliver_message S m q))" by (intro d(2)) auto
  qed
  ultimately show ?case using Cons.IH [of "deliver_message S m q"] d(1) Cons.prems(2) by simp
qed simp

lemma drain_loop_ok:
  "queue_ok (q_max_receives S) {} q \<Longrightarrow> queue_ok (q_max_receives S) {} (snd (drain_loop S most workers processed q))"
proof (induction S most workers processed q rule: drain_loop.induct)
  case (1 S most workers processed q)
  show ?case
  proof (cases "processed < most")
    case True
    obtain batch moved t where r: "receive_batch S (min workers (most - processed)) q = (batch, moved, t)" by (metis prod_cases3)
    note ok = receive_batch_ok [OF 1(3) r]
    show ?thesis
    proof (cases "batch = []")
      case True
      with ok have "queue_ok (q_max_receives S) {} t" by simp
      with True \<open>processed < most\<close> r 1(1) [OF \<open>processed < most\<close> r [symmetric] refl] show ?thesis
        by (subst drain_loop.simps) simp
    next
      case False
      with ok deliver_batch_ok [of "q_max_receives S" batch t S] \<open>processed < most\<close> r 1(2) [OF \<open>processed < most\<close> r [symmetric] refl] show ?thesis
        by (subst drain_loop.simps) simp
    qed
  qed (use 1 in \<open>subst drain_loop.simps, simp\<close>)
qed

section \<open>A drain leaves nothing visible\<close>

lemma receive_from_none:
  "receive_from most until room ms = (ns, [], []) \<Longrightarrow> 0 < room \<Longrightarrow> ns = ms \<and> list_all (\<lambda>m. m_state m \<noteq> MVisible) ms"
  by (induction most until room ms arbitrary: ns rule: receive_from.induct) (auto split: if_splits prod.splits)

lemma receive_batch_none:
  assumes "receive_batch S room q = ([], False, t)" "0 < room"
  shows "visible_count t = 0"
proof -
  let ?ms = "map (refresh (q_now q)) (q_messages q)"
  have run: "receive_from (q_max_receives S) (q_now q + q_timeout S) room ?ms = (q_messages t, [], [])" and now: "q_now t = q_now q"
    using assms(1) by (auto simp: receive_batch_def refresh_visibility_def Let_def split: prod.splits)
  from receive_from_none [OF run assms(2)] show ?thesis
    by (simp add: visible_count_def now list_all_iff filter_empty_conv)
qed

lemma receive_from_length: "receive_from most until room ms = (ns, got, moved) \<Longrightarrow> length got \<le> room"
  by (induction most until room ms arbitrary: ns got moved rule: receive_from.induct) (fastforce split: if_splits prod.splits)+

text \<open>The deliveries in a history.\<close>

definition deliveries :: "'w local_queue \<Rightarrow> nat" where
  "deliveries q = length (filter (\<lambda>x. o_status x \<noteq> ''dlq'') (q_history q))"

lemma sends_history: "q_history (fold (\<lambda>body q. snd (send_raw body q)) sent q) = q_history q"
  by (induction sent arbitrary: q) (simp_all add: send_raw_def Let_def)

lemma deliveries_deliver: "deliveries (deliver_message S m q) = Suc (deliveries q)"
  by (simp add: deliveries_def deliver_message_def Let_def sends_history split: prod.splits)

lemma deliveries_batch: "deliveries (fold (deliver_message S) batch q) = deliveries q + length batch"
  by (induction batch arbitrary: q) (simp_all add: deliveries_deliver)

lemma receive_from_dlq: "receive_from most until room ms = (ns, got, moved) \<Longrightarrow> list_all (\<lambda>x. o_status x = ''dlq'') moved"
  by (induction most until room ms arbitrary: ns got moved rule: receive_from.induct) (fastforce split: if_splits prod.splits)+

lemma receive_batch_counts:
  assumes "receive_batch S room q = (got, moved, t)"
  shows "length got \<le> room" "deliveries t = deliveries q"
  using assms receive_from_length receive_from_dlq
  by (auto simp: receive_batch_def Let_def deliveries_def refresh_visibility_def list_all_iff filter_empty_conv split: prod.splits)

lemma drain_loop_exhausts:
  assumes "0 < workers" "processed \<le> most" "drain_loop S most workers processed q = (n, t)"
  shows "n \<le> most \<and> (n = most \<or> visible_count t = 0) \<and> deliveries t + processed = deliveries q + n"
  using assms
proof (induction S most workers processed q rule: drain_loop.induct)
  case (1 S most workers processed q)
  show ?case
  proof (cases "processed < most")
    case True
    obtain batch moved u where r: "receive_batch S (min workers (most - processed)) q = (batch, moved, u)" by (metis prod_cases3)
    note counts = receive_batch_counts [OF r]
    consider "batch = []" "moved" | "batch = []" "\<not> moved" | "batch \<noteq> []" by blast
    then show ?thesis
    proof cases
      case 1
      with "1.IH"(1) [OF True r [symmetric] refl] "1.prems" True r counts show ?thesis by (simp add: drain_loop.simps [of S most workers processed q])
    next
      case 2
      with r receive_batch_none [of S "min workers (most - processed)" q u] "1.prems" True counts show ?thesis
        by (simp add: drain_loop.simps [of S most workers processed q])
    next
      case 3
      have "processed + length batch \<le> most" using counts(1) True by linarith
      with 3 "1.IH"(2) [OF True r [symmetric] refl] "1.prems" True r counts show ?thesis
        by (simp add: drain_loop.simps [of S most workers processed q] deliveries_batch)
    qed
  next
    case False
    then have "drain_loop S most workers processed q = (processed, q)" by (subst drain_loop.simps) simp
    with "1.prems" False show ?thesis by simp
  qed
qed

section \<open>Sequences of operations\<close>

datatype queue_op = QSend string | QDuplicate string | QAdvance int | QDrain nat nat | QReset

fun queue_exec :: "'w queue_setup \<Rightarrow> queue_op \<Rightarrow> 'w local_queue \<Rightarrow> 'w local_queue" where
  "queue_exec S (QSend body) q = snd (send_raw body q)"
| "queue_exec S (QDuplicate i) q = snd (duplicate i q)"
| "queue_exec S (QAdvance seconds) q = snd (advance_time seconds q)"
| "queue_exec S (QDrain most workers) q = snd (drain S most workers q)"
| "queue_exec S QReset q = reset_queue q"

lemma queue_exec_ok: "queue_ok (q_max_receives S) {} q \<Longrightarrow> queue_ok (q_max_receives S) {} (queue_exec S op q)"
proof (induction S op q rule: queue_exec.induct)
  case (2 S i q)
  then show ?case by (simp add: duplicate_def case_prod_unfold send_raw_ok split: option.splits)
next
  case (3 S seconds q)
  then have "queue_ok (q_max_receives S) {} (q\<lparr>q_now := q_now q + seconds\<rparr>)" by (simp add: queue_ok_def)
  with 3 show ?case by (simp add: advance_time_def refresh_ok)
next
  case (5 S q)
  then show ?case by (simp add: reset_queue_def queue_ok_def)
qed (simp_all add: send_raw_ok drain_def refresh_ok drain_loop_ok)


text \<open>C36: A drain of the local queue always ends, even when the handler fails or sends new messages all the time: with at least one worker it delivers
  at most the permitted number of messages, and if fewer then no message is left visible. The number is that of new deliveries in the history.\<close>

theorem drain_exhausts:
  assumes "0 < workers"
  shows "\<exists>n t. drain S most workers q = (Inr (), refresh_visibility t) \<and> n \<le> most \<and> (n < most \<longrightarrow> visible_count t = 0)
    \<and> deliveries t = deliveries q + n"
proof -
  obtain n t where run: "drain_loop S most workers 0 q = (n, t)" by fastforce
  from drain_loop_exhausts [OF assms _ run] show ?thesis
    using assms by (intro exI [of _ n] exI [of _ t]) (auto simp: drain_def run)
qed

text \<open>A handler that always fails and sends a copy of what it gets.\<close>

definition busy_setup :: "unit queue_setup" where
  "busy_setup = \<lparr>q_handler = (\<lambda>m w. (Inl TimeoutError, [m_body m], w)), q_timeout = 360, q_max_receives = 5, q_after = id, q_text = (\<lambda>e. [])\<rparr>"

theorem drain_exhausts_witness:
  "\<exists>n t. drain busy_setup 3 1 (snd (send_raw ''x'' (empty_queue ()))) = (Inr (), refresh_visibility t) \<and> n \<le> 3 \<and> deliveries t = n"
proof -
  have "deliveries (snd (send_raw ''x'' (empty_queue ()))) = 0" by (simp add: deliveries_def send_raw_def empty_queue_def Let_def)
  with drain_exhausts [of 1 busy_setup 3 "snd (send_raw ''x'' (empty_queue ()))"] show ?thesis by auto
qed

end
