(* ===== verification/Local_Bus.thy ===== *)
theory Local_Bus
  imports Outbound
begin

text \<open>
  \<^verbatim>\<open>testing/local_event_bus.py\<close>, \<^verbatim>\<open>testing/faults.py\<close>: the event bus of local runs, which delivers each event once and keeps failed deliveries for an explicit retry, and the
  fault injector. The router is a parameter that acts on a world of its own and may publish further events while it runs; the
  deliveries of a batch are modelled one after the other.
\<close>

section \<open>The bus\<close>

record bus_event =
  ev_id :: nat
  ev_source :: string
  ev_type :: string
  ev_detail :: json
  ev_attempt :: nat

record bus_record =
  br_event :: bus_event
  br_status :: string
  br_error :: "string option"

record 'w bus =
  bus_queue :: "bus_event list"
  bus_history :: "bus_record list"
  bus_failures :: "string \<Rightarrow> int"
  bus_counter :: nat
  bus_world :: 'w

record 'w bus_setup =
  bus_dispatch :: "(bus_event \<Rightarrow> 'w \<Rightarrow> error option \<times> (string \<times> string \<times> json) list \<times> 'w) option"
  bus_after :: "'w \<Rightarrow> error option \<times> 'w"
  bus_text :: "error \<Rightarrow> string"

definition empty_bus :: "'w \<Rightarrow> 'w bus" where
  "empty_bus w = \<lparr>bus_queue = [], bus_history = [], bus_failures = (\<lambda>_. 0), bus_counter = 0, bus_world = w\<rparr>"

definition bus_publish :: "string \<times> string \<times> json \<Rightarrow> 'w bus \<Rightarrow> (error + unit) \<times> 'w bus" where
  "bus_publish = (\<lambda>(source, detail_type, detail) b. case normalize_event_detail detail of
     Inl e \<Rightarrow> (Inl e, b)
   | Inr d \<Rightarrow> let n = bus_counter b + 1 in
       (Inr (), b\<lparr>bus_counter := n, bus_queue := bus_queue b @
          [\<lparr>ev_id = n, ev_source = source, ev_type = detail_type, ev_detail = d, ev_attempt = 0\<rparr>]\<rparr>))"

text \<open>What the attempt of \<open>_deliver\<close> does after the record was written: the error it ends with, if any.\<close>

definition attempt_delivery :: "'w bus_setup \<Rightarrow> bus_event \<Rightarrow> 'w bus \<Rightarrow> error option \<times> 'w bus" where
  "attempt_delivery S e b =
     (if bus_failures b (ev_type e) \<noteq> 0
      then (Some (RuntimeError (''Injected delivery failure: '' @ ev_type e)), b\<lparr>bus_failures := (bus_failures b)(ev_type e := bus_failures b (ev_type e) - 1)\<rparr>)
      else case bus_dispatch S of
        None \<Rightarrow> (Some (RuntimeError ''Local event router is not configured''), b)
      | Some f \<Rightarrow> (case f e (bus_world b) of (failed, published, w) \<Rightarrow>
          let b = fold (\<lambda>p b. snd (bus_publish p b)) published (b\<lparr>bus_world := w\<rparr>) in
          case failed of
            Some x \<Rightarrow> (Some x, b)
          | None \<Rightarrow> (case bus_after S (bus_world b) of (r, w) \<Rightarrow> (r, b\<lparr>bus_world := w\<rparr>))))"

definition bus_deliver :: "'w bus_setup \<Rightarrow> bus_event \<Rightarrow> 'w bus \<Rightarrow> 'w bus" where
  "bus_deliver S e b = (let e = e\<lparr>ev_attempt := ev_attempt e + 1\<rparr> in
     case attempt_delivery S e b of (failed, b) \<Rightarrow>
       b\<lparr>bus_history := bus_history b @ [case failed of
           None \<Rightarrow> \<lparr>br_event = e, br_status = ''completed'', br_error = None\<rparr>
         | Some x \<Rightarrow> \<lparr>br_event = e, br_status = ''failed'', br_error = Some (bus_text S x)\<rparr>]\<rparr>)"

function bus_drain_loop :: "'w bus_setup \<Rightarrow> nat \<Rightarrow> nat \<Rightarrow> nat \<Rightarrow> 'w bus \<Rightarrow> nat \<times> 'w bus" where
  "bus_drain_loop S most workers processed b =
     (let k = min workers (min (length (bus_queue b)) (most - processed)) in
      if most \<le> processed \<or> k = 0 then (processed, b)
      else bus_drain_loop S most workers (processed + k)
             (fold (bus_deliver S) (take k (bus_queue b)) (b\<lparr>bus_queue := drop k (bus_queue b)\<rparr>)))"
  by pat_completeness auto
termination by (relation "measure (\<lambda>(S, most, workers, processed, b). most - processed)") (auto simp: Let_def simp flip: length_greater_0_conv)

declare bus_drain_loop.simps [simp del]

definition bus_drain :: "'w bus_setup \<Rightarrow> nat \<Rightarrow> nat \<Rightarrow> 'w bus \<Rightarrow> (error + unit) \<times> 'w bus" where
  "bus_drain S most workers b =
     (if workers = 0 then (Inl (ValueError ''max_workers must be greater than 0''), b)
      else (Inr (), snd (bus_drain_loop S most workers 0 b)))"

text \<open>\<open>retry\<close> looks for the last record of the event and marks it in place.\<close>

fun update_last :: "('a \<Rightarrow> bool) \<Rightarrow> ('a \<Rightarrow> 'a) \<Rightarrow> 'a list \<Rightarrow> 'a list" where
  "update_last P f [] = []"
| "update_last P f (x # xs) = (if list_ex P xs then x # update_last P f xs else if P x then f x # xs else x # xs)"

definition last_record :: "nat \<Rightarrow> bus_record list \<Rightarrow> bus_record option" where
  "last_record i h = find (\<lambda>r. ev_id (br_event r) = i) (rev h)"

definition bus_retry :: "nat \<Rightarrow> 'w bus \<Rightarrow> (error + unit) \<times> 'w bus" where
  "bus_retry i b = (case last_record i (bus_history b) of
     None \<Rightarrow> (Inl (RuntimeError ''StopIteration''), b)
   | Some r \<Rightarrow>
       if br_status r \<noteq> ''failed'' then (Inl (ValueError ''Only failed deliveries can be retried''), b)
       else (Inr (), b\<lparr>bus_queue := bus_queue b @ [br_event r],
         bus_history := update_last (\<lambda>r. ev_id (br_event r) = i) (\<lambda>r. r\<lparr>br_status := ''retried''\<rparr>) (bus_history b)\<rparr>))"

definition bus_reset :: "'w bus \<Rightarrow> 'w bus" where
  "bus_reset b = b\<lparr>bus_queue := [], bus_history := [], bus_failures := (\<lambda>_. 0), bus_counter := 0\<rparr>"

section \<open>The fault injector\<close>

record fault_rule =
  fr_point :: string
  fr_key :: string
  fr_behavior :: string
  fr_remaining :: int
  fr_entered :: int
  fr_gate :: bool

definition arm :: "string \<Rightarrow> string \<Rightarrow> string \<Rightarrow> int \<Rightarrow> fault_rule list \<Rightarrow> (error + unit) \<times> fault_rule list" where
  "arm point key behavior visits rules =
     (if behavior \<notin> {''raise'', ''pause''} then (Inl (ValueError ''Fault behavior must be raise or pause''), rules)
      else (Inr (), rules @ [\<lparr>fr_point = point, fr_key = key, fr_behavior = behavior, fr_remaining = visits, fr_entered = 0, fr_gate = False\<rparr>]))"

definition applies :: "string \<Rightarrow> string \<Rightarrow> fault_rule \<Rightarrow> bool" where
  "applies point key r = (fr_point r = point \<and> (fr_key r = [] \<or> fr_key r = key) \<and> 0 < fr_remaining r)"

fun use_rule :: "(fault_rule \<Rightarrow> bool) \<Rightarrow> fault_rule list \<Rightarrow> fault_rule option \<times> fault_rule list" where
  "use_rule P [] = (None, [])"
| "use_rule P (r # rs) =
     (if P r then (Some r, r\<lparr>fr_remaining := fr_remaining r - 1, fr_entered := fr_entered r + 1\<rparr> # rs)
      else (case use_rule P rs of (u, rs') \<Rightarrow> (u, r # rs')))"

text \<open>\<open>opened\<close> says whether the gate opens within the 20 seconds that a pause waits for it.\<close>

definition hit :: "bool \<Rightarrow> string \<Rightarrow> string \<Rightarrow> fault_rule list \<Rightarrow> (error + unit) \<times> fault_rule list" where
  "hit opened point key rules = (case use_rule (applies point key) rules of
     (None, _) \<Rightarrow> (Inr (), rules)
   | (Some r, rs) \<Rightarrow>
       if fr_behavior r = ''raise'' then (Inl (RuntimeError (''Injected fault: '' @ point)), rs)
       else if \<not> (fr_gate r \<or> opened) then (Inl (RuntimeError (''Fault barrier timed out: '' @ point)), rs)
       else (Inr (), rs))"

definition release :: "string \<Rightarrow> string \<Rightarrow> fault_rule list \<Rightarrow> fault_rule list" where
  "release point key = map (\<lambda>r. if fr_point r = point \<and> fr_key r = key then r\<lparr>fr_gate := True\<rparr> else r)"

text \<open>A rule that was armed \<open>k\<close> times makes exactly the next \<open>k\<close> visits of its point fail.\<close>

lemma armed_rule_fires:
  assumes "list_all (\<lambda>r. fr_point r \<noteq> point) rules" "snd (arm point key ''raise'' (int k) rules) = armed"
  shows "map (\<lambda>n. isl (fst (hit opened point key (((\<lambda>rs. snd (hit opened point key rs)) ^^ n) armed)))) [0..<k + m] = replicate k True @ replicate m False"
proof -
  define rule where "rule j = \<lparr>fr_point = point, fr_key = key, fr_behavior = ''raise'', fr_remaining = int k - int j, fr_entered = int j, fr_gate = False\<rparr>" for j
  have use: "use_rule P (rs @ [r]) = (if P r then (Some r, rs @ [r\<lparr>fr_remaining := fr_remaining r - 1, fr_entered := fr_entered r + 1\<rparr>]) else (None, rs @ [r]))"
    if "list_all (\<lambda>r. \<not> P r) rs" for P and rs :: "fault_rule list" and r
    using that by (induction rs) auto
  have none: "list_all (\<lambda>r. \<not> applies point key r) rules" using assms(1) by (auto simp: list_all_iff applies_def)
  have step: "hit opened point key (rules @ [rule j]) =
      (if j < k then (Inl (RuntimeError (''Injected fault: '' @ point)), rules @ [rule (Suc j)]) else (Inr (), rules @ [rule j]))" for j
    by (auto simp: hit_def use [OF none] applies_def rule_def)
  have "((\<lambda>rs. snd (hit opened point key rs)) ^^ n) armed = rules @ [rule (min n k)]" for n
    using assms(2) by (induction n) (auto simp: arm_def rule_def [of 0] step min_def le_Suc_eq)
  then show ?thesis by (intro nth_equalityI) (auto simp: step nth_append)
qed

section \<open>The story of an event\<close>

text \<open>An event waits, after as many retried deliveries as it had attempts; or its last delivery has ended. \<open>transit\<close> holds the events that were taken
  from the queue and are not delivered yet.\<close>

definition events_of :: "nat \<Rightarrow> bus_event list \<Rightarrow> bus_event list" where
  "events_of i = filter (\<lambda>e. ev_id e = i)"

definition records_of :: "nat \<Rightarrow> bus_record list \<Rightarrow> bus_record list" where
  "records_of i = filter (\<lambda>r. ev_id (br_event r) = i)"

definition retried :: "bus_record \<Rightarrow> bool" where
  "retried r = (br_status r = ''retried'')"

definition story_ok :: "bus_event list \<Rightarrow> bus_record list \<Rightarrow> bool" where
  "story_ok es h = (map (\<lambda>r. ev_attempt (br_event r)) h = [1..<Suc (length h)] \<and>
     (case es of
        [] \<Rightarrow> h \<noteq> [] \<and> list_all retried (butlast h) \<and> br_status (last h) \<in> {''completed'', ''failed''}
      | [e] \<Rightarrow> list_all retried h \<and> ev_attempt e = length h
      | _ \<Rightarrow> False))"

definition bus_ok :: "bus_event list \<Rightarrow> 'w bus \<Rightarrow> bool" where
  "bus_ok transit b =
     ((\<forall>i. 1 \<le> i \<and> i \<le> bus_counter b \<longrightarrow> story_ok (events_of i (transit @ bus_queue b)) (records_of i (bus_history b)))
      \<and> list_all (\<lambda>e. 1 \<le> ev_id e \<and> ev_id e \<le> bus_counter b) (transit @ bus_queue b @ map br_event (bus_history b)))"

lemma bus_publish_ok:
  assumes "bus_ok transit b"
  shows "bus_ok transit (snd (bus_publish p b))"
proof (cases "\<exists>d. normalize_event_detail (snd (snd p)) = Inr d")
  case True
  then obtain d where d: "normalize_event_detail (snd (snd p)) = Inr d" ..
  define n where "n = Suc (bus_counter b)"
  define e where "e = \<lparr>ev_id = n, ev_source = fst p, ev_type = fst (snd p), ev_detail = d, ev_attempt = 0\<rparr>"
  have new: "snd (bus_publish p b) = b\<lparr>bus_counter := n, bus_queue := bus_queue b @ [e]\<rparr>"
    by (simp add: bus_publish_def case_prod_unfold d Let_def n_def e_def)
  have fresh: "events_of n (transit @ bus_queue b) = []" "records_of n (bus_history b) = []"
    using assms by (force simp: bus_ok_def events_of_def records_of_def filter_empty_conv list_all_iff n_def)+
  have "story_ok (events_of i (transit @ bus_queue b @ [e])) (records_of i (bus_history b))" if i: "1 \<le> i" "i \<le> n" for i
  proof (cases "i = n")
    case True
    with fresh show ?thesis by (simp add: story_ok_def events_of_def e_def)
  next
    case False
    with assms i have "story_ok (events_of i (transit @ bus_queue b)) (records_of i (bus_history b))" by (simp add: bus_ok_def n_def)
    with False show ?thesis by (simp add: events_of_def e_def)
  qed
  moreover have "list_all (\<lambda>e. 1 \<le> ev_id e \<and> ev_id e \<le> n) (transit @ (bus_queue b @ [e]) @ map br_event (bus_history b))"
    using assms by (auto simp: bus_ok_def list_all_iff n_def e_def le_SucI)
  ultimately show ?thesis by (simp add: new bus_ok_def)
next
  case False
  with assms show ?thesis by (auto simp: bus_publish_def case_prod_unfold split: sum.splits)
qed

lemma bus_publishes_ok:
  "bus_ok transit b \<Longrightarrow> bus_ok transit (fold (\<lambda>p b. snd (bus_publish p b)) ps b)"
  by (induction ps arbitrary: b) (simp_all add: bus_publish_ok)

lemma bus_ok_extra [simp]:
  "bus_ok transit (b\<lparr>bus_world := w\<rparr>) = bus_ok transit b" "bus_ok transit (b\<lparr>bus_failures := f\<rparr>) = bus_ok transit b"
  by (simp_all add: bus_ok_def)

lemma attempt_delivery_ok: "bus_ok transit b \<Longrightarrow> bus_ok transit (snd (attempt_delivery S e b))"
  by (auto simp: attempt_delivery_def Let_def bus_publishes_ok split: option.splits prod.splits)

lemma delivered_ok:
  assumes "bus_ok (e # transit) b" "br_event r = e\<lparr>ev_attempt := ev_attempt e + 1\<rparr>" "br_status r \<in> {''completed'', ''failed''}"
  shows "bus_ok transit (b\<lparr>bus_history := bus_history b @ [r]\<rparr>)"
proof -
  have "story_ok (events_of i (transit @ bus_queue b)) (records_of i (bus_history b @ [r]))"
    if "1 \<le> i" "i \<le> bus_counter b" for i
  proof -
    have "story_ok (events_of i (e # transit @ bus_queue b)) (records_of i (bus_history b))" using assms(1) that by (simp add: bus_ok_def)
    with assms(2,3) show ?thesis
      by (cases "ev_id e = i") (auto simp: story_ok_def events_of_def records_of_def split: list.splits)
  qed
  with assms show ?thesis by (simp add: bus_ok_def)
qed

lemma bus_deliver_ok: "bus_ok (e # transit) b \<Longrightarrow> bus_ok transit (bus_deliver S e b)"
  using attempt_delivery_ok [of "e # transit" b S "e\<lparr>ev_attempt := ev_attempt e + 1\<rparr>"]
  by (auto simp: bus_deliver_def Let_def intro!: delivered_ok split: prod.splits option.splits)

lemma bus_delivers_ok: "bus_ok (batch @ transit) b \<Longrightarrow> bus_ok transit (fold (bus_deliver S) batch b)"
  by (induction batch arbitrary: b) (simp_all add: bus_deliver_ok)

lemma bus_drain_loop_ok: "bus_ok [] b \<Longrightarrow> bus_ok [] (snd (bus_drain_loop S most workers processed b))"
proof (induction S most workers processed b rule: bus_drain_loop.induct)
  case (1 S most workers processed b)
  define k where "k = min workers (min (length (bus_queue b)) (most - processed))"
  have "list_all P (take k (bus_queue b)) \<and> list_all P (drop k (bus_queue b)) \<longleftrightarrow> list_all P (bus_queue b)" for P
    by (metis append_take_drop_id list_all_append)
  then have "bus_ok (take k (bus_queue b) @ []) (b\<lparr>bus_queue := drop k (bus_queue b)\<rparr>)" using 1(2) by (simp add: bus_ok_def)
  from bus_delivers_ok [OF this, of S] 1(1) [OF k_def] 1(2) show ?case
    by (subst bus_drain_loop.simps) (simp add: Let_def flip: k_def)
qed

lemma update_last_ids:
  "(\<And>r. br_event (f r) = br_event r) \<Longrightarrow> map br_event (update_last P f h) = map br_event h"
  by (induction h) auto

lemma update_last_records:
  assumes "\<And>r. br_event (f r) = br_event r"
  shows "records_of i (update_last (\<lambda>r. ev_id (br_event r) = j) f h) =
    (if i = j \<and> records_of i h \<noteq> [] then butlast (records_of i h) @ [f (last (records_of i h))] else records_of i h)"
  using assms by (induction h) (auto simp: records_of_def list_ex_iff filter_empty_conv)

lemma last_record_eq: "last_record i h = (if records_of i h = [] then None else Some (last (records_of i h)))"
proof -
  have "find P (rev h) = (if filter P h = [] then None else Some (last (filter P h)))" for P
    by (induction h rule: rev_induct) auto
  then show ?thesis by (simp add: last_record_def records_of_def)
qed

lemma retried_story:
  assumes "story_ok es h" "h \<noteq> []" "br_status (last h) = ''failed''"
  shows "story_ok (es @ [br_event (last h)]) (butlast h @ [(last h)\<lparr>br_status := ''retried''\<rparr>])"
proof -
  obtain k r where h: "h = k @ [r]" using assms(2) by (metis append_butlast_last_id)
  show ?thesis using assms by (auto simp: h story_ok_def retried_def split: list.splits)
qed

lemma bus_retry_ok:
  assumes ok: "bus_ok [] b"
  shows "bus_ok [] (snd (bus_retry j b))"
proof (cases "fst (bus_retry j b)")
  case (Inr u)
  let ?f = "\<lambda>r. r\<lparr>br_status := ''retried''\<rparr>" and ?h = "records_of j (bus_history b)"
  from Inr have r: "?h \<noteq> []" "br_status (last ?h) = ''failed''"
    and new: "snd (bus_retry j b) = b\<lparr>bus_queue := bus_queue b @ [br_event (last ?h)],
      bus_history := update_last (\<lambda>r. ev_id (br_event r) = j) ?f (bus_history b)\<rparr>"
    by (auto simp: bus_retry_def last_record_eq split: if_splits)
  have h: "last ?h \<in> set (bus_history b)" "ev_id (br_event (last ?h)) = j"
    using last_in_set [OF r(1)] by (simp_all add: records_of_def)
  have "1 \<le> ev_id (br_event r) \<and> ev_id (br_event r) \<le> bus_counter b" if "r \<in> set (bus_history b)" for r
    using ok that by (simp add: bus_ok_def list_all_iff)
  from this [OF h(1)] h(2) have j: "1 \<le> j" "j \<le> bus_counter b" by simp_all
  have sj: "story_ok (events_of j (bus_queue b)) ?h" using ok j by (simp add: bus_ok_def)
  have "story_ok (events_of i (bus_queue b @ [br_event (last ?h)]))
      (records_of i (update_last (\<lambda>r. ev_id (br_event r) = j) ?f (bus_history b)))" if i: "1 \<le> i" "i \<le> bus_counter b" for i
  proof (cases "i = j")
    case True
    from retried_story [OF sj r] h(2) True r(1) show ?thesis by (simp add: update_last_records events_of_def)
  next
    case False
    with ok i h(2) show ?thesis by (simp add: update_last_records bus_ok_def events_of_def)
  qed
  with ok h j show ?thesis by (simp add: new bus_ok_def update_last_ids)
next
  case (Inl e)
  with ok show ?thesis by (auto simp: bus_retry_def split: option.splits if_splits)
qed

datatype bus_op = BPublish "string \<times> string \<times> json" | BDrain nat nat | BRetry nat | BFail string int | BReset

fun bus_exec :: "'w bus_setup \<Rightarrow> bus_op \<Rightarrow> 'w bus \<Rightarrow> 'w bus" where
  "bus_exec S (BPublish p) b = snd (bus_publish p b)"
| "bus_exec S (BDrain most workers) b = snd (bus_drain S most workers b)"
| "bus_exec S (BRetry i) b = snd (bus_retry i b)"
| "bus_exec S (BFail kind n) b = b\<lparr>bus_failures := (bus_failures b)(kind := n)\<rparr>"
| "bus_exec S BReset b = bus_reset b"

lemma bus_exec_ok: "bus_ok [] b \<Longrightarrow> bus_ok [] (bus_exec S c b)"
  by (cases c) (simp_all add: bus_publish_ok bus_retry_ok bus_drain_def bus_drain_loop_ok, simp add: bus_reset_def bus_ok_def)

text \<open>Over any sequence of operations every published event waits exactly once or has a last delivery that completed or failed; completed
  events are never delivered again, and the attempts of an event are numbered without gaps.\<close>

lemma local_bus_accounts: "bus_ok [] (fold (bus_exec S) ops (empty_bus w))"
proof (induction ops rule: rev_induct)
  case Nil
  show ?case by (simp add: empty_bus_def bus_ok_def)
qed (simp add: bus_exec_ok)

lemma completed_stays:
  assumes "bus_ok [] b" "r \<in> set (bus_history b)" "br_status r = ''completed''"
  shows "events_of (ev_id (br_event r)) (bus_queue b) = [] \<and> last (records_of (ev_id (br_event r)) (bus_history b)) = r"
proof -
  let ?h = "records_of (ev_id (br_event r)) (bus_history b)"
  have r: "r \<in> set ?h" using assms(2) by (simp add: records_of_def)
  have ok: "story_ok (events_of (ev_id (br_event r)) (bus_queue b)) ?h" using assms(1,2) by (auto simp: bus_ok_def list_all_iff)
  have nr: "\<not> retried r" using assms(3) by (simp add: retried_def)
  with ok r have none: "events_of (ev_id (br_event r)) (bus_queue b) = []" by (auto simp: story_ok_def list_all_iff split: list.splits)
  with ok have "list_all retried (butlast ?h)" "?h \<noteq> []" by (auto simp: story_ok_def)
  with nr r have "last ?h = r" by (metis append_butlast_last_id in_set_conv_decomp_first in_set_butlastD list_all_iff set_ConsD rotate1.simps(2) set_rotate1)
  with none show ?thesis by simp
qed

end
