(* ===== verification/Cma_Lock.thy ===== *)
theory Cma_Lock
  imports Text_Patterns Url
begin

text \<open>
  \<^verbatim>\<open>scripts/cma_lock.py\<close>: the repository's record of the managed agent and environment it deploys. Nothing is contacted: the lockfile is accepted only if it
  names exactly the expected resources with well-formed identities, and neither it nor the sources bear anything shaped like a credential. The files of the project are
  a parameter, as is the syntax of an IP address (for \<open>urlsplit\<close>).
\<close>

section \<open>The project\<close>

text \<open>A file is missing (or not a regular file inside the project), cannot be read, or has a text.\<close>

datatype project_file = NoFile | Unreadable error | FileText string

definition resource_paths :: "(string \<times> string) list" where
  "resource_paths = [(''agents/application.md'', ''agent''), (''environments/application.yaml'', ''environment'')]"

definition validate_source :: "(string \<Rightarrow> project_file) \<Rightarrow> string \<Rightarrow> error + unit" where
  "validate_source files relative = (case files relative of
     NoFile \<Rightarrow> Inl (LockError (''missing or unsafe CMA source: '' @ relative))
   | Unreadable e \<Rightarrow> Inl e
   | FileText text \<Rightarrow>
       if blank text then Inl (LockError (''empty CMA source: '' @ relative))
       else if secret_bearing text then Inl (LockError (''secret-bearing CMA source: '' @ relative))
       else Inr ())"

fun each_ok :: "('a \<Rightarrow> error + unit) \<Rightarrow> 'a list \<Rightarrow> error + unit" where
  "each_ok f [] = Inr ()"
| "each_ok f (x # xs) = bind_sum (f x) (\<lambda>_. each_ok f xs)"

definition validate_sources :: "(string \<Rightarrow> project_file) \<Rightarrow> error + unit" where
  "validate_sources files = each_ok (validate_source files) (map fst resource_paths)"

section \<open>The lockfile\<close>

definition nonblank_string :: "json \<Rightarrow> bool" where
  "nonblank_string v = (case v of JStr s \<Rightarrow> \<not> blank s | _ \<Rightarrow> False)"

definition positive_version :: "json \<Rightarrow> error + int" where
  "positive_version v =
     (let refused = Inl (LockError ''agent version must be a positive integer'') in
      case v of
        JNum n \<Rightarrow> if 1 \<le> n then Inr n else refused
      | JStr s \<Rightarrow> if s \<noteq> [] \<and> list_all is_digit s \<and> 1 \<le> digits_value s then Inr (int (digits_value s)) else refused
      | _ \<Rightarrow> refused)"

text \<open>\<open>UUID(text)\<close> succeeds: what is left without \<open>urn:\<close>, \<open>uuid:\<close>, outer braces and hyphens has 32 characters that \<open>int(_, 16)\<close> reads.\<close>

fun hex_digits_ok :: "string \<Rightarrow> bool" where
  "hex_digits_ok [] = False"
| "hex_digits_ok [c] = (hex_value c \<noteq> None)"
| "hex_digits_ok (c # d # cs) =
     (hex_value c \<noteq> None \<and> (if d = CHR ''_'' then hex_digits_ok cs else hex_digits_ok (d # cs)))"

definition int16_ok :: "string \<Rightarrow> bool" where
  "int16_ok s = (let t = py_strip s;
       u = (if t \<noteq> [] \<and> hd t \<in> {CHR ''+'', CHR ''-''} then tl t else t);
       v = (if py_lower (take 2 u) = ''0x'' then (if starts_with ''_'' (drop 2 u) then drop 3 u else drop 2 u) else u)
     in hex_digits_ok v)"

definition strip_braces :: "string \<Rightarrow> string" where
  "strip_braces s = (let brace = (\<lambda>c. c \<in> {CHR ''{'', CHR ''}''}) in rev (dropWhile brace (rev (dropWhile brace s))))"

definition uuid_text_ok :: "string \<Rightarrow> bool" where
  "uuid_text_ok s = (let h = filter (\<lambda>c. c \<noteq> CHR ''-'') (strip_braces (replace_all ''uuid:'' [] (replace_all ''urn:'' [] s)))
     in length h = 32 \<and> int16_ok h)"

definition str_at :: "(string \<times> json) list \<Rightarrow> string \<Rightarrow> string" where
  "str_at kvs k = (case dict_get kvs k of JStr s \<Rightarrow> s | _ \<Rightarrow> [])"

definition validate_origin :: "(string \<Rightarrow> bool) \<Rightarrow> json \<Rightarrow> error + unit" where
  "validate_origin ip_ok origin = (case origin of
     JObj kvs \<Rightarrow>
       if \<not> list_all (\<lambda>k. nonblank_string (dict_get kvs k)) [''base_url'', ''organization_id'', ''workspace_id'']
       then Inl (LockError ''CMA lockfile origin must identify its host, organization, and workspace'')
       else if \<not> uuid_text_ok (str_at kvs ''organization_id'') then Inl (LockError ''malformed CMA lockfile origin'')
       else (case urlsplit ip_ok (str_at kvs ''base_url'') of
         Inl e \<Rightarrow> Inl (LockError ''malformed CMA lockfile origin'')
       | Inr url \<Rightarrow>
           if \<not> prefixed_id ''wrkspc_'' (str_at kvs ''workspace_id'') then Inl (LockError ''malformed CMA lockfile workspace origin'')
           else if u_scheme url \<noteq> ''https'' \<or> url_hostname url = None \<or> has_credentials url \<or> u_query url \<noteq> [] \<or> u_fragment url \<noteq> []
           then Inl (LockError ''CMA lockfile origin base_url must be a credential-free HTTPS URL'')
           else Inr ())
   | _ \<Rightarrow> Inl (LockError ''CMA lockfile origin must identify its host, organization, and workspace''))"

type_synonym selection = "(string \<times> (string \<times> json) list) list"

definition select_resource :: "string \<times> json \<Rightarrow> selection \<Rightarrow> error + selection" where
  "select_resource = (\<lambda>(key, resource) selected.
     let relative = (if starts_with ''./'' key then drop 2 key else key) in
     case map_of resource_paths relative of
       None \<Rightarrow> Inl (LockError (''unexpected CMA resource path: '' @ key))
     | Some kind \<Rightarrow>
         if map_of selected kind \<noteq> None then Inl (LockError (''ambiguous CMA '' @ kind @ '' resource''))
         else (case resource of
           JObj kvs \<Rightarrow>
             if dict_get kvs ''kind'' \<noteq> JStr kind then Inl (LockError (key @ '': expected resource kind '' @ kind))
             else if \<not> prefixed_id (if kind = ''agent'' then ''agent_'' else ''env_'') (str_at kvs ''id'')
             then Inl (LockError (key @ '': invalid '' @ kind @ '' ID''))
             else if \<not> list_all (\<lambda>f. nonblank_string (dict_get kvs f)) [''hash'', ''remote_hash'']
             then Inl (LockError (key @ '': missing local or remote fingerprint''))
             else if kind = ''agent'' then bind_sum (positive_version (dict_get kvs ''version'')) (\<lambda>_. Inr (selected @ [(kind, kvs)]))
             else Inr (selected @ [(kind, kvs)])
         | _ \<Rightarrow> Inl (LockError (key @ '': expected resource kind '' @ kind))))"

fun select_resources :: "(string \<times> json) list \<Rightarrow> selection \<Rightarrow> error + selection" where
  "select_resources [] selected = Inr selected"
| "select_resources (r # rs) selected = bind_sum (select_resource r selected) (select_resources rs)"

definition require_kinds :: "bool \<Rightarrow> selection \<Rightarrow> error + unit" where
  "require_kinds allow_partial selected = each_ok (\<lambda>kind.
     if map_of selected kind = None \<and> \<not> allow_partial then Inl (LockError (''missing CMA '' @ kind @ '' resource'')) else Inr ())
     (map snd resource_paths)"

record cma_identity =
  ci_agent :: "(string \<times> int) option"
  ci_environment :: "string option"

definition identity_of :: "selection \<Rightarrow> error + cma_identity" where
  "identity_of selected =
     bind_sum (case map_of selected ''agent'' of
         None \<Rightarrow> Inr None
       | Some kvs \<Rightarrow> bind_sum (positive_version (dict_get kvs ''version'')) (\<lambda>v. Inr (Some (str_at kvs ''id'', v)))) (\<lambda>agent.
     Inr \<lparr>ci_agent = agent, ci_environment = map_option (\<lambda>kvs. str_at kvs ''id'') (map_of selected ''environment'')\<rparr>)"

definition parse_lock :: "(string \<Rightarrow> bool) \<Rightarrow> (string \<Rightarrow> project_file) \<Rightarrow> bool \<Rightarrow> json \<Rightarrow> error + cma_identity" where
  "parse_lock ip_ok files allow_partial data =
     bind_sum (validate_sources files) (\<lambda>_.
     case data of
       JObj kvs \<Rightarrow>
         if dict_get kvs ''version'' \<noteq> JNum 1 then Inl (LockError ''unsupported CMA lockfile format (expected version 1)'')
         else if secret_bearing (dumps_spaced data) then Inl (LockError ''secret-bearing CMA lockfile'')
         else bind_sum (validate_origin ip_ok (dict_get kvs ''origin'')) (\<lambda>_.
           (case dict_get kvs ''resources'' of
              JObj resources \<Rightarrow>
                bind_sum (select_resources resources []) (\<lambda>selected.
                bind_sum (require_kinds allow_partial selected) (\<lambda>_. identity_of selected))
            | _ \<Rightarrow> Inl (LockError ''CMA lockfile resources must be an object'')))
     | _ \<Rightarrow> Inl (LockError ''unsupported CMA lockfile format (expected version 1)''))"

definition read_lock :: "(string \<Rightarrow> bool) \<Rightarrow> (string \<Rightarrow> project_file) \<Rightarrow> bool \<Rightarrow> error + cma_identity" where
  "read_lock ip_ok files allow_partial = (case files ''claude-lock.json'' of
     NoFile \<Rightarrow> Inl (LockError ''cannot read CMA lockfile'')
   | Unreadable e \<Rightarrow> Inl (LockError ''cannot read CMA lockfile'')
   | FileText source \<Rightarrow>
       if secret_bearing source then Inl (LockError ''secret-bearing CMA lockfile'')
       else (case loads_unique (LockError ''duplicate CMA lockfile key'') source of
         Inl (ValueError m) \<Rightarrow> Inl (LockError ''cannot read CMA lockfile'')
       | Inl e \<Rightarrow> Inl e
       | Inr data \<Rightarrow> parse_lock ip_ok files allow_partial data))"

text \<open>\<open>deployment_environment\<close> of \<^verbatim>\<open>scripts/live.py\<close>.\<close>

definition deployment_environment :: "(string \<Rightarrow> bool) \<Rightarrow> (string \<Rightarrow> project_file) \<Rightarrow> error + (string \<times> string) list" where
  "deployment_environment ip_ok files = bind_sum (read_lock ip_ok files False) (\<lambda>c.
     case (ci_agent c, ci_environment c) of
       (Some (agent, version), Some environment) \<Rightarrow>
         Inr [(''CLAUDE_AGENT_ID'', agent), (''CLAUDE_AGENT_VERSION'', show_int version), (''CLAUDE_ENVIRONMENT_ID'', environment)]
     | _ \<Rightarrow> Inl (KeyError ''agent_id''))"

text \<open>\<open>main\<close>: the exit status of a command.\<close>

definition lock_command :: "(string \<Rightarrow> bool) \<Rightarrow> (string \<Rightarrow> project_file) \<Rightarrow> string \<Rightarrow> int" where
  "lock_command ip_ok files command =
     (if command = ''sources'' then (case validate_sources files of Inl e \<Rightarrow> 1 | Inr _ \<Rightarrow> 0)
      else (case read_lock ip_ok files (command = ''preflight'') of Inl e \<Rightarrow> 1 | Inr _ \<Rightarrow> 0))"

section \<open>What an accepted lockfile says\<close>

lemma positive_version_Inr: "positive_version v = Inr n \<Longrightarrow> 1 \<le> n"
  by (auto simp: positive_version_def Let_def split: json.splits if_splits)

lemma each_ok_Inr: "each_ok f xs = Inr u \<longleftrightarrow> list_all (\<lambda>x. f x = Inr ()) xs"
  by (induction xs) (auto simp: bind_sum_Inr)

definition resource_ok :: "string \<times> (string \<times> json) list \<Rightarrow> bool" where
  "resource_ok = (\<lambda>(kind, kvs). prefixed_id (if kind = ''agent'' then ''agent_'' else ''env_'') (str_at kvs ''id''))"

lemma select_resource_ok:
  "select_resource r selected = Inr t \<Longrightarrow> list_all resource_ok selected \<Longrightarrow> list_all resource_ok t"
  by (cases r) (auto simp: select_resource_def Let_def resource_ok_def bind_sum_Inr split: option.splits if_splits json.splits)

lemma select_resources_ok:
  "select_resources rs selected = Inr t \<Longrightarrow> list_all resource_ok selected \<Longrightarrow> list_all resource_ok t"
  by (induction rs arbitrary: selected) (auto simp: bind_sum_Inr dest: select_resource_ok)

lemma selected_ids:
  assumes "list_all resource_ok selected" "identity_of selected = Inr c"
  shows "case_option True (\<lambda>(a, v). prefixed_id ''agent_'' a \<and> 1 \<le> v) (ci_agent c)"
    "case_option True (prefixed_id ''env_'') (ci_environment c)"
proof -
  have "resource_ok (kind, kvs)" if "map_of selected kind = Some kvs" for kind kvs
    using map_of_SomeD [OF that] assms(1) by (simp add: list_all_iff)
  with assms(2) show "case_option True (\<lambda>(a, v). prefixed_id ''agent_'' a \<and> 1 \<le> v) (ci_agent c)"
    "case_option True (prefixed_id ''env_'') (ci_environment c)"
    by (fastforce simp: identity_of_def bind_sum_Inr resource_ok_def positive_version_Inr split: option.splits)+
qed

lemma required_kinds:
  assumes "require_kinds False selected = Inr u" "identity_of selected = Inr c"
  shows "ci_agent c \<noteq> None" "ci_environment c \<noteq> None"
  using assms by (auto simp: require_kinds_def each_ok_Inr resource_paths_def identity_of_def bind_sum_Inr split: if_splits option.splits)

lemma parse_lock_sound:
  assumes "parse_lock ip_ok files allow_partial data = Inr c"
  shows "case_option True (\<lambda>(a, v). prefixed_id ''agent_'' a \<and> 1 \<le> v) (ci_agent c)"
    "case_option True (prefixed_id ''env_'') (ci_environment c)"
    "\<not> allow_partial \<Longrightarrow> ci_agent c \<noteq> None \<and> ci_environment c \<noteq> None"
    "validate_sources files = Inr ()" "\<not> secret_bearing (dumps_spaced data)"
proof -
  from assms obtain resources selected where sel: "select_resources resources [] = Inr selected"
    and req: "require_kinds allow_partial selected = Inr ()" and ids: "identity_of selected = Inr c"
    and rest: "validate_sources files = Inr ()" "\<not> secret_bearing (dumps_spaced data)"
    by (auto simp: parse_lock_def bind_sum_Inr split: json.splits if_splits)
  from select_resources_ok [OF sel] have "list_all resource_ok selected" by simp
  from selected_ids [OF this ids] show "case_option True (\<lambda>(a, v). prefixed_id ''agent_'' a \<and> 1 \<le> v) (ci_agent c)"
    "case_option True (prefixed_id ''env_'') (ci_environment c)" by simp_all
  show "ci_agent c \<noteq> None \<and> ci_environment c \<noteq> None" if "\<not> allow_partial"
    using required_kinds [of selected _ c] req ids that by simp
  show "validate_sources files = Inr ()" "\<not> secret_bearing (dumps_spaced data)" by fact+
qed

definition clean_file :: "project_file \<Rightarrow> bool" where
  "clean_file f = (case f of FileText t \<Rightarrow> \<not> secret_bearing t | _ \<Rightarrow> False)"

lemma validate_sources_clean: "validate_sources files = Inr () \<Longrightarrow> list_all (clean_file \<circ> files) (map fst resource_paths)"
  by (auto simp: validate_sources_def each_ok_Inr resource_paths_def validate_source_def clean_file_def split: project_file.splits if_splits)

lemma read_lock_Inr:
  "read_lock ip_ok files allow_partial = Inr c \<longleftrightarrow> (\<exists>source data. files ''claude-lock.json'' = FileText source \<and> \<not> secret_bearing source
     \<and> loads_unique (LockError ''duplicate CMA lockfile key'') source = Inr data \<and> parse_lock ip_ok files allow_partial data = Inr c)"
  by (auto simp: read_lock_def split: project_file.splits sum.splits error.splits)


definition sample_lock :: json where
  "sample_lock = JObj [(''version'', JNum 1),
     (''origin'', JObj [(''base_url'', JStr ''https://api.host''), (''organization_id'', JStr ''00000000-0000-4000-8000-000000000001''), (''workspace_id'', JStr ''wrkspc_1'')]),
     (''resources'', JObj
       [(''./agents/application.md'', JObj [(''kind'', JStr ''agent''), (''id'', JStr ''agent_1''), (''version'', JNum 2), (''hash'', JStr ''a''), (''remote_hash'', JStr ''b'')]),
        (''environments/application.yaml'', JObj [(''kind'', JStr ''environment''), (''id'', JStr ''env_1''), (''hash'', JStr ''c''), (''remote_hash'', JStr ''d'')])])]"

definition sample_project :: "string \<Rightarrow> project_file" where
  "sample_project path = (if path = ''claude-lock.json'' then FileText (dumps_compact sample_lock)
     else if path \<in> set (map fst resource_paths) then FileText ''text'' else NoFile)"

lemma sample_lock_clean: "\<not> secret_bearing (dumps_compact sample_lock)"
  unfolding secret_bearing_def by code_simp

lemma sample_lock_clean_spaced: "\<not> secret_bearing (dumps_spaced sample_lock)"
  unfolding secret_bearing_def by code_simp

lemma sample_lock_read: "read_lock (\<lambda>_. False) sample_project False = Inr \<lparr>ci_agent = Some (''agent_1'', 2), ci_environment = Some ''env_1''\<rparr>"
proof -
  have "validate_sources sample_project = Inr ()" by code_simp
  moreover have "validate_origin (\<lambda>_. False) (JObj [(''base_url'', JStr ''https://api.host''),
      (''organization_id'', JStr ''00000000-0000-4000-8000-000000000001''), (''workspace_id'', JStr ''wrkspc_1'')]) = Inr ()" by code_simp
  moreover have "bind_sum (select_resources resources []) (\<lambda>selected. bind_sum (require_kinds False selected) (\<lambda>_. identity_of selected))
      = Inr \<lparr>ci_agent = Some (''agent_1'', 2), ci_environment = Some ''env_1''\<rparr>"
    if "resources = [(''./agents/application.md'', JObj [(''kind'', JStr ''agent''), (''id'', JStr ''agent_1''), (''version'', JNum 2), (''hash'', JStr ''a''), (''remote_hash'', JStr ''b'')]),
        (''environments/application.yaml'', JObj [(''kind'', JStr ''environment''), (''id'', JStr ''env_1''), (''hash'', JStr ''c''), (''remote_hash'', JStr ''d'')])]"
    for resources unfolding that by code_simp
  ultimately have "parse_lock (\<lambda>_. False) sample_project False sample_lock = Inr \<lparr>ci_agent = Some (''agent_1'', 2), ci_environment = Some ''env_1''\<rparr>"
    using sample_lock_clean_spaced by (simp add: parse_lock_def sample_lock_def dict_get_def)
  moreover have "proper_json sample_lock" by (simp add: sample_lock_def)
  ultimately show ?thesis using sample_lock_clean by (simp add: read_lock_Inr loads_unique_dumps sample_project_def)
qed


end
