(* ===== verification/Deployment_Rendering.thy ===== *)
theory Deployment_Rendering
  imports Text_Patterns Url
begin

text \<open>
  \<^verbatim>\<open>scripts/render_terraform_backend.py\<close> and \<^verbatim>\<open>scripts/render_slack_manifest.py\<close>: the two rendered deployment files. The hash of an application name is
  a parameter (a hexadecimal digest of 64 characters), as is the syntax of an IP address.
\<close>

section \<open>Terraform backend\<close>

definition validate_account_id :: "string \<Rightarrow> error + unit" where
  "validate_account_id account =
     (if length account = 12 \<and> list_all is_digit account then Inr () else Inl (ValueError ''AWS account ID must contain exactly 12 digits''))"

definition name_char :: "char \<Rightarrow> bool" where
  "name_char c = (lower_letter c \<or> is_digit c)"

definition validate_name :: "string \<Rightarrow> string \<Rightarrow> error + unit" where
  "validate_name label v =
     (if v \<noteq> [] \<and> length v \<le> 63 \<and> name_char (hd v) \<and> list_all (\<lambda>c. name_char c \<or> c = CHR ''-'') v then Inr ()
      else Inl (ValueError (label @ '' must contain only lowercase letters, digits, and hyphens'')))"

text \<open>\<open>[a-z]{2}-[a-z]+-\d+\<close>\<close>

definition region_ok :: "string \<Rightarrow> bool" where
  "region_ok r = (let area = takeWhile lower_letter (drop 3 r); rest = drop (3 + length area) r in
     2 < length r \<and> list_all lower_letter (take 2 r) \<and> r ! 2 = CHR ''-'' \<and> area \<noteq> []
     \<and> rest \<noteq> [] \<and> hd rest = CHR ''-'' \<and> tl rest \<noteq> [] \<and> list_all is_digit (tl rest))"

definition validate_region :: "string \<Rightarrow> error + unit" where
  "validate_region r = (if region_ok r then Inr () else Inl (ValueError ''AWS region is invalid''))"

text \<open>\<open>[a-z0-9][a-z0-9.-]{1,61}[a-z0-9]\<close>\<close>

definition bucket_ok :: "string \<Rightarrow> bool" where
  "bucket_ok b = (3 \<le> length b \<and> length b \<le> 63 \<and> name_char (hd b) \<and> name_char (last b)
     \<and> list_all (\<lambda>c. name_char c \<or> c = CHR ''.'' \<or> c = CHR ''-'') b)"

text \<open>\<open>s[:k]\<close>, where a negative bound counts from the end.\<close>

definition slice_to :: "string \<Rightarrow> int \<Rightarrow> string" where
  "slice_to s k = (if 0 \<le> k then take (nat k) s else take (length s - nat (- k)) s)"

definition default_bucket :: "(string \<Rightarrow> string) \<Rightarrow> string \<Rightarrow> string \<Rightarrow> string \<Rightarrow> string" where
  "default_bucket sha256 account app region =
     (let suffix = ''-terraform-state-'' @ region; bucket = account @ ''-'' @ app @ suffix in
      if 63 < length bucket
      then let digest = take 8 (sha256 app);
               app_length = 63 - int (length account) - int (length suffix) - int (length digest) - 2
           in account @ ''-'' @ slice_to app app_length @ ''-'' @ digest @ suffix
      else bucket)"

definition state_bucket_name :: "(string \<Rightarrow> string) \<Rightarrow> string \<Rightarrow> string \<Rightarrow> string \<Rightarrow> string option \<Rightarrow> error + string" where
  "state_bucket_name sha256 account app region override =
     bind_sum (validate_account_id account) (\<lambda>_.
     bind_sum (validate_name ''app name'' app) (\<lambda>_.
     bind_sum (validate_region region) (\<lambda>_.
     let bucket = (case override of Some b \<Rightarrow> b | None \<Rightarrow> default_bucket sha256 account app region) in
     if \<not> bucket_ok bucket then Inl (ValueError ''state bucket must be a valid S3 bucket name'') else Inr bucket)))"

definition validate_expected_account :: "string \<Rightarrow> string option \<Rightarrow> error + unit" where
  "validate_expected_account account expected =
     bind_sum (validate_account_id account) (\<lambda>_.
     if truthy expected \<and> expected \<noteq> Some account then Inl (ValueError (''Refusing to deploy to unexpected AWS account: '' @ account)) else Inr ())"

definition quoted :: "string \<Rightarrow> string" where
  "quoted s = [CHR 0x22] @ s @ [CHR 0x22, CHR 0x0A]"

definition render_backend :: "(string \<Rightarrow> string) \<Rightarrow> string \<Rightarrow> string \<Rightarrow> string \<Rightarrow> string \<Rightarrow> string option \<Rightarrow> error + string" where
  "render_backend sha256 account app environment region state_bucket =
     bind_sum (state_bucket_name sha256 account app region state_bucket) (\<lambda>bucket.
     bind_sum (validate_name ''environment'' environment) (\<lambda>_.
     Inr (''bucket       = '' @ quoted bucket @ ''key          = '' @ quoted (app @ ''/'' @ environment @ ''/terraform.tfstate'')
        @ ''region       = '' @ quoted region @ ''encrypt      = true'' @ [CHR 0x0A] @ ''use_lockfile = true'' @ [CHR 0x0A])))"

definition render_backend_command :: "(string \<Rightarrow> string) \<Rightarrow> string \<Rightarrow> string option \<Rightarrow> string \<Rightarrow> string \<Rightarrow> string \<Rightarrow> string option \<Rightarrow> error + string" where
  "render_backend_command sha256 account expected app environment region state_bucket =
     bind_sum (validate_expected_account account expected) (\<lambda>_. render_backend sha256 account app environment region state_bucket)"

section \<open>Slack manifest\<close>

definition normalize_public_app_url :: "(string \<Rightarrow> bool) \<Rightarrow> string \<Rightarrow> error + string \<times> string" where
  "normalize_public_app_url ip_ok v = bind_sum (urlsplit ip_ok (py_strip v)) (\<lambda>p.
     if u_scheme p \<noteq> ''https'' \<or> u_netloc p = [] \<or> u_path p \<notin> {[], ''/''}
     then Inl (ValueError ''PUBLIC_APP_URL must be an HTTPS origin without a path'')
     else if u_query p \<noteq> [] \<or> u_fragment p \<noteq> [] \<or> has_credentials p
     then Inl (ValueError ''PUBLIC_APP_URL must be an HTTPS origin without credentials, query, or fragment'')
     else Inr (''https://'' @ u_netloc p, u_netloc p))"

definition render_manifest :: "(string \<Rightarrow> bool) \<Rightarrow> string \<Rightarrow> string \<Rightarrow> error + string" where
  "render_manifest ip_ok template url = bind_sum (normalize_public_app_url ip_ok url) (\<lambda>(origin, _).
     let result = replace_all ''__PUBLIC_APP_URL__'' origin template in
     if contains ''__PUBLIC_APP_'' result
     then Inl (ValueError ''Slack manifest template contains an unresolved public application placeholder'')
     else Inr result)"

section \<open>Every valid deployment has a valid bucket\<close>

definition hex_digest :: "(string \<Rightarrow> string) \<Rightarrow> bool" where
  "hex_digest sha256 = (\<forall>s. length (sha256 s) = 64 \<and> list_all (\<lambda>c. is_digit c \<or> c \<in> {CHR ''a'', CHR ''b'', CHR ''c'', CHR ''d'', CHR ''e'', CHR ''f''}) (sha256 s))"

lemma name_char_hex: "c \<in> {CHR ''a'', CHR ''b'', CHR ''c'', CHR ''d'', CHR ''e'', CHR ''f''} \<Longrightarrow> name_char c"
  by (auto simp: name_char_def lower_letter_def)

definition bucket_chars :: "string \<Rightarrow> bool" where
  "bucket_chars = list_all (\<lambda>c. name_char c \<or> c = CHR ''.'' \<or> c = CHR ''-'')"

lemma bucket_chars_simps [simp]:
  "bucket_chars []" "bucket_chars (c # s) = ((name_char c \<or> c = CHR ''.'' \<or> c = CHR ''-'') \<and> bucket_chars s)"
  "bucket_chars (s @ t) = (bucket_chars s \<and> bucket_chars t)"
  by (simp_all add: bucket_chars_def)

lemma bucket_chars_take: "bucket_chars s \<Longrightarrow> bucket_chars (take n s)"
  by (auto simp: bucket_chars_def list_all_iff dest: in_set_takeD)

lemma region_form:
  assumes "region_ok r"
  obtains a area digits where "r = a @ ''-'' @ area @ ''-'' @ digits" "length a = 2" "list_all lower_letter a"
    "list_all lower_letter area" "digits \<noteq> []" "list_all is_digit digits"
proof -
  define area where "area = takeWhile lower_letter (drop 3 r)"
  define rest where "rest = drop (3 + length area) r"
  have r: "2 < length r" "list_all lower_letter (take 2 r)" "r ! 2 = CHR ''-''" "rest \<noteq> []" "hd rest = CHR ''-''" "tl rest \<noteq> []" "list_all is_digit (tl rest)"
    using assms by (simp_all add: region_ok_def Let_def area_def rest_def)
  have "r = take 2 r @ [r ! 2] @ drop 3 r" using id_take_nth_drop [OF r(1)] by (simp add: numeral_3_eq_3)
  moreover have "drop 3 r = area @ rest" unfolding area_def rest_def by (metis add.commute drop_drop dropWhile_eq_drop takeWhile_dropWhile_id)
  moreover have "rest = [hd rest] @ tl rest" using r(4) by simp
  ultimately have "r = take 2 r @ ''-'' @ area @ ''-'' @ tl rest" using r(3,5) by simp
  moreover have "list_all lower_letter area" by (auto simp: area_def list_all_iff dest: set_takeWhileD)
  ultimately show thesis using that r by simp
qed

lemma region_chars:
  assumes "region_ok r"
  shows "bucket_chars r" "r \<noteq> []" "name_char (last r)"
proof -
  from assms obtain a area digits where r: "r = a @ ''-'' @ area @ ''-'' @ digits" "list_all lower_letter a"
    "list_all lower_letter area" "digits \<noteq> []" "list_all is_digit digits" by (rule region_form)
  then show "bucket_chars r" "r \<noteq> []" by (auto simp: bucket_chars_def list_all_iff name_char_def)
  show "name_char (last r)" using r last_in_set [OF r(4)] by (auto simp: list_all_iff name_char_def)
qed

lemma slice_to_length: "0 \<le> k \<Longrightarrow> int (length (slice_to s k)) \<le> k"
  by (auto simp: slice_to_def min_def)

lemma slice_to_chars: "bucket_chars s \<Longrightarrow> bucket_chars (slice_to s k)"
  by (simp add: slice_to_def bucket_chars_take)

lemma default_bucket_ok:
  assumes sha: "hex_digest sha256" and account: "validate_account_id account = Inr ()" and app: "validate_name label app = Inr ()"
    and region: "region_ok region" "length region \<le> 24 \<or> length app + length region \<le> 33"
  shows "bucket_ok (default_bucket sha256 account app region)"
proof -
  let ?suffix = "''-terraform-state-'' @ region" and ?digest = "take 8 (sha256 app)" and ?b = "default_bucket sha256 account app region"
  have a: "length account = 12" "list_all is_digit account" using account by (simp_all add: validate_account_id_def split: if_splits)
  then have ad: "bucket_chars account" "name_char (hd account)"
    by (cases account; auto simp: bucket_chars_def list_all_iff name_char_def)+
  have "bucket_chars app" using app by (auto simp: validate_name_def bucket_chars_def list_all_iff split: if_splits)
  moreover have "bucket_chars (sha256 app)" using sha name_char_hex by (auto simp: hex_digest_def bucket_chars_def list_all_iff name_char_def)
  moreover have suffix: "bucket_chars ?suffix" using region_chars(1) [OF region(1)] by (simp add: name_char_def lower_letter_def)
  ultimately have chars: "bucket_chars ?b" using ad by (simp add: default_bucket_def Let_def slice_to_chars bucket_chars_take)
  have "length ?digest = 8" using sha by (simp add: hex_digest_def)
  with a(1) region(2) slice_to_length [of "24 - int (length region)" app] have len: "length ?b \<le> 63"
    by (auto simp: default_bucket_def Let_def)
  have ends: "\<exists>front. ?b = front @ region" "\<exists>rest. ?b = account @ rest" by (auto simp: default_bucket_def Let_def)
  have "last ?b = last region" using ends(1) region_chars(2) [OF region(1)] by auto
  moreover have "account \<noteq> []" using a(1) by auto
  then have "hd ?b = hd account" using ends(2) by auto
  ultimately show ?thesis using chars len a(1) ad ends(2) region_chars(3) [OF region(1)] by (auto simp: bucket_ok_def bucket_chars_def)
qed

text \<open>C40: The name of the state bucket is bounded: for every valid account, application name and region of at most 24 characters the
  rendering succeeds without an override, the name is a valid bucket name of at most 63 characters, begins with the account and ends with the region, whatever the
  length of the application's name; a name that fits is not shortened. With any override and any region, what is returned is a valid bucket name.\<close>

theorem state_bucket_bounded:
  assumes "hex_digest sha256" "validate_account_id account = Inr ()" "validate_name ''app name'' app = Inr ()" "validate_region region = Inr ()"
  shows "(length region \<le> 24 \<longrightarrow> (\<exists>b front rest. state_bucket_name sha256 account app region None = Inr b \<and> bucket_ok b
             \<and> b = account @ ''-'' @ rest \<and> b = front @ ''-terraform-state-'' @ region))
    \<and> (length app + length region \<le> 33 \<longrightarrow>
        state_bucket_name sha256 account app region None = Inr (account @ ''-'' @ app @ ''-terraform-state-'' @ region))
    \<and> (\<forall>b. state_bucket_name sha256 account app region override = Inr b \<longrightarrow> bucket_ok b)"
proof -
  have region: "region_ok region" using assms(4) by (simp add: validate_region_def split: if_splits)
  have ok: "state_bucket_name sha256 account app region None = Inr (default_bucket sha256 account app region)"
    "bucket_ok (default_bucket sha256 account app region)" if "length region \<le> 24 \<or> length app + length region \<le> 33"
    using default_bucket_ok [OF assms(1-3) region that] assms by (simp_all add: state_bucket_name_def)
  have "\<exists>front rest. default_bucket sha256 account app region = account @ ''-'' @ rest
      \<and> default_bucket sha256 account app region = front @ ''-terraform-state-'' @ region" by (auto simp: default_bucket_def Let_def)
  with ok have "length region \<le> 24 \<longrightarrow> (\<exists>b front rest. state_bucket_name sha256 account app region None = Inr b \<and> bucket_ok b
      \<and> b = account @ ''-'' @ rest \<and> b = front @ ''-terraform-state-'' @ region)" by blast
  moreover have "default_bucket sha256 account app region = account @ ''-'' @ app @ ''-terraform-state-'' @ region"
    if "length app + length region \<le> 33"
    using that assms(2) by (auto simp: default_bucket_def Let_def validate_account_id_def split: if_splits)
  moreover have "\<forall>b. state_bucket_name sha256 account app region override = Inr b \<longrightarrow> bucket_ok b"
    by (auto simp: state_bucket_name_def bind_sum_Inr Let_def split: if_splits)
  ultimately show ?thesis using ok(1) by simp
qed

theorem state_bucket_bounded_witness:
  "\<exists>b. state_bucket_name (\<lambda>_. replicate 64 (CHR ''0'')) ''123456789012'' (replicate 63 (CHR ''a'')) ''us-west-2'' None = Inr b
     \<and> bucket_ok b"
proof -
  have "hex_digest (\<lambda>_. replicate 64 (CHR ''0''))" by (simp add: hex_digest_def is_digit_def list_all_iff)
  moreover have "validate_account_id ''123456789012'' = Inr ()" by code_simp
  moreover have "validate_name ''app name'' (replicate 63 (CHR ''a'')) = Inr ()"
    by (simp add: validate_name_def name_char_def lower_letter_def list_all_iff hd_replicate)
  moreover have "validate_region ''us-west-2'' = Inr ()" by code_simp
  ultimately show ?thesis
    using state_bucket_bounded [of "\<lambda>_. replicate 64 (CHR ''0'')" "''123456789012''" "replicate 63 (CHR ''a'')" "''us-west-2''"] by auto
qed

end
