(* ===== verification/Public_Tree.thy ===== *)
theory Public_Tree
  imports Text_Patterns "HOL-Library.List_Lexorder" "HOL-Library.Char_ord"
begin

text \<open>
  \<^verbatim>\<open>scripts/export_public_tree.py\<close> and \<^verbatim>\<open>scripts/check_public_readiness.py\<close>: the copy of the repository that is published, and the check that no file
  reveals a deployment or a credential. A path is relative, with its parts separated by slashes. The files are a parameter, as are the decoding of bytes
  as UTF-8 and the hash of the manifest.
\<close>

section \<open>Files\<close>

datatype node = Regular string | Symlink "string option" | NotFile

definition file_bytes :: "node \<Rightarrow> string option" where
  "file_bytes n = (case n of Regular b \<Rightarrow> Some b | Symlink target \<Rightarrow> target | NotFile \<Rightarrow> None)"

definition path_parts :: "string \<Rightarrow> string list" where
  "path_parts p = split_on (CHR ''/'') p"

definition path_name :: "string \<Rightarrow> string" where
  "path_name p = last (path_parts p)"

definition ends_with :: "string \<Rightarrow> string \<Rightarrow> bool" where
  "ends_with e s = starts_with (rev e) (rev s)"

text \<open>\<open>Path.suffix\<close> is \<open>e\<close>: leading dots do not begin a suffix.\<close>

definition has_suffix :: "string \<Rightarrow> string \<Rightarrow> bool" where
  "has_suffix e name = (let stem = dropWhile (\<lambda>c. c = CHR ''.'') name in ends_with e stem \<and> length e < length stem)"

section \<open>Exporting\<close>

definition excluded_prefixes :: "string list" where
  "excluded_prefixes = [''.generated/'', ''.git/'', ''.next/'', ''.terraform/'', ''.uv-cache/'', ''.venv/'', ''coverage/'', ''dist/'',
     ''node_modules/'', ''out/'', ''plans/'', ''playwright-report/'', ''playwright-report-production/'', ''test-results/'']"

definition excluded_parts :: "string list" where
  "excluded_parts = [''__pycache__'', ''node_modules'', ''.venv'', ''.next'', ''.terraform'', ''out'']"

definition is_exported_path :: "string \<Rightarrow> bool" where
  "is_exported_path p = (let name = path_name p in
     if (name = ''.env'' \<or> starts_with ''.env.'' name) \<and> name \<noteq> ''.env.example'' then False
     else if list_ex (\<lambda>e. starts_with e p) excluded_prefixes \<or> list_ex (\<lambda>e. e \<in> set (path_parts p)) excluded_parts then False
     else \<not> (has_suffix ''.pyc'' name \<or> has_suffix ''.pyo'' name \<or> contains ''.tfstate'' name \<or> name = ''crash.log''
            \<or> starts_with ''crash.'' name \<and> ends_with ''.log'' name))"

text \<open>The place of the output: absolute paths as lists of parts.\<close>

definition output_allowed :: "string list \<Rightarrow> string list \<Rightarrow> bool" where
  "output_allowed source destination =
     (let inside = (length source < length destination \<and> take (length source) destination = source);
          generated = (inside \<and> destination ! length source = ''.generated'') in
      \<not> (destination = source \<or> inside \<and> \<not> generated))"

fun copy_files :: "(string \<Rightarrow> node) \<Rightarrow> string list \<Rightarrow> (string \<times> string) list \<Rightarrow> (error + string list) \<times> (string \<times> string) list" where
  "copy_files tree [] out = (Inr [], out)"
| "copy_files tree (p # ps) out = (case tree p of
     Symlink _ \<Rightarrow> (Inl (ValueError (''refusing to export symlink: '' @ p)), out)
   | NotFile \<Rightarrow> copy_files tree ps out
   | Regular b \<Rightarrow> (case copy_files tree ps (dict_set p b out) of
        (Inl e, out') \<Rightarrow> (Inl e, out')
      | (Inr exported, out') \<Rightarrow> (Inr (p # exported), out')))"

definition manifest_name :: string where
  "manifest_name = ''PUBLIC_EXPORT_MANIFEST.json''"

definition manifest_of :: "(string \<Rightarrow> string) \<Rightarrow> (string \<times> string) list \<Rightarrow> string list \<Rightarrow> json" where
  "manifest_of sha256 out exported = JObj [(''files'', JArr (map (\<lambda>p.
     JObj [(''path'', JStr p), (''sha256'', JStr (sha256 (case map_of out p of None \<Rightarrow> [] | Some b \<Rightarrow> b)))]) exported))]"

definition export_tree :: "(string \<Rightarrow> string) \<Rightarrow> (string \<Rightarrow> node) \<Rightarrow> string list \<Rightarrow> string list \<Rightarrow> string list \<Rightarrow> bool \<Rightarrow> (error + string list) \<times> (string \<times> string) list" where
  "export_tree sha256 tree tracked source destination output_nonempty =
     (if \<not> output_allowed source destination then (Inl (ValueError ''output must be outside the repository or under .generated/''), [])
      else if output_nonempty then (Inl (ValueError ''output directory must be empty''), [])
      else case copy_files tree (sort_key path_parts (filter is_exported_path tracked)) [] of
        (Inl e, out) \<Rightarrow> (Inl e, out)
      | (Inr exported, out) \<Rightarrow>
          (Inr exported, dict_set manifest_name (dumps_indented 0 (manifest_of sha256 out exported) @ [CHR 0x0A]) out))"

section \<open>Readiness\<close>

definition forbidden_literals :: "string list" where
  "forbidden_literals = map concat
     [[''339543'', ''757547''], [''339543'', ''757547-terraform-state-us-west-2''], [''agent_01Lgz'', ''ds16BNHNm6C7Ydw4LgZ''],
      [''env_01Hxeb'', ''orPnKfnamf7a74iuBq''], [''d1rpkpj7'', ''lelw5f.cloudfront.net''], [''E2SX5'', ''EGEU73DG5''],
      [''xbubrem64'', ''jebwhs4ct7vypgsb4.dsql.us-west-2.on.aws''], [''T04AH'', ''NM7H''], [''U04AH'', ''NM7P'']]"

definition fixture_secrets :: "string list" where
  "fixture_secrets = [''whsec_ZTJlLXdlYmhvb2stc2VjcmV0'']"

definition hide_identity :: "string \<Rightarrow> string \<Rightarrow> string \<Rightarrow> (string \<times> json) list \<Rightarrow> (string \<times> json) list" where
  "hide_identity key kind prefix resources = (case map_of resources key of
     Some (JObj kvs) \<Rightarrow>
       (case (dict_get kvs ''kind'' = JStr kind, dict_get kvs ''id'') of
          (True, JStr i) \<Rightarrow> if prefixed_id (prefix @ ''_'') i then dict_set key (JObj (dict_set ''id'' (JStr ''repository-managed-identity'') kvs)) resources else resources
        | _ \<Rightarrow> resources)
   | _ \<Rightarrow> resources)"

definition lock_identity_text :: "string \<Rightarrow> string" where
  "lock_identity_text source = (case loads_unique (ValueError ''duplicate JSON key'') source of
     Inr (JObj kvs) \<Rightarrow>
       (case dict_get kvs ''resources'' of
          JObj resources \<Rightarrow>
            dumps_spaced (JObj (dict_set ''resources''
              (JObj (hide_identity ''./environments/application.yaml'' ''environment'' ''env''
                (hide_identity ''./agents/application.md'' ''agent'' ''agent'' resources))) kvs))
        | _ \<Rightarrow> source)
   | _ \<Rightarrow> source)"

text \<open>What is said about a file with this text, and about a path.\<close>

definition scan_text :: "string \<Rightarrow> string \<Rightarrow> string list" where
  "scan_text posix source =
     (let identity = (if posix = ''cma/claude-lock.json'' then lock_identity_text source else source) in
      map (\<lambda>v. posix @ '': contains a private deployment identifier'') (filter (\<lambda>v. contains v identity) forbidden_literals)
      @ map (\<lambda>v. posix @ '': contains a credential-shaped value'')
          (filter (\<lambda>v. v \<notin> set fixture_secrets) (find_secrets (source @ [CHR 0x0A] @ identity))))"

definition scan_path :: "(string \<Rightarrow> string option) \<Rightarrow> (string \<Rightarrow> node) \<Rightarrow> bool \<Rightarrow> string \<Rightarrow> string list" where
  "scan_path decode tree allow_private_paths posix =
     (if allow_private_paths \<and> starts_with ''plans/'' posix then []
      else if starts_with ''.env'' (path_name posix) \<and> path_name posix \<noteq> ''.env.example''
      then [posix @ '': deployment environment files must not be tracked'']
      else if starts_with ''.generated/'' posix then [posix @ '': generated deployment material must not be tracked'']
      else case Option.bind (file_bytes (tree posix)) decode of
        None \<Rightarrow> []
      | Some source \<Rightarrow> scan_text posix source)"

definition scan_paths :: "(string \<Rightarrow> string option) \<Rightarrow> (string \<Rightarrow> node) \<Rightarrow> string list \<Rightarrow> bool \<Rightarrow> string list" where
  "scan_paths decode tree paths allow_private_paths = concat (map (scan_path decode tree allow_private_paths) paths)"

definition tree_of :: "(string \<times> string) list \<Rightarrow> string \<Rightarrow> node" where
  "tree_of out p = (case map_of out p of None \<Rightarrow> NotFile | Some b \<Rightarrow> Regular b)"

text \<open>\<open>--public-tree\<close>: every file of the output, and the exit status of the check.\<close>

definition public_tree_errors :: "(string \<Rightarrow> string option) \<Rightarrow> (string \<times> string) list \<Rightarrow> string list" where
  "public_tree_errors decode out = scan_paths decode (tree_of out) (sort_key path_parts (map fst out)) False"

definition readiness_status :: "string list \<Rightarrow> int" where
  "readiness_status errors = (if errors = [] then 0 else 1)"

section \<open>A ready repository has a ready export\<close>

lemma keys_dict_set: "fst ` set (dict_set k v d) = insert k (fst ` set d)"
  by (induction k v d rule: dict_set.induct) auto

lemma dict_set_distinct: "distinct (map fst d) \<Longrightarrow> distinct (map fst (dict_set k v d))"
proof (induction k v d rule: dict_set.induct)
  case (2 k v k' v' kvs)
  then show ?case using keys_dict_set [of k v kvs] by auto
qed simp

lemma copy_files_distinct:
  "copy_files tree ps out = (r, out') \<Longrightarrow> distinct (map fst out) \<Longrightarrow> distinct (map fst out')"
  by (induction tree ps out arbitrary: r out' rule: copy_files.induct)
     (auto simp: dict_set_distinct split: node.splits prod.splits sum.splits)

lemma copy_files_spec:
  assumes "copy_files tree ps out = (Inr exported, out')" "list_all (\<lambda>(p, b). tree p = Regular b) out"
  shows "list_all (\<lambda>(p, b). tree p = Regular b) out' \<and> fst ` set out' = fst ` set out \<union> set exported
    \<and> exported = filter (\<lambda>p. tree p \<noteq> NotFile) ps"
  using assms
proof (induction tree ps out arbitrary: exported out' rule: copy_files.induct)
  case (2 tree p ps out)
  show ?case
  proof (cases "tree p")
    case (Regular b)
    with 2 obtain rest where rest: "copy_files tree ps (dict_set p b out) = (Inr rest, out')" "exported = p # rest"
      by (auto split: prod.splits sum.splits)
    have "list_all (\<lambda>(p, b). tree p = Regular b) (dict_set p b out)" using 2(4) Regular by (intro list_all_dict_set) simp_all
    from 2(1) [OF Regular rest(1) this] Regular rest(2) show ?thesis by (auto simp: keys_dict_set)
  next
    case (Symlink t)
    with 2 show ?thesis by simp
  next
    case NotFile
    with 2 show ?thesis by simp
  qed
qed simp

lemma concat_single:
  "distinct xs \<Longrightarrow> m \<in> set xs \<Longrightarrow> (\<And>x. x \<in> set xs \<Longrightarrow> x \<noteq> m \<Longrightarrow> f x = []) \<Longrightarrow> concat (map f xs) = f m"
proof (induction xs)
  case (Cons x xs)
  show ?case
  proof (cases "x = m")
    case True
    with Cons.prems have "concat (map f xs) = []" by (auto simp: concat_eq_Nil_conv)
    with True show ?thesis by simp
  next
    case False
    with Cons show ?thesis by simp
  qed
qed simp

lemma scan_exported:
  assumes "is_exported_path p" "scan_path decode tree True p = []" "tree' p = tree p"
  shows "scan_path decode tree' False p = []"
proof -
  have "\<not> starts_with ''plans/'' p" using assms(1) by (auto simp: is_exported_path_def excluded_prefixes_def Let_def split: if_splits)
  then have "scan_path decode tree' False p = scan_path decode tree True p" using assms(3) by (simp add: scan_path_def)
  with assms(2) show ?thesis by simp
qed

text \<open>C38: An export that succeeds lies outside the repository or under its generated directory, consists of exactly the tracked regular files with an exported path,
  with unchanged contents, and of a manifest of their hashes. If the readiness check of the repository has nothing to report, then the check of the
  exported tree, which exempts no path, has nothing to report but what stands in the manifest itself.\<close>

theorem ready_export_is_ready:
  assumes exported: "export_tree sha256 tree tracked source destination output_nonempty = (Inr exported, out)"
    and ready: "scan_paths decode tree tracked True = []"
  shows "output_allowed source destination
    \<and> set exported = {p \<in> set tracked. is_exported_path p \<and> tree p \<noteq> NotFile}
    \<and> fst ` set out = insert manifest_name (set exported)
    \<and> (\<forall>p \<in> set exported. p \<noteq> manifest_name \<longrightarrow> tree_of out p = tree p)
    \<and> public_tree_errors decode out = scan_path decode (tree_of out) False manifest_name"
proof -
  let ?ps = "sort_key path_parts (filter is_exported_path tracked)"
  from exported obtain copied where copy: "copy_files tree ?ps [] = (Inr exported, copied)"
    and out: "out = dict_set manifest_name (dumps_indented 0 (manifest_of sha256 copied exported) @ [CHR 0x0A]) copied"
    and allowed: "output_allowed source destination"
    by (auto simp: export_tree_def split: if_splits prod.splits sum.splits)
  have spec: "list_all (\<lambda>(p, b). tree p = Regular b) copied" "fst ` set copied = set exported" "exported = filter (\<lambda>p. tree p \<noteq> NotFile) ?ps"
    using copy_files_spec [OF copy] by auto
  have set: "set exported = {p \<in> set tracked. is_exported_path p \<and> tree p \<noteq> NotFile}" by (subst spec(3)) auto
  have keys: "fst ` set out = insert manifest_name (set exported)" by (simp add: out keys_dict_set spec(2))
  have same: "tree_of out p = tree p" if p: "p \<in> set exported" "p \<noteq> manifest_name" for p
  proof -
    from p spec(2) obtain b where "map_of copied p = Some b" by (metis map_of_eq_None_iff not_Some_eq)
    moreover from this have "tree p = Regular b" using spec(1) map_of_SomeD [of copied p b] by (auto simp: list_all_iff)
    ultimately show ?thesis using p(2) by (simp add: tree_of_def out map_of_dict_set)
  qed
  have "scan_path decode (tree_of out) False p = []" if "p \<in> set exported" "p \<noteq> manifest_name" for p
    using scan_exported [of p decode tree "tree_of out"] same [OF that] that set ready by (auto simp: scan_paths_def)
  moreover have "distinct (map fst out)" using copy_files_distinct [OF copy] by (simp add: out dict_set_distinct)
  ultimately have "public_tree_errors decode out = scan_path decode (tree_of out) False manifest_name"
    unfolding public_tree_errors_def scan_paths_def using keys by (intro concat_single) auto
  with allowed set keys same show ?thesis by blast
qed

theorem ready_export_is_ready_witness:
  "\<exists>exported out. export_tree (\<lambda>_. []) (\<lambda>p. Regular ''x'') [''plans/a'', ''README.md''] [''repo''] [''public''] False = (Inr exported, out)
     \<and> set exported = {''README.md''} \<and> public_tree_errors (\<lambda>_. None) out = []"
proof -
  have run: "export_tree (\<lambda>_. []) (\<lambda>p. Regular ''x'') [''plans/a'', ''README.md''] [''repo''] [''public''] False =
    (Inr [''README.md''], [(''README.md'', ''x''),
       (manifest_name, dumps_indented 0 (manifest_of (\<lambda>_. []) [(''README.md'', ''x'')] [''README.md'']) @ [CHR 0x0A])])"
    by (simp add: export_tree_def output_allowed_def is_exported_path_def path_name_def path_parts_def excluded_prefixes_def excluded_parts_def
      has_suffix_def ends_with_def starts_with_def manifest_name_def Let_def)
  have "scan_paths (\<lambda>_. None) (\<lambda>p. Regular ''x'') [''plans/a'', ''README.md''] True = []"
    by (simp add: scan_paths_def scan_path_def path_name_def path_parts_def starts_with_def file_bytes_def)
  from ready_export_is_ready [OF run this] show ?thesis using run
    by (auto simp: scan_path_def manifest_name_def path_name_def path_parts_def starts_with_def split: option.splits)
qed

end
