(* ===== verification/Slack_User.thy ===== *)
theory Slack_User
  imports Text_Patterns Configuration
begin

text \<open>
  \<^verbatim>\<open>scripts/slack_user.py\<close>: commands with a real Slack user's token, and the smoke test of a deployment. HTTP, the inspector process and Python's \<open>str\<close> of a
  decoded value are parameters; each outside call takes some time on the clock, which never goes back. Times are microseconds.
\<close>

section \<open>Calls\<close>

datatype http_answer = NoResponse string | Answered int "json option" "string option"
datatype process_answer = CannotRun string | Exited int string

record 'w user_env =
  ue_env :: environ
  ue_post :: "string \<Rightarrow> string \<Rightarrow> (string \<times> string) list \<Rightarrow> 'w \<Rightarrow> http_answer \<times> nat \<times> 'w"
  ue_inspect :: "string list \<Rightarrow> 'w \<Rightarrow> process_answer \<times> nat \<times> 'w"
  ue_str :: "json \<Rightarrow> string"
  ue_run_id :: string

record 'w slack_run =
  sr_world :: 'w
  sr_clock :: int
  sr_scopes :: "(string \<times> string list) list"
  sr_report :: "(string \<times> json) list"

text \<open>\<open>redact\<close>\<close>

definition redact_token :: "environ \<Rightarrow> string \<Rightarrow> string \<Rightarrow> string" where
  "redact_token env name v = (if truthy (env name) then replace_all (the (env name)) ''[REDACTED]'' v else v)"

definition redact :: "environ \<Rightarrow> string \<Rightarrow> string" where
  "redact env v = redact_token env ''SLACK_BOT_TOKEN'' (redact_token env ''SLACK_USER_TOKEN'' v)"

definition required_env :: "'w user_env \<Rightarrow> string \<Rightarrow> string \<Rightarrow> ('s, string) comp" where
  "required_env U name boundary = (let v = py_strip (getenv (ue_env U) name []) in
     if v = [] then raise_err (SmokeFailure boundary (''Set '' @ name @ '' in the local environment or .env'')) else ret v)"

definition post_request :: "'w user_env \<Rightarrow> string \<Rightarrow> string \<Rightarrow> (string \<times> string) list \<Rightarrow> ('w slack_run, http_answer) comp" where
  "post_request U m token data = (\<lambda>s. case ue_post U m token data (sr_world s) of
     (a, elapsed, w) \<Rightarrow> (Inr a, s\<lparr>sr_world := w, sr_clock := sr_clock s + int elapsed\<rparr>))"

definition note_scopes :: "string \<Rightarrow> string option \<Rightarrow> ('w slack_run, unit) comp" where
  "note_scopes token scopes = (\<lambda>s. (Inr (), if truthy scopes
     then s\<lparr>sr_scopes := dict_set token (map py_strip (split_on (CHR '','') (the scopes))) (sr_scopes s)\<rparr> else s))"

definition slack_call :: "'w user_env \<Rightarrow> string \<Rightarrow> string \<Rightarrow> (string \<times> string) list \<Rightarrow> ('w slack_run, (string \<times> json) list) comp" where
  "slack_call U token m data = bnd (post_request U m token data) (\<lambda>a. case a of
     NoResponse kind \<Rightarrow> raise_err (SlackUserError (''Slack '' @ m @ '' transport error: '' @ kind))
   | Answered status body scopes \<Rightarrow> (case body of
       None \<Rightarrow> raise_err (SlackUserError (''Slack '' @ m @ '' returned invalid JSON''))
     | Some (JObj kvs) \<Rightarrow>
         if dict_get kvs ''ok'' \<noteq> JBool True
         then raise_err (SlackUserError (''Slack '' @ m @ '' failed: '' @ take 100 (redact (ue_env U)
                (case map_of kvs ''error'' of None \<Rightarrow> ''unknown_error'' | Some v \<Rightarrow> ue_str U v))))
         else if 400 \<le> status then raise_err (SlackUserError (''Slack '' @ m @ '' failed: HTTP '' @ show_int status))
         else bnd (note_scopes token scopes) (\<lambda>_. ret kvs)
     | Some _ \<Rightarrow> raise_err (SlackUserError (''Slack '' @ m @ '' returned a non-object response''))))"

definition slack_auth :: "'w user_env \<Rightarrow> string \<Rightarrow> ('w slack_run, (string \<times> json) list) comp" where
  "slack_auth U token = bnd (slack_call U token ''auth.test'' []) (\<lambda>kvs.
     if \<not> py_true (dict_get kvs ''team_id'') \<or> \<not> py_true (dict_get kvs ''user_id'')
     then raise_err (SlackUserError ''Slack auth.test omitted team_id or user_id'') else ret kvs)"

text \<open>\<open>post\<close> returns the timestamp of the message and that of its thread.\<close>

definition slack_post :: "'w user_env \<Rightarrow> string \<Rightarrow> string \<Rightarrow> string \<Rightarrow> string option \<Rightarrow> ('w slack_run, string \<times> string) comp" where
  "slack_post U token channel text thread_ts =
     bnd (slack_call U token ''chat.postMessage''
       ([(''channel'', channel), (''text'', text)] @ (if truthy thread_ts then [(''thread_ts'', the thread_ts)] else []))) (\<lambda>kvs.
     if \<not> py_true (dict_get kvs ''ts'') then raise_err (SlackUserError ''Slack chat.postMessage omitted ts'')
     else if py_true (dict_get kvs ''channel'') \<and> dict_get kvs ''channel'' \<noteq> JStr channel
     then raise_err (SlackUserError ''Slack chat.postMessage returned a different channel'')
     else let ts = ue_str U (dict_get kvs ''ts'') in ret (ts, if truthy thread_ts then the thread_ts else ts))"

section \<open>Messages\<close>

fun join_lines :: "string list \<Rightarrow> string" where
  "join_lines [] = []"
| "join_lines [x] = x"
| "join_lines (x # y # ys) = x @ [CHR 0x0A] @ join_lines (y # ys)"

definition nonempty :: "string list \<Rightarrow> string list" where
  "nonempty = filter (\<lambda>s. s \<noteq> [])"

fun visible_block_text :: "json \<Rightarrow> string" and block_items :: "json list \<Rightarrow> string list" and block_fields :: "(string \<times> json) list \<Rightarrow> string list" where
  "visible_block_text (JArr xs) = join_lines (nonempty (block_items xs))"
| "visible_block_text (JObj kvs) = join_lines (block_fields kvs)"
| "visible_block_text _ = []"
| "block_items [] = []"
| "block_items (x # xs) = visible_block_text x # block_items xs"
| "block_fields [] = []"
| "block_fields ((k, v) # kvs) =
     (if k \<in> {''text'', ''markdown_text''} \<and> is_str v then (case v of JStr s \<Rightarrow> [s] | _ \<Rightarrow> [])
      else nonempty [visible_block_text v]) @ block_fields kvs"

record user_message =
  um_ts :: string
  um_user :: json
  um_bot_id :: json
  um_text :: string
  um_content :: string
  um_block_text :: string
  um_thread_ts :: string

definition text_field :: "(string \<times> json) list \<Rightarrow> string \<Rightarrow> string" where
  "text_field kvs k = (case dict_get kvs k of JStr s \<Rightarrow> s | _ \<Rightarrow> [])"

definition normalize_message :: "(json \<Rightarrow> string) \<Rightarrow> string \<Rightarrow> json \<Rightarrow> error + user_message" where
  "normalize_message str root_ts v = (case v of
     JObj kvs \<Rightarrow>
       if \<not> py_true (dict_get kvs ''ts'') then Inl (SlackUserError ''Slack conversations.replies contained a message without ts'')
       else let txt_part = text_field kvs ''text''; blocks = visible_block_text (dict_get kvs ''blocks'');
                chunks = visible_block_text (dict_get kvs ''chunks''); attachments = visible_block_text (dict_get kvs ''attachments'');
                markdown = text_field kvs ''markdown_text'';
                body = (if py_true (dict_get kvs ''blocks'') then blocks else if chunks \<noteq> [] then chunks else if markdown \<noteq> [] then markdown else txt_part)
            in Inr \<lparr>um_ts = str (dict_get kvs ''ts''), um_user = dict_get kvs ''user'', um_bot_id = dict_get kvs ''bot_id'', um_text = txt_part,
                 um_content = join_lines (nonempty [body, attachments]),
                 um_block_text = join_lines (nonempty [blocks, chunks, attachments, markdown]),
                 um_thread_ts = (if py_true (dict_get kvs ''thread_ts'') then str (dict_get kvs ''thread_ts'') else root_ts)\<rparr>
   | _ \<Rightarrow> Inl (SlackUserError ''Slack conversations.replies contained a message without ts''))"

fun map_all :: "('a \<Rightarrow> error + 'b) \<Rightarrow> 'a list \<Rightarrow> error + 'b list" where
  "map_all f [] = Inr []"
| "map_all f (x # xs) = bind_sum (f x) (\<lambda>y. bind_sum (map_all f xs) (\<lambda>ys. Inr (y # ys)))"

definition next_cursor :: "(json \<Rightarrow> string) \<Rightarrow> (string \<times> json) list \<Rightarrow> error + string" where
  "next_cursor str kvs = bind_sum (as_dict (py_or (dict_get kvs ''response_metadata'') (JObj []))) (\<lambda>meta.
     Inr (if py_true (dict_get meta ''next_cursor'') then str (dict_get meta ''next_cursor'') else []))"

text \<open>\<open>thread\<close>: at most 20 pages, each with a new cursor.\<close>

fun thread_pages :: "nat \<Rightarrow> 'w user_env \<Rightarrow> string \<Rightarrow> string \<Rightarrow> string \<Rightarrow> string \<Rightarrow> string list \<Rightarrow> user_message list \<Rightarrow> ('w slack_run, user_message list) comp" where
  "thread_pages 0 U token channel ts cursor seen messages = raise_err (SlackUserError ''Slack conversations.replies exceeded 20 pages'')"
| "thread_pages (Suc n) U token channel ts cursor seen messages =
     bnd (slack_call U token ''conversations.replies''
       ([(''channel'', channel), (''ts'', ts), (''limit'', ''100'')] @ (if cursor = [] then [] else [(''cursor'', cursor)]))) (\<lambda>kvs.
     case dict_get kvs ''messages'' of
       JArr page \<Rightarrow>
         bnd (lift_sum (map_all (normalize_message (ue_str U) ts) page)) (\<lambda>new.
         if \<not> py_true (dict_get kvs ''has_more'') then ret (messages @ new)
         else bnd (lift_sum (next_cursor (ue_str U) kvs)) (\<lambda>c.
           if c = [] \<or> c \<in> set seen then raise_err (SlackUserError ''Slack conversations.replies pagination did not advance'')
           else thread_pages n U token channel ts c (seen @ [c]) (messages @ new)))
     | _ \<Rightarrow> raise_err (SlackUserError ''Slack conversations.replies omitted messages''))"

definition slack_thread :: "'w user_env \<Rightarrow> string \<Rightarrow> string \<Rightarrow> string \<Rightarrow> ('w slack_run, user_message list) comp" where
  "slack_thread U token channel ts = thread_pages 20 U token channel ts [] [] []"

text \<open>\<open>s.count(p)\<close>\<close>

fun count_from :: "nat \<Rightarrow> string \<Rightarrow> string \<Rightarrow> nat" where
  "count_from skip p [] = 0"
| "count_from (Suc skip) p (c # cs) = count_from skip p cs"
| "count_from 0 p (c # cs) = (if starts_with p (c # cs) then Suc (count_from (length p - 1) p cs) else count_from 0 p cs)"

definition from_agent :: "string \<Rightarrow> string \<Rightarrow> string \<Rightarrow> string option \<Rightarrow> user_message \<Rightarrow> bool" where
  "from_agent root_ts human agent agent_bot m =
     (\<not> (um_ts m = root_ts \<or> um_thread_ts m \<noteq> root_ts) \<and> um_user m \<noteq> JStr human
      \<and> \<not> (um_user m \<noteq> JStr agent \<and> (\<not> truthy agent_bot \<or> um_bot_id m \<noteq> JStr (the agent_bot))))"

fun collect_matches :: "string \<Rightarrow> string \<Rightarrow> string \<Rightarrow> string \<Rightarrow> string option \<Rightarrow> user_message list \<Rightarrow> error + user_message list" where
  "collect_matches marker root_ts human agent agent_bot [] = Inr []"
| "collect_matches marker root_ts human agent agent_bot (m # ms) =
     (if \<not> from_agent root_ts human agent agent_bot m \<or> \<not> contains marker (um_content m) then collect_matches marker root_ts human agent agent_bot ms
      else if count_from 0 marker (um_content m) \<noteq> 1 then Inl (SmokeFailure ''slack_projection'' (''Agent message repeats '' @ marker))
      else bind_sum (collect_matches marker root_ts human agent agent_bot ms) (\<lambda>xs. Inr (m # xs)))"

definition marker_matches :: "user_message list \<Rightarrow> string \<Rightarrow> string \<Rightarrow> string \<Rightarrow> string \<Rightarrow> string option \<Rightarrow> error + user_message list" where
  "marker_matches messages marker root_ts human agent agent_bot =
     bind_sum (collect_matches marker root_ts human agent agent_bot messages) (\<lambda>ms.
     if \<not> distinct (map um_ts ms) then Inl (SmokeFailure ''thread_read'' (''Slack returned a duplicate message timestamp for '' @ marker))
     else if 1 < length ms then Inl (SmokeFailure ''slack_projection'' (''More than one agent message contains '' @ marker))
     else Inr ms)"

section \<open>Inspection\<close>

definition inspect_binding :: "'w user_env \<Rightarrow> string \<Rightarrow> string \<Rightarrow> string \<Rightarrow> ('w slack_run, (string \<times> json) list) comp" where
  "inspect_binding U team channel root_ts = (\<lambda>s.
     case ue_inspect U [''--team-id'', team, ''--channel-id'', channel, ''--thread-ts'', root_ts] (sr_world s) of (a, elapsed, w) \<Rightarrow>
       (case a of
          CannotRun kind \<Rightarrow> Inl (SmokeFailure ''backend_inspection'' (''Inspector could not run: '' @ kind))
        | Exited code out \<Rightarrow>
            if code \<noteq> 0 then Inl (SmokeFailure ''backend_inspection'' (''Inspector exited with status '' @ show_int code))
            else (case json_loads out of
              Inl e \<Rightarrow> Inl (SmokeFailure ''backend_inspection'' ''Inspector returned invalid JSON'')
            | Inr (JObj kvs) \<Rightarrow> Inr kvs
            | Inr _ \<Rightarrow> Inl (SmokeFailure ''backend_inspection'' ''Inspector returned a non-object result'')),
        s\<lparr>sr_world := w, sr_clock := sr_clock s + int elapsed\<rparr>))"

text \<open>A value as an element of a Python set: \<open>True\<close> is 1, and a list or an object cannot be one.\<close>

definition set_key :: "json \<Rightarrow> error + json" where
  "set_key v = (case v of
     JBool b \<Rightarrow> Inr (JNum (if b then 1 else 0))
   | JArr xs \<Rightarrow> Inl (TypeError ''unhashable'')
   | JObj kvs \<Rightarrow> Inl (TypeError ''unhashable'')
   | _ \<Rightarrow> Inr v)"

definition set_size :: "json list \<Rightarrow> error + nat" where
  "set_size vs = bind_sum (map_all set_key vs) (\<lambda>ks. Inr (length (remdups ks)))"

definition dict_fields :: "json list \<Rightarrow> string \<Rightarrow> json list" where
  "dict_fields tasks k = concat (map (\<lambda>t. case t of JObj kvs \<Rightarrow> [dict_get kvs k] | _ \<Rightarrow> []) tasks)"

text \<open>\<open>task[k] != wanted\<close>, and \<open>any\<close> of conditions that may raise.\<close>

definition differs :: "string \<Rightarrow> string \<Rightarrow> json \<Rightarrow> error + bool" where
  "differs k wanted t = (case t of
     JObj kvs \<Rightarrow> (case map_of kvs k of None \<Rightarrow> Inl (KeyError k) | Some v \<Rightarrow> Inr (v \<noteq> JStr wanted))
   | _ \<Rightarrow> Inl (TypeError ''not subscriptable''))"

fun any_sum :: "('a \<Rightarrow> error + bool) \<Rightarrow> 'a list \<Rightarrow> error + bool" where
  "any_sum f [] = Inr False"
| "any_sum f (x # xs) = bind_sum (f x) (\<lambda>b. if b then Inr True else any_sum f xs)"

definition slack_origin :: "string \<Rightarrow> json \<Rightarrow> bool" where
  "slack_origin team v = (case v of JStr s \<Rightarrow> starts_with (''slack:event:'' @ team @ '':'') s | _ \<Rightarrow> False)"

definition validate_tasks :: "string \<Rightarrow> json list \<Rightarrow> error + unit" where
  "validate_tasks team tasks =
     (let task_ids = dict_fields tasks ''task_id''; message_ids = dict_fields tasks ''client_message_id'' in
      bind_sum (if length task_ids \<noteq> 2 \<or> \<not> list_all py_true task_ids then Inr True else bind_sum (set_size task_ids) (\<lambda>n. Inr (n \<noteq> 2))) (\<lambda>bad.
      if bad then Inl (SmokeFailure ''a2a_task_creation'' ''Task IDs are missing or duplicated'')
      else bind_sum (if length message_ids \<noteq> 2 then Inr True
                     else bind_sum (set_size message_ids) (\<lambda>n. Inr (n \<noteq> 2 \<or> \<not> list_all (slack_origin team) message_ids))) (\<lambda>bad.
      if bad then Inl (SmokeFailure ''a2a_task_creation'' ''Tasks are not two distinct Slack-originated turns'')
      else bind_sum (any_sum (differs ''controller_state'' ''COMPLETED'') tasks) (\<lambda>bad.
      if bad then Inl (SmokeFailure ''agent_execution'' ''A2A Tasks have not both completed'')
      else bind_sum (any_sum (\<lambda>t. bind_sum (differs ''projection_status'' ''completed'' t) (\<lambda>b. if b then Inr True else differs ''task_state'' ''COMPLETED'' t)) tasks) (\<lambda>bad.
      if bad then Inl (SmokeFailure ''slack_projection'' ''Slack projections have not both completed'') else Inr ())))))"

definition validate_inspection :: "(string \<times> json) list \<Rightarrow> string \<Rightarrow> error + unit" where
  "validate_inspection v team = (case dict_get v ''binding'' of
     JObj binding \<Rightarrow>
       if \<not> py_true (dict_get binding ''thread_id'') \<or> \<not> py_true (dict_get binding ''context_id'') \<or> dict_get binding ''agent_id'' \<noteq> JStr ''cma''
       then Inl (SmokeFailure ''continuation_binding'' ''Binding has no application thread/CMA context'')
       else if dict_get v ''legacy_tables_present'' \<noteq> JArr [] then Inl (SmokeFailure ''continuation_binding'' ''Legacy application-session tables remain'')
       else (case dict_get v ''tasks'' of
         JArr tasks \<Rightarrow> if length tasks \<noteq> 2 then Inl (SmokeFailure ''a2a_task_creation'' (''Expected two tasks, found '' @ show_nat (length tasks)))
                       else validate_tasks team tasks
       | _ \<Rightarrow> Inl (SmokeFailure ''a2a_task_creation'' ''Expected two tasks, found none''))
   | _ \<Rightarrow> Inl (SmokeFailure ''slack_delivery'' ''No Slack application-thread binding was found''))"

definition timeout_boundary :: "(string \<times> json) list \<Rightarrow> nat \<Rightarrow> error + string" where
  "timeout_boundary v expected =
     (if \<not> py_true (dict_get v ''binding'') then Inr ''slack_delivery''
      else case py_or (dict_get v ''tasks'') (JArr []) of
        JArr tasks \<Rightarrow>
          if length tasks < expected then Inr (if expected = 2 then ''continuation_binding'' else ''a2a_task_creation'')
          else bind_sum (as_dict (tasks ! (expected - 1))) (\<lambda>task.
            if dict_get task ''controller_state'' \<noteq> JStr ''COMPLETED'' then Inr ''agent_execution''
            else if dict_get task ''projection_status'' \<noteq> JStr ''completed'' then Inr ''slack_projection''
            else Inr ''thread_read'')
      | _ \<Rightarrow> Inl (TypeError ''tasks''))"

section \<open>Waiting\<close>

text \<open>The clock of a run never goes back.\<close>

definition later :: "'w slack_run \<Rightarrow> 'w slack_run \<Rightarrow> bool" where
  "later s t = (sr_clock s \<le> sr_clock t)"

interpretation later: step_relation later
  by unfold_locales (auto simp: later_def)

lemma later_slack_call: "keeps later (slack_call U token m data)"
proof -
  have "keeps later (post_request U m token data)"
    by (auto intro!: keepsI simp: post_request_def later_def split: prod.splits)
  moreover have "keeps later (note_scopes token scopes)" for scopes
    by (auto intro!: keepsI simp: note_scopes_def later_def)
  ultimately show ?thesis unfolding slack_call_def
    by (auto intro!: later.keeps_control split: http_answer.splits option.splits json.splits)
qed

lemma later_pages: "keeps later (thread_pages n U token channel ts cursor seen messages)"
  by (induction n arbitrary: cursor seen messages)
     (auto intro!: later.keeps_control later_slack_call later.keeps_lift split: json.splits)

lemma later_thread: "slack_thread U token channel ts s = (r, t) \<Longrightarrow> sr_clock s \<le> sr_clock t"
  using keeps_run [OF later_pages, of 20 U token channel ts "[]" "[]" "[]" s r t] by (simp add: slack_thread_def later_def)

lemma later_inspect: "inspect_binding U team channel root_ts s = (r, t) \<Longrightarrow> sr_clock s \<le> sr_clock t"
  by (auto simp: inspect_binding_def split: prod.splits)

definition poll_interval :: "nat \<Rightarrow> int" where
  "poll_interval attempt = [1000000, 2000000, 5000000] ! min attempt 2"

lemma poll_interval_positive: "0 < poll_interval attempt"
  by (auto simp: poll_interval_def min_def less_Suc_eq numeral_2_eq_2 le_Suc_eq nth_Cons split: nat.splits)

lemma sleep_moves:
  "\<not> deadline \<le> t \<Longrightarrow> s \<le> t \<Longrightarrow> nat (deadline - (t + min (poll_interval attempt) (deadline - t))) < nat (deadline - s)"
  using poll_interval_positive [of attempt] by (simp add: min_def)

definition raise_at :: "error + string \<Rightarrow> string \<Rightarrow> ('s, 'a) comp" where
  "raise_at boundary evidence = bnd (lift_sum boundary) (\<lambda>b. raise_err (SmokeFailure b evidence))"

function wait_marker_loop :: "'w user_env \<Rightarrow> string \<Rightarrow> string \<Rightarrow> string \<Rightarrow> string \<Rightarrow> string \<Rightarrow> string \<Rightarrow> string option \<Rightarrow> string \<Rightarrow> nat \<Rightarrow> int \<Rightarrow> nat
    \<Rightarrow> ('w slack_run, user_message) comp" where
  "wait_marker_loop U token channel root_ts marker human agent agent_bot team expected deadline attempt s =
     (case slack_thread U token channel root_ts s of
        (Inl (SlackUserError m), t) \<Rightarrow> (Inl (SmokeFailure ''thread_read'' m), t)
      | (Inl e, t) \<Rightarrow> (Inl e, t)
      | (Inr messages, t) \<Rightarrow>
          (case marker_matches messages marker root_ts human agent agent_bot of
             Inl e \<Rightarrow> (Inl e, t)
           | Inr (m # ms) \<Rightarrow> (Inr m, t)
           | Inr [] \<Rightarrow>
               let remaining = deadline - sr_clock t in
               if remaining \<le> 0
               then bnd (inspect_binding U team channel root_ts) (\<lambda>v. raise_at (timeout_boundary v expected) (''Timed out waiting for '' @ marker)) t
               else wait_marker_loop U token channel root_ts marker human agent agent_bot team expected deadline (attempt + 1)
                      (t\<lparr>sr_clock := sr_clock t + min (poll_interval attempt) remaining\<rparr>)))"
  by pat_completeness auto
termination
  by (relation "measure (\<lambda>(U, token, channel, root_ts, marker, human, agent, agent_bot, team, expected, deadline, attempt, s). nat (deadline - sr_clock s))")
     (auto simp del: nat_less_iff zless_nat_conj intro!: sleep_moves dest!: later_thread [OF sym])

declare wait_marker_loop.simps [simp del]

definition wait_for_marker :: "'w user_env \<Rightarrow> string \<Rightarrow> string \<Rightarrow> string \<Rightarrow> string \<Rightarrow> string \<Rightarrow> string \<Rightarrow> string option \<Rightarrow> string \<Rightarrow> nat \<Rightarrow> ('w slack_run, user_message) comp" where
  "wait_for_marker U token channel root_ts marker human agent agent_bot team expected = (\<lambda>s.
     wait_marker_loop U token channel root_ts marker human agent agent_bot team expected (sr_clock s + 180000000) 0 s)"

function wait_inspection_loop :: "'w user_env \<Rightarrow> string \<Rightarrow> string \<Rightarrow> string \<Rightarrow> int \<Rightarrow> ('w slack_run, (string \<times> json) list) comp" where
  "wait_inspection_loop U team channel root_ts deadline s =
     (case inspect_binding U team channel root_ts s of
        (Inl e, t) \<Rightarrow> (Inl e, t)
      | (Inr v, t) \<Rightarrow>
          (case validate_inspection v team of
             Inr _ \<Rightarrow> (Inr v, t)
           | Inl e \<Rightarrow>
               if (case e of SmokeFailure _ _ \<Rightarrow> True | _ \<Rightarrow> False) \<and> sr_clock t < deadline
               then wait_inspection_loop U team channel root_ts deadline (t\<lparr>sr_clock := sr_clock t + 2000000\<rparr>)
               else (Inl e, t)))"
  by pat_completeness auto
termination
  by (relation "measure (\<lambda>(U, team, channel, root_ts, deadline, s). nat (deadline - sr_clock s))")
     (auto dest!: later_inspect [OF sym])

declare wait_inspection_loop.simps [simp del]

definition wait_for_inspection :: "'w user_env \<Rightarrow> string \<Rightarrow> string \<Rightarrow> string \<Rightarrow> ('w slack_run, (string \<times> json) list) comp" where
  "wait_for_inspection U team channel root_ts = (\<lambda>s. wait_inspection_loop U team channel root_ts (sr_clock s + 90000000) s)"

section \<open>The smoke test\<close>

definition as_boundary :: "string \<Rightarrow> ('s, 'a) comp \<Rightarrow> ('s, 'a) comp" where
  "as_boundary b m = try_except m (\<lambda>e. case e of SlackUserError msg \<Rightarrow> Some (raise_err (SmokeFailure b msg)) | _ \<Rightarrow> None)"

definition report_set :: "(string \<times> json) list \<Rightarrow> ('w slack_run, unit) comp" where
  "report_set kvs = (\<lambda>s. (Inr (), s\<lparr>sr_report := fold (\<lambda>(k, v) d. dict_set k v d) kvs (sr_report s)\<rparr>))"

definition fail_if :: "bool \<Rightarrow> string \<Rightarrow> string \<Rightarrow> ('s, unit) comp" where
  "fail_if b boundary evidence = (if b then raise_err (SmokeFailure boundary evidence) else ret ())"

definition exactly_one :: "user_message list \<Rightarrow> string \<Rightarrow> string \<Rightarrow> string \<Rightarrow> string \<Rightarrow> string option \<Rightarrow> ('s, unit) comp" where
  "exactly_one messages marker root_ts human agent agent_bot =
     bnd (lift_sum (marker_matches messages marker root_ts human agent agent_bot)) (\<lambda>ms.
     fail_if (length ms \<noteq> 1) ''slack_projection'' (''Final thread does not contain exactly one '' @ marker))"

definition smoke_identities :: "'w user_env \<Rightarrow> string \<Rightarrow> string \<Rightarrow> ('w slack_run, string \<times> string \<times> string \<times> string option) comp" where
  "smoke_identities U user_token bot_token =
     bnd (as_boundary ''user_auth'' (slack_auth U user_token)) (\<lambda>human.
     bnd (as_boundary ''bot_auth'' (slack_auth U bot_token)) (\<lambda>agent.
     let team = ue_str U (dict_get human ''team_id''); expected = py_strip (getenv (ue_env U) ''E2E_LIVE_SLACK_TEAM_ID'' []);
         human_id = ue_str U (dict_get human ''user_id''); agent_user = ue_str U (dict_get agent ''user_id'');
         bot_id = (if py_true (dict_get agent ''bot_id'') then Some (ue_str U (dict_get agent ''bot_id'')) else None) in
     bnd (fail_if (dict_get agent ''team_id'' \<noteq> JStr team \<or> expected \<noteq> [] \<and> expected \<noteq> team) ''user_auth'' ''User, bot, and configured team IDs do not match'') (\<lambda>_.
     bnd (fail_if (human_id = agent_user) ''bot_auth'' ''User and bot tokens resolved to the same Slack user'') (\<lambda>_.
     ret (team, human_id, agent_user, bot_id)))))"

text \<open>The two turns: the root of their thread.\<close>

definition smoke_turns :: "'w user_env \<Rightarrow> string \<Rightarrow> string \<Rightarrow> string \<Rightarrow> string \<Rightarrow> string \<Rightarrow> string \<Rightarrow> string option \<Rightarrow> string \<Rightarrow> ('w slack_run, string) comp" where
  "smoke_turns U user_token channel first second human agent agent_bot team = (let run_id = ue_run_id U in
     bnd (as_boundary ''human_post'' (slack_post U user_token channel (''<@'' @ agent @ ''> [E2E '' @ run_id @ ''] Reply exactly '' @ first) None)) (\<lambda>(_, root_ts).
     bnd (report_set [(''thread_ts'', JStr root_ts)]) (\<lambda>_.
     bnd (wait_for_marker U user_token channel root_ts first human agent agent_bot team 1) (\<lambda>_.
     bnd (as_boundary ''human_post'' (slack_post U user_token channel (''[E2E '' @ run_id @ ''] Reply exactly '' @ second) (Some root_ts))) (\<lambda>(_, thread_ts).
     bnd (fail_if (thread_ts \<noteq> root_ts) ''continuation_binding'' ''Slack returned a different root for the second turn'') (\<lambda>_.
     bnd (wait_for_marker U user_token channel root_ts second human agent agent_bot team 2) (\<lambda>_.
     ret root_ts)))))))"

definition smoke_verdict :: "'w user_env \<Rightarrow> string \<Rightarrow> string \<Rightarrow> string \<Rightarrow> string \<Rightarrow> string \<Rightarrow> string \<Rightarrow> string option \<Rightarrow> string \<Rightarrow> string \<Rightarrow> ('w slack_run, unit) comp" where
  "smoke_verdict U user_token channel first second human agent agent_bot team root_ts =
     bnd (wait_for_inspection U team channel root_ts) (\<lambda>v.
     bnd (as_boundary ''thread_read'' (slack_thread U user_token channel root_ts)) (\<lambda>messages.
     bnd (exactly_one messages first root_ts human agent agent_bot) (\<lambda>_.
     bnd (exactly_one messages second root_ts human agent agent_bot) (\<lambda>_.
     let tasks = (case dict_get v ''tasks'' of JArr ts \<Rightarrow> ts | _ \<Rightarrow> []);
         binding = (case dict_get v ''binding'' of JObj b \<Rightarrow> b | _ \<Rightarrow> []) in
     report_set [(''application_thread_id'', dict_get binding ''thread_id''), (''context_id'', dict_get binding ''context_id''),
       (''task_ids'', JArr (dict_fields tasks ''task_id'')), (''push_delivered'', JArr (dict_fields tasks ''push_delivered''))]))))"

definition smoke_body :: "'w user_env \<Rightarrow> ('w slack_run, (string \<times> json) list) comp" where
  "smoke_body U = (let first = ''ACK_'' @ ue_run_id U; second = ''CONTINUE_'' @ ue_run_id U in
     bnd (required_env U ''SLACK_USER_TOKEN'' ''user_auth'') (\<lambda>user_token.
     bnd (required_env U ''SLACK_BOT_TOKEN'' ''bot_auth'') (\<lambda>bot_token.
     bnd (required_env U ''E2E_LIVE_SLACK_CHANNEL_ID'' ''configuration'') (\<lambda>channel.
     bnd (required_env U ''DSQL_ENDPOINT'' ''backend_inspection'') (\<lambda>_.
     bnd (smoke_identities U user_token bot_token) (\<lambda>(team, human, agent, agent_bot).
     bnd (report_set [(''team_id'', JStr team), (''human_user_id'', JStr human), (''agent_user_id'', JStr agent), (''channel_id'', JStr channel),
       (''first_marker'', JStr first), (''continuation_marker'', JStr second)]) (\<lambda>_.
     bnd (smoke_turns U user_token channel first second human agent agent_bot team) (\<lambda>root_ts.
     bnd (smoke_verdict U user_token channel first second human agent agent_bot team root_ts) (\<lambda>_.
     (\<lambda>s. (Inr (sr_report s), s)))))))))))"

definition smoke :: "'w user_env \<Rightarrow> ('w slack_run, (string \<times> json) list) comp" where
  "smoke U = bnd (report_set [(''run_id'', JStr (ue_run_id U))]) (\<lambda>_. (\<lambda>s. case smoke_body U s of
     (Inl (SmokeFailure b evidence), t) \<Rightarrow>
       (let report = fold (\<lambda>(k, v) d. dict_set k v d) [(''first_broken_boundary'', JStr b), (''evidence'', JStr (redact (ue_env U) evidence))] (sr_report t)
        in (Inl (SmokeFailure b (dumps_indented 0 (JObj report))), t))
   | other \<Rightarrow> other))"

section \<open>What the commands guarantee\<close>

lemma collect_matches_Inr:
  "collect_matches marker root_ts human agent agent_bot ms = Inr xs \<longleftrightarrow>
     xs = filter (\<lambda>m. from_agent root_ts human agent agent_bot m \<and> contains marker (um_content m)) ms
     \<and> list_all (\<lambda>m. count_from 0 marker (um_content m) = 1) xs"
proof (induction ms arbitrary: xs)
  case (Cons m ms)
  show ?case
  proof (cases "from_agent root_ts human agent agent_bot m \<and> contains marker (um_content m)")
    case True
    then show ?thesis by (cases xs) (auto simp: bind_sum_Inr Cons.IH)
  next
    case False
    then show ?thesis by (auto simp: Cons.IH)
  qed
qed auto

lemma marker_matches_one:
  "marker_matches ms marker root_ts human agent agent_bot = Inr [m] \<longleftrightarrow>
     filter (\<lambda>m. from_agent root_ts human agent agent_bot m \<and> contains marker (um_content m)) ms = [m] \<and> count_from 0 marker (um_content m) = 1"
  by (auto simp: marker_matches_def bind_sum_Inr collect_matches_Inr)

lemma exactly_one_Inr:
  "exactly_one ms marker root_ts human agent agent_bot s = (Inr u, t) \<longleftrightarrow>
     s = t \<and> (\<exists>m. marker_matches ms marker root_ts human agent agent_bot = Inr [m])"
  by (auto simp: exactly_one_def bnd_Inr lift_sum_def fail_if_def ret_def raise_err_def length_Suc_conv split: sum.splits if_splits)

lemma wait_inspection_valid:
  "wait_inspection_loop U team channel root_ts deadline s = (Inr v, t) \<Longrightarrow> validate_inspection v team = Inr ()"
proof (induction U team channel root_ts deadline s rule: wait_inspection_loop.induct)
  case (1 U team channel root_ts deadline s)
  obtain r u where run: "inspect_binding U team channel root_ts s = (r, u)" by fastforce
  show ?case
  proof (cases r)
    case (Inl e)
    with 1(2) run show ?thesis by (simp add: wait_inspection_loop.simps [of U team channel root_ts deadline s])
  next
    case (Inr w)
    with 1(2) run 1(1) [OF run [symmetric] Inr] show ?thesis
      by (auto simp: wait_inspection_loop.simps [of U team channel root_ts deadline s] split: sum.splits if_splits)
  qed
qed

lemma smoke_identities_differ:
  "smoke_identities U user_token bot_token s = (Inr (team, human, agent, agent_bot), t) \<Longrightarrow> human \<noteq> agent"
  by (auto simp: smoke_identities_def bnd_Inr Let_def fail_if_def ret_def raise_err_def split: if_splits)

definition one_reply :: "user_message list \<Rightarrow> string \<Rightarrow> string \<Rightarrow> string \<Rightarrow> string \<Rightarrow> string option \<Rightarrow> bool" where
  "one_reply messages marker root_ts human agent agent_bot = (\<exists>m.
     filter (\<lambda>m. from_agent root_ts human agent agent_bot m \<and> contains marker (um_content m)) messages = [m]
     \<and> count_from 0 marker (um_content m) = 1)"

lemma smoke_verdict_passed:
  assumes "smoke_verdict U user_token channel first second human agent agent_bot team root_ts s = (Inr u, t)"
  obtains messages v where "validate_inspection v team = Inr ()" "one_reply messages first root_ts human agent agent_bot"
    "one_reply messages second root_ts human agent agent_bot"
    "dict_get (sr_report t) ''task_ids'' = JArr (dict_fields (case dict_get v ''tasks'' of JArr ts \<Rightarrow> ts | _ \<Rightarrow> []) ''task_id'')"
proof -
  let ?tasks = "\<lambda>v. case dict_get v ''tasks'' of JArr ts \<Rightarrow> ts | _ \<Rightarrow> []" and ?binding = "\<lambda>v. case dict_get v ''binding'' of JObj b \<Rightarrow> b | _ \<Rightarrow> []"
  from assms obtain v messages s1 s2 s3 where inspection: "wait_for_inspection U team channel root_ts s1 = (Inr v, s2)"
    and one: "\<exists>m. marker_matches messages first root_ts human agent agent_bot = Inr [m]" "\<exists>m. marker_matches messages second root_ts human agent agent_bot = Inr [m]"
    and t: "report_set [(''application_thread_id'', dict_get (?binding v) ''thread_id''), (''context_id'', dict_get (?binding v) ''context_id''),
       (''task_ids'', JArr (dict_fields (?tasks v) ''task_id'')), (''push_delivered'', JArr (dict_fields (?tasks v) ''push_delivered''))] s3 = (Inr u, t)"
    unfolding smoke_verdict_def bnd_Inr exactly_one_Inr Let_def by blast
  from t have "dict_get (sr_report t) ''task_ids'' = JArr (dict_fields (?tasks v) ''task_id'')"
    by (auto simp: report_set_def dict_get_set)
  moreover from inspection have "validate_inspection v team = Inr ()" by (auto simp: wait_for_inspection_def intro: wait_inspection_valid)
  moreover have "one_reply messages first root_ts human agent agent_bot" "one_reply messages second root_ts human agent agent_bot"
    using one by (auto simp: one_reply_def marker_matches_one)
  ultimately show thesis using that by blast
qed

lemma smoke_Inr:
  "smoke U s = (Inr report, t) \<longleftrightarrow> (\<exists>u. smoke_body U u = (Inr report, t) \<and> u = s\<lparr>sr_report := dict_set ''run_id'' (JStr (ue_run_id U)) (sr_report s)\<rparr>)"
  by (auto simp: smoke_def bnd_Inr report_set_def Let_def split: prod.splits sum.splits error.splits)

text \<open>A smoke test that passes has seen both replies exactly once in the final thread, each from the agent and not from the human user, and a
  valid inspection whose tasks it reports.\<close>

lemma passed_smoke:
  assumes "smoke U s = (Inr report, t)"
  shows "\<exists>team human agent agent_bot root_ts messages v. human \<noteq> agent \<and> validate_inspection v team = Inr ()
    \<and> one_reply messages (''ACK_'' @ ue_run_id U) root_ts human agent agent_bot
    \<and> one_reply messages (''CONTINUE_'' @ ue_run_id U) root_ts human agent agent_bot
    \<and> dict_get report ''task_ids'' = JArr (dict_fields (case dict_get v ''tasks'' of JArr ts \<Rightarrow> ts | _ \<Rightarrow> []) ''task_id'')"
proof -
  from assms obtain user_token bot_token channel team human agent agent_bot root_ts s1 s2 s3 u where
    "smoke_identities U user_token bot_token s1 = (Inr (team, human, agent, agent_bot), s2)"
    and verdict: "smoke_verdict U user_token channel (''ACK_'' @ ue_run_id U) (''CONTINUE_'' @ ue_run_id U) human agent agent_bot team root_ts s3 = (Inr u, t)"
    and report: "report = sr_report t"
    by (auto simp: smoke_Inr smoke_body_def bnd_Inr Let_def)
  then have "human \<noteq> agent" by (auto dest: smoke_identities_differ)
  with verdict report show ?thesis by (blast elim: smoke_verdict_passed)
qed

definition token_shape :: "string option \<Rightarrow> bool" where
  "token_shape t = (truthy t \<longrightarrow> starts_with ''xox'' (the t) \<and> CHR ''['' \<notin> set (the t) \<and> CHR '']'' \<notin> set (the t))"

lemma token_hidden:
  assumes "truthy t" "token_shape t" "u = the t \<or> \<not> contains (the t) s"
  shows "\<not> contains (the t) (replace_all u ''[REDACTED]'' s)"
proof -
  from assms(1,2) obtain x where x: "the t = ''xox'' @ x" "unbracketed (the t)"
    by (auto simp: token_shape_def unbracketed_def elim!: starts_withE split: option.splits)
  have "\<not> contains (the t) ''REDACTED''" by (simp add: x(1) starts_with_def)
  from replace_all_hides [OF x(2) this assms(3)] show ?thesis by simp
qed



end
