(* ===== verification/Fake_Provider.thy ===== *)
theory Fake_Provider
  imports Provider_Client Text_Patterns Ports
begin

text \<open>
  \<^verbatim>\<open>testing/fake_cma_provider.py\<close> (class \<open>FakeCmaProvider\<close>): the provider of local runs, an in-memory table of sessions and their events with
  switches for lost and refused calls. \<open>fake_sdk\<close> makes it the SDK of the controller's model, so that the controller and its provider form a closed system.
  An event is the dictionary the code builds; \<open>T\<close> is \<open>str\<close> on values that are not strings. Every operation only
  appends, the tables stay in step, and a session is found by its context and message however its creation ended.
\<close>

section \<open>State\<close>

type_synonym event_dict = "(string \<times> json) list"

record fake_cma =
  fk_sessions :: "(string \<times> session_summary) list"
  fk_events :: "(string \<times> event_dict list) list"
  fk_stream_calls :: nat
  fk_create_calls :: nat
  fk_send_calls :: nat
  fk_confirm_calls :: nat
  fk_custom_result_calls :: nat
  fk_interrupt_calls :: nat
  fk_lose_create_response :: bool
  fk_lose_send_response :: bool
  fk_timeout_before_send_acceptance :: bool
  fk_interrupt_preserves_approval :: bool
  fk_lose_confirmation_response :: bool
  fk_lose_interrupt_response :: bool
  fk_timeout_before_confirmation_acceptance :: bool
  fk_timeout_before_interrupt_acceptance :: bool
  fk_definitive_send_failure :: bool
  fk_automatic :: bool
  fk_counter :: nat
  fk_instance_id :: string
  fk_scripted_turns :: "(string \<times> event_dict list) list"

definition new_fake :: "string \<Rightarrow> fake_cma" where
  "new_fake uuid = \<lparr>fk_sessions = [], fk_events = [], fk_stream_calls = 0, fk_create_calls = 0, fk_send_calls = 0, fk_confirm_calls = 0,
     fk_custom_result_calls = 0, fk_interrupt_calls = 0, fk_lose_create_response = False, fk_lose_send_response = False,
     fk_timeout_before_send_acceptance = False, fk_interrupt_preserves_approval = False, fk_lose_confirmation_response = False,
     fk_lose_interrupt_response = False, fk_timeout_before_confirmation_acceptance = False, fk_timeout_before_interrupt_acceptance = False,
     fk_definitive_send_failure = False, fk_automatic = True, fk_counter = 0, fk_instance_id = take 8 uuid, fk_scripted_turns = []\<rparr>"

definition script :: "string \<Rightarrow> event_dict list \<Rightarrow> fake_cma \<Rightarrow> fake_cma" where
  "script prompt events p = p\<lparr>fk_scripted_turns := dict_set prompt events (fk_scripted_turns p)\<rparr>"

section \<open>Events\<close>

text \<open>\<open>f"{counter:06d}"\<close>\<close>

definition padded :: "nat \<Rightarrow> string" where
  "padded n = (let d = show_nat n in replicate (6 - length d) (CHR ''0'') @ d)"

definition fake_name :: "string \<Rightarrow> string \<Rightarrow> nat \<Rightarrow> string" where
  "fake_name prefix inst n = prefix @ ''_'' @ inst @ ''_'' @ padded n"

definition fake_id :: "string \<Rightarrow> (fake_cma, string) comp" where
  "fake_id prefix = (\<lambda>p. let n = fk_counter p + 1 in (Inr (fake_name prefix (fk_instance_id p) n), p\<lparr>fk_counter := n\<rparr>))"

definition event_text :: "(json \<Rightarrow> string) \<Rightarrow> json \<Rightarrow> string" where
  "event_text T v = (case v of JStr s \<Rightarrow> s | _ \<Rightarrow> T v)"

definition set_status :: "string \<Rightarrow> string \<Rightarrow> (fake_cma, unit) comp" where
  "set_status sid status = (\<lambda>p. case map_of (fk_sessions p) sid of
     None \<Rightarrow> (Inl (KeyError sid), p)
   | Some s \<Rightarrow> (Inr (), p\<lparr>fk_sessions := dict_set sid (s\<lparr>ss_status := status\<rparr>) (fk_sessions p)\<rparr>))"

definition append_event :: "string \<Rightarrow> event_dict \<Rightarrow> (fake_cma, unit) comp" where
  "append_event sid e = (\<lambda>p. case map_of (fk_events p) sid of
     None \<Rightarrow> (Inl (KeyError sid), p)
   | Some es \<Rightarrow> (Inr (), p\<lparr>fk_events := dict_set sid (es @ [e]) (fk_events p)\<rparr>))"

text \<open>\<open>setdefault("id", self._id("evt"))\<close> takes a number also when the event has an identifier.\<close>

definition emit :: "(json \<Rightarrow> string) \<Rightarrow> string \<Rightarrow> event_dict \<Rightarrow> (fake_cma, string) comp" where
  "emit T sid event =
     bnd (fake_id ''evt'') (\<lambda>i.
     let item = (case map_of event ''id'' of None \<Rightarrow> event @ [(''id'', JStr i)] | Some _ \<Rightarrow> event) in
     bnd (append_event sid item) (\<lambda>_.
     bnd (case map_of item ''type'' of
            None \<Rightarrow> raise_err (KeyError ''type'')
          | Some ty \<Rightarrow>
              if ty = JStr ''session.status_idle'' then set_status sid ''idle''
              else if ty = JStr ''session.status_running'' then set_status sid ''running''
              else ret ()) (\<lambda>_.
     ret (event_text T (dict_get item ''id'')))))"

definition text_content :: "string \<Rightarrow> json" where
  "text_content text = JArr [JObj [(''type'', JStr ''text''), (''text'', JStr text)]]"

definition idle_for :: "json \<Rightarrow> event_dict" where
  "idle_for reason = [(''type'', JStr ''session.status_idle''), (''stop_reason'', reason)]"

definition running :: event_dict where
  "running = [(''type'', JStr ''session.status_running'')]"

definition end_turn :: json where
  "end_turn = JObj [(''type'', JStr ''end_turn'')]"

definition finish_turn :: "(json \<Rightarrow> string) \<Rightarrow> string \<Rightarrow> string \<Rightarrow> (fake_cma, unit) comp" where
  "finish_turn T sid text =
     bnd (emit T sid [(''type'', JStr ''agent.message''), (''content'', text_content text)]) (\<lambda>_.
     bnd (emit T sid (idle_for end_turn)) (\<lambda>_. ret ()))"

definition scripted_for :: "string \<Rightarrow> fake_cma \<Rightarrow> event_dict list option" where
  "scripted_for prompt p = map_option snd (find (\<lambda>(key, _). prompt = key \<or> starts_with (rev key) (rev prompt)) (fk_scripted_turns p))"

definition complete_turn :: "(json \<Rightarrow> string) \<Rightarrow> string \<Rightarrow> string \<Rightarrow> (fake_cma, unit) comp" where
  "complete_turn T sid prompt = (\<lambda>p. case scripted_for prompt p of
     None \<Rightarrow> finish_turn T sid ''Done'' p
   | Some events \<Rightarrow> for_m events (\<lambda>e. bnd (emit T sid e) (\<lambda>_. ret ())) p)"

section \<open>The operations of the provider\<close>

text \<open>A switch is turned off when it takes effect.\<close>

definition fail_once :: "(fake_cma \<Rightarrow> bool) \<Rightarrow> (fake_cma \<Rightarrow> fake_cma) \<Rightarrow> error \<Rightarrow> (fake_cma, unit) comp" where
  "fail_once switch off e = (\<lambda>p. if switch p then (Inl e, off p) else (Inr (), p))"

definition change :: "(fake_cma \<Rightarrow> fake_cma) \<Rightarrow> (fake_cma, unit) comp" where
  "change f = (\<lambda>p. (Inr (), f p))"

definition automatically :: "(fake_cma, unit) comp \<Rightarrow> (fake_cma, unit) comp" where
  "automatically m = (\<lambda>p. if fk_automatic p then m p else (Inr (), p))"

definition fake_session :: "string \<Rightarrow> string \<Rightarrow> string \<Rightarrow> session_summary" where
  "fake_session sid cid mid = \<lparr>ss_id = sid, ss_title = Some ''A2A conversation'', ss_status = ''running'',
     ss_created_at = ''2026-01-01T00:00:00Z'', ss_archived_at = None, ss_environment_id = ''env_e2e'',
     ss_metadata = [(''controller'', ''a2a-cma''), (''a2a_context_id'', cid), (''a2a_creation_message_id'', mid)]\<rparr>"

definition add_session :: "session_summary \<Rightarrow> fake_cma \<Rightarrow> fake_cma" where
  "add_session s p = p\<lparr>fk_sessions := dict_set (ss_id s) s (fk_sessions p), fk_events := dict_set (ss_id s) [] (fk_events p)\<rparr>"

definition user_event :: "string \<Rightarrow> event_dict" where
  "user_event text = [(''type'', JStr ''user.message''), (''content'', text_content text)]"

definition get_session :: "string \<Rightarrow> (fake_cma, session_summary) comp" where
  "get_session sid = (\<lambda>p. case map_of (fk_sessions p) sid of None \<Rightarrow> (Inl (KeyError sid), p) | Some s \<Rightarrow> (Inr s, p))"

definition fake_create_session :: "(json \<Rightarrow> string) \<Rightarrow> string \<Rightarrow> string \<Rightarrow> string \<Rightarrow> (fake_cma, session_summary) comp" where
  "fake_create_session T cid mid text =
     bnd (change (\<lambda>p. p\<lparr>fk_create_calls := fk_create_calls p + 1\<rparr>)) (\<lambda>_.
     bnd (fake_id ''sesn'') (\<lambda>sid.
     bnd (change (add_session (fake_session sid cid mid))) (\<lambda>_.
     bnd (emit T sid (user_event text)) (\<lambda>_.
     bnd (emit T sid running) (\<lambda>_.
     bnd (automatically (complete_turn T sid text)) (\<lambda>_.
     bnd (fail_once fk_lose_create_response (\<lambda>p. p\<lparr>fk_lose_create_response := False\<rparr>) TimeoutError) (\<lambda>_.
     get_session sid)))))))"

definition for_message :: "string \<Rightarrow> string \<Rightarrow> session_summary \<Rightarrow> bool" where
  "for_message cid mid s = (map_of (ss_metadata s) ''a2a_context_id'' = Some cid \<and> map_of (ss_metadata s) ''a2a_creation_message_id'' = Some mid)"

definition fake_find_session :: "string \<Rightarrow> string \<Rightarrow> (fake_cma, session_summary option) comp" where
  "fake_find_session cid mid = (\<lambda>p. (Inr (find (for_message cid mid) (map snd (fk_sessions p))), p))"

definition fake_list_events :: "string \<Rightarrow> (fake_cma, event_dict list) comp" where
  "fake_list_events sid = (\<lambda>p. case map_of (fk_events p) sid of None \<Rightarrow> (Inl (KeyError sid), p) | Some es \<Rightarrow> (Inr es, p))"

definition fake_send_message :: "(json \<Rightarrow> string) \<Rightarrow> string \<Rightarrow> string \<Rightarrow> (fake_cma, string option) comp" where
  "fake_send_message T sid text =
     bnd (change (\<lambda>p. p\<lparr>fk_send_calls := fk_send_calls p + 1\<rparr>)) (\<lambda>_.
     bnd (fail_once fk_definitive_send_failure (\<lambda>p. p\<lparr>fk_definitive_send_failure := False\<rparr>) (DefinitiveProviderError ''bad request'')) (\<lambda>_.
     bnd (fail_once fk_timeout_before_send_acceptance (\<lambda>p. p\<lparr>fk_timeout_before_send_acceptance := False\<rparr>) TimeoutError) (\<lambda>_.
     bnd (emit T sid (user_event text)) (\<lambda>i.
     bnd (emit T sid running) (\<lambda>_.
     bnd (automatically (complete_turn T sid text)) (\<lambda>_.
     bnd (fail_once fk_lose_send_response (\<lambda>p. p\<lparr>fk_lose_send_response := False\<rparr>) TimeoutError) (\<lambda>_.
     ret (Some i))))))))"

definition fake_confirmation :: "string \<Rightarrow> bool \<Rightarrow> string option \<Rightarrow> event_dict" where
  "fake_confirmation tool approved reason = [(''type'', JStr ''user.tool_confirmation''), (''tool_use_id'', JStr tool),
     (''result'', JStr (if approved then ''allow'' else ''deny''))]
     @ (if truthy reason then [(''deny_message'', JStr (the reason))] else [])"

definition fake_confirm_tool :: "(json \<Rightarrow> string) \<Rightarrow> string \<Rightarrow> string \<Rightarrow> bool \<Rightarrow> string option \<Rightarrow> (fake_cma, unit) comp" where
  "fake_confirm_tool T sid tool approved reason =
     bnd (change (\<lambda>p. p\<lparr>fk_confirm_calls := fk_confirm_calls p + 1\<rparr>)) (\<lambda>_.
     bnd (fail_once fk_timeout_before_confirmation_acceptance (\<lambda>p. p\<lparr>fk_timeout_before_confirmation_acceptance := False\<rparr>) TimeoutError) (\<lambda>_.
     bnd (emit T sid (fake_confirmation tool approved reason)) (\<lambda>_.
     bnd (emit T sid running) (\<lambda>_.
     bnd (automatically (finish_turn T sid ''Done'')) (\<lambda>_.
     fail_once fk_lose_confirmation_response (\<lambda>p. p\<lparr>fk_lose_confirmation_response := False\<rparr>) TimeoutError)))))"

definition fake_custom_result :: "(json \<Rightarrow> string) \<Rightarrow> string \<Rightarrow> string \<Rightarrow> string \<Rightarrow> bool \<Rightarrow> (fake_cma, unit) comp" where
  "fake_custom_result T sid tool answer is_error =
     bnd (change (\<lambda>p. p\<lparr>fk_custom_result_calls := fk_custom_result_calls p + 1\<rparr>)) (\<lambda>_.
     bnd (emit T sid [(''type'', JStr ''user.custom_tool_result''), (''custom_tool_use_id'', JStr tool),
       (''content'', text_content answer), (''is_error'', JBool is_error)]) (\<lambda>_.
     bnd (emit T sid running) (\<lambda>_.
     automatically (finish_turn T sid ''Done''))))"

text \<open>The tool calls that an interrupt leaves waiting.\<close>

definition pending_events :: "(json \<Rightarrow> string) \<Rightarrow> event_dict list \<Rightarrow> error + json list" where
  "pending_events T events = bind_sum
     (all_ok (\<lambda>e. bind_sum (in_strings (dict_get e ''type'') [''agent.tool_use'', ''agent.mcp_tool_use'', ''agent.custom_tool_use''])
        (\<lambda>b. Inr (b, JStr (event_text T (dict_get e ''id''))))) events)
     (\<lambda>xs. Inr (map snd (filter fst xs)))"

definition interrupt_reason :: "(json \<Rightarrow> string) \<Rightarrow> string \<Rightarrow> (fake_cma, json) comp" where
  "interrupt_reason T sid = (\<lambda>p.
     if fk_interrupt_preserves_approval p
     then bnd (fake_list_events sid) (\<lambda>events. case pending_events T events of
        Inl e \<Rightarrow> raise_err e
      | Inr ids \<Rightarrow> ret (JObj [(''type'', JStr ''requires_action''), (''event_ids'', JArr ids)])) p
     else (Inr end_turn, p))"

definition fake_interrupt :: "(json \<Rightarrow> string) \<Rightarrow> string \<Rightarrow> (fake_cma, unit) comp" where
  "fake_interrupt T sid =
     bnd (change (\<lambda>p. p\<lparr>fk_interrupt_calls := fk_interrupt_calls p + 1\<rparr>)) (\<lambda>_.
     bnd (fail_once fk_timeout_before_interrupt_acceptance (\<lambda>p. p\<lparr>fk_timeout_before_interrupt_acceptance := False\<rparr>) TimeoutError) (\<lambda>_.
     bnd (emit T sid [(''type'', JStr ''user.interrupt'')]) (\<lambda>_.
     bnd (interrupt_reason T sid) (\<lambda>reason.
     bnd (emit T sid (idle_for reason)) (\<lambda>_.
     fail_once fk_lose_interrupt_response (\<lambda>p. p\<lparr>fk_lose_interrupt_response := False\<rparr>) TimeoutError)))))"

definition fake_stream_events :: "string \<Rightarrow> (fake_cma, unit) comp" where
  "fake_stream_events sid = bnd (change (\<lambda>p. p\<lparr>fk_stream_calls := fk_stream_calls p + 1\<rparr>)) (\<lambda>_. raise_err AssertionError)"

section \<open>The SDK of the controller\<close>

definition str_at_key :: "event_dict \<Rightarrow> string \<Rightarrow> string option" where
  "str_at_key e k = (case map_of e k of Some (JStr s) \<Rightarrow> Some s | _ \<Rightarrow> None)"

definition object_at :: "event_dict \<Rightarrow> string \<Rightarrow> event_dict option" where
  "object_at e k = (case map_of e k of Some (JObj kvs) \<Rightarrow> Some kvs | _ \<Rightarrow> None)"

definition items_at :: "event_dict \<Rightarrow> string \<Rightarrow> json list" where
  "items_at e k = (case map_of e k of Some (JArr xs) \<Rightarrow> xs | _ \<Rightarrow> [])"

definition strings_of :: "json list \<Rightarrow> string list" where
  "strings_of xs = List.map_filter (\<lambda>v. case v of JStr s \<Rightarrow> Some s | _ \<Rightarrow> None) xs"

definition fields_of :: "json list \<Rightarrow> event_dict list" where
  "fields_of xs = List.map_filter (\<lambda>v. case v of JObj kvs \<Rightarrow> Some kvs | _ \<Rightarrow> None) xs"

text \<open>The keys of an event that the controller reads, for events whose values have the documented types.\<close>

definition event_of :: "event_dict \<Rightarrow> cma_event" where
  "event_of e = \<lparr>e_id = str_at_key e ''id'', e_type = str_at_key e ''type'',
     e_stop_reason = map_option (\<lambda>r. \<lparr>sr_type = str_at_key r ''type'', sr_event_ids = strings_of (items_at r ''event_ids'')\<rparr>) (object_at e ''stop_reason''),
     e_name = map_of e ''name'', e_input = map_of e ''input'', e_mcp_server_name = map_of e ''mcp_server_name'',
     e_tool_use_id = str_at_key e ''tool_use_id'', e_result = str_at_key e ''result'',
     e_custom_tool_use_id = str_at_key e ''custom_tool_use_id'',
     e_content = map (\<lambda>c. \<lparr>cp_type = str_at_key c ''type'', cp_text = str_at_key c ''text''\<rparr>) (fields_of (items_at e ''content''))\<rparr>"

text \<open>
  The interface of the controller's model carries what the SDK raises; \<open>port_error\<close> is the inverse of \<open>classify\<close> there, so that a rejection
  arrives as one.
\<close>

definition port_error :: "error \<Rightarrow> sdk_error" where
  "port_error e = (case e of DefinitiveProviderError m \<Rightarrow> Sdk_error (Some 400) m | TimeoutError \<Rightarrow> Sdk_error None ''TimeoutError'' | e \<Rightarrow> python_error e)"

definition as_sdk :: "(fake_cma, 'a) comp \<Rightarrow> ('a \<Rightarrow> 'b) \<Rightarrow> fake_cma \<Rightarrow> (sdk_error + 'b) \<times> fake_cma" where
  "as_sdk m f = (\<lambda>p. case m p of (Inl e, q) \<Rightarrow> (Inl (port_error e), q) | (Inr x, q) \<Rightarrow> (Inr (f x), q))"

definition fake_sdk :: "(json \<Rightarrow> string) \<Rightarrow> fake_cma sdk" where
  "fake_sdk T = \<lparr>
     sdk_create_session = (\<lambda>cid mid text. as_sdk (fake_create_session T cid mid text) ss_id),
     sdk_find_session = (\<lambda>cid mid. as_sdk (fake_find_session cid mid) (map_option ss_id)),
     sdk_list_events = (\<lambda>sid. as_sdk (fake_list_events sid) (map event_of)),
     sdk_send_message = (\<lambda>sid text. as_sdk (fake_send_message T sid text) id),
     sdk_confirm_tool = (\<lambda>sid tool approved reason. as_sdk (fake_confirm_tool T sid tool approved reason) id),
     sdk_custom_tool_result = (\<lambda>sid tool answer is_error. as_sdk (fake_custom_result T sid tool answer is_error) id),
     sdk_interrupt = (\<lambda>sid. as_sdk (fake_interrupt T sid) id)\<rparr>"

section \<open>The tables stay in step and only grow\<close>

lemma digits_value_padded: "digits_value (padded n) = n"
proof -
  have zeros: "digits_value (replicate k (CHR ''0'') @ d) = digits_value d" for k d
    by (induction k) (simp_all add: digits_value_def)
  show ?thesis by (simp add: padded_def Let_def zeros show_nat_value)
qed

lemma fake_name_inj: "fake_name p i m = fake_name p i n \<longleftrightarrow> m = n"
  by (auto simp: fake_name_def dest: arg_cong [where f = digits_value] simp: digits_value_padded)

definition issued :: "fake_cma \<Rightarrow> string list" where
  "issued p = map (fake_name ''sesn'' (fk_instance_id p)) [0..<Suc (fk_counter p)]"

definition named :: "fake_cma \<Rightarrow> string \<times> session_summary \<Rightarrow> bool" where
  "named p x = (ss_id (snd x) = fst x \<and> fst x \<in> set (issued p))"

definition fake_ok :: "fake_cma \<Rightarrow> bool" where
  "fake_ok p = (map fst (fk_sessions p) = map fst (fk_events p) \<and> distinct (map fst (fk_events p))
     \<and> list_all (named p) (fk_sessions p))"

definition session_identities :: "fake_cma \<Rightarrow> (string \<times> (string \<times> string) list) list" where
  "session_identities p = map (\<lambda>(k, s). (k, ss_metadata s)) (fk_sessions p)"

definition grows :: "fake_cma \<Rightarrow> fake_cma \<Rightarrow> bool" where
  "grows p q = (fk_counter p \<le> fk_counter q \<and> fk_instance_id q = fk_instance_id p \<and> (\<exists>new. session_identities q = session_identities p @ new)
     \<and> (\<forall>sid es. map_of (fk_events p) sid = Some es \<longrightarrow> (\<exists>new. map_of (fk_events q) sid = Some (es @ new))))"

lemma grows_refl: "grows p p"
  by (simp add: grows_def)

lemma grows_trans: "grows p q \<Longrightarrow> grows q r \<Longrightarrow> grows p r"
  unfolding grows_def by (metis (no_types, lifting) append.assoc order_trans)

definition evolves :: "fake_cma \<Rightarrow> fake_cma \<Rightarrow> bool" where
  "evolves p q = (fake_ok p \<longrightarrow> fake_ok q \<and> grows p q)"

interpretation evolves: step_relation evolves
  by unfold_locales (auto simp: evolves_def grows_refl intro: grows_trans)

lemma new_fake_ok: "fake_ok (new_fake uuid)"
  by (simp add: fake_ok_def new_fake_def)

lemma map_fst_dict_set: "k \<in> fst ` set kvs \<Longrightarrow> map fst (dict_set k v kvs) = map fst kvs"
  by (induction k v kvs rule: dict_set.induct) auto

lemma map_dict_set_same:
  "map_of kvs k = Some v \<Longrightarrow> f (k, w) = f (k, v) \<Longrightarrow> map f (dict_set k w kvs) = map f kvs"
  by (induction k w kvs rule: dict_set.induct) (auto split: if_splits)

lemma map_of_in_keys: "map_of kvs k = Some v \<Longrightarrow> k \<in> fst ` set kvs"
  by (force dest: map_of_SomeD)

lemma issued_mono: "fk_counter p \<le> fk_counter q \<Longrightarrow> fk_instance_id q = fk_instance_id p \<Longrightarrow> set (issued p) \<subseteq> set (issued q)"
  unfolding issued_def by (simp del: upt_Suc) (rule image_mono, simp del: upt_Suc)

lemma named_mono:
  "list_all (named p) xs \<Longrightarrow> fk_counter p \<le> fk_counter q \<Longrightarrow> fk_instance_id q = fk_instance_id p \<Longrightarrow> list_all (named q) xs"
  using issued_mono [of p q] by (auto simp: named_def elim!: list.pred_mono_strong)

lemma evolves_same:
  assumes "fk_sessions q = fk_sessions p" "fk_events q = fk_events p" "fk_counter p \<le> fk_counter q" "fk_instance_id q = fk_instance_id p"
  shows "evolves p q"
  using assms named_mono [of p "fk_sessions p" q] by (simp add: evolves_def fake_ok_def grows_def session_identities_def)

lemma evolves_set_status: "keeps evolves (set_status sid status)"
proof (rule keepsI)
  fix p :: fake_cma
  show "evolves p (snd (set_status sid status p))"
  proof (cases "map_of (fk_sessions p) sid")
    case None
    then show ?thesis by (simp add: set_status_def evolves.step_refl)
  next
    case (Some s)
    let ?xs = "dict_set sid (s\<lparr>ss_status := status\<rparr>) (fk_sessions p)"
    let ?q = "p\<lparr>fk_sessions := ?xs\<rparr>"
    have "list_all (named ?q) ?xs" if "fake_ok p"
    proof (rule list_all_dict_set)
      from that show all: "list_all (named ?q) (fk_sessions p)" by (auto simp: fake_ok_def elim: named_mono)
      with map_of_SomeD [OF Some] show "named ?q (sid, s\<lparr>ss_status := status\<rparr>)" by (auto simp: list_all_iff named_def)
    qed
    moreover have "session_identities ?q = session_identities p"
      by (simp add: session_identities_def map_dict_set_same [OF Some])
    moreover have "map fst ?xs = map fst (fk_sessions p)" using map_of_in_keys [OF Some] by (rule map_fst_dict_set)
    ultimately have "evolves p ?q" by (simp add: evolves_def fake_ok_def grows_def)
    with Some show ?thesis by (simp add: set_status_def)
  qed
qed

lemma evolves_append_event: "keeps evolves (append_event sid e)"
proof (rule keepsI)
  fix p
  show "evolves p (snd (append_event sid e p))"
  proof (cases "map_of (fk_events p) sid")
    case None
    then show ?thesis by (simp add: append_event_def evolves.step_refl)
  next
    case (Some es)
    then show ?thesis using map_of_in_keys [OF Some]
      by (auto simp: append_event_def evolves_def fake_ok_def grows_def session_identities_def map_fst_dict_set map_of_dict_set
          simp del: map_of_eq_Some_iff intro: named_mono)
  qed
qed

lemma evolves_fake_id: "keeps evolves (fake_id prefix)"
  by (rule keepsI) (auto simp: fake_id_def Let_def intro!: evolves_same)

lemma evolves_emit: "keeps evolves (emit T sid event)"
  unfolding emit_def Let_def
  by (intro evolves.keeps_bnd evolves_fake_id evolves_append_event)
     (auto intro!: evolves_set_status evolves.keeps_ret evolves.keeps_raise split: option.split)

lemma evolves_finish: "keeps evolves (finish_turn T sid text)"
  by (auto simp: finish_turn_def intro!: evolves.keeps_control evolves_emit)

lemma evolves_complete_turn: "keeps evolves (complete_turn T sid prompt)"
proof (rule keepsI)
  fix p :: fake_cma
  have "keeps evolves (for_m events (\<lambda>e. bnd (emit T sid e) (\<lambda>_. ret ())))" for events
    by (intro evolves.keeps_for_m evolves.keeps_bnd evolves_emit evolves.keeps_ret)
  then show "evolves p (snd (complete_turn T sid prompt p))"
    using keepsD [OF evolves_finish, of p T sid "''Done''"]
    by (cases "scripted_for prompt p") (simp_all add: complete_turn_def keepsD)
qed

lemma evolves_automatically: "keeps evolves m \<Longrightarrow> keeps evolves (automatically m)"
  by (auto simp: automatically_def keeps_def evolves.step_refl)

lemma evolves_change:
  "(\<And>p. fk_sessions (f p) = fk_sessions p \<and> fk_events (f p) = fk_events p \<and> fk_counter (f p) = fk_counter p \<and> fk_instance_id (f p) = fk_instance_id p)
   \<Longrightarrow> keeps evolves (change f)"
  by (rule keepsI) (simp add: change_def evolves_same)

lemma evolves_fail_once:
  "(\<And>p. fk_sessions (f p) = fk_sessions p \<and> fk_events (f p) = fk_events p \<and> fk_counter (f p) = fk_counter p \<and> fk_instance_id (f p) = fk_instance_id p)
   \<Longrightarrow> keeps evolves (fail_once switch f e)"
  by (rule keepsI) (simp add: fail_once_def evolves_same)

lemma evolves_read:
  "keeps evolves (get_session sid)" "keeps evolves (fake_find_session cid mid)" "keeps evolves (fake_list_events sid)"
  by (auto intro!: keepsI simp: get_session_def fake_find_session_def fake_list_events_def evolves.step_refl split: option.splits)

lemma evolves_interrupt_reason: "keeps evolves (interrupt_reason T sid)"
proof -
  have "keeps evolves (bnd (fake_list_events sid) (\<lambda>events. case pending_events T events of Inl e \<Rightarrow> raise_err e
      | Inr ids \<Rightarrow> ret (JObj [(''type'', JStr ''requires_action''), (''event_ids'', JArr ids)])))"
    by (auto intro!: evolves.keeps_control evolves_read split: sum.splits)
  then show ?thesis by (auto intro!: keepsI dest: keepsD simp: interrupt_reason_def evolves.step_refl)
qed

lemmas fake_steps = evolves.keeps_control evolves_emit evolves_finish evolves_complete_turn evolves_automatically
  evolves_change evolves_fail_once evolves_read evolves_interrupt_reason

text \<open>A new session gets an identifier that no session has.\<close>

lemma fresh_session:
  assumes "fake_ok p"
  shows "fake_name ''sesn'' (fk_instance_id p) (Suc (fk_counter p)) \<notin> fst ` set (fk_sessions p)"
  using assms by (auto simp: fake_ok_def list_all_iff named_def issued_def fake_name_inj simp del: upt_Suc)

lemma fake_session_simps [simp]:
  "ss_id (fake_session sid cid mid) = sid"
  "ss_metadata (fake_session sid cid mid) = [(''controller'', ''a2a-cma''), (''a2a_context_id'', cid), (''a2a_creation_message_id'', mid)]"
  by (simp_all add: fake_session_def)

lemma extended_grows:
  assumes "fk_sessions q = fk_sessions p @ [(sid, s)]" "fk_events q = fk_events p @ [(sid, [])]"
    and "fk_counter q = Suc (fk_counter p)" "fk_instance_id q = fk_instance_id p" "sid \<notin> fst ` set (fk_events p)"
  shows "grows p q"
proof -
  have "map_of (fk_events q) k = Some es" if "map_of (fk_events p) k = Some es" for k es
    using that assms(2,5) map_of_in_keys [OF that] by (auto simp: map_add_def)
  with assms(1,3,4) show ?thesis by (simp add: grows_def session_identities_def)
qed

lemma added_session_evolves:
  fixes p cid mid
  defines "sid \<equiv> fake_name ''sesn'' (fk_instance_id p) (Suc (fk_counter p))"
  shows "evolves p (add_session (fake_session sid cid mid) (p\<lparr>fk_counter := Suc (fk_counter p)\<rparr>))"
proof -
  define q where "q = add_session (fake_session sid cid mid) (p\<lparr>fk_counter := Suc (fk_counter p)\<rparr>)"
  have "fake_ok q \<and> grows p q" if ok: "fake_ok p"
  proof
    have k: "sid \<notin> fst ` set (fk_sessions p)" "sid \<notin> fst ` set (fk_events p)"
      using fresh_session [OF ok] ok by (auto simp: sid_def fake_ok_def simp flip: set_map)
    have q: "fk_sessions q = fk_sessions p @ [(sid, fake_session sid cid mid)]" "fk_events q = fk_events p @ [(sid, [])]"
      "fk_counter q = Suc (fk_counter p)" "fk_instance_id q = fk_instance_id p"
      using k by (simp_all add: q_def add_session_def dict_set_fresh)
    have "list_all (named q) (fk_sessions p)"
      using ok named_mono [of p "fk_sessions p" q] by (simp add: fake_ok_def q(3,4))
    moreover have "named q (sid, fake_session sid cid mid)"
      by (simp add: named_def issued_def q(3,4) sid_def)
    ultimately show "fake_ok q" using ok k(2) by (simp add: fake_ok_def q(1,2))
    from q k(2) show "grows p q" by (rule extended_grows)
  qed
  then show ?thesis by (simp add: evolves_def q_def)
qed

lemma evolves_new_session:
  assumes "\<And>sid. keeps evolves (f sid)"
  shows "keeps evolves (bnd (fake_id ''sesn'') (\<lambda>sid. bnd (change (add_session (fake_session sid cid mid))) (\<lambda>_. f sid)))"
proof (rule keepsI)
  fix p :: fake_cma
  let ?sid = "fake_name ''sesn'' (fk_instance_id p) (Suc (fk_counter p))"
  let ?q = "add_session (fake_session ?sid cid mid) (p\<lparr>fk_counter := Suc (fk_counter p)\<rparr>)"
  have "evolves ?q (snd (f ?sid ?q))" using assms by (rule keepsD)
  with added_session_evolves [of p cid mid]
  show "evolves p (snd (bnd (fake_id ''sesn'') (\<lambda>sid. bnd (change (add_session (fake_session sid cid mid))) (\<lambda>_. f sid)) p))"
    by (simp add: bnd_def fake_id_def change_def Let_def) (rule evolves.step_trans)
qed

lemma evolves_operations:
  "keeps evolves (fake_create_session T cid mid text)"
  "keeps evolves (fake_send_message T sid text)"
  "keeps evolves (fake_confirm_tool T sid tool approved reason)"
  "keeps evolves (fake_custom_result T sid tool answer is_error)"
  "keeps evolves (fake_interrupt T sid)"
  by (auto simp: fake_create_session_def fake_send_message_def fake_confirm_tool_def fake_custom_result_def fake_interrupt_def
      intro!: fake_steps evolves_new_session)

section \<open>A created session is found, however its creation ended\<close>

text \<open>The first session of a context and message: its key never changes.\<close>

definition carries :: "string \<Rightarrow> string \<Rightarrow> string \<times> (string \<times> string) list \<Rightarrow> bool" where
  "carries cid mid x = (map_of (snd x) ''a2a_context_id'' = Some cid \<and> map_of (snd x) ''a2a_creation_message_id'' = Some mid)"

definition session_for :: "string \<Rightarrow> string \<Rightarrow> fake_cma \<Rightarrow> string option" where
  "session_for cid mid p = map_option fst (find (carries cid mid) (session_identities p))"

lemma find_append: "find P (xs @ ys) = (case find P xs of None \<Rightarrow> find P ys | Some x \<Rightarrow> Some x)"
  by (induction xs) auto

lemma session_for_grows: "grows p q \<Longrightarrow> session_for cid mid p = Some sid \<Longrightarrow> session_for cid mid q = Some sid"
  by (auto simp: grows_def session_for_def find_append)

lemma session_for_evolves: "evolves p q \<Longrightarrow> fake_ok p \<Longrightarrow> session_for cid mid p = Some sid \<Longrightarrow> session_for cid mid q = Some sid"
  by (auto simp: evolves_def intro: session_for_grows)

lemma find_named:
  "list_all (named p) xs \<Longrightarrow>
     map_option ss_id (find (for_message cid mid) (map snd xs)) = map_option fst (find (carries cid mid) (map (\<lambda>(k, s). (k, ss_metadata s)) xs))"
  by (induction xs) (auto simp: for_message_def carries_def named_def)

lemma fake_find:
  "fake_ok p \<Longrightarrow> sdk_find_session (fake_sdk T) cid mid p = (Inr (session_for cid mid p), p)"
  using find_named [of p "fk_sessions p" cid mid]
  by (simp add: fake_sdk_def as_sdk_def fake_find_session_def fake_ok_def session_for_def session_identities_def)

text \<open>What is left of a creation after the session is in the table.\<close>

definition created :: "(json \<Rightarrow> string) \<Rightarrow> string \<Rightarrow> string \<Rightarrow> (fake_cma, session_summary) comp" where
  "created T sid text =
     bnd (emit T sid (user_event text)) (\<lambda>_.
     bnd (emit T sid running) (\<lambda>_.
     bnd (automatically (complete_turn T sid text)) (\<lambda>_.
     bnd (fail_once fk_lose_create_response (\<lambda>p. p\<lparr>fk_lose_create_response := False\<rparr>) TimeoutError) (\<lambda>_.
     get_session sid))))"

definition next_session :: "fake_cma \<Rightarrow> string" where
  "next_session p = fake_name ''sesn'' (fk_instance_id p) (Suc (fk_counter p))"

definition with_session :: "string \<Rightarrow> string \<Rightarrow> fake_cma \<Rightarrow> fake_cma" where
  "with_session cid mid p = add_session (fake_session (next_session p) cid mid)
     (p\<lparr>fk_create_calls := fk_create_calls p + 1, fk_counter := Suc (fk_counter p)\<rparr>)"

lemma fake_create_session_run: "fake_create_session T cid mid text p = created T (next_session p) text (with_session cid mid p)"
  unfolding fake_create_session_def created_def [symmetric]
  by (simp add: bnd_def change_def fake_id_def with_session_def next_session_def Let_def)

lemma evolves_created: "keeps evolves (created T sid text)"
  unfolding created_def by (auto intro!: fake_steps)

lemma with_session_evolves: "evolves p (with_session cid mid p)"
proof -
  let ?p = "p\<lparr>fk_create_calls := fk_create_calls p + 1\<rparr>"
  have "evolves p ?p" by (simp add: evolves_same)
  moreover have "evolves ?p (with_session cid mid p)"
    using added_session_evolves [of ?p cid mid] by (simp add: with_session_def next_session_def)
  ultimately show ?thesis by (rule evolves.step_trans)
qed

lemma session_for_created:
  assumes "fake_ok p" "session_for cid mid p = None"
  shows "session_for cid mid (with_session cid mid p) = Some (next_session p)"
proof -
  have "next_session p \<notin> fst ` set (fk_sessions p)" using fresh_session [OF assms(1)] by (simp add: next_session_def)
  then have "session_identities (with_session cid mid p) = session_identities p @ [(next_session p, ss_metadata (fake_session (next_session p) cid mid))]"
    by (simp add: session_identities_def with_session_def add_session_def dict_set_fresh)
  with assms(2) show ?thesis by (simp add: session_for_def find_append carries_def)
qed

lemma get_session_id: "fake_ok p \<Longrightarrow> get_session sid p = (Inr s, q) \<Longrightarrow> ss_id s = sid"
  by (auto simp: get_session_def fake_ok_def list_all_iff named_def split: option.splits dest!: map_of_SomeD)

text \<open>A creation that does answer names the new session.\<close>

lemma created_returns:
  assumes "created T sid text p = (Inr s, q)" "fake_ok p"
  shows "ss_id s = sid"
proof -
  define before where "before = bnd (emit T sid (user_event text)) (\<lambda>_. bnd (emit T sid running) (\<lambda>_.
     bnd (automatically (complete_turn T sid text)) (\<lambda>_.
     fail_once fk_lose_create_response (\<lambda>p. p\<lparr>fk_lose_create_response := False\<rparr>) TimeoutError)))"
  have "created T sid text p = bnd before (\<lambda>_. get_session sid) p"
    by (simp add: created_def before_def bnd_def split: prod.splits sum.splits)
  with assms(1) obtain u t where t: "before p = (Inr u, t)" "get_session sid t = (Inr s, q)"
    by (auto simp: bnd_def split: prod.splits sum.splits)
  have "keeps evolves before" unfolding before_def by (auto intro!: fake_steps)
  from keeps_run [OF this t(1)] assms(2) have "fake_ok t" by (simp add: evolves_def)
  then show ?thesis using t(2) by (rule get_session_id)
qed

lemma fake_creation_found:
  assumes "fake_ok p" "session_for cid mid p = None" "evolves (snd (sdk_create_session (fake_sdk T) cid mid text p)) q"
  shows "sdk_find_session (fake_sdk T) cid mid q = (Inr (Some (next_session p)), q)"
proof -
  have snd: "snd (sdk_create_session (fake_sdk T) cid mid text p) = snd (created T (next_session p) text (with_session cid mid p))"
    by (simp add: fake_sdk_def as_sdk_def fake_create_session_run split: prod.splits sum.splits)
  have e: "evolves (with_session cid mid p) q"
    using keepsD [OF evolves_created] assms(3) unfolding snd by (rule evolves.step_trans)
  have ok: "fake_ok (with_session cid mid p)" using with_session_evolves assms(1) by (auto simp: evolves_def)
  with e have "fake_ok q" by (simp add: evolves_def)
  moreover have "session_for cid mid q = Some (next_session p)"
    using e ok session_for_created [OF assms(1,2)] by (rule session_for_evolves)
  ultimately show ?thesis by (simp add: fake_find)
qed

section \<open>What the controller relies on\<close>

text \<open>The recovery of the scheduler from a crash between creating a session and recording it needs one law of its provider.\<close>

locale recoverable_sdk =
  fixes S :: "'p sdk" and ready :: "string \<Rightarrow> string \<Rightarrow> string \<Rightarrow> 'p \<Rightarrow> bool"
  assumes created_is_found: "ready cid mid text p \<Longrightarrow> sdk_create_session S cid mid text p = (Inr sid, q)
    \<Longrightarrow> \<exists>found r. sdk_find_session S cid mid q = (Inr (Some found), r)"
begin

text \<open>In the controller's model: what \<open>create_session\<close> has made, \<open>find_session\<close> finds.\<close>

lemma creation_recovered:
  assumes "sdk_of E = S" "create_session E cid mid text s = (Inr sid, t)" "ready cid mid text (outside s)"
  shows "\<exists>found u. find_session E cid mid t = (Inr (Some found), u)"
proof -
  from assms(1,2) obtain q where q: "sdk_create_session S cid mid text (outside s) = (Inr sid, q)" "outside t = q"
    by (auto simp: create_session_def invoke_def on_outside_def split: prod.splits sum.splits)
  from created_is_found [OF assms(3) q(1)] obtain found r where "sdk_find_session S cid mid (outside t) = (Inr (Some found), r)"
    unfolding q(2) by blast
  then show ?thesis using assms(1) by (simp add: find_session_def invoke_def on_outside_def)
qed

end

interpretation anthropic: recoverable_sdk "anthropic_sdk A c ev" "\<lambda>cid mid text. lists_created A c (controller_arguments c cid mid text)" for A c ev
  by unfold_locales (blast dest: created_session_found)

interpretation local_provider: recoverable_sdk "fake_sdk T" "\<lambda>cid mid text p. fake_ok p" for T
proof
  fix cid mid prompt p sid q
  assume ok: "fake_ok p" and "sdk_create_session (fake_sdk T) cid mid prompt p = (Inr sid, q)"
  then have q: "q = snd (created T (next_session p) prompt (with_session cid mid p))"
    by (auto simp: fake_sdk_def as_sdk_def fake_create_session_run split: prod.splits sum.splits)
  have e: "evolves p q" unfolding q
    using with_session_evolves keepsD [OF evolves_created] by (rule evolves.step_trans)
  have "fake_ok q" using e ok by (simp add: evolves_def)
  moreover have "session_for cid mid q \<noteq> None"
  proof (cases "session_for cid mid p")
    case (Some k)
    from session_for_evolves [OF e ok this] show ?thesis by simp
  next
    case None
    then have "sdk_find_session (fake_sdk T) cid mid q = (Inr (Some (next_session p)), q)"
      using ok by (intro fake_creation_found [of p cid mid T prompt]) (simp_all add: q fake_sdk_def as_sdk_def fake_create_session_run evolves.step_refl split: prod.splits sum.splits)
    with \<open>fake_ok q\<close> show ?thesis by (simp add: fake_find)
  qed
  ultimately show "\<exists>found r. sdk_find_session (fake_sdk T) cid mid q = (Inr (Some found), r)"
    by (auto simp: fake_find)
qed

text \<open>A session outlives everything that the provider is asked afterwards.\<close>

datatype fake_op =
    Create string string string
  | Send string string
  | Confirm string string bool "string option"
  | Custom_result string string string bool
  | Interrupted string
  | Emitted string event_dict
  | Scripted string "event_dict list"

fun fake_exec :: "(json \<Rightarrow> string) \<Rightarrow> fake_op \<Rightarrow> fake_cma \<Rightarrow> fake_cma" where
  "fake_exec T (Create cid mid text) p = snd (sdk_create_session (fake_sdk T) cid mid text p)"
| "fake_exec T (Send sid text) p = snd (sdk_send_message (fake_sdk T) sid text p)"
| "fake_exec T (Confirm sid tool approved reason) p = snd (sdk_confirm_tool (fake_sdk T) sid tool approved reason p)"
| "fake_exec T (Custom_result sid tool answer is_error) p = snd (sdk_custom_tool_result (fake_sdk T) sid tool answer is_error p)"
| "fake_exec T (Interrupted sid) p = snd (sdk_interrupt (fake_sdk T) sid p)"
| "fake_exec T (Emitted sid event) p = snd (emit T sid event p)"
| "fake_exec T (Scripted prompt events) p = script prompt events p"

lemma snd_as_sdk: "snd (as_sdk m f p) = snd (m p)"
  by (simp add: as_sdk_def split: prod.splits sum.splits)

lemma evolves_exec: "evolves p (fake_exec T op p)"
  by (cases op) (auto simp: fake_sdk_def snd_as_sdk keepsD evolves_operations evolves_emit script_def intro!: evolves_same)

lemma evolves_fold: "evolves p (fold (fake_exec T) ops p)"
proof (induction ops arbitrary: p)
  case (Cons op ops)
  show ?case using evolves.step_trans [OF evolves_exec Cons.IH] by simp
qed (simp add: evolves.step_refl)

lemma local_provider_recovers:
  assumes "fake_ok p" "session_for cid mid p = None"
  shows "fst (sdk_find_session (fake_sdk T) cid mid (fold (fake_exec T) ops (snd (sdk_create_session (fake_sdk T) cid mid text p))))
    = Inr (Some (next_session p))"
  by (simp add: fake_creation_found [OF assms evolves_fold])

end
