(* ===== verification/Recording_Slack.thy ===== *)
theory Recording_Slack
  imports Slack_Client Text_Patterns Fake_Provider
begin

text \<open>
  \<^verbatim>\<open>testing/recording_slack.py\<close> (class \<open>RecordingSlack\<close>): the Slack Web API of local runs, an in-memory recorder behind the real client. A stream is
  also a message, the same object under the same timestamp, so messages are one store and \<open>rs_streams\<close> names the ones that are streams. Dictionaries are as decoded from JSON, with the
  identifiers of task chunks as strings; two reactions are compared as the client writes them, key by key.
\<close>

section \<open>State\<close>

type_synonym fields = "(string \<times> json) list"

record recorded_call =
  rc_operation :: string
  rc_payload :: fields
  rc_error :: "string option"

record armed_failure =
  af_operation :: string
  af_error :: string
  af_after :: bool
  af_skip :: int

record recorder =
  rs_calls :: "recorded_call list"
  rs_messages :: "(string \<times> fields) list"
  rs_streams :: "string list"
  rs_reactions :: "fields list"
  rs_statuses :: "fields list"
  rs_failures :: "armed_failure list"
  rs_counter :: nat
  rs_time :: int

definition empty_recorder :: "int \<Rightarrow> recorder" where
  "empty_recorder now = \<lparr>rs_calls = [], rs_messages = [], rs_streams = [], rs_reactions = [], rs_statuses = [], rs_failures = [],
     rs_counter = 0, rs_time = now\<rparr>"

definition fail_next :: "string \<Rightarrow> string \<Rightarrow> bool \<Rightarrow> int \<Rightarrow> recorder \<Rightarrow> recorder" where
  "fail_next operation err after skip s =
     s\<lparr>rs_failures := rs_failures s @ [\<lparr>af_operation = operation, af_error = err, af_after = after, af_skip = skip\<rparr>]\<rparr>"

definition reset_recorder :: "recorder \<Rightarrow> recorder" where
  "reset_recorder s = empty_recorder (rs_time s)"

section \<open>Values\<close>

definition key_of :: "fields \<Rightarrow> string \<Rightarrow> error + json" where
  "key_of d k = (case map_of d k of None \<Rightarrow> Inl (KeyError k) | Some v \<Rightarrow> Inr v)"

text \<open>Looking a value up as a key of a dictionary with string keys.\<close>

definition as_key :: "json \<Rightarrow> error + string" where
  "as_key v = (case v of JStr s \<Rightarrow> Inr s | JArr _ \<Rightarrow> Inl (TypeError ''unhashable'') | JObj _ \<Rightarrow> Inl (TypeError ''unhashable'')
     | _ \<Rightarrow> Inl (KeyError ''ts''))"

definition iterated :: "json \<Rightarrow> error + json list" where
  "iterated v = (case v of JArr xs \<Rightarrow> Inr xs | JStr s \<Rightarrow> Inr (map (\<lambda>c. JStr [c]) s) | JObj kvs \<Rightarrow> Inr (map (JStr \<circ> fst) kvs)
     | _ \<Rightarrow> Inl (TypeError ''not iterable''))"

definition as_list :: "json \<Rightarrow> error + json list" where
  "as_list v = (case v of JArr xs \<Rightarrow> Inr xs | _ \<Rightarrow> Inl (AttributeError ''extend''))"

definition added_text :: "json \<Rightarrow> json \<Rightarrow> error + json" where
  "added_text a b = (case (a, b) of (JStr s, JStr t) \<Rightarrow> Inr (JStr (s @ t)) | _ \<Rightarrow> Inl (TypeError ''can only concatenate str''))"

definition chunk_fields :: "json \<Rightarrow> error + fields" where
  "chunk_fields v = (case v of JObj kvs \<Rightarrow> Inr kvs | _ \<Rightarrow> Inl (TypeError ''indices''))"

definition chunk_type :: "json \<Rightarrow> error + (fields \<times> json)" where
  "chunk_type v = bind_sum (chunk_fields v) (\<lambda>kvs. bind_sum (key_of kvs ''type'') (\<lambda>ty. Inr (kvs, ty)))"

text \<open>\<open>d.update(e)\<close>\<close>

definition dict_update :: "fields \<Rightarrow> fields \<Rightarrow> fields" where
  "dict_update d e = foldl (\<lambda>d (k, v). dict_set k v d) d e"

section \<open>The messages\<close>

definition read_message :: "string \<Rightarrow> (recorder, fields) comp" where
  "read_message ts = (\<lambda>s. case map_of (rs_messages s) ts of None \<Rightarrow> (Inl (KeyError ts), s) | Some m \<Rightarrow> (Inr m, s))"

definition write_message :: "string \<Rightarrow> fields \<Rightarrow> (recorder, unit) comp" where
  "write_message ts m = (\<lambda>s. (Inr (), s\<lparr>rs_messages := dict_set ts m (rs_messages s)\<rparr>))"

definition at_mode :: "string \<Rightarrow> string \<Rightarrow> (recorder, fields) comp" where
  "at_mode mode ts = bnd (read_message ts) (\<lambda>m. bnd (lift_sum (key_of m ''mode'')) (\<lambda>v.
     if v = JStr mode then ret m else raise_err (ValueError ''Cannot mix text and chunk stream modes'')))"

definition append_text :: "string \<Rightarrow> json \<Rightarrow> (recorder, unit) comp" where
  "append_text ts text = bnd (read_message ts) (\<lambda>m.
     bnd (lift_sum (bind_sum (key_of m ''text'') (\<lambda>t. added_text t text))) (\<lambda>t.
     write_message ts (dict_set ''text'' t m)))"

text \<open>The cards of a stream: every \<open>task_update\<close> updates the card of its identifier.\<close>

definition update_card :: "fields \<Rightarrow> fields \<Rightarrow> error + fields" where
  "update_card m chunk = bind_sum (key_of chunk ''id'') (\<lambda>i. bind_sum (as_key i) (\<lambda>i.
     (case (case map_of m ''tasks'' of None \<Rightarrow> JObj [] | Some v \<Rightarrow> v) of
        JObj cards \<Rightarrow>
          (case (case map_of cards i of None \<Rightarrow> JObj [] | Some v \<Rightarrow> v) of
             JObj old \<Rightarrow> Inr (dict_set ''tasks'' (JObj (dict_set i (JObj (dict_update old chunk)) cards)) m)
           | _ \<Rightarrow> Inl (AttributeError ''update''))
      | _ \<Rightarrow> Inl (AttributeError ''setdefault''))))"

definition append_card :: "string \<Rightarrow> json \<Rightarrow> (recorder, unit) comp" where
  "append_card ts chunk = bnd (lift_sum (chunk_type chunk)) (\<lambda>(kvs, ty).
     if ty = JStr ''task_update''
     then bnd (read_message ts) (\<lambda>m. bnd (lift_sum (update_card m kvs)) (write_message ts))
     else ret ())"

definition chunk_text :: "json \<Rightarrow> error + string" where
  "chunk_text chunk = bind_sum (chunk_type chunk) (\<lambda>(kvs, ty).
     if ty = JStr ''markdown_text''
     then (case map_of kvs ''text'' of None \<Rightarrow> Inr [] | Some (JStr t) \<Rightarrow> Inr t | Some _ \<Rightarrow> Inl (TypeError ''expected str instance''))
     else Inr [])"

definition append_chunks :: "string \<Rightarrow> json \<Rightarrow> (recorder, unit) comp" where
  "append_chunks ts chunks =
     bnd (at_mode ''chunks'' ts) (\<lambda>m.
     bnd (lift_sum (bind_sum (key_of m ''chunks'') as_list)) (\<lambda>old.
     bnd (lift_sum (iterated chunks)) (\<lambda>xs.
     bnd (write_message ts (dict_set ''chunks'' (JArr (old @ xs)) m)) (\<lambda>_.
     bnd (for_m xs (append_card ts)) (\<lambda>_.
     bnd (lift_sum (bind_sum (all_ok chunk_text xs) (\<lambda>ts. Inr (JStr (concat ts))))) (append_text ts))))))"

definition append_payload :: "string \<Rightarrow> fields \<Rightarrow> (recorder, unit) comp" where
  "append_payload ts payload =
     bnd (case map_of payload ''markdown_text'' of None \<Rightarrow> ret ()
          | Some text \<Rightarrow> bnd (at_mode ''text'' ts) (\<lambda>_. append_text ts text)) (\<lambda>_.
     case map_of payload ''chunks'' of None \<Rightarrow> ret () | Some chunks \<Rightarrow> append_chunks ts chunks)"

section \<open>The calls\<close>

definition new_ts :: "recorder \<Rightarrow> string" where
  "new_ts s = show_int (rs_time s) @ ''.'' @ padded (rs_counter s + 1)"

definition message_of :: "string \<Rightarrow> fields \<Rightarrow> fields" where
  "message_of ts payload = dict_set ''text'' (case map_of payload ''text'' of None \<Rightarrow> JStr [] | Some t \<Rightarrow> t) (dict_set ''ts'' (JStr ts) payload)"

definition stream_of :: "fields \<Rightarrow> fields \<Rightarrow> fields" where
  "stream_of payload m = dict_update m [(''mode'', JStr (if map_of payload ''chunks'' \<noteq> None then ''chunks'' else ''text'')),
     (''state'', JStr ''streaming''), (''text'', JStr []), (''chunks'', JArr [])]"

definition new_message :: "fields \<Rightarrow> (recorder, string) comp" where
  "new_message payload = (\<lambda>s. let ts = new_ts s in
     (Inr ts, s\<lparr>rs_counter := rs_counter s + 1, rs_messages := dict_set ts (message_of ts payload) (rs_messages s)\<rparr>))"

definition record_post :: "bool \<Rightarrow> fields \<Rightarrow> (recorder, fields) comp" where
  "record_post streaming payload =
     bnd (new_message payload) (\<lambda>ts.
     bnd (if streaming
          then bnd (write_message ts (stream_of payload (message_of ts payload))) (\<lambda>_.
               bnd (append_payload ts payload) (\<lambda>_.
               (\<lambda>s. (Inr (), s\<lparr>rs_streams := rs_streams s @ [ts]\<rparr>))))
          else ret ()) (\<lambda>_.
     ret [(''ts'', JStr ts)]))"

definition live_stream :: "fields \<Rightarrow> (recorder, string) comp" where
  "live_stream payload =
     bnd (lift_sum (bind_sum (key_of payload ''ts'') as_key)) (\<lambda>ts.
     bnd (\<lambda>s. if ts \<in> set (rs_streams s) then (Inr (), s) else (Inl (KeyError ts), s)) (\<lambda>_.
     bnd (read_message ts) (\<lambda>m.
     bnd (lift_sum (key_of m ''channel'')) (\<lambda>mine.
     bnd (lift_sum (key_of payload ''channel'')) (\<lambda>theirs.
     bnd (if mine \<noteq> theirs then ret True else bnd (lift_sum (key_of m ''state'')) (\<lambda>v. ret (v \<noteq> JStr ''streaming''))) (\<lambda>closed.
     if closed then raise_err (RuntimeError ''message_not_in_streaming_state'') else ret ts))))))"

definition record_stream :: "bool \<Rightarrow> fields \<Rightarrow> (recorder, fields) comp" where
  "record_stream stopping payload =
     bnd (live_stream payload) (\<lambda>ts.
     bnd (append_payload ts payload) (\<lambda>_.
     bnd (if stopping
          then bnd (lift_sum (key_of payload ''session_status'')) (\<lambda>status.
               bnd (read_message ts) (\<lambda>m.
               write_message ts (dict_update m [(''state'', JStr ''completed''), (''status'', status), (''blocks'', dict_get payload ''blocks'')])))
          else ret ()) (\<lambda>_.
     ret [])))"

definition record_update :: "fields \<Rightarrow> (recorder, fields) comp" where
  "record_update payload =
     bnd (lift_sum (bind_sum (key_of payload ''ts'') as_key)) (\<lambda>ts.
     bnd (read_message ts) (\<lambda>m.
     bnd (write_message ts (dict_update m payload)) (\<lambda>_. ret [])))"

definition permalink :: "(json \<Rightarrow> string) \<Rightarrow> fields \<Rightarrow> error + fields" where
  "permalink T payload = bind_sum (key_of payload ''message_ts'') (\<lambda>v. case v of
     JStr ts \<Rightarrow> bind_sum (key_of payload ''channel'') (\<lambda>channel.
       Inr [(''permalink'', JStr (''https://e2e.slack.test/archives/'' @ event_text T channel @ ''/p'' @ filter (\<lambda>c. c \<noteq> CHR ''.'') ts))])
   | _ \<Rightarrow> Inl (AttributeError ''replace''))"

definition perform :: "(json \<Rightarrow> string) \<Rightarrow> string \<Rightarrow> fields \<Rightarrow> (recorder, fields) comp" where
  "perform T operation payload =
     (if operation \<in> {''chat.postMessage'', ''chat.startStream''} then record_post (operation = ''chat.startStream'') payload
      else if operation \<in> {''chat.appendStream'', ''chat.stopStream''} then record_stream (operation = ''chat.stopStream'') payload
      else if operation = ''chat.update'' then record_update payload
      else if operation = ''chat.getPermalink'' then lift_sum (permalink T payload)
      else if operation = ''reactions.add'' then
        (\<lambda>s. (Inr [], if payload \<in> set (rs_reactions s) then s else s\<lparr>rs_reactions := rs_reactions s @ [payload]\<rparr>))
      else if operation = ''agents.sessions.setStatus'' then (\<lambda>s. (Inr [], s\<lparr>rs_statuses := rs_statuses s @ [payload]\<rparr>))
      else if operation = ''auth.test'' then ret [(''team_id'', JStr ''T001''), (''user_id'', JStr ''BOT'')]
      else if operation \<noteq> ''agents.sessions.rename'' then raise_err (ValueError (''Unsupported Slack operation: '' @ operation))
      else ret [])"

text \<open>The failure that is due for an operation: a skipped one counts down, another is used up.\<close>

fun take_failure :: "string \<Rightarrow> armed_failure list \<Rightarrow> armed_failure option \<times> armed_failure list" where
  "take_failure operation [] = (None, [])"
| "take_failure operation (f # fs) =
     (if af_operation f = operation
      then (if af_skip f \<noteq> 0 then (None, f\<lparr>af_skip := af_skip f - 1\<rparr> # fs) else (Some f, fs))
      else (case take_failure operation fs of (r, fs') \<Rightarrow> (r, f # fs')))"

definition due_failure :: "string \<Rightarrow> (recorder, armed_failure option) comp" where
  "due_failure operation = (\<lambda>s. case take_failure operation (rs_failures s) of (r, fs) \<Rightarrow> (Inr r, s\<lparr>rs_failures := fs\<rparr>))"

definition record_call :: "string \<Rightarrow> fields \<Rightarrow> (recorder, unit) comp" where
  "record_call operation payload = (\<lambda>s. (Inr (), s\<lparr>rs_calls := rs_calls s @ [\<lparr>rc_operation = operation, rc_payload = payload, rc_error = None\<rparr>]\<rparr>))"

definition fail_call :: "string \<Rightarrow> (recorder, 'a) comp" where
  "fail_call err = (\<lambda>s. (Inl (RuntimeError err), s\<lparr>rs_calls := butlast (rs_calls s) @ [(last (rs_calls s))\<lparr>rc_error := Some err\<rparr>]\<rparr>))"

definition slack_recorder_call :: "(json \<Rightarrow> string) \<Rightarrow> string \<Rightarrow> fields \<Rightarrow> (recorder, fields) comp" where
  "slack_recorder_call T operation payload =
     bnd (record_call operation payload) (\<lambda>_.
     bnd (due_failure operation) (\<lambda>failure.
     bnd (case failure of Some f \<Rightarrow> if \<not> af_after f then fail_call (af_error f) else ret () | None \<Rightarrow> ret ()) (\<lambda>_.
     bnd (perform T operation payload) (\<lambda>extra.
     bnd (case failure of Some f \<Rightarrow> fail_call (af_error f) | None \<Rightarrow> ret ()) (\<lambda>_.
     ret ((''ok'', JBool True) # extra))))))"

text \<open>The recorder as the Web client: \<open>_Recorder\<close> turns the name of a method into an operation.\<close>

definition recording_client :: "(json \<Rightarrow> string) \<Rightarrow> recorder web_client" where
  "recording_client T = \<lparr>web_call = (\<lambda>name args s. case slack_recorder_call T (map (\<lambda>c. if c = CHR ''_'' then CHR ''.'' else c) name) args s of
       (Inl e, t) \<Rightarrow> (Inl (Call_failed e), t) | (Inr v, t) \<Rightarrow> (Inr v, t)), slack_text = T\<rparr>"

section \<open>What the recorder shows\<close>

text \<open>The operation and payload of every call, in order. What follows the record of a call keeps it.\<close>

definition call_trace :: "recorder \<Rightarrow> (string \<times> fields) list" where
  "call_trace s = map (\<lambda>c. (rc_operation c, rc_payload c)) (rs_calls s)"

definition traced :: "recorder \<Rightarrow> recorder \<Rightarrow> bool" where
  "traced s t = (rs_calls s \<noteq> [] \<longrightarrow> rs_calls t \<noteq> [] \<and> call_trace t = call_trace s)"

interpretation traced: step_relation traced
  by unfold_locales (simp_all add: traced_def)

lemma traced_update: "(\<And>s. rs_calls (f s) = rs_calls s) \<Longrightarrow> traced s (f s)"
  by (simp add: traced_def call_trace_def)

lemma traced_io:
  "keeps traced (read_message ts)" "keeps traced (write_message ts m)" "keeps traced (new_message payload)" "keeps traced (due_failure operation)"
  by (auto intro!: keepsI traced_update simp: read_message_def write_message_def new_message_def due_failure_def Let_def traced.step_refl
      split: option.splits prod.splits)

lemma traced_append_text: "keeps traced (append_text ts text)"
  unfolding append_text_def by (intro traced.keeps_bnd traced_io traced.keeps_lift)

lemma traced_at_mode: "keeps traced (at_mode mode ts)"
  unfolding at_mode_def by (intro traced.keeps_bnd traced_io traced.keeps_lift keeps_if traced.keeps_ret traced.keeps_raise)

lemma traced_append_card: "keeps traced (append_card ts chunk)"
  unfolding append_card_def
  by (intro traced.keeps_bnd traced.keeps_lift) (auto intro!: traced.keeps_bnd traced_io traced.keeps_lift traced.keeps_ret)

lemma traced_append_chunks: "keeps traced (append_chunks ts chunks)"
  unfolding append_chunks_def
  by (intro traced.keeps_bnd traced_at_mode traced.keeps_lift traced_io traced.keeps_for_m traced_append_card traced_append_text)

lemma traced_append: "keeps traced (append_payload ts payload)"
  unfolding append_payload_def
  by (intro traced.keeps_bnd)
     (auto intro!: traced.keeps_bnd traced_at_mode traced_append_text traced_append_chunks traced.keeps_ret split: option.split)

lemma traced_live: "keeps traced (live_stream payload)"
proof -
  have "keeps traced (\<lambda>s. if ts \<in> set (rs_streams s) then (Inr (), s) else (Inl (KeyError ts), s))" for ts
    by (rule keepsI) (simp add: traced.step_refl)
  then show ?thesis unfolding live_stream_def
    by (intro traced.keeps_bnd traced.keeps_lift traced_io keeps_if traced.keeps_ret traced.keeps_raise)
qed

lemma traced_post: "keeps traced (record_post streaming payload)"
proof -
  have "keeps traced (\<lambda>s. (Inr (), s\<lparr>rs_streams := rs_streams s @ [ts]\<rparr>))" for ts
    by (rule keepsI) (simp add: traced_def call_trace_def)
  then show ?thesis unfolding record_post_def
    by (intro traced.keeps_bnd traced_io keeps_if traced.keeps_ret traced_append)
qed

lemma traced_perform: "keeps traced (perform T operation payload)"
proof -
  have "keeps traced (record_stream stopping payload)" for stopping
    unfolding record_stream_def
    by (intro traced.keeps_bnd traced_live traced_append keeps_if traced.keeps_lift traced_io traced.keeps_ret)
  moreover have "keeps traced (record_update payload)"
    unfolding record_update_def by (intro traced.keeps_bnd traced.keeps_lift traced_io traced.keeps_ret)
  moreover have "keeps traced (\<lambda>s. (Inr [], if payload \<in> set (rs_reactions s) then s else s\<lparr>rs_reactions := rs_reactions s @ [payload]\<rparr>) :: (error + fields) \<times> recorder)"
    "keeps traced (\<lambda>s. (Inr [], s\<lparr>rs_statuses := rs_statuses s @ [payload]\<rparr>) :: (error + fields) \<times> recorder)"
    by (auto intro!: keepsI simp: traced_def call_trace_def)
  ultimately show ?thesis unfolding perform_def
    by (intro keeps_if traced_post traced.keeps_lift traced.keeps_ret traced.keeps_raise)
qed

text \<open>Every call is recorded, also one that fails.\<close>

lemma traced_fail_call: "keeps traced (fail_call err)"
proof (rule keepsI)
  fix s :: recorder
  show "traced s (snd (fail_call err s))"
    by (cases "rs_calls s" rule: rev_cases) (simp_all add: fail_call_def traced_def call_trace_def)
qed

lemma every_call_recorded: "call_trace (snd (slack_recorder_call T operation payload s)) = call_trace s @ [(operation, payload)]"
proof -
  define rest where "rest = bnd (due_failure operation) (\<lambda>failure.
     bnd (case failure of Some f \<Rightarrow> if \<not> af_after f then fail_call (af_error f) else ret () | None \<Rightarrow> ret ()) (\<lambda>_.
     bnd (perform T operation payload) (\<lambda>extra.
     bnd (case failure of Some f \<Rightarrow> fail_call (af_error f) | None \<Rightarrow> ret ()) (\<lambda>_.
     ret ((''ok'', JBool True) # extra)))))"
  have "keeps traced rest" unfolding rest_def
    by (intro traced.keeps_bnd traced_io traced_perform traced.keeps_ret)
       (auto intro!: traced_fail_call traced.keeps_ret split: option.split)
  moreover let ?s = "snd (record_call operation payload s)"
  have "slack_recorder_call T operation payload s = rest ?s"
    by (simp add: slack_recorder_call_def rest_def bnd_def record_call_def)
  ultimately have "traced ?s (snd (slack_recorder_call T operation payload s))" by (simp add: keepsD)
  then show ?thesis by (simp add: traced_def record_call_def call_trace_def)
qed

section \<open>What the client reads back\<close>

lemma bnd_run: "m s = (Inr x, t) \<Longrightarrow> bnd m f s = f x t"
  by (simp add: bnd_def)

lemma map_of_dict_update: "map_of (dict_update d [(k, v)]) = (map_of d)(k \<mapsto> v)"
  "map_of (dict_update d ((k, v) # (l, w) # e)) = map_of (dict_update (dict_set k v d) ((l, w) # e))"
  by (simp_all add: dict_update_def map_of_dict_set)

text \<open>A call that succeeds ran its operation, on a state with the same messages, and nothing else changed them.\<close>

lemma recorder_call_Inr:
  assumes "slack_recorder_call T operation payload s = (Inr v, t)"
  shows "\<exists>s' extra. perform T operation payload s' = (Inr extra, t) \<and> v = (''ok'', JBool True) # extra
    \<and> rs_messages s' = rs_messages s \<and> rs_streams s' = rs_streams s \<and> rs_counter s' = rs_counter s \<and> rs_time s' = rs_time s"
proof -
  let ?s = "s\<lparr>rs_calls := rs_calls s @ [\<lparr>rc_operation = operation, rc_payload = payload, rc_error = None\<rparr>]\<rparr>"
  obtain f fs where f: "take_failure operation (rs_failures s) = (f, fs)" by fastforce
  let ?u = "?s\<lparr>rs_failures := fs\<rparr>"
  have "f = None" using assms f
    by (cases f) (auto simp: slack_recorder_call_def record_call_def due_failure_def bnd_def fail_call_def ret_def split: if_splits prod.splits sum.splits)
  then obtain extra where "perform T operation payload ?u = (Inr extra, t)" "v = (''ok'', JBool True) # extra"
    using assms f by (auto simp: slack_recorder_call_def record_call_def due_failure_def bnd_def ret_def split: prod.splits sum.splits)
  then show ?thesis by (intro exI [of _ ?u] exI [of _ extra]) simp
qed

lemma web_request_Inr:
  assumes "web_request (recording_client T) method operation args result s = (Inr x, t)"
  shows "\<exists>s' extra. perform T (map (\<lambda>c. if c = CHR ''_'' then CHR ''.'' else c) method) args s' = (Inr extra, t)
    \<and> result ((''ok'', JBool True) # extra) = Inr x \<and> rs_messages s' = rs_messages s \<and> rs_streams s' = rs_streams s
    \<and> rs_counter s' = rs_counter s \<and> rs_time s' = rs_time s"
proof -
  from assms obtain v where v: "slack_recorder_call T (map (\<lambda>c. if c = CHR ''_'' then CHR ''.'' else c) method) args s = (Inr v, t)"
    "bind_sum (require (recording_client T) operation v) result = Inr x"
    by (auto simp: web_request_def recording_client_def split: prod.splits sum.splits)
  from recorder_call_Inr [OF v(1)] v(2) show ?thesis
    by (fastforce simp: bind_sum_Inr require_def split: if_splits)
qed

definition message_with :: "recorder \<Rightarrow> string \<Rightarrow> fields \<Rightarrow> bool" where
  "message_with s ts kvs = (case map_of (rs_messages s) ts of None \<Rightarrow> False
     | Some m \<Rightarrow> list_all (\<lambda>(k, v). map_of m k = Some v) kvs)"

lemma posted_reply_recorded:
  assumes "post_reply (recording_client T) channel thread_ts text blocks s = (Inr ts, t)"
  shows "ts = new_ts s \<and> message_with t ts [(''channel'', JStr channel), (''thread_ts'', JStr thread_ts), (''text'', JStr text)]"
proof -
  from web_request_Inr [OF assms [unfolded post_reply_def]] obtain u where u:
    "rs_counter u = rs_counter s" "rs_time u = rs_time s" "t = snd (new_message [(''channel'', JStr channel), (''thread_ts'', JStr thread_ts), (''text'', JStr text), (''blocks'', opt_json JArr blocks),
      (''unfurl_links'', JBool False), (''unfurl_media'', JBool False)] u)" "ts = new_ts u"
    by (auto simp: perform_def record_post_def new_message_def bnd_def ret_def Let_def timestamp_of_def dict_get_def slack_str_def split: if_splits)
  then show ?thesis
    by (simp add: new_message_def Let_def new_ts_def message_with_def map_of_dict_set message_of_def)
qed

section \<open>Streams\<close>

text \<open>A stream of text that is open, with the text so far.\<close>

definition streaming_text :: "recorder \<Rightarrow> string \<Rightarrow> string \<Rightarrow> string \<Rightarrow> bool" where
  "streaming_text s ts channel text = (ts \<in> set (rs_streams s)
     \<and> message_with s ts [(''channel'', JStr channel), (''mode'', JStr ''text''), (''state'', JStr ''streaming''), (''text'', JStr text)])"

definition closed_stream :: "recorder \<Rightarrow> string \<Rightarrow> string \<Rightarrow> string \<Rightarrow> bool" where
  "closed_stream s ts channel text = (ts \<in> set (rs_streams s)
     \<and> message_with s ts [(''channel'', JStr channel), (''state'', JStr ''completed''), (''text'', JStr text)])"

lemma message_withE:
  assumes "message_with s ts kvs"
  obtains m where "map_of (rs_messages s) ts = Some m" "\<And>k v. (k, v) \<in> set kvs \<Longrightarrow> map_of m k = Some v"
  using assms by (auto simp: message_with_def list_all_iff split: option.splits)

lemma live_open: "streaming_text s ts channel x \<Longrightarrow> map_of payload ''ts'' = Some (JStr ts) \<Longrightarrow> map_of payload ''channel'' = Some (JStr channel)
    \<Longrightarrow> live_stream payload s = (Inr ts, s)"
  by (auto simp: streaming_text_def live_stream_def bnd_def lift_sum_def ret_def key_of_def as_key_def read_message_def elim!: message_withE)

lemma live_closed: "closed_stream s ts channel x \<Longrightarrow> map_of payload ''ts'' = Some (JStr ts) \<Longrightarrow> map_of payload ''channel'' = Some (JStr channel)
    \<Longrightarrow> live_stream payload s = (Inl (RuntimeError ''message_not_in_streaming_state''), s)"
  by (auto simp: closed_stream_def live_stream_def bnd_def lift_sum_def ret_def raise_err_def key_of_def as_key_def read_message_def elim!: message_withE)

lemma append_open:
  assumes "streaming_text s ts channel x" "map_of payload ''markdown_text'' = Some (JStr y)" "map_of payload ''chunks'' = None"
  shows "\<exists>t. append_payload ts payload s = (Inr (), t) \<and> streaming_text t ts channel (x @ y)"
proof -
  from assms(1) obtain m where m: "map_of (rs_messages s) ts = Some m" "map_of m ''channel'' = Some (JStr channel)" "map_of m ''mode'' = Some (JStr ''text'')"
    "map_of m ''state'' = Some (JStr ''streaming'')" "map_of m ''text'' = Some (JStr x)" "ts \<in> set (rs_streams s)"
    by (auto simp: streaming_text_def elim!: message_withE)
  let ?t = "s\<lparr>rs_messages := dict_set ts (dict_set ''text'' (JStr (x @ y)) m) (rs_messages s)\<rparr>"
  have "append_payload ts payload s = (Inr (), ?t)"
    by (simp add: append_payload_def assms(2,3) bnd_def at_mode_def read_message_def m lift_sum_def ret_def key_of_def append_text_def added_text_def write_message_def)
  moreover have "streaming_text ?t ts channel (x @ y)"
    by (simp add: streaming_text_def message_with_def m map_of_dict_set)
  ultimately show ?thesis by blast
qed

text \<open>What is appended through the client is appended to the text, and after the stream has been stopped it is refused.\<close>

lemma append_stream_text:
  assumes "streaming_text s ts channel x" "append_stream (recording_client T) channel ts y s = (Inr (), t)"
  shows "streaming_text t ts channel (x @ y)"
proof -
  let ?args = "[(''channel'', JStr channel), (''ts'', JStr ts), (''markdown_text'', JStr y)]"
  from web_request_Inr [OF assms(2) [unfolded append_stream_def]] obtain u extra where u:
    "perform T ''chat.appendStream'' ?args u = (Inr extra, t)" "rs_messages u = rs_messages s" "rs_streams u = rs_streams s"
    by auto
  have o: "streaming_text u ts channel x" using assms(1) u(2,3) by (simp add: streaming_text_def message_with_def)
  from append_open [OF o, of ?args y] obtain v where v: "append_payload ts ?args u = (Inr (), v)" "streaming_text v ts channel (x @ y)" by auto
  have "t = v" using u(1) live_open [OF o, of ?args] v(1) by (simp add: perform_def record_stream_def bnd_def ret_def)
  with v show ?thesis by simp
qed

lemma stop_stream_text:
  assumes "streaming_text s ts channel x" "stop_stream (recording_client T) channel ts (Some y) None blocks status s = (Inr (), t)"
  shows "closed_stream t ts channel (x @ y)"
proof -
  let ?args = "[(''channel'', JStr channel), (''ts'', JStr ts), (''blocks'', opt_json JArr blocks), (''session_status'', JStr status), (''markdown_text'', JStr y)]"
  from assms(2) obtain v where "slack_recorder_call T ''chat.stopStream'' ?args s = (Inr v, t)"
    by (auto simp: stop_stream_def tolerate_def recording_client_def split: prod.splits sum.splits slack_raised.splits)
  from recorder_call_Inr [OF this] obtain u extra where u:
    "perform T ''chat.stopStream'' ?args u = (Inr extra, t)" "rs_messages u = rs_messages s" "rs_streams u = rs_streams s"
    by auto
  have o: "streaming_text u ts channel x" using assms(1) u(2,3) by (simp add: streaming_text_def message_with_def)
  from append_open [OF o, of ?args y] obtain v where v: "append_payload ts ?args u = (Inr (), v)" "streaming_text v ts channel (x @ y)" by auto
  from v(2) obtain m where m: "map_of (rs_messages v) ts = Some m" "map_of m ''channel'' = Some (JStr channel)" "map_of m ''text'' = Some (JStr (x @ y))" "ts \<in> set (rs_streams v)"
    by (auto simp: streaming_text_def elim!: message_withE)
  have "t = v\<lparr>rs_messages := dict_set ts (dict_update m [(''state'', JStr ''completed''), (''status'', JStr status), (''blocks'', opt_json JArr blocks)]) (rs_messages v)\<rparr>"
    using u(1) live_open [OF o, of ?args] v(1)
    by (simp add: perform_def record_stream_def bnd_def ret_def lift_sum_def key_of_def read_message_def m write_message_def dict_get_def)
  then show ?thesis using m by (simp add: closed_stream_def message_with_def map_of_dict_set map_of_dict_update)
qed

lemma closed_stream_refuses:
  assumes "closed_stream s ts channel x"
  shows "\<exists>e. fst (append_stream (recording_client T) channel ts y s) = Inl e"
proof (rule ccontr)
  assume "\<nexists>e. fst (append_stream (recording_client T) channel ts y s) = Inl e"
  then obtain t where "append_stream (recording_client T) channel ts y s = (Inr (), t)"
    by (cases "append_stream (recording_client T) channel ts y s") (metis (full_types) fst_conv old.unit.exhaust sum.exhaust)
  from web_request_Inr [OF this [unfolded append_stream_def]] obtain u extra where u:
    "perform T ''chat.appendStream'' [(''channel'', JStr channel), (''ts'', JStr ts), (''markdown_text'', JStr y)] u = (Inr extra, t)"
    "rs_messages u = rs_messages s" "rs_streams u = rs_streams s"
    by auto
  have "closed_stream u ts channel x" using assms u(2,3) by (simp add: closed_stream_def message_with_def)
  from u(1) live_closed [OF this, of "[(''channel'', JStr channel), (''ts'', JStr ts), (''markdown_text'', JStr y)]"]
  show False by (simp add: perform_def record_stream_def bnd_def)
qed

end
