(* ===== verification/Live_Inspect.thy ===== *)
theory Live_Inspect
  imports Slack_User App_Schema Schema
begin

text \<open>
  \<^verbatim>\<open>scripts/live_a2a_inspect.py\<close>: the metadata of one Slack binding, read across the application's and the controller's tables in one transaction, with the
  evidence of the provider on request. \<open>T\<close> is \<open>str\<close> of a JSON value, \<open>D\<close> the text of a timestamp (\<open>json.dumps(default=str)\<close>). The last section ties the verdict of the smoke
  test to the rows it was read from.
\<close>

section \<open>Names of the states in the tables\<close>

fun projection_name :: "projection_status \<Rightarrow> string" where
  "projection_name Projection_pending = ''pending''"
| "projection_name Streaming = ''streaming''"
| "projection_name Projection_completed = ''completed''"
| "projection_name Fallback = ''fallback''"

fun request_name :: "request_status \<Rightarrow> string" where
  "request_name Pending = ''pending''"
| "request_name Resolving = ''resolving''"
| "request_name Resolved = ''resolved''"

definition opt_text :: "('a \<Rightarrow> string) \<Rightarrow> 'a option \<Rightarrow> json" where
  "opt_text f x = (case x of None \<Rightarrow> JNull | Some v \<Rightarrow> JStr (f v))"

section \<open>The queries\<close>

definition legacy_tables :: "string list" where
  "legacy_tables = [''agent_sessions'', ''surface_bindings'', ''ingress_events'', ''projection_events'', ''agent_feedback'', ''slack_response_streams'']"

definition legacy_present :: "string list \<Rightarrow> string list" where
  "legacy_present catalog = sort (filter (\<lambda>t. t \<in> set legacy_tables) catalog)"

text \<open>\<open>a LEFT JOIN b ON ..\<close>: one row without a partner if there is none.\<close>

definition left_join :: "('b \<Rightarrow> bool) \<Rightarrow> 'b list \<Rightarrow> 'b option list" where
  "left_join p rows = (case filter p rows of [] \<Rightarrow> [None] | found \<Rightarrow> map Some found)"

definition binding_thread :: "string \<Rightarrow> string \<Rightarrow> ('e, 'q) app \<Rightarrow> (binding_row \<times> thread_row) option" where
  "binding_thread team external a = (case
     concat (map (\<lambda>b. map (Pair b) (filter (\<lambda>t. th_thread_id t = b_thread_id b) (threads a)))
       (filter (\<lambda>b. b_surface b = ''slack'' \<and> b_tenant_id b = team \<and> b_external_thread_id b = external) (surface_bindings a)))
     of [] \<Rightarrow> None | x # _ \<Rightarrow> Some x)"

type_synonym task_join = "send_row \<times> projection_row option \<times> task_row option"

definition thread_tasks :: "binding_row \<Rightarrow> ('e, 'q) app \<Rightarrow> 'p sys \<Rightarrow> task_join list" where
  "thread_tasks b a s = concat (map (\<lambda>x.
     concat (map (\<lambda>j. map (\<lambda>c. (x, j, c)) (left_join (\<lambda>c. Some (t_task_id c) = s_task_id x) (tasks s)))
       (left_join (\<lambda>j. j_binding_id j = b_binding_id b \<and> Some (j_task_id j) = s_task_id x) (projections a))))
     (sort_key (\<lambda>x. (s_created_at x, s_task_binding_id x))
        (filter (\<lambda>x. s_thread_id x = b_thread_id b \<and> s_task_id x \<noteq> None) (sends a))))"

definition push_delivered :: "'p sys \<Rightarrow> string option \<Rightarrow> bool" where
  "push_delivered s task = list_ex (\<lambda>p. Some (p_task_id p) = task \<and> p_last_delivered_at p \<noteq> None) (push_configs s)"

definition approvals_of :: "task_join list \<Rightarrow> 'p sys \<Rightarrow> approval_row list" where
  "approvals_of ts s = sort_key r_created_at (filter (\<lambda>r. Some (r_task_id r) \<in> set (map (s_task_id \<circ> fst) ts)) (approvals s))"

definition clarifications_of :: "task_join list \<Rightarrow> 'p sys \<Rightarrow> clarification_row list" where
  "clarifications_of ts s = sort_key q_created_at (filter (\<lambda>q. Some (q_task_id q) \<in> set (map (s_task_id \<circ> fst) ts)) (clarifications s))"

section \<open>The evidence of the provider\<close>

definition py_text :: "(json \<Rightarrow> string) \<Rightarrow> json \<Rightarrow> string" where
  "py_text T v = (case v of JStr s \<Rightarrow> s | _ \<Rightarrow> T v)"

type_synonym event_fields = "(string \<times> json) list"

definition is_type :: "string \<Rightarrow> event_fields \<Rightarrow> bool" where
  "is_type ty e = (dict_get e ''type'' = JStr ty)"

definition type_text :: "(json \<Rightarrow> string) \<Rightarrow> event_fields \<Rightarrow> string" where
  "type_text T e = py_text T (dict_get e ''type'')"

definition after_last :: "('a \<Rightarrow> bool) \<Rightarrow> 'a list \<Rightarrow> 'a list" where
  "after_last P xs = (if list_ex P xs then rev (takeWhile (\<lambda>x. \<not> P x) (rev xs)) else [])"

definition terminal_event :: "(json \<Rightarrow> string) \<Rightarrow> event_fields \<Rightarrow> error + bool" where
  "terminal_event T e =
     (if replace_all ''thread_status'' ''status'' (type_text T e) \<in> {''session.status_idle'', ''session.status_terminated''}
      then bind_sum (as_dict (py_or (dict_get e ''stop_reason'') (JObj []))) (\<lambda>r. Inr (dict_get r ''type'' \<noteq> JStr ''requires_action''))
      else Inr False)"

definition interruption_evidence :: "(json \<Rightarrow> string) \<Rightarrow> event_fields list \<Rightarrow> error + json" where
  "interruption_evidence T events =
     bind_sum (any_sum (terminal_event T) (after_last (is_type ''user.interrupt'') events)) (\<lambda>terminal.
     Inr (JObj [(''interrupt_count'', JNum (int (length (filter (is_type ''user.interrupt'') events)))),
       (''terminal_after_interrupt'', JBool terminal)]))"

text \<open>\<open>by_id.get(event_id, {})\<close>: the last event with that text as its identifier.\<close>

definition source_event :: "(json \<Rightarrow> string) \<Rightarrow> event_fields list \<Rightarrow> string \<Rightarrow> event_fields" where
  "source_event T events i = (case find (\<lambda>e. py_text T (dict_get e ''id'') = i) (rev events) of None \<Rightarrow> [] | Some e \<Rightarrow> e)"

definition result_events :: "(json \<Rightarrow> string) \<Rightarrow> event_fields list \<Rightarrow> string \<Rightarrow> event_fields list" where
  "result_events T events i = filter (\<lambda>e. dict_get e ''tool_use_id'' = JStr i \<and> contains ''result'' (type_text T e)) events"

definition error_flag :: "event_fields \<Rightarrow> json" where
  "error_flag e = JBool (py_true (dict_get e ''is_error''))"

definition approval_evidence :: "(json \<Rightarrow> string) \<Rightarrow> event_fields list \<Rightarrow> approval_row \<Rightarrow> json" where
  "approval_evidence T events r = (let i = r_cma_event_id r in JObj
     [(''request_id'', JStr (r_request_id r)), (''tool_name'', dict_get (source_event T events i) ''name''),
      (''confirmation_decisions'', JArr (map (\<lambda>e. dict_get e ''result'')
         (filter (\<lambda>e. is_type ''user.tool_confirmation'' e \<and> dict_get e ''tool_use_id'' = JStr i) events))),
      (''result_event_types'', JArr (map (\<lambda>e. JStr (type_text T e)) (result_events T events i))),
      (''result_errors'', JArr (map error_flag (result_events T events i)))])"

definition clarification_evidence :: "(json \<Rightarrow> string) \<Rightarrow> event_fields list \<Rightarrow> clarification_row \<Rightarrow> json" where
  "clarification_evidence T events q =
     (let i = q_cma_event_id q; source = source_event T events i;
          results = filter (\<lambda>e. is_type ''user.custom_tool_result'' e \<and> dict_get e ''custom_tool_use_id'' = JStr i) events in JObj
     [(''request_id'', JStr (q_request_id q)), (''tool_name'', dict_get source ''name''), (''source_event_type'', dict_get source ''type''),
      (''result_count'', JNum (int (length results))), (''result_errors'', JArr (map error_flag results))])"

section \<open>The report\<close>

definition clarification_report :: "clarification_row \<Rightarrow> json" where
  "clarification_report q = JObj [(''request_id'', JStr (q_request_id q)), (''status'', JStr (request_name (q_status q)))]"

definition ruling_json :: "ruling option \<Rightarrow> json" where
  "ruling_json d = (case d of None \<Rightarrow> JNull | d \<Rightarrow> JStr (ruling_str d))"

definition approval_report :: "(int \<Rightarrow> string) \<Rightarrow> approval_row \<Rightarrow> json" where
  "approval_report D r = JObj [(''request_id'', JStr (r_request_id r)), (''status'', JStr (request_name (r_status r))),
     (''decision'', ruling_json (r_decision r)), (''confirmation_attempted_at'', opt_text D (r_confirmation_attempted_at r)),
     (''human_ruling'', ruling_json (r_human_ruling r)), (''review_digest'', opt_text id (r_review_digest r))]"

definition task_report :: "(int \<Rightarrow> string) \<Rightarrow> 'p sys \<Rightarrow> approval_row list \<Rightarrow> clarification_row list \<Rightarrow> task_join \<Rightarrow> json" where
  "task_report D s rs qs x = (case x of (send, projection, task) \<Rightarrow> JObj
     [(''task_id'', opt_text id (s_task_id send)), (''client_message_id'', JStr (s_client_message_id send)),
      (''projection_status'', opt_text (projection_name \<circ> j_status) projection),
      (''task_state'', opt_text id (case projection of None \<Rightarrow> None | Some j \<Rightarrow> j_last_task_state j)),
      (''controller_state'', opt_text (a2a_name \<circ> t_a2a_state) task),
      (''push_delivered'', JBool (push_delivered s (s_task_id send))),
      (''clarification_requests'', JArr (map clarification_report (filter (\<lambda>q. Some (q_task_id q) = s_task_id send) qs))),
      (''input_requests'', JArr (map (approval_report D) (filter (\<lambda>r. Some (r_task_id r) = s_task_id send) rs)))])"

definition surface_report :: "binding_row \<Rightarrow> json" where
  "surface_report b = JObj [(''binding_id'', JStr (b_binding_id b)), (''surface'', JStr (b_surface b)), (''tenant_id'', JStr (b_tenant_id b)),
     (''external_thread_id'', JStr (b_external_thread_id b))]"

text \<open>The session of the context, when its evidence is asked for and it has one.\<close>

definition evidence_session :: "bool \<Rightarrow> string option \<Rightarrow> 'p sys \<Rightarrow> string option" where
  "evidence_session wanted context s = (if wanted
     then (case find (\<lambda>c. Some (c_context_id c) = context) (contexts s) of None \<Rightarrow> None
       | Some c \<Rightarrow> if truthy (c_cma_session_id c) then c_cma_session_id c else None)
     else None)"

definition provider_evidence :: "(json \<Rightarrow> string) \<Rightarrow> (string \<Rightarrow> error + event_fields list) \<Rightarrow> string option \<Rightarrow> approval_row list \<Rightarrow> clarification_row list
    \<Rightarrow> error + (string \<times> json) list" where
  "provider_evidence T list_events session rs qs = (case session of
     None \<Rightarrow> Inr [(''provider_evidence'', JArr []), (''clarification_evidence'', JArr []), (''interruption_evidence'', JObj [])]
   | Some sid \<Rightarrow> bind_sum (list_events sid) (\<lambda>events.
       bind_sum (interruption_evidence T events) (\<lambda>interruption.
       Inr [(''provider_evidence'', JArr (map (approval_evidence T events) rs)),
         (''clarification_evidence'', JArr (map (clarification_evidence T events) qs)), (''interruption_evidence'', interruption)])))"

definition binding_report :: "(json \<Rightarrow> string) \<Rightarrow> (int \<Rightarrow> string) \<Rightarrow> (string \<Rightarrow> error + event_fields list) \<Rightarrow> string list \<Rightarrow> ('e, 'q) app \<Rightarrow> 'p sys
    \<Rightarrow> string \<Rightarrow> string \<Rightarrow> string \<Rightarrow> bool \<Rightarrow> error + (string \<times> json) list" where
  "binding_report T D list_events catalog a s team channel thread_ts wanted =
     (let present = (''legacy_tables_present'', JArr (map JStr (legacy_present catalog))) in
      case binding_thread team (channel @ '':'' @ thread_ts) a of
        None \<Rightarrow> Inr [(''binding'', JNull), (''tasks'', JArr []), present]
      | Some (b, t) \<Rightarrow>
          let ts = thread_tasks b a s; rs = approvals_of ts s; qs = clarifications_of ts s in
          bind_sum (if wanted then provider_evidence T list_events (evidence_session wanted (th_context_id t) s) rs qs else Inr []) (\<lambda>evidence.
          Inr ([(''binding'', JObj [(''thread_id'', JStr (th_thread_id t)), (''agent_id'', JStr (th_agent_id t)), (''context_id'', opt_text id (th_context_id t))]),
             (''tasks'', JArr (map (task_report D s rs qs) ts))]
            @ evidence
            @ [(''surface_bindings'', JArr (map surface_report (sort_key b_created_at (filter (\<lambda>x. b_thread_id x = th_thread_id t) (surface_bindings a))))),
               present])))"

section \<open>What a valid inspection says of the tables\<close>

definition turn_completed :: "string \<Rightarrow> string \<Rightarrow> task_join \<Rightarrow> bool" where
  "turn_completed team bid x = (case x of (send, projection, task) \<Rightarrow>
     starts_with (''slack:event:'' @ team @ '':'') (s_client_message_id send)
     \<and> (case task of None \<Rightarrow> False | Some c \<Rightarrow> t_a2a_state c = COMPLETED \<and> s_task_id send = Some (t_task_id c))
     \<and> (case projection of None \<Rightarrow> False | Some j \<Rightarrow> j_status j = Projection_completed \<and> j_last_task_state j = Some ''COMPLETED''
          \<and> j_binding_id j = bid \<and> s_task_id send = Some (j_task_id j)))"

lemma a2a_name_inj: "a2a_name x = ''COMPLETED'' \<longleftrightarrow> x = COMPLETED"
  by (cases x) simp_all

lemma projection_name_inj: "projection_name x = ''completed'' \<longleftrightarrow> x = Projection_completed"
  by (cases x) simp_all

lemma left_join_Some: "Some y \<in> set (left_join p rows) \<Longrightarrow> y \<in> set rows \<and> p y"
proof -
  assume "Some y \<in> set (left_join p rows)"
  then have "y \<in> set (filter p rows)" by (cases "filter p rows") (auto simp: left_join_def)
  then show ?thesis by simp
qed

lemma any_sum_False: "any_sum f xs = Inr False \<longleftrightarrow> list_all (\<lambda>x. f x = Inr False) xs"
  by (induction xs) (auto simp: bind_sum_Inr split: if_splits)

lemma thread_tasks_rows:
  assumes "(send, projection, task) \<in> set (thread_tasks b a s)"
  shows "send \<in> set (sends a) \<and> s_thread_id send = b_thread_id b
    \<and> (\<forall>j. projection = Some j \<longrightarrow> j \<in> set (projections a) \<and> j_binding_id j = b_binding_id b \<and> s_task_id send = Some (j_task_id j))
    \<and> (\<forall>c. task = Some c \<longrightarrow> c \<in> set (tasks s) \<and> s_task_id send = Some (t_task_id c))"
  using assms by (auto simp: thread_tasks_def dest!: left_join_Some)

lemma differs_report:
  "differs ''controller_state'' w (task_report D s rs qs (send, projection, task)) = Inr (opt_text (a2a_name \<circ> t_a2a_state) task \<noteq> JStr w)"
  "differs ''projection_status'' w (task_report D s rs qs (send, projection, task)) = Inr (opt_text (projection_name \<circ> j_status) projection \<noteq> JStr w)"
  "differs ''task_state'' w (task_report D s rs qs (send, projection, task)) =
     Inr (opt_text id (case projection of None \<Rightarrow> None | Some j \<Rightarrow> j_last_task_state j) \<noteq> JStr w)"
  by (simp_all add: differs_def task_report_def)

lemma opt_text_JStr: "opt_text f x = JStr w \<longleftrightarrow> (\<exists>v. x = Some v \<and> f v = w)"
  by (cases x) (simp_all add: opt_text_def)

lemma dict_fields_report:
  "dict_fields (map (task_report D s rs qs) ts) ''client_message_id'' = map (\<lambda>x. JStr (s_client_message_id (fst x))) ts"
  "dict_fields (map (task_report D s rs qs) ts) ''task_id'' = map (\<lambda>x. opt_text id (s_task_id (fst x))) ts"
  by (induction ts) (auto simp: dict_fields_def task_report_def dict_get_def)

lemma two_items: "length xs = 2 \<longleftrightarrow> (\<exists>x y. xs = [x, y])"
  by (auto simp: numeral_2_eq_2 length_Suc_conv)

lemma set_size_texts: "set_size [JStr x, JStr y] = Inr 2 \<longleftrightarrow> x \<noteq> y"
  by (auto simp: set_size_def set_key_def numeral_2_eq_2)

lemma slack_origin_JStr: "slack_origin team (JStr s) = starts_with (''slack:event:'' @ team @ '':'') s"
  by (simp add: slack_origin_def)

lemma projection_differs:
  "bind_sum (differs ''projection_status'' ''completed'' (task_report D s rs qs (send, projection, task)))
     (\<lambda>b. if b then Inr True else differs ''task_state'' ''COMPLETED'' (task_report D s rs qs (send, projection, task))) = Inr False
   \<longleftrightarrow> (\<exists>j. projection = Some j \<and> j_status j = Projection_completed \<and> j_last_task_state j = Some ''COMPLETED'')"
  by (cases projection) (simp_all add: differs_report opt_text_JStr projection_name_inj opt_text_def split: option.splits)

text \<open>The four checks of \<open>validate_tasks\<close> on two reports.\<close>

lemma validate_tasks_reports:
  assumes "validate_tasks team (map (task_report D s rs qs) [x, y]) = Inr ()" "{x, y} \<subseteq> set (thread_tasks b a s)"
  shows "s_client_message_id (fst x) \<noteq> s_client_message_id (fst y) \<and> s_task_id (fst x) \<noteq> s_task_id (fst y)
    \<and> turn_completed team (b_binding_id b) x \<and> turn_completed team (b_binding_id b) y"
proof -
  obtain xs xj xc ys yj yc where xy: "x = (xs, xj, xc)" "y = (ys, yj, yc)" by (cases x, cases y)
  let ?ts = "map (task_report D s rs qs) [x, y]"
  have ids: "dict_fields ?ts ''task_id'' = [opt_text id (s_task_id xs), opt_text id (s_task_id ys)]"
    "dict_fields ?ts ''client_message_id'' = [JStr (s_client_message_id xs), JStr (s_client_message_id ys)]"
    unfolding dict_fields_report by (simp_all add: xy)
  from assms(1) have checks: "list_all py_true (dict_fields ?ts ''task_id'') \<and> set_size (dict_fields ?ts ''task_id'') = Inr 2"
    "set_size (dict_fields ?ts ''client_message_id'') = Inr 2 \<and> list_all (slack_origin team) (dict_fields ?ts ''client_message_id'')"
    "any_sum (differs ''controller_state'' ''COMPLETED'') ?ts = Inr False"
    "any_sum (\<lambda>t. bind_sum (differs ''projection_status'' ''completed'' t) (\<lambda>b. if b then Inr True else differs ''task_state'' ''COMPLETED'' t)) ?ts = Inr False"
    unfolding validate_tasks_def Let_def by (auto simp: bind_sum_Inr simp del: any_sum.simps split: if_splits)
  from checks(1) have "s_task_id xs \<noteq> s_task_id ys"
    unfolding ids by (auto simp: opt_text_def py_true_def set_size_def set_key_def split: option.splits)
  moreover from checks(2) have messages: "s_client_message_id xs \<noteq> s_client_message_id ys"
    "starts_with (''slack:event:'' @ team @ '':'') (s_client_message_id xs)" "starts_with (''slack:event:'' @ team @ '':'') (s_client_message_id ys)"
    unfolding ids by (simp_all add: set_size_texts slack_origin_JStr)
  moreover from checks(3) obtain c c' where c: "xc = Some c" "t_a2a_state c = COMPLETED" "yc = Some c'" "t_a2a_state c' = COMPLETED"
    by (auto simp: any_sum_False xy differs_report opt_text_JStr a2a_name_inj simp del: any_sum.simps)
  moreover from checks(4) obtain j j' where j: "xj = Some j" "j_status j = Projection_completed" "j_last_task_state j = Some ''COMPLETED''"
    "yj = Some j'" "j_status j' = Projection_completed" "j_last_task_state j' = Some ''COMPLETED''"
    by (auto simp: any_sum_False xy projection_differs simp del: any_sum.simps)
  moreover have rows: "(xs, xj, xc) \<in> set (thread_tasks b a s)" "(ys, yj, yc) \<in> set (thread_tasks b a s)" using assms(2) xy by simp_all
  have "turn_completed team (b_binding_id b) x"
    using messages(2) c(1,2) j(1-3) thread_tasks_rows [OF rows(1)] unfolding turn_completed_def xy by (elim conjE) simp
  moreover have "turn_completed team (b_binding_id b) y"
    using messages(3) c(3,4) j(4-6) thread_tasks_rows [OF rows(2)] unfolding turn_completed_def xy by (elim conjE) simp
  ultimately show ?thesis by (simp add: xy)
qed

lemma evidence_keys: "provider_evidence T list_events session rs qs = Inr kvs \<Longrightarrow> map_of kvs ''legacy_tables_present'' = None"
  by (auto simp: provider_evidence_def bind_sum_Inr split: option.splits)

lemma valid_inspection_means:
  assumes "binding_report T D list_events catalog a s team channel thread_ts wanted = Inr v" "validate_inspection v team = Inr ()"
  shows "\<exists>b t x y. binding_thread team (channel @ '':'' @ thread_ts) a = Some (b, t) \<and> th_agent_id t = ''cma'' \<and> truthy (th_context_id t)
    \<and> legacy_present catalog = [] \<and> thread_tasks b a s = [x, y] \<and> s_client_message_id (fst x) \<noteq> s_client_message_id (fst y)
    \<and> s_task_id (fst x) \<noteq> s_task_id (fst y) \<and> turn_completed team (b_binding_id b) x \<and> turn_completed team (b_binding_id b) y"
proof (cases "binding_thread team (channel @ '':'' @ thread_ts) a")
  case None
  with assms show ?thesis by (auto simp: binding_report_def Let_def validate_inspection_def dict_get_def)
next
  case (Some bt)
  then obtain b t where bt: "binding_thread team (channel @ '':'' @ thread_ts) a = Some (b, t)" by (cases bt) auto
  let ?ts = "thread_tasks b a s"
  let ?reports = "map (task_report D s (approvals_of ?ts s) (clarifications_of ?ts s)) ?ts"
  let ?evidence = "if wanted then provider_evidence T list_events (evidence_session wanted (th_context_id t) s) (approvals_of ?ts s) (clarifications_of ?ts s) else Inr []"
  let ?first = "[(''binding'', JObj [(''thread_id'', JStr (th_thread_id t)), (''agent_id'', JStr (th_agent_id t)), (''context_id'', opt_text id (th_context_id t))]),
        (''tasks'', JArr ?reports)]"
  let ?last = "[(''surface_bindings'', JArr (map surface_report (sort_key b_created_at (filter (\<lambda>x. b_thread_id x = th_thread_id t) (surface_bindings a))))),
         (''legacy_tables_present'', JArr (map JStr (legacy_present catalog)))]"
  have "bind_sum ?evidence (\<lambda>evidence. Inr (?first @ evidence @ ?last)) = Inr v"
    using assms(1) unfolding binding_report_def Let_def bt option.case prod.case .
  then obtain evidence where e: "?evidence = Inr evidence" and v: "v = ?first @ evidence @ ?last"
    unfolding bind_sum_Inr by blast
  from e have "map_of evidence ''legacy_tables_present'' = None" by (cases wanted) (simp_all add: evidence_keys)
  with v have fields: "dict_get v ''binding'' = JObj [(''thread_id'', JStr (th_thread_id t)), (''agent_id'', JStr (th_agent_id t)), (''context_id'', opt_text id (th_context_id t))]"
    "dict_get v ''tasks'' = JArr ?reports" "dict_get v ''legacy_tables_present'' = JArr (map JStr (legacy_present catalog))"
    by (auto simp: dict_get_def map_add_def)
  from assms(2) have valid: "th_agent_id t = ''cma''" "truthy (th_context_id t)" "legacy_present catalog = []" "length ?ts = 2"
    "validate_tasks team ?reports = Inr ()"
    unfolding validate_inspection_def fields
    by (auto simp: dict_get_def opt_text_def py_true_def split: if_splits option.splits)
  from valid(4) obtain x y where xy: "?ts = [x, y]" by (auto simp: two_items)
  from valid(5) have "validate_tasks team (map (task_report D s (approvals_of ?ts s) (clarifications_of ?ts s)) [x, y]) = Inr ()" by (simp add: xy)
  from validate_tasks_reports [OF this, of b a] have "s_client_message_id (fst x) \<noteq> s_client_message_id (fst y) \<and> s_task_id (fst x) \<noteq> s_task_id (fst y)
    \<and> turn_completed team (b_binding_id b) x \<and> turn_completed team (b_binding_id b) y" by (simp add: xy)
  with valid(1-3) bt xy show ?thesis by blast
qed

end
