(* ===== verification/Live_Preflight.thy ===== *)
theory Live_Preflight
  imports Slack_User Cma_Lock App_Schema
begin

text \<open>
  \<^verbatim>\<open>scripts/live.py\<close>: the checks that come before a live test of a deployment. It reads the account, the Terraform outputs and state, the configuration of the deployed functions,
  both Slack identities, the owner of the user's identity in the database and the lockfile, and fails unless they agree. The command-line tools, HTTP and the process
  environment are the state; the rows of the identity table and the files of the project are parameters.
\<close>

section \<open>State and calls\<close>

record 'w live_port =
  lp_user :: "'w user_env"
  lp_dotenv :: "(string \<times> string option) list"
  lp_has_tool :: "string \<Rightarrow> bool"
  lp_execute :: "string list \<Rightarrow> 'w \<Rightarrow> (error + int \<times> string) \<times> 'w"
  lp_http :: "string \<Rightarrow> string \<Rightarrow> json \<Rightarrow> 'w \<Rightarrow> (error + int \<times> json option) \<times> 'w"
  lp_identities :: "error + identity_row list"
  lp_lock :: "error + (string \<times> string) list"

record 'w live_run =
  lv_env :: environ
  lv_slack :: "'w slack_run"

definition set_env :: "string \<Rightarrow> string option \<Rightarrow> ('w live_run, unit) comp" where
  "set_env k v = (\<lambda>s. (Inr (), s\<lparr>lv_env := (lv_env s)(k := v)\<rparr>))"

definition default_env :: "string \<Rightarrow> string \<Rightarrow> ('w live_run, string) comp" where
  "default_env k v = (\<lambda>s. case lv_env s k of Some w \<Rightarrow> (Inr w, s) | None \<Rightarrow> (Inr v, s\<lparr>lv_env := (lv_env s)(k \<mapsto> v)\<rparr>))"

definition read_env :: "string \<Rightarrow> ('w live_run, string option) comp" where
  "read_env k = (\<lambda>s. (Inr (lv_env s k), s))"

definition env_key :: "string \<Rightarrow> ('w live_run, string) comp" where
  "env_key k = bnd (read_env k) (\<lambda>v. case v of None \<Rightarrow> raise_err (KeyError k) | Some w \<Rightarrow> ret w)"

definition set_env_json :: "string \<Rightarrow> json \<Rightarrow> ('w live_run, unit) comp" where
  "set_env_json k v = (case v of JStr w \<Rightarrow> set_env k (Some w) | _ \<Rightarrow> raise_err (TypeError ''str expected''))"

definition live_world :: "('w \<Rightarrow> (error + 'a) \<times> 'w) \<Rightarrow> ('w live_run, 'a) comp" where
  "live_world f = (\<lambda>s. case f (sr_world (lv_slack s)) of (r, w) \<Rightarrow> (r, s\<lparr>lv_slack := (lv_slack s)\<lparr>sr_world := w\<rparr>\<rparr>))"

text \<open>A call of the Slack API, which redacts with the environment as it is.\<close>

definition live_slack :: "'w live_port \<Rightarrow> ('w user_env \<Rightarrow> ('w slack_run, 'a) comp) \<Rightarrow> ('w live_run, 'a) comp" where
  "live_slack L m = (\<lambda>s. case m ((lp_user L)\<lparr>ue_env := lv_env s\<rparr>) (lv_slack s) of (r, t) \<Rightarrow> (r, s\<lparr>lv_slack := t\<rparr>))"

definition live_fail :: "bool \<Rightarrow> string \<Rightarrow> ('s, unit) comp" where
  "live_fail b m = (if b then raise_err (LiveError m) else ret ())"

section \<open>Helpers\<close>

definition load_environment :: "'w live_port \<Rightarrow> ('w live_run, unit) comp" where
  "load_environment L =
     bnd (for_m (lp_dotenv L) (\<lambda>(k, v). case v of None \<Rightarrow> ret () | Some w \<Rightarrow> bnd (default_env k w) (\<lambda>_. ret ()))) (\<lambda>_.
     set_env ''PYTHONDONTWRITEBYTECODE'' (Some ''1''))"

definition cli :: "'w live_port \<Rightarrow> string list \<Rightarrow> ('w live_run, json) comp" where
  "cli L command = bnd (live_world (lp_execute L command)) (\<lambda>(code, out).
     if code \<noteq> 0 then raise_err (LiveError (command ! 0 @ '' '' @ command ! 1 @ '' failed (exit '' @ show_int code @ ''); check credentials and access.''))
     else case json_loads out of Inl _ \<Rightarrow> raise_err (LiveError (command ! 0 @ '' returned invalid JSON'')) | Inr v \<Rightarrow> ret v)"

definition require_env :: "string \<Rightarrow> ('w live_run, string) comp" where
  "require_env name = bnd (read_env name) (\<lambda>v.
     if blank (case v of None \<Rightarrow> [] | Some w \<Rightarrow> w) then raise_err (LiveError (''Missing '' @ name)) else ret (the v))"

text \<open>\<open>resources\<close>: those of a module and of its children, in order.\<close>

definition as_items :: "json option \<Rightarrow> error + json list" where
  "as_items v = (case v of
     None \<Rightarrow> Inr []
   | Some (JArr xs) \<Rightarrow> Inr xs
   | Some (JStr s) \<Rightarrow> Inr (map (\<lambda>c. JStr [c]) s)
   | Some (JObj kvs) \<Rightarrow> Inr (map (JStr \<circ> fst) kvs)
   | Some _ \<Rightarrow> Inl (TypeError ''not iterable''))"

fun resources :: "json \<Rightarrow> error + json list" and child_field :: "(string \<times> json) list \<Rightarrow> error + json list"
  and child_modules :: "json list \<Rightarrow> error + json list" where
  "resources (JObj kvs) = bind_sum (as_items (map_of kvs ''resources'')) (\<lambda>own. bind_sum (child_field kvs) (\<lambda>below. Inr (own @ below)))"
| "resources _ = Inl (AttributeError ''get'')"
| "child_field [] = Inr []"
| "child_field ((k, v) # kvs) = (if k \<noteq> ''child_modules'' then child_field kvs
     else case v of
       JArr xs \<Rightarrow> child_modules xs
     | JStr s \<Rightarrow> if s = [] then Inr [] else Inl (AttributeError ''get'')
     | JObj fs \<Rightarrow> if fs = [] then Inr [] else Inl (AttributeError ''get'')
     | _ \<Rightarrow> Inl (TypeError ''not iterable''))"
| "child_modules [] = Inr []"
| "child_modules (x # xs) = bind_sum (resources x) (\<lambda>r. bind_sum (child_modules xs) (\<lambda>rs. Inr (r @ rs)))"

definition get_in :: "json \<Rightarrow> string \<Rightarrow> json \<Rightarrow> error + json" where
  "get_in v k fallback = (case v of JObj kvs \<Rightarrow> Inr (case map_of kvs k of None \<Rightarrow> fallback | Some x \<Rightarrow> x) | _ \<Rightarrow> Inl (AttributeError ''get''))"

definition at_in :: "json \<Rightarrow> string \<Rightarrow> error + json" where
  "at_in v k = (case v of JObj kvs \<Rightarrow> (case map_of kvs k of None \<Rightarrow> Inl (KeyError k) | Some x \<Rightarrow> Inr x)
     | _ \<Rightarrow> Inl (TypeError ''indices''))"

text \<open>\<open>"authenticated" in v\<close>\<close>

definition holds_name :: "string \<Rightarrow> json \<Rightarrow> error + bool" where
  "holds_name k v = (case v of
     JObj kvs \<Rightarrow> Inr (k \<in> fst ` set kvs)
   | JArr xs \<Rightarrow> Inr (JStr k \<in> set xs)
   | JStr s \<Rightarrow> Inr (contains k s)
   | _ \<Rightarrow> Inl (TypeError ''not iterable''))"

section \<open>The deployment\<close>

definition check_account :: "'w live_port \<Rightarrow> string \<Rightarrow> ('w live_run, bool) comp" where
  "check_account L profile =
     bnd (cli L [''aws'', ''sts'', ''get-caller-identity'', ''--profile'', profile]) (\<lambda>identity.
     bnd (read_env ''EXPECTED_AWS_ACCOUNT_ID'') (\<lambda>expected.
     if truthy expected
     then bnd (lift_sum (at_in identity ''Account'')) (\<lambda>account.
          bnd (live_fail (account \<noteq> JStr (the expected)) ''STS account does not match EXPECTED_AWS_ACCOUNT_ID.'') (\<lambda>_. ret True))
     else ret False))"

definition export_credentials :: "'w live_port \<Rightarrow> string \<Rightarrow> ('w live_run, unit) comp" where
  "export_credentials L profile =
     bnd (cli L [''aws'', ''configure'', ''export-credentials'', ''--profile'', profile, ''--format'', ''process'']) (\<lambda>credentials.
     bnd (lift_sum (get_in credentials ''AccessKeyId'' JNull)) (\<lambda>key.
     bnd (if py_true key then lift_sum (get_in credentials ''SecretAccessKey'' JNull) else ret JNull) (\<lambda>secret.
     bnd (live_fail (\<not> py_true key \<or> \<not> py_true secret) ''AWS profile did not export concrete credentials.'') (\<lambda>_.
     for_m [(''AWS_ACCESS_KEY_ID'', ''AccessKeyId''), (''AWS_SECRET_ACCESS_KEY'', ''SecretAccessKey''), (''AWS_SESSION_TOKEN'', ''SessionToken'')] (\<lambda>(k, source).
       bnd (lift_sum (get_in credentials source JNull)) (\<lambda>v. if py_true v then set_env_json k v else set_env k None))))))"

definition read_outputs :: "'w live_port \<Rightarrow> ('w live_run, unit) comp" where
  "read_outputs L =
     bnd (cli L [''terraform'', ''-chdir=infra/app'', ''output'', ''-json'']) (\<lambda>outputs.
     for_m [(''application_url'', ''E2E_LIVE_BASE_URL''), (''dsql_endpoint'', ''DSQL_ENDPOINT'')] (\<lambda>(out, variable).
       bnd (lift_sum (bind_sum (get_in outputs out (JObj [])) (\<lambda>v. get_in v ''value'' JNull))) (\<lambda>v.
       bnd (live_fail (\<not> py_true v) (''Missing Terraform output: '' @ out)) (\<lambda>_. set_env_json variable v))))"

definition function_names :: "string list" where
  "function_names = [''slack-ingress'', ''agent-input'', ''anthropic-webhook'', ''slack-projector'', ''cma-controller'']"

definition ends_with_index :: "string \<Rightarrow> json \<Rightarrow> error + bool" where
  "ends_with_index name address = (case address of
     JStr a \<Rightarrow> Inr (starts_with (rev ([CHR ''['', CHR 0x22] @ name @ [CHR 0x22, CHR '']''])) (rev a)) | _ \<Rightarrow> Inl (AttributeError ''endswith''))"

definition note_function :: "json \<Rightarrow> string \<Rightarrow> (string \<times> json) list \<Rightarrow> error + (string \<times> json) list" where
  "note_function resource name found = bind_sum (get_in resource ''address'' (JStr [])) (\<lambda>address.
     bind_sum (ends_with_index name address) (\<lambda>b.
     if b then bind_sum (at_in resource ''values'') (\<lambda>vs. bind_sum (at_in vs ''function_name'') (\<lambda>f. Inr (dict_set name f found))) else Inr found))"

fun fold_sum :: "('x \<Rightarrow> 'a \<Rightarrow> error + 'a) \<Rightarrow> 'x list \<Rightarrow> 'a \<Rightarrow> error + 'a" where
  "fold_sum f [] a = Inr a"
| "fold_sum f (x # xs) a = bind_sum (f x a) (fold_sum f xs)"

definition deployed_functions :: "json \<Rightarrow> error + (string \<times> json) list" where
  "deployed_functions state =
     bind_sum (bind_sum (get_in state ''values'' (JObj [])) (\<lambda>v. get_in v ''root_module'' (JObj []))) (\<lambda>tree.
     bind_sum (resources tree) (\<lambda>rs.
     bind_sum (fold_sum (\<lambda>r found. bind_sum (get_in r ''type'' JNull) (\<lambda>ty.
         if ty = JStr ''aws_lambda_function'' then fold_sum (note_function r) function_names found else Inr found)) rs []) (\<lambda>found.
     if list_all (\<lambda>n. n \<in> fst ` set found) function_names then Inr found
     else Inl (LiveError ''Terraform state lacks required deployed Lambda identifiers.''))))"

definition function_config :: "'w live_port \<Rightarrow> string \<Rightarrow> json \<Rightarrow> ('w live_run, json) comp" where
  "function_config L name f = (case f of
     JStr function \<Rightarrow>
       bnd (cli L [''aws'', ''lambda'', ''get-function-configuration'', ''--function-name'', function]) (\<lambda>c.
       bnd (lift_sum (get_in c ''State'' JNull)) (\<lambda>state.
       bnd (lift_sum (get_in c ''LastUpdateStatus'' JNull)) (\<lambda>updated.
       bnd (live_fail (state \<noteq> JStr ''Active'' \<or> updated \<noteq> JStr ''Successful'') (''Deployed '' @ name @ '' is not active with a successful update.'')) (\<lambda>_.
       lift_sum (bind_sum (get_in c ''Environment'' (JObj [])) (\<lambda>e. get_in e ''Variables'' (JObj [])))))))
   | _ \<Rightarrow> raise_err (TypeError ''expected str''))"

text \<open>\<open>configs[name].get(key)\<close>\<close>

definition deployed :: "(string \<times> json) list \<Rightarrow> string \<Rightarrow> string \<Rightarrow> error + json" where
  "deployed configs name k = (case map_of configs name of None \<Rightarrow> Inl (KeyError name) | Some c \<Rightarrow> get_in c k JNull)"

definition check_endpoints :: "(string \<times> json) list \<Rightarrow> ('w live_run, unit) comp" where
  "check_endpoints configs =
     for_m [''agent-input'', ''anthropic-webhook'', ''slack-projector'', ''cma-controller''] (\<lambda>name.
       bnd (lift_sum (deployed configs name ''DSQL_ENDPOINT'')) (\<lambda>v.
       bnd (env_key ''DSQL_ENDPOINT'') (\<lambda>endpoint.
       live_fail (v \<noteq> JStr endpoint) (''Deployed '' @ name @ '' DSQL endpoint differs from Terraform.''))))"

section \<open>The identities\<close>

definition live_auth :: "'w live_port \<Rightarrow> string \<Rightarrow> ('w live_run, (string \<times> json) list) comp" where
  "live_auth L variable = bnd (require_env variable) (\<lambda>token. live_slack L (\<lambda>U. slack_auth U token))"

definition check_scopes :: "string \<Rightarrow> ('w live_run, unit) comp" where
  "check_scopes variable = bnd (require_env variable) (\<lambda>token. (\<lambda>s.
     live_fail (case map_of (sr_scopes (lv_slack s)) token of None \<Rightarrow> True | Some scopes \<Rightarrow> ''chat:write'' \<notin> set scopes)
       (variable @ '' lacks confirmed installed chat:write scope.'') s))"

definition live_identities :: "'w live_port \<Rightarrow> ('w live_run, json \<times> json) comp" where
  "live_identities L =
     bnd (live_auth L ''SLACK_USER_TOKEN'') (\<lambda>human.
     bnd (live_auth L ''SLACK_BOT_TOKEN'') (\<lambda>bot.
     bnd (for_m [''SLACK_USER_TOKEN'', ''SLACK_BOT_TOKEN''] check_scopes) (\<lambda>_.
     bnd (live_fail (dict_get human ''team_id'' \<noteq> dict_get bot ''team_id'' \<or> dict_get human ''user_id'' = dict_get bot ''user_id''
         \<or> \<not> py_true (dict_get bot ''bot_id''))
       ''Slack tokens must authenticate a human and a distinct bot in the same workspace.'') (\<lambda>_.
     ret (dict_get human ''team_id'', dict_get human ''user_id'')))))"

definition pin_identity :: "string \<times> json \<Rightarrow> ('w live_run, unit) comp" where
  "pin_identity = (\<lambda>(variable, actual).
     bnd (read_env variable) (\<lambda>v.
     bnd (live_fail (truthy v \<and> JStr (the v) \<noteq> actual) (variable @ '' does not match the authenticated user token.'')) (\<lambda>_.
     set_env_json variable actual)))"

definition probe_history :: "'w live_port \<Rightarrow> string \<Rightarrow> string \<Rightarrow> ('w live_run, unit) comp" where
  "probe_history L channel token =
     bnd (live_slack L (\<lambda>U. slack_call U token ''conversations.history'' [(''channel'', channel), (''limit'', ''1'')])) (\<lambda>_. ret ())"

definition check_allowlist :: "(string \<times> json) list \<Rightarrow> string \<times> json \<Rightarrow> ('w live_run, unit) comp" where
  "check_allowlist configs = (\<lambda>(setting, actual).
     bnd (lift_sum (deployed configs ''slack-ingress'' setting)) (\<lambda>v.
     live_fail (py_true v \<and> v \<noteq> actual) ''Deployed ingress allowlist rejects the authenticated Slack identity.''))"

definition check_pair :: "(string \<times> json) list \<Rightarrow> string \<Rightarrow> ('w live_run, unit) comp" where
  "check_pair configs k =
     bnd (lift_sum (deployed configs ''slack-ingress'' k)) (\<lambda>v.
     bnd (read_env k) (\<lambda>mine.
     live_fail (py_true v \<noteq> truthy mine \<or> truthy mine \<and> v \<noteq> JStr (the mine)) (''Deployed exact user-token metadata pair differs from local '' @ k)))"

definition check_slack :: "'w live_port \<Rightarrow> (string \<times> json) list \<Rightarrow> ('w live_run, json \<times> json \<times> string) comp" where
  "check_slack L configs =
     bnd (live_identities L) (\<lambda>(team, user).
     bnd (for_m [(''E2E_LIVE_SLACK_TEAM_ID'', team), (''E2E_LIVE_SLACK_USER_ID'', user)] pin_identity) (\<lambda>_.
     bnd (require_env ''E2E_LIVE_SLACK_CHANNEL_ID'') (\<lambda>channel.
     bnd (map_m require_env [''SLACK_USER_TOKEN'', ''SLACK_BOT_TOKEN'']) (\<lambda>tokens.
     bnd (for_m tokens (probe_history L channel)) (\<lambda>_.
     bnd (for_m [(''SLACK_TEAM_ID'', team), (''SLACK_USER_ID'', user)] (check_allowlist configs)) (\<lambda>_.
     bnd (for_m [''SLACK_USER_BOT_ID'', ''SLACK_USER_APP_ID''] (check_pair configs)) (\<lambda>_.
     ret (team, user, channel))))))))"

section \<open>The web application, the database and the lockfile\<close>

definition check_web :: "'w live_port \<Rightarrow> bool \<Rightarrow> ('w live_run, unit) comp" where
  "check_web L approval =
     bnd (env_key ''E2E_LIVE_BASE_URL'') (\<lambda>base.
     bnd (live_world (lp_http L ''GET'' (base @ ''/api/auth/session'') JNull)) (\<lambda>(status, body).
     bnd (if status \<notin> {200, 401} then ret False
          else case body of None \<Rightarrow> raise_err (ValueError ''json'') | Some v \<Rightarrow> lift_sum (holds_name ''authenticated'' v)) (\<lambda>available.
     bnd (live_fail (\<not> available) ''Deployed web API is unavailable.'') (\<lambda>_.
     if approval
     then bnd (require_env ''WEB_ACCESS_TOKEN'') (\<lambda>token.
          bnd (live_world (lp_http L ''POST'' (base @ ''/api/auth/session'') (JObj [(''accessToken'', JStr token)]))) (\<lambda>(status, _).
          live_fail (status \<noteq> 200) ''Configured WEB_ACCESS_TOKEN cannot authenticate against the deployed web API.''))
     else ret ()))))"

definition identity_owner :: "identity_row list \<Rightarrow> string \<Rightarrow> json \<Rightarrow> json \<Rightarrow> string option" where
  "identity_owner rows provider tenant user = map_option x_principal_id
     (find (\<lambda>r. x_provider r = provider \<and> JStr (x_tenant_id r) = tenant \<and> JStr (x_external_user_id r) = user) rows)"

definition check_owner :: "'w live_port \<Rightarrow> (string \<times> json) list \<Rightarrow> json \<Rightarrow> json \<Rightarrow> ('w live_run, string) comp" where
  "check_owner L configs team user =
     bnd (lift_sum (lp_identities L)) (\<lambda>rows.
     bnd (lift_sum (deployed configs ''agent-input'' ''DEV_PRINCIPAL_ID'')) (\<lambda>principal.
     case (identity_owner rows ''slack'' team user, identity_owner rows ''web'' (JStr ''development'') (JStr ''single-user'')) of
       (Some mine, Some web) \<Rightarrow>
         if mine \<noteq> web \<or> JStr mine \<noteq> principal
         then raise_err (LiveError ''Slack identity is missing or not owned by the configured web principal in DSQL.'') else ret mine
     | _ \<Rightarrow> raise_err (LiveError ''Slack identity is missing or not owned by the configured web principal in DSQL.'')))"

definition check_lock :: "'w live_port \<Rightarrow> (string \<times> json) list \<Rightarrow> ('w live_run, unit) comp" where
  "check_lock L configs =
     bnd (lift_sum (lp_lock L)) (\<lambda>selected.
     for_m selected (\<lambda>(k, v).
       bnd (set_env k (Some v)) (\<lambda>_.
       bnd (if starts_with ''CLAUDE_'' k then bnd (lift_sum (deployed configs ''cma-controller'' k)) (\<lambda>d. ret (d \<noteq> JStr v)) else ret False) (\<lambda>drift.
       live_fail drift (''Deployed controller differs from lock-derived '' @ k)))))"

section \<open>The preflight\<close>

definition check_tools :: "'w live_port \<Rightarrow> bool \<Rightarrow> bool \<Rightarrow> ('w live_run, unit) comp" where
  "check_tools L approval metadata_only =
     bnd (for_m [''aws'', ''terraform''] (\<lambda>tool. live_fail (\<not> lp_has_tool L tool) (''Missing system tool: '' @ tool))) (\<lambda>_.
     bnd (when_m (\<not> metadata_only) (for_m [''SLACK_USER_TOKEN'', ''SLACK_BOT_TOKEN'', ''E2E_LIVE_SLACK_CHANNEL_ID''] (\<lambda>k. bnd (require_env k) (\<lambda>_. ret ())))) (\<lambda>_.
     when_m approval (bnd (require_env ''WEB_ACCESS_TOKEN'') (\<lambda>_. ret ()))))"

definition check_deployment :: "'w live_port \<Rightarrow> ('w live_run, bool \<times> (string \<times> json) list \<times> (string \<times> json) list) comp" where
  "check_deployment L =
     bnd (default_env ''AWS_PROFILE'' ''default'') (\<lambda>profile.
     bnd (default_env ''AWS_REGION'' ''us-west-2'') (\<lambda>_.
     bnd (check_account L profile) (\<lambda>matched.
     bnd (export_credentials L profile) (\<lambda>_.
     bnd (read_outputs L) (\<lambda>_.
     bnd (cli L [''terraform'', ''-chdir=infra/app'', ''show'', ''-json'']) (\<lambda>state.
     bnd (lift_sum (deployed_functions state)) (\<lambda>lambdas.
     bnd (map_m (\<lambda>(name, f). bnd (function_config L name f) (\<lambda>c. ret (name, c))) lambdas) (\<lambda>configs.
     ret (matched, lambdas, configs)))))))))"

definition preflight :: "'w live_port \<Rightarrow> bool \<Rightarrow> bool \<Rightarrow> ('w live_run, (string \<times> json) list) comp" where
  "preflight L approval metadata_only =
     bnd (load_environment L) (\<lambda>_.
     bnd (check_tools L approval metadata_only) (\<lambda>_.
     bnd (check_deployment L) (\<lambda>(matched, lambdas, configs).
     if metadata_only then ret [(''ok'', JBool True), (''lambdas'', JObj lambdas)]
     else bnd (check_endpoints configs) (\<lambda>_.
       bnd (check_slack L configs) (\<lambda>(team, user, channel).
       bnd (check_web L approval) (\<lambda>_.
       bnd (check_owner L configs team user) (\<lambda>owner.
       bnd (check_lock L configs) (\<lambda>_.
       bnd (env_key ''E2E_LIVE_BASE_URL'') (\<lambda>base.
       ret [(''ok'', JBool True), (''team_id'', team), (''user_id'', user), (''channel'', JStr channel), (''principal_id'', JStr owner),
         (''base_url'', JStr base), (''lambdas'', JObj lambdas), (''account_assertion'', JStr (if matched then ''matched'' else ''not-configured''))])))))))))"

text \<open>\<open>main\<close>: nothing is sent unless the run was opted in to and the preflight has passed.\<close>

definition live_main :: "'w live_port \<Rightarrow> string \<Rightarrow> (string list \<Rightarrow> ('w live_run, unit) comp) \<Rightarrow> 'w live_run \<Rightarrow> int \<times> 'w live_run" where
  "live_main L mode start s =
     (if lv_env s ''RUN_LIVE_E2E'' \<noteq> Some ''1'' then (1, s)
      else case bnd (preflight L (mode \<noteq> ''smoke'') False) (\<lambda>_.
          bnd (when_m (mode \<in> {''smoke'', ''all''}) (start [''python'', ''scripts/slack_user.py'', ''smoke''])) (\<lambda>_.
          when_m (mode \<in> {''approval'', ''all''}) (start ([''node'', ''node_modules/@playwright/test/cli.js'', ''test'', ''--config=playwright.live.config.ts'', ''slack-approval.spec.ts''] @ (if mode = ''all'' then [''slack-clarification.spec.ts''] else []))))) s of
        (Inl e, t) \<Rightarrow> (1, t)
      | (Inr _, t) \<Rightarrow> (0, t))"

section \<open>What a passed preflight means\<close>

lemma live_fail_Inr: "live_fail b m s = (Inr u, t) \<longleftrightarrow> \<not> b \<and> s = t"
  by (auto simp: live_fail_def raise_err_def ret_def)

lemma for_m_Inr_each:
  assumes "for_m xs f s = (Inr u, t)" "x \<in> set xs"
  shows "\<exists>a b. f x a = (Inr (), b)"
  using assms
proof (induction xs arbitrary: s)
  case (Cons y ys)
  from Cons.prems(1) obtain a where a: "f y s = (Inr (), a)" "for_m ys f a = (Inr u, t)"
    by (auto simp: bnd_Inr)
  with Cons show ?case by auto
qed simp

lemma check_owner_Inr:
  "check_owner L configs team user s = (Inr owner, t) \<Longrightarrow> \<exists>rows. lp_identities L = Inr rows \<and> identity_owner rows ''slack'' team user = Some owner
     \<and> identity_owner rows ''web'' (JStr ''development'') (JStr ''single-user'') = Some owner
     \<and> deployed configs ''agent-input'' ''DEV_PRINCIPAL_ID'' = Inr (JStr owner)"
  by (auto simp: check_owner_def bnd_Inr lift_sum_Inr ret_def raise_err_def split: option.splits if_splits)

lemma check_lock_Inr:
  assumes "check_lock L configs s = (Inr u, t)"
  shows "\<exists>selected. lp_lock L = Inr selected
    \<and> (\<forall>(k, v) \<in> set selected. starts_with ''CLAUDE_'' k \<longrightarrow> deployed configs ''cma-controller'' k = Inr (JStr v))"
proof -
  let ?body = "\<lambda>(k, v). bnd (set_env k (Some v)) (\<lambda>_.
     bnd (if starts_with ''CLAUDE_'' k then bnd (lift_sum (deployed configs ''cma-controller'' k)) (\<lambda>d. ret (d \<noteq> JStr v)) else ret False) (\<lambda>drift.
     live_fail drift (''Deployed controller differs from lock-derived '' @ k)))"
  from assms obtain selected where selected: "lp_lock L = Inr selected" "for_m selected ?body s = (Inr u, t)"
    by (auto simp: check_lock_def bnd_Inr lift_sum_Inr)
  have "deployed configs ''cma-controller'' k = Inr (JStr v)" if "(k, v) \<in> set selected" "starts_with ''CLAUDE_'' k" for k v
    using for_m_Inr_each [OF selected(2) that(1)] that(2) by (auto simp: bnd_Inr lift_sum_Inr live_fail_Inr ret_def set_env_def)
  with selected(1) show ?thesis by blast
qed

lemma check_endpoints_Inr:
  assumes "check_endpoints configs s = (Inr u, t)" "name \<in> {''agent-input'', ''anthropic-webhook'', ''slack-projector'', ''cma-controller''}"
  shows "\<exists>endpoint. deployed configs name ''DSQL_ENDPOINT'' = Inr (JStr endpoint)"
proof -
  from assms(2) have "name \<in> set [''agent-input'', ''anthropic-webhook'', ''slack-projector'', ''cma-controller'']" by simp
  from for_m_Inr_each [OF assms(1) [unfolded check_endpoints_def] this] show ?thesis
    by (auto simp: bnd_Inr lift_sum_Inr live_fail_Inr)
qed

lemma live_identities_Inr:
  "live_identities L s = (Inr (team, user), t) \<Longrightarrow> \<exists>bot. user \<noteq> dict_get bot ''user_id'' \<and> team = dict_get bot ''team_id''"
  by (auto simp: live_identities_def bnd_Inr live_fail_Inr ret_def)

lemma check_slack_Inr:
  fixes s :: "'w live_run"
  assumes "check_slack L configs s = (Inr (team, user, channel), t)"
  shows "(\<exists>bot. user \<noteq> dict_get bot ''user_id'' \<and> team = dict_get bot ''team_id'')
    \<and> (\<forall>(setting, actual) \<in> {(''SLACK_TEAM_ID'', team), (''SLACK_USER_ID'', user)}. \<exists>v. deployed configs ''slack-ingress'' setting = Inr v \<and> (py_true v \<longrightarrow> v = actual))"
proof -
  from assms obtain s1 s3 s4 :: "'w live_run" where ids: "live_identities L s = (Inr (team, user), s1)"
    and allow: "for_m [(''SLACK_TEAM_ID'', team), (''SLACK_USER_ID'', user)] (check_allowlist configs) s3 = (Inr (), s4)"
    by (simp add: check_slack_def bnd_Inr ret_def del: for_m.simps map_m.simps) blast
  have "\<exists>v. deployed configs ''slack-ingress'' setting = Inr v \<and> (py_true v \<longrightarrow> v = actual)"
    if "(setting, actual) \<in> set [(''SLACK_TEAM_ID'', team), (''SLACK_USER_ID'', user)]" for setting actual
    using for_m_Inr_each [OF allow that] by (auto simp: check_allowlist_def bnd_Inr lift_sum_Inr live_fail_Inr)
  with live_identities_Inr [OF ids] show ?thesis by auto
qed

text \<open>
  A preflight that passes has found one workspace for the human and the bot, an ingress that does not reject the user, one principal that owns
  the Slack user and the web user and is the one the deployed worker acts for, and a controller that runs the agent of the lockfile.
\<close>

lemma preflight_passed:
  assumes "preflight L approval False s = (Inr report, t)"
  shows "\<exists>configs team user owner rows selected bot. dict_get report ''team_id'' = team \<and> dict_get report ''user_id'' = user
    \<and> dict_get report ''principal_id'' = JStr owner \<and> team = dict_get bot ''team_id'' \<and> user \<noteq> dict_get bot ''user_id''
    \<and> lp_identities L = Inr rows \<and> identity_owner rows ''slack'' team user = Some owner
    \<and> identity_owner rows ''web'' (JStr ''development'') (JStr ''single-user'') = Some owner
    \<and> deployed configs ''agent-input'' ''DEV_PRINCIPAL_ID'' = Inr (JStr owner)
    \<and> lp_lock L = Inr selected
    \<and> (\<forall>(k, v) \<in> set selected. starts_with ''CLAUDE_'' k \<longrightarrow> deployed configs ''cma-controller'' k = Inr (JStr v))"
proof -
  from assms obtain configs team user channel owner base lambdas matched s1 s2 s3 s4 s5 s6 where
    slack: "check_slack L configs s1 = (Inr (team, user, channel), s2)"
    and owner: "check_owner L configs team user s3 = (Inr owner, s4)" and lock: "check_lock L configs s5 = (Inr (), s6)"
    and report: "report = [(''ok'', JBool True), (''team_id'', team), (''user_id'', user), (''channel'', JStr channel), (''principal_id'', JStr owner),
         (''base_url'', JStr base), (''lambdas'', JObj lambdas), (''account_assertion'', JStr (if matched then ''matched'' else ''not-configured''))]"
    by (auto simp: preflight_def bnd_Inr ret_def)
  from check_slack_Inr [OF slack] obtain bot where "user \<noteq> dict_get bot ''user_id''" "team = dict_get bot ''team_id''" by blast
  moreover have "dict_get report ''team_id'' = team" "dict_get report ''user_id'' = user" "dict_get report ''principal_id'' = JStr owner"
    by (simp_all add: report dict_get_def)
  ultimately show ?thesis using check_owner_Inr [OF owner] check_lock_Inr [OF lock] by blast
qed

end
