(* ===== verification/Local_Stack.thy ===== *)
theory Local_Stack
  imports Deployment_Rendering Local_Queue
begin

text \<open>
  \<^verbatim>\<open>scripts/local.py\<close>: the foreground runner of the local stack. It starts containers, servers and test commands as children of its own, waits until the services answer, and takes
  everything down again, however it ends. When processes end, what they exit with, whether a call of the system fails and when the operator interrupts are the
  environment's choice. A child that got \<^verbatim>\<open>SIGKILL\<close> is dead. Times are microseconds.
\<close>

section \<open>State and environment\<close>

record proc =
  pr_pid :: nat
  pr_command :: "string list"
  pr_env :: "(string \<times> string) list"
  pr_alive :: bool

record stack_ports =
  po_frontend :: nat
  po_backend :: nat
  po_controller :: nat
  po_preview :: nat
  po_postgres :: nat

record 'w stack =
  st_world :: 'w
  st_clock :: int
  st_procs :: "proc list"
  st_children :: "nat list"
  st_created :: bool
  st_env :: "(string \<times> string) list"
  st_ports :: stack_ports
  st_compose_started :: bool
  st_ignoring :: bool

record 'w system =
  sy_popen :: "string list \<Rightarrow> (string \<times> string) list \<Rightarrow> 'w \<Rightarrow> bool \<times> 'w"
  sy_terminate :: "nat \<Rightarrow> 'w \<Rightarrow> 'w"
  sy_wait :: "nat \<Rightarrow> int option \<Rightarrow> 'w \<Rightarrow> int option \<times> nat \<times> 'w"
  sy_poll :: "nat \<Rightarrow> 'w \<Rightarrow> bool \<times> 'w"
  sy_interrupt :: "'w \<Rightarrow> bool \<times> 'w"
  sy_request :: "string \<Rightarrow> json option \<Rightarrow> 'w \<Rightarrow> (error + int) \<times> nat \<times> 'w"
  sy_open :: "string \<Rightarrow> 'w \<Rightarrow> bool \<times> 'w"
  sy_bindable :: "nat \<Rightarrow> 'w \<Rightarrow> bool"
  sy_free_port :: "nat list \<Rightarrow> 'w \<Rightarrow> nat"
  sy_environ :: "(string \<times> string) list"
  sy_which :: "string \<Rightarrow> bool"
  sy_installed :: bool
  sy_web_env :: "string list"
  sy_root :: string
  sy_uuid :: string

definition no_ports :: stack_ports where
  "no_ports = \<lparr>po_frontend = 0, po_backend = 0, po_controller = 0, po_preview = 0, po_postgres = 0\<rparr>"

definition fresh_stack :: "'w \<Rightarrow> int \<Rightarrow> 'w stack" where
  "fresh_stack w now = \<lparr>st_world = w, st_clock = now, st_procs = [], st_children = [], st_created = False, st_env = [], st_ports = no_ports, st_compose_started = False, st_ignoring = False\<rparr>"

section \<open>The environment of the children\<close>

definition inherited :: "string list" where
  "inherited = [''PATH'', ''HOME'', ''USER'', ''TMPDIR'', ''LANG'', ''LC_ALL'', ''DOCKER_HOST'', ''DOCKER_CONTEXT'', ''DOCKER_CONFIG'',
     ''PLAYWRIGHT_BROWSERS_PATH'']"

definition loopback :: "nat \<Rightarrow> string" where
  "loopback port = ''127.0.0.1:'' @ show_nat port"

definition fixed_env :: "string \<Rightarrow> stack_ports \<Rightarrow> (string \<times> string) list" where
  "fixed_env base ports = (let http = (\<lambda>port. ''http://'' @ loopback port); controller = http (po_controller ports) in
    [(''PYTHONDONTWRITEBYTECODE'', ''1''), (''UV_CACHE_DIR'', base @ ''/.uv-cache''), (''APP_ENV'', ''e2e''), (''DATABASE_MODE'', ''postgres''),
     (''AWS_EC2_METADATA_DISABLED'', ''true''),
     (''DATABASE_URL'', ''postgresql://managed_agents:managed_agents@'' @ loopback (po_postgres ports) @ ''/managed_agents_e2e''),
     (''CLAUDE_AGENT_ID'', ''agent_e2e''), (''CLAUDE_AGENT_VERSION'', ''1''), (''CLAUDE_ENVIRONMENT_ID'', ''env_e2e''),
     (''WEB_ACCESS_TOKEN'', ''e2e-access-token''), (''WEB_COOKIE_SECRET'', ''e2e-cookie-secret-at-least-32-bytes''),
     (''DEV_PRINCIPAL_ID'', ''00000000-0000-4000-8000-000000000001''), (''PUBLIC_APP_URL'', http (po_frontend ports)),
     (''OPENAPPA_BINARY_PATH'', base @ ''/.generated/openappa-bin/openappa-cma''), (''NEXT_PUBLIC_API_BASE_URL'', http (po_backend ports)),
     (''E2E_BASE_URL'', http (po_frontend ports)), (''E2E_BACKEND_URL'', http (po_backend ports)), (''E2E_POSTGRES_PORT'', show_nat (po_postgres ports)),
     (''LOCAL_BACKEND_URL'', controller), (''LOCAL_A2A_URL'', controller @ ''/a2a''), (''CMA_A2A_ENDPOINT'', controller @ ''/a2a''),
     (''A2A_EVENT_SINK_URL'', ''http://a2a-sink.local/internal/a2a/events''), (''AWS_LAMBDA_HTTP_ENDPOINT'', loopback (po_backend ports)),
     (''PREVIEW_ENABLED'', ''true''), (''SLACK_PREVIEW_ENABLED'', ''true''), (''APPSYNC_HTTP_URL'', http (po_preview ports) @ ''/event''),
     (''APPSYNC_WEBSOCKET_URL'', ''ws://'' @ loopback (po_preview ports) @ ''/event/realtime''), (''LOCAL_PREVIEW_PORT'', show_nat (po_preview ports)),
     (''LOCAL_CMA_URL'', controller), (''LOCAL_EVENT_BUS_AUTO_DRAIN'', ''true'')])"

definition local_env :: "(string \<times> string) list \<Rightarrow> string \<Rightarrow> stack_ports \<Rightarrow> (string \<times> string) list" where
  "local_env environ base ports = fold (\<lambda>(k, v) d. dict_set k v d) (fixed_env base ports)
     (List.map_filter (\<lambda>k. map_option (Pair k) (map_of environ k)) inherited)"

text \<open>\<open>ports\<close>: all choices are held together, so a later one cannot take an earlier one.\<close>

fun choose_ports :: "'w system \<Rightarrow> 'w \<Rightarrow> nat list \<Rightarrow> nat list \<Rightarrow> nat list" where
  "choose_ports Y w [] held = held"
| "choose_ports Y w (preferred # rest) held = choose_ports Y w rest
     (held @ [if sy_bindable Y preferred w \<and> preferred \<notin> set held then preferred else sy_free_port Y held w])"

definition ports :: "'w system \<Rightarrow> 'w \<Rightarrow> stack_ports" where
  "ports Y w = (case choose_ports Y w [3000, 3001, 3002, 3003, 54321] [] of
     [f, b, c, p, d] \<Rightarrow> \<lparr>po_frontend = f, po_backend = b, po_controller = c, po_preview = p, po_postgres = d\<rparr>
   | _ \<Rightarrow> no_ports)"

section \<open>Children\<close>

definition dead :: "nat \<Rightarrow> 'w stack \<Rightarrow> 'w stack" where
  "dead pid s = s\<lparr>st_procs := map (\<lambda>p. if pr_pid p = pid then p\<lparr>pr_alive := False\<rparr> else p) (st_procs s)\<rparr>"

definition is_alive :: "nat \<Rightarrow> 'w stack \<Rightarrow> bool" where
  "is_alive pid s = list_ex (\<lambda>p. pr_pid p = pid \<and> pr_alive p) (st_procs s)"

text \<open>The operator may interrupt wherever the code waits, unless signals are ignored.\<close>

definition interruptible :: "'w system \<Rightarrow> ('w stack, unit) comp" where
  "interruptible Y = (\<lambda>s. if st_ignoring s then (Inr (), s)
     else case sy_interrupt Y (st_world s) of (b, w) \<Rightarrow> (if b then Inl KeyboardInterrupt else Inr (), s\<lparr>st_world := w\<rparr>))"

text \<open>\<open>subprocess.Popen\<close> with the append to \<open>self.children\<close> that follows.\<close>

definition launch_child :: "'w system \<Rightarrow> string list \<Rightarrow> (string \<times> string) list \<Rightarrow> ('w stack, nat) comp" where
  "launch_child Y command env = (\<lambda>s. case sy_popen Y command env (st_world s) of (ok, w) \<Rightarrow>
     if \<not> ok then (Inl (OSError ''Popen''), s\<lparr>st_world := w\<rparr>)
     else let pid = length (st_procs s) in
       (Inr pid, s\<lparr>st_world := w, st_procs := st_procs s @ [\<lparr>pr_pid = pid, pr_command = command, pr_env = env, pr_alive = True\<rparr>],
          st_children := st_children s @ [pid]\<rparr>))"

text \<open>\<open>child.poll() is not None\<close>\<close>

definition has_exited :: "'w system \<Rightarrow> nat \<Rightarrow> ('w stack, bool) comp" where
  "has_exited Y pid = (\<lambda>s. if \<not> is_alive pid s then (Inr True, s)
     else case sy_poll Y pid (st_world s) of (b, w) \<Rightarrow>
       (Inr b, (if b then dead pid else id) (s\<lparr>st_world := w\<rparr>)))"

text \<open>\<open>child.wait(timeout)\<close>: the exit code, or the timeout. Without a timeout only the interrupt ends it early.\<close>

definition waited :: "'w system \<Rightarrow> nat \<Rightarrow> int option \<Rightarrow> ('w stack, int) comp" where
  "waited Y pid timeout = (\<lambda>s. case sy_wait Y pid timeout (st_world s) of (code, elapsed, w) \<Rightarrow>
     let t = s\<lparr>st_world := w, st_clock := st_clock s + int elapsed\<rparr> in
     if code = None \<and> timeout \<noteq> None \<and> is_alive pid s then (Inl TimeoutExpired, t)
     else (Inr (case code of None \<Rightarrow> 0 | Some c \<Rightarrow> c), dead pid t))"

definition await_child :: "'w system \<Rightarrow> nat \<Rightarrow> int option \<Rightarrow> ('w stack, int) comp" where
  "await_child Y pid timeout = bnd (interruptible Y) (\<lambda>_. waited Y pid timeout)"

definition kill_child :: "nat \<Rightarrow> ('w stack, unit) comp" where
  "kill_child pid = (\<lambda>s. (Inr (), dead pid s))"

definition kill_and_wait :: "'w system \<Rightarrow> nat \<Rightarrow> ('w stack, unit) comp" where
  "kill_and_wait Y pid = bnd (kill_child pid) (\<lambda>_. bnd (await_child Y pid None) (\<lambda>_. ret ()))"

definition on_timeout :: "('w stack, unit) comp \<Rightarrow> error \<Rightarrow> ('w stack, 'a) comp \<Rightarrow> ('w stack, 'a) comp option" where
  "on_timeout k e after = (if e = TimeoutExpired then Some (bnd k (\<lambda>_. after)) else None)"

definition forget_child :: "nat \<Rightarrow> ('w stack, unit) comp" where
  "forget_child pid = (\<lambda>s. (Inr (), s\<lparr>st_children := remove1 pid (st_children s)\<rparr>))"

text \<open>\<open>Stack.run\<close>\<close>

definition run_with :: "'w system \<Rightarrow> string list \<Rightarrow> int \<Rightarrow> (string \<times> string) list \<Rightarrow> ('w stack, unit) comp" where
  "run_with Y command timeout env = bnd (launch_child Y command env) (\<lambda>pid.
     try_finally
       (try_except
         (bnd (await_child Y pid (Some timeout)) (\<lambda>code. if code \<noteq> 0 then raise_err (CalledProcessError code) else ret ()))
         (\<lambda>e. on_timeout (kill_and_wait Y pid) e (raise_err TimeoutExpired)))
       (bnd (has_exited Y pid) (\<lambda>b. if b then forget_child pid else ret ())))"

definition run_command :: "'w system \<Rightarrow> string list \<Rightarrow> int \<Rightarrow> ('w stack, unit) comp" where
  "run_command Y command timeout = (\<lambda>s. run_with Y command timeout (st_env s) s)"

text \<open>\<open>Stack.spawn\<close>: the log file is opened first.\<close>

definition spawn :: "'w system \<Rightarrow> string list \<Rightarrow> string \<Rightarrow> ('w stack, unit) comp" where
  "spawn Y command name = bnd (\<lambda>s. case sy_open Y (name @ ''.log'') (st_world s) of (ok, w) \<Rightarrow>
       (if ok then Inr () else Inl (OSError name), s\<lparr>st_world := w\<rparr>)) (\<lambda>_.
     (\<lambda>s. bnd (launch_child Y command (st_env s)) (\<lambda>_. ret ()) s))"

text \<open>\<open>any(child.poll() is not None ..)\<close> and its negation\<close>

fun any_exited :: "'w system \<Rightarrow> nat list \<Rightarrow> ('w stack, bool) comp" where
  "any_exited Y [] = ret False"
| "any_exited Y (pid # pids) = bnd (has_exited Y pid) (\<lambda>b. if b then ret True else any_exited Y pids)"

definition children_of :: "('w stack, nat list) comp" where
  "children_of = (\<lambda>s. (Inr (st_children s), s))"

definition pause :: "'w system \<Rightarrow> int \<Rightarrow> ('w stack, unit) comp" where
  "pause Y d = bnd (interruptible Y) (\<lambda>_. (\<lambda>s. (Inr (), s\<lparr>st_clock := st_clock s + d\<rparr>)))"

section \<open>Taking the stack down\<close>

definition terminate_child :: "'w system \<Rightarrow> nat \<Rightarrow> ('w stack, unit) comp" where
  "terminate_child Y pid = bnd (has_exited Y pid) (\<lambda>b. if b then ret ()
     else (\<lambda>s. (Inr (), s\<lparr>st_world := sy_terminate Y pid (st_world s)\<rparr>)))"

definition reap_child :: "'w system \<Rightarrow> nat \<Rightarrow> ('w stack, unit) comp" where
  "reap_child Y pid = try_except (bnd (await_child Y pid (Some 8000000)) (\<lambda>_. ret ()))
     (\<lambda>e. on_timeout (kill_and_wait Y pid) e (ret ()))"

definition compose :: "'w system \<Rightarrow> string list \<Rightarrow> string list" where
  "compose Y arguments = [''docker'', ''compose'', ''--env-file'', ''/dev/null'', ''-p'', ''managed-local-'' @ take 12 (sy_uuid Y),
     ''-f'', sy_root Y @ ''/docker-compose.e2e.yml''] @ arguments"

definition close :: "'w system \<Rightarrow> ('w stack, unit) comp" where
  "close Y = bnd children_of (\<lambda>pids.
     bnd (for_m (rev pids) (terminate_child Y)) (\<lambda>_.
     bnd (for_m (rev pids) (reap_child Y)) (\<lambda>_.
     (\<lambda>s. when_m (st_compose_started s) (run_command Y (compose Y [''down'', ''-v'']) 60000000) s))))"

section \<open>Bringing it up\<close>

definition python_path :: "'w system \<Rightarrow> string" where
  "python_path Y = sy_root Y @ ''/backend/.venv/bin/python''"

fun join_with :: "string \<Rightarrow> string list \<Rightarrow> string" where
  "join_with sep [] = []"
| "join_with sep [x] = x"
| "join_with sep (x # y # ys) = x @ sep @ join_with sep (y # ys)"

definition prerequisites :: "'w system \<Rightarrow> error + unit" where
  "prerequisites Y =
     (let missing = filter (\<lambda>name. \<not> sy_which Y name) [''node'', ''npm'', ''docker''] in
      if missing \<noteq> [] then Inl (RuntimeError (''Install missing prerequisites: '' @ join_with '', '' missing))
      else if \<not> sy_installed Y then Inl (RuntimeError ''Install dependencies with npm ci and uv sync --directory backend --locked.'')
      else if \<exists>n \<in> set (sy_web_env Y). n \<noteq> ''.env.example''
      then Inl (RuntimeError ''Remove apps/web/.env* files before local runs; Next would load live settings.'')
      else Inr ())"

definition create_stack :: "'w system \<Rightarrow> string \<Rightarrow> ('w stack, unit) comp" where
  "create_stack Y mode = (\<lambda>s. case sy_open Y ''test-results'' (st_world s) of (ok, w) \<Rightarrow>
     if \<not> ok then (Inl (OSError ''mkdir''), s\<lparr>st_world := w\<rparr>)
     else (Inr (), s\<lparr>st_world := w, st_created := True, st_ports := ports Y (st_world s),
       st_env := dict_set ''LOCAL_EVENT_BUS_AUTO_DRAIN'' (if mode = ''dev'' then ''true'' else ''false'')
         (local_env (sy_environ Y) (sy_root Y) (ports Y (st_world s)))\<rparr>))"

definition env_value :: "string \<Rightarrow> 'w stack \<Rightarrow> string" where
  "env_value k s = (case map_of (st_env s) k of None \<Rightarrow> [] | Some v \<Rightarrow> v)"

definition request :: "'w system \<Rightarrow> string \<Rightarrow> json option \<Rightarrow> ('w stack, unit) comp" where
  "request Y url data = bnd (interruptible Y) (\<lambda>_. (\<lambda>s. case sy_request Y url data (st_world s) of (r, elapsed, w) \<Rightarrow>
     (case r of Inl e \<Rightarrow> Inl e | Inr status \<Rightarrow> if status \<noteq> 200 then Inl (RuntimeError ''Local readiness failed'') else Inr (),
      s\<lparr>st_world := w, st_clock := st_clock s + int elapsed\<rparr>)))"

definition probe :: "'w system \<Rightarrow> ('w stack, unit) comp" where
  "probe Y = (\<lambda>s. bnd (request Y (env_value ''E2E_BACKEND_URL'' s @ ''/_test/instance'') None) (\<lambda>_.
     bnd (request Y (env_value ''E2E_BASE_URL'' s) None) (\<lambda>_.
     request Y (env_value ''E2E_BACKEND_URL'' s @ ''/_test/reset'') (Some (JObj [])))) s)"

definition is_os_error :: "error \<Rightarrow> bool" where
  "is_os_error e = (case e of OSError _ \<Rightarrow> True | _ \<Rightarrow> False)"

text \<open>One round of the readiness loop: whether the stack is ready.\<close>

definition ready_round :: "'w system \<Rightarrow> ('w stack, bool) comp" where
  "ready_round Y = bnd children_of (\<lambda>pids.
     bnd (any_exited Y pids) (\<lambda>b.
     if b then raise_err (RuntimeError ''A service exited'')
     else try_except (bnd (probe Y) (\<lambda>_. ret True))
       (\<lambda>e. if is_os_error e then Some (bnd (pause Y 250000) (\<lambda>_. ret False)) else None)))"

definition service_commands :: "'w system \<Rightarrow> string \<Rightarrow> ('w stack, unit) comp" where
  "service_commands Y mode = (\<lambda>s. let python = python_path Y; frontend = show_nat (po_frontend (st_ports s)); controller = show_nat (po_controller (st_ports s)) in
     bnd (spawn Y ([python, ''-m'', ''uvicorn'', ''managed_agents_app.local_api:app'', ''--host'', ''127.0.0.1'', ''--port'', controller]
       @ (if mode = ''dev'' then [''--reload'', ''--reload-dir'', sy_root Y @ ''/backend/src''] else [])) ''backend'') (\<lambda>_.
     bnd (spawn Y [''node'', ''--import'', ''tsx'', ''apps/cma-preview/src/local.ts''] ''preview'') (\<lambda>_.
     bnd (if mode = ''production''
          then bnd (run_command Y [''npm'', ''run'', ''build:functions''] 300000000) (\<lambda>_. spawn Y [''node'', ''dist/web-function/index.js''] ''web-function'')
          else spawn Y [''node'', ''--import'', ''tsx'', ''apps/web-function/src/index.ts''] ''web-function'') (\<lambda>_.
     if mode = ''production''
     then bnd (run_command Y [''npm'', ''run'', ''build:web''] 300000000) (\<lambda>_.
          spawn Y [python, ''-m'', ''http.server'', frontend, ''--bind'', ''127.0.0.1'', ''--directory'', ''apps/web/out''] ''frontend'')
     else spawn Y [''node'', ''node_modules/next/dist/bin/next'', ''dev'', ''apps/web'', ''--hostname'', ''127.0.0.1'', ''--port'', frontend] ''frontend''))) s)"

text \<open>The clock of the run never goes back, and every round that is not the last takes a quarter of a second at least.\<close>

definition ticks :: "'w stack \<Rightarrow> 'w stack \<Rightarrow> bool" where
  "ticks s t = (st_clock s \<le> st_clock t)"

interpretation ticks: step_relation ticks
  by unfold_locales (auto simp: ticks_def)

lemma ticks_interruptible: "keeps ticks (interruptible Y)"
  by (auto intro!: keepsI simp: interruptible_def ticks_def split: prod.splits)

lemma ticks_has_exited: "keeps ticks (has_exited Y pid)"
  by (auto intro!: keepsI simp: has_exited_def ticks_def dead_def split: prod.splits)

lemma ticks_any_exited: "keeps ticks (any_exited Y pids)"
  by (induction pids) (auto intro!: ticks.keeps_bnd ticks.keeps_ret ticks_has_exited)

lemma ticks_request: "keeps ticks (request Y url data)"
proof -
  have "keeps ticks (\<lambda>s. case sy_request Y url data (st_world s) of (r, elapsed, w) \<Rightarrow>
     (case r of Inl e \<Rightarrow> Inl e | Inr status \<Rightarrow> if status \<noteq> 200 then Inl (RuntimeError ''Local readiness failed'') else Inr (),
      s\<lparr>st_world := w, st_clock := st_clock s + int elapsed\<rparr>))"
    by (auto intro!: keepsI simp: ticks_def split: prod.splits)
  then show ?thesis unfolding request_def by (intro ticks.keeps_bnd ticks_interruptible)
qed

lemma ticks_probe: "keeps ticks (probe Y)"
proof (rule keepsI)
  fix s :: "'a stack"
  have "keeps ticks (bnd (request Y a None) (\<lambda>_. bnd (request Y b None) (\<lambda>_. request Y c d)))" for a b c d
    by (intro ticks.keeps_bnd ticks_request)
  from keepsD [OF this] show "ticks s (snd (probe Y s))" by (simp add: probe_def)
qed

lemma ready_round_moves:
  assumes "ready_round Y s = (Inr False, t)"
  shows "st_clock s < st_clock t"
proof -
  let ?h = "\<lambda>e. if is_os_error e then Some (bnd (pause Y 250000) (\<lambda>_. ret False)) else None"
  from assms obtain u where u: "any_exited Y (st_children s) s = (Inr False, u)"
    and attempt: "try_except (bnd (probe Y) (\<lambda>_. ret True)) ?h u = (Inr False, t)"
    by (auto simp: ready_round_def children_of_def bnd_Inr raise_err_def split: if_splits)
  obtain r v where e: "probe Y u = (r, v)" by fastforce
  with attempt have p: "pause Y 250000 v = (Inr (), t)"
    by (cases r) (auto simp: try_except_def bnd_def ret_def split: if_splits prod.splits sum.splits)
  have "st_clock s \<le> st_clock u" using keeps_run [OF ticks_any_exited u] by (simp add: ticks_def)
  moreover have "st_clock u \<le> st_clock v" using keeps_run [OF ticks_probe e] by (simp add: ticks_def)
  moreover from p obtain x where x: "interruptible Y v = (Inr (), x)" "st_clock t = st_clock x + 250000"
    by (auto simp: pause_def bnd_Inr)
  moreover have "st_clock v \<le> st_clock x" using keeps_run [OF ticks_interruptible x(1)] by (simp add: ticks_def)
  ultimately show ?thesis by simp
qed

function ready_loop :: "'w system \<Rightarrow> int \<Rightarrow> ('w stack, unit) comp" where
  "ready_loop Y deadline s =
     (if \<not> st_clock s < deadline then (Inl (RuntimeError ''Readiness timed out''), s)
      else case ready_round Y s of
        (Inl e, t) \<Rightarrow> (Inl e, t)
      | (Inr b, t) \<Rightarrow> if b then (Inr (), t) else ready_loop Y deadline t)"
  by pat_completeness auto
termination
  by (relation "measure (\<lambda>(Y, deadline, s). nat (deadline - st_clock s))") (auto dest!: ready_round_moves [OF sym])

declare ready_loop.simps [simp del]

definition e2e_checks :: "'w system \<Rightarrow> ('w stack, unit) comp" where
  "e2e_checks Y =
     bnd (\<lambda>s. run_with Y [python_path Y, ''-m'', ''pytest'', ''backend/tests/integration'', ''--ignore=backend/tests/integration/test_real_services.py'']
            600000000 (dict_set ''RUN_POSTGRES_TESTS'' ''1'' (st_env s)) s) (\<lambda>_.
     run_command Y [''node'', ''--import'', ''tsx'', ''--test'', ''apps/web-function/tests/repository.postgres.ts'',
       ''apps/slack-preview/tests/repository.postgres.ts''] 300000000)"

definition note_compose :: "('w stack, unit) comp" where
  "note_compose = (\<lambda>s. (Inr (), s\<lparr>st_compose_started := True\<rparr>))"

definition start_stack :: "'w system \<Rightarrow> string \<Rightarrow> ('w stack, unit) comp" where
  "start_stack Y mode =
     bnd (run_command Y [''docker'', ''info'', ''--format'', ''{{.ServerVersion}}''] 20000000) (\<lambda>_.
     bnd (run_command Y [''bash'', ''scripts/build_openappa.sh''] 300000000) (\<lambda>_.
     bnd note_compose (\<lambda>_.
     bnd (run_command Y (compose Y [''up'', ''-d'', ''--wait'', ''--wait-timeout'', ''60'']) 300000000) (\<lambda>_.
     bnd (run_command Y [python_path Y, ''-m'', ''managed_agents_app.operations'', ''migrate''] 300000000) (\<lambda>_.
     bnd (when_m (mode = ''e2e'') (e2e_checks Y)) (\<lambda>_.
     bnd (service_commands Y mode) (\<lambda>_.
     (\<lambda>s. ready_loop Y (st_clock s + 90000000) s))))))))"

text \<open>The development mode watches its children until one exits or, after \<open>n\<close> rounds, the operator interrupts.\<close>

fun watch_children :: "'w system \<Rightarrow> nat \<Rightarrow> ('w stack, int) comp" where
  "watch_children Y 0 = raise_err KeyboardInterrupt"
| "watch_children Y (Suc n) = bnd children_of (\<lambda>pids.
     bnd (any_exited Y pids) (\<lambda>b.
     if b then raise_err (RuntimeError ''A service exited'') else bnd (pause Y 500000) (\<lambda>_. watch_children Y n)))"

definition main_body :: "'w system \<Rightarrow> string \<Rightarrow> string list \<Rightarrow> nat \<Rightarrow> ('w stack, int) comp" where
  "main_body Y mode extra n =
     bnd (lift_sum (prerequisites Y)) (\<lambda>_.
     bnd (create_stack Y mode) (\<lambda>_.
     bnd (start_stack Y mode) (\<lambda>_.
     if mode = ''dev'' then watch_children Y n
     else bnd (run_command Y ([''node'', ''node_modules/@playwright/test/cli.js'', ''test'',
            ''--config='' @ (if mode = ''production'' then ''playwright.production.config.ts'' else ''playwright.config.ts'')] @ extra) 1800000000) (\<lambda>_. ret 0))))"

text \<open>\<open>except KeyboardInterrupt\<close> and \<open>except (RuntimeError, OSError, SubprocessError)\<close>\<close>

definition exit_code :: "error \<Rightarrow> ('w stack, int) comp option" where
  "exit_code e = (case e of
     KeyboardInterrupt \<Rightarrow> Some (ret 130)
   | RuntimeError _ \<Rightarrow> Some (ret 1) | OSError _ \<Rightarrow> Some (ret 1) | CalledProcessError _ \<Rightarrow> Some (ret 1) | TimeoutExpired \<Rightarrow> Some (ret 1)
   | _ \<Rightarrow> None)"

definition shut_down :: "'w system \<Rightarrow> ('w stack, unit) comp" where
  "shut_down Y = bnd (\<lambda>s. (Inr (), s\<lparr>st_ignoring := True\<rparr>)) (\<lambda>_. (\<lambda>s. when_m (st_created s) (close Y) s))"

definition extra_arguments :: "string list \<Rightarrow> string list" where
  "extra_arguments extra = (if take 1 extra = [''--''] then drop 1 extra else extra)"

definition local_main :: "'w system \<Rightarrow> string \<Rightarrow> string list \<Rightarrow> nat \<Rightarrow> ('w stack, int) comp" where
  "local_main Y mode extra n = try_finally (try_except (main_body Y mode (extra_arguments extra) n) exit_code) (shut_down Y)"

section \<open>Every process is owned until it is dead\<close>

text \<open>The variables a child may see: nothing of the operator's credentials.\<close>

definition child_variables :: "string list" where
  "child_variables = ''RUN_POSTGRES_TESTS'' # map fst (fixed_env [] no_ports) @ inherited"

definition clean_env :: "(string \<times> string) list \<Rightarrow> bool" where
  "clean_env env = list_all (\<lambda>(k, _). k \<in> set child_variables) env"

definition owned :: "'w stack \<Rightarrow> bool" where
  "owned s = (map pr_pid (st_procs s) = [0..<length (st_procs s)]
     \<and> list_all (\<lambda>p. (pr_alive p \<longrightarrow> pr_pid p \<in> set (st_children s)) \<and> clean_env (pr_env p)) (st_procs s) \<and> clean_env (st_env s))"

definition alive_pids :: "'w stack \<Rightarrow> nat set" where
  "alive_pids s = pr_pid ` set (filter pr_alive (st_procs s))"

lemma is_alive_iff: "is_alive pid s \<longleftrightarrow> pid \<in> alive_pids s"
  by (auto simp: is_alive_def alive_pids_def list_ex_iff)

text \<open>Every step after the construction keeps ownership.\<close>

definition keeps_hold :: "'w stack \<Rightarrow> 'w stack \<Rightarrow> bool" where
  "keeps_hold s t = (owned s \<longrightarrow> owned t \<and> st_created t = st_created s)"

interpretation hold: step_relation keeps_hold
  by unfold_locales (auto simp: keeps_hold_def)

lemma hold_same:
  "st_procs t = st_procs s \<Longrightarrow> st_children t = st_children s \<Longrightarrow> st_env t = st_env s \<Longrightarrow> st_created t = st_created s \<Longrightarrow> keeps_hold s t"
  by (simp add: keeps_hold_def owned_def)

lemma dead_simps [simp]:
  "st_children (dead pid s) = st_children s" "st_env (dead pid s) = st_env s" "st_created (dead pid s) = st_created s"
  "st_ignoring (dead pid s) = st_ignoring s" "length (st_procs (dead pid s)) = length (st_procs s)"
  "map pr_pid (st_procs (dead pid s)) = map pr_pid (st_procs s)"
  by (simp_all add: dead_def)

lemma alive_after: "pr_pid ` set (filter pr_alive (map (\<lambda>p. if pr_pid p = pid then p\<lparr>pr_alive := False\<rparr> else p) ps))
    = pr_pid ` set (filter pr_alive ps) - {pid}"
  by (induction ps) auto

lemma alive_dead [simp]: "alive_pids (dead pid s) = alive_pids s - {pid}"
  unfolding alive_pids_def dead_def using alive_after by simp

lemma dead_procs: "p \<in> set (st_procs (dead pid s)) \<Longrightarrow>
   \<exists>q \<in> set (st_procs s). pr_pid p = pr_pid q \<and> pr_env p = pr_env q \<and> (pr_alive p \<longrightarrow> pr_alive q)"
  by (auto simp: dead_def)

lemma owned_dead: "owned s \<Longrightarrow> owned (dead pid s)"
  unfolding owned_def list_all_iff by (simp only: dead_simps) (metis dead_procs)

lemma hold_dead: "keeps_hold s (dead pid s)"
  by (simp add: keeps_hold_def owned_dead)

lemma hold_dead_of: "keeps_hold s t \<Longrightarrow> keeps_hold s (dead pid t)"
  by (rule hold.step_trans [OF _ hold_dead])

lemma hold_world: "keeps_hold s (s\<lparr>st_world := w\<rparr>)" and hold_clock: "keeps_hold s (s\<lparr>st_clock := n\<rparr>)"
  by (simp_all add: keeps_hold_def owned_def)

lemma hold_world_clock: "keeps_hold s (s\<lparr>st_world := w, st_clock := n\<rparr>)"
  by (simp add: keeps_hold_def owned_def)

lemma hold_interruptible: "keeps keeps_hold (interruptible Y)"
  by (rule keepsI) (simp add: interruptible_def hold_world hold.step_refl split: prod.splits)

lemma hold_has_exited: "keeps keeps_hold (has_exited Y pid)"
  by (rule keepsI) (simp add: has_exited_def hold_world hold_dead_of hold.step_refl split: prod.splits)

lemma hold_any_exited: "keeps keeps_hold (any_exited Y pids)"
  by (induction pids) (auto intro!: hold.keeps_bnd hold.keeps_ret hold_has_exited)

lemma hold_waited: "keeps keeps_hold (waited Y pid timeout)"
  by (rule keepsI) (simp add: waited_def Let_def hold_world_clock hold_dead_of split: prod.splits)

lemma hold_await: "keeps keeps_hold (await_child Y pid timeout)"
  unfolding await_child_def by (intro hold.keeps_bnd hold_interruptible hold_waited)

lemma hold_kill_and_wait: "keeps keeps_hold (kill_and_wait Y pid)"
  unfolding kill_and_wait_def kill_child_def
  by (intro hold.keeps_bnd hold_await hold.keeps_ret) (auto intro!: keepsI hold_dead)

lemma launch_owned:
  assumes "owned s" "clean_env env" "launch_child Y command env s = (r, t)"
  shows "owned t \<and> st_created t = st_created s"
  using assms by (auto simp: launch_child_def owned_def list_all_iff Let_def split: prod.splits if_splits)

text \<open>A child is forgotten only when it has exited.\<close>

lemma hold_forget_exited: "keeps keeps_hold (bnd (has_exited Y pid) (\<lambda>b. if b then forget_child pid else ret ()))"
proof (rule keepsI)
  fix s :: "'a stack"
  obtain r t where t: "has_exited Y pid s = (r, t)" by fastforce
  then obtain b where b: "r = Inr b" by (auto simp: has_exited_def split: if_splits prod.splits)
  have "keeps_hold s t" using hold_has_exited t by (rule keeps_run)
  moreover have "keeps_hold t (t\<lparr>st_children := remove1 pid (st_children t)\<rparr>)" if b
  proof -
    have gone: "pid \<notin> alive_pids t" using t b that by (auto simp: has_exited_def is_alive_iff split: if_splits prod.splits)
    have "pr_pid p \<in> set (remove1 pid (st_children t))" if "pr_pid p \<in> set (st_children t)" "pr_alive p" "p \<in> set (st_procs t)" for p
    proof -
      have "pr_pid p \<noteq> pid" using gone that by (auto simp: alive_pids_def)
      with that show ?thesis by simp
    qed
    then show ?thesis by (auto simp: keeps_hold_def owned_def list_all_iff)
  qed
  ultimately show "keeps_hold s (snd (bnd (has_exited Y pid) (\<lambda>b. if b then forget_child pid else ret ()) s))"
    using t b by (auto simp: bnd_def forget_child_def ret_def intro: hold.step_trans)
qed

definition supervised :: "'w system \<Rightarrow> nat \<Rightarrow> int \<Rightarrow> ('w stack, unit) comp" where
  "supervised Y pid timeout = try_finally
       (try_except
         (bnd (await_child Y pid (Some timeout)) (\<lambda>code. if code \<noteq> 0 then raise_err (CalledProcessError code) else ret ()))
         (\<lambda>e. on_timeout (kill_and_wait Y pid) e (raise_err TimeoutExpired)))
       (bnd (has_exited Y pid) (\<lambda>b. if b then forget_child pid else ret ()))"

lemma run_with_supervised: "run_with Y command timeout env = bnd (launch_child Y command env) (\<lambda>pid. supervised Y pid timeout)"
  by (simp add: run_with_def supervised_def)

lemma hold_supervised: "keeps keeps_hold (supervised Y pid timeout)"
  unfolding supervised_def
  by (intro hold.keeps_try_finally hold.keeps_try_except hold.keeps_bnd hold_await keeps_if hold.keeps_raise hold.keeps_ret hold_forget_exited)
     (auto simp: on_timeout_def intro!: hold.keeps_bnd hold_kill_and_wait hold.keeps_raise split: if_splits)

lemma run_with_owned:
  assumes "owned s" "clean_env env"
  shows "owned (snd (run_with Y command timeout env s)) \<and> st_created (snd (run_with Y command timeout env s)) = st_created s"
proof -
  obtain r t where t: "launch_child Y command env s = (r, t)" by fastforce
  from launch_owned [OF assms t] have "owned t" "st_created t = st_created s" by auto
  moreover have "keeps_hold t (snd (supervised Y pid timeout t))" for pid using hold_supervised by (rule keepsD)
  ultimately show ?thesis using t by (cases r) (auto simp: run_with_supervised bnd_def keeps_hold_def)
qed

lemma hold_run_with: "(\<And>s. owned s \<Longrightarrow> clean_env (env s)) \<Longrightarrow> keeps keeps_hold (\<lambda>s. run_with Y command timeout (env s) s)"
  by (rule keepsI) (use run_with_owned in \<open>fastforce simp: keeps_hold_def\<close>)

lemma owned_env: "owned s \<Longrightarrow> clean_env (st_env s)"
  by (simp add: owned_def)

lemma hold_run: "keeps keeps_hold (run_command Y command timeout)"
  unfolding run_command_def using owned_env by (rule hold_run_with)

lemma hold_launch: "keeps keeps_hold (\<lambda>s. launch_child Y command (st_env s) s)"
proof (rule keepsI)
  fix s :: "'a stack"
  obtain r t where "launch_child Y command (st_env s) s = (r, t)" by fastforce
  with launch_owned [OF _ owned_env this] show "keeps_hold s (snd (launch_child Y command (st_env s) s))"
    by (auto simp: keeps_hold_def)
qed

lemma hold_spawn: "keeps keeps_hold (spawn Y command name)"
proof -
  have "(\<lambda>s. bnd (launch_child Y command (st_env s)) (\<lambda>_. ret ()) s) = bnd (\<lambda>s. launch_child Y command (st_env s) s) (\<lambda>_. ret ())" for Y :: "'a system"
    by (simp add: bnd_def)
  moreover have "keeps keeps_hold (\<lambda>s. case sy_open Y (name @ ''.log'') (st_world s) of (ok, w) \<Rightarrow>
       (if ok then Inr () else Inl (OSError name), s\<lparr>st_world := w\<rparr>))"
    by (rule keepsI) (simp add: hold_world split: prod.splits)
  ultimately show ?thesis unfolding spawn_def by (simp only:) (intro hold.keeps_bnd hold_launch hold.keeps_ret)
qed

lemma hold_children: "keeps keeps_hold children_of"
  by (rule keepsI) (simp add: children_of_def hold.step_refl)

lemma hold_pause: "keeps keeps_hold (pause Y d)"
  unfolding pause_def by (intro hold.keeps_bnd hold_interruptible) (rule keepsI, simp add: hold_clock)

lemma hold_request: "keeps keeps_hold (request Y url data)"
  unfolding request_def by (intro hold.keeps_bnd hold_interruptible) (rule keepsI, simp add: hold_world_clock split: prod.splits)

lemma keeps_at: "(\<And>a. keeps R (m a)) \<Longrightarrow> keeps R (\<lambda>s. m (f s) s)"
  by (simp add: keeps_def)

lemma hold_probe: "keeps keeps_hold (probe Y)"
proof (rule keepsI)
  fix s :: "'a stack"
  have "keeps keeps_hold (bnd (request Y a None) (\<lambda>_. bnd (request Y b None) (\<lambda>_. request Y c d)))" for a b c d
    by (intro hold.keeps_bnd hold_request)
  from keepsD [OF this] show "keeps_hold s (snd (probe Y s))" by (simp add: probe_def)
qed

lemma hold_ready_round: "keeps keeps_hold (ready_round Y)"
  unfolding ready_round_def
  by (intro hold.keeps_bnd hold_children hold_any_exited keeps_if hold.keeps_raise hold.keeps_try_except hold_probe hold.keeps_ret)
     (auto intro!: hold.keeps_bnd hold_pause hold.keeps_ret split: if_splits)

lemma hold_ready_loop: "keeps keeps_hold (ready_loop Y deadline)"
proof (rule keepsI)
  show "keeps_hold s (snd (ready_loop Y deadline s))" for s :: "'a stack"
  proof (induction Y deadline s rule: ready_loop.induct)
    case (1 Y deadline s)
    obtain r t where t: "ready_round Y s = (r, t)" by fastforce
    from keeps_run [OF hold_ready_round t] have "keeps_hold s t" .
    with 1 t show ?case
      by (subst ready_loop.simps) (auto simp: hold.step_refl split: sum.splits intro: hold.step_trans)
  qed
qed

lemma hold_services: "keeps keeps_hold (service_commands Y mode)"
  unfolding service_commands_def Let_def
  by (rule keeps_at [where m = "\<lambda>p. _ p" and f = st_ports]) (intro hold.keeps_bnd hold_spawn hold_run keeps_if)

lemma clean_tests: "clean_env env \<Longrightarrow> clean_env (dict_set ''RUN_POSTGRES_TESTS'' v env)"
  unfolding clean_env_def by (rule list_all_dict_set) (simp_all add: child_variables_def)

lemma hold_e2e: "keeps keeps_hold (e2e_checks Y)"
  unfolding e2e_checks_def by (intro hold.keeps_bnd hold_run hold_run_with clean_tests owned_env)

lemma hold_start: "keeps keeps_hold (start_stack Y mode)"
proof -
  have "keeps keeps_hold (\<lambda>s. ready_loop Y (st_clock s + 90000000) s)" for Y :: "'a system"
    using hold_ready_loop by (rule keeps_at)
  moreover have "keeps keeps_hold (note_compose :: ('a stack, unit) comp)"
    by (rule keepsI) (simp add: note_compose_def keeps_hold_def owned_def)
  ultimately show ?thesis unfolding start_stack_def
    by (intro hold.keeps_bnd hold_run hold.keeps_when hold_e2e hold_services)
qed

lemma hold_watch: "keeps keeps_hold (watch_children Y n)"
  by (induction n) (auto intro!: hold.keeps_bnd hold.keeps_raise hold_children hold_any_exited hold_pause)

text \<open>The construction of the stack: the children's variables are the fixed ones and the operator's harmless ones.\<close>

lemma clean_fixed: "list_all (\<lambda>(k, _). k \<in> set child_variables) (fixed_env base p)"
proof -
  have "map fst (fixed_env base p) = map fst (fixed_env [] no_ports)" by (simp add: fixed_env_def Let_def)
  then have "set (map fst (fixed_env base p)) \<subseteq> set child_variables" by (auto simp: child_variables_def simp del: list.map)
  then show ?thesis by (auto simp: list_all_iff)
qed

lemma clean_fold: "list_all (\<lambda>(k, _). k \<in> set child_variables) kvs \<Longrightarrow> clean_env env \<Longrightarrow> clean_env (fold (\<lambda>(k, v) d. dict_set k v d) kvs env)"
  by (induction kvs arbitrary: env) (auto simp: clean_env_def intro!: list_all_dict_set)

lemma clean_inherited: "clean_env (List.map_filter (\<lambda>k. map_option (Pair k) (map_of environ k)) inherited)"
  by (auto simp: clean_env_def List.map_filter_def list_all_iff child_variables_def)

lemma clean_local_env: "clean_env (local_env environ base p)"
  unfolding local_env_def by (intro clean_fold clean_fixed clean_inherited)

lemma create_stack_owned:
  assumes "create_stack Y mode s = (r, t)" "st_procs s = []" "\<not> st_created s"
  shows "(r = Inr () \<and> owned t \<and> st_created t) \<or> (\<exists>e. r = Inl e \<and> st_procs t = [] \<and> \<not> st_created t)"
proof -
  have "clean_env (dict_set ''LOCAL_EVENT_BUS_AUTO_DRAIN'' v (local_env a b c))" for v a b c
    using clean_local_env unfolding clean_env_def by (rule list_all_dict_set) (simp add: child_variables_def fixed_env_def Let_def)
  with assms show ?thesis by (auto simp: create_stack_def owned_def split: prod.splits if_splits)
qed

lemma main_body_owned:
  assumes "main_body Y mode extra n s = (r, t)" "st_procs s = []" "\<not> st_created s"
  shows "(owned t \<and> st_created t) \<or> (st_procs t = [] \<and> \<not> st_created t)"
proof (cases "prerequisites Y")
  case (Inl e)
  with assms show ?thesis by (auto simp: main_body_def lift_sum_def bnd_def raise_err_def)
next
  case (Inr u)
  let ?k = "bnd (start_stack Y mode) (\<lambda>_. if mode = ''dev'' then watch_children Y n
     else bnd (run_command Y ([''node'', ''node_modules/@playwright/test/cli.js'', ''test'',
            ''--config='' @ (if mode = ''production'' then ''playwright.production.config.ts'' else ''playwright.config.ts'')] @ extra) 1800000000) (\<lambda>_. ret 0))"
  obtain q v where v: "create_stack Y mode s = (q, v)" by fastforce
  from create_stack_owned [OF v assms(2,3)] show ?thesis
  proof (elim disjE exE conjE)
    assume "q = Inr ()" "owned v" "st_created v"
    moreover have "keeps keeps_hold ?k" by (intro hold.keeps_bnd hold_start keeps_if hold_watch hold_run hold.keeps_ret)
    ultimately show ?thesis using assms(1) Inr v keepsD [of keeps_hold ?k v]
      by (auto simp: main_body_def lift_sum_def ret_def bnd_def [of "Pair _"] bnd_def [of "create_stack Y mode"] bnd_def [of "\<lambda>s. (_, s)"] keeps_hold_def)
  next
    fix e assume "q = Inl e" "st_procs v = []" "\<not> st_created v"
    with assms(1) Inr v show ?thesis by (auto simp: main_body_def lift_sum_def ret_def bnd_def)
  qed
qed

section \<open>Nothing is left running\<close>

text \<open>Once the signals are ignored no step of the cleanup is interrupted: it ends, and what it waited for is dead.\<close>

definition quiet :: "'w stack \<Rightarrow> 'w stack \<Rightarrow> bool" where
  "quiet s t = (st_ignoring s \<longrightarrow> st_ignoring t \<and> alive_pids t \<subseteq> alive_pids s \<and> st_children t = st_children s)"

lemma alive_simps [simp]:
  "alive_pids (s\<lparr>st_world := w\<rparr>) = alive_pids s" "alive_pids (s\<lparr>st_clock := n\<rparr>) = alive_pids s"
  "alive_pids (s\<lparr>st_world := w, st_clock := n\<rparr>) = alive_pids s" "alive_pids (s\<lparr>st_children := c\<rparr>) = alive_pids s"
  "alive_pids (s\<lparr>st_ignoring := b\<rparr>) = alive_pids s"
  by (simp_all add: alive_pids_def)

lemma quiet_exited: "\<exists>b t. has_exited Y pid s = (Inr b, t) \<and> quiet s t"
  by (auto simp: has_exited_def quiet_def split: prod.splits)

lemma quiet_terminate: "\<exists>t. terminate_child Y pid s = (Inr (), t) \<and> quiet s t"
proof -
  obtain b t where "has_exited Y pid s = (Inr b, t)" "quiet s t" using quiet_exited by blast
  then show ?thesis by (cases b) (auto simp: terminate_child_def bnd_def ret_def quiet_def)
qed

lemma await_ignoring:
  assumes "st_ignoring s"
  shows "\<exists>r t. await_child Y pid timeout s = (r, t) \<and> quiet s t
    \<and> (r = Inl TimeoutExpired \<and> timeout \<noteq> None \<or> (\<exists>c. r = Inr c) \<and> pid \<notin> alive_pids t)"
proof -
  obtain code elapsed w where "sy_wait Y pid timeout (st_world s) = (code, elapsed, w)" using prod_cases3 by blast
  with assms show ?thesis by (auto simp: await_child_def interruptible_def bnd_def waited_def Let_def quiet_def)
qed

lemma killed_ignoring:
  assumes "st_ignoring s"
  shows "\<exists>t. kill_and_wait Y pid s = (Inr (), t) \<and> quiet s t \<and> pid \<notin> alive_pids t"
proof -
  have "st_ignoring (dead pid s)" using assms by simp
  then obtain r t where t: "await_child Y pid None (dead pid s) = (r, t)" "quiet (dead pid s) t" "\<exists>c. r = Inr c"
    using await_ignoring [of "dead pid s" Y pid None] by auto
  with assms show ?thesis by (auto simp: kill_and_wait_def kill_child_def bnd_def ret_def quiet_def)
qed

lemma reap_ignoring:
  assumes "st_ignoring s"
  shows "\<exists>t. reap_child Y pid s = (Inr (), t) \<and> quiet s t \<and> pid \<notin> alive_pids t"
proof -
  obtain r t where t: "await_child Y pid (Some 8000000) s = (r, t)" "quiet s t"
    "r = Inl TimeoutExpired \<or> (\<exists>c. r = Inr c) \<and> pid \<notin> alive_pids t" using await_ignoring [OF assms] by blast
  then have "st_ignoring t" using assms by (simp add: quiet_def)
  then obtain u where u: "kill_and_wait Y pid t = (Inr (), u)" "quiet t u" "pid \<notin> alive_pids u" using killed_ignoring by blast
  have "quiet s u" using t(2) u(2) by (auto simp: quiet_def)
  with t u show ?thesis by (auto simp: reap_child_def try_except_def bnd_def ret_def on_timeout_def)
qed

lemma terminate_all: "\<exists>t. for_m pids (terminate_child Y) s = (Inr (), t) \<and> quiet s t"
proof (induction pids arbitrary: s)
  case Nil
  then show ?case by (simp add: ret_def quiet_def)
next
  case (Cons pid pids)
  obtain u where u: "terminate_child Y pid s = (Inr (), u)" "quiet s u" using quiet_terminate by blast
  obtain t where t: "for_m pids (terminate_child Y) u = (Inr (), t)" "quiet u t" using Cons by blast
  have "quiet s t" using u(2) t(2) by (auto simp: quiet_def)
  with u(1) t(1) show ?case by (simp add: bnd_def)
qed

lemma reap_all:
  "st_ignoring s \<Longrightarrow> \<exists>t. for_m pids (reap_child Y) s = (Inr (), t) \<and> quiet s t \<and> alive_pids t \<inter> set pids = {}"
proof (induction pids arbitrary: s)
  case Nil
  then show ?case by (simp add: ret_def quiet_def)
next
  case (Cons pid pids)
  obtain u where u: "reap_child Y pid s = (Inr (), u)" "quiet s u" "pid \<notin> alive_pids u" using reap_ignoring Cons.prems by blast
  then have "st_ignoring u" using Cons.prems by (simp add: quiet_def)
  then obtain t where t: "for_m pids (reap_child Y) u = (Inr (), t)" "quiet u t" "alive_pids t \<inter> set pids = {}" using Cons.IH by blast
  then have "quiet s t" "pid \<notin> alive_pids t" using u(2,3) \<open>st_ignoring u\<close> by (auto simp: quiet_def)
  with u(1) t(1,3) show ?case by (auto simp: bnd_def)
qed

text \<open>The last command, which takes the containers down, is waited for or killed like the others.\<close>

lemma supervised_ignoring:
  assumes "st_ignoring s"
  shows "alive_pids (snd (supervised Y pid timeout s)) \<subseteq> alive_pids s - {pid}"
proof -
  let ?m = "try_except (bnd (await_child Y pid (Some timeout)) (\<lambda>code. if code \<noteq> 0 then raise_err (CalledProcessError code) else ret ()))
         (\<lambda>e. on_timeout (kill_and_wait Y pid) e (raise_err TimeoutExpired))"
  have "\<exists>r t. ?m s = (r, t) \<and> r \<noteq> Inl Killed \<and> quiet s t \<and> pid \<notin> alive_pids t"
  proof -
    obtain r t where t: "await_child Y pid (Some timeout) s = (r, t)" "quiet s t"
      "r = Inl TimeoutExpired \<or> (\<exists>c. r = Inr c) \<and> pid \<notin> alive_pids t" using await_ignoring [OF assms] by blast
    then have "st_ignoring t" using assms by (simp add: quiet_def)
    then obtain u where u: "kill_and_wait Y pid t = (Inr (), u)" "quiet t u" "pid \<notin> alive_pids u" using killed_ignoring by blast
    have "quiet s u" using t(2) u(2) by (auto simp: quiet_def)
    with t u show ?thesis by (auto simp: try_except_def bnd_def ret_def raise_err_def on_timeout_def)
  qed
  then obtain r t where t: "?m s = (r, t)" "r \<noteq> Inl Killed" "quiet s t" "pid \<notin> alive_pids t" by blast
  obtain b u where u: "has_exited Y pid t = (Inr b, u)" "quiet t u" using quiet_exited by blast
  have "alive_pids u \<subseteq> alive_pids s - {pid}" using t(3,4) u(2) assms by (auto simp: quiet_def)
  then show ?thesis using t(1,2) u(1)
    by (cases b) (simp_all add: supervised_def try_finally_def bnd_def forget_child_def ret_def)
qed

lemma run_ignoring:
  assumes "st_ignoring s"
  shows "alive_pids (snd (run_with Y command timeout env s)) \<subseteq> alive_pids s"
proof -
  obtain r t where t: "launch_child Y command env s = (r, t)" by fastforce
  show ?thesis
  proof (cases r)
    case (Inl e)
    with t show ?thesis by (auto simp: run_with_supervised bnd_def launch_child_def Let_def split: prod.splits if_splits)
  next
    case (Inr pid)
    with t obtain p x where "t = s\<lparr>st_world := x, st_procs := st_procs s @ [p], st_children := st_children s @ [pid]\<rparr>" "pr_pid p = pid" "pr_alive p"
      by (auto simp: launch_child_def Let_def split: prod.splits if_splits)
    then have "st_ignoring t" "alive_pids t = insert pid (alive_pids s)" using assms by (simp_all add: alive_pids_def)
    with t Inr supervised_ignoring [of t Y pid timeout] show ?thesis by (auto simp: run_with_supervised bnd_def)
  qed
qed

lemma shut_down_empties:
  assumes "owned s" "st_created s"
  shows "alive_pids (snd (shut_down Y s)) = {}"
proof -
  define s1 where "s1 = s\<lparr>st_ignoring := True\<rparr>"
  have s1: "st_ignoring s1" "owned s1" "st_created s1" "st_children s1 = st_children s" using assms by (simp_all add: s1_def owned_def)
  obtain u where u: "for_m (rev (st_children s)) (terminate_child Y) s1 = (Inr (), u)" "quiet s1 u" using terminate_all by blast
  then have "st_ignoring u" using s1 by (simp add: quiet_def)
  then obtain v where v: "for_m (rev (st_children s)) (reap_child Y) u = (Inr (), v)" "quiet u v"
    "alive_pids v \<inter> set (rev (st_children s)) = {}" using reap_all by blast
  have "alive_pids s1 \<subseteq> set (st_children s)" using s1(2,4) by (auto simp: owned_def list_all_iff alive_pids_def)
  then have none: "alive_pids v = {}" and ig: "st_ignoring v" using u(2) v(2,3) s1(1) by (auto simp: quiet_def)
  have "shut_down Y s = when_m (st_compose_started v) (run_command Y (compose Y [''down'', ''-v'']) 60000000) v"
    using s1(3,4) u(1) v(1) by (simp add: shut_down_def bnd_def when_m_def [of True] close_def children_of_def s1_def)
  moreover have "alive_pids (snd (run_command Y c n v)) \<subseteq> alive_pids v" for c n
    unfolding run_command_def using ig by (rule run_ignoring)
  ultimately show ?thesis using none by (auto simp: when_m_def ret_def)
qed

lemma exit_code_state: "snd (try_except m exit_code s) = snd (m s)"
proof (cases "fst (m s)")
  case (Inl e)
  then show ?thesis by (cases e) (auto simp: try_except_def exit_code_def ret_def split: prod.splits)
qed (auto simp: try_except_def split: prod.splits)

text \<open>However the run ends, unless the runner itself is killed, none of its processes is left.\<close>

lemma no_process_left:
  assumes "fst (local_main Y mode extra n (fresh_stack w now)) \<noteq> Inl Killed"
  shows "alive_pids (snd (local_main Y mode extra n (fresh_stack w now))) = {}"
proof -
  obtain r t where t: "main_body Y mode (extra_arguments extra) n (fresh_stack w now) = (r, t)" by fastforce
  have cases: "(owned t \<and> st_created t) \<or> (st_procs t = [] \<and> \<not> st_created t)"
    using t by (rule main_body_owned) (simp_all add: fresh_stack_def)
  obtain q where q: "try_except (main_body Y mode (extra_arguments extra) n) exit_code (fresh_stack w now) = (q, t)"
    using t exit_code_state [of "main_body Y mode (extra_arguments extra) n" "fresh_stack w now"] by (metis prod.collapse snd_conv)
  have "alive_pids (snd (shut_down Y t)) = {}" using cases
  proof
    assume "st_procs t = [] \<and> \<not> st_created t"
    then show ?thesis by (simp add: shut_down_def bnd_def when_m_def ret_def alive_pids_def)
  qed (simp add: shut_down_empties)
  moreover have "q \<noteq> Inl Killed" using assms q by (auto simp: local_main_def try_finally_def)
  ultimately show ?thesis using q by (auto simp: local_main_def try_finally_def split: prod.splits sum.splits)
qed

end
