(* ===== verification/Admin_Commands.thy ===== *)
theory Admin_Commands
  imports Controller_Safety Wiring Text_Patterns
begin

text \<open>
  The command line of the administrator, \<open>main\<close> of \<^verbatim>\<open>cma_controller/admin.py\<close>, over the operations of \<open>ControllerAdmin\<close> (theory
  \<open>Controller_Handlers\<close>). A command is what \<open>argparse\<close> returns; it refuses a retry without \<^verbatim>\<open>--verified-no-side-effect\<close>. \<open>parser.error\<close> ends the
  process with code 2. \<open>D\<close> is the text of a timestamp.
\<close>

section \<open>Commands and what they print\<close>

datatype admin_command =
    List_held
  | Inspect_task string
  | Fail_task string
  | Retry_task string
  | List_failed_push
  | Inspect_push string string
  | Retry_push string string

datatype admin_end = Printed string | Usage_error string

fun internal_name :: "internal_state \<Rightarrow> string" where
  "internal_name Queued = ''queued''"
| "internal_name Dispatching = ''dispatching''"
| "internal_name Waiting = ''waiting''"
| "internal_name Input_required = ''input_required''"
| "internal_name Interrupting = ''interrupting''"
| "internal_name Terminal = ''terminal''"

definition held_json :: "held_summary \<Rightarrow> json" where
  "held_json h = JObj [(''taskId'', JStr (hs_task_id h)), (''contextId'', JStr (hs_context_id h)), (''state'', JStr (a2a_name (hs_state h))),
     (''internalState'', JStr (internal_name (hs_internal_state h))), (''reason'', JStr (hs_reason h)), (''dispatchAttempts'', JNum (hs_dispatch_attempts h))]"

definition push_json :: "(int \<Rightarrow> string) \<Rightarrow> push_summary \<Rightarrow> json" where
  "push_json D p = (let time = (\<lambda>t. case t of None \<Rightarrow> JNull | Some n \<Rightarrow> JStr (D n)) in
     JObj [(''taskId'', JStr (ps_task_id p)), (''configId'', JStr (ps_config_id p)), (''attemptCount'', JNum (ps_attempt_count p)),
       (''lastAttemptAt'', time (ps_last_attempt_at p)), (''permanentFailureAt'', time (ps_permanent_failure_at p))])"

text \<open>\<open>json.dumps(.., sort_keys=True)\<close>\<close>

fun sorted_keys :: "json \<Rightarrow> json" where
  "sorted_keys (JObj kvs) = JObj (sort_key fst (map (\<lambda>(k, v). (k, sorted_keys v)) kvs))"
| "sorted_keys (JArr xs) = JArr (map sorted_keys xs)"
| "sorted_keys j = j"

definition printed :: "json \<Rightarrow> admin_end" where
  "printed j = Printed (dumps_spaced (sorted_keys j))"

section \<open>The command line\<close>

definition admin_wiring :: wiring_args where
  "admin_wiring = default_wiring\<lparr>with_dispatcher := False\<rparr>"

definition push_commands :: "'p env \<Rightarrow> (int \<Rightarrow> string) \<Rightarrow> admin_command \<Rightarrow> (('p, 'l, 'o) service, admin_end) comp" where
  "push_commands E D command = (case command of
     Inspect_push tid pid \<Rightarrow> bnd (inspect_push E tid pid) (\<lambda>p. ret (printed (push_json D p)))
   | _ \<Rightarrow> bnd (list_failed_push E) (\<lambda>ps. ret (printed (JArr (map (push_json D) ps)))))"

definition held_commands :: "'p env \<Rightarrow> admin_command \<Rightarrow> (('p, 'l, 'o) service, admin_end) comp" where
  "held_commands E command = bnd (call (rt_of E) (reads list_held_tasks)) (\<lambda>rows. ret (case command of
     Inspect_task tid \<Rightarrow> (case find (\<lambda>t. t_task_id t = tid) rows of
         None \<Rightarrow> Usage_error ''Task is not held'' | Some t \<Rightarrow> printed (held_json (held_task_summary t)))
   | _ \<Rightarrow> printed (JArr (map (held_json \<circ> held_task_summary) rows))))"

definition run_admin :: "'p env \<Rightarrow> settings \<Rightarrow> (int \<Rightarrow> string) \<Rightarrow> admin_command \<Rightarrow> (('p, 'l, 'o) service, admin_end) comp" where
  "run_admin E config D command =
     (let resolve = (\<lambda>tid resolution verified.
        if cma_scheduler_queue_url config = [] then ret (Usage_error ''CMA_SCHEDULER_QUEUE_URL is required for admin resolutions'')
        else bnd (admin_resolve E tid resolution verified) (\<lambda>_. ret (printed (JObj [(''taskId'', JStr tid), (''resolution'', JStr resolution)]))))
      in case command of
        List_failed_push \<Rightarrow> push_commands E D command
      | Inspect_push _ _ \<Rightarrow> push_commands E D command
      | List_held \<Rightarrow> held_commands E command
      | Inspect_task _ \<Rightarrow> held_commands E command
      | Retry_push tid pid \<Rightarrow>
          if cma_push_queue_url config = [] then ret (Usage_error ''CMA_PUSH_QUEUE_URL is required to retry push'')
          else bnd (retry_push E tid pid) (\<lambda>_. ret (Printed (dumps_spaced
            (JObj [(''taskId'', JStr tid), (''configId'', JStr pid), (''retried'', JBool True)]))))
      | Fail_task tid \<Rightarrow> resolve tid ''fail'' False
      | Retry_task tid \<Rightarrow> resolve tid ''retry'' True)"

text \<open>The push trigger of the commands is the one that the wiring chose.\<close>

definition wired_env :: "'p env \<Rightarrow> composition \<Rightarrow> 'p env" where
  "wired_env E k = E\<lparr>has_push_trigger := co_push_trigger k \<noteq> None\<rparr>"

definition admin_main :: "'p env \<Rightarrow> (string \<Rightarrow> bool) \<Rightarrow> environ \<Rightarrow> secret_store \<Rightarrow> (string \<Rightarrow> error + rat) \<Rightarrow> (int \<Rightarrow> string) \<Rightarrow> admin_command
    \<Rightarrow> (('p, 'l, 'o) service, admin_end) comp" where
  "admin_main E ip_ok environment secrets py_float D command =
     bnd (lift_sum (load_config environment secrets py_float)) (\<lambda>config.
     bnd (lift_sum (build_controller ip_ok environment config admin_wiring)) (\<lambda>k.
     run_admin (wired_env E k) config D command))"

section \<open>What the commands do\<close>

lemma actor_run_admin: "keeps (steps_between E) (run_admin E config D command)"
  unfolding run_admin_def push_commands_def held_commands_def inspect_push_def list_failed_push_def Let_def
  by (auto intro!: actor_rules actor_admin split: option.splits admin_command.splits)

text \<open>A command that only shows something leaves the rows to the other actors: what is in the tables afterwards is what these alone made of them.\<close>

definition only_shows :: "admin_command \<Rightarrow> bool" where
  "only_shows c = (case c of List_held \<Rightarrow> True | Inspect_task _ \<Rightarrow> True | List_failed_push \<Rightarrow> True | Inspect_push _ _ \<Rightarrow> True | _ \<Rightarrow> False)"

definition left_to_others :: "'s rt \<Rightarrow> ('s, 'l, 'o) run \<Rightarrow> ('s, 'l, 'o) run \<Rightarrow> bool" where
  "left_to_others X w w' = (tick w \<le> tick w' \<and> shared w' = fold (interfere X) [tick w..<tick w'] (shared w) \<and> obs w' = obs w)"

lemma left_to_others_trans:
  assumes uv: "left_to_others X u v" and vw: "left_to_others X v w"
  shows "left_to_others X u w"
proof -
  from assms have "[tick u..<tick w] = [tick u..<tick v] @ [tick v..<tick w]"
    by (metis left_to_others_def le_add_diff_inverse upt_add_eq_append)
  with uv vw show ?thesis by (simp add: left_to_others_def)
qed

interpretation left_to_others: step_relation "left_to_others X" for X :: "'s rt"
  by unfold_locales (simp add: left_to_others_def, rule left_to_others_trans)

lemma reads_left: "keeps (left_to_others X) (call X (reads f))"
  by (rule keepsI) (simp add: call_def Let_def left_to_others_def reads_def split: fault.splits)

theorem showing_changes_nothing:
  assumes "only_shows command"
  shows "keeps (left_to_others (rt_of E)) (run_admin E config D command)"
  using assms unfolding run_admin_def push_commands_def held_commands_def inspect_push_def list_failed_push_def Let_def
  by (auto simp: only_shows_def intro!: left_to_others.keeps_bnd left_to_others.keeps_ret left_to_others.keeps_raise reads_left split: option.splits admin_command.splits)

text \<open>A command that needs a queue the configuration does not name is refused before it reads anything.\<close>

lemma unconfigured_queue_refused:
  "cma_scheduler_queue_url config = [] \<Longrightarrow> command \<in> {Fail_task tid, Retry_task tid} \<Longrightarrow>
     run_admin E config D command w = (Inr (Usage_error ''CMA_SCHEDULER_QUEUE_URL is required for admin resolutions''), w)"
  "cma_push_queue_url config = [] \<Longrightarrow> run_admin E config D (Retry_push tid pid) w = (Inr (Usage_error ''CMA_PUSH_QUEUE_URL is required to retry push''), w)"
  by (auto simp: run_admin_def ret_def)

text \<open>A push that is retried has a queue: the wiring of a configured queue has the trigger.\<close>

lemma configured_queue_wired:
  assumes "build_controller ip_ok environment config admin_wiring = Inr k" "cma_push_queue_url config \<noteq> []"
  shows "has_push_trigger (wired_env E k)"
  using assms by (auto simp: build_controller_def wired_env_def admin_wiring_def default_wiring_def choose_push_trigger_def Let_def bind_sum_Inr
      split: option.splits if_splits)

lemma wired_between: "steps_between (wired_env E k) = steps_between E"
  by (intro ext) (simp add: steps_between_def wired_env_def well_behaved_def)

theorem actor_admin_main: "keeps (steps_between E) (admin_main E ip_ok environment secrets py_float D command)"
  unfolding admin_main_def
  by (intro between.keeps_bnd between.keeps_lift) (metis actor_run_admin wired_between)

end
