(* ===== verification/Client_Streams.thy ===== *)
theory Client_Streams
  imports App_Safety
begin

text \<open>
  The rest of \<^verbatim>\<open>a2a_client/client.py\<close> and \<^verbatim>\<open>agent_control_plane/service.py\<close>: the operations on push configurations, and the subscription to a task,
  an asynchronous generator. The SDK's calls are the parameter \<open>push_calls\<close>. The consumer of a generator decides how often it asks: with \<open>n\<close> requests it gets at
  most \<open>n\<close> responses, and nothing is done before the first request.
\<close>

record ('q, 'c, 'r, 'h) push_calls =
  pc_get :: "string \<Rightarrow> string \<Rightarrow> string \<Rightarrow> 'q \<Rightarrow> (error + 'c) \<times> 'q"
  pc_list :: "string \<Rightarrow> string \<Rightarrow> int \<Rightarrow> string \<Rightarrow> 'q \<Rightarrow> (error + 'c list \<times> string) \<times> 'q"
  pc_delete :: "string \<Rightarrow> string \<Rightarrow> string \<Rightarrow> 'q \<Rightarrow> (error + unit) \<times> 'q"
  pc_subscribe :: "agent_card \<Rightarrow> string \<Rightarrow> string option \<Rightarrow> 'q \<Rightarrow> (error + 'h) \<times> 'q"
  pc_response :: "'h \<Rightarrow> 'q \<Rightarrow> (error + 'r option) \<times> 'q"

section \<open>Push configurations\<close>

definition client_get_push :: "'q app_env \<Rightarrow> ('q, 'c, 'r, 'h) push_calls \<Rightarrow> string \<Rightarrow> string \<Rightarrow> string \<Rightarrow> ('q app_worker, 'c) comp" where
  "client_get_push X C agent_id task_id config_id =
     bnd (entry X agent_id) (\<lambda>(reg, crd). call (app_rt X) (on_world (pc_get C (ar_endpoint reg) task_id config_id)))"

definition client_list_push :: "'q app_env \<Rightarrow> ('q, 'c, 'r, 'h) push_calls \<Rightarrow> string \<Rightarrow> string \<Rightarrow> int \<Rightarrow> string \<Rightarrow> ('q app_worker, 'c list \<times> string) comp" where
  "client_list_push X C agent_id task_id page_size token =
     bnd (entry X agent_id) (\<lambda>(reg, crd). call (app_rt X) (on_world (pc_list C (ar_endpoint reg) task_id page_size token)))"

definition client_delete_push :: "'q app_env \<Rightarrow> ('q, 'c, 'r, 'h) push_calls \<Rightarrow> string \<Rightarrow> string \<Rightarrow> string \<Rightarrow> ('q app_worker, unit) comp" where
  "client_delete_push X C agent_id task_id config_id =
     bnd (entry X agent_id) (\<lambda>(reg, crd). call (app_rt X) (on_world (pc_delete C (ar_endpoint reg) task_id config_id)))"

section \<open>Subscriptions\<close>

datatype stream_end = Exhausted | Suspended | Broken error

primrec responses :: "nat \<Rightarrow> 'q app_env \<Rightarrow> ('q, 'c, 'r, 'h) push_calls \<Rightarrow> 'h \<Rightarrow> ('q app_worker, 'r list \<times> stream_end) comp" where
  "responses 0 X C h = ret ([], Suspended)"
| "responses (Suc n) X C h =
     bnd (try_except (bnd (call (app_rt X) (on_world (pc_response C h))) (\<lambda>r. ret (Inr r))) (except_exception (\<lambda>e. ret (Inl e)))) (\<lambda>answer.
     case answer of
       Inl e \<Rightarrow> ret ([], Broken e)
     | Inr None \<Rightarrow> ret ([], Exhausted)
     | Inr (Some r) \<Rightarrow> bnd (responses n X C h) (\<lambda>(rs, ending). ret (r # rs, ending)))"

text \<open>A streaming client is made of the cached card; the extension is asked for when human input may be shown.\<close>

definition client_subscribe :: "nat \<Rightarrow> 'q app_env \<Rightarrow> ('q, 'c, 'r, 'h) push_calls \<Rightarrow> string \<Rightarrow> string \<Rightarrow> bool \<Rightarrow> ('q app_worker, 'r list \<times> stream_end) comp" where
  "client_subscribe n X C agent_id task_id human_input =
     (if n = 0 then ret ([], Suspended)
      else bnd (entry X agent_id) (\<lambda>(reg, crd).
        bnd (call (app_rt X) (on_world (pc_subscribe C crd task_id (if human_input then Some HUMAN_INPUT_EXTENSION_URI else None)))) (\<lambda>h.
        responses n X C h)))"

definition service_subscribe :: "nat \<Rightarrow> 'q app_env \<Rightarrow> ('q, 'c, 'r, 'h) push_calls \<Rightarrow> string \<Rightarrow> string \<Rightarrow> bool \<Rightarrow> ('q app_worker, 'r list \<times> stream_end) comp" where
  "service_subscribe n X C tid task_id human_input =
     (if n = 0 then ret ([], Suspended)
      else bnd (bound X tid task_id) (\<lambda>thread. client_subscribe n X C (th_agent_id thread) task_id human_input))"

section \<open>What they keep and return\<close>

context app_contract
begin

lemma app_push_configs:
  "keeps R (client_get_push X C ag tk cf)" "keeps R (client_list_push X C ag tk n tok)" "keeps R (client_delete_push X C ag tk cf)"
  unfolding client_get_push_def client_list_push_def client_delete_push_def by (auto intro!: app_basic app_entry)

lemma app_responses: "keeps R (responses n X C h)"
  by (induction n) (auto intro!: app_basic keeps_try_except_exception split: sum.splits option.splits)

lemma app_client_subscribe: "keeps R (client_subscribe n X C ag tk hi)"
  unfolding client_subscribe_def by (auto intro!: app_basic app_entry app_responses)

lemma app_service_subscribe: "keeps R (service_subscribe n X C tid tk hi)"
  unfolding service_subscribe_def bound_def by (auto intro!: app_basic app_the_thread app_client_subscribe split: option.splits)

end

text \<open>A subscriber changes no row of the application but what the other actors change.\<close>

lemma subscriptions_sound: "app_between X w (snd (service_subscribe n X C tid tk hi w))"
  using app_sound.app_service_subscribe by (rule keepsD)

lemma responses_first:
  assumes "responses (Suc n) X C h w = (Inr (rs, ending), v)"
  shows "(\<exists>r as u. rs = r # as \<and> responses n X C h u = (Inr (as, ending), v)
           \<and> (\<forall>k. responses (Suc k) X C h w = bnd (responses k X C h) (\<lambda>(rs, ending). ret (r # rs, ending)) u))
       \<or> (rs = [] \<and> ending \<noteq> Suspended \<and> (\<forall>k. responses (Suc k) X C h w = (Inr ([], ending), v)))"
proof -
  let ?ask = "try_except (bnd (call (app_rt X) (on_world (pc_response C h))) (\<lambda>r. ret (Inr r))) (except_exception (\<lambda>e. ret (Inl e)))"
  from assms obtain answer u where u: "?ask w = (Inr answer, u)" by (auto simp: bnd_Inr)
  have step: "responses (Suc k) X C h w = (case answer of
       Inl e \<Rightarrow> ret ([], Broken e) | Inr None \<Rightarrow> ret ([], Exhausted)
     | Inr (Some r) \<Rightarrow> bnd (responses k X C h) (\<lambda>(rs, ending). ret (r # rs, ending))) u" for k
    using u by (simp add: bnd_def [of ?ask])
  show ?thesis using assms unfolding step
    by (cases answer) (auto simp: ret_def bnd_Inr split: option.splits)
qed

lemma response_count:
  "responses n X C h w = (Inr (rs, ending), v) \<Longrightarrow> length rs \<le> n \<and> (ending = Suspended \<longleftrightarrow> length rs = n)"
proof (induction n arbitrary: w rs)
  case 0
  then show ?case by (simp add: ret_def)
next
  case (Suc n)
  from responses_first [OF Suc.prems] show ?case using Suc.IH by fastforce
qed

text \<open>Asking more often only continues a stream: what was yielded before stays a prefix, and an ended stream stays as it is.\<close>

lemma responses_continue:
  "responses n X C h w = (Inr (rs, ending), v) \<Longrightarrow> responses (n + m) X C h w = (Inr (rs', ending'), v')
     \<Longrightarrow> (\<exists>rest. rs' = rs @ rest) \<and> (ending \<noteq> Suspended \<longrightarrow> rs' = rs \<and> ending' = ending \<and> v' = v)"
proof (induction n arbitrary: w rs rs')
  case 0
  then show ?case by (simp add: ret_def)
next
  case (Suc n)
  from responses_first [OF Suc.prems(1)] show ?case
  proof (elim disjE exE conjE)
    fix r as u
    assume a: "rs = r # as" "responses n X C h u = (Inr (as, ending), v)"
      and all: "\<forall>k. responses (Suc k) X C h w = bnd (responses k X C h) (\<lambda>(rs, ending). ret (r # rs, ending)) u"
    have "bnd (responses (n + m) X C h) (\<lambda>(rs, ending). ret (r # rs, ending)) u = (Inr (rs', ending'), v')"
      using Suc.prems(2) spec [OF all, of "n + m"] by (simp only: add_Suc)
    then obtain bs where b: "responses (n + m) X C h u = (Inr (bs, ending'), v')" "rs' = r # bs"
      by (auto simp: bnd_Inr ret_def)
    from Suc.IH [OF a(2) b(1)] a(1) b(2) show ?thesis by auto
  next
    assume "rs = []" and all: "\<forall>k. responses (Suc k) X C h w = (Inr ([], ending), v)"
    then show ?thesis using Suc.prems(2) spec [OF all, of "n + m"] by (simp only: add_Suc) auto
  qed
qed

end
