(* ===== verification/Local_Harness.thy ===== *)
theory Local_Harness
  imports Controller_Safety Fake_Provider Local_Bus Local_Queue Slack_Ingress Wiring
begin

text \<open>
  \<^verbatim>\<open>runtime.py\<close>, \<^verbatim>\<open>testing/factory.py\<close>, \<^verbatim>\<open>testing/api.py\<close> and the routes of \<^verbatim>\<open>local_api.py\<close>: how a process chooses its parts, and how the local system is put together from the
  doubles of the theories \<open>Local_Bus\<close>, \<open>Local_Queue\<close> and \<open>Fake_Provider\<close> and driven until nothing is left to do. Each run of a worker has an environment of its own. The
  projector that the router calls, and the sink that the pushes reach, are parameters. The previews of the harness are not modelled.
\<close>

section \<open>The runtime\<close>

text \<open>\<open>validate_local_database\<close>\<close>

definition local_database_error :: error where
  "local_database_error = ValueError ''E2E requires a loopback PostgreSQL database named managed_agents_e2e''"

definition validate_local_database :: "(string \<Rightarrow> bool) \<Rightarrow> settings \<Rightarrow> error + unit" where
  "validate_local_database ip_ok c = bind_sum (urlsplit ip_ok (database_url c)) (\<lambda>u.
     if u_scheme u \<notin> {''postgres'', ''postgresql''} \<or> u_query u \<noteq> [] \<or> app_env c \<noteq> ''e2e'' \<or> database_mode c \<noteq> ''postgres''
        \<or> url_hostname u \<notin> {Some ''127.0.0.1'', Some ''localhost''} \<or> u_path u \<noteq> ''/managed_agents_e2e''
     then Inl local_database_error else Inr ())"

definition sink_base :: string where
  "sink_base = ''http://a2a-sink.local/internal/a2a/events''"

definition controller_url :: "environ \<Rightarrow> string" where
  "controller_url env = getenv env ''LOCAL_A2A_URL'' ''http://a2a.local''"

definition local_settings :: "environ \<Rightarrow> settings \<Rightarrow> settings" where
  "local_settings env c = c\<lparr>cma_a2a_endpoint := controller_url env, a2a_event_sink_url := sink_base\<rparr>"

definition harness_settings :: "settings \<Rightarrow> settings" where
  "harness_settings c = c\<lparr>cma_a2a_push_allowed_url := sink_base @ ''/cma''\<rparr>"

definition harness_wiring :: wiring_args where
  "harness_wiring = \<lparr>given_provider = True, given_store = True, given_scheduler_trigger = Some (2, Other_trigger),
     given_push_trigger = Some (3, Async_local), given_push_http = True, with_dispatcher = True\<rparr>"

datatype runtime_kind = Production settings | Local settings composition

definition runtime_of :: "(string \<Rightarrow> bool) \<Rightarrow> environ \<Rightarrow> settings \<Rightarrow> error + runtime_kind" where
  "runtime_of ip_ok env c =
     (if app_env c = ''e2e''
      then bind_sum (validate_local_database ip_ok c) (\<lambda>_. let d = local_settings env c in
        bind_sum (build_controller ip_ok env (harness_settings d) harness_wiring) (\<lambda>k. Inr (Local d k)))
      else Inr (Production c))"

section \<open>The router\<close>

datatype route_target = To_projector | To_input_queue

definition local_route :: "string \<Rightarrow> error + route_target" where
  "local_route ty =
     (if ty \<in> {''SlackTaskProjectionRequested'', ''SlackWorkStarted'', ''A2ATaskUpdated'', ''SlackControlReplyRequested''} then Inr To_projector
      else if ty \<in> {''SlackMessageReceived'', ''SlackThreadStopRequested'', ''SlackToolConfirmationRequested''} then Inr To_input_queue
      else Inl (ValueError (''Unknown domain event: '' @ ty)))"

definition event_json :: "bus_event \<Rightarrow> json" where
  "event_json e = JObj [(''id'', JNum (int (ev_id e))), (''source'', JStr (ev_source e)), (''detail-type'', JStr (ev_type e)),
     (''detail'', ev_detail e), (''attempt'', JNum (int (ev_attempt e)))]"

type_synonym 'w projection = "bus_event \<Rightarrow> 'w \<Rightarrow> error option \<times> (string \<times> string \<times> json) list \<times> 'w"

definition send_event :: "bus_event \<Rightarrow> 'w local_queue \<Rightarrow> string \<times> 'w local_queue" where
  "send_event e = send_raw (dumps_compact (event_json e))"

definition local_dispatch :: "'w projection \<Rightarrow> bus_event \<Rightarrow> 'w local_queue \<Rightarrow> error option \<times> (string \<times> string \<times> json) list \<times> 'w local_queue" where
  "local_dispatch project e q = (case local_route (ev_type e) of
     Inl x \<Rightarrow> (Some x, [], q)
   | Inr To_projector \<Rightarrow> (case project e (q_world q) of (r, published, w) \<Rightarrow> (r, published, q\<lparr>q_world := w\<rparr>))
   | Inr To_input_queue \<Rightarrow> (None, [], snd (send_event e q)))"

definition local_bus_setup :: "'w projection \<Rightarrow> (error \<Rightarrow> string) \<Rightarrow> 'w local_queue bus_setup" where
  "local_bus_setup project text = \<lparr>bus_dispatch = Some (local_dispatch project), bus_after = (\<lambda>q. (None, q)), bus_text = text\<rparr>"

section \<open>The controller of the harness\<close>

text \<open>The controller's state, the number of worker runs so far, and the policy engine of the scheduler.\<close>

record 'p harness =
  ha_sys :: "'p sys"
  ha_runs :: nat
  ha_policy :: "'p policy_engine option"

definition as_worker :: "(nat \<Rightarrow> 'p env) \<Rightarrow> 'l \<Rightarrow> ('p env \<Rightarrow> (('p sys, 'l, 'o) run, unit) comp) \<Rightarrow> ('p harness, unit) comp" where
  "as_worker E l f = (\<lambda>h. case f ((E (ha_runs h))\<lparr>policy_of := ha_policy h\<rparr>) (start_run (ha_sys h) l) of
     (r, w) \<Rightarrow> (r, h\<lparr>ha_sys := shared w, ha_runs := Suc (ha_runs h)\<rparr>))"

definition take_scheduled :: "('p harness, wakeup list) comp" where
  "take_scheduled = (\<lambda>h. (Inr (wakeups (ha_sys h)), h\<lparr>ha_sys := (ha_sys h)\<lparr>wakeups := []\<rparr>\<rparr>))"

definition take_pushed :: "('p harness, wakeup list) comp" where
  "take_pushed = (\<lambda>h. (Inr (push_wakeups (ha_sys h)), h\<lparr>ha_sys := (ha_sys h)\<lparr>push_wakeups := []\<rparr>\<rparr>))"

text \<open>A delayed wakeup is served at once, but once per context and drain.\<close>

fun run_scheduled :: "(nat \<Rightarrow> 'p env) \<Rightarrow> wakeup list \<Rightarrow> string list \<Rightarrow> ('p harness, string list) comp" where
  "run_scheduled E [] seen = ret seen"
| "run_scheduled E ((cid, reason, delay) # ws) seen =
     (if delay \<noteq> 0 \<and> cid \<in> set seen then run_scheduled E ws seen
      else bnd (as_worker E None (\<lambda>e. run_once e cid)) (\<lambda>_. run_scheduled E ws (if delay \<noteq> 0 then cid # seen else seen)))"

definition run_pushed :: "(nat \<Rightarrow> 'p env) \<Rightarrow> 'p push_port \<Rightarrow> wakeup list \<Rightarrow> ('p harness, unit) comp" where
  "run_pushed E P pushed = for_m pushed (\<lambda>(cid, _, _). as_worker E () (\<lambda>e. run_context e P cid))"

primrec drain_rounds :: "nat \<Rightarrow> (nat \<Rightarrow> 'p env) \<Rightarrow> 'p push_port \<Rightarrow> string list \<Rightarrow> ('p harness, unit) comp" where
  "drain_rounds 0 E P seen = raise_err (RuntimeError ''Local A2A controller did not quiesce'')"
| "drain_rounds (Suc n) E P seen =
     bnd take_scheduled (\<lambda>scheduled.
     bnd (run_scheduled E scheduled seen) (\<lambda>seen.
     bnd take_pushed (\<lambda>pushed.
     bnd (run_pushed E P pushed) (\<lambda>_.
     if scheduled = [] \<and> pushed = [] then ret () else drain_rounds n E P seen))))"

definition harness_drain :: "(nat \<Rightarrow> 'p env) \<Rightarrow> 'p push_port \<Rightarrow> ('p harness, unit) comp" where
  "harness_drain E P = drain_rounds 30 E P []"

text \<open>\<open>reset\<close>: the counters of the provider that are not named keep their values.\<close>

definition reset_provider :: "fake_cma \<Rightarrow> fake_cma" where
  "reset_provider p = p\<lparr>fk_sessions := [], fk_events := [], fk_stream_calls := 0, fk_scripted_turns := [], fk_create_calls := 0, fk_send_calls := 0,
     fk_confirm_calls := 0, fk_custom_result_calls := 0, fk_interrupt_calls := 0, fk_automatic := True\<rparr>"

definition clear_harness :: "fake_cma policy_engine option \<Rightarrow> (fake_cma harness, unit) comp" where
  "clear_harness baseline = (\<lambda>h. (Inr (), h\<lparr>ha_policy := baseline,
     ha_sys := (ha_sys h)\<lparr>outside := reset_provider (outside (ha_sys h)), wakeups := [], push_wakeups := []\<rparr>\<rparr>))"

definition delete_input :: "string \<Rightarrow> ('p harness, unit) comp" where
  "delete_input key = (\<lambda>h. case file_delete key (ha_sys h) of (r, s) \<Rightarrow> (r, h\<lparr>ha_sys := s\<rparr>))"

definition harness_reset :: "fake_cma policy_engine option \<Rightarrow> (fake_cma harness, unit) comp" where
  "harness_reset baseline = bnd (clear_harness baseline) (\<lambda>_.
     (\<lambda>h. for_m (file_list_keys (ha_sys h)) delete_input h))"

section \<open>The test API\<close>

text \<open>\<open>min(max(int(body.get(key, default)), low), high)\<close>\<close>

definition int_of_json :: "json \<Rightarrow> error + int" where
  "int_of_json v = (case v of
     JNum n \<Rightarrow> Inr n
   | JBool b \<Rightarrow> Inr (if b then 1 else 0)
   | JStr s \<Rightarrow> (case py_int s of Some n \<Rightarrow> Inr n | None \<Rightarrow> Inl (ValueError ''invalid literal for int() with base 10''))
   | _ \<Rightarrow> Inl (TypeError ''int() argument must be a string, a bytes-like object or a real number''))"

definition clamped :: "(string \<times> json) list \<Rightarrow> string \<Rightarrow> int \<Rightarrow> int \<Rightarrow> int \<Rightarrow> error + nat" where
  "clamped body key default_value low high = bind_sum (int_of_json (case map_of body key of None \<Rightarrow> JNum default_value | Some v \<Rightarrow> v))
     (\<lambda>n. Inr (nat (min (max n low) high)))"

text \<open>What a drain acts on. \<open>lp_published\<close> takes the events that the sink and the input worker have published since it was last asked.\<close>

record 'p local_parts =
  lp_env :: "nat \<Rightarrow> 'p env"
  lp_push :: "'p push_port"
  lp_input :: "'p harness queue_setup"
  lp_project :: "'p harness projection"
  lp_published :: "'p \<Rightarrow> (string \<times> string \<times> json) list \<times> 'p"
  lp_text :: "error \<Rightarrow> string"

type_synonym 'p local_system = "'p harness local_queue bus"

definition publish_pending :: "'p local_parts \<Rightarrow> 'p local_system \<Rightarrow> 'p local_system" where
  "publish_pending L b = (let q = bus_world b; h = q_world q in
     case lp_published L (outside (ha_sys h)) of (ps, p) \<Rightarrow>
       fold (\<lambda>x b. snd (bus_publish x b)) ps (b\<lparr>bus_world := q\<lparr>q_world := h\<lparr>ha_sys := (ha_sys h)\<lparr>outside := p\<rparr>\<rparr>\<rparr>\<rparr>))"

definition drain_input :: "'p local_parts \<Rightarrow> nat \<Rightarrow> nat \<Rightarrow> ('p local_system, unit) comp" where
  "drain_input L most workers b = (case drain (lp_input L) most workers (bus_world b) of
     (r, q) \<Rightarrow> (r, publish_pending L (b\<lparr>bus_world := q\<rparr>)))"

definition drain_controller :: "'p local_parts \<Rightarrow> ('p local_system, unit) comp" where
  "drain_controller L b = (case harness_drain (lp_env L) (lp_push L) (q_world (bus_world b)) of
     (r, h) \<Rightarrow> (r, publish_pending L (b\<lparr>bus_world := (bus_world b)\<lparr>q_world := h\<rparr>\<rparr>)))"

definition settled :: "'p local_system \<Rightarrow> bool" where
  "settled b = (bus_queue b = [] \<and> \<not> list_ex (\<lambda>m. m_state m = MVisible) (q_messages (bus_world b)))"

primrec event_rounds :: "nat \<Rightarrow> 'p local_parts \<Rightarrow> nat \<Rightarrow> nat \<Rightarrow> ('p local_system, unit) comp" where
  "event_rounds 0 L most workers = raise_err (RuntimeError ''Local event and SQS queues did not quiesce'')"
| "event_rounds (Suc n) L most workers =
     bnd (bus_drain (local_bus_setup (lp_project L) (lp_text L)) most workers) (\<lambda>_.
     bnd (drain_input L most workers) (\<lambda>_.
     bnd (drain_controller L) (\<lambda>_.
     (\<lambda>b. let b = b\<lparr>bus_world := refresh_visibility (bus_world b)\<rparr> in if settled b then (Inr (), b) else event_rounds n L most workers b))))"

definition events_drain :: "'p local_parts \<Rightarrow> (string \<times> json) list \<Rightarrow> ('p local_system, unit) comp" where
  "events_drain L body =
     bnd (lift_sum (clamped body ''max_events'' 100 1 1000)) (\<lambda>most.
     bnd (lift_sum (clamped body ''workers'' 1 1 4)) (\<lambda>workers. event_rounds 20 L most workers))"

definition api_queue_drain :: "'p local_parts \<Rightarrow> (string \<times> json) list \<Rightarrow> ('p local_system, unit) comp" where
  "api_queue_drain L body =
     bnd (lift_sum (clamped body ''max_messages'' 100 1 1000)) (\<lambda>most.
     bnd (lift_sum (clamped body ''workers'' 1 1 4)) (\<lambda>workers. drain_input L most workers))"

text \<open>A request of Slack, signed as Slack signs it.\<close>

definition signed_event :: "(string \<Rightarrow> string \<Rightarrow> string) \<Rightarrow> string option \<Rightarrow> string \<Rightarrow> string \<Rightarrow> string \<Rightarrow> (string \<times> json) list" where
  "signed_event hmac key kind timestamp raw = [(''body'', JStr raw), (''headers'', JObj
     [(''content-type'', JStr (if kind = ''interaction'' then ''application/x-www-form-urlencoded'' else ''application/json'')),
      (''x-slack-request-timestamp'', JStr timestamp),
      (''x-slack-signature'', JStr (''v0='' @ hmac (case key of None \<Rightarrow> [] | Some k \<Rightarrow> k) (''v0:'' @ timestamp @ '':'' @ raw)))])]"

definition inject :: "(string \<Rightarrow> string \<Rightarrow> string) \<Rightarrow> ((string \<times> string) list \<Rightarrow> string) \<Rightarrow> slack_wire \<Rightarrow> slack_secrets \<Rightarrow> 'q app_env \<Rightarrow> int
    \<Rightarrow> string \<Rightarrow> json \<Rightarrow> ('q app_worker, http_response) comp" where
  "inject hmac urlencode W K X now kind body =
     (let raw = (if kind = ''interaction'' then urlencode [(''payload'', dumps_spaced body)] else dumps_spaced body) in
      handle_request W K X (signed_event hmac (signing_secret K) kind (show_int (now div 1000000)) raw))"

text \<open>The catch-all route of \<^verbatim>\<open>local_api.py\<close>\<close>

datatype local_handler = Slack_ingress_handler | Anthropic_webhook_handler

definition buffered_api :: "string \<Rightarrow> local_handler option" where
  "buffered_api path = (if path \<in> {''slack/events'', ''slack/interactions''} then Some Slack_ingress_handler
     else if path = ''anthropic/webhook'' then Some Anthropic_webhook_handler else None)"

section \<open>What the harness guarantees\<close>

text \<open>A local runtime is only ever made on the loopback test database.\<close>

lemma local_runtime_is_loopback:
  assumes "runtime_of ip_ok env c = Inr (Local d k)"
  shows "\<exists>u. urlsplit ip_ok (database_url c) = Inr u \<and> url_hostname u \<in> {Some ''127.0.0.1'', Some ''localhost''}
     \<and> u_path u = ''/managed_agents_e2e'' \<and> database_url d = database_url c \<and> app_env c = ''e2e''"
  using assms by (auto simp: runtime_of_def validate_local_database_def local_settings_def bind_sum_Inr Let_def split: if_splits)

text \<open>A drain that returns leaves no wakeup: neither of the scheduler nor of the dispatcher.\<close>

lemma drained_quiet:
  "drain_rounds n E P seen h = (Inr (), g) \<Longrightarrow> wakeups (ha_sys g) = [] \<and> push_wakeups (ha_sys g) = []"
proof (induction n arbitrary: seen h)
  case 0
  then show ?case by (simp add: raise_err_def)
next
  case (Suc n)
  from Suc.prems obtain seen' u v where
    u: "run_scheduled E (wakeups (ha_sys h)) seen (h\<lparr>ha_sys := (ha_sys h)\<lparr>wakeups := []\<rparr>\<rparr>) = (Inr seen', u)"
    and v: "run_pushed E P (push_wakeups (ha_sys u)) (u\<lparr>ha_sys := (ha_sys u)\<lparr>push_wakeups := []\<rparr>\<rparr>) = (Inr (), v)"
    and rest: "(if wakeups (ha_sys h) = [] \<and> push_wakeups (ha_sys u) = [] then ret () else drain_rounds n E P seen') v = (Inr (), g)"
    by (auto simp: bnd_Inr take_scheduled_def take_pushed_def)
  show ?case
  proof (cases "wakeups (ha_sys h) = [] \<and> push_wakeups (ha_sys u) = []")
    case True
    then show ?thesis using u v rest by (auto simp: ret_def run_pushed_def)
  next
    case False
    with rest Suc.IH show ?thesis by simp
  qed
qed

lemma published_keep: "bus_world (fold (\<lambda>x b. snd (bus_publish x b)) ps b) = bus_world b"
  by (induction ps arbitrary: b) (auto simp: bus_publish_def Let_def split: prod.splits sum.splits)

lemma publish_pending_world:
  "wakeups (ha_sys (q_world (bus_world (publish_pending L b)))) = wakeups (ha_sys (q_world (bus_world b)))"
  "push_wakeups (ha_sys (q_world (bus_world (publish_pending L b)))) = push_wakeups (ha_sys (q_world (bus_world b)))"
  by (simp_all add: publish_pending_def Let_def published_keep split: prod.splits)

lemma controller_drained:
  assumes "drain_controller L b = (Inr (), c)"
  shows "wakeups (ha_sys (q_world (bus_world c))) = [] \<and> push_wakeups (ha_sys (q_world (bus_world c))) = []"
proof -
  obtain r h where h: "harness_drain (lp_env L) (lp_push L) (q_world (bus_world b)) = (r, h)" by fastforce
  with assms have "r = Inr ()" "c = publish_pending L (b\<lparr>bus_world := (bus_world b)\<lparr>q_world := h\<rparr>\<rparr>)" by (auto simp: drain_controller_def)
  with h drained_quiet [of 30 "lp_env L" "lp_push L" "[]"] show ?thesis by (simp add: harness_drain_def publish_pending_world)
qed

text \<open>The accounting of the bus survives a round.\<close>

definition keeps_account :: "'p local_system \<Rightarrow> 'p local_system \<Rightarrow> bool" where
  "keeps_account b c = (bus_ok [] b \<longrightarrow> bus_ok [] c)"

interpretation account: step_relation keeps_account
  by unfold_locales (auto simp: keeps_account_def)

lemma account_pending: "keeps_account b (publish_pending L (b\<lparr>bus_world := q\<rparr>))"
  by (simp add: keeps_account_def publish_pending_def Let_def bus_publishes_ok split: prod.splits)

lemma account_steps:
  "keeps keeps_account (bus_drain S most workers)" "keeps keeps_account (drain_input L most workers)" "keeps keeps_account (drain_controller L)"
  by (rule keepsI, simp add: bus_drain_def keeps_account_def bus_drain_loop_ok)
     (rule keepsI, simp add: drain_input_def drain_controller_def account_pending split: prod.splits)+

lemma account_rounds: "keeps keeps_account (event_rounds n L most workers)"
proof (induction n)
  case (Suc n)
  have "keeps keeps_account (\<lambda>b. let b = b\<lparr>bus_world := refresh_visibility (bus_world b)\<rparr> in if settled b then (Inr (), b) else event_rounds n L most workers b)"
    using keepsD [OF Suc] by (auto intro!: keepsI simp: Let_def keeps_account_def)
  then show ?case by (auto intro!: account.keeps_bnd account_steps)
qed (simp add: account.keeps_raise)

text \<open>A drain that returns leaves nothing to do: no event on the bus, no visible message, no wakeup; and every event ever published has its deliveries on record, the
  last one completed or failed.\<close>

theorem drained_system:
  assumes "events_drain L body b = (Inr (), c)" "bus_ok [] b"
  shows "settled c \<and> wakeups (ha_sys (q_world (bus_world c))) = [] \<and> push_wakeups (ha_sys (q_world (bus_world c))) = []
    \<and> (\<forall>i. 1 \<le> i \<and> i \<le> bus_counter c \<longrightarrow> records_of i (bus_history c) \<noteq> []
         \<and> br_status (last (records_of i (bus_history c))) \<in> {''completed'', ''failed''})"
proof -
  from assms(1) obtain most workers where run: "event_rounds 20 L most workers b = (Inr (), c)"
    by (auto simp: events_drain_def bnd_Inr lift_sum_Inr)
  have quiet: "settled c \<and> wakeups (ha_sys (q_world (bus_world c))) = [] \<and> push_wakeups (ha_sys (q_world (bus_world c))) = []"
    if "event_rounds n L most workers b = (Inr (), c)" for n b
    using that
  proof (induction n arbitrary: b)
    case (Suc n)
    from Suc.prems obtain u v where u: "drain_controller L u = (Inr (), v)"
      and v: "(let d = v\<lparr>bus_world := refresh_visibility (bus_world v)\<rparr> in if settled d then (Inr (), d) else event_rounds n L most workers d) = (Inr (), c)"
      by (auto simp: bnd_Inr)
    from controller_drained [OF u] v Suc.IH show ?case
      by (auto simp: Let_def refresh_visibility_def split: if_splits)
  qed (simp add: raise_err_def)
  have ok: "bus_ok [] c" using keeps_run [OF account_rounds run] assms(2) by (simp add: keeps_account_def)
  have "records_of i (bus_history c) \<noteq> [] \<and> br_status (last (records_of i (bus_history c))) \<in> {''completed'', ''failed''}"
    if "1 \<le> i" "i \<le> bus_counter c" for i
  proof -
    have "story_ok (events_of i (bus_queue c)) (records_of i (bus_history c))" using ok that by (simp add: bus_ok_def)
    then show ?thesis using quiet [OF run] by (simp add: story_ok_def settled_def events_of_def)
  qed
  with quiet [OF run] show ?thesis by blast
qed

text \<open>The harness adds nothing to what the controller does: a drain is a sequence of its transactions.\<close>

definition controlled :: "(nat \<Rightarrow> 'p env) \<Rightarrow> 'p harness \<Rightarrow> 'p harness \<Rightarrow> bool" where
  "controlled E h g = ((\<forall>n. well_behaved (E n)) \<longrightarrow> repo_step\<^sup>*\<^sup>* (ha_sys h) (ha_sys g))"

interpretation controlled: step_relation "controlled E" for E :: "nat \<Rightarrow> 'p env"
  by unfold_locales (auto simp: controlled_def)

lemma controlled_worker:
  assumes "\<And>e. keeps (steps_between e) (f e)"
  shows "keeps (controlled E) (as_worker E l f)"
proof (rule keepsI)
  fix h :: "'a harness"
  let ?e = "(E (ha_runs h))\<lparr>policy_of := ha_policy h\<rparr>"
  obtain r w where w: "f ?e (start_run (ha_sys h) l) = (r, w)" by fastforce
  have "steps_between ?e (start_run (ha_sys h) l) w" using keeps_run [OF assms w] .
  then show "controlled E h (snd (as_worker E l f h))"
    using w by (simp add: as_worker_def controlled_def steps_between_def well_behaved_def start_run_def)
qed

lemma controlled_taken: "keeps (controlled E) take_scheduled" "keeps (controlled E) take_pushed"
  by (auto intro!: keepsI r_into_rtranclp repo_step.elsewhere simp: take_scheduled_def take_pushed_def controlled_def same_tables_def)

lemma controlled_scheduled: "keeps (controlled E) (run_scheduled E ws seen)"
  by (induction E ws seen rule: run_scheduled.induct) (auto intro!: controlled.keeps_bnd controlled.keeps_ret controlled_worker between.kept_run_once)

lemma controlled_pushed: "keeps (controlled E) (run_pushed E P ws)"
  unfolding run_pushed_def by (auto intro!: controlled.keeps_for_m controlled_worker actor_dispatch split: prod.splits)

lemma controlled_rounds: "keeps (controlled E) (drain_rounds n E P seen)"
  by (induction n arbitrary: seen)
     (auto intro!: controlled.keeps_bnd controlled.keeps_raise controlled.keeps_ret controlled_taken controlled_scheduled controlled_pushed)

theorem harness_sound:
  assumes "\<forall>n. well_behaved (E n)" "schema_ok (ha_sys h)" "harness_drain E P h = (r, g)"
  shows "schema_ok (ha_sys g)"
  using keeps_run [OF controlled_rounds assms(3) [unfolded harness_drain_def]] assms(1,2) schema_ok_steps by (auto simp: controlled_def)

text \<open>The law of the signature check: a fresh timestamp with the \<open>v0\<close> signature of the secret is valid. An injected request is then read like one of Slack.\<close>

lemma injected_request_is_read:
  assumes key: "signing_secret K = Some key" "key \<noteq> []"
    and law: "\<And>raw. signature_valid W key raw ts (''v0='' @ hmac key (''v0:'' @ ts @ '':'' @ raw))" and "ts \<noteq> []" "raw \<noteq> []"
  shows "handle_request W K X (signed_event hmac (signing_secret K) kind ts raw) w
    = (case read_payload W K (if kind = ''interaction'' then ''application/x-www-form-urlencoded'' else ''application/json'') raw of
         Inl e \<Rightarrow> if invalid_payload e then ret (response 400 (JObj [(''error'', JStr ''invalid payload'')])) else raise_err e
       | Inr (Challenge c) \<Rightarrow> ret (response 200 (JObj [(''challenge'', JStr c)]))
       | Inr (Normalized None) \<Rightarrow> ret (response 200 (JObj [(''ok'', JBool True), (''ignored'', JBool True)]))
       | Inr (Normalized (Some e)) \<Rightarrow> bnd (call (app_rt X) (publish e)) (\<lambda>_. ret (response 200 (JObj [(''ok'', JBool True)])))) w"
proof -
  have "raw_body W (signed_event hmac (signing_secret K) kind ts raw) = Inr raw"
    using assms by (simp add: signed_event_def raw_body_def dict_get_def py_or_def py_true_def)
  moreover have "py_lower ''content-type'' = ''content-type''" "py_lower ''x-slack-request-timestamp'' = ''x-slack-request-timestamp''"
    "py_lower ''x-slack-signature'' = ''x-slack-signature''" by code_simp+
  then have "headers W (signed_event hmac (signing_secret K) kind ts raw) = Inr
     [(''content-type'', if kind = ''interaction'' then ''application/x-www-form-urlencoded'' else ''application/json''),
      (''x-slack-request-timestamp'', ts), (''x-slack-signature'', ''v0='' @ hmac key (''v0:'' @ ts @ '':'' @ raw))]"
    using key by (simp add: signed_event_def headers_def header_pairs_def py_dict_def dict_get_def py_or_def py_true_def)
  moreover have "verify_slack_signature W key (Some ts) (Some (''v0='' @ hmac key (''v0:'' @ ts @ '':'' @ raw))) raw"
    using law assms(4) by (simp add: verify_slack_signature_def truthy_def)
  ultimately show ?thesis using key by (simp add: handle_request_def truthy_def)
qed

end
