(* ===== verification/Timing.thy ===== *)
theory Timing
  imports Prelude
begin

text \<open>
  \<^verbatim>\<open>observability.py\<close>: the timing records of synchronous work that runs on the executor's threads (\<open>blocking\<close>), and the task they are filed under (\<open>task_scope\<close>).
  A call and the coroutine that waits for it end separately: a waiter that is cancelled does not stop a call that runs already, and withdraws one that
  does not. Any interleaving of the threads and waiters is a path of \<open>timing_step\<close>. Times are microseconds, so that milliseconds with three places are exact. The
  number of the executor's threads is not modelled.
\<close>

section \<open>Records\<close>

datatype call_stage = Call_queued int | Call_running int | Call_finished | Call_withdrawn

datatype waiter = Waiting_call | Waiter_cancelled | Waiter_answered

record span =
  sp_id :: string
  sp_operation :: string
  sp_task :: "string option"
  sp_stage :: call_stage
  sp_waiter :: waiter

datatype timing_kind =
    Blocking_queued
  | Blocking_started int "string \<Rightarrow> nat option"
  | Blocking_finished int "string option" "string \<Rightarrow> nat option"
  | Blocking_waiter_cancelled

record timing_record =
  tr_kind :: timing_kind
  tr_task :: "string option"
  tr_operation :: string
  tr_span :: string

record timing =
  ti_clock :: int
  ti_active :: "string \<Rightarrow> nat"
  ti_spans :: "span list"
  ti_log :: "timing_record list"

definition no_timing :: "int \<Rightarrow> timing" where
  "no_timing now = \<lparr>ti_clock = now, ti_active = (\<lambda>_. 0), ti_spans = [], ti_log = []\<rparr>"

text \<open>\<open>dict(+_active)\<close>\<close>

definition positive :: "(string \<Rightarrow> nat) \<Rightarrow> string \<Rightarrow> nat option" where
  "positive f = (\<lambda>op. if f op = 0 then None else Some (f op))"

definition emitted :: "timing_kind \<Rightarrow> span \<Rightarrow> timing \<Rightarrow> timing" where
  "emitted k p s = s\<lparr>ti_log := ti_log s @ [\<lparr>tr_kind = k, tr_task = sp_task p, tr_operation = sp_operation p, tr_span = sp_id p\<rparr>]\<rparr>"

section \<open>The steps of a call\<close>

definition queue_call :: "string \<Rightarrow> string option \<Rightarrow> string \<Rightarrow> timing \<Rightarrow> timing" where
  "queue_call operation task new_id s =
     (let p = \<lparr>sp_id = new_id, sp_operation = operation, sp_task = task, sp_stage = Call_queued (ti_clock s), sp_waiter = Waiting_call\<rparr>
      in emitted Blocking_queued p (s\<lparr>ti_spans := ti_spans s @ [p]\<rparr>))"

definition put_span :: "nat \<Rightarrow> span \<Rightarrow> timing \<Rightarrow> timing" where
  "put_span i p s = s\<lparr>ti_spans := (ti_spans s)[i := p]\<rparr>"

definition start_call :: "nat \<Rightarrow> int \<Rightarrow> timing \<Rightarrow> timing" where
  "start_call i queued s =
     (let p = (ti_spans s ! i)\<lparr>sp_stage := Call_running (ti_clock s)\<rparr>;
          active = (ti_active s)(sp_operation p := ti_active s (sp_operation p) + 1)
      in emitted (Blocking_started (ti_clock s - queued) (positive active)) p (put_span i p (s\<lparr>ti_active := active\<rparr>)))"

definition finish_call :: "nat \<Rightarrow> int \<Rightarrow> string option \<Rightarrow> timing \<Rightarrow> timing" where
  "finish_call i started error_type s =
     (let p = (ti_spans s ! i)\<lparr>sp_stage := Call_finished\<rparr>;
          active = (ti_active s)(sp_operation p := ti_active s (sp_operation p) - 1)
      in emitted (Blocking_finished (ti_clock s - started) error_type (positive active)) p (put_span i p (s\<lparr>ti_active := active\<rparr>)))"

definition cancel_waiter :: "nat \<Rightarrow> timing \<Rightarrow> timing" where
  "cancel_waiter i s = (let q = (ti_spans s ! i)\<lparr>sp_waiter := Waiter_cancelled\<rparr> in emitted Blocking_waiter_cancelled q (put_span i q s))"

text \<open>The executor gives up a call whose waiter is cancelled when it hears of that before a thread has taken the call.\<close>

definition withdraw_call :: "nat \<Rightarrow> timing \<Rightarrow> timing" where
  "withdraw_call i s = put_span i ((ti_spans s ! i)\<lparr>sp_stage := Call_withdrawn\<rparr>) s"

definition answer_waiter :: "nat \<Rightarrow> timing \<Rightarrow> timing" where
  "answer_waiter i s = put_span i ((ti_spans s ! i)\<lparr>sp_waiter := Waiter_answered\<rparr>) s"

text \<open>Identifiers are fresh, as \<open>uuid4\<close> gives them.\<close>

inductive timing_step :: "timing \<Rightarrow> timing \<Rightarrow> bool" where
  tick: "0 \<le> d \<Longrightarrow> timing_step s (s\<lparr>ti_clock := ti_clock s + d\<rparr>)"
| queue: "new_id \<notin> sp_id ` set (ti_spans s) \<Longrightarrow> timing_step s (queue_call operation task new_id s)"
| start: "i < length (ti_spans s) \<Longrightarrow> sp_stage (ti_spans s ! i) = Call_queued queued \<Longrightarrow> timing_step s (start_call i queued s)"
| finish: "i < length (ti_spans s) \<Longrightarrow> sp_stage (ti_spans s ! i) = Call_running started \<Longrightarrow> timing_step s (finish_call i started e s)"
| cancel: "i < length (ti_spans s) \<Longrightarrow> sp_waiter (ti_spans s ! i) = Waiting_call \<Longrightarrow> timing_step s (cancel_waiter i s)"
| withdraw: "i < length (ti_spans s) \<Longrightarrow> sp_waiter (ti_spans s ! i) = Waiter_cancelled \<Longrightarrow> sp_stage (ti_spans s ! i) = Call_queued queued
    \<Longrightarrow> timing_step s (withdraw_call i s)"
| answer: "i < length (ti_spans s) \<Longrightarrow> sp_waiter (ti_spans s ! i) = Waiting_call \<Longrightarrow> sp_stage (ti_spans s ! i) = Call_finished
    \<Longrightarrow> timing_step s (answer_waiter i s)"

text \<open>\<open>task_scope\<close>: the variable of the context has its old value again, however the body ends.\<close>

definition task_scope :: "string \<Rightarrow> (string option \<times> 's, 'a) comp \<Rightarrow> (string option \<times> 's, 'a) comp" where
  "task_scope task_id m = (\<lambda>(old, s). case m (Some task_id, s) of (r, (_, t)) \<Rightarrow> (r, (old, t)))"

lemma task_scope_restores: "fst (snd (task_scope task_id m (old, s))) = old"
  by (simp add: task_scope_def split: prod.splits)

section \<open>The counter and the records\<close>

definition runs :: "string \<Rightarrow> span \<Rightarrow> bool" where
  "runs op p = (sp_operation p = op \<and> (case sp_stage p of Call_running _ \<Rightarrow> True | _ \<Rightarrow> False))"

text \<open>The kinds of records that a span has, in order, leaving out the cancellation of its waiter.\<close>

datatype phase = Was_queued | Was_started | Was_finished

definition phase_of :: "timing_kind \<Rightarrow> phase option" where
  "phase_of k = (case k of Blocking_queued \<Rightarrow> Some Was_queued | Blocking_started _ _ \<Rightarrow> Some Was_started
     | Blocking_finished _ _ _ \<Rightarrow> Some Was_finished | Blocking_waiter_cancelled \<Rightarrow> None)"

definition phases :: "string \<Rightarrow> timing_record list \<Rightarrow> phase list" where
  "phases i log = List.map_filter (\<lambda>r. phase_of (tr_kind r)) (filter (\<lambda>r. tr_span r = i) log)"

definition phases_due :: "call_stage \<Rightarrow> phase list" where
  "phases_due g = (case g of Call_queued _ \<Rightarrow> [Was_queued] | Call_running _ \<Rightarrow> [Was_queued, Was_started]
     | Call_finished \<Rightarrow> [Was_queued, Was_started, Was_finished] | Call_withdrawn \<Rightarrow> [Was_queued])"

definition cancellations :: "string \<Rightarrow> timing_record list \<Rightarrow> nat" where
  "cancellations i log = length (filter (\<lambda>r. tr_span r = i \<and> tr_kind r = Blocking_waiter_cancelled) log)"

definition timing_ok :: "timing \<Rightarrow> bool" where
  "timing_ok s = (distinct (map sp_id (ti_spans s))
     \<and> (\<forall>op. ti_active s op = length (filter (runs op) (ti_spans s)))
     \<and> (\<forall>p \<in> set (ti_spans s). phases (sp_id p) (ti_log s) = phases_due (sp_stage p)
           \<and> cancellations (sp_id p) (ti_log s) = (if sp_waiter p = Waiter_cancelled then 1 else 0)
           \<and> (sp_stage p = Call_withdrawn \<longrightarrow> sp_waiter p = Waiter_cancelled))
     \<and> tr_span ` set (ti_log s) \<subseteq> sp_id ` set (ti_spans s))"

lemma phases_append: "phases i (log @ [r]) = phases i log @ (if tr_span r = i then (case phase_of (tr_kind r) of None \<Rightarrow> [] | Some x \<Rightarrow> [x]) else [])"
  by (simp add: phases_def List.map_filter_def split: option.split)

lemma cancellations_append:
  "cancellations i (log @ [r]) = cancellations i log + (if tr_span r = i \<and> tr_kind r = Blocking_waiter_cancelled then 1 else 0)"
  by (simp add: cancellations_def)

lemma phases_none: "i \<notin> tr_span ` set log \<Longrightarrow> phases i log = [] \<and> cancellations i log = 0"
  by (auto simp: phases_def cancellations_def filter_empty_conv List.map_filter_def)

lemma count_update:
  assumes "i < length xs"
  shows "length (filter P (xs[i := x])) + (if P (xs ! i) then 1 else 0) = length (filter P xs) + (if P x then 1 else 0)"
  using assms
proof (induction xs arbitrary: i)
  case (Cons y ys)
  then show ?case by (cases i) auto
qed simp

text \<open>A step of one span: its record is added, the others stay as they are.\<close>

lemma span_step:
  assumes ok: "timing_ok s" and i: "i < length (ti_spans s)" and p: "p = ti_spans s ! i"
    and q: "sp_id q = sp_id p" "sp_operation q = sp_operation p"
    and log: "(log = ti_log s \<and> k = None) \<or> (\<exists>k' t. k = Some k' \<and> log = ti_log s @ [\<lparr>tr_kind = k', tr_task = t, tr_operation = sp_operation q, tr_span = sp_id q\<rparr>])"
    and due: "phases_due (sp_stage q) = phases_due (sp_stage p) @ (case Option.bind k phase_of of None \<Rightarrow> [] | Some x \<Rightarrow> [x])"
    and waiter: "(sp_waiter q = Waiter_cancelled) = (sp_waiter p = Waiter_cancelled \<or> k = Some Blocking_waiter_cancelled)"
      "k = Some Blocking_waiter_cancelled \<Longrightarrow> sp_waiter p \<noteq> Waiter_cancelled"
      "sp_stage q = Call_withdrawn \<Longrightarrow> sp_waiter q = Waiter_cancelled"
    and active: "\<And>op. act op + (if runs op p then 1 else 0) = ti_active s op + (if runs op q then 1 else 0)"
  shows "timing_ok (s\<lparr>ti_active := act, ti_spans := (ti_spans s)[i := q], ti_log := log\<rparr>)"
proof -
  have ids: "map sp_id ((ti_spans s)[i := q]) = map sp_id (ti_spans s)"
    using i p q by (simp add: map_update list_update_same_conv)
  have counts: "act op = length (filter (runs op) ((ti_spans s)[i := q]))" for op
    using count_update [OF i, of "runs op" q] active [of op] ok p by (simp add: timing_ok_def)
  have each: "phases (sp_id r) log = phases_due (sp_stage r) \<and> cancellations (sp_id r) log = (if sp_waiter r = Waiter_cancelled then 1 else 0)
      \<and> (sp_stage r = Call_withdrawn \<longrightarrow> sp_waiter r = Waiter_cancelled)" if r: "r \<in> set ((ti_spans s)[i := q])" for r
  proof (cases "r = q")
    case True
    have "p \<in> set (ti_spans s)" using i p by simp
    then have "phases (sp_id p) (ti_log s) = phases_due (sp_stage p)"
      "cancellations (sp_id p) (ti_log s) = (if sp_waiter p = Waiter_cancelled then 1 else 0)" using ok by (auto simp: timing_ok_def)
    with True log due waiter q(1) show ?thesis by (auto simp: phases_append cancellations_append)
  next
    case False
    with r obtain j where j: "j < length (ti_spans s)" "j \<noteq> i" "r = ti_spans s ! j"
      by (metis in_set_conv_nth length_list_update nth_list_update_eq nth_list_update_neq)
    then have other: "sp_id r \<noteq> sp_id q" using ok i p q(1) by (simp add: timing_ok_def distinct_conv_nth)
    have "r \<in> set (ti_spans s)" using j by simp
    then have "phases (sp_id r) (ti_log s) = phases_due (sp_stage r)" "cancellations (sp_id r) (ti_log s) = (if sp_waiter r = Waiter_cancelled then 1 else 0)"
      "sp_stage r = Call_withdrawn \<longrightarrow> sp_waiter r = Waiter_cancelled" using ok by (auto simp: timing_ok_def)
    with log other show ?thesis by (auto simp: phases_append cancellations_append)
  qed
  have owner: "sp_id ` set ((ti_spans s)[i := q]) = sp_id ` set (ti_spans s)" using ids by (metis set_map)
  have "sp_id q \<in> sp_id ` set (ti_spans s)" using i p q(1) by simp
  moreover have "tr_span ` set (ti_log s) \<subseteq> sp_id ` set (ti_spans s)" using ok by (simp add: timing_ok_def)
  moreover have "tr_span ` set log \<subseteq> insert (sp_id q) (tr_span ` set (ti_log s))" using log by (elim disjE exE conjE) (simp_all add: subset_insertI)
  ultimately have "tr_span ` set log \<subseteq> sp_id ` set ((ti_spans s)[i := q])" unfolding owner by (meson insert_subset subset_trans)
  with ids counts each ok show ?thesis by (simp add: timing_ok_def)
qed

lemma queue_ok:
  assumes ok: "timing_ok s" and fresh: "new_id \<notin> sp_id ` set (ti_spans s)"
  shows "timing_ok (queue_call operation task new_id s)"
proof -
  let ?p = "\<lparr>sp_id = new_id, sp_operation = operation, sp_task = task, sp_stage = Call_queued (ti_clock s), sp_waiter = Waiting_call\<rparr>"
  have none: "phases new_id (ti_log s) = [] \<and> cancellations new_id (ti_log s) = 0"
    using ok fresh by (intro phases_none) (auto simp: timing_ok_def)
  have old: "sp_id r \<noteq> new_id" if "r \<in> set (ti_spans s)" for r using fresh that by auto
  show ?thesis using ok fresh none old
    by (auto simp: timing_ok_def queue_call_def emitted_def Let_def phases_append cancellations_append phases_due_def phase_of_def runs_def)
qed

lemma running_counted:
  assumes "timing_ok s" "i < length (ti_spans s)" "sp_stage (ti_spans s ! i) = Call_running started"
  shows "0 < ti_active s (sp_operation (ti_spans s ! i))"
proof -
  have "ti_spans s ! i \<in> set (filter (runs (sp_operation (ti_spans s ! i))) (ti_spans s))" using assms by (simp add: runs_def)
  then show ?thesis using assms(1) by (metis length_pos_if_in_set timing_ok_def)
qed

theorem timing_step_ok: "timing_step s t \<Longrightarrow> timing_ok s \<Longrightarrow> timing_ok t"
proof (induction rule: timing_step.induct)
  case (tick d s)
  then show ?case by (simp add: timing_ok_def)
next
  case (queue new_id s operation task)
  then show ?case by (simp add: queue_ok)
next
  case (start i s queued)
  let ?p = "ti_spans s ! i" and ?q = "(ti_spans s ! i)\<lparr>sp_stage := Call_running (ti_clock s)\<rparr>"
  have "timing_ok (s\<lparr>ti_active := (ti_active s)(sp_operation ?p := ti_active s (sp_operation ?p) + 1), ti_spans := (ti_spans s)[i := ?q],
      ti_log := ti_log (start_call i queued s)\<rparr>)"
    by (rule span_step [OF start(3,1) refl, where k = "Some (Blocking_started (ti_clock s - queued) (positive ((ti_active s)(sp_operation ?p := ti_active s (sp_operation ?p) + 1))))"])
       (use start(2) in \<open>auto simp: start_call_def emitted_def put_span_def Let_def phases_due_def phase_of_def runs_def\<close>)
  then show ?case by (simp add: start_call_def emitted_def put_span_def Let_def)
next
  case (finish i s started e)
  let ?p = "ti_spans s ! i" and ?q = "(ti_spans s ! i)\<lparr>sp_stage := Call_finished\<rparr>"
  have "timing_ok (s\<lparr>ti_active := (ti_active s)(sp_operation ?p := ti_active s (sp_operation ?p) - 1), ti_spans := (ti_spans s)[i := ?q],
      ti_log := ti_log (finish_call i started e s)\<rparr>)"
    by (rule span_step [OF finish(3,1) refl, where k = "Some (Blocking_finished (ti_clock s - started) e (positive ((ti_active s)(sp_operation ?p := ti_active s (sp_operation ?p) - 1))))"])
       (use finish(2) running_counted [OF finish(3,1,2)] in \<open>auto simp: finish_call_def emitted_def put_span_def Let_def phases_due_def phase_of_def runs_def\<close>)
  then show ?case by (simp add: finish_call_def emitted_def put_span_def Let_def)
next
  case (cancel i s)
  let ?q = "(ti_spans s ! i)\<lparr>sp_waiter := Waiter_cancelled\<rparr>"
  have stage: "sp_stage (ti_spans s ! i) \<noteq> Call_withdrawn" using cancel(1-3) by (auto simp: timing_ok_def)
  have "timing_ok (s\<lparr>ti_active := ti_active s, ti_spans := (ti_spans s)[i := ?q], ti_log := ti_log (cancel_waiter i s)\<rparr>)"
    by (rule span_step [OF cancel(3,1) refl, where k = "Some Blocking_waiter_cancelled"])
       (use cancel(2) in \<open>auto simp: cancel_waiter_def emitted_def put_span_def Let_def phase_of_def runs_def\<close>)
  then show ?case by (simp add: cancel_waiter_def emitted_def put_span_def Let_def)
next
  case (withdraw i s queued)
  have "timing_ok (s\<lparr>ti_active := ti_active s, ti_spans := (ti_spans s)[i := (ti_spans s ! i)\<lparr>sp_stage := Call_withdrawn\<rparr>], ti_log := ti_log s\<rparr>)"
    by (rule span_step [OF withdraw(4,1) refl, where k = None]) (use withdraw(2,3) in \<open>auto simp: phases_due_def runs_def\<close>)
  then show ?case by (simp add: withdraw_call_def put_span_def)
next
  case (answer i s)
  have "timing_ok (s\<lparr>ti_active := ti_active s, ti_spans := (ti_spans s)[i := (ti_spans s ! i)\<lparr>sp_waiter := Waiter_answered\<rparr>], ti_log := ti_log s\<rparr>)"
    by (rule span_step [OF answer(4,1) refl, where k = None]) (use answer(2,3) in \<open>auto simp: runs_def\<close>)
  then show ?case by (simp add: answer_waiter_def put_span_def)
qed

text \<open>On every path the counter is the number of the calls that run, and a call that has finished was recorded as queued, started and finished, once each and in this order,
  also when its waiter was cancelled in between.\<close>

theorem timing_sound:
  assumes "timing_step\<^sup>*\<^sup>* (no_timing now) s"
  shows "ti_active s op = length (filter (runs op) (ti_spans s))
    \<and> (\<forall>p \<in> set (ti_spans s). sp_stage p = Call_finished \<longrightarrow> phases (sp_id p) (ti_log s) = [Was_queued, Was_started, Was_finished])"
proof -
  have "timing_ok s" using assms
  proof (induction rule: rtranclp_induct)
    case base
    then show ?case by (simp add: timing_ok_def no_timing_def)
  qed (blast intro: timing_step_ok)
  then show ?thesis by (auto simp: timing_ok_def phases_due_def)
qed

end
