(* ===== verification/Release_Checks.thy ===== *)
theory Release_Checks
  imports Configuration Text_Patterns
begin

text \<open>
  \<^verbatim>\<open>scripts/build_lambdas.py\<close>, the build of the Lambda packages in a container, and \<^verbatim>\<open>scripts/scan_secrets.py\<close>, the scan of the tracked files. Commands, files and the
  archive are a parameter over a world; the lock between builds, the environment of Python and the text of progress are not modelled.
\<close>

section \<open>Building the packages\<close>

datatype build_action = Ran "string list" | Removed string | Extracted "string list"

record 'w build =
  bd_world :: 'w
  bd_trace :: "build_action list"

text \<open>A command gives its output or \<open>CalledProcessError\<close>. \<open>bp_context\<close> copies the sources, the Dockerfile, the policy service and the launchers into an empty directory.\<close>

record 'w build_port =
  bp_exec :: "string list \<Rightarrow> 'w \<Rightarrow> (error + string) \<times> 'w"
  bp_requirements :: "'w \<Rightarrow> error + string"
  bp_context :: "'w \<Rightarrow> (error + unit) \<times> 'w"
  bp_remove :: "string \<Rightarrow> 'w \<Rightarrow> 'w"
  bp_members :: "'w \<Rightarrow> error + string list"
  bp_extract :: "'w \<Rightarrow> (error + unit) \<times> 'w"
  bp_sha256 :: "string \<Rightarrow> string"
  bp_directory :: string

definition acting :: "build_action \<Rightarrow> ('w build, unit) comp" where
  "acting a = (\<lambda>s. (Inr (), s\<lparr>bd_trace := bd_trace s @ [a]\<rparr>))"

definition in_world :: "('w \<Rightarrow> (error + 'a) \<times> 'w) \<Rightarrow> ('w build, 'a) comp" where
  "in_world f = (\<lambda>s. case f (bd_world s) of (r, w) \<Rightarrow> (r, s\<lparr>bd_world := w\<rparr>))"

definition captured_output :: "'w build_port \<Rightarrow> string list \<Rightarrow> ('w build, string) comp" where
  "captured_output P command = bnd (acting (Ran command)) (\<lambda>_. in_world (bp_exec P command))"

definition run_tool :: "'w build_port \<Rightarrow> string list \<Rightarrow> ('w build, unit) comp" where
  "run_tool P command = bnd (captured_output P command) (\<lambda>_. ret ())"

text \<open>\<open>json.loads(out)[0].get("RepoDigests", [])\<close>\<close>

fun json_strings :: "json list \<Rightarrow> error + string list" where
  "json_strings [] = Inr []"
| "json_strings (JStr s # vs) = bind_sum (json_strings vs) (\<lambda>ss. Inr (s # ss))"
| "json_strings (_ # vs) = Inl (AttributeError ''startswith'')"

definition repo_digests :: "string \<Rightarrow> error + string list" where
  "repo_digests out = bind_sum (json_loads out) (\<lambda>v. case v of
     JArr (JObj kvs # _) \<Rightarrow> (case map_of kvs ''RepoDigests'' of
         None \<Rightarrow> Inr [] | Some (JArr vs) \<Rightarrow> json_strings vs | Some _ \<Rightarrow> Inl (TypeError ''not iterable''))
   | JArr [] \<Rightarrow> Inl (RuntimeError ''IndexError'')
   | JArr _ \<Rightarrow> Inl (AttributeError ''get'')
   | _ \<Rightarrow> Inl (TypeError ''not subscriptable''))"

definition is_process_error :: "error \<Rightarrow> bool" where
  "is_process_error e = (case e of CalledProcessError _ \<Rightarrow> True | _ \<Rightarrow> False)"

text \<open>The image is pulled only when it is not installed.\<close>

definition image_digests :: "'w build_port \<Rightarrow> string \<Rightarrow> ('w build, string list) comp" where
  "image_digests P tag = (let inspect = bnd (captured_output P [''docker'', ''image'', ''inspect'', tag]) (\<lambda>out. lift_sum (repo_digests out)) in
     try_except inspect (\<lambda>e. if is_process_error e
       then Some (bnd (run_tool P [''docker'', ''pull'', ''--platform'', ''linux/amd64'', tag]) (\<lambda>_. inspect)) else None))"

definition base_image :: "environ \<Rightarrow> string" where
  "base_image env = getenv env ''LAMBDA_BUILD_IMAGE'' ''public.ecr.aws/sam/build-python3.14:latest-x86_64''"

definition rust_image :: "environ \<Rightarrow> string" where
  "rust_image env = getenv env ''OPENAPPA_BUILD_IMAGE'' ''rust:1.99-alpine''"

definition resolved_digest :: "string \<Rightarrow> string list \<Rightarrow> error + string" where
  "resolved_digest base digests = (case find (starts_with (hd (split_on (CHR '':'') base) @ ''@'')) digests of
     None \<Rightarrow> Inl (RuntimeError ''Build image did not resolve to a repository digest.'')
   | Some d \<Rightarrow> Inr d)"

definition rust_digest :: "string list \<Rightarrow> error + string" where
  "rust_digest digests = (case digests of
     d # _ \<Rightarrow> if d = [] then Inl (RuntimeError ''Rust build image did not resolve to a repository digest.'') else Inr d
   | [] \<Rightarrow> Inl (RuntimeError ''Rust build image did not resolve to a repository digest.''))"

definition export_command :: "string list" where
  "export_command = [''uv'', ''export'', ''--quiet'', ''--directory'', ''backend'', ''--locked'', ''--no-dev'', ''--no-emit-project'', ''--output-file'',
     ''../dist/python-requirements.txt'']"

definition build_command :: "string \<Rightarrow> string \<Rightarrow> string \<Rightarrow> string \<Rightarrow> string list \<Rightarrow> string list" where
  "build_command directory base rust cache_key extra =
     [''docker'', ''buildx'', ''build'', ''--platform'', ''linux/amd64'', ''--build-arg'', ''BASE_IMAGE='' @ base, ''--build-arg'', ''RUST_BUILD_IMAGE='' @ rust,
      ''--build-arg'', ''DEPENDENCY_CACHE_KEY='' @ cache_key, ''--progress=plain'', ''--output'', ''type=tar,dest='' @ directory @ ''/artifacts.tar'']
     @ extra @ [directory @ ''/context'']"

text \<open>\<open>Path(name)\<close>: empty parts and single dots are dropped.\<close>

definition pure_parts :: "string \<Rightarrow> string list" where
  "pure_parts name = filter (\<lambda>p. p \<noteq> [] \<and> p \<noteq> ''.'') (split_on (CHR ''/'') name)"

definition member_ok :: "string \<Rightarrow> bool" where
  "member_ok name = (let parts = pure_parts name in
     \<not> (starts_with ''/'' name \<or> ''..'' \<in> set parts \<or> (parts \<noteq> [] \<and> hd parts \<notin> {''python-package'', ''lambdas''})))"

text \<open>Up to the build nothing of the last build is touched.\<close>

definition build_archive :: "'w build_port \<Rightarrow> environ \<Rightarrow> string list \<Rightarrow> ('w build, unit) comp" where
  "build_archive P env extra =
     bnd (image_digests P (base_image env)) (\<lambda>digests.
     bnd (lift_sum (resolved_digest (base_image env) digests)) (\<lambda>resolved.
     bnd (image_digests P (rust_image env)) (\<lambda>rust_digests.
     bnd (lift_sum (rust_digest rust_digests)) (\<lambda>rust.
     bnd (run_tool P export_command) (\<lambda>_.
     bnd (in_world (\<lambda>w. (bp_requirements P w, w))) (\<lambda>requirements.
     bnd (in_world (bp_context P)) (\<lambda>_.
     run_tool P (build_command (bp_directory P) resolved rust (bp_sha256 P (requirements @ resolved @ ''python3.14-linux-amd64'')) extra))))))))"

definition remove_package :: "'w build_port \<Rightarrow> string \<Rightarrow> ('w build, unit) comp" where
  "remove_package P name = bnd (acting (Removed name)) (\<lambda>_. in_world (\<lambda>w. (Inr (), bp_remove P name w)))"

definition publish_archive :: "'w build_port \<Rightarrow> ('w build, unit) comp" where
  "publish_archive P =
     bnd (for_m [''python-package'', ''lambdas''] (remove_package P)) (\<lambda>_.
     bnd (in_world (\<lambda>w. (bp_members P w, w))) (\<lambda>members.
     if \<not> list_all member_ok members then raise_err (RuntimeError ''Unexpected build artifact path.'')
     else bnd (acting (Extracted members)) (\<lambda>_. in_world (bp_extract P))))"

definition build_main :: "'w build_port \<Rightarrow> environ \<Rightarrow> string list \<Rightarrow> ('w build, unit) comp" where
  "build_main P env extra =
     bnd (build_archive P env extra) (\<lambda>_.
     bnd (publish_archive P) (\<lambda>_. run_tool P [''bash'', ''scripts/validate_lambda_artifacts.sh'']))"

section \<open>What a build touches\<close>

text \<open>A part of the trace that follows a rule for its actions.\<close>

definition obeys :: "(build_action \<Rightarrow> bool) \<Rightarrow> 'w build \<Rightarrow> 'w build \<Rightarrow> bool" where
  "obeys ok s t = (\<exists>added. bd_trace t = bd_trace s @ added \<and> list_all ok added)"

interpretation obeys: step_relation "obeys ok" for ok
proof
  show "obeys ok s s" for s :: "'a build" by (simp add: obeys_def)
next
  show "obeys ok s u" if "obeys ok s t" "obeys ok t u" for s t u :: "'a build"
    using that by (auto simp: obeys_def)
qed

lemma obeys_acting: "ok a \<Longrightarrow> keeps (obeys ok) (acting a)"
  by (rule keepsI) (simp add: acting_def obeys_def)

lemma obeys_world: "keeps (obeys ok) (in_world f)"
  by (rule keepsI) (simp add: in_world_def obeys_def split: prod.splits)

lemma obeys_capture: "ok (Ran c) \<Longrightarrow> keeps (obeys ok) (captured_output P c)"
  unfolding captured_output_def by (intro obeys.keeps_bnd obeys_acting obeys_world)

lemma obeys_run: "ok (Ran c) \<Longrightarrow> keeps (obeys ok) (run_tool P c)"
  unfolding run_tool_def by (intro obeys.keeps_bnd obeys_capture obeys.keeps_ret)

lemma obeys_digests: "(\<And>c. ok (Ran c)) \<Longrightarrow> keeps (obeys ok) (image_digests P tag)"
  unfolding image_digests_def Let_def
  by (intro obeys.keeps_try_except obeys.keeps_bnd obeys_capture obeys.keeps_lift)
     (auto intro!: obeys.keeps_bnd obeys_capture obeys_run obeys.keeps_lift split: if_splits)

lemma obeys_archive: "(\<And>c. ok (Ran c)) \<Longrightarrow> keeps (obeys ok) (build_archive P env extra)"
  unfolding build_archive_def by (intro obeys.keeps_bnd obeys_digests obeys.keeps_lift obeys_run obeys_world)

text \<open>Until the container build has succeeded the packages of the last build are kept.\<close>

lemma failed_build_keeps_packages:
  assumes "build_archive P env extra s = (Inl e, t)"
  shows "build_main P env extra s = (Inl e, t)" "obeys (\<lambda>a. \<exists>c. a = Ran c) s t"
  using assms keeps_run [OF obeys_archive assms, of "\<lambda>a. \<exists>c. a = Ran c"] by (auto simp: build_main_def bnd_def)

text \<open>Whatever the archive holds, what is extracted from it stays below the two packages.\<close>

lemma obeys_publish: "keeps (obeys (\<lambda>a. case a of Extracted ms \<Rightarrow> list_all member_ok ms | _ \<Rightarrow> True)) (publish_archive P)" (is "keeps ?R _")
proof -
  have "keeps ?R (if \<not> list_all member_ok members then raise_err (RuntimeError ''Unexpected build artifact path.'')
     else bnd (acting (Extracted members)) (\<lambda>_. in_world (bp_extract P)))" for members
    by (cases "list_all member_ok members") (auto intro!: obeys.keeps_raise obeys.keeps_bnd obeys_acting obeys_world)
  then show ?thesis unfolding publish_archive_def remove_package_def
    by (intro obeys.keeps_bnd obeys.keeps_for_m obeys_acting obeys_world) simp_all
qed

lemma extracted_members_ok: "keeps (obeys (\<lambda>a. case a of Extracted ms \<Rightarrow> list_all member_ok ms | _ \<Rightarrow> True)) (build_main P env extra)"
  unfolding build_main_def by (intro obeys.keeps_bnd obeys_archive obeys_publish obeys_run) simp_all

text \<open>The directory that a path names below another one, as the system resolves it.\<close>

fun resolved_from :: "string list \<Rightarrow> string list \<Rightarrow> string list" where
  "resolved_from here [] = here"
| "resolved_from here (p # ps) =
     (if p = [] \<or> p = ''.'' then resolved_from here ps
      else if p = ''..'' then resolved_from (butlast here) ps
      else resolved_from (here @ [p]) ps)"

lemma resolved_without_dots:
  "''..'' \<notin> set (filter (\<lambda>p. p \<noteq> [] \<and> p \<noteq> ''.'') ps) \<Longrightarrow> resolved_from here ps = here @ filter (\<lambda>p. p \<noteq> [] \<and> p \<noteq> ''.'') ps"
  by (induction here ps rule: resolved_from.induct) auto

theorem member_stays_inside:
  assumes "member_ok name"
  shows "resolved_from target (split_on (CHR ''/'') name) = target @ pure_parts name
    \<and> (pure_parts name = [] \<or> hd (pure_parts name) \<in> {''python-package'', ''lambdas''})"
  using assms resolved_without_dots [of "split_on (CHR ''/'') name" target] by (auto simp: member_ok_def pure_parts_def Let_def)

section \<open>Scanning for secrets\<close>

text \<open>What a tracked path is now; a link to something that does not exist is absent.\<close>

datatype entry_node = Absent | Directory | Link | File_of string

datatype scan_end = Scan_refused string | Scan_code int

record finding =
  fi_rule :: string
  fi_file :: string
  fi_line :: int

record 'w scan_port =
  sn_executable :: "string option"
  sn_version :: "'w \<Rightarrow> (error + string) \<times> 'w"
  sn_tracked :: "'w \<Rightarrow> (error + string) \<times> 'w"
  sn_order :: "string list \<Rightarrow> string list"
  sn_entry :: "string \<Rightarrow> entry_node"
  sn_scan :: "(string \<times> string) list \<Rightarrow> 'w \<Rightarrow> int \<times> finding list option \<times> 'w"
  sn_directory :: string

definition scan_version :: string where
  "scan_version = ''8.24.3''"

definition removeprefix :: "string \<Rightarrow> string \<Rightarrow> string" where
  "removeprefix p s = (if starts_with p s then drop (length p) s else s)"

text \<open>\<open>set(paths) - {""}\<close> in an order of the set.\<close>

definition scan_names :: "'w scan_port \<Rightarrow> string \<Rightarrow> string list" where
  "scan_names P listing = filter (\<lambda>v. v \<noteq> []) (sn_order P (remdups (split_on (CHR 0x00) listing)))"

fun copy_tracked :: "(string \<Rightarrow> entry_node) \<Rightarrow> string list \<Rightarrow> (string \<times> string) list \<Rightarrow> error + (scan_end + (string \<times> string) list)" where
  "copy_tracked node [] copied = Inr (Inr copied)"
| "copy_tracked node (v # vs) copied = (case node v of
     Absent \<Rightarrow> copy_tracked node vs copied
   | Link \<Rightarrow> Inr (Inl (Scan_refused (''Secret scan refuses symlinks: '' @ v)))
   | Directory \<Rightarrow> Inl (OSError ''IsADirectoryError'')
   | File_of bytes \<Rightarrow> copy_tracked node vs (copied @ [(v, bytes)]))"

text \<open>\<open>relative_to\<close> of a path below the directory of the copies\<close>

definition relative_name :: "string \<Rightarrow> string \<Rightarrow> error + string" where
  "relative_name base p = (if starts_with (base @ ''/'') p then Inr (drop (length base + 1) p) else Inl (ValueError ''not in the subpath''))"

fun finding_lines :: "string \<Rightarrow> finding list \<Rightarrow> error + string list" where
  "finding_lines base [] = Inr []"
| "finding_lines base (f # fs) = bind_sum (relative_name base (fi_file f)) (\<lambda>p. bind_sum (finding_lines base fs) (\<lambda>ls.
     Inr ((fi_rule f @ '': '' @ p @ '':'' @ show_int (fi_line f)) # ls)))"

definition scan_copies :: "'w scan_port \<Rightarrow> (string \<times> string) list \<Rightarrow> ('w, scan_end \<times> string list) comp" where
  "scan_copies P copied = (\<lambda>w. case sn_scan P copied w of (code, report, w') \<Rightarrow>
     (case finding_lines (sn_directory P) (case report of None \<Rightarrow> [] | Some fs \<Rightarrow> fs) of Inl e \<Rightarrow> Inl e | Inr ls \<Rightarrow> Inr (Scan_code code, ls), w'))"

definition scan_main :: "'w scan_port \<Rightarrow> ('w, scan_end \<times> string list) comp" where
  "scan_main P = (case sn_executable P of
     None \<Rightarrow> ret (Scan_refused (''Install Gitleaks '' @ scan_version @ ''; see docs/testing.md.''), [])
   | Some exe \<Rightarrow> if exe = [] then ret (Scan_refused (''Install Gitleaks '' @ scan_version @ ''; see docs/testing.md.''), [])
     else bnd (sn_version P) (\<lambda>version.
       if removeprefix ''v'' (py_strip version) \<noteq> scan_version
       then ret (Scan_refused (''Use Gitleaks '' @ scan_version @ '' for reproducible scans.''), [])
       else bnd (sn_tracked P) (\<lambda>listing.
         bnd (lift_sum (copy_tracked (sn_entry P) (scan_names P listing) [])) (\<lambda>r. case r of
           Inl refused \<Rightarrow> ret (refused, [])
         | Inr copied \<Rightarrow> scan_copies P copied))))"

text \<open>What was copied is every tracked file that exists, and none of them is a link.\<close>

lemma copy_tracked_all:
  "copy_tracked node vs copied = Inr (Inr out) \<Longrightarrow>
     set out = set copied \<union> {(v, b). v \<in> set vs \<and> node v = File_of b} \<and> (\<forall>v \<in> set vs. node v \<noteq> Link \<and> node v \<noteq> Directory)"
proof (induction node vs copied arbitrary: out rule: copy_tracked.induct)
  case (2 node v vs copied)
  then show ?case by (cases "node v") (auto split: entry_node.splits)
qed simp

lemma ret_Inr: "ret x s = (Inr y, t) \<longleftrightarrow> x = y \<and> s = t"
  by (simp add: ret_def)

theorem scan_covers_tracked_files:
  assumes "scan_main P w = (Inr (Scan_code code, ls), w')" and order: "\<And>vs. set (sn_order P vs) = set vs"
  shows "\<exists>listing v1 v2 copied report. sn_tracked P v1 = (Inr listing, v2) \<and> sn_scan P copied v2 = (code, report, w')
    \<and> set copied = {(v, b). v \<in> set (split_on (CHR 0x00) listing) \<and> v \<noteq> [] \<and> sn_entry P v = File_of b}
    \<and> (\<forall>v \<in> set (split_on (CHR 0x00) listing). v \<noteq> [] \<longrightarrow> sn_entry P v \<noteq> Link)"
proof -
  from assms(1) obtain exe where "sn_executable P = Some exe" by (cases "sn_executable P") (auto simp: scan_main_def ret_Inr)
  with assms(1) obtain version v1 listing v2 r where
    v: "sn_version P w = (Inr version, v1)" "sn_tracked P v1 = (Inr listing, v2)"
    and r: "copy_tracked (sn_entry P) (scan_names P listing) [] = Inr r"
    and rest: "(case r of Inl refused \<Rightarrow> ret (refused, []) | Inr copied \<Rightarrow> scan_copies P copied) v2 = (Inr (Scan_code code, ls), w')"
    by (auto simp: scan_main_def ret_Inr bnd_Inr lift_sum_Inr split: if_splits)
  have "r \<noteq> Inl (Scan_code c)" for c
  proof
    assume "r = Inl (Scan_code c)"
    moreover have "copy_tracked n vs cs \<noteq> Inr (Inl (Scan_code c))" for n vs cs
      by (induction n vs cs rule: copy_tracked.induct) (auto split: entry_node.splits)
    ultimately show False using r by simp
  qed
  with rest obtain copied where c: "r = Inr copied" "scan_copies P copied v2 = (Inr (Scan_code code, ls), w')"
    by (cases r) (auto simp: ret_Inr)
  from c(2) obtain report where "sn_scan P copied v2 = (code, report, w')"
    by (auto simp: scan_copies_def split: prod.splits sum.splits)
  moreover from copy_tracked_all [OF r [unfolded c(1)]]
  have "set copied = {(v, b). v \<in> set (scan_names P listing) \<and> sn_entry P v = File_of b} \<and> (\<forall>v \<in> set (scan_names P listing). sn_entry P v \<noteq> Link)" by auto
  moreover have "set (scan_names P listing) = {v. v \<in> set (split_on (CHR 0x00) listing) \<and> v \<noteq> []}" using order by (auto simp: scan_names_def)
  ultimately show ?thesis using v(2) by (intro exI [of _ listing] exI [of _ v1] exI [of _ v2] exI [of _ copied] exI [of _ report]) auto
qed

end
