(* ===== verification/Live_Fallback.thy ===== *)
theory Live_Fallback
  imports App_Safety Slack_Client Live_Inspect
begin

text \<open>
  \<^verbatim>\<open>scripts/live_a2a_fallback.py\<close>: the live check that a Slack projection whose subscription fails falls back to the task card, and recovers on the same card. The script is one more actor
  beside the deployed application. The controller's table is outside the state of the application. The number of polls is the fuel of \<open>wait_projection\<close>, and its end the death of
  the process; with a clock that never goes back 61 polls are enough. \<open>SystemExit\<close> is an external error.
\<close>

section \<open>The script\<close>

record fallback_args =
  fa_thread_id :: string
  fa_task_id :: string
  fa_team_id :: string
  fa_channel_id :: string
  fa_user_id :: string

record fallback_report =
  fr_binding_id :: string
  fr_root_ts :: string
  fr_task_id :: string
  fr_card_ts :: string
  fr_response_count :: nat

record 'q fallback_port =
  fx_slack :: "'q web_client"
  fx_task_state :: "string \<Rightarrow> 'q \<Rightarrow> a2a_state option"
  fx_environ :: environ

definition raw_slack :: "'q app_env \<Rightarrow> 'q fallback_port \<Rightarrow> string \<Rightarrow> (string \<times> json) list \<Rightarrow> ('q app_worker, (string \<times> json) list) comp" where
  "raw_slack X F name args = call (app_rt X) (on_world (\<lambda>q. case web_call (fx_slack F) name args q of
     (Inl (Api_error _), q') \<Rightarrow> (Inl (ExternalError ''SlackApiError''), q')
   | (Inl (Call_failed e), q') \<Rightarrow> (Inl e, q')
   | (Inr v, q') \<Rightarrow> (Inr v, q')))"

definition nap :: "'q app_env \<Rightarrow> int \<Rightarrow> ('q app_worker, unit) comp" where
  "nap X secs = call (app_rt X) (\<lambda>s. (Inr (), s\<lparr>app_clock := app_clock s + secs * 1000000\<rparr>))"

primrec poll_projection :: "nat \<Rightarrow> 'q app_env \<Rightarrow> string \<Rightarrow> string \<Rightarrow> projection_status \<Rightarrow> int \<Rightarrow> ('q app_worker, projection_row) comp" where
  "poll_projection 0 X bid tid status deadline = raise_err Killed"
| "poll_projection (Suc n) X bid tid status deadline =
     bnd (call (app_rt X) (app_reads app_clock)) (\<lambda>now.
     if \<not> now < deadline then raise_err TimeoutError
     else bnd (call (app_rt X) (app_reads (get_projection bid tid))) (\<lambda>found.
       case found of
         Some r \<Rightarrow> if j_status r = status then ret r else bnd (nap X 2) (\<lambda>_. poll_projection n X bid tid status deadline)
       | None \<Rightarrow> bnd (nap X 2) (\<lambda>_. poll_projection n X bid tid status deadline)))"

definition wait_projection :: "nat \<Rightarrow> 'q app_env \<Rightarrow> string \<Rightarrow> string \<Rightarrow> projection_status \<Rightarrow> ('q app_worker, projection_row) comp" where
  "wait_projection fuel X bid tid status =
     bnd (call (app_rt X) (app_reads app_clock)) (\<lambda>now. poll_projection fuel X bid tid status (now + 120 * 1000000))"

definition slack_identity :: "string \<Rightarrow> string \<Rightarrow> ('e, 'q) app \<Rightarrow> identity_row option" where
  "slack_identity team user s = find (\<lambda>x. x_provider x = ''slack'' \<and> x_tenant_id x = team \<and> x_external_user_id x = user) (identities s)"

text \<open>The checks before anything is written: the thread of the task.\<close>

definition selected_thread :: "'q app_env \<Rightarrow> 'q fallback_port \<Rightarrow> fallback_args \<Rightarrow> ('q app_worker, thread_row) comp" where
  "selected_thread X F a =
     bnd (call (app_rt X) (app_reads (get_thread (fa_thread_id a)))) (\<lambda>thread.
     bnd (call (app_rt X) (app_reads (get_task_binding ''cma'' (fa_task_id a)))) (\<lambda>binding.
     case (thread, binding) of
       (Some t, Some b) \<Rightarrow>
         if s_thread_id b \<noteq> fa_thread_id a then raise_err (ValueError ''The Task must belong to the selected application thread'')
         else if th_agent_id t \<noteq> ''cma'' \<or> \<not> truthy (th_context_id t) \<or> th_archived_at t \<noteq> None
         then raise_err (ValueError ''The selected CMA thread must have an active context'')
         else bnd (call (app_rt X) (app_reads (\<lambda>s. (slack_identity (fa_team_id a) (fa_user_id a) s, fx_task_state F (fa_task_id a) (world s))))) (\<lambda>(owner, state).
           if map_option x_principal_id owner \<noteq> Some (th_principal_id t) then raise_err (ValueError ''Slack identity does not own the selected thread'')
           else if state \<noteq> Some COMPLETED then raise_err (ValueError ''The selected Task must be completed'')
           else ret t)
     | _ \<Rightarrow> raise_err (ValueError ''The Task must belong to the selected application thread'')))"

text \<open>The root message of the fixture and its binding.\<close>

definition make_fixture :: "'q app_env \<Rightarrow> 'q fallback_port \<Rightarrow> fallback_args \<Rightarrow> ('q app_worker, string \<times> string) comp" where
  "make_fixture X F a =
     bnd (fresh_uuid (app_rt X)) (\<lambda>u.
     bnd (raw_slack X F ''chat_postMessage'' [(''channel'', JStr (fa_channel_id a)), (''text'', JStr (''Phase 4 fallback fixture '' @ u)),
       (''unfurl_links'', JBool False), (''unfurl_media'', JBool False)]) (\<lambda>fixture.
     if \<not> py_true (dict_get fixture ''ok'') \<or> \<not> py_true (dict_get fixture ''ts'') then raise_err (RuntimeError ''Could not create the Slack fixture root'')
     else let root_ts = slack_str (fx_slack F) (dict_get fixture ''ts'') in
       bnd (fresh_uuid (app_rt X)) (\<lambda>new_id.
       bnd (call (app_rt X) (bind_surface new_id (fa_thread_id a) ''slack'' (fa_team_id a) (fa_channel_id a @ '':'' @ root_ts))) (\<lambda>b.
       ret (b_binding_id b, root_ts)))))"

definition request_invalid :: "'q app_env \<Rightarrow> fallback_args \<Rightarrow> string \<Rightarrow> string \<Rightarrow> ('q app_worker, unit) comp" where
  "request_invalid X a bid root_ts =
     bnd (fresh_uuid (app_rt X)) (\<lambda>request.
     bnd (fresh_uuid (app_rt X)) (\<lambda>unknown_thread.
     call (app_rt X) (publish (Slack_task_projection_requested
       \<lparr>pr_request_id = ''fallback-fixture:'' @ request, pr_thread_id = unknown_thread, pr_task_id = fa_task_id a, pr_binding_id = bid,
        pr_team_id = fa_team_id a, pr_channel_id = fa_channel_id a, pr_thread_ts = root_ts, pr_user_id = fa_user_id a,
        pr_source_message_ts = Some root_ts\<rparr>))))"

definition request_recovery :: "'q app_env \<Rightarrow> fallback_args \<Rightarrow> thread_row \<Rightarrow> ('q app_worker, unit) comp" where
  "request_recovery X a thread =
     bnd (fresh_uuid (app_rt X)) (\<lambda>delivery.
     call (app_rt X) (publish (A2A_task_updated
       \<lparr>tu_delivery_id = ''fallback-recovery:'' @ delivery, tu_agent_id = ''cma'', tu_task_id = fa_task_id a, tu_thread_id = fa_thread_id a,
        tu_context_id = py_str (th_context_id thread), tu_event_kind = ''status_update'', tu_task_state = Some ''COMPLETED''\<rparr>)))"

text \<open>\<open>replies.get("messages", [])\<close>, with the number of those that are the card.\<close>

definition reply_messages :: "(string \<times> json) list \<Rightarrow> error + (string \<times> json) list list" where
  "reply_messages replies = (case map_of replies ''messages'' of
     None \<Rightarrow> Inr []
   | Some (JArr vs) \<Rightarrow> if list_all (\<lambda>v. case v of JObj _ \<Rightarrow> True | _ \<Rightarrow> False) vs then Inr (map (\<lambda>v. case v of JObj kvs \<Rightarrow> kvs | _ \<Rightarrow> []) vs)
       else Inl (AttributeError ''get'')
   | Some _ \<Rightarrow> Inl (TypeError ''not iterable''))"

definition one_card :: "fallback_args \<Rightarrow> string \<Rightarrow> string \<Rightarrow> string \<Rightarrow> (string \<times> json) list list \<Rightarrow> error + fallback_report" where
  "one_card a bid root_ts card_ts messages =
     (let count = length (filter (\<lambda>m. dict_get m ''ts'' = JStr card_ts) messages) in
      if count \<noteq> 1 \<or> length messages \<noteq> 2 then Inl AssertionError
      else Inr \<lparr>fr_binding_id = bid, fr_root_ts = root_ts, fr_task_id = fa_task_id a, fr_card_ts = card_ts, fr_response_count = count\<rparr>)"

definition check_recovery :: "nat \<Rightarrow> 'q app_env \<Rightarrow> 'q fallback_port \<Rightarrow> fallback_args \<Rightarrow> thread_row \<Rightarrow> string \<Rightarrow> string \<Rightarrow> string
    \<Rightarrow> ('q app_worker, fallback_report) comp" where
  "check_recovery fuel X F a thread bid root_ts card_ts =
     bnd (request_recovery X a thread) (\<lambda>_.
     bnd (wait_projection fuel X bid (fa_task_id a) Projection_completed) (\<lambda>recovered.
     if py_str (j_slack_message_ts recovered) \<noteq> card_ts then raise_err AssertionError
     else bnd (raw_slack X F ''conversations_replies'' [(''channel'', JStr (fa_channel_id a)), (''ts'', JStr root_ts), (''limit'', JNum 100)]) (\<lambda>replies.
       if \<not> py_true (dict_get replies ''ok'') then raise_err (RuntimeError ''Could not inspect the Slack fixture thread'')
       else lift_sum (bind_sum (reply_messages replies) (one_card a bid root_ts card_ts)))))"

definition fallback_check :: "nat \<Rightarrow> 'q app_env \<Rightarrow> 'q fallback_port \<Rightarrow> fallback_args \<Rightarrow> ('q app_worker, fallback_report) comp" where
  "fallback_check fuel X F a =
     bnd (selected_thread X F a) (\<lambda>thread.
     bnd (make_fixture X F a) (\<lambda>(bid, root_ts).
     bnd (request_invalid X a bid root_ts) (\<lambda>_.
     bnd (wait_projection fuel X bid (fa_task_id a) Fallback) (\<lambda>fallback.
     if \<not> truthy (j_slack_message_ts fallback) then raise_err AssertionError
     else check_recovery fuel X F a thread bid root_ts (py_str (j_slack_message_ts fallback))))))"

definition fallback_main :: "nat \<Rightarrow> 'q app_env \<Rightarrow> 'q fallback_port \<Rightarrow> settings \<Rightarrow> fallback_args \<Rightarrow> ('q app_worker, fallback_report) comp" where
  "fallback_main fuel X F config a =
     (if fx_environ F ''RUN_LIVE_FALLBACK'' \<noteq> Some ''1'' then raise_err (ExternalError ''SystemExit'')
      else if \<not> truthy (slack_bot_token config) then raise_err (RuntimeError ''Slack bot token is required'')
      else fallback_check fuel X F a)"

section \<open>What the check does and shows\<close>

text \<open>The script is an actor like the others: whatever relation the workers of the application keep, it keeps.\<close>

context app_contract
begin

lemma app_raw_slack: "keeps R (raw_slack X F name args)"
  unfolding raw_slack_def by (auto intro!: app_basic)

lemma app_nap: "0 \<le> secs \<Longrightarrow> keeps R (nap X secs)"
  unfolding nap_def by (rule app_call, rule app_step.elsewhere) (simp add: same_app_tables_def)

lemma app_poll: "keeps R (poll_projection n X bid tid status deadline)"
  by (induction n) (auto intro!: app_basic app_nap split: option.splits)

lemma app_wait: "keeps R (wait_projection n X bid tid status)"
  unfolding wait_projection_def by (auto intro!: app_basic app_poll)

lemma app_selected: "keeps R (selected_thread X F a)"
  unfolding selected_thread_def by (auto intro!: app_basic split: option.splits)

lemma app_fixture: "keeps R (make_fixture X F a)" "keeps R (request_invalid X a bid ts)" "keeps R (request_recovery X a thread)"
  unfolding make_fixture_def request_invalid_def request_recovery_def Let_def by (auto intro!: app_basic app_raw_slack)

lemma app_fallback: "keeps R (fallback_main fuel X F config a)"
  unfolding fallback_main_def fallback_check_def check_recovery_def Let_def
  by (auto intro!: app_basic app_selected app_fixture app_wait app_raw_slack app_lift)

end

lemma fallback_check_sound: "app_between X w (snd (fallback_main fuel X F config a w))"
  using app_sound.app_fallback by (rule keepsD)

text \<open>61 polls are enough when the clock never goes back and nothing kills the process.\<close>

definition steady :: "'q app_env \<Rightarrow> bool" where
  "steady X = ((\<forall>n s. app_clock s \<le> app_clock (interfere (app_rt X) n s))
     \<and> (\<forall>n. fault (app_rt X) n \<noteq> Fault_before Killed \<and> fault (app_rt X) n \<noteq> Fault_after Killed))"

lemma steady_call:
  assumes "steady X" "call (app_rt X) f w = (r, w')" "\<And>s. fst (f s) \<noteq> Inl Killed" "\<And>s. app_clock s + d \<le> app_clock (snd (f s))" "0 \<le> d"
  shows "r \<noteq> Inl Killed" "app_clock (shared w) \<le> app_clock (shared w')"
    "\<And>x. r = Inr x \<Longrightarrow> app_clock (shared w) + d \<le> app_clock (shared w') \<and> fst (f (interfere (app_rt X) (tick w) (shared w))) = Inr x
       \<and> shared w' = snd (f (interfere (app_rt X) (tick w) (shared w)))"
proof -
  let ?s = "interfere (app_rt X) (tick w) (shared w)"
  have m: "app_clock (shared w) \<le> app_clock ?s" and k: "fault (app_rt X) (tick w) \<noteq> Fault_before Killed" "fault (app_rt X) (tick w) \<noteq> Fault_after Killed"
    using assms(1) by (auto simp: steady_def)
  note e = assms(2) [unfolded call_def Let_def] and f = assms(3) [of ?s] assms(4) [of ?s] assms(5)
  show "r \<noteq> Inl Killed" using e f k by (auto split: fault.splits prod.splits)
  show "app_clock (shared w) \<le> app_clock (shared w')" using e f m by (auto split: fault.splits prod.splits)
  show "app_clock (shared w) + d \<le> app_clock (shared w') \<and> fst (f ?s) = Inr x \<and> shared w' = snd (f ?s)" if "r = Inr x" for x
    using e f m that by (auto split: fault.splits prod.splits)
qed

lemma poll_enough:
  assumes X: "steady X"
  shows "deadline - app_clock (shared w) \<le> int n * 2000000 \<Longrightarrow> fst (poll_projection (Suc n) X bid tid status deadline w) \<noteq> Inl Killed"
proof (induction n arbitrary: w)
  case (Suc n)
  show ?case
  proof
    assume killed: "fst (poll_projection (Suc (Suc n)) X bid tid status deadline w) = Inl Killed"
    obtain r u where u: "call (app_rt X) (app_reads app_clock) w = (r, u)" by fastforce
    note cu = steady_call [OF X u, of 0, simplified app_reads_def, simplified]
    obtain r2 v where v: "call (app_rt X) (app_reads (get_projection bid tid)) u = (r2, v)" by fastforce
    note cv = steady_call [OF X v, of 0, simplified app_reads_def, simplified]
    obtain r3 x where x: "nap X 2 v = (r3, x)" by fastforce
    note cx = steady_call [OF X x [unfolded nap_def], of 2000000, simplified]
    have "deadline - app_clock (shared x) \<le> int n * 2000000" if "r3 = Inr ()" using Suc.prems cu(2) cv(2) cx(3) that by auto
    with Suc.IH have late: "fst (poll_projection (Suc n) X bid tid status deadline x) \<noteq> Inl Killed" if "r3 = Inr ()" using that by blast
    have again: "fst (bnd (nap X 2) (\<lambda>_. poll_projection (Suc n) X bid tid status deadline) v) \<noteq> Inl Killed"
      using x late cx(1) by (cases r3) (auto simp: bnd_def simp del: poll_projection.simps)
    show False using killed u v cu(1) cv(1) again
      by (subst (asm) poll_projection.simps)
         (cases r; cases r2, auto simp: bnd_def [of "call (app_rt X) g" for g] raise_err_def ret_def simp del: poll_projection.simps split: if_splits option.splits)
  qed
next
  case 0
  obtain r u where u: "call (app_rt X) (app_reads app_clock) w = (r, u)" by fastforce
  note cu = steady_call [OF X u, of 0, simplified app_reads_def, simplified]
  show ?case using u cu 0 by (cases r) (auto simp: bnd_def raise_err_def app_reads_def)
qed

lemma wait_enough:
  assumes X: "steady X"
  shows "fst (wait_projection 61 X bid tid status w) \<noteq> Inl Killed"
proof -
  obtain r u where u: "call (app_rt X) (app_reads app_clock) w = (r, u)" by fastforce
  note cu = steady_call [OF X u, of 0, simplified app_reads_def, simplified]
  show ?thesis
  proof (cases r)
    case (Inl e)
    with u cu(1) show ?thesis by (simp add: wait_projection_def bnd_def)
  next
    case (Inr now)
    have "now + 120000000 - app_clock (shared u) \<le> int 60 * 2000000" using cu(3) [OF Inr] by (simp add: app_reads_def)
    from poll_enough [OF X this] Inr u show ?thesis by (simp add: wait_projection_def bnd_def eval_nat_numeral)
  qed
qed

text \<open>A check that passes has seen the fallback and the recovery on one and the same card.\<close>

lemma polled_projection:
  "poll_projection n X bid tid status deadline w = (Inr r, w') \<Longrightarrow> j_status r = status"
  by (induction n arbitrary: w) (auto simp: bnd_Inr raise_err_def ret_def split: if_splits option.splits)

lemma waited_projection: "wait_projection n X bid tid status w = (Inr r, w') \<Longrightarrow> j_status r = status"
  by (auto simp: wait_projection_def bnd_Inr dest: polled_projection)

lemma checked_recovery:
  assumes "check_recovery fuel X F a thread bid root_ts card_ts w = (Inr report, w')"
  shows "fr_binding_id report = bid \<and> fr_card_ts report = card_ts \<and> fr_response_count report = 1
    \<and> (\<exists>r x y. wait_projection fuel X bid (fa_task_id a) Projection_completed x = (Inr r, y) \<and> py_str (j_slack_message_ts r) = card_ts)"
proof -
  have one: "fr_binding_id report = bid \<and> fr_card_ts report = card_ts \<and> fr_response_count report = 1"
    if "one_card a bid root_ts card_ts ms = Inr report" for ms
    using that by (auto simp: one_card_def Let_def split: if_splits)
  from assms obtain x r y where r: "wait_projection fuel X bid (fa_task_id a) Projection_completed x = (Inr r, y)"
    and rest: "(if py_str (j_slack_message_ts r) \<noteq> card_ts then raise_err AssertionError
     else bnd (raw_slack X F ''conversations_replies'' [(''channel'', JStr (fa_channel_id a)), (''ts'', JStr root_ts), (''limit'', JNum 100)]) (\<lambda>replies.
       if \<not> py_true (dict_get replies ''ok'') then raise_err (RuntimeError ''Could not inspect the Slack fixture thread'')
       else lift_sum (bind_sum (reply_messages replies) (one_card a bid root_ts card_ts)))) y = (Inr report, w')"
    unfolding check_recovery_def bnd_Inr by blast
  from rest have ts: "py_str (j_slack_message_ts r) = card_ts" by (auto simp: raise_err_def split: if_splits)
  with rest obtain ms where "one_card a bid root_ts card_ts ms = Inr report"
    by (auto simp: bnd_Inr lift_sum_Inr bind_sum_Inr raise_err_def split: if_splits)
  with one r ts show ?thesis by blast
qed

theorem passed_fallback_check:
  assumes "fallback_main fuel X F config a w = (Inr report, w')"
  shows "fr_response_count report = 1 \<and> (\<exists>before_row after_row u v x y.
      wait_projection fuel X (fr_binding_id report) (fa_task_id a) Fallback u = (Inr before_row, v) \<and> j_status before_row = Fallback
      \<and> j_slack_message_ts before_row = Some (fr_card_ts report)
      \<and> wait_projection fuel X (fr_binding_id report) (fa_task_id a) Projection_completed x = (Inr after_row, y) \<and> j_status after_row = Projection_completed
      \<and> py_str (j_slack_message_ts after_row) = fr_card_ts report)"
proof -
  from assms have "fallback_check fuel X F a w = (Inr report, w')" by (auto simp: fallback_main_def raise_err_def split: if_splits)
  then obtain thread bid root_ts u b v where b: "wait_projection fuel X bid (fa_task_id a) Fallback u = (Inr b, v)"
    and rest: "(if \<not> truthy (j_slack_message_ts b) then raise_err AssertionError
       else check_recovery fuel X F a thread bid root_ts (py_str (j_slack_message_ts b))) v = (Inr report, w')"
    unfolding fallback_check_def bnd_Inr case_prod_unfold by blast
  from rest have ts: "truthy (j_slack_message_ts b)" by (auto simp: raise_err_def split: if_splits)
  with rest have "check_recovery fuel X F a thread bid root_ts (py_str (j_slack_message_ts b)) v = (Inr report, w')" by simp
  from checked_recovery [OF this] obtain r x y where report: "fr_binding_id report = bid" "fr_card_ts report = py_str (j_slack_message_ts b)" "fr_response_count report = 1"
    and r: "wait_projection fuel X bid (fa_task_id a) Projection_completed x = (Inr r, y)" "py_str (j_slack_message_ts r) = py_str (j_slack_message_ts b)" by blast
  have "j_slack_message_ts b = Some (fr_card_ts report)" using ts report(2) by (cases "j_slack_message_ts b") auto
  with b r report waited_projection [OF b] waited_projection [OF r(1)] show ?thesis by metis
qed

end
