(* ===== verification/Benchmark.thy ===== *)
theory Benchmark
  imports Live_Inspect Complex_Main
begin

text \<open>
  \<^verbatim>\<open>scripts/live_latency.py\<close>: the latency benchmark. First its HTTP client, which waits as Slack asks and never repeats a write whose outcome is unknown; then the
  figures that it reports; then the evidence of one workflow. Seconds are exact rationals where the code has floats, and \<open>round(x, 4)\<close> rounds to the nearest multiple of
  0.0001, ties to even.
\<close>

section \<open>The client\<close>

record 'w bench =
  be_world :: 'w
  be_slept :: rat
  be_requests :: nat
  be_retries :: nat

record bench_response =
  rp_status :: int
  rp_retry_after :: "string option"

text \<open>\<open>while wait: chunk = min(wait, 30); ..\<close>: the pauses of one wait.\<close>

function pauses :: "rat \<Rightarrow> rat list" where
  "pauses wait = (if wait \<le> 0 then [] else min wait 30 # pauses (wait - min wait 30))"
  by pat_completeness auto
termination
proof (relation "measure (\<lambda>w. nat \<lceil>w / 30\<rceil>)")
  fix wait :: rat
  assume "\<not> wait \<le> 0"
  then show "(wait - min wait 30, wait) \<in> measure (\<lambda>w. nat \<lceil>w / 30\<rceil>)"
  proof (cases "wait \<le> 30")
    case True
    with \<open>\<not> wait \<le> 0\<close> show ?thesis by (simp add: min_def)
  next
    case False
    have "\<lceil>(wait - 30) / 30\<rceil> = \<lceil>wait / 30\<rceil> - 1" by (simp add: diff_divide_distrib)
    moreover have "0 < \<lceil>wait / 30\<rceil>" using False by simp
    ultimately show ?thesis using False by (simp add: min_def)
  qed
qed simp

declare pauses.simps [simp del]

definition send_post :: "('w \<Rightarrow> (error + bench_response) \<times> 'w) \<Rightarrow> ('w bench, bench_response) comp" where
  "send_post f = (\<lambda>s. case f (be_world s) of (r, w) \<Rightarrow> (r, s\<lparr>be_world := w, be_requests := be_requests s + 1\<rparr>))"

definition sleep_for :: "rat \<Rightarrow> ('w bench, unit) comp" where
  "sleep_for d = (\<lambda>s. (Inr (), s\<lparr>be_slept := be_slept s + d\<rparr>))"

definition bench_delay :: "(string \<Rightarrow> error + rat) \<Rightarrow> bench_response \<Rightarrow> error + rat" where
  "bench_delay py_float r = bind_sum (py_float (case rp_retry_after r of None \<Rightarrow> ''5'' | Some v \<Rightarrow> v)) (\<lambda>d. Inr (max 1 d))"

text \<open>The attempts that are left after this one count down from 3.\<close>

primrec post_attempts :: "nat \<Rightarrow> (string \<Rightarrow> error + rat) \<Rightarrow> ('w \<Rightarrow> (error + bench_response) \<times> 'w) \<Rightarrow> ('w bench, bench_response) comp" where
  "post_attempts 0 py_float f = bnd (send_post f) (\<lambda>r.
     if rp_status r \<noteq> 429 then ret r else raise_err (RuntimeError ''RateLimitRetriesExhausted''))"
| "post_attempts (Suc n) py_float f = bnd (send_post f) (\<lambda>r.
     if rp_status r \<noteq> 429 then ret r
     else bnd (lift_sum (bench_delay py_float r)) (\<lambda>wait.
       if wait > 60 then raise_err (RuntimeError ''RateLimitDelayExceedsBudget'')
       else bnd (\<lambda>s. (Inr (), s\<lparr>be_retries := be_retries s + 1\<rparr>)) (\<lambda>_.
         bnd (for_m (pauses wait) sleep_for) (\<lambda>_. post_attempts n py_float f))))"

definition bench_post :: "(string \<Rightarrow> error + rat) \<Rightarrow> ('w \<Rightarrow> (error + bench_response) \<times> 'w) \<Rightarrow> ('w bench, bench_response) comp" where
  "bench_post = post_attempts 3"

lemma pauses_sum: "0 \<le> wait \<Longrightarrow> sum_list (pauses wait) = wait \<and> list_all (\<lambda>d. 0 < d \<and> d \<le> 30) (pauses wait)"
proof (induction wait rule: pauses.induct)
  case (1 wait)
  show ?case
  proof (cases "wait \<le> 0")
    case True
    with 1 show ?thesis by (subst (1 2) pauses.simps) simp
  next
    case False
    with 1(1) have "sum_list (pauses (wait - min wait 30)) = wait - min wait 30 \<and> list_all (\<lambda>d. 0 < d \<and> d \<le> 30) (pauses (wait - min wait 30))" by simp
    with False show ?thesis by (subst (1 2) pauses.simps) simp
  qed
qed

lemma slept: "snd (for_m ds sleep_for s) = s\<lparr>be_slept := be_slept s + sum_list ds\<rparr>" "fst (for_m ds sleep_for s) = Inr ()"
  by (induction ds arbitrary: s) (auto simp: ret_def bnd_def sleep_for_def add.assoc split: prod.splits)

text \<open>A post sends at most four requests and waits at most three minutes; what it returns is not a refusal for the rate.\<close>

theorem post_bounded:
  "post_attempts n py_float f s = (r, t) \<Longrightarrow> be_requests t \<le> be_requests s + Suc n \<and> be_slept t \<le> be_slept s + of_nat n * 60
     \<and> (\<forall>x. r = Inr x \<longrightarrow> rp_status x \<noteq> 429)"
proof (induction n arbitrary: s)
  case 0
  then show ?case by (auto simp: bnd_def send_post_def ret_def raise_err_def split: prod.splits sum.splits if_splits)
next
  case (Suc n)
  obtain a w where a: "f (be_world s) = (a, w)" by fastforce
  let ?u = "s\<lparr>be_world := w, be_requests := be_requests s + 1\<rparr>"
  show ?case
  proof (cases "\<exists>x d. a = Inr x \<and> rp_status x = 429 \<and> bench_delay py_float x = Inr d \<and> d \<le> 60")
    case True
    then obtain x d where x: "a = Inr x" "rp_status x = 429" "bench_delay py_float x = Inr d" "d \<le> 60" by blast
    have "1 \<le> d" using x(3) by (auto simp: bench_delay_def bind_sum_Inr)
    let ?v = "?u\<lparr>be_retries := be_retries s + 1, be_slept := be_slept s + d\<rparr>"
    have "for_m (pauses d) sleep_for (?u\<lparr>be_retries := be_retries s + 1\<rparr>) = (Inr (), ?v)"
      using pauses_sum [of d] \<open>1 \<le> d\<close> by (intro prod_eqI) (simp_all add: slept)
    then have "post_attempts n py_float f ?v = (r, t)"
      using Suc.prems a x by (simp add: bnd_def send_post_def lift_sum_def ret_def)
    from Suc.IH [OF this] x(4) show ?thesis by (auto simp: algebra_simps)
  next
    case False
    have t: "be_requests t = be_requests s + 1 \<and> be_slept t = be_slept s \<and> (\<forall>x. r = Inr x \<longrightarrow> rp_status x \<noteq> 429)"
      using Suc.prems a False
      by (auto simp: bnd_def send_post_def ret_def raise_err_def lift_sum_def split: prod.splits sum.splits if_splits)
    then show ?thesis by auto
  qed
qed

section \<open>Figures\<close>

definition round_even :: "rat \<Rightarrow> int" where
  "round_even x = (let f = \<lfloor>x\<rfloor>; d = x - of_int f in if d < 1 / 2 \<or> (d = 1 / 2 \<and> even f) then f else f + 1)"

definition round4 :: "rat \<Rightarrow> rat" where
  "round4 x = of_int (round_even (x * 10000)) / 10000"

text \<open>\<open>epoch\<close>: a time of the database in microseconds, or a value of the provider, whose text \<open>read_iso\<close> reads; a text without a time zone is an error.\<close>

datatype time_value = Database_time "int option" | Provider_time json

definition epoch :: "(json \<Rightarrow> string) \<Rightarrow> (string \<Rightarrow> error + rat) \<Rightarrow> time_value \<Rightarrow> error + rat option" where
  "epoch T read_iso v = (case v of
     Database_time t \<Rightarrow> Inr (map_option (\<lambda>n. of_int n / 1000000) t)
   | Provider_time JNull \<Rightarrow> Inr None
   | Provider_time j \<Rightarrow> bind_sum (read_iso (replace_all ''Z'' ''+00:00'' (py_text T j))) (\<lambda>x. Inr (Some x)))"

definition delta :: "(json \<Rightarrow> string) \<Rightarrow> (string \<Rightarrow> error + rat) \<Rightarrow> time_value \<Rightarrow> time_value \<Rightarrow> error + rat option" where
  "delta T read_iso start stop = bind_sum (epoch T read_iso start) (\<lambda>a. bind_sum (epoch T read_iso stop) (\<lambda>b.
     Inr (case (a, b) of (Some x, Some y) \<Rightarrow> Some (round4 (y - x)) | _ \<Rightarrow> None)))"

record figures =
  fg_min :: rat
  fg_median :: rat
  fg_mean :: rat
  fg_p95 :: rat
  fg_max :: rat

definition median_of :: "rat list \<Rightarrow> rat" where
  "median_of xs = (let n = length xs in if odd n then xs ! (n div 2) else (xs ! (n div 2 - 1) + xs ! (n div 2)) / 2)"

definition p95_rank :: "nat \<Rightarrow> nat" where
  "p95_rank n = nat \<lceil>(19 / 20 :: rat) * of_nat n\<rceil> - 1"

definition describe :: "rat option list \<Rightarrow> nat \<times> figures option" where
  "describe vs = (let xs = sort (List.map_filter id vs) in
     if xs = [] then (0, None)
     else (length xs, Some \<lparr>fg_min = hd xs, fg_median = round4 (median_of xs), fg_mean = round4 (sum_list xs / of_nat (length xs)),
       fg_p95 = xs ! p95_rank (length xs), fg_max = last xs\<rparr>))"

section \<open>Workflows\<close>

definition bench_cases :: "string list" where
  "bench_cases = [''fresh'', ''reply'', ''web_fetch'', ''clarification'']"

record sample_row =
  sm_case :: string
  sm_index :: nat
  sm_outcome :: string
  sm_seconds :: "(string \<times> rat option) list"
  sm_thread_ts :: string
  sm_failed_boundary :: string

record case_summary =
  cs_attempted :: nat
  cs_passed :: nat
  cs_failed :: nat
  cs_seconds :: "(string \<times> nat \<times> figures option) list"

definition summarize_case :: "sample_row list \<Rightarrow> string \<Rightarrow> case_summary" where
  "summarize_case samples c =
     (let rows = filter (\<lambda>r. sm_case r = c) samples; ok = filter (\<lambda>r. sm_outcome r = ''passed'') rows;
          names = sort (remdups (concat (map (\<lambda>r. map fst (sm_seconds r)) ok))) in
      \<lparr>cs_attempted = length rows, cs_passed = length ok, cs_failed = length rows - length ok,
       cs_seconds = map (\<lambda>name. (name, describe (map (\<lambda>r. case map_of (sm_seconds r) name of None \<Rightarrow> None | Some v \<Rightarrow> v) ok))) names\<rparr>)"

definition summarize :: "sample_row list \<Rightarrow> (string \<times> case_summary) list" where
  "summarize samples = map (\<lambda>c. (c, summarize_case samples c)) bench_cases"

text \<open>\<open>chain\<close>: a reply needs the thread of the first workflow.\<close>

definition chain :: "(string \<Rightarrow> nat \<Rightarrow> string option \<Rightarrow> ('w, sample_row) comp) \<Rightarrow> nat \<Rightarrow> ('w, sample_row list) comp" where
  "chain sample index =
     bnd (sample ''fresh'' index None) (\<lambda>first.
     bnd (if sm_outcome first = ''passed'' then sample ''reply'' index (Some (sm_thread_ts first))
          else ret \<lparr>sm_case = ''reply'', sm_index = index, sm_outcome = ''not_run'', sm_seconds = [], sm_thread_ts = [], sm_failed_boundary = ''parent_workflow''\<rparr>) (\<lambda>reply.
     bnd (sample ''web_fetch'' index None) (\<lambda>fetch.
     bnd (sample ''clarification'' index None) (\<lambda>question. ret [first, reply, fetch, question]))))"

definition exit_status :: "sample_row list \<Rightarrow> int" where
  "exit_status samples = (if list_ex (\<lambda>r. sm_outcome r \<noteq> ''passed'') samples then 1 else 0)"

text \<open>The metrics of one function, from the points of the monitoring service.\<close>

record metric_point =
  mp_average :: rat
  mp_maximum :: rat
  mp_samples :: rat
  mp_sum :: rat

definition duration_metric :: "metric_point list \<Rightarrow> rat \<times> rat option \<times> rat option" where
  "duration_metric ps = (let count = sum_list (map mp_samples ps) in
     (count, if count \<noteq> 0 then Some (sum_list (map mp_sum ps) / count) else None,
      if ps = [] then None else Some (Max (set (map mp_maximum ps)))))"

definition sum_metric :: "metric_point list \<Rightarrow> rat option" where
  "sum_metric ps = (if ps = [] then None else Some (sum_list (map mp_sum ps)))"

section \<open>What the figures mean\<close>

lemma p95_rank_bounds:
  assumes "0 < n"
  shows "p95_rank n < n" "19 / 20 * of_nat n \<le> (of_nat (Suc (p95_rank n)) :: rat)"
proof -
  let ?c = "\<lceil>(19 / 20 :: rat) * of_nat n\<rceil>"
  have "?c \<le> int n" using assms by (intro ceiling_le) simp
  moreover have pos: "0 < ?c" using assms by simp
  ultimately show "p95_rank n < n" by (simp add: p95_rank_def)
  have "of_nat (Suc (p95_rank n)) = (of_int ?c :: rat)" using pos by (simp add: p95_rank_def of_nat_diff nat_less_iff)
  then show "19 / 20 * of_nat n \<le> (of_nat (Suc (p95_rank n)) :: rat)" by simp
qed

lemma sorted_prefix_count:
  fixes xs :: "rat list"
  assumes "sorted xs" "k < length xs"
  shows "Suc k \<le> length (filter (\<lambda>v. v \<le> xs ! k) xs)"
proof -
  have "filter (\<lambda>v. v \<le> xs ! k) (take (Suc k) xs) = take (Suc k) xs"
    using assms by (intro filter_True) (auto simp: in_set_conv_nth sorted_nth_mono)
  then have "length (filter (\<lambda>v. v \<le> xs ! k) (take (Suc k) xs)) = Suc k" using assms by simp
  moreover have "filter (\<lambda>v. v \<le> xs ! k) xs = filter (\<lambda>v. v \<le> xs ! k) (take (Suc k) xs) @ filter (\<lambda>v. v \<le> xs ! k) (drop (Suc k) xs)"
    by (metis append_take_drop_id filter_append)
  ultimately show ?thesis by simp
qed

text \<open>The reported percentile is one of the values, and at least 95 percent of them do not exceed it.\<close>

theorem p95_covers:
  assumes "describe vs = (n, Some f)"
  shows "fg_p95 f \<in> set (List.map_filter id vs) \<and> fg_min f \<le> fg_p95 f \<and> fg_p95 f \<le> fg_max f
    \<and> 19 / 20 * of_nat n \<le> (of_nat (length (filter (\<lambda>v. v \<le> fg_p95 f) (List.map_filter id vs))) :: rat)"
proof -
  define xs where "xs = sort (List.map_filter id vs)"
  have xs: "xs \<noteq> []" "n = length xs" "fg_p95 f = xs ! p95_rank n" "fg_min f = hd xs" "fg_max f = last xs" "sorted xs"
    using assms by (auto simp: describe_def Let_def xs_def split: if_splits)
  then have rank: "p95_rank n < length xs" using p95_rank_bounds by simp
  have "fg_p95 f \<in> set xs" using xs rank by simp
  moreover have "fg_min f \<le> fg_p95 f" "fg_p95 f \<le> fg_max f"
    using xs rank sorted_nth_mono [OF xs(6), of 0 "p95_rank n"] sorted_nth_mono [OF xs(6), of "p95_rank n" "length xs - 1"]
    by (simp_all add: hd_conv_nth last_conv_nth)
  moreover have "19 / 20 * of_nat n \<le> (of_nat (length (filter (\<lambda>v. v \<le> fg_p95 f) xs)) :: rat)"
    using p95_rank_bounds(2) [of n] sorted_prefix_count [OF xs(6) rank] xs by (metis length_greater_0_conv of_nat_le_iff order_trans)
  moreover have "length (filter P xs) = length (filter P (List.map_filter id vs))" for P
    unfolding xs_def by (metis filter_sort length_sort)
  ultimately show ?thesis by (simp add: xs_def)
qed

text \<open>Every workflow of a chain is reported, and the summary counts each sample of a known case once.\<close>

lemma chain_cases:
  assumes sample: "\<And>c i r s x t. sample c i r s = (Inr x, t) \<Longrightarrow> sm_case x = c" and "chain sample index s = (Inr rows, t)"
  shows "map sm_case rows = bench_cases"
  using assms(2) by (auto simp: chain_def bnd_Inr ret_def bench_cases_def dest!: sample split: if_splits)

lemma summarize_counts:
  assumes "\<forall>r \<in> set samples. sm_case r \<in> set bench_cases"
  shows "sum_list (map (cs_attempted \<circ> snd) (summarize samples)) = length samples
    \<and> (\<forall>(c, x) \<in> set (summarize samples). cs_attempted x = cs_passed x + cs_failed x)"
proof
  have part: "sum_list (map (\<lambda>c. length (filter (\<lambda>r. sm_case r = c) xs)) bench_cases) = length xs"
    if "\<forall>r \<in> set xs. sm_case r \<in> set bench_cases" for xs
    using that by (induction xs) (auto simp: bench_cases_def)
  show "sum_list (map (cs_attempted \<circ> snd) (summarize samples)) = length samples"
    using part [OF assms] by (simp add: summarize_def comp_def summarize_case_def Let_def)
  have "cs_attempted (summarize_case samples c) = cs_passed (summarize_case samples c) + cs_failed (summarize_case samples c)" for c
    using length_filter_le [of "\<lambda>r. sm_outcome r = ''passed''" "filter (\<lambda>r. sm_case r = c) samples"]
    by (simp add: summarize_case_def Let_def del: filter_filter)
  then show "\<forall>(c, x) \<in> set (summarize samples). cs_attempted x = cs_passed x + cs_failed x"
    by (auto simp: summarize_def)
qed

section \<open>The evidence of a workflow\<close>

text \<open>What \<open>metadata\<close> reads across the tables of both databases: the first row of the join.\<close>

record workflow_row =
  wf_thread_id :: string
  wf_task :: task_row
  wf_session_id :: "string option"
  wf_projection :: projection_status

definition metadata :: "string \<Rightarrow> string \<Rightarrow> string \<Rightarrow> ('e, 'q) app \<Rightarrow> 'p sys \<Rightarrow> workflow_row option" where
  "metadata team external source a s = (case concat (map (\<lambda>b.
       concat (map (\<lambda>t. concat (map (\<lambda>p. concat (map (\<lambda>c. map (\<lambda>x.
         \<lparr>wf_thread_id = th_thread_id t, wf_task = c, wf_session_id = c_cma_session_id x, wf_projection = j_status p\<rparr>)
         (filter (\<lambda>x. c_context_id x = t_context_id c) (contexts s)))
         (filter (\<lambda>c. t_task_id c = j_task_id p) (tasks s))))
         (filter (\<lambda>p. j_binding_id p = b_binding_id b \<and> j_source_message_ts p = Some source) (projections a))))
         (filter (\<lambda>t. th_thread_id t = b_thread_id b) (threads a))))
       (filter (\<lambda>b. b_surface b = ''slack'' \<and> b_tenant_id b = team \<and> b_external_thread_id b = external) (surface_bindings a)))
     of [] \<Rightarrow> None | x # _ \<Rightarrow> Some x)"

text \<open>The events of the turn, from its input to its terminal event. Events have an identifier and a type, as \<open>list_events\<close> ensures.\<close>

fun first_index :: "('a \<Rightarrow> bool) \<Rightarrow> 'a list \<Rightarrow> nat option" where
  "first_index P [] = None"
| "first_index P (x # xs) = (if P x then Some 0 else map_option Suc (first_index P xs))"

definition names_event :: "string option \<Rightarrow> event_fields \<Rightarrow> bool" where
  "names_event i e = (dict_get e ''id'' = (case i of None \<Rightarrow> JNull | Some x \<Rightarrow> JStr x))"

definition turn_events :: "event_fields list \<Rightarrow> task_row \<Rightarrow> error + event_fields list" where
  "turn_events events t = (case (first_index (names_event (t_cma_input_event_id t)) events, first_index (names_event (t_cma_terminal_event_id t)) events) of
     (Some i, Some j) \<Rightarrow> (case drop i (take (j + 1) events) of [] \<Rightarrow> Inl (RuntimeError ''IndexError'') | e # es \<Rightarrow> Inr (e # es))
   | _ \<Rightarrow> Inl (RuntimeError ''StopIteration''))"

definition processed :: "event_fields \<Rightarrow> time_value" where
  "processed e = Provider_time (dict_get e ''processed_at'')"

fun deltas :: "(json \<Rightarrow> string) \<Rightarrow> (string \<Rightarrow> error + rat) \<Rightarrow> (string \<times> time_value \<times> time_value) list \<Rightarrow> error + (string \<times> rat option) list" where
  "deltas T read_iso [] = Inr []"
| "deltas T read_iso ((name, a, b) # xs) = bind_sum (delta T read_iso a b) (\<lambda>d. bind_sum (deltas T read_iso xs) (\<lambda>ds. Inr ((name, d) # ds)))"

text \<open>\<open>next((..), {})\<close>\<close>

definition first_event :: "(event_fields \<Rightarrow> bool) \<Rightarrow> event_fields list \<Rightarrow> event_fields" where
  "first_event P es = (case find P es of None \<Rightarrow> [] | Some e \<Rightarrow> e)"

definition final_reply :: "event_fields list \<Rightarrow> event_fields option" where
  "final_reply es = (case filter (is_type ''agent.message'') es of [] \<Rightarrow> None | rs \<Rightarrow> Some (last rs))"

definition tool_calls :: "event_fields list \<Rightarrow> event_fields list" where
  "tool_calls = filter (\<lambda>e. is_type ''agent.tool_use'' e \<or> is_type ''agent.mcp_tool_use'' e)"

definition custom_calls :: "event_fields list \<Rightarrow> event_fields list" where
  "custom_calls = filter (is_type ''agent.custom_tool_use'')"

definition ingress_time :: "string \<Rightarrow> ('e, 'q) app \<Rightarrow> int option" where
  "ingress_time tid a = map_option i_created_at (find (\<lambda>i. i_task_id i = Some tid) (ingress a))"

definition projected_time :: "(json \<Rightarrow> string) \<Rightarrow> string \<Rightarrow> event_fields option \<Rightarrow> ('e, 'q) app \<Rightarrow> int option" where
  "projected_time T tid reply a = (let item = (case reply of None \<Rightarrow> [] | Some e \<Rightarrow> ''cma-'' @ py_text T (dict_get e ''id'')) in
     case find (\<lambda>m. m_task_id m = tid \<and> m_kind m = Agent_message \<and> m_item_id m = item \<and> m_status m = Posted) (items a) of
       None \<Rightarrow> None | Some m \<Rightarrow> m_projected_at m)"

definition task_approvals :: "string \<Rightarrow> 'p sys \<Rightarrow> approval_row list" where
  "task_approvals tid s = sort_key r_created_at (filter (\<lambda>r. r_task_id r = tid) (approvals s))"

text \<open>An approval must be the only one, allowed, confirmed and followed by a result without an error.\<close>

definition approval_times :: "(json \<Rightarrow> string) \<Rightarrow> (string \<Rightarrow> error + rat) \<Rightarrow> event_fields list \<Rightarrow> approval_row list \<Rightarrow> error + (string \<times> rat option) list" where
  "approval_times T read_iso es rs = (case rs of
     [] \<Rightarrow> Inr []
   | r # _ \<Rightarrow> (case find (\<lambda>e. py_text T (dict_get e ''id'') = r_cma_event_id r) (rev es) of
       None \<Rightarrow> Inl (KeyError (r_cma_event_id r))
     | Some used \<Rightarrow>
         let follows = (\<lambda>ty e. is_type ty e \<and> dict_get e ''tool_use_id'' = dict_get used ''id'');
             confirmation = first_event (follows ''user.tool_confirmation'') es; outcome = first_event (follows ''agent.tool_result'') es in
         bind_sum (deltas T read_iso
           [(''approval_discovery'', processed used, Database_time (Some (r_created_at r))),
            (''approval_discovery_to_confirmation_attempt'', Database_time (Some (r_created_at r)), Database_time (r_confirmation_attempted_at r)),
            (''tool_call_to_confirmation'', processed used, processed confirmation),
            (''provider_tool_execution'', processed confirmation, processed outcome)]) (\<lambda>ds.
         if length rs = 1 \<and> length (tool_calls es) = 1 \<and> r_status r = Resolved \<and> r_decision r = Some Allow
            \<and> dict_get confirmation ''result'' = JStr ''allow'' \<and> r_confirmation_attempted_at r \<noteq> None \<and> outcome \<noteq> [] \<and> \<not> py_true (dict_get outcome ''is_error'')
         then Inr ds else Inl (RuntimeError ''UnexpectedPolicyEvidence''))))"

definition question_times :: "(json \<Rightarrow> string) \<Rightarrow> (string \<Rightarrow> error + rat) \<Rightarrow> event_fields list \<Rightarrow> time_value \<Rightarrow> time_value \<Rightarrow> error + (string \<times> rat option) list" where
  "question_times T read_iso es input_at final_at = (case custom_calls es of
     [] \<Rightarrow> Inr []
   | question # others \<Rightarrow>
       let answer = first_event (\<lambda>e. is_type ''user.custom_tool_result'' e \<and> dict_get e ''custom_tool_use_id'' = dict_get question ''id'') es in
       bind_sum (deltas T read_iso
         [(''provider_to_question'', input_at, processed question), (''question_to_provider_answer'', processed question, processed answer),
          (''provider_answer_to_final'', processed answer, final_at)]) (\<lambda>ds.
       if others = [] \<and> dict_get question ''name'' = JStr ''ask_user'' \<and> answer \<noteq> [] \<and> \<not> py_true (dict_get answer ''is_error'')
       then Inr ds else Inl (RuntimeError ''UnexpectedClarificationEvidence'')))"

record evidence =
  ed_seconds :: "(string \<times> rat option) list"
  ed_tool_calls :: nat
  ed_custom_calls :: nat
  ed_negative :: "string list"

definition trace :: "(json \<Rightarrow> string) \<Rightarrow> (string \<Rightarrow> error + rat) \<Rightarrow> event_fields list \<Rightarrow> workflow_row \<Rightarrow> int \<Rightarrow> ('e, 'q) app \<Rightarrow> 'p sys \<Rightarrow> error + evidence" where
  "trace T read_iso events row source_us a s =
     (let t = wf_task row; tid = t_task_id t in
      bind_sum (turn_events events t) (\<lambda>es.
      let input_at = processed (hd es); terminal_at = processed (last es); reply = final_reply es; rs = task_approvals tid s;
          ingress_at = Database_time (ingress_time tid a); source_at = Database_time (Some source_us);
          final_at = (case reply of None \<Rightarrow> Database_time None | Some e \<Rightarrow> processed e); shown_at = Database_time (projected_time T tid reply a);
          created_at = Database_time (Some (t_created_at t)); updated_at = Database_time (Some (t_updated_at t)) in
      if length rs \<noteq> length (tool_calls es) then Inl (RuntimeError ''MissingPolicyEvidence'')
      else bind_sum (deltas T read_iso
        [(''slack_to_ingress'', source_at, ingress_at), (''ingress_to_task'', ingress_at, created_at), (''task_to_provider_input'', created_at, input_at),
         (''provider_input_to_final'', input_at, final_at), (''provider_input_to_terminal'', input_at, terminal_at),
         (''terminal_to_controller_complete'', terminal_at, updated_at), (''provider_final_to_projection'', final_at, shown_at),
         (''slack_to_final_projection'', source_at, shown_at), (''slack_to_controller_complete'', source_at, updated_at)]) (\<lambda>base.
      bind_sum (approval_times T read_iso es rs) (\<lambda>approval.
      bind_sum (question_times T read_iso es input_at final_at) (\<lambda>question.
      let ds = base @ approval @ question in
      Inr \<lparr>ed_seconds = ds, ed_tool_calls = length (tool_calls es), ed_custom_calls = length (custom_calls es),
        ed_negative = map fst (filter (\<lambda>(k, v). \<exists>x \<in> set_option v. x < 0) ds)\<rparr>)))))"

text \<open>Evidence with a tool call means that the controller's one approval of it was resolved as allowed and its confirmation was attempted.\<close>

theorem traced_tool_call_was_allowed:
  assumes "trace T read_iso events row source_us a s = Inr e" "0 < ed_tool_calls e"
  shows "\<exists>r. task_approvals (t_task_id (wf_task row)) s = [r] \<and> r_status r = Resolved \<and> r_decision r = Some Allow
     \<and> r_confirmation_attempted_at r \<noteq> None \<and> ed_tool_calls e = 1"
proof -
  from assms(1) obtain es ds where es: "length (task_approvals (t_task_id (wf_task row)) s) = length (tool_calls es)"
    and times: "approval_times T read_iso es (task_approvals (t_task_id (wf_task row)) s) = Inr ds" and count: "ed_tool_calls e = length (tool_calls es)"
    by (auto simp: trace_def Let_def bind_sum_Inr split: if_splits)
  then have "task_approvals (t_task_id (wf_task row)) s \<noteq> []" using assms(2) by auto
  then obtain r rs where r: "task_approvals (t_task_id (wf_task row)) s = r # rs" by (cases "task_approvals (t_task_id (wf_task row)) s") auto
  with times have "rs = []" "r_status r = Resolved" "r_decision r = Some Allow" "r_confirmation_attempted_at r \<noteq> None" "length (tool_calls es) = 1"
    by (auto simp: approval_times_def Let_def bind_sum_Inr split: option.splits if_splits)
  with r count show ?thesis by auto
qed

end
