(* ===== verification/Spec2Isabelle.thy ===== *)
theory Spec2Isabelle
  imports
    Controller_Safety App_Safety Ingress_Safety Policy_Engine Watch_Safety
    Push_Safety Trigger_Safety Wiring Provider_Client Slack_Client Outbound Operations Local_Queue Local_Bus
    Cma_Lock Deployment_Rendering Public_Tree Slack_User
    Fake_Provider Recording_Slack Live_Inspect Live_Preflight Local_Stack Admin_Commands Client_Streams Local_Harness Timing Release_Checks Live_Fallback Benchmark
begin

text \<open>
  Verification of the Python backend of \<open>managed-agent-web-slack\<close>: a private A2A controller that runs conversations with a managed agent,
  a Slack application that is a client of it, and the commands that deploy and check both. Source paths are under
  \<^verbatim>\<open>src/backend/src/managed_agents_app/\<close>, those of the operator commands under \<^verbatim>\<open>src/scripts/\<close>.

  \<^bold>\<open>The program.\<close> The controller admits messages as tasks of contexts, keeps everything it must not forget in database rows, and
  is driven by wakeups. A scheduler run takes the lease of one context, reconciles its active task with the events of the provider session, asks the policy
  engine about tool calls, asks humans where the policy says so, and sends confirmations and answers to the provider. A push dispatcher
  delivers the view of a changed task to a callback. The Slack application turns signed requests into events on a bus; its input worker sends turns, stops and decisions to the
  controller, its event sink receives pushes, and its projector shows tasks in Slack. Processes may die anywhere, calls may fail
  before or after they took effect, queues deliver repeatedly, and several workers run at once; the code answers with leases, fenced writes, unique keys and
  write-ahead attempt marks. The theorems say what these achieve.

  \<^bold>\<open>The model.\<close> A transaction or external call is a computation on a state that returns a value or raises (\<open>comp\<close>, theory \<open>Prelude\<close>). A worker is a
  computation on a \<open>run\<close>: the shared state, a step counter, local variables and a log. Each of its calls is one atomic step (\<open>call\<close>). Before
  a step any other actor may change the shared state (\<open>interfere\<close>), and the step may fail before or after its effect
  (\<open>fault\<close>); \<open>Killed\<close> is the death of the process, which no handler catches. The controller's state is the record \<open>sys\<close> of theory \<open>Schema\<close> (one list of rows per table, the
  clock, the stored objects, the queues and the outside world), the application's state the record \<open>app\<close> of \<open>App_Schema\<close>. The constraints of the SQL migrations are \<open>schema_ok\<close> and
  its counterparts; a violated constraint is an error branch of the statement. Code outside \<^verbatim>\<open>src/\<close> (the SDKs of the provider, of A2A and of
  Slack, HTTP, the policy process, SQS, hashing) is a parameter of the environment records \<open>env\<close>, \<open>app_env\<close>, \<open>raw_sdk\<close>, \<open>web_client\<close>, \<open>slack_wire\<close>, \<open>policy_process\<close>.

  \<^bold>\<open>Controller theories.\<close>
  \<^item> \<open>Controller_Repository\<close>, \<open>Runtime_Repository\<close>, \<open>Push_Repository\<close>: \<^verbatim>\<open>cma_controller/repository.py\<close>, \<^verbatim>\<open>runtime_repository.py\<close>, \<^verbatim>\<open>push_repository.py\<close>, one definition per method.
    \<open>Dsql_Retry\<close> is the retry of \<^verbatim>\<open>db/connection.py\<close>, \<open>Lease\<close> the contract of all leases.
  \<^item> \<open>Ports\<close>: the pending-input stores, wakeup queues and the provider adapter. \<open>Provider_Client\<close> is \<^verbatim>\<open>managed_agent/client.py\<close> under it, \<open>Outbound\<close> the messages of the SQS triggers,
    previews and bus, \<open>Local_Triggers\<close> the in-process queues of \<^verbatim>\<open>trigger.py\<close> and \<^verbatim>\<open>push_trigger.py\<close> as labelled transition systems.
  \<^item> \<open>A2A_Types\<close>, \<open>Task_View\<close>: \<^verbatim>\<open>protocols/human_input*.py\<close> and \<^verbatim>\<open>task_view.py\<close>. \<open>Controller_Service\<close>, \<open>Request_Handler\<close>, \<open>Push_Config\<close> (with \<open>Url\<close>), \<open>Push_Dispatcher\<close>, \<open>Scheduler\<close>,
    \<open>Controller_Handlers\<close>, \<open>Policy_Engine\<close>: the modules of the same names, \<^verbatim>\<open>admin.py\<close> (its command line is \<open>Admin_Commands\<close>), \<^verbatim>\<open>webhook.py\<close>, the queue handlers and \<^verbatim>\<open>policy/openappa.py\<close>.
  \<^item> \<open>Timing\<close>: \<^verbatim>\<open>observability.py\<close>, the timing records of blocking calls, as a step relation over threads and waiters.
  \<^item> \<open>Configuration\<close>, \<open>Wiring\<close>: \<^verbatim>\<open>config.py\<close>, \<^verbatim>\<open>composition.py\<close>, \<^verbatim>\<open>app.py\<close>, \<^verbatim>\<open>agents/registry.py\<close>.

  \<^bold>\<open>Application theories.\<close>
  \<^item> \<open>Thread_Repository\<close>, \<open>Slack_A2A_Repository\<close>: \<^verbatim>\<open>db/*.py\<close>. \<open>App_Ports\<close>, \<open>Control_Plane\<close>: the domain events, \<^verbatim>\<open>a2a_client/client.py\<close> and \<^verbatim>\<open>agent_control_plane/\<close>;
    \<open>Client_Streams\<close> has their operations on push configurations and the subscription to a task.
  \<^item> \<open>Slack_Ingress\<close>: \<^verbatim>\<open>handlers/slack_ingress.py\<close>, \<^verbatim>\<open>slack/normalize.py\<close>, \<^verbatim>\<open>slack/signatures.py\<close>, \<^verbatim>\<open>http.py\<close>. \<open>Agent_Input\<close>, \<open>Event_Sink\<close>, \<open>Slack_Projector\<close>, \<open>Slack_Blocks\<close>, \<open>Slack_Client\<close>: the modules
    of the same names. \<open>Json_Text\<close>, \<open>Text_Patterns\<close> and \<open>Py_Json\<close> model \<open>json.dumps\<close>, \<open>json.loads\<close>, the regular expressions of the scripts and Python on decoded JSON.

  \<^bold>\<open>Operations theories.\<close>
  \<^item> \<open>Operations\<close>: \<^verbatim>\<open>operations.py\<close>, the migration of the database statement by statement, its role grants, the seed rows, the Slack principals and the
    secrets. The database engine is the parameter \<open>sql_port\<close>.
  \<^item> \<open>Local_Queue\<close>, \<open>Local_Bus\<close>: \<^verbatim>\<open>testing/local_queue.py\<close>, \<^verbatim>\<open>local_event_bus.py\<close> and \<^verbatim>\<open>faults.py\<close>, that stand for SQS and EventBridge when the system runs on one machine.
    \<open>Fake_Provider\<close>, \<open>Recording_Slack\<close>: \<^verbatim>\<open>fake_cma_provider.py\<close> as the SDK under the controller, and \<^verbatim>\<open>recording_slack.py\<close> as the Web client under the Slack client.
  \<^item> \<open>Cma_Lock\<close>, \<open>Deployment_Rendering\<close>, \<open>Public_Tree\<close>, \<open>Slack_User\<close>: \<^verbatim>\<open>cma_lock.py\<close>, the renderers of the Terraform backend and of the Slack manifest, the
    export and readiness check of the public tree, and the Slack commands with the smoke test of \<^verbatim>\<open>slack_user.py\<close>. \<open>Release_Checks\<close>: \<^verbatim>\<open>build_lambdas.py\<close> and \<^verbatim>\<open>scan_secrets.py\<close>.
  \<^item> \<open>Local_Harness\<close>: \<^verbatim>\<open>runtime.py\<close>, \<^verbatim>\<open>testing/factory.py\<close> and the drains of \<^verbatim>\<open>testing/api.py\<close>, which put the local system together and run it to rest.
    \<open>Local_Stack\<close>: \<^verbatim>\<open>local.py\<close>, the runner of the local stack; the system it runs on is the parameter \<open>system\<close>.
    \<open>Live_Preflight\<close>, \<open>Live_Inspect\<close>: \<^verbatim>\<open>live.py\<close>, and the inspection of \<^verbatim>\<open>live_a2a_inspect.py\<close> over the tables of both databases.
    \<open>Live_Fallback\<close>: \<^verbatim>\<open>live_a2a_fallback.py\<close>, as one more actor beside the application. \<open>Benchmark\<close>: \<^verbatim>\<open>live_latency.py\<close>.

  \<^bold>\<open>What is shown.\<close>
  \<^item> \<open>Row_Evolution\<close>, \<open>Repository_Steps\<close>: every transaction keeps the schema constraints, and rows only evolve (no identity changes, no attempt, denial or cancellation is
    forgotten). The locale \<open>repository_relation\<close> carries any preorder over the transactions to all interleavings.
  \<^item> \<open>Confirmation_Safety\<close>, \<open>Scheduler_Contract\<close>, \<open>Scheduler_Safety\<close>: a confirmation or an answer is granted at most once, ever; the provider is called only directly after a grant; the conditions of a permission;
    denials are final. \<open>Controller_Safety\<close>: all entry points of the controller together keep the database sound, so that the actors are what each assumes of the others.
  \<^item> \<open>Push_Dispatcher\<close>, \<open>Push_Safety\<close>: the retry schedule, permanent failures, and that posts go to the configured sink only. \<open>Watch_Safety\<close>: a
    watched task is streamed faithfully, and watching ends. \<open>Policy_Engine\<close>: the engine fails closed and its answers are typed.
  \<^item> \<open>Trigger_Safety\<close>: the local queues lose no wakeup, merge wakeups, serve them, and refine a set of alarms. \<open>Wiring\<close>: a controller that starts is one its client accepts,
    exactly when push is configured. \<open>Provider_Client\<close>: a created session is found again.
  \<^item> \<open>Operations\<close>: an interrupted migration is resumed, and a version is recorded only when all its statements are done. \<open>Local_Queue\<close>: every message is delivered, in flight or a dead letter, with one
    outcome per delivery, and draining ends. \<open>Cma_Lock\<close>, \<open>Public_Tree\<close>, \<open>Slack_User\<close>: an accepted lock, a ready export and a redacted text hold no secret. \<open>Deployment_Rendering\<close>: bucket names keep within their bounds. \<open>Release_Checks\<close>: what is
    extracted from a built archive stays below the two packages, a failed build keeps the last ones, and a scan covers every tracked file.
  \<^item> \<open>Fake_Provider\<close>: whatever happens to a creation, its session is found again; the locale \<open>recoverable_sdk\<close> is this law, and the real client and the local provider are its
    interpretations. \<open>Recording_Slack\<close>: every call is recorded, and the text of a stream is what was appended until it was stopped. \<open>Live_Preflight\<close>, \<open>Live_Inspect\<close>: what a passed preflight and a valid
    inspection say of the deployment and of the rows; \<open>Live_Fallback\<close>: a check that passes has seen fallback and recovery on one card, and its waits end. \<open>Benchmark\<close>: a request is repeated at most three times, only when it was refused for its rate,
    and evidence with a tool call means one allowed and confirmed approval. \<open>Local_Stack\<close>: waiting for readiness ends, and however a run ends, unless the runner is killed, no child is left running.
  \<^item> \<open>Local_Harness\<close>: a drain that returns leaves no event, message or wakeup, with every event accounted for, and a harness does only what the controller does.
    \<open>Admin_Commands\<close>: a command that only shows something leaves the rows alone. \<open>Client_Streams\<close>: asking more often only continues a stream.
    \<open>Timing\<close>: the counter is the number of running calls, and every finished call has its three records in order.
  \<^item> \<open>App_Steps\<close>, \<open>App_Permanence\<close>, \<open>App_Contract\<close>, \<open>App_Safety\<close>: the application's bindings, claims and posted items are permanent, first turns and items are exclusive, every item shown was claimed and no posted
    item is shown again. \<open>Ingress_Safety\<close>: only signed requests act, events are well-formed, and a click decides exactly what was shown.
  \<^item> \<open>Call_Log\<close>, \<open>Invariant_Logic\<close>, \<open>Lease\<close> and the locales of \<open>Prelude\<close> are the proof rules that these share; \<open>Sample_State\<close>, \<open>Sample_Run\<close> and \<open>Sample_App\<close> are concrete states for the witnesses.

  \<^bold>\<open>Bounds.\<close> \<open>poll_projection\<close> has as fuel its polls, of which 61 are enough (\<open>Live_Fallback\<close>). \<open>watch_children\<close> has as fuel the rounds until the operator interrupts. \<open>watch_loop\<close> has fuel and returns \<open>False\<close> while it is still watching; 800000001 passes are enough for its 800 seconds on a clock of microseconds that moves between steps (\<open>Watch_Safety\<close>). The recursion of
  \<open>get_or_create_surface_thread\<close> and the page loop \<open>list_pages\<close> have fuel whose end is the death of the process, a behaviour every theorem allows
  anyway. \<open>json_loads\<close> recurses with the length of its text, which is enough for any text. Characters are below 256; times are integers of microseconds. Row locks have no effect, since a transaction is atomic.

  \<^bold>\<open>Not modelled.\<close> Log records (\<^verbatim>\<open>logging.py\<close>) have no effect on state. Of \<open>live_latency.py\<close> the polling of one workflow is left out, and the remaining scripts
  start external tools; of \<^verbatim>\<open>local_api.py\<close> and \<^verbatim>\<open>testing/api.py\<close> what is left out is framework glue and endpoints that
  forward to a double; the preview fixture of \<^verbatim>\<open>testing/preview.py\<close> streams to a browser. The web
  application and the previews are TypeScript and the policy runtime is Rust: the backend meets them only through the ports that are parameters here.
\<close>

end
